(* ===== verification/Prelude.thy ===== *)
theory Prelude
  imports Main "HOL-Library.Word" "HOL-Library.State_Monad"
begin

section \<open>Prelude\<close>

text \<open>
  What every component theory shares: the names of the machine integers of
  \<^verbatim>\<open>src/src/core/dmidecode/types.h\<close>, the collections of rules the component proofs use, and
  generic facts on words and lists.

  The collection \<open>safe_intros\<close> holds one rule per operation of the model, each saying that the
  operation keeps the memory invariant; the theories add to it as they define operations.
  \<open>ok_simps\<close> holds the facts that discharge the side conditions of those rules: that a
  lookup table is never read outside its bounds and that a formatted value fits its buffer.
\<close>

unbundle bit_operations_syntax

named_theorems safe_intros \<open>introduction rules for operations that keep the memory invariant\<close>
named_theorems ok_simps \<open>side conditions of the safety rules\<close>

subsection \<open>Machine integers (types.h)\<close>

type_synonym u8 = "8 word"
type_synonym u16 = "16 word"
type_synonym u32 = "32 word"
type_synonym u64 = "64 word"

text \<open>A \<^verbatim>\<open>const char *\<close>: \<open>None\<close> is a pointer that must not be dereferenced, either NULL or
  the result of indexing a table outside its bounds.\<close>

type_synonym cstr = "string option"

subsection \<open>Words\<close>

lemma unat_u8_less [simp]: "unat (x :: u8) < 256"
  using unsigned_less [of x, where 'a = nat] by simp

lemma unat_u8_le [simp]: "unat (x :: u8) \<le> 255"
  using unat_u8_less [of x] by linarith

lemma unat_u16_less [simp]: "unat (x :: u16) < 65536"
  using unsigned_less [of x, where 'a = nat] by simp

lemma unat_u32_less [simp]: "unat (x :: u32) < 4294967296"
  using unsigned_less [of x, where 'a = nat] by simp

lemma unat_u64_less [simp]: "unat (x :: u64) < 18446744073709551616"
  using unsigned_less [of x, where 'a = nat] by simp

lemma unat_and_le_right: "unat (x AND y) \<le> unat (y :: 'a :: len word)"
  by (rule word_le_nat_alt [THEN iffD1]) (rule word_and_le1)

lemma unat_drop_bit: "unat (drop_bit n x) = unat x div 2 ^ n" for x :: "'a :: len word"
  by (simp only: unat_drop_bit_eq) (simp only: drop_bit_eq_div)

lemma unat_drop_bit_le: "unat (drop_bit n x) \<le> unat x" for x :: "'a :: len word"
  by (simp add: unat_drop_bit)

lemma word_div_mult_unat_less:
  "unat (drop_bit n x) < 2 ^ (LENGTH('a) - n)" if "n \<le> LENGTH('a)" for x :: "'a :: len word"
proof -
  have "unat x < 2 ^ (LENGTH('a) - n) * 2 ^ n"
    using that unsigned_less [of x, where 'a = nat] by (simp flip: power_add)
  then show ?thesis
    by (simp add: unat_drop_bit less_mult_imp_div_less)
qed

text \<open>Bounds on a masked and on a shifted word, in the form the table lookups ask for.\<close>

lemma unat_and_less [ok_simps]: "unat y < n \<Longrightarrow> unat (x AND y) < n" for x y :: "'a :: len word"
  using unat_and_le_right [of x y] by linarith

lemma unat_drop_bit_less [ok_simps]:
  "n \<le> LENGTH('a) \<Longrightarrow> 2 ^ (LENGTH('a) - n) \<le> m \<Longrightarrow> unat (drop_bit n x) < m"
  for x :: "'a :: len word"
  using word_div_mult_unat_less [of n x] by linarith

lemma unat_ucast_mod: "unat (ucast x :: 'b::len word) = unat x mod 2 ^ LENGTH('b)"
  for x :: "'a :: len word"
  by (simp add: unsigned_ucast_eq take_bit_eq_mod)

lemma unat_ucast_less [ok_simps]: "unat x < n \<Longrightarrow> unat (ucast x :: 'b::len word) < n"
  for x :: "'a :: len word"
  unfolding unat_ucast_mod by (rule le_less_trans [OF mod_less_eq_dividend])

subsection \<open>Lists\<close>

lemma nth_take_drop: "i < n \<Longrightarrow> a + n \<le> length xs \<Longrightarrow> take n (drop a xs) ! i = xs ! (a + i)"
  by simp

end
