(* ===== verification/Machine.thy ===== *)
theory Machine
  imports Prelude
begin

section \<open>The machine: memory, output, faults\<close>

text \<open>
  What the decoder of \<^verbatim>\<open>src/src/core/dmidecode\<close> computes on: the byte buffer that holds the
  SMBIOS table, the global variables, the two output streams, and a log of the undefined
  behaviour a run has met. A C function with side effects is a value of the state monad
  (type \<open>(st, 'a) state\<close> of HOL-Library.State_Monad); a pure one is an ordinary function.

  A pointer into the table is the index of the byte it points to. Every read and write checks
  its address: outside the buffer it appends \<open>OutOfBounds\<close> to \<open>st_faults\<close> and
  reads 0. The log also records a read outside a local array (\<open>OutOfArray\<close>), an access
  through NULL, a
  \<^verbatim>\<open>%s\<close> of an invalid string, a formatted value longer than the array it is written to, a
  string used as a format that holds a \<^verbatim>\<open>%\<close>, a shift by the width of the operand or more,
  and (\<open>Diverges\<close>) a loop that never returns. A run means what the C run means as long as
  \<open>st_faults\<close> is empty; that it stays empty is proved, never assumed.
\<close>

subsection \<open>Types\<close>

datatype fault = OutOfBounds nat | OutOfArray nat | NullPointer | BadString | BufferOverflow | BadFormat
  | BadShift | Diverges

text \<open>One call of an output function of \<^verbatim>\<open>dmioutput.c\<close>, with its formatted text.\<close>

datatype line =
    PrComment string
  | PrInfo string
  | PrHandle u16 u8 u8
  | PrHandleName string
  | PrAttr string string
  | PrSubattr string string
  | PrListStart string "string option"
  | PrListItem string
  | PrListEnd
  | PrSep
  | PrStructErr string
  | PrRaw string \<comment> \<open>a direct \<^verbatim>\<open>printf\<close>\<close>

datatype cpuid_type =
    cpuid_none | cpuid_80386 | cpuid_80486 | cpuid_arm_legacy | cpuid_arm_soc_id
  | cpuid_x86_intel | cpuid_x86_amd | cpuid_loongarch

record dmi_header =
  h_type :: u8
  h_length :: u8
  h_handle :: u16
  h_data :: nat

record string_keyword =
  kw_keyword :: cstr
  kw_type :: u8
  kw_offset :: u8

text \<open>\<^verbatim>\<open>opt.type\<close> points to 256 bytes and is indexed with a byte: a function.\<close>

record opt =
  o_flags :: u32
  o_type :: "(u8 \<Rightarrow> u8) option"
  o_string :: "string_keyword option"
  o_handle :: u32
  o_devmem :: string
  o_dumpfile :: string

datatype dmi_vendors =
    VENDOR_UNKNOWN | VENDOR_ACER | VENDOR_DELL | VENDOR_HP | VENDOR_HPE | VENDOR_IBM
  | VENDOR_LENOVO

text \<open>What the decoder fills in for the CPU-X daemon (\<^verbatim>\<open>src/src/daemon/daemon.h\<close>). A
  \<^verbatim>\<open>char[MAXSTR]\<close> is the list of its \<open>MAXSTR\<close> characters; the bus frequency is always
  a 16-bit integer.\<close>

definition MAXSTR :: nat where "MAXSTR = 80"

type_synonym char_array = string

record DmidecodeBiosData =
  bios_brand :: char_array
  bios_version :: char_array
  bios_date :: char_array
  bios_romsize :: char_array

record DmidecodeMBData =
  mb_manufacturer :: char_array
  mb_model :: char_array
  mb_revision :: char_array

record DmidecodeCPUData =
  bus_freq :: u16
  cpu_package :: char_array

record DmidecodeMemoryData =
  m_manufacturer :: char_array
  m_part_number :: char_array
  m_type :: char_array
  m_type_detail :: char_array
  m_device_locator :: char_array
  m_bank_locator :: char_array
  m_size :: char_array
  m_rank :: char_array
  m_speed_maximum :: char_array
  m_speed_configured :: char_array
  m_voltage_minimum :: char_array
  m_voltage_maximum :: char_array
  m_voltage_configured :: char_array

record DmidecodeData =
  d_stick_count :: u8
  d_bios :: DmidecodeBiosData
  d_mb :: DmidecodeMBData
  d_processor :: DmidecodeCPUData
  d_memory :: "DmidecodeMemoryData list"

text \<open>The static buffers of the \<^verbatim>\<open>*_str\<close> functions of \<^verbatim>\<open>dmidecode.c\<close>, as the C strings they hold.\<close>

record str_bufs =
  b_runtime_size :: string
  b_rom_size :: string
  b_size :: string
  b_extended_size :: string
  b_voltage :: string
  b_speed :: string

text \<open>\<open>st_dump\<close> is the file \<^verbatim>\<open>--dump-bin\<close> writes, \<open>st_oem_offset\<close> the field of the static
  \<^verbatim>\<open>opt_oem_string_keyword\<close>. \<open>st_cpux\<close> is \<^verbatim>\<open>*cpux_data\<close>, \<open>None\<close> when the pointer is NULL.\<close>

record st =
  st_mem :: "u8 list"
  st_out :: "line list"
  st_err :: "string list"
  st_faults :: "fault list"
  st_opt :: opt
  st_cpuid_type :: cpuid_type
  st_vendor :: dmi_vendors
  st_product :: "nat option"
  st_nic_ctr :: u8
  st_cpux :: "DmidecodeData option"
  st_bufs :: str_bufs
  st_dump :: "u8 list"
  st_oem_offset :: u8

abbreviation ret :: "'a \<Rightarrow> (st, 'a) state" where
  "ret x \<equiv> State_Monad.return x"

abbreviation hlen :: "dmi_header \<Rightarrow> nat" where
  "hlen h \<equiv> unat (h_length h)"

subsection \<open>Option flags (dmiopt.h)\<close>

definition FLAG_VERSION :: u32 where "FLAG_VERSION = 1"
definition FLAG_HELP :: u32 where "FLAG_HELP = 2"
definition FLAG_DUMP :: u32 where "FLAG_DUMP = 4"
definition FLAG_QUIET :: u32 where "FLAG_QUIET = 8"
definition FLAG_DUMP_BIN :: u32 where "FLAG_DUMP_BIN = 16"
definition FLAG_FROM_DUMP :: u32 where "FLAG_FROM_DUMP = 32"
definition FLAG_NO_SYSFS :: u32 where "FLAG_NO_SYSFS = 64"
definition FLAG_NO_QUIRKS :: u32 where "FLAG_NO_QUIRKS = 128"
definition FLAG_LIST :: u32 where "FLAG_LIST = 256"

text \<open>\<^verbatim>\<open>opt.flags & f\<close> as a condition.\<close>

definition opt_flag :: "u32 \<Rightarrow> (st, bool) state" where
  "opt_flag f = State (\<lambda>s. (o_flags (st_opt s) AND f \<noteq> 0, s))"

subsection \<open>Faults and control flow\<close>

definition fault :: "fault \<Rightarrow> (st, unit) state" where
  "fault f = State (\<lambda>s. ((), s\<lparr>st_faults := st_faults s @ [f]\<rparr>))"

text \<open>\<^verbatim>\<open>if (b) break;\<close> in front of the rest of a switch case, and an \<^verbatim>\<open>if\<close> with no else.\<close>

definition brk :: "bool \<Rightarrow> (st, unit) state \<Rightarrow> (st, unit) state" where
  "brk b m = (if b then ret () else m)"

definition if_then :: "bool \<Rightarrow> (st, unit) state \<Rightarrow> (st, unit) state" where
  "if_then b m = (if b then m else ret ())"

text \<open>A \<^verbatim>\<open>for\<close> loop whose index runs through the list.\<close>

fun for_each :: "'b list \<Rightarrow> ('b \<Rightarrow> (st, unit) state) \<Rightarrow> (st, unit) state" where
  "for_each [] f = ret ()"
| "for_each (x # xs) f = do { f x; for_each xs f }"

subsection \<open>Memory (types.h)\<close>

definition rd8 :: "nat \<Rightarrow> (st, u8) state" where
  "rd8 a = State (\<lambda>s. if a < length (st_mem s) then (st_mem s ! a, s)
                      else (0, s\<lparr>st_faults := st_faults s @ [OutOfBounds a]\<rparr>))"

definition wr8 :: "nat \<Rightarrow> u8 \<Rightarrow> (st, unit) state" where
  "wr8 a v = State (\<lambda>s. if a < length (st_mem s) then ((), s\<lparr>st_mem := (st_mem s)[a := v]\<rparr>)
                        else ((), s\<lparr>st_faults := st_faults s @ [OutOfBounds a]\<rparr>))"

definition WORD :: "nat \<Rightarrow> (st, u16) state" where
  "WORD x = do { b0 \<leftarrow> rd8 x; b1 \<leftarrow> rd8 (x + 1); ret (ucast b0 + push_bit 8 (ucast b1)) }"

definition DWORD :: "nat \<Rightarrow> (st, u32) state" where
  "DWORD x = do { b0 \<leftarrow> rd8 x; b1 \<leftarrow> rd8 (x + 1); b2 \<leftarrow> rd8 (x + 2); b3 \<leftarrow> rd8 (x + 3);
     ret (ucast b0 + push_bit 8 (ucast b1) + push_bit 16 (ucast b2) + push_bit 24 (ucast b3)) }"

definition QWORD :: "nat \<Rightarrow> (st, u64) state" where
  "QWORD x = do { hi \<leftarrow> DWORD (x + 4); lo \<leftarrow> DWORD x; ret (push_bit 32 (ucast hi) + ucast lo) }"

text \<open>A \<^verbatim>\<open>const u8 *\<close> argument that may point into the table or to a local array is the
  function that reads \<^verbatim>\<open>p[i]\<close>.\<close>

type_synonym reader = "nat \<Rightarrow> (st, u8) state"

definition rd_array :: "u8 list \<Rightarrow> reader" where
  "rd_array xs i = (if i < length xs then ret (xs ! i) else do { fault (OutOfArray i); ret 0 })"

definition le16 :: "reader \<Rightarrow> nat \<Rightarrow> (st, u16) state" where
  "le16 p i = do { b0 \<leftarrow> p i; b1 \<leftarrow> p (i + 1); ret (ucast b0 + push_bit 8 (ucast b1)) }"

definition le32 :: "reader \<Rightarrow> nat \<Rightarrow> (st, u32) state" where
  "le32 p i = do { b0 \<leftarrow> p i; b1 \<leftarrow> p (i + 1); b2 \<leftarrow> p (i + 2); b3 \<leftarrow> p (i + 3);
     ret (ucast b0 + push_bit 8 (ucast b1) + push_bit 16 (ucast b2) + push_bit 24 (ucast b3)) }"

text \<open>The same reads relative to the structure's \<^verbatim>\<open>data\<close> pointer.\<close>

abbreviation data8 :: "dmi_header \<Rightarrow> nat \<Rightarrow> (st, u8) state" where
  "data8 h i \<equiv> rd8 (h_data h + i)"
abbreviation data16 :: "dmi_header \<Rightarrow> nat \<Rightarrow> (st, u16) state" where
  "data16 h i \<equiv> WORD (h_data h + i)"
abbreviation data32 :: "dmi_header \<Rightarrow> nat \<Rightarrow> (st, u32) state" where
  "data32 h i \<equiv> DWORD (h_data h + i)"
abbreviation data64 :: "dmi_header \<Rightarrow> nat \<Rightarrow> (st, u64) state" where
  "data64 h i \<equiv> QWORD (h_data h + i)"

text \<open>\<^verbatim>\<open>tbl[i]\<close> for a constant table of strings.\<close>

definition tab :: "string list \<Rightarrow> nat \<Rightarrow> cstr" where
  "tab xs i = (if i < length xs then Some (xs ! i) else None)"

text \<open>The same for a table with NULL entries, and the text for a code that is not in a table.\<close>

definition tab_opt :: "cstr list \<Rightarrow> nat \<Rightarrow> cstr" where
  "tab_opt xs i = (if i < length xs then xs ! i else None)"

definition out_of_spec :: string where
  "out_of_spec = ''<OUT OF SPEC>''"

text \<open>\<^verbatim>\<open>1 << n\<close> on 32 bits, undefined from the width on.\<close>

definition shl1 :: "nat \<Rightarrow> (st, u32) state" where
  "shl1 n = (if n < 32 then ret (push_bit n 1) else do { fault BadShift; ret 0 })"

end
