(* ===== verification/Safe.thy ===== *)
theory Safe
  imports Format
begin

section \<open>The memory invariant and its rules\<close>

text \<open>
  \<open>mem_ok A M lo hi s\<close> says what decoding may have done to the table \<open>M\<close> it started
  from: the buffer has the same length, and a byte differs from the original only if it lies in
  the string area \<open>lo .. hi\<close>, was not a terminator, and is now a dot; and every fault
  logged so far is in \<open>A\<close>. The product name of the
  system, which the decoder of HP structures searches, is a string of the table, or its being
  NULL is one of the allowed faults. \<open>safe A M lo hi m\<close> says that the operation \<open>m\<close> keeps
  it, and the global variables (\<open>env\<close>) as they were. With \<open>A\<close> empty this is memory safety together with the frame condition of the
  decoder.

  The rules of \<open>safe_intros\<close> follow the structure of an operation; what they leave open is
  arithmetic on addresses and \<open>args_ok\<close>.
\<close>

definition prod_ok :: "fault set \<Rightarrow> u8 list \<Rightarrow> dmi_vendors \<Rightarrow> nat option \<Rightarrow> bool" where
  "prod_ok A M vendor product = (case product of
       None \<Rightarrow> vendor = VENDOR_HP \<or> vendor = VENDOR_HPE \<longrightarrow> BadString \<in> A
     | Some p \<Rightarrow> \<exists>k < length M. p \<le> k \<and> M ! k = 0)"

definition mem_ok :: "fault set \<Rightarrow> u8 list \<Rightarrow> nat \<Rightarrow> nat \<Rightarrow> st \<Rightarrow> bool" where
  "mem_ok A M lo hi s \<longleftrightarrow>
     length (st_mem s) = length M \<and>
     (\<forall>i < length M. st_mem s ! i = M ! i
        \<or> (lo \<le> i \<and> i < hi \<and> M ! i \<noteq> 0 \<and> st_mem s ! i = 46)) \<and>
     set (st_faults s) \<subseteq> A \<and> prod_ok A M (st_vendor s) (st_product s)"

text \<open>The global variables the decoders read and do not set.\<close>

definition env :: "st \<Rightarrow> opt \<times> cpuid_type \<times> dmi_vendors \<times> nat option" where
  "env s = (st_opt s, st_cpuid_type s, st_vendor s, st_product s)"

definition kept :: "fault set \<Rightarrow> u8 list \<Rightarrow> nat \<Rightarrow> nat \<Rightarrow> st \<Rightarrow> st \<Rightarrow> bool" where
  "kept A M lo hi s t \<longleftrightarrow> mem_ok A M lo hi t \<and> env t = env s"

definition safe :: "fault set \<Rightarrow> u8 list \<Rightarrow> nat \<Rightarrow> nat \<Rightarrow> (st, 'a) state \<Rightarrow> bool" where
  "safe A M lo hi m \<longleftrightarrow> (\<forall>s. mem_ok A M lo hi s \<longrightarrow> kept A M lo hi s (snd (run_state m s)))"

lemma safeI: "(\<And>s. mem_ok A M lo hi s \<Longrightarrow> kept A M lo hi s (snd (run_state m s))) \<Longrightarrow> safe A M lo hi m"
  by (simp add: safe_def)

lemma safeD: "safe A M lo hi m \<Longrightarrow> mem_ok A M lo hi s \<Longrightarrow> kept A M lo hi s (snd (run_state m s))"
  by (simp add: safe_def)

lemma kept_mem_ok: "kept A M lo hi s t \<Longrightarrow> mem_ok A M lo hi t"
  by (simp add: kept_def)

lemma kept_refl: "mem_ok A M lo hi s \<Longrightarrow> kept A M lo hi s s"
  by (simp add: kept_def)

lemma kept_trans: "kept A M lo hi s t \<Longrightarrow> kept A M lo hi t u \<Longrightarrow> kept A M lo hi s u"
  by (simp add: kept_def)

lemma env_update [simp]:
  "env (s\<lparr>st_mem := m\<rparr>) = env s" "env (s\<lparr>st_out := l\<rparr>) = env s"
  "env (s\<lparr>st_err := e\<rparr>) = env s" "env (s\<lparr>st_faults := f\<rparr>) = env s"
  "env (s\<lparr>st_nic_ctr := c\<rparr>) = env s" "env (s\<lparr>st_cpux := d\<rparr>) = env s"
  "env (s\<lparr>st_bufs := b\<rparr>) = env s" "env (s\<lparr>st_dump := w\<rparr>) = env s"
  by (simp_all add: env_def)

lemma mem_ok_length: "mem_ok A M lo hi s \<Longrightarrow> length (st_mem s) = length M"
  by (simp add: mem_ok_def)

lemma mem_ok_zero: "mem_ok A M lo hi s \<Longrightarrow> i < length M \<Longrightarrow> st_mem s ! i = 0 \<longleftrightarrow> M ! i = 0"
  by (auto simp: mem_ok_def)

lemma mem_ok_outside:
  "mem_ok A M lo hi s \<Longrightarrow> i < length M \<Longrightarrow> i < lo \<or> hi \<le> i \<Longrightarrow> st_mem s ! i = M ! i"
  by (auto simp: mem_ok_def)

lemma mem_ok_faults: "mem_ok A M lo hi s \<Longrightarrow> set (st_faults s) \<subseteq> A"
  by (simp add: mem_ok_def)

lemma mem_ok_prod: "mem_ok A M lo hi s \<Longrightarrow> prod_ok A M (st_vendor s) (st_product s)"
  by (simp add: mem_ok_def)

text \<open>An operation that leaves the memory and the fault log alone is safe.\<close>

lemma safe_frame:
  assumes "\<And>s. st_mem (snd (run_state m s)) = st_mem s"
    and "\<And>s. st_faults (snd (run_state m s)) = st_faults s"
    and "\<And>s. env (snd (run_state m s)) = env s"
  shows "safe A M lo hi m"
  using assms by (auto simp: safe_def kept_def mem_ok_def env_def)

subsection \<open>Control flow\<close>

lemma safe_ret [safe_intros]: "safe A M lo hi (ret x)"
  by (simp add: safe_def kept_def)

lemma safe_bind [safe_intros]:
  "safe A M lo hi m \<Longrightarrow> (\<And>x. safe A M lo hi (f x)) \<Longrightarrow> safe A M lo hi (State_Monad.bind m f)"
  by (auto simp: safe_def kept_def split: prod.splits)

lemma safe_if [safe_intros]:
  "(b \<Longrightarrow> safe A M lo hi m) \<Longrightarrow> (\<not> b \<Longrightarrow> safe A M lo hi n) \<Longrightarrow> safe A M lo hi (if b then m else n)"
  by simp

lemma safe_brk [safe_intros]: "(\<not> b \<Longrightarrow> safe A M lo hi m) \<Longrightarrow> safe A M lo hi (brk b m)"
  by (simp add: brk_def safe_ret)

lemma safe_if_then [safe_intros]: "(b \<Longrightarrow> safe A M lo hi m) \<Longrightarrow> safe A M lo hi (if_then b m)"
  by (simp add: if_then_def safe_ret)

lemma safe_for_each [safe_intros]:
  "(\<And>x. x \<in> set xs \<Longrightarrow> safe A M lo hi (f x)) \<Longrightarrow> safe A M lo hi (for_each xs f)"
  by (induction xs) (auto intro!: safe_intros)

lemma safe_case_option [safe_intros]:
  "(v = None \<Longrightarrow> safe A M lo hi m) \<Longrightarrow> (\<And>x. v = Some x \<Longrightarrow> safe A M lo hi (f x))
   \<Longrightarrow> safe A M lo hi (case v of None \<Rightarrow> m | Some x \<Rightarrow> f x)"
  by (simp split: option.split)

lemma safe_let [safe_intros]: "(\<And>x. x = v \<Longrightarrow> safe A M lo hi (f x)) \<Longrightarrow> safe A M lo hi (Let v f)"
  by simp

lemma safe_fault: "e \<in> A \<Longrightarrow> safe A M lo hi (fault e)"
  by (auto simp: safe_def kept_def mem_ok_def fault_def)

subsection \<open>Memory\<close>

lemma safe_rd8 [safe_intros]: "a < length M \<Longrightarrow> safe A M lo hi (rd8 a)"
  by (auto simp: safe_def kept_def mem_ok_def rd8_def)

lemma safe_WORD [safe_intros]: "x + 1 < length M \<Longrightarrow> safe A M lo hi (WORD x)"
  unfolding WORD_def by (intro safe_intros) simp_all

lemma safe_DWORD [safe_intros]: "x + 3 < length M \<Longrightarrow> safe A M lo hi (DWORD x)"
  unfolding DWORD_def by (intro safe_intros) simp_all

lemma safe_QWORD [safe_intros]: "x + 7 < length M \<Longrightarrow> safe A M lo hi (QWORD x)"
  unfolding QWORD_def by (intro safe_intros) simp_all

lemma safe_le16: "safe A M lo hi (p i) \<Longrightarrow> safe A M lo hi (p (i + 1)) \<Longrightarrow> safe A M lo hi (le16 p i)"
  unfolding le16_def by (intro safe_intros)

lemma safe_le32:
  "safe A M lo hi (p i) \<Longrightarrow> safe A M lo hi (p (i + 1)) \<Longrightarrow> safe A M lo hi (p (i + 2))
   \<Longrightarrow> safe A M lo hi (p (i + 3)) \<Longrightarrow> safe A M lo hi (le32 p i)"
  unfolding le32_def by (intro safe_intros)

lemma safe_rd_array: "i < length xs \<or> OutOfArray i \<in> A \<Longrightarrow> safe A M lo hi (rd_array xs i)"
  unfolding rd_array_def by (auto intro!: safe_intros safe_fault)

lemma safe_shl1 [safe_intros]: "n < 32 \<or> BadShift \<in> A \<Longrightarrow> safe A M lo hi (shl1 n)"
  unfolding shl1_def by (auto intro!: safe_intros safe_fault)

lemma safe_opt_flag [safe_intros]: "safe A M lo hi (opt_flag f)"
  by (simp add: safe_def kept_def opt_flag_def)

subsection \<open>Formats\<close>

fun farg_ok :: "farg \<Rightarrow> bool" where
  "farg_ok (S c) = (c \<noteq> None)"
| "farg_ok (Fmt s) = (CHR ''%'' \<notin> set s)"
| "farg_ok _ = True"

fun farg_len :: "farg \<Rightarrow> nat" where
  "farg_len (S c) = length (the c)"
| "farg_len (Fmt s) = length s"
| "farg_len (Lit s) = length s"
| "farg_len (U n) = length (udec n)"
| "farg_len (UW w n) = max w (length (udec n))"
| "farg_len (D i) = length (sdec i)"
| "farg_len (X w n) = max w (length (hex True n))"
| "farg_len (XL w n) = max w (length (hex False n))"

definition args_ok :: "farg list \<Rightarrow> bool" where
  "args_ok as \<longleftrightarrow> list_all farg_ok as"

lemma args_ok_append [simp]: "args_ok (as @ bs) \<longleftrightarrow> args_ok as \<and> args_ok bs"
  by (simp add: args_ok_def)

lemma args_ok_simps [simp]: "args_ok []" "args_ok (a # as) \<longleftrightarrow> farg_ok a \<and> args_ok as"
  by (simp_all add: args_ok_def)

lemma length_pad0 [simp]: "length (pad0 w s) = max w (length s)"
  by (auto simp: pad0_def)

lemma farg_str_ok: "farg_ok a \<Longrightarrow> \<exists>s. farg_str a = Inr s \<and> length s = farg_len a"
  by (cases a) auto

lemma fmt_ok: "args_ok as \<Longrightarrow> \<exists>s. fmt as = Inr s \<and> length s = sum_list (map farg_len as)"
proof (induction as)
  case (Cons a as)
  then obtain s t where "farg_str a = Inr s" "length s = farg_len a"
    and "fmt as = Inr t" "length t = sum_list (map farg_len as)"
    using farg_str_ok [of a] by auto
  then show ?case by simp
qed simp

lemma safe_emit [safe_intros]: "safe A M lo hi (emit l)"
  by (rule safe_frame) (simp_all add: emit_def)

lemma safe_print: "args_ok as \<Longrightarrow> safe A M lo hi (print mk as)"
  using fmt_ok [of as] by (auto simp: print_def intro: safe_emit)

lemma safe_eprintf [safe_intros]: "args_ok as \<Longrightarrow> safe A M lo hi (eprintf as)"
  using fmt_ok [of as] by (auto simp: eprintf_def intro!: safe_frame)

lemma safe_sprintf [safe_intros]:
  "args_ok as \<Longrightarrow> sum_list (map farg_len as) < cap \<Longrightarrow> safe A M lo hi (sprintf cap as)"
  using fmt_ok [of as] by (auto simp: sprintf_def intro: safe_ret)

lemma safe_snprintf [safe_intros]: "args_ok as \<Longrightarrow> safe A M lo hi (snprintf cap as)"
  using fmt_ok [of as] by (auto simp: snprintf_def intro: safe_ret)

lemma safe_pr_comment [safe_intros]: "args_ok as \<Longrightarrow> safe A M lo hi (pr_comment as)"
  by (simp add: pr_comment_def safe_print)
lemma safe_pr_info [safe_intros]: "args_ok as \<Longrightarrow> safe A M lo hi (pr_info as)"
  by (simp add: pr_info_def safe_print)
lemma safe_pr_handle [safe_intros]: "safe A M lo hi (pr_handle h)"
  by (simp add: pr_handle_def safe_emit)
lemma safe_pr_handle_name [safe_intros]: "args_ok as \<Longrightarrow> safe A M lo hi (pr_handle_name as)"
  by (simp add: pr_handle_name_def safe_print)
lemma safe_pr_attr [safe_intros]: "args_ok as \<Longrightarrow> safe A M lo hi (pr_attr name as)"
  by (simp add: pr_attr_def safe_print)
lemma safe_pr_subattr [safe_intros]: "args_ok as \<Longrightarrow> safe A M lo hi (pr_subattr name as)"
  by (simp add: pr_subattr_def safe_print)
lemma safe_pr_list_start [safe_intros]:
  "(\<And>as. v = Some as \<Longrightarrow> args_ok as) \<Longrightarrow> safe A M lo hi (pr_list_start name v)"
  by (cases v) (simp_all add: pr_list_start_def safe_print safe_emit)
lemma safe_pr_list_item [safe_intros]: "args_ok as \<Longrightarrow> safe A M lo hi (pr_list_item as)"
  by (simp add: pr_list_item_def safe_print)
lemma safe_pr_list_end [safe_intros]: "safe A M lo hi pr_list_end"
  by (simp add: pr_list_end_def safe_emit)
lemma safe_pr_sep [safe_intros]: "safe A M lo hi pr_sep"
  by (simp add: pr_sep_def safe_emit)
lemma safe_pr_struct_err [safe_intros]: "args_ok as \<Longrightarrow> safe A M lo hi (pr_struct_err as)"
  by (simp add: pr_struct_err_def safe_print)
lemma safe_printf [safe_intros]: "args_ok as \<Longrightarrow> safe A M lo hi (printf as)"
  by (simp add: printf_def safe_print)

subsection \<open>Lookup tables\<close>

lemma tab_Some [simp]: "i < length xs \<Longrightarrow> tab xs i = Some (xs ! i)"
  by (simp add: tab_def)

lemmas order_neg [ok_simps] = not_le not_less

lemma tab_None [ok_simps]: "tab xs i = None \<longleftrightarrow> length xs \<le> i"
  by (simp add: tab_def)

subsection \<open>Widths of numerals\<close>

lemma length_to_base: "2 \<le> b \<Longrightarrow> 0 < k \<Longrightarrow> n < b ^ k \<Longrightarrow> length (to_base b n) \<le> k"
proof (induction b n arbitrary: k rule: to_base.induct)
  case (1 b n)
  show ?case
  proof (cases "n < b")
    case True
    with 1 show ?thesis by (simp add: to_base.simps [of b n])
  next
    case False
    with 1 obtain j where k: "k = Suc j" "0 < j"
      by (metis One_nat_def gr0_conv_Suc power_one_right not_gr_zero)
    from 1 k have "n div b < b ^ j"
      by (simp add: div_less_iff_less_mult mult.commute)
    with 1 False k have "length (to_base b (n div b)) \<le> j" by simp
    with False 1 k show ?thesis by (simp add: to_base.simps [of b n])
  qed
qed

lemma length_udec: "0 < k \<Longrightarrow> n < 10 ^ k \<Longrightarrow> length (udec n) \<le> k"
  by (simp add: udec_def length_to_base)

lemma length_hex: "0 < k \<Longrightarrow> n < 16 ^ k \<Longrightarrow> length (hex up n) \<le> k"
  by (simp add: hex_def length_to_base)

lemma length_udec_u8: "n < 256 \<Longrightarrow> length (udec n) \<le> 3"
  by (rule length_udec) simp_all

lemma length_hex_u8: "n < 256 \<Longrightarrow> length (hex up n) \<le> 2"
  by (rule length_hex) simp_all

lemma length_udec_u8_less [ok_simps]: "3 < k \<Longrightarrow> length (udec (unat (x :: u8))) < k"
  using length_udec_u8 [of "unat x"] by simp

lemma length_udec_less [ok_simps]: "n < 1000 \<Longrightarrow> 3 < k \<Longrightarrow> length (udec n) < k"
  using length_udec [of 3 n] by simp

lemma length_hex_u8_le [ok_simps]: "length (hex up (unat (x :: u8))) \<le> 2"
  using length_hex_u8 [of "unat x"] by simp

lemma digit_not_percent [simp]: "digit up d \<noteq> CHR ''%''" "CHR ''%'' \<noteq> digit up d"
proof -
  have "''0123456789abcdef'' ! (d mod 16) \<in> set ''0123456789abcdef''"
    and "''0123456789ABCDEF'' ! (d mod 16) \<in> set ''0123456789ABCDEF''"
    by (rule nth_mem, simp)+
  then show "digit up d \<noteq> CHR ''%''" by (auto simp: digit_def)
  then show "CHR ''%'' \<noteq> digit up d" by simp
qed

lemma percent_udec [simp]: "CHR ''%'' \<notin> set (udec n)"
  by (auto simp: udec_def)

lemma percent_hex [simp]: "CHR ''%'' \<notin> set (hex up n)"
  by (auto simp: hex_def)

end
