(* ===== verification/Dmi_Strings.thy ===== *)
theory Dmi_Strings
  imports Safe
begin

section \<open>Bytes, checksums and the string set of a structure\<close>

text \<open>
  \<^verbatim>\<open>checksum\<close> of \<^verbatim>\<open>util.c\<close>, and the first functions of \<^verbatim>\<open>dmidecode.c\<close>:
  \<^verbatim>\<open>is_printable\<close>, \<^verbatim>\<open>ascii_filter\<close>, \<^verbatim>\<open>_dmi_string\<close>,
  \<^verbatim>\<open>dmi_string\<close>. The strings of a structure follow its formatted area, each closed by a
  zero byte, the set closed by one more zero. \<open>string_set\<close> is that format as a
  specification; the lemmas show that the pointer code finds the string the specification
  names, that it stays inside the set, and that filtering only turns unprintable bytes of the
  set into dots.
\<close>

subsection \<open>util.c\<close>

fun byte_sum :: "u8 list \<Rightarrow> u8 \<Rightarrow> u8" where
  "byte_sum [] acc = acc"
| "byte_sum (b # bs) acc = byte_sum bs (acc + b)"

text \<open>\<^verbatim>\<open>checksum(buf, len)\<close> on the \<open>len\<close> bytes.\<close>

definition checksum :: "u8 list \<Rightarrow> bool" where
  "checksum buf = (byte_sum buf 0 = 0)"

lemma byte_sum_eq: "byte_sum bs a = a + sum_list bs"
  by (induction bs arbitrary: a) (simp_all add: add.assoc)

lemma checksum_sum_list: "checksum bs \<longleftrightarrow> sum_list bs = 0"
  by (simp add: checksum_def byte_sum_eq)

text \<open>The bytes a loop over \<^verbatim>\<open>buf[a]\<close> reads.\<close>

fun rd_bytes :: "nat \<Rightarrow> nat \<Rightarrow> (st, u8 list) state" where
  "rd_bytes a 0 = ret []"
| "rd_bytes a (Suc n) = do { b \<leftarrow> rd8 a; bs \<leftarrow> rd_bytes (Suc a) n; ret (b # bs) }"

lemma run_rd8: "a < length (st_mem s) \<Longrightarrow> run_state (rd8 a) s = (st_mem s ! a, s)"
  by (simp add: rd8_def)

lemma run_rd_bytes:
  "a + n \<le> length (st_mem s) \<Longrightarrow> run_state (rd_bytes a n) s = (take n (drop a (st_mem s)), s)"
  by (induction n arbitrary: a) (simp_all add: run_rd8 Cons_nth_drop_Suc [symmetric])

lemma safe_rd_bytes [safe_intros]: "a + n \<le> length M \<Longrightarrow> safe A M lo hi (rd_bytes a n)"
  by (simp add: safe_def kept_def run_rd_bytes mem_ok_length)

subsection \<open>is_printable, ascii_filter\<close>

fun is_printable :: "nat \<Rightarrow> nat \<Rightarrow> (st, bool) state" where
  "is_printable a 0 = ret True"
| "is_printable a (Suc n) =
     do { c \<leftarrow> rd8 a; if c < 32 \<or> 127 \<le> c then ret False else is_printable (Suc a) n }"

definition ascii_filter :: "nat \<Rightarrow> nat \<Rightarrow> (st, unit) state" where
  "ascii_filter bp len = for_each [0..<len] (\<lambda>i.
     do { c \<leftarrow> rd8 (bp + i); if_then (c < 32 \<or> 127 \<le> c) (wr8 (bp + i) 46) })"

text \<open>What the filter does to one byte.\<close>

definition dot :: "u8 \<Rightarrow> u8" where
  "dot b = (if b < 32 \<or> 127 \<le> b then 46 else b)"

lemma run_is_printable:
  "a + n \<le> length (st_mem s) \<Longrightarrow> run_state (is_printable a n) s
     = (list_all (\<lambda>c. 32 \<le> c \<and> c < 127) (take n (drop a (st_mem s))), s)"
  by (induction n arbitrary: a)
     (auto simp: run_rd8 Cons_nth_drop_Suc [symmetric] not_less not_le)

lemma safe_is_printable [safe_intros]: "a + n \<le> length M \<Longrightarrow> safe A M lo hi (is_printable a n)"
  by (simp add: safe_def kept_def run_is_printable mem_ok_length)

lemma for_each_append: "for_each (xs @ ys) f = do { for_each xs f; for_each ys f }"
  by (induction xs) simp_all

lemma ascii_filter_Suc:
  "ascii_filter bp (Suc n) = do { ascii_filter bp n; c \<leftarrow> rd8 (bp + n);
     if_then (c < 32 \<or> 127 \<le> c) (wr8 (bp + n) 46) }"
  by (simp add: ascii_filter_def for_each_append)

lemma run_filter_byte:
  "a < length (st_mem s) \<Longrightarrow>
   run_state (State_Monad.bind (rd8 a) (\<lambda>c. if_then (c < 32 \<or> 127 \<le> c) (wr8 a 46))) s
     = ((), s\<lparr>st_mem := (st_mem s)[a := dot (st_mem s ! a)]\<rparr>)"
  by (simp add: rd8_def wr8_def if_then_def dot_def)

lemma run_ascii_filter:
  "bp + n \<le> length (st_mem s) \<Longrightarrow> run_state (ascii_filter bp n) s =
     ((), s\<lparr>st_mem := take bp (st_mem s) @ map dot (take n (drop bp (st_mem s)))
                      @ drop (bp + n) (st_mem s)\<rparr>)"
proof (induction n)
  case 0
  then show ?case by (simp add: ascii_filter_def)
next
  case (Suc n)
  let ?m = "st_mem s"
  let ?m' = "take bp ?m @ map dot (take n (drop bp ?m)) @ drop (bp + n) ?m"
  have byte: "?m' ! (bp + n) = ?m ! (bp + n)"
    using Suc.prems by (simp add: nth_append)
  have upd: "?m'[bp + n := dot (?m ! (bp + n))]
      = take bp ?m @ map dot (take (Suc n) (drop bp ?m)) @ drop (bp + Suc n) ?m"
    using Suc.prems
    by (intro nth_equalityI) (auto simp: nth_append nth_list_update min_def less_Suc_eq)
  have "run_state (ascii_filter bp (Suc n)) s
      = ((), s\<lparr>st_mem := ?m'[bp + n := dot (?m' ! (bp + n))]\<rparr>)"
    using Suc by (simp add: ascii_filter_Suc run_filter_byte del: run_state_bind)
      (simp add: run_filter_byte del: run_state_bind add: State_Monad.run_state_bind [of "ascii_filter bp n"])
  then show ?case unfolding byte upd .
qed

subsection \<open>C strings in memory\<close>

definition strlen :: "nat \<Rightarrow> (st, nat) state" where
  "strlen a = State (\<lambda>s. let n = length (takeWhile (\<lambda>b. b \<noteq> 0) (drop a (st_mem s))) in
     if a + n < length (st_mem s) then (n, s)
     else (n, s\<lparr>st_faults := st_faults s @ [OutOfBounds (a + n)]\<rparr>))"

definition char_of_u8 :: "u8 \<Rightarrow> char" where
  "char_of_u8 b = char_of (unat b)"

text \<open>The characters a \<^verbatim>\<open>%s\<close> of the string at \<open>a\<close> prints.\<close>

definition cstring_at :: "nat \<Rightarrow> (st, string) state" where
  "cstring_at a = do { n \<leftarrow> strlen a; bs \<leftarrow> rd_bytes a n; ret (map char_of_u8 bs) }"

subsection \<open>_dmi_string and dmi_string\<close>

text \<open>The loop \<^verbatim>\<open>while (s > 1 && *bp)\<close>, which runs \<open>s - 1\<close> times at most.\<close>

fun skip_strings :: "nat \<Rightarrow> nat \<Rightarrow> (st, nat) state" where
  "skip_strings 0 bp = ret bp"
| "skip_strings (Suc n) bp = do { c \<leftarrow> rd8 bp;
     if c = 0 then ret bp else do { l \<leftarrow> strlen bp; skip_strings n (bp + l + 1) } }"

definition dmi_string_raw :: "dmi_header \<Rightarrow> u8 \<Rightarrow> bool \<Rightarrow> (st, nat option) state" where
  "dmi_string_raw dm s filt = do {
     bp \<leftarrow> skip_strings (unat s - 1) (h_data dm + hlen dm);
     c \<leftarrow> rd8 bp;
     if c = 0 then ret None
     else do {
       if_then filt (do { l \<leftarrow> strlen bp; ascii_filter bp l });
       ret (Some bp) } }"

definition dmi_string :: "dmi_header \<Rightarrow> u8 \<Rightarrow> (st, string) state" where
  "dmi_string dm s = (if s = 0 then ret ''Not Specified''
     else do {
       bp \<leftarrow> dmi_string_raw dm s True;
       case bp of None \<Rightarrow> ret [] | Some p \<Rightarrow> cstring_at p })"

subsection \<open>The string set, as a specification\<close>

function string_set :: "u8 list \<Rightarrow> u8 list list" where
  "string_set bs = (let w = takeWhile (\<lambda>b. b \<noteq> 0) bs in
     if w = [] then [] else w # string_set (drop (length w + 1) bs))"
  by pat_completeness auto
termination
  by (relation "measure length") (simp, case_tac bs, auto)

declare string_set.simps [simp del]

text \<open>\<open>k\<close> is where the double zero stands that ends a structure.\<close>

definition terminated :: "u8 list \<Rightarrow> nat \<Rightarrow> bool" where
  "terminated M k \<longleftrightarrow> k + 1 < length M \<and> M ! k = 0 \<and> M ! (k + 1) = 0"

text \<open>
  The structure \<open>h\<close> lies in the table \<open>M\<close>, its strings end at \<open>hi\<close>, and the bytes
  from \<open>lo\<close> on may be filtered.
\<close>

definition struct_ok :: "u8 list \<Rightarrow> nat \<Rightarrow> nat \<Rightarrow> dmi_header \<Rightarrow> bool" where
  "struct_ok M lo hi h \<longleftrightarrow> lo \<le> h_data h + hlen h \<and> h_data h + hlen h \<le> hi \<and> terminated M hi"

lemma struct_okD:
  assumes "struct_ok M lo hi h"
  shows "h_data h + hlen h + 1 < length M"
  using assms by (simp add: struct_ok_def terminated_def)

lemma takeWhile_drop:
  assumes "a \<le> k" "k < length M" "M ! k = (0 :: u8)"
  defines "n \<equiv> length (takeWhile (\<lambda>b. b \<noteq> 0) (drop a M))"
  shows "a + n \<le> k" and "M ! (a + n) = 0"
proof -
  have drop: "drop a M ! (k - a) = 0" "k - a < length (drop a M)" using assms by simp_all
  have "\<not> k - a < n"
  proof
    assume "k - a < n"
    then have "takeWhile (\<lambda>b. b \<noteq> 0) (drop a M) ! (k - a)
        \<in> set (takeWhile (\<lambda>b. b \<noteq> 0) (drop a M))"
      unfolding n_def by (rule nth_mem)
    then have "takeWhile (\<lambda>b. b \<noteq> 0) (drop a M) ! (k - a) \<noteq> 0"
      by (auto dest: set_takeWhileD)
    then show False
      using \<open>k - a < n\<close> drop unfolding n_def by (simp add: takeWhile_nth)
  qed
  then show "a + n \<le> k" using assms(1) by simp
  then have "n < length (drop a M)" using assms(2) by simp
  then have "drop a M ! n = 0" unfolding n_def using nth_length_takeWhile by fastforce
  then show "M ! (a + n) = 0" using \<open>a + n \<le> k\<close> assms(2) by simp
qed

lemma string_set_0: "a < length M \<Longrightarrow> M ! a = 0 \<Longrightarrow> string_set (drop a M) = []"
  by (subst string_set.simps) (simp add: Cons_nth_drop_Suc [symmetric])

lemma string_set_not_0:
  assumes "a < length M" "M ! a \<noteq> 0"
  shows "string_set (drop a M) = takeWhile (\<lambda>b. b \<noteq> 0) (drop a M)
     # string_set (drop (a + length (takeWhile (\<lambda>b. b \<noteq> 0) (drop a M)) + 1) M)"
  using assms
  by (subst string_set.simps) (simp add: Cons_nth_drop_Suc [symmetric] Let_def add.commute)

subsection \<open>What the pointer code computes\<close>

lemma run_strlen:
  assumes "a \<le> k" "k < length (st_mem s)" "st_mem s ! k = 0"
  shows "run_state (strlen a) s = (length (takeWhile (\<lambda>b. b \<noteq> 0) (drop a (st_mem s))), s)"
  using takeWhile_drop(1) [OF assms] assms(2) by (simp add: strlen_def Let_def)

lemma run_skip_strings:
  assumes "terminated (st_mem s) k" "bp \<le> k + 1"
  shows "\<exists>p. run_state (skip_strings n bp) s = (p, s) \<and> bp \<le> p \<and> p \<le> k + 1
     \<and> string_set (drop p (st_mem s)) = drop n (string_set (drop bp (st_mem s)))"
  using assms(2)
proof (induction n arbitrary: bp)
  case 0
  then show ?case by simp
next
  case (Suc n)
  let ?m = "st_mem s"
  have t: "k + 1 < length ?m" "?m ! k = 0" "?m ! (k + 1) = 0"
    using assms(1) by (simp_all add: terminated_def)
  show ?case
  proof (cases "?m ! bp = 0")
    case True
    with Suc.prems t show ?thesis by (auto simp: rd8_def string_set_0)
  next
    case False
    with Suc.prems t have bp: "bp \<le> k" by (cases "bp = k + 1") auto
    define l where "l = length (takeWhile (\<lambda>b. b \<noteq> 0) (drop bp ?m))"
    have "bp + l \<le> k" unfolding l_def using bp t by (intro takeWhile_drop) simp_all
    then obtain p where p: "run_state (skip_strings n (bp + l + 1)) s = (p, s)"
      "bp + l + 1 \<le> p" "p \<le> k + 1"
      "string_set (drop p ?m) = drop n (string_set (drop (bp + l + 1) ?m))"
      using Suc.IH [of "bp + l + 1"] by auto
    have "run_state (strlen bp) s = (l, s)"
      unfolding l_def using bp t by (intro run_strlen) simp_all
    then have "run_state (skip_strings (Suc n) bp) s = (p, s)"
      using False bp t p(1) by (simp add: rd8_def)
    moreover have "string_set (drop bp ?m)
        = takeWhile (\<lambda>b. b \<noteq> 0) (drop bp ?m) # string_set (drop (bp + l + 1) ?m)"
      unfolding l_def using bp t False by (intro string_set_not_0) simp_all
    ultimately show ?thesis using p by auto
  qed
qed

text \<open>The memory after \<open>n\<close> bytes from \<open>p\<close> on were filtered.\<close>

definition filtered :: "u8 list \<Rightarrow> nat \<Rightarrow> nat \<Rightarrow> u8 list" where
  "filtered m p n = take p m @ map dot (take n (drop p m)) @ drop (p + n) m"

lemma length_filtered [simp]: "p + n \<le> length m \<Longrightarrow> length (filtered m p n) = length m"
  by (simp add: filtered_def)

lemma nth_filtered:
  "p + n \<le> length m \<Longrightarrow> i < length m \<Longrightarrow>
   filtered m p n ! i = (if p \<le> i \<and> i < p + n then dot (m ! i) else m ! i)"
  by (auto simp: filtered_def nth_append min_def)

lemma dot_cases: "dot b = b \<or> dot b = 46"
  by (simp add: dot_def)

lemma dot_not_0 [simp]: "dot b \<noteq> 0"
  by (auto simp: dot_def)

lemma string_set_head:
  assumes "terminated M k" "p \<le> k + 1"
  shows "string_set (drop p M) = [] \<longleftrightarrow> M ! p = 0"
    and "M ! p \<noteq> 0 \<Longrightarrow> hd (string_set (drop p M)) = takeWhile (\<lambda>b. b \<noteq> 0) (drop p M)"
  using assms string_set_0 [of p M] string_set_not_0 [of p M]
  by (cases "M ! p = 0"; simp add: terminated_def)+

text \<open>
  \<^verbatim>\<open>_dmi_string\<close> points to the string of number \<open>s\<close> in the set (number 0 reads as 1), or is
  NULL when there are fewer; with the filter on, exactly that string is filtered.
\<close>

lemma run_dmi_string_raw:
  fixes n :: u8
  assumes t: "terminated (st_mem s) k" and le: "h_data h + hlen h \<le> k"
  defines "ss \<equiv> string_set (drop (h_data h + hlen h) (st_mem s))"
  defines "i \<equiv> unat n - 1"
  shows "length ss \<le> i \<Longrightarrow> run_state (dmi_string_raw h n f) s = (None, s)"
    and "i < length ss \<Longrightarrow> \<exists>p. h_data h + hlen h \<le> p \<and> p + length (ss ! i) \<le> k
           \<and> ss ! i = takeWhile (\<lambda>b. b \<noteq> 0) (drop p (st_mem s)) \<and> st_mem s ! p \<noteq> 0
           \<and> run_state (dmi_string_raw h n f) s
               = (Some p, if f then s\<lparr>st_mem := filtered (st_mem s) p (length (ss ! i))\<rparr> else s)"
proof -
  let ?m = "st_mem s"
  have k: "k + 1 < length ?m" "?m ! k = 0" "?m ! (k + 1) = 0"
    using t by (simp_all add: terminated_def)
  obtain p where p: "run_state (skip_strings i (h_data h + hlen h)) s = (p, s)"
    "h_data h + hlen h \<le> p" "p \<le> k + 1" "string_set (drop p ?m) = drop i ss"
    using run_skip_strings [OF t, of "h_data h + hlen h" i] le unfolding ss_def by auto
  note head = string_set_head [OF t p(3), unfolded p(4)]
  have run: "run_state (dmi_string_raw h n f) s = (if ?m ! p = 0 then (None, s) else
     run_state (State_Monad.bind (if_then f (State_Monad.bind (strlen p) (ascii_filter p)))
       (\<lambda>_. ret (Some p))) s)"
    using p k by (simp add: dmi_string_raw_def i_def rd8_def split del: if_split)
      (simp split: if_split)
  show "run_state (dmi_string_raw h n f) s = (None, s)" if "length ss \<le> i"
    using that head run by simp
  assume i: "i < length ss"
  then have nz: "?m ! p \<noteq> 0" using head(1) by simp
  then have "p \<le> k" using p(3) k by (cases "p = k + 1") auto
  have w: "ss ! i = takeWhile (\<lambda>b. b \<noteq> 0) (drop p ?m)"
    using head(2) [OF nz] i by (simp add: hd_drop_conv_nth)
  have len: "p + length (ss ! i) \<le> k"
    unfolding w using \<open>p \<le> k\<close> k by (intro takeWhile_drop) simp_all
  have "run_state (strlen p) s = (length (ss ! i), s)"
    unfolding w using \<open>p \<le> k\<close> k by (intro run_strlen) simp_all
  then have "run_state (dmi_string_raw h n f) s
      = (Some p, if f then s\<lparr>st_mem := filtered ?m p (length (ss ! i))\<rparr> else s)"
    using run nz len k by (simp add: if_then_def run_ascii_filter filtered_def)
  then show "\<exists>p. h_data h + hlen h \<le> p \<and> p + length (ss ! i) \<le> k
      \<and> ss ! i = takeWhile (\<lambda>b. b \<noteq> 0) (drop p ?m) \<and> ?m ! p \<noteq> 0
      \<and> run_state (dmi_string_raw h n f) s
          = (Some p, if f then s\<lparr>st_mem := filtered ?m p (length (ss ! i))\<rparr> else s)"
    using p(2) len w nz by blast
qed

lemma takeWhile_filtered:
  assumes "p + n \<le> k" "k < length m" "n = length (takeWhile (\<lambda>b. b \<noteq> 0) (drop p m))" "m ! (p + n) = 0"
  shows "takeWhile (\<lambda>b. b \<noteq> 0) (drop p (filtered m p n))
           = map dot (takeWhile (\<lambda>b. b \<noteq> 0) (drop p m))"
proof -
  have "drop p (filtered m p n) = map dot (take n (drop p m)) @ 0 # drop (Suc (p + n)) m"
    using assms(1,2,4) by (simp add: filtered_def Cons_nth_drop_Suc [symmetric])
  moreover have "take n (drop p m) = takeWhile (\<lambda>b. b \<noteq> 0) (drop p m)"
    using assms(3) by (simp flip: takeWhile_eq_take)
  ultimately show ?thesis by (simp add: takeWhile_append)
qed

lemma run_cstring_at:
  assumes "a \<le> k" "k < length (st_mem s)" "st_mem s ! k = 0"
  shows "run_state (cstring_at a) s
           = (map char_of_u8 (takeWhile (\<lambda>b. b \<noteq> 0) (drop a (st_mem s))), s)"
  using run_strlen [OF assms] takeWhile_drop(1) [OF assms] assms(2)
  by (simp add: cstring_at_def run_rd_bytes flip: takeWhile_eq_take)

text \<open>\<^verbatim>\<open>dmi_string\<close> yields the filtered text of string \<open>n\<close>, the empty string when the set
  has fewer strings, and a fixed text for number 0.\<close>

lemma run_dmi_string:
  fixes n :: u8
  assumes t: "terminated (st_mem s) k" and le: "h_data h + hlen h \<le> k"
  defines "ss \<equiv> string_set (drop (h_data h + hlen h) (st_mem s))"
  shows "fst (run_state (dmi_string h n) s) =
     (if n = 0 then ''Not Specified''
      else if unat n \<le> length ss then map (char_of_u8 \<circ> dot) (ss ! (unat n - 1)) else [])"
proof (cases "n = 0")
  case True
  then show ?thesis by (simp add: dmi_string_def)
next
  case False
  then have pos: "0 < unat n" by (simp add: unat_gt_0)
  note raw = run_dmi_string_raw [OF t le, folded ss_def]
  show ?thesis
  proof (cases "unat n \<le> length ss")
    case None: False
    with pos have "run_state (dmi_string_raw h n True) s = (None, s)" by (intro raw(1)) simp
    with False None show ?thesis by (simp add: dmi_string_def)
  next
    case Some: True
    define w where "w = ss ! (unat n - 1)"
    from Some pos obtain p where p: "p + length w \<le> k"
      "w = takeWhile (\<lambda>b. b \<noteq> 0) (drop p (st_mem s))"
      "run_state (dmi_string_raw h n True) s
         = (Some p, s\<lparr>st_mem := filtered (st_mem s) p (length w)\<rparr>)"
      using raw(2) [where n = n and f = True] unfolding w_def by fastforce
    have k: "k < length (st_mem s)" "st_mem s ! k = 0"
      using t by (simp_all add: terminated_def)
    have end0: "st_mem s ! (p + length w) = 0"
      unfolding p(2) using p(1) k by (intro takeWhile_drop(2)) simp_all
    have mk: "filtered (st_mem s) p (length w) ! k = 0"
      using p(1) k by (subst nth_filtered) auto
    have "run_state (cstring_at p) (s\<lparr>st_mem := filtered (st_mem s) p (length w)\<rparr>)
        = (map char_of_u8 (map dot w), s\<lparr>st_mem := filtered (st_mem s) p (length w)\<rparr>)"
      using p(1) k mk takeWhile_filtered [OF p(1) k(1)] p(2) end0
      by (subst run_cstring_at [where k = k]) simp_all
    with False Some p(3) show ?thesis by (simp add: dmi_string_def w_def)
  qed
qed

subsection \<open>Safety\<close>

lemma mem_ok_filtered:
  assumes "mem_ok A M lo hi s" "lo \<le> p" "p + n \<le> hi" "hi < length M"
    and "\<And>i. p \<le> i \<Longrightarrow> i < p + n \<Longrightarrow> st_mem s ! i \<noteq> 0"
  shows "mem_ok A M lo hi (s\<lparr>st_mem := filtered (st_mem s) p n\<rparr>)"
proof -
  let ?f = "filtered (st_mem s) p n"
  have old: "st_mem s ! i = M ! i \<or> (lo \<le> i \<and> i < hi \<and> M ! i \<noteq> 0 \<and> st_mem s ! i = 46)"
    if "i < length M" for i
    using assms(1) that by (simp add: mem_ok_def)
  have "?f ! i = M ! i \<or> (lo \<le> i \<and> i < hi \<and> M ! i \<noteq> 0 \<and> ?f ! i = 46)" if i: "i < length M" for i
  proof (cases "p \<le> i \<and> i < p + n \<and> dot (st_mem s ! i) = 46")
    case True
    with assms(2,3,5) mem_ok_zero [OF assms(1) i] have "lo \<le> i" "i < hi" "M ! i \<noteq> 0" by auto
    with True i assms(3,4) mem_ok_length [OF assms(1)] show ?thesis by (simp add: nth_filtered)
  next
    case False
    then have "?f ! i = st_mem s ! i"
      using i assms(3,4) mem_ok_length [OF assms(1)] dot_cases [of "st_mem s ! i"]
      by (subst nth_filtered) auto
    with old [OF i] show ?thesis by simp
  qed
  then show ?thesis using assms by (simp add: mem_ok_def)
qed

lemma mem_ok_terminated: "mem_ok A M lo hi s \<Longrightarrow> terminated M k \<Longrightarrow> terminated (st_mem s) k"
  by (simp add: terminated_def mem_ok_length mem_ok_zero)

lemma kept_dmi_string_raw:
  assumes ok: "mem_ok A M lo hi s" and h: "struct_ok M lo hi h"
  shows "kept A M lo hi s (snd (run_state (dmi_string_raw h n f) s))"
proof -
  have t: "terminated (st_mem s) hi" and le: "h_data h + hlen h \<le> hi" and lo: "lo \<le> h_data h + hlen h"
    using h mem_ok_terminated [OF ok] by (simp_all add: struct_ok_def)
  define i where "i = unat n - 1"
  define ss where "ss = string_set (drop (h_data h + hlen h) (st_mem s))"
  show ?thesis
  proof (cases "i < length ss")
    case False
    then show ?thesis
      using run_dmi_string_raw(1) [OF t le, of n f] ok by (simp add: i_def ss_def kept_refl)
  next
    case True
    then obtain p where p: "h_data h + hlen h \<le> p" "p + length (ss ! i) \<le> hi"
      "ss ! i = takeWhile (\<lambda>b. b \<noteq> 0) (drop p (st_mem s))"
      "run_state (dmi_string_raw h n f) s
         = (Some p, if f then s\<lparr>st_mem := filtered (st_mem s) p (length (ss ! i))\<rparr> else s)"
      using run_dmi_string_raw(2) [OF t le, of n f] unfolding i_def ss_def by blast
    have hi: "hi < length M" using h by (simp add: struct_ok_def terminated_def)
    have nz: "st_mem s ! j \<noteq> 0" if "p \<le> j" "j < p + length (ss ! i)" for j
    proof -
      have "j - p < length (takeWhile (\<lambda>b. b \<noteq> 0) (drop p (st_mem s)))" using that p(3) by simp
      then have "takeWhile (\<lambda>b. b \<noteq> 0) (drop p (st_mem s)) ! (j - p) \<noteq> 0"
        by (metis (mono_tags, lifting) nth_mem set_takeWhileD)
      then show ?thesis
        using that p(2) hi mem_ok_length [OF ok] p(3) by (simp add: takeWhile_nth)
    qed
    have "mem_ok A M lo hi (s\<lparr>st_mem := filtered (st_mem s) p (length (ss ! i))\<rparr>)"
      using ok lo p(1,2) hi nz by (intro mem_ok_filtered) simp_all
    then show ?thesis using p(4) ok by (simp add: kept_def)
  qed
qed

lemmas mem_ok_dmi_string_raw = kept_dmi_string_raw [THEN kept_mem_ok]

lemma safe_dmi_string_raw [safe_intros]:
  "struct_ok M lo hi h \<Longrightarrow> safe A M lo hi (dmi_string_raw h n f)"
  by (rule safeI) (rule kept_dmi_string_raw)

lemma safe_dmi_string [safe_intros]:
  assumes h: "struct_ok M lo hi h"
  shows "safe A M lo hi (dmi_string h n)"
proof (rule safeI)
  fix s assume ok: "mem_ok A M lo hi s"
  let ?r = "run_state (dmi_string_raw h n True) s"
  have ok': "mem_ok A M lo hi (snd ?r)" by (rule mem_ok_dmi_string_raw [OF ok h])
  have t: "terminated (st_mem s) hi" and le: "h_data h + hlen h \<le> hi"
    using h mem_ok_terminated [OF ok] by (simp_all add: struct_ok_def)
  have hi: "hi < length (st_mem (snd ?r))" "st_mem (snd ?r) ! hi = 0"
    using mem_ok_terminated [OF ok', of hi] h by (simp_all add: struct_ok_def terminated_def)
  have "fst ?r = None \<or> (\<exists>p \<le> hi. fst ?r = Some p)"
    using run_dmi_string_raw [OF t le, of n True] by (fastforce simp: not_less)
  then show "kept A M lo hi s (snd (run_state (dmi_string h n) s))"
    using ok ok' hi run_cstring_at [of _ hi "snd ?r"] kept_dmi_string_raw [OF ok h, of n True]
    by (auto simp: dmi_string_def kept_def split: prod.split)
qed

end
