(* ===== verification/CFloat.thy ===== *)
theory CFloat
  imports Safe
begin

section \<open>Single-precision values and their printing\<close>

text \<open>
  The decoder prints scaled readings with expressions such as
  \<^verbatim>\<open>"%.1f V", (float)(code & 0x7f) / 10\<close>. A non-negative \<^verbatim>\<open>float\<close> is a pair of a
  mantissa \<open>m\<close> and an exponent \<open>e\<close>, standing for \<open>m * 2 ^ e\<close> with \<open>m \<le> 2 ^ 24\<close>;
  conversions and divisions round to nearest, ties to even, and so does the decimal
  conversion of \<^verbatim>\<open>printf\<close>. The values here are far from the smallest and the largest
  exponents, which the model leaves out.

  \<open>printf_f_exact\<close> is the fact behind every use: the two roundings together are harmless when
  the quotient has at most \<open>k\<close> decimals and fewer than 22 bits.
\<close>

type_synonym cfloat = "nat \<times> int"

text \<open>\<open>n / d\<close> rounded to the nearest integer, ties to even.\<close>

definition rne :: "nat \<Rightarrow> nat \<Rightarrow> nat" where
  "rne n d = (let q = n div d; r = n mod d in
     if 2 * r < d then q else if d < 2 * r then q + 1 else if even q then q else q + 1)"

fun bit_len :: "nat \<Rightarrow> nat" where
  "bit_len n = (if n = 0 then 0 else Suc (bit_len (n div 2)))"

declare bit_len.simps [simp del]

text \<open>\<open>n / (d * 2 ^ e)\<close> rounded.\<close>

definition rne_scaled :: "nat \<Rightarrow> nat \<Rightarrow> int \<Rightarrow> nat" where
  "rne_scaled n d e = (if 0 \<le> e then rne n (d * 2 ^ nat e) else rne (n * 2 ^ nat (- e)) d)"

text \<open>Whether \<open>2 ^ e \<le> n / d\<close>.\<close>

definition pow_le :: "int \<Rightarrow> nat \<Rightarrow> nat \<Rightarrow> bool" where
  "pow_le e n d = (if 0 \<le> e then 2 ^ nat e * d \<le> n else d \<le> n * 2 ^ nat (- e))"

text \<open>The float nearest to \<open>n / d\<close>.\<close>

definition float_of_ratio :: "nat \<Rightarrow> nat \<Rightarrow> cfloat" where
  "float_of_ratio n d = (if n = 0 then (0, 0) else
     let e0 = int (bit_len n) - int (bit_len d);
         e = (if pow_le e0 n d then e0 - 23 else e0 - 24)
     in (rne_scaled n d e, e))"

definition float_of_nat :: "nat \<Rightarrow> cfloat" where
  "float_of_nat n = float_of_ratio n 1"

text \<open>Division of two floats.\<close>

definition fdiv :: "cfloat \<Rightarrow> cfloat \<Rightarrow> cfloat" where
  "fdiv x y = (case x of (m, e) \<Rightarrow> case y of (m', e') \<Rightarrow>
     if e' \<le> e then float_of_ratio (m * 2 ^ nat (e - e')) m'
     else float_of_ratio m (m' * 2 ^ nat (e' - e)))"

text \<open>\<^verbatim>\<open>%.kf\<close> for \<open>0 < k\<close>.\<close>

definition decimals :: "nat \<Rightarrow> nat \<Rightarrow> string" where
  "decimals k r = udec (r div 10 ^ k) @ ''.'' @ pad0 k (udec (r mod 10 ^ k))"

definition scaled10 :: "nat \<Rightarrow> cfloat \<Rightarrow> nat" where
  "scaled10 k x = (case x of (m, e) \<Rightarrow>
     if 0 \<le> e then m * 2 ^ nat e * 10 ^ k else rne (m * 10 ^ k) (2 ^ nat (- e)))"

definition printf_f :: "nat \<Rightarrow> cfloat \<Rightarrow> string" where
  "printf_f k x = decimals k (scaled10 k x)"

text \<open>
  \<^verbatim>\<open>%g\<close>: six significant digits, trailing zeros removed. \<open>None\<close> where the
  exponent form would be used, which needs a value below 0.0001 or from a million on.
\<close>

definition float_ge_pow10 :: "cfloat \<Rightarrow> int \<Rightarrow> bool" where
  "float_ge_pow10 x k = (case x of (m, e) \<Rightarrow>
     10 ^ nat k * 2 ^ nat (- e) \<le> m * 2 ^ nat e * 10 ^ nat (- k))"

fun g_exponent :: "cfloat \<Rightarrow> int list \<Rightarrow> int option" where
  "g_exponent x [] = None"
| "g_exponent x (k # ks) = (if float_ge_pow10 x k then Some k else g_exponent x ks)"

definition strip_zeros :: "string \<Rightarrow> string" where
  "strip_zeros s = (let t = rev (dropWhile (\<lambda>c. c = CHR ''0'') (rev s)) in
     if t \<noteq> [] \<and> last t = CHR ''.'' then butlast t else t)"

definition printf_g :: "cfloat \<Rightarrow> cstr" where
  "printf_g x = (if fst x = 0 then Some ''0'' else
     case g_exponent x [5, 4, 3, 2, 1, 0, -1, -2, -3, -4] of
       None \<Rightarrow> None
     | Some k \<Rightarrow> (let d = nat (5 - k) in
         if d = 0 then Some (udec (scaled10 0 x)) else Some (strip_zeros (printf_f d x))))"

subsection \<open>Rounding\<close>

lemma rne_bound: "0 < d \<Longrightarrow> 2 * (rne n d * d) \<le> 2 * n + d \<and> 2 * n \<le> 2 * (rne n d * d) + d"
proof -
  assume "0 < d"
  then have n: "n = n div d * d + n mod d" "n mod d < d" by simp_all
  have "rne n d * d = n div d * d \<and> 2 * (n mod d) \<le> d
      \<or> rne n d * d = n div d * d + d \<and> d \<le> 2 * (n mod d)"
    by (auto simp: rne_def Let_def)
  with n show ?thesis by linarith
qed

lemma rne_unique:
  assumes "0 < d" "2 * (r * d) < 2 * n + d" "2 * n < 2 * (r * d) + d"
  shows "rne n d = r"
proof -
  define q where "q = rne n d"
  have b: "2 * (q * d) \<le> 2 * n + d" "2 * n \<le> 2 * (q * d) + d"
    using rne_bound [OF assms(1)] by (simp_all add: q_def)
  have "q * d < r * d + d" "r * d < q * d + d"
    using b assms(2,3) by linarith+
  then have "q * d < (r + 1) * d" "r * d < (q + 1) * d" by (simp_all add: algebra_simps)
  then have "q < r + 1" "r < q + 1" using mult_less_cancel2 by blast+
  then show ?thesis by (simp add: q_def)
qed

lemma bit_len_bounds: "0 < n \<Longrightarrow> 2 ^ (bit_len n - 1) \<le> n \<and> n < 2 ^ bit_len n \<and> 0 < bit_len n"
proof (induction n rule: bit_len.induct)
  case (1 n)
  show ?case
  proof (cases "n div 2 = 0")
    case True
    with 1 have "n = 1" by simp
    then show ?thesis by (simp add: bit_len.simps)
  next
    case False
    define l where "l = bit_len (n div 2)"
    with False 1 have IH: "2 ^ (l - 1) \<le> n div 2" "n div 2 < 2 ^ l" "0 < l" by simp_all
    then obtain j where j: "l = Suc j" by (cases l) auto
    have "bit_len n = Suc l" using 1 by (simp add: bit_len.simps [of n] l_def)
    moreover have "p \<le> n div 2 \<Longrightarrow> n div 2 < 2 * p \<Longrightarrow> 2 * p \<le> n \<and> n < 4 * p" for p
      by presburger
    ultimately show ?thesis using IH j by simp
  qed
qed

text \<open>The exponent of a nonzero quotient.\<close>

lemma pow_le_quotient:
  assumes "0 < n" "0 < d" "e0 = int (bit_len n) - int (bit_len d)"
  shows "pow_le (if pow_le e0 n d then e0 else e0 - 1) n d"
proof -
  have bn: "2 ^ (bit_len n - 1) \<le> n" "0 < bit_len n" and bd: "d < 2 ^ bit_len d" "0 < bit_len d"
    using bit_len_bounds [OF assms(1)] bit_len_bounds [OF assms(2)] by simp_all
  have "pow_le (e0 - 1) n d"
  proof (cases "0 \<le> e0 - 1")
    case True
    then have "nat (e0 - 1) + bit_len d = bit_len n - 1" using bn by (simp add: assms(3))
    then have "2 ^ nat (e0 - 1) * 2 ^ bit_len d = (2 :: nat) ^ (bit_len n - 1)"
      by (simp flip: power_add)
    moreover have "2 ^ nat (e0 - 1) * d \<le> 2 ^ nat (e0 - 1) * 2 ^ bit_len d" using bd by simp
    ultimately show ?thesis using True bn by (simp add: pow_le_def)
  next
    case False
    then have "bit_len n - 1 + nat (- (e0 - 1)) = bit_len d" using bn by (simp add: assms(3))
    then have "2 ^ (bit_len n - 1) * 2 ^ nat (- (e0 - 1)) = (2 :: nat) ^ bit_len d"
      by (simp flip: power_add)
    moreover have "2 ^ (bit_len n - 1) * 2 ^ nat (- (e0 - 1)) \<le> n * 2 ^ nat (- (e0 - 1))"
      using bn by simp
    ultimately show ?thesis using False bd by (simp add: pow_le_def)
  qed
  then show ?thesis by simp
qed

text \<open>The mantissa of a nonzero quotient has 24 bits.\<close>

lemma pow_le_float:
  assumes "0 < n" "0 < d" "float_of_ratio n d = (m, e)"
  shows "pow_le (e + 23) n d" and "m = rne_scaled n d e"
  using assms pow_le_quotient [OF assms(1,2) refl]
  by (auto simp: float_of_ratio_def Let_def split: if_splits)

text \<open>
  When \<open>n / d\<close> is \<open>r / 10 ^ k\<close> with a small \<open>r\<close>, printing the quotient rounded to \<open>q + 2\<close> bits with
  \<open>k\<close> decimals gives \<open>r\<close> back.
\<close>

lemma scaled10_near:
  assumes n: "0 < n" and "0 < d" "n * 10 ^ k = r * d" "r < 2 ^ q" and pow: "pow_le (e + int q + 1) n d"
  shows "scaled10 k (rne_scaled n d e, e) = r"
proof -
  define m where "m = rne_scaled n d e"
  have small: "n * 10 ^ k < 2 ^ q * d" using assms by simp
  have "n \<le> n * 10 ^ k" by simp
  then have lt: "n < 2 ^ q * d" using small by linarith
  have neg: "e < 0"
  proof (rule ccontr)
    assume "\<not> e < 0"
    then have "2 ^ nat (e + int q + 1) * d \<le> n" using pow by (simp add: pow_le_def)
    moreover have "(2 :: nat) ^ q * d \<le> 2 ^ nat (e + int q + 1) * d"
      using \<open>\<not> e < 0\<close> by (intro mult_right_mono power_increasing) simp_all
    ultimately show False using lt by linarith
  qed
  define f where "f = nat (- e)"
  have m: "m = rne (n * 2 ^ f) d" using neg by (simp add: rne_scaled_def f_def m_def)
  have big: "2 ^ (q + 1) * d \<le> n * 2 ^ f"
  proof (cases "0 \<le> e + int q + 1")
    case True
    then have "nat (e + int q + 1) + f = q + 1" using neg by (simp add: f_def)
    then have "2 ^ (q + 1) * d = 2 ^ nat (e + int q + 1) * d * 2 ^ f"
      by (metis mult.assoc mult.commute power_add)
    also have "\<dots> \<le> n * 2 ^ f" using pow True by (simp add: pow_le_def)
    finally show ?thesis .
  next
    case False
    then have f: "f = nat (- (e + int q + 1)) + (q + 1)" by (simp add: f_def)
    have "d * 2 ^ (q + 1) \<le> n * 2 ^ nat (- (e + int q + 1)) * 2 ^ (q + 1)"
      using pow False by (simp add: pow_le_def)
    then show ?thesis by (simp add: f power_add mult.commute mult.left_commute)
  qed
  have "n * 10 ^ k < 2 ^ q * d" by (rule small)
  also have "\<dots> \<le> 2 ^ (q + 1) * d" by simp
  also note big
  finally have "n * 10 ^ k < n * 2 ^ f" .
  then have ten: "(10 :: nat) ^ k < 2 ^ f" by simp
  have "2 * (m * d) \<le> 2 * (n * 2 ^ f) + d" "2 * (n * 2 ^ f) \<le> 2 * (m * d) + d"
    using rne_bound [OF assms(2), of "n * 2 ^ f"] m by simp_all
  then have "(2 * (m * d)) * 10 ^ k \<le> (2 * (n * 2 ^ f) + d) * 10 ^ k"
    "(2 * (n * 2 ^ f)) * 10 ^ k \<le> (2 * (m * d) + d) * 10 ^ k"
    by (auto intro: mult_right_mono)
  then have "2 * (m * 10 ^ k) * d \<le> 2 * (n * 10 ^ k) * 2 ^ f + 10 ^ k * d"
    "2 * (n * 10 ^ k) * 2 ^ f \<le> 2 * (m * 10 ^ k) * d + 10 ^ k * d"
    by (simp_all add: algebra_simps)
  then have "2 * (m * 10 ^ k) * d \<le> (2 * (r * 2 ^ f) + 10 ^ k) * d"
    "2 * (r * 2 ^ f) * d \<le> (2 * (m * 10 ^ k) + 10 ^ k) * d"
    unfolding assms(3) by (simp_all add: algebra_simps)
  then have "2 * (m * 10 ^ k) \<le> 2 * (r * 2 ^ f) + 10 ^ k" "2 * (r * 2 ^ f) \<le> 2 * (m * 10 ^ k) + 10 ^ k"
    using assms(2) by (simp_all only: mult_le_cancel2)
  then have "rne (m * 10 ^ k) (2 ^ f) = r"
    using ten by (intro rne_unique) linarith+
  then show ?thesis using neg by (simp add: scaled10_def f_def m_def)
qed

lemma scaled10_exact:
  assumes "0 < d" "n * 10 ^ k = r * d" "r < 2 ^ 22"
  shows "scaled10 k (float_of_ratio n d) = r"
proof (cases "n = 0")
  case True
  with assms show ?thesis by (simp add: float_of_ratio_def scaled10_def)
next
  case False
  obtain m e where me: "float_of_ratio n d = (m, e)" by force
  with False pow_le_float [OF _ assms(1) me] scaled10_near [OF _ assms, of e] show ?thesis by (simp add: add.commute)
qed

lemma printf_f_exact:
  "0 < d \<Longrightarrow> n * 10 ^ k = r * d \<Longrightarrow> r < 2 ^ 22 \<Longrightarrow>
   printf_f k (float_of_ratio n d) = decimals k r"
  by (simp add: printf_f_def scaled10_exact)

end
