(* ===== verification/Sizes.thy ===== *)
theory Sizes
  imports CFloat
begin

section \<open>Sizes in a readable unit\<close>

text \<open>
  \<^verbatim>\<open>dmi_print_memory_size\<close>, its CPU-X variant \<^verbatim>\<open>dmi_print_memory_size_str\<close> and
  \<^verbatim>\<open>dmi_print_storage_size\<close> of \<^verbatim>\<open>dmidecode.c\<close>. The first two share the choice of the
  unit, \<open>size_unit\<close>; the lemmas give the number printed as a quotient of the size by a power of
  1024 (\<open>size_unit_div\<close>), its bounds, and that the unit table is read in bounds for the shifts
  the callers pass.
\<close>

subsection \<open>Definitions\<close>

definition size_split :: "u64 \<Rightarrow> nat \<Rightarrow> nat" where
  "size_split code i = unat (drop_bit (10 * i) code AND 0x3FF)"

text \<open>\<^verbatim>\<open>for (i = 6; i > 0; i--) if (split[i]) break;\<close>\<close>

fun top_split :: "u64 \<Rightarrow> nat \<Rightarrow> nat" where
  "top_split code 0 = 0"
| "top_split code (Suc i) = (if size_split code (Suc i) \<noteq> 0 then Suc i else top_split code i)"

text \<open>The capacity and the index of its unit.\<close>

definition size_unit :: "u64 \<Rightarrow> nat \<times> nat" where
  "size_unit code = (let i = top_split code 6 in
     if 0 < i \<and> size_split code (i - 1) \<noteq> 0
     then (size_split code (i - 1) + size_split code i * 2 ^ 10, i - 1)
     else (size_split code i, i))"

definition dmi_print_memory_size :: "string \<Rightarrow> u64 \<Rightarrow> nat \<Rightarrow> (st, unit) state" where
  "dmi_print_memory_size attr code shift = (let
     unit = [''bytes'', ''KiB'', ''MiB'', ''GiB'', ''TiB'', ''PiB'', ''EiB'', ''ZiB'']
   in case size_unit code of (capacity, i) \<Rightarrow>
     pr_attr attr [U capacity, Lit '' '', S (tab unit (i + shift))])"

text \<open>The unit tokens of \<^verbatim>\<open>util.hpp\<close>.\<close>

definition TOKEN_UNIT_B :: string where "TOKEN_UNIT_B = ''@0B@''"
definition TOKEN_UNIT_KIB :: string where "TOKEN_UNIT_KIB = ''@KIB@''"
definition TOKEN_UNIT_MIB :: string where "TOKEN_UNIT_MIB = ''@MIB@''"
definition TOKEN_UNIT_GIB :: string where "TOKEN_UNIT_GIB = ''@GIB@''"
definition TOKEN_UNIT_TIB :: string where "TOKEN_UNIT_TIB = ''@TIB@''"
definition TOKEN_UNIT_PIB :: string where "TOKEN_UNIT_PIB = ''@PIB@''"
definition TOKEN_UNIT_EIB :: string where "TOKEN_UNIT_EIB = ''@EIB@''"

text \<open>The table has eight entries and seven initialisers: the last is NULL.\<close>

definition dmi_print_memory_size_str :: "nat \<Rightarrow> u64 \<Rightarrow> nat \<Rightarrow> (st, string) state" where
  "dmi_print_memory_size_str str_len code shift = (let
     unit = [Some TOKEN_UNIT_B, Some TOKEN_UNIT_KIB, Some TOKEN_UNIT_MIB, Some TOKEN_UNIT_GIB,
             Some TOKEN_UNIT_TIB, Some TOKEN_UNIT_PIB, Some TOKEN_UNIT_EIB, None]
   in case size_unit code of (capacity, i) \<Rightarrow>
     snprintf str_len [U capacity, Lit '' '', S (tab_opt unit (i + shift))])"

text \<open>\<^verbatim>\<open>divisor\<close> grows to at most \<open>1000 ^ 7\<close>, which does not fit 64 bits; the quotient is
  below 1000 before that.\<close>

function storage_unit :: "u64 \<Rightarrow> u64 \<Rightarrow> nat \<Rightarrow> u64 \<times> nat" where
  "storage_unit code divisor shift = (if 1000 \<le> code div divisor \<and> shift + 1 < 8
     then storage_unit code (divisor * 1000) (shift + 1) else (divisor, shift))"
  by pat_completeness auto
termination
  by (relation "measure (\<lambda>(code, divisor, shift). 8 - shift)") auto

declare storage_unit.simps [simp del]

definition dmi_print_storage_size :: "string \<Rightarrow> u64 \<Rightarrow> nat \<Rightarrow> (st, unit) state" where
  "dmi_print_storage_size attr code shift = (let
     unit = [''bytes'', ''kB'', ''MB'', ''GB'', ''TB'', ''PB'', ''EB'', ''ZB'']
   in case storage_unit code 1 shift of (divisor, i) \<Rightarrow>
     pr_attr attr [Lit (printf_f 1 (fdiv (float_of_nat (unat code)) (float_of_nat (unat divisor)))),
                   Lit '' '', S (tab unit i)])"

subsection \<open>The number printed\<close>

lemma size_split_div: "size_split code i = unat code div 1024 ^ i mod 1024"
proof -
  have mask: "(0x3FF :: u64) = mask 10" by (simp add: mask_eq_exp_minus_1)
  have "size_split code i = take_bit 10 (unat (drop_bit (10 * i) code))"
    unfolding size_split_def mask take_bit_eq_mask [symmetric] by (simp only: unsigned_take_bit_eq)
  then show ?thesis
    by (simp add: unat_drop_bit take_bit_eq_mod power_mult)
qed

lemma size_split_less: "size_split code i < 1024"
  by (simp add: size_split_div)

lemma top_split_le: "top_split code n \<le> n"
  by (induction n) simp_all

lemma top_split_bound: "unat code < 1024 ^ Suc n \<Longrightarrow> unat code < 1024 ^ Suc (top_split code n)"
proof (induction n)
  case (Suc n)
  show ?case
  proof (cases "size_split code (Suc n) = 0")
    case True
    have "unat code div 1024 ^ Suc n < 1024"
      using Suc.prems by (simp add: div_less_iff_less_mult)
    with True have "unat code div 1024 ^ Suc n = 0" by (simp add: size_split_div)
    then have "unat code < 1024 ^ Suc n" by (simp only: div_eq_0_iff) simp
    with Suc.IH True show ?thesis by simp
  next
    case False
    with Suc.prems show ?thesis by simp
  qed
qed simp

lemma top_split_nonzero: "0 < top_split code n \<Longrightarrow> size_split code (top_split code n) \<noteq> 0"
  by (induction n) (simp_all split: if_splits)

text \<open>The number is the size divided by its unit, rounded down.\<close>

lemma size_unit_div:
  assumes "size_unit code = (c, i)"
  shows "c = unat code div 1024 ^ i" and "i \<le> 6" and "c < 2 ^ 20" and "unat code \<noteq> 0 \<Longrightarrow> c \<noteq> 0"
proof -
  define t where "t = top_split code 6"
  have "unat code < 2 ^ 64" by simp
  also have "\<dots> \<le> 1024 ^ 7" by simp
  finally have "unat code < 1024 ^ 7" .
  then have lt: "unat code < 1024 ^ Suc t"
    using top_split_bound [of code 6] by (simp add: t_def)
  have t6: "t \<le> 6" unfolding t_def by (rule top_split_le)
  have top: "unat code div 1024 ^ t < 1024" using lt by (simp add: div_less_iff_less_mult)
  have st: "size_split code t = unat code div 1024 ^ t" using top by (simp add: size_split_div)
  have ui: "(c, i) = (if 0 < t \<and> size_split code (t - 1) \<noteq> 0
      then (size_split code (t - 1) + size_split code t * 2 ^ 10, t - 1) else (size_split code t, t))"
    using assms unfolding size_unit_def Let_def t_def by (rule sym)
  show "i \<le> 6" using ui t6 by (auto split: if_splits)
  show div: "c = unat code div 1024 ^ i"
  proof (cases "0 < t \<and> size_split code (t - 1) \<noteq> 0")
    case True
    then obtain j where j: "t = Suc j" by (cases t) auto
    have "unat code div 1024 ^ Suc j = unat code div 1024 ^ j div 1024"
      by (simp only: power_Suc2 div_mult2_eq)
    with True ui j st show ?thesis by (simp add: size_split_div)
  next
    case False
    with ui st show ?thesis by (auto split: if_splits)
  qed
  show "c < 2 ^ 20"
    using ui size_split_less [of code t] size_split_less [of code "t - 1"] by (auto split: if_splits)
  show "c \<noteq> 0" if nz: "unat code \<noteq> 0"
  proof (cases "t = 0")
    case True
    then show ?thesis using ui st nz by simp
  next
    case False
    then have "size_split code t \<noteq> 0" using top_split_nonzero [of code 6] by (simp add: t_def)
    then show ?thesis using ui by (auto split: if_splits)
  qed
qed

subsection \<open>Safety\<close>

lemma safe_dmi_print_memory_size [safe_intros]:
  "shift \<le> 1 \<Longrightarrow> safe A M lo hi (dmi_print_memory_size attr code shift)"
  using size_unit_div(2) [of code]
  by (cases "size_unit code") (fastforce simp: dmi_print_memory_size_def Let_def ok_simps intro!: safe_intros)

lemma safe_dmi_print_memory_size_str [safe_intros]:
  assumes "unat code < 2 ^ 60" "shift \<le> 1"
  shows "safe A M lo hi (dmi_print_memory_size_str n code shift)"
proof -
  obtain c i where ci: "size_unit code = (c, i)" by force
  have "i \<le> 5"
  proof (rule ccontr)
    assume "\<not> i \<le> 5"
    then have i6: "i = 6" using size_unit_div(2) [OF ci] by simp
    then have "c = 0" using size_unit_div(1) [OF ci] assms(1) by simp
    with size_unit_div(4) [OF ci] have "unat code = 0" by auto
    then have "size_split code k = 0" for k by (simp add: size_split_div)
    then have "top_split code k = 0" for k by (induction k) simp_all
    with ci i6 show False by (simp add: size_unit_def Let_def)
  qed
  with assms(2) have "i + shift \<in> {0, 1, 2, 3, 4, 5, 6}" by auto
  then have "tab_opt [Some TOKEN_UNIT_B, Some TOKEN_UNIT_KIB, Some TOKEN_UNIT_MIB,
     Some TOKEN_UNIT_GIB, Some TOKEN_UNIT_TIB, Some TOKEN_UNIT_PIB, Some TOKEN_UNIT_EIB, None]
     (i + shift) \<noteq> None"
    by (auto simp: tab_opt_def)
  with ci show ?thesis
    by (simp add: dmi_print_memory_size_str_def Let_def safe_snprintf)
qed

lemma storage_unit_shift: "shift \<le> 7 \<Longrightarrow> snd (storage_unit code d shift) \<le> 7"
proof (induction code d shift rule: storage_unit.induct)
  case (1 code d shift)
  then show ?case by (subst storage_unit.simps) simp
qed

lemma safe_dmi_print_storage_size [safe_intros]:
  "shift \<le> 7 \<Longrightarrow> safe A M lo hi (dmi_print_storage_size attr code shift)"
  using storage_unit_shift [of shift code 1]
  by (cases "storage_unit code 1 shift")
     (auto simp: dmi_print_storage_size_def Let_def ok_simps intro!: safe_intros)

end
