(* ===== verification/Struct_Fields.thy ===== *)
theory Struct_Fields
  imports Dmi_Strings Sizes
begin

section \<open>Fields of a structure\<close>

text \<open>
  The statements the decoders of \<^verbatim>\<open>dmidecode.c\<close> are made of: print a string field, a
  looked-up code, a number, a list of the bits that are set, something only when not quiet.
  Each has its safety rule in \<open>safe_intros\<close>.
  \<open>run_join_bits\<close> gives the text a loop of \<^verbatim>\<open>sprintf\<close> calls builds in a local array, and
  that the array is large enough.

  The interface \<open>attr_printer\<close> is the \<^verbatim>\<open>print_cb\<close> argument of the functions that print
  either an attribute or a sub-attribute.
\<close>

subsection \<open>Statements\<close>

text \<open>\<^verbatim>\<open>pr_attr(name, "%s", dmi_string(h, data[off]))\<close>, and the same for a sub-attribute.\<close>

definition attr_str :: "string \<Rightarrow> dmi_header \<Rightarrow> nat \<Rightarrow> (st, unit) state" where
  "attr_str name h off = do { c \<leftarrow> data8 h off; s \<leftarrow> dmi_string h c; pr_attr name [S (Some s)] }"

text \<open>\<^verbatim>\<open>pr_attr(name, "%s", f(data[off]))\<close>\<close>

definition attr_look :: "string \<Rightarrow> (u8 \<Rightarrow> cstr) \<Rightarrow> dmi_header \<Rightarrow> nat \<Rightarrow> (st, unit) state" where
  "attr_look name f h off = do { c \<leftarrow> data8 h off; pr_attr name [S (f c)] }"

text \<open>\<^verbatim>\<open>pr_attr(name, "%u", data[off])\<close> and \<^verbatim>\<open>"%u", WORD(data + off)\<close>\<close>

definition attr_u8 :: "string \<Rightarrow> dmi_header \<Rightarrow> nat \<Rightarrow> (st, unit) state" where
  "attr_u8 name h off = do { c \<leftarrow> data8 h off; pr_attr name [U (unat c)] }"
definition attr_u16 :: "string \<Rightarrow> dmi_header \<Rightarrow> nat \<Rightarrow> (st, unit) state" where
  "attr_u16 name h off = do { c \<leftarrow> data16 h off; pr_attr name [U (unat c)] }"

text \<open>\<^verbatim>\<open>"0x%04X", WORD(data + off)\<close> and \<^verbatim>\<open>"0x%08X", DWORD(data + off)\<close>\<close>

definition attr_hex16 :: "string \<Rightarrow> dmi_header \<Rightarrow> nat \<Rightarrow> (st, unit) state" where
  "attr_hex16 name h off = do { c \<leftarrow> data16 h off; pr_attr name [Lit ''0x'', X 4 (unat c)] }"
definition attr_hex32 :: "string \<Rightarrow> dmi_header \<Rightarrow> nat \<Rightarrow> (st, unit) state" where
  "attr_hex32 name h off = do { c \<leftarrow> data32 h off; pr_attr name [Lit ''0x'', X 8 (unat c)] }"

text \<open>\<^verbatim>\<open>if (!(opt.flags & FLAG_QUIET)) m\<close>\<close>

definition unless_quiet :: "(st, unit) state \<Rightarrow> (st, unit) state" where
  "unless_quiet m = do { q \<leftarrow> opt_flag FLAG_QUIET; if_then (\<not> q) m }"

text \<open>\<^verbatim>\<open>for (i = a; i <= b; i++) if (code & (1 << i)) body\<close>\<close>

definition for_bits :: "nat \<Rightarrow> nat \<Rightarrow> 'a::len word \<Rightarrow> (nat \<Rightarrow> (st, unit) state) \<Rightarrow> (st, unit) state" where
  "for_bits a b code body = for_each [a..<b + 1] (\<lambda>i. if_then (bit code i) (body i))"

definition yes_no :: "bool \<Rightarrow> string \<Rightarrow> string \<Rightarrow> farg" where
  "yes_no b y n = Lit (if b then y else n)"

text \<open>
  The names of the bits that are set, written one after the other into an array of \<open>cap\<close>
  bytes: \<^verbatim>\<open>off += sprintf(buf + off, off ? " %s" : "%s", names[i])\<close>.
\<close>

fun join_bits :: "nat \<Rightarrow> nat list \<Rightarrow> 'a::len word \<Rightarrow> (nat \<Rightarrow> cstr) \<Rightarrow> string \<Rightarrow> (st, string) state" where
  "join_bits cap [] code name buf = ret buf"
| "join_bits cap (i # is) code name buf =
     (if bit code i then do {
        t \<leftarrow> sprintf (cap - length buf) (if buf \<noteq> [] then [Lit '' '', S (name i)] else [S (name i)]);
        join_bits cap is code name (buf @ t) }
      else join_bits cap is code name buf)"

text \<open>Successive \<^verbatim>\<open>off += sprintf(buf + off, ...)\<close>, one list of arguments per call.\<close>

fun sprintf_at :: "nat \<Rightarrow> farg list list \<Rightarrow> string \<Rightarrow> (st, string) state" where
  "sprintf_at cap [] buf = ret buf"
| "sprintf_at cap (as # rest) buf = do {
     t \<leftarrow> sprintf (cap - length buf) as; sprintf_at cap rest (buf @ t) }"

text \<open>\<^verbatim>\<open>(float)(i16)code / d\<close> with \<open>k\<close> decimals.\<close>

definition float_i16 :: "nat \<Rightarrow> u16 \<Rightarrow> nat \<Rightarrow> string" where
  "float_i16 k code d = (if sint code < 0 then ''-'' else [])
     @ printf_f k (float_of_ratio (nat \<bar>sint code\<bar>) d)"

text \<open>Division on \<^verbatim>\<open>int\<close> rounds towards zero.\<close>

definition cdiv :: "int \<Rightarrow> nat \<Rightarrow> int" where
  "cdiv a b = (if a < 0 then - (- a div int b) else a div int b)"

text \<open>A \<^verbatim>\<open>const char *\<close> result that the caller passes to \<^verbatim>\<open>%s\<close>.\<close>

definition deref :: "cstr \<Rightarrow> (st, string) state" where
  "deref c = (case c of None \<Rightarrow> do { fault BadString; ret [] } | Some s \<Rightarrow> ret s)"

subsection \<open>Safety\<close>

lemma struct_ok_data: "struct_ok M lo hi h \<Longrightarrow> off < hlen h + 2 \<Longrightarrow> h_data h + off < length M"
  using struct_okD [of M lo hi h] by linarith

lemma row_bound: "i < n \<Longrightarrow> i * m + m \<le> n * m" for i n m :: nat
  by (metis Suc_leI add.commute mult_Suc mult_le_mono1)

lemma safe_attr_str [safe_intros]:
  "struct_ok M lo hi h \<Longrightarrow> off < hlen h + 2 \<Longrightarrow> safe A M lo hi (attr_str name h off)"
  unfolding attr_str_def by (intro safe_intros) (simp_all add: struct_ok_data)

lemma safe_attr_look [safe_intros]:
  "struct_ok M lo hi h \<Longrightarrow> off < hlen h + 2 \<Longrightarrow> (\<And>c. f c \<noteq> None)
   \<Longrightarrow> safe A M lo hi (attr_look name f h off)"
  unfolding attr_look_def by (intro safe_intros) (simp_all add: struct_ok_data)

lemma safe_attr_u8 [safe_intros]:
  "struct_ok M lo hi h \<Longrightarrow> off < hlen h + 2 \<Longrightarrow> safe A M lo hi (attr_u8 name h off)"
  unfolding attr_u8_def by (intro safe_intros) (simp_all add: struct_ok_data)

lemma safe_attr_u16 [safe_intros]:
  "struct_ok M lo hi h \<Longrightarrow> off < hlen h + 1 \<Longrightarrow> safe A M lo hi (attr_u16 name h off)"
  using struct_okD [of M lo hi h] unfolding attr_u16_def by (intro safe_intros) simp_all

lemma safe_attr_hex16 [safe_intros]:
  "struct_ok M lo hi h \<Longrightarrow> off < hlen h + 1 \<Longrightarrow> safe A M lo hi (attr_hex16 name h off)"
  using struct_okD [of M lo hi h] unfolding attr_hex16_def by (intro safe_intros) simp_all

lemma safe_attr_hex32 [safe_intros]:
  "struct_ok M lo hi h \<Longrightarrow> off + 2 \<le> hlen h \<Longrightarrow> safe A M lo hi (attr_hex32 name h off)"
  using struct_okD [of M lo hi h] unfolding attr_hex32_def by (intro safe_intros) simp_all

lemma safe_unless_quiet [safe_intros]: "safe A M lo hi m \<Longrightarrow> safe A M lo hi (unless_quiet m)"
  unfolding unless_quiet_def by (intro safe_intros)

lemma safe_for_bits [safe_intros]:
  "(\<And>i. a \<le> i \<Longrightarrow> i \<le> b \<Longrightarrow> bit code i \<Longrightarrow> safe A M lo hi (body i))
   \<Longrightarrow> safe A M lo hi (for_bits a b code body)"
  unfolding for_bits_def by (intro safe_intros) auto

lemma farg_ok_yes_no [simp]: "farg_ok (yes_no b y n)"
  by (simp add: yes_no_def)

lemma safe_deref [safe_intros]: "c \<noteq> None \<Longrightarrow> safe A M lo hi (deref c)"
  by (auto simp: deref_def intro: safe_ret)

subsection \<open>Joined names\<close>

text \<open>The text the loop builds: the names separated by single spaces.\<close>

fun words_of :: "string list \<Rightarrow> string" where
  "words_of [] = []"
| "words_of [x] = x"
| "words_of (x # y # xs) = x @ '' '' @ words_of (y # xs)"

definition set_names :: "nat list \<Rightarrow> 'a::len word \<Rightarrow> (nat \<Rightarrow> cstr) \<Rightarrow> string list" where
  "set_names is code name = map (\<lambda>i. the (name i)) (filter (bit code) is)"

lemma words_of_append:
  "xs \<noteq> [] \<Longrightarrow> words_of (xs @ [y]) = words_of xs @ '' '' @ y"
  by (induction xs rule: words_of.induct) simp_all

lemma words_of_Nil: "[] \<notin> set xs \<Longrightarrow> words_of xs = [] \<longleftrightarrow> xs = []"
  by (cases xs rule: words_of.cases) auto

lemma run_join_bits_from:
  assumes "\<And>i. i \<in> set is \<Longrightarrow> name i \<noteq> None \<and> name i \<noteq> Some []"
    and "[] \<notin> set xs"
    and "length (words_of xs) + sum_list (map (\<lambda>i. length (the (name i)) + 1) is)
          + (if xs = [] then 0 else 1) \<le> cap"
  shows "run_state (join_bits cap is code name (words_of xs)) s
     = (words_of (xs @ set_names is code name), s)"
  using assms
proof (induction "is" arbitrary: xs)
  case Nil
  then show ?case by (simp add: set_names_def)
next
  case (Cons i "is")
  obtain n where n: "name i = Some n" "n \<noteq> []" using Cons.prems(1) [of i] by auto
  show ?case
  proof (cases "bit code i")
    case False
    then show ?thesis
      using Cons.IH [of xs] Cons.prems by (simp add: set_names_def)
  next
    case True
    have buf: "words_of xs \<noteq> [] \<longleftrightarrow> xs \<noteq> []" using Cons.prems(2) by (simp add: words_of_Nil)
    define t where "t = (if xs = [] then n else '' '' @ n)"
    have app: "words_of xs @ t = words_of (xs @ [n])"
      by (cases "xs = []") (simp_all add: t_def words_of_append)
    have "run_state (sprintf (cap - length (words_of xs))
        (if words_of xs \<noteq> [] then [Lit '' '', S (name i)] else [S (name i)])) s = (t, s)"
      using Cons.prems(3) n unfolding buf by (auto simp: sprintf_def t_def)
    then have "run_state (join_bits cap (i # is) code name (words_of xs)) s
        = run_state (join_bits cap is code name (words_of (xs @ [n]))) s"
      using True app by simp
    also have "\<dots> = (words_of ((xs @ [n]) @ set_names is code name), s)"
    proof (rule Cons.IH)
      have "length (words_of (xs @ [n])) \<le> length (words_of xs) + length n + (if xs = [] then 0 else 1)"
        by (simp flip: app add: t_def)
      then show "length (words_of (xs @ [n])) + (\<Sum>i\<leftarrow>is. length (the (name i)) + 1)
          + (if xs @ [n] = [] then 0 else 1) \<le> cap"
        using Cons.prems(3) n by simp
    qed (use Cons.prems n in auto)
    finally show ?thesis using True n by (simp add: set_names_def)
  qed
qed

lemma run_join_bits:
  assumes "list_all (\<lambda>i. name i \<noteq> None \<and> name i \<noteq> Some []) is"
    and "sum_list (map (\<lambda>i. length (the (name i)) + 1) is) \<le> cap"
  shows "run_state (join_bits cap is code name []) s = (words_of (set_names is code name), s)"
  using run_join_bits_from [of "is" name "[]" cap code s] assms by (simp add: list_all_iff)

lemma percent_words: "\<forall>x \<in> set xs. CHR ''%'' \<notin> set x \<Longrightarrow> CHR ''%'' \<notin> set (words_of xs)"
  by (induction xs rule: words_of.induct) auto

text \<open>The joined text may then be used as a format.\<close>

definition names_ok :: "nat \<Rightarrow> nat list \<Rightarrow> (nat \<Rightarrow> cstr) \<Rightarrow> bool" where
  "names_ok cap is name \<longleftrightarrow>
     list_all (\<lambda>i. name i \<noteq> None \<and> name i \<noteq> Some [] \<and> CHR ''%'' \<notin> set (the (name i))) is
     \<and> sum_list (map (\<lambda>i. length (the (name i)) + 1) is) \<le> cap"

lemma safe_join_bits:
  assumes "names_ok cap is name"
    and "\<And>t. CHR ''%'' \<notin> set t \<Longrightarrow> safe A M lo hi (f t)"
  shows "safe A M lo hi (State_Monad.bind (join_bits cap is code name []) f)"
proof (rule safeI)
  fix s assume ok: "mem_ok A M lo hi s"
  let ?t = "words_of (set_names is code name)"
  have "run_state (join_bits cap is code name []) s = (?t, s)"
    using assms(1) by (intro run_join_bits) (auto simp: names_ok_def list_all_iff)
  moreover have "CHR ''%'' \<notin> set ?t"
    using assms(1) by (intro percent_words) (auto simp: names_ok_def set_names_def list_all_iff)
  ultimately show "kept A M lo hi s (snd (run_state (State_Monad.bind (join_bits cap is code name []) f) s))"
    using safeD [OF assms(2) ok, of ?t] by simp
qed

subsection \<open>Successive sprintf calls\<close>

definition fmt_text :: "farg list \<Rightarrow> string" where
  "fmt_text as = (case fmt as of Inl e \<Rightarrow> [] | Inr s \<Rightarrow> s)"

lemma run_sprintf_at:
  assumes "list_all args_ok parts"
    and "length buf + sum_list (map (\<lambda>as. sum_list (map farg_len as)) parts) < cap"
  shows "run_state (sprintf_at cap parts buf) s = (buf @ concat (map fmt_text parts), s)"
  using assms
proof (induction parts arbitrary: buf)
  case (Cons as parts)
  obtain t where t: "fmt as = Inr t" "length t = sum_list (map farg_len as)"
    using fmt_ok [of as] Cons.prems(1) by auto
  moreover from this have "length t < cap - length buf"
    using Cons.prems(2) by simp
  ultimately have "run_state (sprintf (cap - length buf) as) s = (t, s)"
    by (simp add: sprintf_def)
  moreover have "run_state (sprintf_at cap parts (buf @ t)) s
      = ((buf @ t) @ concat (map fmt_text parts), s)"
    using Cons.prems t by (intro Cons.IH) simp_all
  moreover have "fmt_text as = t" using t by (simp add: fmt_text_def)
  ultimately show ?case by simp
qed simp

fun no_percent :: "farg \<Rightarrow> bool" where
  "no_percent (Lit s) = (CHR ''%'' \<notin> set s)"
| "no_percent (Fmt s) = True"
| "no_percent (S c) = (case c of None \<Rightarrow> True | Some s \<Rightarrow> CHR ''%'' \<notin> set s)"
| "no_percent _ = True"

lemma percent_fmt: "list_all no_percent as \<Longrightarrow> fmt as = Inr s \<Longrightarrow> CHR ''%'' \<notin> set s"
proof (induction as arbitrary: s)
  case (Cons a as)
  then obtain x y where "farg_str a = Inr x" "fmt as = Inr y" "s = x @ y"
    by (auto split: sum.splits)
  moreover have "CHR ''%'' \<notin> set x"
    using \<open>farg_str a = Inr x\<close> Cons.prems(1)
    by (cases a) (auto split: if_splits option.splits simp: pad0_def sdec_def)
  ultimately show ?case using Cons by auto
qed simp

lemma percent_fmt_text: "list_all no_percent as \<Longrightarrow> CHR ''%'' \<notin> set (fmt_text as)"
  using percent_fmt [of as] by (auto simp: fmt_text_def split: sum.split)

definition parts_ok :: "nat \<Rightarrow> farg list list \<Rightarrow> bool" where
  "parts_ok cap parts \<longleftrightarrow> list_all (\<lambda>as. args_ok as \<and> list_all no_percent as) parts
     \<and> sum_list (map (\<lambda>as. sum_list (map farg_len as)) parts) < cap"

lemma safe_sprintf_at:
  assumes "parts_ok cap parts"
    and "\<And>t. CHR ''%'' \<notin> set t \<Longrightarrow> safe A M lo hi (f t)"
  shows "safe A M lo hi (State_Monad.bind (sprintf_at cap parts []) f)"
proof (rule safeI)
  fix s assume ok: "mem_ok A M lo hi s"
  let ?t = "concat (map fmt_text parts)"
  have "run_state (sprintf_at cap parts []) s = (?t, s)"
    using assms(1) run_sprintf_at [of parts "[]" cap s] by (auto simp: parts_ok_def list_all_iff)
  moreover have "CHR ''%'' \<notin> set ?t"
    using assms(1) percent_fmt_text by (auto simp: parts_ok_def list_all_iff)
  ultimately show "kept A M lo hi s (snd (run_state (State_Monad.bind (sprintf_at cap parts []) f) s))"
    using safeD [OF assms(2) ok, of ?t] by simp
qed

subsection \<open>The print callback\<close>

locale attr_printer =
  fixes print_cb :: "string \<Rightarrow> farg list \<Rightarrow> (st, unit) state"
  assumes safe_print_cb: "args_ok as \<Longrightarrow> safe A M lo hi (print_cb name as)"
    and print_cb_text: "fmt as = Inr s \<Longrightarrow> \<exists>l. run_state (print_cb name as) st
      = ((), st\<lparr>st_out := st_out st @ [l]\<rparr>) \<and> (\<exists>ind. render l = ind @ name @ '': '' @ s @ ''\<newline>'')"
begin

lemma print_cb_frame:
  "fmt as = Inr s \<Longrightarrow> st_mem (snd (run_state (print_cb name as) st)) = st_mem st"
  using print_cb_text [of as s name st] by auto

end

interpretation attr: attr_printer pr_attr
proof
  fix as s name st
  assume "fmt as = Inr s"
  then show "\<exists>l. run_state (pr_attr name as) st = ((), st\<lparr>st_out := st_out st @ [l]\<rparr>)
      \<and> (\<exists>ind. render l = ind @ name @ '': '' @ s @ ''\<newline>'')"
    by (intro exI [of _ "PrAttr name s"] conjI exI [of _ "[CHR 0x09]"])
       (simp_all add: pr_attr_def print_def emit_def)
qed (rule safe_pr_attr)

interpretation subattr: attr_printer pr_subattr
proof
  fix as s name st
  assume "fmt as = Inr s"
  then show "\<exists>l. run_state (pr_subattr name as) st = ((), st\<lparr>st_out := st_out st @ [l]\<rparr>)
      \<and> (\<exists>ind. render l = ind @ name @ '': '' @ s @ ''\<newline>'')"
    by (intro exI [of _ "PrSubattr name s"] conjI exI [of _ "[CHR 0x09, CHR 0x09]"])
       (simp_all add: pr_subattr_def print_def emit_def)
qed (rule safe_pr_subattr)

end
