(* ===== verification/Lookups_System.thy ===== *)
theory Lookups_System
  imports Safe
begin

section \<open>Code tables: system, processor, ports, slots, event log\<close>

text \<open>
  The lookup functions of \<^verbatim>\<open>dmidecode.c\<close> for the structures of types 0 to 4 and 8 to 15: each turns the code of a
  field into its name. A table is read through \<open>tab\<close>, which is \<open>None\<close> outside its bounds;
  codes are compared after promotion to \<^verbatim>\<open>int\<close>, here \<open>nat\<close>. The lemmas say for each function
  that it is total, or, for those that index without a test, on which codes it is defined.
\<close>

definition dmi_smbios_structure_type :: "u8 \<Rightarrow> cstr" where
  "dmi_smbios_structure_type code = (let c = unat code;
     type = [''BIOS'', ''System'', ''Base Board'', ''Chassis'', ''Processor'',
             ''Memory Controller'', ''Memory Module'', ''Cache'', ''Port Connector'',
             ''System Slots'', ''On Board Devices'', ''OEM Strings'',
             ''System Configuration Options'', ''BIOS Language'', ''Group Associations'',
             ''System Event Log'', ''Physical Memory Array'', ''Memory Device'',
             ''32-bit Memory Error'', ''Memory Array Mapped Address'',
             ''Memory Device Mapped Address'', ''Built-in Pointing Device'',
             ''Portable Battery'', ''System Reset'', ''Hardware Security'',
             ''System Power Controls'', ''Voltage Probe'', ''Cooling Device'',
             ''Temperature Probe'', ''Electrical Current Probe'',
             ''Out-of-band Remote Access'', ''Boot Integrity Services'', ''System Boot'',
             ''64-bit Memory Error'', ''Management Device'',
             ''Management Device Component'', ''Management Device Threshold Data'',
             ''Memory Channel'', ''IPMI Device'', ''Power Supply'',
             ''Additional Information'', ''Onboard Device'',
             ''Management Controller Host Interface'', ''TPM Device'', ''Processor'',
             ''Firmware'', ''String Property'']
   in if 128 \<le> c then Some ''OEM-specific''
      else if c \<le> 46 then tab type c
      else Some out_of_spec)"

definition dmi_system_wake_up_type :: "u8 \<Rightarrow> cstr" where
  "dmi_system_wake_up_type code = (let c = unat code;
     type = [''Reserved'', ''Other'', ''Unknown'', ''APM Timer'', ''Modem Ring'',
             ''LAN Remote'', ''Power Switch'', ''PCI PME#'', ''AC Power Restored'']
   in if c \<le> 0x08 then tab type c
      else Some out_of_spec)"

definition dmi_base_board_type :: "u8 \<Rightarrow> cstr" where
  "dmi_base_board_type code = (let c = unat code;
     type = [''Unknown'', ''Other'', ''Server Blade'', ''Connectivity Switch'',
             ''System Management Module'', ''Processor Module'', ''I/O Module'',
             ''Memory Module'', ''Daughter Board'', ''Motherboard'',
             ''Processor+Memory Module'', ''Processor+I/O Module'', ''Interconnect Board'']
   in if 0x01 \<le> c \<and> c \<le> 0x0D then tab type (c - 0x01)
      else Some out_of_spec)"

definition dmi_chassis_type :: "u8 \<Rightarrow> cstr" where
  "dmi_chassis_type code = (let c = unat (code AND 0x7F);
     type = [''Other'', ''Unknown'', ''Desktop'', ''Low Profile Desktop'', ''Pizza Box'',
             ''Mini Tower'', ''Tower'', ''Portable'', ''Laptop'', ''Notebook'',
             ''Hand Held'', ''Docking Station'', ''All In One'', ''Sub Notebook'',
             ''Space-saving'', ''Lunch Box'', ''Main Server Chassis'',
             ''Expansion Chassis'', ''Sub Chassis'', ''Bus Expansion Chassis'',
             ''Peripheral Chassis'', ''RAID Chassis'', ''Rack Mount Chassis'',
             ''Sealed-case PC'', ''Multi-system'', ''CompactPCI'', ''AdvancedTCA'',
             ''Blade'', ''Blade Enclosing'', ''Tablet'', ''Convertible'', ''Detachable'',
             ''IoT Gateway'', ''Embedded PC'', ''Mini PC'', ''Stick PC'']
   in if 0x01 \<le> c \<and> c \<le> 0x24 then tab type (c - 0x01)
      else Some out_of_spec)"

definition dmi_chassis_lock :: "u8 \<Rightarrow> cstr" where
  "dmi_chassis_lock code = (let c = unat code;
     lock = [''Not Present'', ''Present'']
   in tab lock c)"

definition dmi_chassis_state :: "u8 \<Rightarrow> cstr" where
  "dmi_chassis_state code = (let c = unat code;
     state = [''Other'', ''Unknown'', ''Safe'', ''Warning'', ''Critical'',
              ''Non-recoverable'']
   in if 0x01 \<le> c \<and> c \<le> 0x06 then tab state (c - 0x01)
      else Some out_of_spec)"

definition dmi_chassis_security_status :: "u8 \<Rightarrow> cstr" where
  "dmi_chassis_security_status code = (let c = unat code;
     status = [''Other'', ''Unknown'', ''None'', ''External Interface Locked Out'',
               ''External Interface Enabled'']
   in if 0x01 \<le> c \<and> c \<le> 0x05 then tab status (c - 0x01)
      else Some out_of_spec)"

definition dmi_processor_type :: "u8 \<Rightarrow> cstr" where
  "dmi_processor_type code = (let c = unat code;
     type = [''Other'', ''Unknown'', ''Central Processor'', ''Math Processor'',
             ''DSP Processor'', ''Video Processor'']
   in if 0x01 \<le> c \<and> c \<le> 0x06 then tab type (c - 0x01)
      else Some out_of_spec)"

definition dmi_processor_status :: "u8 \<Rightarrow> cstr" where
  "dmi_processor_status code = (let c = unat code;
     status = [''Unknown'', ''Enabled'', ''Disabled By User'', ''Disabled By BIOS'',
               ''Idle'', out_of_spec, out_of_spec, ''Other'']
   in tab status c)"

definition dmi_processor_upgrade :: "u8 \<Rightarrow> cstr" where
  "dmi_processor_upgrade code = (let c = unat code;
     upgrade = [''Other'', ''Unknown'', ''Daughter Board'', ''ZIF Socket'',
                ''Replaceable Piggy Back'', ''None'', ''LIF Socket'', ''Slot 1'',
                ''Slot 2'', ''370-pin Socket'', ''Slot A'', ''Slot M'', ''Socket 423'',
                ''Socket A (Socket 462)'', ''Socket 478'', ''Socket 754'', ''Socket 940'',
                ''Socket 939'', ''Socket mPGA604'', ''Socket LGA771'', ''Socket LGA775'',
                ''Socket S1'', ''Socket AM2'', ''Socket F (1207)'', ''Socket LGA1366'',
                ''Socket G34'', ''Socket AM3'', ''Socket C32'', ''Socket LGA1156'',
                ''Socket LGA1567'', ''Socket PGA988A'', ''Socket BGA1288'',
                ''Socket rPGA988B'', ''Socket BGA1023'', ''Socket BGA1224'',
                ''Socket BGA1155'', ''Socket LGA1356'', ''Socket LGA2011'', ''Socket FS1'',
                ''Socket FS2'', ''Socket FM1'', ''Socket FM2'', ''Socket LGA2011-3'',
                ''Socket LGA1356-3'', ''Socket LGA1150'', ''Socket BGA1168'',
                ''Socket BGA1234'', ''Socket BGA1364'', ''Socket AM4'', ''Socket LGA1151'',
                ''Socket BGA1356'', ''Socket BGA1440'', ''Socket BGA1515'',
                ''Socket LGA3647-1'', ''Socket SP3'', ''Socket SP3r2'', ''Socket LGA2066'',
                ''Socket BGA1392'', ''Socket BGA1510'', ''Socket BGA1528'',
                ''Socket LGA4189'', ''Socket LGA1200'', ''Socket LGA4677'',
                ''Socket LGA1700'', ''Socket BGA1744'', ''Socket BGA1781'',
                ''Socket BGA1211'', ''Socket BGA2422'', ''Socket LGA1211'',
                ''Socket LGA2422'', ''Socket LGA5773'', ''Socket BGA5773'', ''Socket AM5'',
                ''Socket SP5'', ''Socket SP6'', ''Socket BGA883'', ''Socket BGA1190'',
                ''Socket BGA4129'', ''Socket LGA4710'', ''Socket LGA7529'',
                ''Socket BGA1964'', ''Socket BGA1792'', ''Socket BGA2049'',
                ''Socket BGA2551'', ''Socket LGA1851'', ''Socket BGA2114'',
                ''Socket BGA2833'']
   in if 0x01 \<le> c \<and> c \<le> 0x57 then tab upgrade (c - 0x01)
      else Some out_of_spec)"

definition dmi_port_connector_type :: "u8 \<Rightarrow> cstr" where
  "dmi_port_connector_type code = (let c = unat code;
     type = [''None'', ''Centronics'', ''Mini Centronics'', ''Proprietary'', ''DB-25 male'',
             ''DB-25 female'', ''DB-15 male'', ''DB-15 female'', ''DB-9 male'',
             ''DB-9 female'', ''RJ-11'', ''RJ-45'', ''50 Pin MiniSCSI'', ''Mini DIN'',
             ''Micro DIN'', ''PS/2'', ''Infrared'', ''HP-HIL'', ''Access Bus (USB)'',
             ''SSA SCSI'', ''Circular DIN-8 male'', ''Circular DIN-8 female'',
             ''On Board IDE'', ''On Board Floppy'', ''9 Pin Dual Inline (pin 10 cut)'',
             ''25 Pin Dual Inline (pin 26 cut)'', ''50 Pin Dual Inline'',
             ''68 Pin Dual Inline'', ''On Board Sound Input From CD-ROM'',
             ''Mini Centronics Type-14'', ''Mini Centronics Type-26'',
             ''Mini Jack (headphones)'', ''BNC'', ''IEEE 1394'',
             ''SAS/SATA Plug Receptacle'', ''USB Type-C Receptacle''];
     type_0xA0 = [''PC-98'', ''PC-98 Hireso'', ''PC-H98'', ''PC-98 Note'', ''PC-98 Full'']
   in if c \<le> 0x23 then tab type c
      else if 0xA0 \<le> c \<and> c \<le> 0xA4 then tab type_0xA0 (c - 0xA0)
      else if c = 0xFF then Some ''Other''
      else Some out_of_spec)"

definition dmi_port_type :: "u8 \<Rightarrow> cstr" where
  "dmi_port_type code = (let c = unat code;
     type = [''None'', ''Parallel Port XT/AT Compatible'', ''Parallel Port PS/2'',
             ''Parallel Port ECP'', ''Parallel Port EPP'', ''Parallel Port ECP/EPP'',
             ''Serial Port XT/AT Compatible'', ''Serial Port 16450 Compatible'',
             ''Serial Port 16550 Compatible'', ''Serial Port 16550A Compatible'',
             ''SCSI Port'', ''MIDI Port'', ''Joystick Port'', ''Keyboard Port'',
             ''Mouse Port'', ''SSA SCSI'', ''USB'', ''Firewire (IEEE P1394)'',
             ''PCMCIA Type I'', ''PCMCIA Type II'', ''PCMCIA Type III'', ''Cardbus'',
             ''Access Bus Port'', ''SCSI II'', ''SCSI Wide'', ''PC-98'', ''PC-98 Hireso'',
             ''PC-H98'', ''Video Port'', ''Audio Port'', ''Modem Port'', ''Network Port'',
             ''SATA'', ''SAS'', ''MFDP (Multi-Function Display Port)'', ''Thunderbolt''];
     type_0xA0 = [''8251 Compatible'', ''8251 FIFO Compatible'']
   in if c \<le> 0x23 then tab type c
      else if 0xA0 \<le> c \<and> c \<le> 0xA1 then tab type_0xA0 (c - 0xA0)
      else if c = 0xFF then Some ''Other''
      else Some out_of_spec)"

definition dmi_slot_type :: "u8 \<Rightarrow> cstr" where
  "dmi_slot_type code = (let c = unat code;
     type = [''Other'', ''Unknown'', ''ISA'', ''MCA'', ''EISA'', ''PCI'',
             ''PC Card (PCMCIA)'', ''VLB'', ''Proprietary'', ''Processor Card'',
             ''Proprietary Memory Card'', ''I/O Riser Card'', ''NuBus'', ''PCI-66'',
             ''AGP'', ''AGP 2x'', ''AGP 4x'', ''PCI-X'', ''AGP 8x'', ''M.2 Socket 1-DP'',
             ''M.2 Socket 1-SD'', ''M.2 Socket 2'', ''M.2 Socket 3'', ''MXM Type I'',
             ''MXM Type II'', ''MXM Type III'', ''MXM Type III-HE'', ''MXM Type IV'',
             ''MXM 3.0 Type A'', ''MXM 3.0 Type B'', ''PCI Express 2 SFF-8639 (U.2)'',
             ''PCI Express 3 SFF-8639 (U.2)'',
             ''PCI Express Mini 52-pin with bottom-side keep-outs'',
             ''PCI Express Mini 52-pin without bottom-side keep-outs'',
             ''PCI Express Mini 76-pin'', ''PCI Express 4 SFF-8639 (U.2)'',
             ''PCI Express 5 SFF-8639 (U.2)'', ''OCP NIC 3.0 Small Form Factor (SFF)'',
             ''OCP NIC 3.0 Large Form Factor (LFF)'', ''OCP NIC Prior to 3.0''];
     type_0x30 = [''CXL FLexbus 1.0''];
     type_0xA0 = [''PC-98/C20'', ''PC-98/C24'', ''PC-98/E'', ''PC-98/Local Bus'',
                  ''PC-98/Card'', ''PCI Express'', ''PCI Express x1'', ''PCI Express x2'',
                  ''PCI Express x4'', ''PCI Express x8'', ''PCI Express x16'',
                  ''PCI Express 2'', ''PCI Express 2 x1'', ''PCI Express 2 x2'',
                  ''PCI Express 2 x4'', ''PCI Express 2 x8'', ''PCI Express 2 x16'',
                  ''PCI Express 3'', ''PCI Express 3 x1'', ''PCI Express 3 x2'',
                  ''PCI Express 3 x4'', ''PCI Express 3 x8'', ''PCI Express 3 x16'',
                  out_of_spec, ''PCI Express 4'', ''PCI Express 4 x1'',
                  ''PCI Express 4 x2'', ''PCI Express 4 x4'', ''PCI Express 4 x8'',
                  ''PCI Express 4 x16'', ''PCI Express 5'', ''PCI Express 5 x1'',
                  ''PCI Express 5 x2'', ''PCI Express 5 x4'', ''PCI Express 5 x8'',
                  ''PCI Express 5 x16'', ''PCI Express 6+'', ''EDSFF E1'', ''EDSFF E3'']
   in if 0x01 \<le> c \<and> c \<le> 0x28 then tab type (c - 0x01)
      else if c = 0x30 then tab type_0x30 (c - 0x30)
      else if 0xA0 \<le> c \<and> c \<le> 0xC6 then tab type_0xA0 (c - 0xA0)
      else Some out_of_spec)"

definition dmi_slot_bus_width :: "u8 \<Rightarrow> cstr" where
  "dmi_slot_bus_width code = (let c = unat code;
     width = [''Other'', ''Unknown'', ''8 bit'', ''16 bit'', ''32 bit'', ''64 bit'',
              ''128 bit'', ''1x or x1'', ''2x or x2'', ''4x or x4'', ''8x or x8'',
              ''12x or x12'', ''16x or x16'', ''32x or x32'']
   in if 0x01 \<le> c \<and> c \<le> 0x0E then tab width (c - 0x01)
      else Some out_of_spec)"

definition dmi_slot_current_usage :: "u8 \<Rightarrow> cstr" where
  "dmi_slot_current_usage code = (let c = unat code;
     usage = [''Other'', ''Unknown'', ''Available'', ''In Use'', ''Unavailable'']
   in if 0x01 \<le> c \<and> c \<le> 0x05 then tab usage (c - 0x01)
      else Some out_of_spec)"

definition dmi_slot_length :: "u8 \<Rightarrow> cstr" where
  "dmi_slot_length code = (let c = unat code;
     len_tbl = [''Other'', ''Unknown'', ''Short'', ''Long'', ''2.5\" drive form factor'',
                ''3.5\" drive form factor'']
   in if 0x01 \<le> c \<and> c \<le> 0x06 then tab len_tbl (c - 0x01)
      else Some out_of_spec)"

definition dmi_slot_height :: "u8 \<Rightarrow> cstr" where
  "dmi_slot_height code = (let c = unat code;
     height = [''Not applicable'', ''Other'', ''Unknown'', ''Full height'', ''Low-profile'']
   in if c \<le> 0x04 then tab height c
      else Some out_of_spec)"

definition dmi_on_board_devices_type :: "u8 \<Rightarrow> cstr" where
  "dmi_on_board_devices_type code = (let c = unat code;
     type = [''Other'', ''Unknown'', ''Video'', ''SCSI Controller'', ''Ethernet'',
             ''Token Ring'', ''Sound'', ''PATA Controller'', ''SATA Controller'',
             ''SAS Controller'', ''Wireless LAN'', ''Bluetooth'', ''WWAN'', ''eMMC'',
             ''NVMe Controller'', ''UFS Controller'']
   in if 0x01 \<le> c \<and> c \<le> 0x10 then tab type (c - 0x01)
      else Some out_of_spec)"

definition dmi_bios_language_format :: "u8 \<Rightarrow> cstr" where
  "dmi_bios_language_format code = (if code AND 0x01 \<noteq> 0 then Some ''Abbreviated'' else Some ''Long'')"

definition dmi_event_log_method :: "u8 \<Rightarrow> cstr" where
  "dmi_event_log_method code = (let c = unat code;
     method = [''Indexed I/O, one 8-bit index port, one 8-bit data port'',
               ''Indexed I/O, two 8-bit index ports, one 8-bit data port'',
               ''Indexed I/O, one 16-bit index port, one 8-bit data port'',
               ''Memory-mapped physical 32-bit address'',
               ''General-purpose non-volatile data functions'']
   in if c \<le> 0x04 then tab method c
      else if 0x80 \<le> c then Some ''OEM-specific''
      else Some out_of_spec)"

definition dmi_event_log_header_type :: "u8 \<Rightarrow> cstr" where
  "dmi_event_log_header_type code = (let c = unat code;
     type = [''No Header'', ''Type 1'']
   in if c \<le> 0x01 then tab type c
      else if 0x80 \<le> c then Some ''OEM-specific''
      else Some out_of_spec)"

definition dmi_event_log_descriptor_type :: "u8 \<Rightarrow> cstr" where
  "dmi_event_log_descriptor_type code = (let c = unat code;
     type = [None, Some ''Single-bit ECC memory error'',
             Some ''Multi-bit ECC memory error'', Some ''Parity memory error'',
             Some ''Bus timeout'', Some ''I/O channel block'', Some ''Software NMI'',
             Some ''POST memory resize'', Some ''POST error'', Some ''PCI parity error'',
             Some ''PCI system error'', Some ''CPU failure'',
             Some ''EISA failsafe timer timeout'', Some ''Correctable memory log disabled'',
             Some ''Logging disabled'', None, Some ''System limit exceeded'',
             Some ''Asynchronous hardware timer expired'',
             Some ''System configuration information'', Some ''Hard disk information'',
             Some ''System reconfigured'', Some ''Uncorrectable CPU-complex error'',
             Some ''Log area reset/cleared'', Some ''System boot'']
   in if c \<le> 0x17 \<and> tab_opt type c \<noteq> None then tab_opt type c
      else if 0x80 \<le> c \<and> c \<le> 0xFE then Some ''OEM-specific''
      else if c = 0xFF then Some ''End of log''
      else Some out_of_spec)"

definition dmi_event_log_descriptor_format :: "u8 \<Rightarrow> cstr" where
  "dmi_event_log_descriptor_format code = (let c = unat code;
     format = [''None'', ''Handle'', ''Multiple-event'', ''Multiple-event handle'',
               ''POST results bitmap'', ''System management'',
               ''Multiple-event system management'']
   in if c \<le> 0x06 then tab format c
      else if 0x80 \<le> c then Some ''OEM-specific''
      else Some out_of_spec)"

subsection \<open>No table is read outside its bounds\<close>

lemma dmi_smbios_structure_type_total [ok_simps]: "dmi_smbios_structure_type code \<noteq> None"
  by (auto simp: dmi_smbios_structure_type_def Let_def tab_def tab_opt_def)

lemma dmi_system_wake_up_type_total [ok_simps]: "dmi_system_wake_up_type code \<noteq> None"
  by (auto simp: dmi_system_wake_up_type_def Let_def tab_def tab_opt_def)

lemma dmi_base_board_type_total [ok_simps]: "dmi_base_board_type code \<noteq> None"
  by (auto simp: dmi_base_board_type_def Let_def tab_def tab_opt_def)

lemma dmi_chassis_type_total [ok_simps]: "dmi_chassis_type code \<noteq> None"
  by (auto simp: dmi_chassis_type_def Let_def tab_def tab_opt_def)

lemma dmi_chassis_lock_total [ok_simps]: "dmi_chassis_lock code = None \<longleftrightarrow> 2 \<le> unat code"
  by (auto simp: dmi_chassis_lock_def Let_def tab_def)

lemma dmi_chassis_state_total [ok_simps]: "dmi_chassis_state code \<noteq> None"
  by (auto simp: dmi_chassis_state_def Let_def tab_def tab_opt_def)

lemma dmi_chassis_security_status_total [ok_simps]: "dmi_chassis_security_status code \<noteq> None"
  by (auto simp: dmi_chassis_security_status_def Let_def tab_def tab_opt_def)

lemma dmi_processor_type_total [ok_simps]: "dmi_processor_type code \<noteq> None"
  by (auto simp: dmi_processor_type_def Let_def tab_def tab_opt_def)

lemma dmi_processor_status_total [ok_simps]: "dmi_processor_status code = None \<longleftrightarrow> 8 \<le> unat code"
  by (auto simp: dmi_processor_status_def Let_def tab_def)

lemma dmi_processor_upgrade_total [ok_simps]: "dmi_processor_upgrade code \<noteq> None"
  by (auto simp: dmi_processor_upgrade_def Let_def tab_def tab_opt_def)

lemma dmi_port_connector_type_total [ok_simps]: "dmi_port_connector_type code \<noteq> None"
  by (auto simp: dmi_port_connector_type_def Let_def tab_def tab_opt_def)

lemma dmi_port_type_total [ok_simps]: "dmi_port_type code \<noteq> None"
  by (auto simp: dmi_port_type_def Let_def tab_def tab_opt_def)

lemma dmi_slot_type_total [ok_simps]: "dmi_slot_type code \<noteq> None"
  by (auto simp: dmi_slot_type_def Let_def tab_def tab_opt_def)

lemma dmi_slot_bus_width_total [ok_simps]: "dmi_slot_bus_width code \<noteq> None"
  by (auto simp: dmi_slot_bus_width_def Let_def tab_def tab_opt_def)

lemma dmi_slot_current_usage_total [ok_simps]: "dmi_slot_current_usage code \<noteq> None"
  by (auto simp: dmi_slot_current_usage_def Let_def tab_def tab_opt_def)

lemma dmi_slot_length_total [ok_simps]: "dmi_slot_length code \<noteq> None"
  by (auto simp: dmi_slot_length_def Let_def tab_def tab_opt_def)

lemma dmi_slot_height_total [ok_simps]: "dmi_slot_height code \<noteq> None"
  by (auto simp: dmi_slot_height_def Let_def tab_def tab_opt_def)

lemma dmi_on_board_devices_type_total [ok_simps]: "dmi_on_board_devices_type code \<noteq> None"
  by (auto simp: dmi_on_board_devices_type_def Let_def tab_def tab_opt_def)

lemma dmi_bios_language_format_total [ok_simps]: "dmi_bios_language_format code \<noteq> None"
  by (auto simp: dmi_bios_language_format_def Let_def tab_def tab_opt_def)

lemma dmi_event_log_method_total [ok_simps]: "dmi_event_log_method code \<noteq> None"
  by (auto simp: dmi_event_log_method_def Let_def tab_def tab_opt_def)

lemma dmi_event_log_header_type_total [ok_simps]: "dmi_event_log_header_type code \<noteq> None"
  by (auto simp: dmi_event_log_header_type_def Let_def tab_def tab_opt_def)

lemma dmi_event_log_descriptor_type_total [ok_simps]: "dmi_event_log_descriptor_type code \<noteq> None"
  by (auto simp: dmi_event_log_descriptor_type_def Let_def tab_def tab_opt_def)

lemma dmi_event_log_descriptor_format_total [ok_simps]: "dmi_event_log_descriptor_format code \<noteq> None"
  by (auto simp: dmi_event_log_descriptor_format_def Let_def tab_def tab_opt_def)

end
