(* ===== verification/Board.thy ===== *)
theory Board
  imports Struct_Fields Lookups_System
begin

section \<open>BIOS, system, base board, chassis (types 0 to 3)\<close>

text \<open>
  The structures of sections 7.1 to 7.4 of the SMBIOS specification: the field printers of
  \<^verbatim>\<open>dmidecode.c\<close> and the first four cases of \<^verbatim>\<open>dmi_decode\<close>, one definition per case. Each
  case is safe on a structure that lies in the table (\<open>struct_ok\<close>).
\<close>

subsection \<open>BIOS Information\<close>

definition dmi_bios_runtime_size :: "u32 \<Rightarrow> (st, unit) state" where
  "dmi_bios_runtime_size code =
     (if code AND 0x3FF \<noteq> 0 then pr_attr ''Runtime Size'' [U (unat code), Lit '' bytes'']
      else pr_attr ''Runtime Size'' [U (unat (drop_bit 10 code)), Lit '' KiB''])"

definition dmi_bios_rom_size :: "u8 \<Rightarrow> u16 \<Rightarrow> (st, unit) state" where
  "dmi_bios_rom_size code1 code2 = (let unit = [''MiB'', ''GiB'', out_of_spec, out_of_spec] in
     if code1 \<noteq> 0xFF
     then dmi_print_memory_size ''ROM Size'' (push_bit 6 (ucast code1 + 1)) 1
     else pr_attr ''ROM Size'' [U (unat (code2 AND 0x3FFF)), Lit '' '',
                              S (tab unit (unat (drop_bit 14 code2)))])"

definition bios_characteristics_tbl :: "string list" where
  "bios_characteristics_tbl =
    [''BIOS characteristics not supported'', ''ISA is supported'', ''MCA is supported'',
     ''EISA is supported'', ''PCI is supported'', ''PC Card (PCMCIA) is supported'',
     ''PNP is supported'', ''APM is supported'', ''BIOS is upgradeable'',
     ''BIOS shadowing is allowed'', ''VLB is supported'', ''ESCD support is available'',
     ''Boot from CD is supported'', ''Selectable boot is supported'',
     ''BIOS ROM is socketed'', ''Boot from PC Card (PCMCIA) is supported'',
     ''EDD is supported'', ''Japanese floppy for NEC 9800 1.2 MB is supported (int 13h)'',
     ''Japanese floppy for Toshiba 1.2 MB is supported (int 13h)'',
     ''5.25\"/360 kB floppy services are supported (int 13h)'',
     ''5.25\"/1.2 MB floppy services are supported (int 13h)'',
     ''3.5\"/720 kB floppy services are supported (int 13h)'',
     ''3.5\"/2.88 MB floppy services are supported (int 13h)'',
     ''Print screen service is supported (int 5h)'',
     ''8042 keyboard services are supported (int 9h)'',
     ''Serial services are supported (int 14h)'',
     ''Printer services are supported (int 17h)'',
     ''CGA/mono video services are supported (int 10h)'', ''NEC PC-98'']"

definition dmi_bios_characteristics :: "u64 \<Rightarrow> (st, unit) state" where
  "dmi_bios_characteristics code =
     (if bit code 3 then pr_list_item [S (tab bios_characteristics_tbl 0)]
      else for_bits 4 31 code (\<lambda>i. pr_list_item [S (tab bios_characteristics_tbl (i - 3))]))"

definition dmi_bios_characteristics_x1 :: "u8 \<Rightarrow> (st, unit) state" where
  "dmi_bios_characteristics_x1 code = (let characteristics =
       [''ACPI is supported'', ''USB legacy is supported'', ''AGP is supported'',
        ''I2O boot is supported'', ''LS-120 boot is supported'',
        ''ATAPI Zip drive boot is supported'', ''IEEE 1394 boot is supported'',
        ''Smart battery is supported'']
     in for_bits 0 7 code (\<lambda>i. pr_list_item [S (tab characteristics i)]))"

definition dmi_bios_characteristics_x2 :: "u8 \<Rightarrow> (st, unit) state" where
  "dmi_bios_characteristics_x2 code = (let characteristics =
       [''BIOS boot specification is supported'',
        ''Function key-initiated network boot is supported'',
        ''Targeted content distribution is supported'', ''UEFI is supported'',
        ''System is a virtual machine'', ''Manufacturing mode is supported'',
        ''Manufacturing mode is enabled'']
     in for_bits 0 6 code (\<lambda>i. pr_list_item [S (tab characteristics i)]))"

subsection \<open>System Information\<close>

text \<open>The loop over \<^verbatim>\<open>p[i]\<close>, which stops as soon as both flags are cleared.\<close>

fun uuid_scan :: "u8 list \<Rightarrow> bool \<Rightarrow> bool \<Rightarrow> bool \<times> bool" where
  "uuid_scan [] only0xFF only0x00 = (only0xFF, only0x00)"
| "uuid_scan (b # bs) only0xFF only0x00 =
     (if only0x00 \<or> only0xFF
      then uuid_scan bs (only0xFF \<and> b = 0xFF) (only0x00 \<and> b = 0)
      else (only0xFF, only0x00))"

definition uuid_format :: "u8 list \<Rightarrow> nat list \<Rightarrow> farg list" where
  "uuid_format p idx = concat (map (\<lambda>k. (if k \<in> {4, 6, 8, 10} then [Lit ''-''] else [])
     @ [XL 2 (unat (p ! (idx ! k)))]) [0..<16])"

definition dmi_system_uuid :: "(string \<Rightarrow> farg list \<Rightarrow> (st, unit) state) option \<Rightarrow> string
    \<Rightarrow> nat \<Rightarrow> u16 \<Rightarrow> (st, unit) state" where
  "dmi_system_uuid print_cb attr p ver = do {
     bs \<leftarrow> rd_bytes p 16;
     let out = (\<lambda>args. case print_cb of Some cb \<Rightarrow> cb attr args
                        | None \<Rightarrow> printf (args @ [Lit ''\<newline>'']));
     let (only0xFF, only0x00) = uuid_scan bs True True;
     if only0xFF then out [Lit ''Not Present'']
     else if only0x00 then out [Lit ''Not Settable'']
     else if 0x0206 \<le> ver
     then out (uuid_format bs [3, 2, 1, 0, 5, 4, 7, 6, 8, 9, 10, 11, 12, 13, 14, 15])
     else out (uuid_format bs [0, 1, 2, 3, 4, 5, 6, 7, 8, 9, 10, 11, 12, 13, 14, 15])
   }"

subsection \<open>Base Board and Chassis\<close>

definition dmi_base_board_features :: "u8 \<Rightarrow> (st, unit) state" where
  "dmi_base_board_features code = (let features =
       [''Board is a hosting board'', ''Board requires at least one daughter board'',
        ''Board is removable'', ''Board is replaceable'', ''Board is hot swappable'']
     in do {
       (if code AND 0x1F = 0 then pr_list_start ''Features'' (Some [Lit ''None''])
        else do {
          pr_list_start ''Features'' None;
          for_bits 0 4 code (\<lambda>i. pr_list_item [S (tab features i)]) });
       pr_list_end })"

definition dmi_base_board_handles :: "u8 \<Rightarrow> nat \<Rightarrow> (st, unit) state" where
  "dmi_base_board_handles count p = do {
     pr_list_start ''Contained Object Handles'' (Some [U (unat count)]);
     for_each [0..<unat count] (\<lambda>i. do {
       w \<leftarrow> WORD (p + 2 * i); pr_list_item [Lit ''0x'', X 4 (unat w)] });
     pr_list_end }"

definition dmi_chassis_height :: "u8 \<Rightarrow> (st, unit) state" where
  "dmi_chassis_height code =
     (if code = 0 then pr_attr ''Height'' [Lit ''Unspecified'']
      else pr_attr ''Height'' [U (unat code), Lit '' U''])"

definition dmi_chassis_power_cords :: "u8 \<Rightarrow> (st, unit) state" where
  "dmi_chassis_power_cords code =
     (if code = 0 then pr_attr ''Number Of Power Cords'' [Lit ''Unspecified'']
      else pr_attr ''Number Of Power Cords'' [U (unat code)])"

definition dmi_chassis_elements :: "u8 \<Rightarrow> u8 \<Rightarrow> nat \<Rightarrow> (st, unit) state" where
  "dmi_chassis_elements count len p = do {
     pr_list_start ''Contained Elements'' (Some [U (unat count)]);
     for_each [0..<unat count] (\<lambda>i. if_then (3 \<le> unat len) (do {
       b0 \<leftarrow> rd8 (p + i * unat len);
       let type = (if b0 AND 0x80 \<noteq> 0 then dmi_smbios_structure_type (b0 AND 0x7F)
                   else dmi_base_board_type (b0 AND 0x7F));
       b1 \<leftarrow> rd8 (p + 1 + i * unat len);
       b2 \<leftarrow> rd8 (p + 2 + i * unat len);
       if b1 = b2 then pr_list_item [S type, Lit '' ('', U (unat b1), Lit '')'']
       else pr_list_item [S type, Lit '' ('', U (unat b1), Lit ''-'', U (unat b2), Lit '')''] }));
     pr_list_end }"

subsection \<open>The cases of dmi_decode\<close>

definition dmi_decode_bios :: "dmi_header \<Rightarrow> u16 \<Rightarrow> (st, unit) state" where
  "dmi_decode_bios h ver = do {
     pr_handle_name [Lit ''BIOS Information''];
     brk (hlen h < 0x12) (do {
     attr_str ''Vendor'' h 0x04;
     attr_str ''Version'' h 0x05;
     attr_str ''Release Date'' h 0x08;
     base \<leftarrow> data16 h 0x06;
     if_then (base \<noteq> 0) (do {
       pr_attr ''Address'' [Lit ''0x'', X 4 (unat base), Lit ''0''];
       dmi_bios_runtime_size (push_bit 4 (0x10000 - ucast base)) });
     rom \<leftarrow> data8 h 0x09;
     ext \<leftarrow> (if hlen h < 0x1A then ret 16 else data16 h 0x18);
     dmi_bios_rom_size rom ext;
     pr_list_start ''Characteristics'' None;
     ch \<leftarrow> data64 h 0x0A;
     dmi_bios_characteristics ch;
     if_then (0x13 \<le> hlen h) (do { x1 \<leftarrow> data8 h 0x12; dmi_bios_characteristics_x1 x1 });
     if_then (0x14 \<le> hlen h) (do { x2 \<leftarrow> data8 h 0x13; dmi_bios_characteristics_x2 x2 });
     pr_list_end;
     brk (hlen h < 0x18) (do {
     b14 \<leftarrow> data8 h 0x14; b15 \<leftarrow> data8 h 0x15;
     if_then (b14 \<noteq> 0xFF \<and> b15 \<noteq> 0xFF)
       (pr_attr ''BIOS Revision'' [U (unat b14), Lit ''.'', U (unat b15)]);
     b16 \<leftarrow> data8 h 0x16; b17 \<leftarrow> data8 h 0x17;
     if_then (b16 \<noteq> 0xFF \<and> b17 \<noteq> 0xFF)
       (pr_attr ''Firmware Revision'' [U (unat b16), Lit ''.'', U (unat b17)]) }) }) }"

definition dmi_decode_system :: "dmi_header \<Rightarrow> u16 \<Rightarrow> (st, unit) state" where
  "dmi_decode_system h ver = do {
     pr_handle_name [Lit ''System Information''];
     brk (hlen h < 0x08) (do {
     attr_str ''Manufacturer'' h 0x04;
     attr_str ''Product Name'' h 0x05;
     attr_str ''Version'' h 0x06;
     attr_str ''Serial Number'' h 0x07;
     brk (hlen h < 0x19) (do {
     dmi_system_uuid (Some pr_attr) ''UUID'' (h_data h + 0x08) ver;
     attr_look ''Wake-up Type'' dmi_system_wake_up_type h 0x18;
     brk (hlen h < 0x1B) (do {
     attr_str ''SKU Number'' h 0x19;
     attr_str ''Family'' h 0x1A }) }) }) }"

definition dmi_decode_base_board :: "dmi_header \<Rightarrow> u16 \<Rightarrow> (st, unit) state" where
  "dmi_decode_base_board h ver = do {
     pr_handle_name [Lit ''Base Board Information''];
     brk (hlen h < 0x08) (do {
     attr_str ''Manufacturer'' h 0x04;
     attr_str ''Product Name'' h 0x05;
     attr_str ''Version'' h 0x06;
     attr_str ''Serial Number'' h 0x07;
     brk (hlen h < 0x09) (do {
     attr_str ''Asset Tag'' h 0x08;
     brk (hlen h < 0x0A) (do {
     f \<leftarrow> data8 h 0x09;
     dmi_base_board_features f;
     brk (hlen h < 0x0E) (do {
     attr_str ''Location In Chassis'' h 0x0A;
     unless_quiet (attr_hex16 ''Chassis Handle'' h 0x0B);
     attr_look ''Type'' dmi_base_board_type h 0x0D;
     brk (hlen h < 0x0F) (do {
     n \<leftarrow> data8 h 0x0E;
     brk (hlen h < 0x0F + unat n * 2)
       (unless_quiet (dmi_base_board_handles n (h_data h + 0x0F))) }) }) }) }) }) }"

definition dmi_decode_chassis :: "dmi_header \<Rightarrow> u16 \<Rightarrow> (st, unit) state" where
  "dmi_decode_chassis h ver = do {
     pr_handle_name [Lit ''Chassis Information''];
     brk (hlen h < 0x09) (do {
     attr_str ''Manufacturer'' h 0x04;
     attr_look ''Type'' dmi_chassis_type h 0x05;
     b5 \<leftarrow> data8 h 0x05;
     pr_attr ''Lock'' [S (dmi_chassis_lock (drop_bit 7 b5))];
     attr_str ''Version'' h 0x06;
     attr_str ''Serial Number'' h 0x07;
     attr_str ''Asset Tag'' h 0x08;
     brk (hlen h < 0x0D) (do {
     attr_look ''Boot-up State'' dmi_chassis_state h 0x09;
     attr_look ''Power Supply State'' dmi_chassis_state h 0x0A;
     attr_look ''Thermal State'' dmi_chassis_state h 0x0B;
     attr_look ''Security Status'' dmi_chassis_security_status h 0x0C;
     brk (hlen h < 0x11) (do {
     attr_hex32 ''OEM Information'' h 0x0D;
     brk (hlen h < 0x13) (do {
     b11 \<leftarrow> data8 h 0x11; dmi_chassis_height b11;
     b12 \<leftarrow> data8 h 0x12; dmi_chassis_power_cords b12;
     brk (hlen h < 0x15) (do {
     n \<leftarrow> data8 h 0x13; m \<leftarrow> data8 h 0x14;
     brk (hlen h < 0x15 + unat n * unat m) (do {
     dmi_chassis_elements n m (h_data h + 0x15);
     brk (hlen h < 0x16 + unat n * unat m)
       (attr_str ''SKU Number'' h (0x15 + unat n * unat m)) }) }) }) }) }) }) }"

subsection \<open>Safety\<close>

lemma safe_dmi_bios_runtime_size [safe_intros]: "safe A M lo hi (dmi_bios_runtime_size c)"
  unfolding dmi_bios_runtime_size_def by (intro safe_intros) simp_all

lemma safe_dmi_bios_rom_size [safe_intros]: "safe A M lo hi (dmi_bios_rom_size c1 c2)"
  unfolding dmi_bios_rom_size_def by (intro safe_intros) (simp_all add: ok_simps not_le)

lemma safe_dmi_bios_characteristics [safe_intros]: "safe A M lo hi (dmi_bios_characteristics c)"
  unfolding dmi_bios_characteristics_def
  by (intro safe_intros) (auto simp: ok_simps bios_characteristics_tbl_def)

lemma safe_dmi_bios_characteristics_x1 [safe_intros]:
  "safe A M lo hi (dmi_bios_characteristics_x1 c)"
  unfolding dmi_bios_characteristics_x1_def by (intro safe_intros) (auto simp: ok_simps)

lemma safe_dmi_bios_characteristics_x2 [safe_intros]:
  "safe A M lo hi (dmi_bios_characteristics_x2 c)"
  unfolding dmi_bios_characteristics_x2_def by (intro safe_intros) (auto simp: ok_simps)

lemma args_ok_uuid_format [simp]: "args_ok (uuid_format p idx)"
  by (auto simp: uuid_format_def args_ok_def list_all_iff)

context attr_printer begin

lemma safe_uuid: "p + 15 < length M \<Longrightarrow> safe A M lo hi (dmi_system_uuid (Some print_cb) name p ver)"
  unfolding dmi_system_uuid_def
  by (intro safe_intros) (auto split: prod.split intro!: safe_print_cb)

end

lemmas safe_uuid_attr [safe_intros] = attr.safe_uuid

lemma safe_uuid_printf [safe_intros]:
  "p + 15 < length M \<Longrightarrow> safe A M lo hi (dmi_system_uuid None name p ver)"
  unfolding dmi_system_uuid_def
  by (intro safe_intros) (auto split: prod.split intro!: safe_intros)

lemma safe_dmi_base_board_features [safe_intros]: "safe A M lo hi (dmi_base_board_features c)"
  unfolding dmi_base_board_features_def by (intro safe_intros) (auto simp: ok_simps)

lemma safe_dmi_base_board_handles [safe_intros]:
  "p + 2 * unat n \<le> length M \<Longrightarrow> safe A M lo hi (dmi_base_board_handles n p)"
  unfolding dmi_base_board_handles_def by (intro safe_intros) auto

lemma safe_dmi_chassis_height [safe_intros]: "safe A M lo hi (dmi_chassis_height c)"
  unfolding dmi_chassis_height_def by (intro safe_intros) auto

lemma safe_dmi_chassis_power_cords [safe_intros]: "safe A M lo hi (dmi_chassis_power_cords c)"
  unfolding dmi_chassis_power_cords_def by (intro safe_intros) auto

lemma safe_dmi_chassis_elements [safe_intros]:
  assumes "p + unat n * unat m \<le> length M"
  shows "safe A M lo hi (dmi_chassis_elements n m p)"
proof -
  have row: "p + i * unat m + unat m \<le> length M" if "i < unat n" for i
    using row_bound [of i "unat n" "unat m"] that assms by linarith
  show ?thesis
    unfolding dmi_chassis_elements_def
    by (intro safe_intros) (auto simp: ok_simps dest: row simp del: not_None_eq)
qed

lemma safe_dmi_decode_bios [safe_intros]:
  assumes "struct_ok M lo hi h" shows "safe A M lo hi (dmi_decode_bios h ver)"
  using assms struct_okD [OF assms] unfolding dmi_decode_bios_def
  by (intro safe_intros) simp_all

lemma safe_dmi_decode_system [safe_intros]:
  assumes "struct_ok M lo hi h" shows "safe A M lo hi (dmi_decode_system h ver)"
  using assms struct_okD [OF assms] unfolding dmi_decode_system_def
  by (intro safe_intros) (simp_all add: ok_simps)

lemma safe_dmi_decode_base_board [safe_intros]:
  assumes "struct_ok M lo hi h" shows "safe A M lo hi (dmi_decode_base_board h ver)"
  using assms struct_okD [OF assms] unfolding dmi_decode_base_board_def
  by (intro safe_intros) (simp_all add: ok_simps)

lemma safe_dmi_decode_chassis [safe_intros]:
  assumes "struct_ok M lo hi h" shows "safe A M lo hi (dmi_decode_chassis h ver)"
  using assms struct_okD [OF assms] unfolding dmi_decode_chassis_def
  by (intro safe_intros) (simp_all add: ok_simps)

end
