(* ===== verification/Processor.thy ===== *)
theory Processor
  imports Struct_Fields Lookups_System
begin

section \<open>Processor (type 4)\<close>

text \<open>
  Section 7.5: the processor family, found by binary search in a sorted table, the kind of
  identification register, its decoding, the other fields, and the case of \<^verbatim>\<open>dmi_decode\<close>.
  \<open>bsearch_correct\<close> shows that the search returns for every code and finds exactly the entry
  of the table with that code.
\<close>

subsection \<open>Family\<close>

definition family2_low :: "(nat \<times> string) list" where
  "family2_low =
    [(0x01, ''Other''), (0x02, ''Unknown''), (0x03, ''8086''), (0x04, ''80286''),
     (0x05, ''80386''), (0x06, ''80486''), (0x07, ''8087''), (0x08, ''80287''),
     (0x09, ''80387''), (0x0A, ''80487''), (0x0B, ''Pentium''), (0x0C, ''Pentium Pro''),
     (0x0D, ''Pentium II''), (0x0E, ''Pentium MMX''), (0x0F, ''Celeron''),
     (0x10, ''Pentium II Xeon''), (0x11, ''Pentium III''), (0x12, ''M1''), (0x13, ''M2''),
     (0x14, ''Celeron M''), (0x15, ''Pentium 4 HT''), (0x16, ''Intel''), (0x18, ''Duron''),
     (0x19, ''K5''), (0x1A, ''K6''), (0x1B, ''K6-2''), (0x1C, ''K6-3''), (0x1D, ''Athlon''),
     (0x1E, ''AMD29000''), (0x1F, ''K6-2+''), (0x20, ''Power PC''), (0x21, ''Power PC 601''),
     (0x22, ''Power PC 603''), (0x23, ''Power PC 603+''), (0x24, ''Power PC 604''),
     (0x25, ''Power PC 620''), (0x26, ''Power PC x704''), (0x27, ''Power PC 750''),
     (0x28, ''Core Duo''), (0x29, ''Core Duo Mobile''), (0x2A, ''Core Solo Mobile''),
     (0x2B, ''Atom''), (0x2C, ''Core M''), (0x2D, ''Core m3''), (0x2E, ''Core m5''),
     (0x2F, ''Core m7''), (0x30, ''Alpha''), (0x31, ''Alpha 21064''), (0x32, ''Alpha 21066''),
     (0x33, ''Alpha 21164''), (0x34, ''Alpha 21164PC''), (0x35, ''Alpha 21164a''),
     (0x36, ''Alpha 21264''), (0x37, ''Alpha 21364''),
     (0x38, ''Turion II Ultra Dual-Core Mobile M''), (0x39, ''Turion II Dual-Core Mobile M''),
     (0x3A, ''Athlon II Dual-Core M''), (0x3B, ''Opteron 6100''), (0x3C, ''Opteron 4100''),
     (0x3D, ''Opteron 6200''), (0x3E, ''Opteron 4200''), (0x3F, ''FX''), (0x40, ''MIPS''),
     (0x41, ''MIPS R4000''), (0x42, ''MIPS R4200''), (0x43, ''MIPS R4400''),
     (0x44, ''MIPS R4600''), (0x45, ''MIPS R10000''), (0x46, ''C-Series''),
     (0x47, ''E-Series''), (0x48, ''A-Series''), (0x49, ''G-Series''), (0x4A, ''Z-Series''),
     (0x4B, ''R-Series''), (0x4C, ''Opteron 4300''), (0x4D, ''Opteron 6300''),
     (0x4E, ''Opteron 3300''), (0x4F, ''FirePro''), (0x50, ''SPARC''), (0x51, ''SuperSPARC''),
     (0x52, ''MicroSPARC II''), (0x53, ''MicroSPARC IIep''), (0x54, ''UltraSPARC''),
     (0x55, ''UltraSPARC II''), (0x56, ''UltraSPARC IIi''), (0x57, ''UltraSPARC III''),
     (0x58, ''UltraSPARC IIIi''), (0x60, ''68040''), (0x61, ''68xxx''), (0x62, ''68000''),
     (0x63, ''68010''), (0x64, ''68020''), (0x65, ''68030''), (0x66, ''Athlon X4''),
     (0x67, ''Opteron X1000''), (0x68, ''Opteron X2000''), (0x69, ''Opteron A-Series''),
     (0x6A, ''Opteron X3000''), (0x6B, ''Zen''), (0x70, ''Hobbit''), (0x78, ''Crusoe TM5000''),
     (0x79, ''Crusoe TM3000''), (0x7A, ''Efficeon TM8000''), (0x80, ''Weitek''),
     (0x82, ''Itanium''), (0x83, ''Athlon 64''), (0x84, ''Opteron''), (0x85, ''Sempron''),
     (0x86, ''Turion 64''), (0x87, ''Dual-Core Opteron''), (0x88, ''Athlon 64 X2''),
     (0x89, ''Turion 64 X2''), (0x8A, ''Quad-Core Opteron''),
     (0x8B, ''Third-Generation Opteron''), (0x8C, ''Phenom FX''), (0x8D, ''Phenom X4''),
     (0x8E, ''Phenom X2''), (0x8F, ''Athlon X2''), (0x90, ''PA-RISC''),
     (0x91, ''PA-RISC 8500''), (0x92, ''PA-RISC 8000''), (0x93, ''PA-RISC 7300LC''),
     (0x94, ''PA-RISC 7200''), (0x95, ''PA-RISC 7100LC''), (0x96, ''PA-RISC 7100'')]"

definition family2_high :: "(nat \<times> string) list" where
  "family2_high =
    [(0xA0, ''V30''), (0xA1, ''Quad-Core Xeon 3200''), (0xA2, ''Dual-Core Xeon 3000''),
     (0xA3, ''Quad-Core Xeon 5300''), (0xA4, ''Dual-Core Xeon 5100''),
     (0xA5, ''Dual-Core Xeon 5000''), (0xA6, ''Dual-Core Xeon LV''),
     (0xA7, ''Dual-Core Xeon ULV''), (0xA8, ''Dual-Core Xeon 7100''),
     (0xA9, ''Quad-Core Xeon 5400''), (0xAA, ''Quad-Core Xeon''),
     (0xAB, ''Dual-Core Xeon 5200''), (0xAC, ''Dual-Core Xeon 7200''),
     (0xAD, ''Quad-Core Xeon 7300''), (0xAE, ''Quad-Core Xeon 7400''),
     (0xAF, ''Multi-Core Xeon 7400''), (0xB0, ''Pentium III Xeon''),
     (0xB1, ''Pentium III Speedstep''), (0xB2, ''Pentium 4''), (0xB3, ''Xeon''),
     (0xB4, ''AS400''), (0xB5, ''Xeon MP''), (0xB6, ''Athlon XP''), (0xB7, ''Athlon MP''),
     (0xB8, ''Itanium 2''), (0xB9, ''Pentium M''), (0xBA, ''Celeron D''),
     (0xBB, ''Pentium D''), (0xBC, ''Pentium EE''), (0xBD, ''Core Solo''),
     (0xBF, ''Core 2 Duo''), (0xC0, ''Core 2 Solo''), (0xC1, ''Core 2 Extreme''),
     (0xC2, ''Core 2 Quad''), (0xC3, ''Core 2 Extreme Mobile''), (0xC4, ''Core 2 Duo Mobile''),
     (0xC5, ''Core 2 Solo Mobile''), (0xC6, ''Core i7''), (0xC7, ''Dual-Core Celeron''),
     (0xC8, ''IBM390''), (0xC9, ''G4''), (0xCA, ''G5''), (0xCB, ''ESA/390 G6''),
     (0xCC, ''z/Architecture''), (0xCD, ''Core i5''), (0xCE, ''Core i3''), (0xCF, ''Core i9''),
     (0xD2, ''C7-M''), (0xD3, ''C7-D''), (0xD4, ''C7''), (0xD5, ''Eden''),
     (0xD6, ''Multi-Core Xeon''), (0xD7, ''Dual-Core Xeon 3xxx''),
     (0xD8, ''Quad-Core Xeon 3xxx''), (0xD9, ''Nano''), (0xDA, ''Dual-Core Xeon 5xxx''),
     (0xDB, ''Quad-Core Xeon 5xxx''), (0xDD, ''Dual-Core Xeon 7xxx''),
     (0xDE, ''Quad-Core Xeon 7xxx''), (0xDF, ''Multi-Core Xeon 7xxx''),
     (0xE0, ''Multi-Core Xeon 3400''), (0xE4, ''Opteron 3000''), (0xE5, ''Sempron II''),
     (0xE6, ''Embedded Opteron Quad-Core''), (0xE7, ''Phenom Triple-Core''),
     (0xE8, ''Turion Ultra Dual-Core Mobile''), (0xE9, ''Turion Dual-Core Mobile''),
     (0xEA, ''Athlon Dual-Core''), (0xEB, ''Sempron SI''), (0xEC, ''Phenom II''),
     (0xED, ''Athlon II''), (0xEE, ''Six-Core Opteron''), (0xEF, ''Sempron M''),
     (0xFA, ''i860''), (0xFB, ''i960''), (0x100, ''ARMv7''), (0x101, ''ARMv8''),
     (0x102, ''ARMv9''), (0x103, ''ARM''), (0x104, ''SH-3''), (0x105, ''SH-4''),
     (0x118, ''ARM''), (0x119, ''StrongARM''), (0x12C, ''6x86''), (0x12D, ''MediaGX''),
     (0x12E, ''MII''), (0x140, ''WinChip''), (0x15E, ''DSP''), (0x1F4, ''Video Processor''),
     (0x200, ''RV32''), (0x201, ''RV64''), (0x202, ''RV128''), (0x258, ''LoongArch''),
     (0x259, ''Loongson 1''), (0x25A, ''Loongson 2''), (0x25B, ''Loongson 3''),
     (0x25C, ''Loongson 2K''), (0x25D, ''Loongson 3A''), (0x25E, ''Loongson 3B''),
     (0x25F, ''Loongson 3C''), (0x260, ''Loongson 3D''), (0x261, ''Loongson 3E''),
     (0x262, ''Dual-Core Loongson 2K 2xxx''), (0x26C, ''Quad-Core Loongson 3A 5xxx''),
     (0x26D, ''Multi-Core Loongson 3A 5xxx''), (0x26E, ''Quad-Core Loongson 3B 5xxx''),
     (0x26F, ''Multi-Core Loongson 3B 5xxx''), (0x270, ''Multi-Core Loongson 3C 5xxx''),
     (0x271, ''Multi-Core Loongson 3D 5xxx''), (0x300, ''Core 3''), (0x301, ''Core 5''),
     (0x302, ''Core 7''), (0x303, ''Core 9''), (0x304, ''Core Ultra 3''),
     (0x305, ''Core Ultra 5''), (0x306, ''Core Ultra 7''), (0x307, ''Core Ultra 9'')]"

text \<open>The static table \<^verbatim>\<open>family2\<close>.\<close>

definition family2 :: "(nat \<times> string) list" where
  "family2 = family2_low @ family2_high"

text \<open>The \<^verbatim>\<open>while (1)\<close> loop; \<open>None\<close> if it does not return.\<close>

partial_function (option) bsearch :: "(nat \<times> string) list \<Rightarrow> nat \<Rightarrow> nat \<Rightarrow> nat \<Rightarrow> string option" where
  "bsearch tbl code low high = (let i = (low + high) div 2 in
     if fst (tbl ! i) = code then Some (snd (tbl ! i))
     else if low = high then Some out_of_spec
     else if code < fst (tbl ! i) then bsearch tbl code low i
     else bsearch tbl code (i + 1) high)"

declare bsearch.simps [code]

fun prefix_of :: "string \<Rightarrow> string \<Rightarrow> bool" where
  "prefix_of [] s = True"
| "prefix_of (c # cs) [] = False"
| "prefix_of (c # cs) (d # ds) = (c = d \<and> prefix_of cs ds)"

text \<open>\<^verbatim>\<open>strstr(s, sub) != NULL\<close>\<close>

fun strstr :: "string \<Rightarrow> string \<Rightarrow> bool" where
  "strstr [] sub = prefix_of sub []"
| "strstr (c # cs) sub = (prefix_of sub (c # cs) \<or> strstr cs sub)"

definition tolower :: "char \<Rightarrow> char" where
  "tolower c = (let n = of_char c :: nat in if 65 \<le> n \<and> n \<le> 90 then char_of (n + 32) else c)"

text \<open>\<^verbatim>\<open>strncasecmp(s, t, n) == 0\<close>\<close>

definition strncasecmp :: "string \<Rightarrow> string \<Rightarrow> nat \<Rightarrow> bool" where
  "strncasecmp s t n = (map tolower (take n s) = map tolower (take n t))"

definition is_intel :: "string \<Rightarrow> bool" where
  "is_intel m = (strstr m ''Intel'' \<or> strncasecmp m ''Intel'' 5)"

definition family_code :: "dmi_header \<Rightarrow> (st, u16) state" where
  "family_code h = do { b6 \<leftarrow> data8 h 0x06;
     if b6 = 0xFE \<and> 0x2A \<le> hlen h then data16 h 0x28 else ret (ucast b6) }"

definition dmi_processor_family :: "dmi_header \<Rightarrow> u16 \<Rightarrow> (st, string) state" where
  "dmi_processor_family h ver = do {
     b6 \<leftarrow> data8 h 0x06;
     pro \<leftarrow> (if ver = 0x0200 \<and> b6 = 0x30 \<and> 0x08 \<le> hlen h
       then do { c \<leftarrow> data8 h 0x07; manufacturer \<leftarrow> dmi_string h c; ret (is_intel manufacturer) }
       else ret False);
     if pro then ret ''Pentium Pro''
     else do {
       code \<leftarrow> family_code h;
       if code = 0xBE then
         (if 0x08 \<le> hlen h then do {
            c \<leftarrow> data8 h 0x07; manufacturer \<leftarrow> dmi_string h c;
            ret (if is_intel manufacturer then ''Core 2''
                 else if strstr manufacturer ''AMD'' \<or> strncasecmp manufacturer ''AMD'' 3
                 then ''K7'' else ''Core 2 or K7'') }
          else ret ''Core 2 or K7'')
       else (case bsearch family2 (unat code) 0 (length family2 - 1) of
               Some name \<Rightarrow> ret name
             | None \<Rightarrow> do { fault Diverges; ret [] }) } }"

subsection \<open>Identification\<close>

definition cpuid_type_of :: "u16 \<Rightarrow> u16 \<Rightarrow> bool \<Rightarrow> cpuid_type" where
  "cpuid_type_of code dx soc_id = (let type = unat code in
     if type = 0x05 then cpuid_80386
     else if type = 0x06 then
       (if dx AND 0x0F00 = 0x0400
           \<and> (dx AND 0x00F0 = 0x0040 \<or> 0x0070 \<le> dx AND 0x00F0)
           \<and> 0x0003 \<le> dx AND 0x000F
        then cpuid_x86_intel else cpuid_80486)
     else if (0x100 \<le> type \<and> type \<le> 0x102) \<or> (0x118 \<le> type \<and> type \<le> 0x119) then
       (if soc_id then cpuid_arm_soc_id else cpuid_arm_legacy)
     else if (0x0B \<le> type \<and> type \<le> 0x15) \<or> (0x28 \<le> type \<and> type \<le> 0x2F)
       \<or> (0xA1 \<le> type \<and> type \<le> 0xB3) \<or> type = 0xB5
       \<or> (0xB9 \<le> type \<and> type \<le> 0xC7) \<or> (0xCD \<le> type \<and> type \<le> 0xCF)
       \<or> (0xD2 \<le> type \<and> type \<le> 0xDB) \<or> (0xDD \<le> type \<and> type \<le> 0xE0)
     then cpuid_x86_intel
     else if (0x18 \<le> type \<and> type \<le> 0x1D) \<or> type = 0x1F
       \<or> (0x38 \<le> type \<and> type \<le> 0x3F) \<or> (0x46 \<le> type \<and> type \<le> 0x4F)
       \<or> (0x66 \<le> type \<and> type \<le> 0x6B) \<or> (0x83 \<le> type \<and> type \<le> 0x8F)
       \<or> (0xB6 \<le> type \<and> type \<le> 0xB7) \<or> (0xE4 \<le> type \<and> type \<le> 0xEF)
     then cpuid_x86_amd
     else if (0x258 \<le> type \<and> type \<le> 0x262) \<or> (0x26C \<le> type \<and> type \<le> 0x271)
     then cpuid_loongarch
     else cpuid_none)"

definition dmi_get_cpuid_type :: "dmi_header \<Rightarrow> (st, cpuid_type) state" where
  "dmi_get_cpuid_type h = do {
     type \<leftarrow> family_code h;
     dx \<leftarrow> data16 h 0x08;
     soc_id \<leftarrow> (if 0x28 \<le> hlen h then do { w \<leftarrow> data16 h 0x26; ret (bit w 9) } else ret False);
     ret (cpuid_type_of type dx soc_id) }"

text \<open>\<^verbatim>\<open>cpuid_arm_soc_id\<close> prints through \<^verbatim>\<open>pr_attr\<close>, not through the callback.\<close>

definition dmi_print_cpuid :: "(string \<Rightarrow> farg list \<Rightarrow> (st, unit) state) \<Rightarrow> string
    \<Rightarrow> cpuid_type \<Rightarrow> reader \<Rightarrow> (st, unit) state" where
  "dmi_print_cpuid print_cb label sig p = (case sig of
       cpuid_80386 \<Rightarrow> do { dx \<leftarrow> le16 p 0;
         print_cb label [Lit ''Type '', U (unat (drop_bit 12 dx)),
           Lit '', Family '', U (unat (drop_bit 8 dx AND 0xF)),
           Lit '', Major Stepping '', U (unat (drop_bit 4 dx AND 0xF)),
           Lit '', Minor Stepping '', U (unat (dx AND 0xF))] }
     | cpuid_80486 \<Rightarrow> do { dx \<leftarrow> le16 p 0;
         print_cb label [Lit ''Type '', U (unat (drop_bit 12 dx AND 0x3)),
           Lit '', Family '', U (unat (drop_bit 8 dx AND 0xF)),
           Lit '', Model '', U (unat (drop_bit 4 dx AND 0xF)),
           Lit '', Stepping '', U (unat (dx AND 0xF))] }
     | cpuid_arm_legacy \<Rightarrow> do { midr \<leftarrow> le32 p 0;
         if midr = 0 then ret ()
         else print_cb label [Lit ''Implementor 0x'', XL 2 (unat (drop_bit 24 midr)),
           Lit '', Variant 0x'', XL 0 (unat (drop_bit 20 midr AND 0xF)),
           Lit '', Architecture '', U (unat (drop_bit 16 midr AND 0xF)),
           Lit '', Part 0x'', XL 3 (unat (drop_bit 4 midr AND 0xFFF)),
           Lit '', Revision '', U (unat (midr AND 0xF))] }
     | cpuid_arm_soc_id \<Rightarrow> do { jep106 \<leftarrow> le32 p 0; soc_revision \<leftarrow> le32 p 4;
         pr_attr ''Signature'' [Lit ''JEP-106 Bank 0x'', XL 2 (unat (drop_bit 24 jep106 AND 0x7F)),
           Lit '' Manufacturer 0x'', XL 2 (unat (drop_bit 16 jep106 AND 0x7F)),
           Lit '', SoC ID 0x'', XL 4 (unat (jep106 AND 0xFFFF)),
           Lit '', SoC Revision 0x'', XL 8 (unat soc_revision)] }
     | cpuid_x86_intel \<Rightarrow> do { eax \<leftarrow> le32 p 0;
         print_cb label [Lit ''Type '', U (unat (drop_bit 12 eax AND 0x3)),
           Lit '', Family '', U (unat ((drop_bit 20 eax AND 0xFF) + (drop_bit 8 eax AND 0x0F))),
           Lit '', Model '', U (unat ((drop_bit 12 eax AND 0xF0) + (drop_bit 4 eax AND 0x0F))),
           Lit '', Stepping '', U (unat (eax AND 0xF))] }
     | cpuid_x86_amd \<Rightarrow> do { eax \<leftarrow> le32 p 0;
         let ext = (drop_bit 8 eax AND 0xF = 0xF);
         print_cb label [Lit ''Family '', U (unat ((drop_bit 8 eax AND 0xF)
             + (if ext then drop_bit 20 eax AND 0xFF else 0))),
           Lit '', Model '', U (unat ((drop_bit 4 eax AND 0xF)
             OR (if ext then drop_bit 12 eax AND 0xF0 else 0))),
           Lit '', Stepping '', U (unat (eax AND 0xF))] }
     | cpuid_loongarch \<Rightarrow> do { eax \<leftarrow> le32 p 0;
         print_cb label [Lit ''Processor Identity 0x'', XL 8 (unat eax), Lit ''\<newline>''] }
     | cpuid_none \<Rightarrow> ret ())"

definition cpu_flags :: "cstr list" where
  "cpu_flags =
    [Some ''FPU (Floating-point unit on-chip)'', Some ''VME (Virtual mode extension)'',
     Some ''DE (Debugging extension)'', Some ''PSE (Page size extension)'',
     Some ''TSC (Time stamp counter)'', Some ''MSR (Model specific registers)'',
     Some ''PAE (Physical address extension)'', Some ''MCE (Machine check exception)'',
     Some ''CX8 (CMPXCHG8 instruction supported)'',
     Some ''APIC (On-chip APIC hardware supported)'', None, Some ''SEP (Fast system call)'',
     Some ''MTRR (Memory type range registers)'', Some ''PGE (Page global enable)'',
     Some ''MCA (Machine check architecture)'',
     Some ''CMOV (Conditional move instruction supported)'',
     Some ''PAT (Page attribute table)'', Some ''PSE-36 (36-bit page size extension)'',
     Some ''PSN (Processor serial number present and enabled)'',
     Some ''CLFSH (CLFLUSH instruction supported)'', None, Some ''DS (Debug store)'',
     Some ''ACPI (ACPI supported)'', Some ''MMX (MMX technology supported)'',
     Some ''FXSR (FXSAVE and FXSTOR instructions supported)'',
     Some ''SSE (Streaming SIMD extensions)'', Some ''SSE2 (Streaming SIMD extensions 2)'',
     Some ''SS (Self-snoop)'', Some ''HTT (Multi-threading)'',
     Some ''TM (Thermal monitor supported)'', None, Some ''PBE (Pending break enabled)'']"

definition dmi_processor_id :: "dmi_header \<Rightarrow> (st, unit) state" where
  "dmi_processor_id h = do {
     sig \<leftarrow> dmi_get_cpuid_type h;
     unless_quiet (do { p \<leftarrow> rd_bytes (h_data h + 0x08) 8;
       pr_attr ''ID'' (concat (map (\<lambda>i. (if i = 0 then [] else [Lit '' '']) @ [X 2 (unat (p ! i))])
         [0..<8])) });
     dmi_print_cpuid pr_attr ''Signature'' sig (\<lambda>i. data8 h (0x08 + i));
     if sig \<noteq> cpuid_x86_intel \<and> sig \<noteq> cpuid_x86_amd then ret ()
     else do {
       edx \<leftarrow> data32 h 0x0C;
       (if edx AND 0xBFEFFBFF = 0 then pr_list_start ''Flags'' (Some [Lit ''None''])
        else do {
          pr_list_start ''Flags'' None;
          for_each [0..<32] (\<lambda>i. if_then (tab_opt cpu_flags i \<noteq> None \<and> bit edx i)
            (pr_list_item [S (tab_opt cpu_flags i)])) });
       pr_list_end } }"

subsection \<open>Other fields\<close>

definition dmi_processor_voltage :: "string \<Rightarrow> u8 \<Rightarrow> (st, unit) state" where
  "dmi_processor_voltage attr code = (let voltage = [''5.0 V'', ''3.3 V'', ''2.9 V''] in
     if code AND 0x80 \<noteq> 0
     then pr_attr attr [Lit (printf_f 1 (float_of_ratio (unat (code AND 0x7F)) 10)), Lit '' V'']
     else if code AND 0x07 = 0 then pr_attr attr [Lit ''Unknown'']
     else do {
       voltage_str \<leftarrow> join_bits 18 [0, 1, 2] code (tab voltage) [];
       if_then (voltage_str \<noteq> []) (pr_attr attr [Fmt voltage_str]) })"

text \<open>\<^verbatim>\<open>attr\<close> is NULL when a single value was asked for.\<close>

definition dmi_processor_frequency :: "cstr \<Rightarrow> nat \<Rightarrow> (st, unit) state" where
  "dmi_processor_frequency attr p = do {
     code \<leftarrow> WORD p;
     if code \<noteq> 0 then
       (case attr of Some a \<Rightarrow> pr_attr a [U (unat code), Lit '' MHz'']
        | None \<Rightarrow> printf [U (unat code), Lit '' MHz\<newline>''])
     else
       (case attr of Some a \<Rightarrow> pr_attr a [Lit ''Unknown'']
        | None \<Rightarrow> printf [Lit ''Unknown\<newline>'']) }"

definition dmi_processor_cache :: "string \<Rightarrow> u16 \<Rightarrow> string \<Rightarrow> u16 \<Rightarrow> (st, unit) state" where
  "dmi_processor_cache attr code level ver =
     (if code = 0xFFFF then
        (if 0x0203 \<le> ver then pr_attr attr [Lit ''Not Provided'']
         else pr_attr attr [Lit ''No '', S (Some level), Lit '' Cache''])
      else pr_attr attr [Lit ''0x'', X 4 (unat code)])"

definition dmi_processor_characteristics :: "string \<Rightarrow> u16 \<Rightarrow> (st, unit) state" where
  "dmi_processor_characteristics attr code = (let characteristics =
       [''64-bit capable'', ''Multi-Core'', ''Hardware Thread'', ''Execute Protection'',
        ''Enhanced Virtualization'', ''Power/Performance Control'', ''128-bit Capable'',
        ''Arm64 SoC ID'']
     in if code AND 0x00FC = 0 then pr_attr attr [Lit ''None'']
     else do {
       pr_list_start attr None;
       for_bits 2 9 code (\<lambda>i. pr_list_item [S (tab characteristics (i - 2))]);
       pr_list_end })"

subsection \<open>The case of dmi_decode\<close>

text \<open>\<^verbatim>\<open>h->length >= n && data[off] == 0xFF ? WORD(data + off2) : data[off]\<close>, printed unless
  \<^verbatim>\<open>data[off]\<close> is 0.\<close>

definition attr_count :: "string \<Rightarrow> dmi_header \<Rightarrow> nat \<Rightarrow> nat \<Rightarrow> nat \<Rightarrow> (st, unit) state" where
  "attr_count name h off n off2 = do {
     c \<leftarrow> data8 h off;
     if_then (c \<noteq> 0)
       (if n \<le> hlen h \<and> c = 0xFF then attr_u16 name h off2 else pr_attr name [U (unat c)]) }"

definition dmi_decode_processor :: "dmi_header \<Rightarrow> u16 \<Rightarrow> (st, unit) state" where
  "dmi_decode_processor h ver = do {
     pr_handle_name [Lit ''Processor Information''];
     brk (hlen h < 0x1A) (do {
     attr_str ''Socket Designation'' h 0x04;
     attr_look ''Type'' dmi_processor_type h 0x05;
     family \<leftarrow> dmi_processor_family h ver;
     pr_attr ''Family'' [S (Some family)];
     attr_str ''Manufacturer'' h 0x07;
     dmi_processor_id h;
     attr_str ''Version'' h 0x10;
     v \<leftarrow> data8 h 0x11;
     dmi_processor_voltage ''Voltage'' v;
     dmi_processor_frequency (Some ''External Clock'') (h_data h + 0x12);
     dmi_processor_frequency (Some ''Max Speed'') (h_data h + 0x14);
     dmi_processor_frequency (Some ''Current Speed'') (h_data h + 0x16);
     status \<leftarrow> data8 h 0x18;
     (if bit status 6
      then pr_attr ''Status'' [Lit ''Populated, '', S (dmi_processor_status (status AND 0x07))]
      else pr_attr ''Status'' [Lit ''Unpopulated'']);
     attr_look ''Upgrade'' dmi_processor_upgrade h 0x19;
     brk (hlen h < 0x20) (do {
     unless_quiet (do {
       l1 \<leftarrow> data16 h 0x1A; dmi_processor_cache ''L1 Cache Handle'' l1 ''L1'' ver;
       l2 \<leftarrow> data16 h 0x1C; dmi_processor_cache ''L2 Cache Handle'' l2 ''L2'' ver;
       l3 \<leftarrow> data16 h 0x1E; dmi_processor_cache ''L3 Cache Handle'' l3 ''L3'' ver });
     brk (hlen h < 0x23) (do {
     attr_str ''Serial Number'' h 0x20;
     attr_str ''Asset Tag'' h 0x21;
     attr_str ''Part Number'' h 0x22;
     brk (hlen h < 0x28) (do {
     attr_count ''Core Count'' h 0x23 0x2C 0x2A;
     attr_count ''Core Enabled'' h 0x24 0x2E 0x2C;
     attr_count ''Thread Count'' h 0x25 0x30 0x2E;
     if_then (0x32 \<le> hlen h) (do {
       w \<leftarrow> data16 h 0x30;
       if_then (w \<noteq> 0) (pr_attr ''Thread Enabled'' [U (unat w)]) });
     ch \<leftarrow> data16 h 0x26;
     dmi_processor_characteristics ''Characteristics'' ch }) }) }) }) }"

subsection \<open>The binary search\<close>

text \<open>Everything below \<open>low\<close> is smaller than the code, everything above \<open>high\<close> larger.\<close>

definition bsearch_inv :: "(nat \<times> string) list \<Rightarrow> nat \<Rightarrow> nat \<Rightarrow> nat \<Rightarrow> bool" where
  "bsearch_inv tbl code low high \<longleftrightarrow> low \<le> high \<and> high < length tbl
     \<and> (\<forall>j < low. fst (tbl ! j) < code) \<and> (\<forall>j < length tbl. high < j \<longrightarrow> code < fst (tbl ! j))"

definition family_name :: "(nat \<times> string) list \<Rightarrow> nat \<Rightarrow> string" where
  "family_name tbl code = (case map_of tbl code of Some n \<Rightarrow> n | None \<Rightarrow> out_of_spec)"

lemma sorted_fst_nth:
  "sorted_wrt (<) (map fst tbl) \<Longrightarrow> i < j \<Longrightarrow> j < length tbl \<Longrightarrow> fst (tbl ! i) < fst (tbl ! j)"
  using sorted_wrt_nth_less [of "(<)" "map fst tbl" i j] by simp

lemma map_of_nth_key:
  fixes tbl :: "(nat \<times> string) list"
  assumes "sorted_wrt (<) (map fst tbl)" "i < length tbl" "fst (tbl ! i) = code"
  shows "map_of tbl code = Some (snd (tbl ! i))"
proof -
  have "(code, snd (tbl ! i)) \<in> set tbl"
    using assms(2,3) by (metis nth_mem prod.collapse)
  moreover have "distinct (map fst tbl)" using assms(1) by (simp add: strict_sorted_iff)
  ultimately show ?thesis by simp
qed

lemma bsearch_from:
  assumes "sorted_wrt (<) (map fst tbl)" "bsearch_inv tbl code low high"
  shows "bsearch tbl code low high = Some (family_name tbl code)"
  using assms(2)
proof (induction "high - low" arbitrary: low high rule: less_induct)
  case less
  define i where "i = (low + high) div 2"
  have inv: "low \<le> high" "high < length tbl" "\<And>j. j < low \<Longrightarrow> fst (tbl ! j) < code"
    "\<And>j. j < length tbl \<Longrightarrow> high < j \<Longrightarrow> code < fst (tbl ! j)"
    using less.prems by (simp_all add: bsearch_inv_def)
  have i: "low \<le> i" "i \<le> high" using inv(1) by (simp_all add: i_def)
  note step = bsearch.simps [of tbl code low high, folded i_def, unfolded Let_def]
  show ?case
  proof (cases "fst (tbl ! i) = code")
    case True
    then show ?thesis
      using map_of_nth_key [OF assms(1), of i code] i inv(2) step by (simp add: family_name_def)
  next
    case neq: False
    show ?thesis
    proof (cases "low = high")
      case True
      then have "i = low" using i by simp
      then have "fst (tbl ! j) \<noteq> code" if "j < length tbl" for j
        using that neq inv True by (metis linorder_neqE_nat order_less_irrefl)
      then have "code \<notin> set (map fst tbl)" by (metis in_set_conv_nth length_map nth_map)
      then have "map_of tbl code = None" by (simp add: map_of_eq_None_iff)
      then show ?thesis using True neq step by (simp add: family_name_def)
    next
      case False
      then have lt: "low < high" "i < high" using inv(1) by (simp_all add: i_def)
      note ord = sorted_fst_nth [OF assms(1)]
      show ?thesis
      proof (cases "code < fst (tbl ! i)")
        case True
        then have "bsearch_inv tbl code low i"
          using inv i lt ord by (auto simp: bsearch_inv_def intro: less_trans)
        moreover have "i - low < high - low" using lt i by simp
        ultimately show ?thesis using less.hyps True False neq step by simp
      next
        case ge: False
        have below: "fst (tbl ! j) < code" if "j \<le> i" for j
          using ge neq ord [of j i] that lt inv(2) by (cases "j = i") fastforce+
        then have "bsearch_inv tbl code (i + 1) high"
          using inv i lt by (auto simp: bsearch_inv_def)
        moreover have "high - (i + 1) < high - low" using lt i by simp
        ultimately show ?thesis using less.hyps ge False neq step by simp
      qed
    qed
  qed
qed

lemma bsearch_correct:
  "sorted_wrt (<) (map fst tbl) \<Longrightarrow> tbl \<noteq> [] \<Longrightarrow>
   bsearch tbl code 0 (length tbl - 1) = Some (family_name tbl code)"
  by (rule bsearch_from) (auto simp: bsearch_inv_def)

text \<open>A linear check of the order.\<close>

fun ascending :: "nat list \<Rightarrow> bool" where
  "ascending [] = True"
| "ascending [x] = True"
| "ascending (x # y # zs) = (x < y \<and> ascending (y # zs))"

lemma ascending_sorted: "ascending xs \<Longrightarrow> sorted_wrt (<) xs"
proof (induction xs rule: ascending.induct)
  case (3 x y zs)
  then show ?case by fastforce
qed simp_all

lemma family2_sorted: "sorted_wrt (<) (map fst family2)"
proof (rule ascending_sorted)
  have "ascending (map fst family2)"
    unfolding family2_def family2_low_def family2_high_def by simp
  then show "ascending (map fst family2)" .
qed

lemma family_search: "bsearch family2 code 0 (length family2 - 1) = Some (family_name family2 code)"
  by (rule bsearch_correct [OF family2_sorted]) (simp add: family2_def family2_low_def)

subsection \<open>Safety\<close>

lemma safe_family_code [safe_intros]:
  assumes "h_data h + hlen h + 1 < length M" "0x06 < hlen h"
  shows "safe A M lo hi (family_code h)"
  using assms unfolding family_code_def by (intro safe_intros) simp_all

lemma safe_dmi_processor_family [safe_intros]:
  assumes "struct_ok M lo hi h" "0x06 < hlen h"
  shows "safe A M lo hi (dmi_processor_family h ver)"
  using assms struct_okD [OF assms(1)] unfolding dmi_processor_family_def family_search
  by (intro safe_intros) (simp_all add: safe_ret)

lemma safe_dmi_get_cpuid_type [safe_intros]:
  assumes "h_data h + hlen h + 1 < length M" "0x0A \<le> hlen h"
  shows "safe A M lo hi (dmi_get_cpuid_type h)"
  using assms unfolding dmi_get_cpuid_type_def
  by (intro safe_intros) simp_all

context attr_printer begin

lemma safe_print_cpuid:
  "(\<And>i. i < 4 \<or> sig = cpuid_arm_soc_id \<and> i < 8 \<Longrightarrow> safe A M lo hi (p i))
   \<Longrightarrow> safe A M lo hi (dmi_print_cpuid print_cb label sig p)"
  unfolding dmi_print_cpuid_def
  by (cases sig) (auto intro!: safe_intros safe_print_cb safe_le16 safe_le32)

end

lemmas safe_print_cpuid_attr [safe_intros] = attr.safe_print_cpuid

lemma safe_dmi_processor_id [safe_intros]:
  assumes "struct_ok M lo hi h" "0x10 \<le> hlen h"
  shows "safe A M lo hi (dmi_processor_id h)"
proof -
  have "args_ok (concat (map (\<lambda>i. (if i = 0 then [] else [Lit '' '']) @ [X 2 (unat (p ! i))]) [0..<8]))"
    for p :: "u8 list"
    by (simp add: args_ok_def list_all_iff)
  then show ?thesis
    using assms struct_okD [OF assms(1)] unfolding dmi_processor_id_def
    by (intro safe_intros) auto
qed

lemma safe_dmi_processor_voltage [safe_intros]: "safe A M lo hi (dmi_processor_voltage attr code)"
  unfolding dmi_processor_voltage_def Let_def
  by (intro safe_if safe_join_bits safe_if_then safe_pr_attr) (simp_all add: names_ok_def)

lemma safe_dmi_processor_frequency [safe_intros]:
  "p + 1 < length M \<Longrightarrow> safe A M lo hi (dmi_processor_frequency attr p)"
  unfolding dmi_processor_frequency_def by (intro safe_intros) simp_all

lemma safe_dmi_processor_cache [safe_intros]: "safe A M lo hi (dmi_processor_cache attr c level ver)"
  unfolding dmi_processor_cache_def by (intro safe_intros) simp_all

lemma safe_dmi_processor_characteristics [safe_intros]:
  "safe A M lo hi (dmi_processor_characteristics attr c)"
  unfolding dmi_processor_characteristics_def by (intro safe_intros) (auto simp: ok_simps)

lemma safe_attr_count [safe_intros]:
  assumes "struct_ok M lo hi h" "off < hlen h" "off2 + 2 \<le> n"
  shows "safe A M lo hi (attr_count name h off n off2)"
  using assms struct_okD [OF assms(1)] unfolding attr_count_def by (intro safe_intros) simp_all

lemma safe_dmi_decode_processor [safe_intros]:
  assumes "struct_ok M lo hi h" shows "safe A M lo hi (dmi_decode_processor h ver)"
  using assms struct_okD [OF assms] unfolding dmi_decode_processor_def
  by (intro safe_intros) (simp_all add: ok_simps)

end
