(* ===== verification/Lookups_Memory.thy ===== *)
theory Lookups_Memory
  imports Safe
begin

section \<open>Code tables: memory and caches\<close>

text \<open>
  The lookup functions of \<^verbatim>\<open>dmidecode.c\<close> for the structures of types 5 to 7, 16 to 18 and 37: each turns the code of a
  field into its name. A table is read through \<open>tab\<close>, which is \<open>None\<close> outside its bounds;
  codes are compared after promotion to \<^verbatim>\<open>int\<close>, here \<open>nat\<close>. The lemmas say for each function
  that it is total, or, for those that index without a test, on which codes it is defined.
\<close>

definition dmi_memory_controller_ed_method :: "u8 \<Rightarrow> cstr" where
  "dmi_memory_controller_ed_method code = (let c = unat code;
     method = [''Other'', ''Unknown'', ''None'', ''8-bit Parity'', ''32-bit ECC'',
               ''64-bit ECC'', ''128-bit ECC'', ''CRC'']
   in if 0x01 \<le> c \<and> c \<le> 0x08 then tab method (c - 0x01)
      else Some out_of_spec)"

definition dmi_memory_controller_interleave :: "u8 \<Rightarrow> cstr" where
  "dmi_memory_controller_interleave code = (let c = unat code;
     interleave = [''Other'', ''Unknown'', ''One-way Interleave'', ''Two-way Interleave'',
                   ''Four-way Interleave'', ''Eight-way Interleave'',
                   ''Sixteen-way Interleave'']
   in if 0x01 \<le> c \<and> c \<le> 0x07 then tab interleave (c - 0x01)
      else Some out_of_spec)"

definition dmi_cache_mode :: "u8 \<Rightarrow> cstr" where
  "dmi_cache_mode code = (let c = unat code;
     mode = [''Write Through'', ''Write Back'', ''Varies With Memory Address'', ''Unknown'']
   in tab mode c)"

definition dmi_cache_location :: "u8 \<Rightarrow> cstr" where
  "dmi_cache_location code = (let c = unat code;
     location = [''Internal'', ''External'', out_of_spec, ''Unknown'']
   in tab location c)"

definition dmi_cache_ec_type :: "u8 \<Rightarrow> cstr" where
  "dmi_cache_ec_type code = (let c = unat code;
     type = [''Other'', ''Unknown'', ''None'', ''Parity'', ''Single-bit ECC'',
             ''Multi-bit ECC'']
   in if 0x01 \<le> c \<and> c \<le> 0x06 then tab type (c - 0x01)
      else Some out_of_spec)"

definition dmi_cache_type :: "u8 \<Rightarrow> cstr" where
  "dmi_cache_type code = (let c = unat code;
     type = [''Other'', ''Unknown'', ''Instruction'', ''Data'', ''Unified'']
   in if 0x01 \<le> c \<and> c \<le> 0x05 then tab type (c - 0x01)
      else Some out_of_spec)"

definition dmi_cache_associativity :: "u8 \<Rightarrow> cstr" where
  "dmi_cache_associativity code = (let c = unat code;
     type = [''Other'', ''Unknown'', ''Direct Mapped'', ''2-way Set-associative'',
             ''4-way Set-associative'', ''Fully Associative'', ''8-way Set-associative'',
             ''16-way Set-associative'', ''12-way Set-associative'',
             ''24-way Set-associative'', ''32-way Set-associative'',
             ''48-way Set-associative'', ''64-way Set-associative'',
             ''20-way Set-associative'']
   in if 0x01 \<le> c \<and> c \<le> 0x0E then tab type (c - 0x01)
      else Some out_of_spec)"

definition dmi_memory_array_location :: "u8 \<Rightarrow> cstr" where
  "dmi_memory_array_location code = (let c = unat code;
     location = [''Other'', ''Unknown'', ''System Board Or Motherboard'',
                 ''ISA Add-on Card'', ''EISA Add-on Card'', ''PCI Add-on Card'',
                 ''MCA Add-on Card'', ''PCMCIA Add-on Card'', ''Proprietary Add-on Card'',
                 ''NuBus''];
     location_0xA0 = [''PC-98/C20 Add-on Card'', ''PC-98/C24 Add-on Card'',
                      ''PC-98/E Add-on Card'', ''PC-98/Local Bus Add-on Card'',
                      ''CXL Add-on Card'']
   in if 0x01 \<le> c \<and> c \<le> 0x0A then tab location (c - 0x01)
      else if 0xA0 \<le> c \<and> c \<le> 0xA4 then tab location_0xA0 (c - 0xA0)
      else Some out_of_spec)"

definition dmi_memory_array_use :: "u8 \<Rightarrow> cstr" where
  "dmi_memory_array_use code = (let c = unat code;
     use_tbl = [''Other'', ''Unknown'', ''System Memory'', ''Video Memory'',
                ''Flash Memory'', ''Non-volatile RAM'', ''Cache Memory'']
   in if 0x01 \<le> c \<and> c \<le> 0x07 then tab use_tbl (c - 0x01)
      else Some out_of_spec)"

definition dmi_memory_array_ec_type :: "u8 \<Rightarrow> cstr" where
  "dmi_memory_array_ec_type code = (let c = unat code;
     type = [''Other'', ''Unknown'', ''None'', ''Parity'', ''Single-bit ECC'',
             ''Multi-bit ECC'', ''CRC'']
   in if 0x01 \<le> c \<and> c \<le> 0x07 then tab type (c - 0x01)
      else Some out_of_spec)"

definition dmi_memory_device_form_factor :: "u8 \<Rightarrow> cstr" where
  "dmi_memory_device_form_factor code = (let c = unat code;
     form_factor = [''Other'', ''Unknown'', ''SIMM'', ''SIP'', ''Chip'', ''DIP'', ''ZIP'',
                    ''Proprietary Card'', ''DIMM'', ''TSOP'', ''Row Of Chips'', ''RIMM'',
                    ''SODIMM'', ''SRIMM'', ''FB-DIMM'', ''Die'']
   in if 0x01 \<le> c \<and> c \<le> 0x10 then tab form_factor (c - 0x01)
      else Some out_of_spec)"

definition dmi_memory_device_type :: "u8 \<Rightarrow> cstr" where
  "dmi_memory_device_type code = (let c = unat code;
     type = [''Other'', ''Unknown'', ''DRAM'', ''EDRAM'', ''VRAM'', ''SRAM'', ''RAM'',
             ''ROM'', ''Flash'', ''EEPROM'', ''FEPROM'', ''EPROM'', ''CDRAM'', ''3DRAM'',
             ''SDRAM'', ''SGRAM'', ''RDRAM'', ''DDR'', ''DDR2'', ''DDR2 FB-DIMM'',
             ''Reserved'', ''Reserved'', ''Reserved'', ''DDR3'', ''FBD2'', ''DDR4'',
             ''LPDDR'', ''LPDDR2'', ''LPDDR3'', ''LPDDR4'', ''Logical non-volatile device'',
             ''HBM'', ''HBM2'', ''DDR5'', ''LPDDR5'', ''HBM3'']
   in if 0x01 \<le> c \<and> c \<le> 0x24 then tab type (c - 0x01)
      else Some out_of_spec)"

definition dmi_memory_error_type :: "u8 \<Rightarrow> cstr" where
  "dmi_memory_error_type code = (let c = unat code;
     type = [''Other'', ''Unknown'', ''OK'', ''Bad Read'', ''Parity Error'',
             ''Single-bit Error'', ''Double-bit Error'', ''Multi-bit Error'',
             ''Nibble Error'', ''Checksum Error'', ''CRC Error'',
             ''Corrected Single-bit Error'', ''Corrected Error'', ''Uncorrectable Error'']
   in if 0x01 \<le> c \<and> c \<le> 0x0E then tab type (c - 0x01)
      else Some out_of_spec)"

definition dmi_memory_error_granularity :: "u8 \<Rightarrow> cstr" where
  "dmi_memory_error_granularity code = (let c = unat code;
     granularity = [''Other'', ''Unknown'', ''Device Level'', ''Memory Partition Level'']
   in if 0x01 \<le> c \<and> c \<le> 0x04 then tab granularity (c - 0x01)
      else Some out_of_spec)"

definition dmi_memory_error_operation :: "u8 \<Rightarrow> cstr" where
  "dmi_memory_error_operation code = (let c = unat code;
     operation = [''Other'', ''Unknown'', ''Read'', ''Write'', ''Partial Write'']
   in if 0x01 \<le> c \<and> c \<le> 0x05 then tab operation (c - 0x01)
      else Some out_of_spec)"

definition dmi_memory_channel_type :: "u8 \<Rightarrow> cstr" where
  "dmi_memory_channel_type code = (let c = unat code;
     type = [''Other'', ''Unknown'', ''RamBus'', ''SyncLink'']
   in if 0x01 \<le> c \<and> c \<le> 0x04 then tab type (c - 0x01)
      else Some out_of_spec)"

subsection \<open>No table is read outside its bounds\<close>

lemma dmi_memory_controller_ed_method_total [ok_simps]: "dmi_memory_controller_ed_method code \<noteq> None"
  by (auto simp: dmi_memory_controller_ed_method_def Let_def tab_def tab_opt_def)

lemma dmi_memory_controller_interleave_total [ok_simps]: "dmi_memory_controller_interleave code \<noteq> None"
  by (auto simp: dmi_memory_controller_interleave_def Let_def tab_def tab_opt_def)

lemma dmi_cache_mode_total [ok_simps]: "dmi_cache_mode code = None \<longleftrightarrow> 4 \<le> unat code"
  by (auto simp: dmi_cache_mode_def Let_def tab_def)

lemma dmi_cache_location_total [ok_simps]: "dmi_cache_location code = None \<longleftrightarrow> 4 \<le> unat code"
  by (auto simp: dmi_cache_location_def Let_def tab_def)

lemma dmi_cache_ec_type_total [ok_simps]: "dmi_cache_ec_type code \<noteq> None"
  by (auto simp: dmi_cache_ec_type_def Let_def tab_def tab_opt_def)

lemma dmi_cache_type_total [ok_simps]: "dmi_cache_type code \<noteq> None"
  by (auto simp: dmi_cache_type_def Let_def tab_def tab_opt_def)

lemma dmi_cache_associativity_total [ok_simps]: "dmi_cache_associativity code \<noteq> None"
  by (auto simp: dmi_cache_associativity_def Let_def tab_def tab_opt_def)

lemma dmi_memory_array_location_total [ok_simps]: "dmi_memory_array_location code \<noteq> None"
  by (auto simp: dmi_memory_array_location_def Let_def tab_def tab_opt_def)

lemma dmi_memory_array_use_total [ok_simps]: "dmi_memory_array_use code \<noteq> None"
  by (auto simp: dmi_memory_array_use_def Let_def tab_def tab_opt_def)

lemma dmi_memory_array_ec_type_total [ok_simps]: "dmi_memory_array_ec_type code \<noteq> None"
  by (auto simp: dmi_memory_array_ec_type_def Let_def tab_def tab_opt_def)

lemma dmi_memory_device_form_factor_total [ok_simps]: "dmi_memory_device_form_factor code \<noteq> None"
  by (auto simp: dmi_memory_device_form_factor_def Let_def tab_def tab_opt_def)

lemma dmi_memory_device_type_total [ok_simps]: "dmi_memory_device_type code \<noteq> None"
  by (auto simp: dmi_memory_device_type_def Let_def tab_def tab_opt_def)

lemma dmi_memory_error_type_total [ok_simps]: "dmi_memory_error_type code \<noteq> None"
  by (auto simp: dmi_memory_error_type_def Let_def tab_def tab_opt_def)

lemma dmi_memory_error_granularity_total [ok_simps]: "dmi_memory_error_granularity code \<noteq> None"
  by (auto simp: dmi_memory_error_granularity_def Let_def tab_def tab_opt_def)

lemma dmi_memory_error_operation_total [ok_simps]: "dmi_memory_error_operation code \<noteq> None"
  by (auto simp: dmi_memory_error_operation_def Let_def tab_def tab_opt_def)

lemma dmi_memory_channel_type_total [ok_simps]: "dmi_memory_channel_type code \<noteq> None"
  by (auto simp: dmi_memory_channel_type_def Let_def tab_def tab_opt_def)

end
