(* ===== verification/Memory_Modules.thy ===== *)
theory Memory_Modules
  imports Processor Lookups_Memory
begin

section \<open>Memory controller, memory module, cache (types 5 to 7)\<close>

text \<open>
  Sections 7.6 to 7.8. Two of the printers shift 1 by a byte of the table: the case of type 5
  by \<^verbatim>\<open>data[0x08]\<close> and \<^verbatim>\<open>dmi_memory_module_size\<close> by the low seven bits of its code. The
  safety of these cases therefore allows \<open>BadShift\<close>; \<open>module_size_faults\<close> gives the codes for
  which the shift is undefined.
\<close>

subsection \<open>Memory controller\<close>

definition dmi_memory_controller_ec_capabilities :: "string \<Rightarrow> u8 \<Rightarrow> (st, unit) state" where
  "dmi_memory_controller_ec_capabilities attr code = (let capabilities =
       [''Other'', ''Unknown'', ''None'', ''Single-bit Error Correcting'',
        ''Double-bit Error Correcting'', ''Error Scrubbing'']
     in if code AND 0x3F = 0 then pr_attr attr [Lit ''None'']
     else do {
       pr_list_start attr None;
       for_bits 0 5 code (\<lambda>i. pr_list_item [S (tab capabilities i)]);
       pr_list_end })"

definition dmi_memory_controller_speeds :: "string \<Rightarrow> u16 \<Rightarrow> (st, unit) state" where
  "dmi_memory_controller_speeds attr code = (let speeds =
       [''Other'', ''Unknown'', ''70 ns'', ''60 ns'', ''50 ns'']
     in if code AND 0x001F = 0 then pr_attr attr [Lit ''None'']
     else do {
       pr_list_start attr None;
       for_bits 0 4 code (\<lambda>i. pr_list_item [S (tab speeds i)]);
       pr_list_end })"

definition dmi_memory_controller_slots :: "u8 \<Rightarrow> nat \<Rightarrow> (st, unit) state" where
  "dmi_memory_controller_slots count p = do {
     pr_list_start ''Associated Memory Slots'' (Some [U (unat count)]);
     for_each [0..<unat count] (\<lambda>i. do {
       w \<leftarrow> WORD (p + 2 * i); pr_list_item [Lit ''0x'', X 4 (unat w)] });
     pr_list_end }"

subsection \<open>Memory module\<close>

definition memory_module_types_tbl :: "string list" where
  "memory_module_types_tbl =
    [''Other'', ''Unknown'', ''Standard'', ''FPM'', ''EDO'', ''Parity'', ''ECC'', ''SIMM'',
     ''DIMM'', ''Burst EDO'', ''SDRAM'']"

definition dmi_memory_module_types :: "string \<Rightarrow> u16 \<Rightarrow> bool \<Rightarrow> (st, unit) state" where
  "dmi_memory_module_types attr code flat =
     (if code AND 0x07FF = 0 then pr_attr attr [Lit ''None'']
      else if flat then do {
        type_str \<leftarrow> join_bits 68 [0..<11] code (tab memory_module_types_tbl) [];
        if_then (type_str \<noteq> []) (pr_attr attr [Fmt type_str]) }
      else do {
        pr_list_start attr None;
        for_bits 0 10 code (\<lambda>i. pr_list_item [S (tab memory_module_types_tbl i)]);
        pr_list_end })"

definition dmi_memory_module_connections :: "u8 \<Rightarrow> (st, unit) state" where
  "dmi_memory_module_connections code =
     (if code = 0xFF then pr_attr ''Bank Connections'' [Lit ''None'']
      else if code AND 0xF0 = 0xF0 then pr_attr ''Bank Connections'' [U (unat (code AND 0x0F))]
      else if code AND 0x0F = 0x0F then pr_attr ''Bank Connections'' [U (unat (drop_bit 4 code))]
      else pr_attr ''Bank Connections''
        [U (unat (drop_bit 4 code)), Lit '' '', U (unat (code AND 0x0F))])"

definition dmi_memory_module_speed :: "string \<Rightarrow> u8 \<Rightarrow> (st, unit) state" where
  "dmi_memory_module_speed attr code =
     (if code = 0 then pr_attr attr [Lit ''Unknown'']
      else pr_attr attr [U (unat code), Lit '' ns''])"

definition dmi_memory_module_size :: "string \<Rightarrow> u8 \<Rightarrow> (st, unit) state" where
  "dmi_memory_module_size attr code = (let
     connection = (if code AND 0x80 \<noteq> 0 then '' (Double-bank Connection)''
                   else '' (Single-bank Connection)'');
     n = code AND 0x7F
   in if n = 0x7D then pr_attr attr [Lit ''Not Determinable'', S (Some connection)]
      else if n = 0x7E then pr_attr attr [Lit ''Disabled'', S (Some connection)]
      else if n = 0x7F then pr_attr attr [Lit ''Not Installed'']
      else do { size \<leftarrow> shl1 (unat n);
        pr_attr attr [U (unat size), Lit '' MiB'', S (Some connection)] })"

definition dmi_memory_module_error :: "u8 \<Rightarrow> (st, unit) state" where
  "dmi_memory_module_error code = (let status =
       [''OK'', ''Uncorrectable Errors'', ''Correctable Errors'',
        ''Correctable and Uncorrectable Errors'']
     in if bit code 2 then pr_attr ''Error Status'' [Lit ''See Event Log'']
        else pr_attr ''Error Status'' [S (tab status (unat (code AND 0x03)))])"

subsection \<open>Cache\<close>

definition dmi_cache_size_2 :: "string \<Rightarrow> u32 \<Rightarrow> (st, unit) state" where
  "dmi_cache_size_2 attr code = (let
     size = (if code AND 0x80000000 \<noteq> 0 then push_bit 6 (ucast (code AND 0x7FFFFFFF))
             else ucast code :: u64)
   in dmi_print_memory_size attr size 1)"

definition dmi_cache_size :: "string \<Rightarrow> u16 \<Rightarrow> (st, unit) state" where
  "dmi_cache_size attr code =
     dmi_cache_size_2 attr (push_bit 16 (ucast code AND 0x8000) OR ucast (code AND 0x7FFF))"

definition cache_types_tbl :: "string list" where
  "cache_types_tbl =
    [''Other'', ''Unknown'', ''Non-burst'', ''Burst'', ''Pipeline Burst'', ''Synchronous'',
     ''Asynchronous'']"

definition dmi_cache_types :: "string \<Rightarrow> u16 \<Rightarrow> bool \<Rightarrow> (st, unit) state" where
  "dmi_cache_types attr code flat =
     (if code AND 0x007F = 0 then pr_attr attr [Lit ''None'']
      else if flat then do {
        type_str \<leftarrow> join_bits 70 [0..<7] code (tab cache_types_tbl) [];
        if_then (type_str \<noteq> []) (pr_attr attr [Fmt type_str]) }
      else do {
        pr_list_start attr None;
        for_bits 0 6 code (\<lambda>i. pr_list_item [S (tab cache_types_tbl i)]);
        pr_list_end })"

subsection \<open>The cases of dmi_decode\<close>

definition dmi_decode_memory_controller :: "dmi_header \<Rightarrow> u16 \<Rightarrow> (st, unit) state" where
  "dmi_decode_memory_controller h ver = do {
     pr_handle_name [Lit ''Memory Controller Information''];
     brk (hlen h < 0x0F) (do {
     attr_look ''Error Detecting Method'' dmi_memory_controller_ed_method h 0x04;
     b5 \<leftarrow> data8 h 0x05;
     dmi_memory_controller_ec_capabilities ''Error Correcting Capabilities'' b5;
     attr_look ''Supported Interleave'' dmi_memory_controller_interleave h 0x06;
     attr_look ''Current Interleave'' dmi_memory_controller_interleave h 0x07;
     b8 \<leftarrow> data8 h 0x08;
     size \<leftarrow> shl1 (unat b8);
     pr_attr ''Maximum Memory Module Size'' [U (unat size), Lit '' MiB''];
     n \<leftarrow> data8 h 0x0E;
     size2 \<leftarrow> shl1 (unat b8);
     pr_attr ''Maximum Total Memory Size'' [U (unat (ucast n * size2)), Lit '' MiB''];
     w9 \<leftarrow> data16 h 0x09;
     dmi_memory_controller_speeds ''Supported Speeds'' w9;
     wB \<leftarrow> data16 h 0x0B;
     dmi_memory_module_types ''Supported Memory Types'' wB False;
     bD \<leftarrow> data8 h 0x0D;
     dmi_processor_voltage ''Memory Module Voltage'' bD;
     brk (hlen h < 0x0F + unat n * 2) (do {
     dmi_memory_controller_slots n (h_data h + 0x0F);
     brk (hlen h < 0x10 + unat n * 2) (do {
     e \<leftarrow> data8 h (0x0F + unat n * 2);
     dmi_memory_controller_ec_capabilities ''Enabled Error Correcting Capabilities'' e }) }) }) }"

definition dmi_decode_memory_module :: "dmi_header \<Rightarrow> u16 \<Rightarrow> (st, unit) state" where
  "dmi_decode_memory_module h ver = do {
     pr_handle_name [Lit ''Memory Module Information''];
     brk (hlen h < 0x0C) (do {
     attr_str ''Socket Designation'' h 0x04;
     b5 \<leftarrow> data8 h 0x05; dmi_memory_module_connections b5;
     b6 \<leftarrow> data8 h 0x06; dmi_memory_module_speed ''Current Speed'' b6;
     w7 \<leftarrow> data16 h 0x07; dmi_memory_module_types ''Type'' w7 True;
     b9 \<leftarrow> data8 h 0x09; dmi_memory_module_size ''Installed Size'' b9;
     bA \<leftarrow> data8 h 0x0A; dmi_memory_module_size ''Enabled Size'' bA;
     bB \<leftarrow> data8 h 0x0B; dmi_memory_module_error bB }) }"

definition dmi_decode_cache :: "dmi_header \<Rightarrow> u16 \<Rightarrow> (st, unit) state" where
  "dmi_decode_cache h ver = do {
     pr_handle_name [Lit ''Cache Information''];
     brk (hlen h < 0x0F) (do {
     attr_str ''Socket Designation'' h 0x04;
     w5 \<leftarrow> data16 h 0x05;
     pr_attr ''Configuration'' [yes_no (w5 AND 0x0080 \<noteq> 0) ''Enabled'' ''Disabled'', Lit '', '',
       yes_no (w5 AND 0x0008 \<noteq> 0) ''Socketed'' ''Not Socketed'', Lit '', Level '',
       U (unat (w5 AND 0x0007) + 1)];
     pr_attr ''Operational Mode'' [S (dmi_cache_mode (ucast (drop_bit 8 w5 AND 0x0003)))];
     pr_attr ''Location'' [S (dmi_cache_location (ucast (drop_bit 5 w5 AND 0x0003)))];
     (if 0x1B \<le> hlen h then do { d \<leftarrow> data32 h 0x17; dmi_cache_size_2 ''Installed Size'' d }
      else do { w \<leftarrow> data16 h 0x09; dmi_cache_size ''Installed Size'' w });
     (if 0x17 \<le> hlen h then do { d \<leftarrow> data32 h 0x13; dmi_cache_size_2 ''Maximum Size'' d }
      else do { w \<leftarrow> data16 h 0x07; dmi_cache_size ''Maximum Size'' w });
     wB \<leftarrow> data16 h 0x0B; dmi_cache_types ''Supported SRAM Types'' wB False;
     wD \<leftarrow> data16 h 0x0D; dmi_cache_types ''Installed SRAM Type'' wD True;
     brk (hlen h < 0x13) (do {
     bF \<leftarrow> data8 h 0x0F; dmi_memory_module_speed ''Speed'' bF;
     attr_look ''Error Correction Type'' dmi_cache_ec_type h 0x10;
     attr_look ''System Type'' dmi_cache_type h 0x11;
     attr_look ''Associativity'' dmi_cache_associativity h 0x12 }) }) }"

subsection \<open>Safety\<close>

lemma safe_dmi_memory_controller_ec_capabilities [safe_intros]:
  "safe A M lo hi (dmi_memory_controller_ec_capabilities attr c)"
  unfolding dmi_memory_controller_ec_capabilities_def by (intro safe_intros) (auto simp: ok_simps)

lemma safe_dmi_memory_controller_speeds [safe_intros]:
  "safe A M lo hi (dmi_memory_controller_speeds attr c)"
  unfolding dmi_memory_controller_speeds_def by (intro safe_intros) (auto simp: ok_simps)

lemma safe_dmi_memory_controller_slots [safe_intros]:
  "p + 2 * unat n \<le> length M \<Longrightarrow> safe A M lo hi (dmi_memory_controller_slots n p)"
  unfolding dmi_memory_controller_slots_def by (intro safe_intros) auto

lemma safe_dmi_memory_module_types [safe_intros]:
  "safe A M lo hi (dmi_memory_module_types attr c flat)"
  unfolding dmi_memory_module_types_def
  by (intro safe_if safe_join_bits safe_if_then safe_pr_attr safe_bind safe_pr_list_start
      safe_for_bits safe_pr_list_item safe_pr_list_end)
     (auto simp: ok_simps names_ok_def memory_module_types_tbl_def upt_rec)

lemma safe_dmi_memory_module_connections [safe_intros]:
  "safe A M lo hi (dmi_memory_module_connections c)"
  unfolding dmi_memory_module_connections_def by (intro safe_intros) auto

lemma safe_dmi_memory_module_speed [safe_intros]: "safe A M lo hi (dmi_memory_module_speed attr c)"
  unfolding dmi_memory_module_speed_def by (intro safe_intros) auto

text \<open>The shift is undefined exactly for the size exponents 32 to 124.\<close>

lemma module_size_shift:
  "unat (c AND 0x7F) < 32 \<or> 0x7D \<le> unat (c AND 0x7F) \<Longrightarrow>
   c AND 0x7F \<noteq> 0x7D \<Longrightarrow> c AND 0x7F \<noteq> 0x7E \<Longrightarrow> c AND 0x7F \<noteq> 0x7F \<Longrightarrow> unat (c AND 0x7F) < 32"
  for c :: u8
  using unat_and_le_right [of c "0x7F"] by (auto simp: word_unat_eq_iff)

lemma safe_dmi_memory_module_size [safe_intros]:
  "BadShift \<in> A \<or> unat (c AND 0x7F) < 32 \<or> 0x7D \<le> unat (c AND 0x7F)
   \<Longrightarrow> safe A M lo hi (dmi_memory_module_size attr c)"
  unfolding dmi_memory_module_size_def Let_def using module_size_shift [of c]
  by (intro safe_intros) auto

lemma module_size_faults:
  "st_faults (snd (run_state (dmi_memory_module_size attr c) s)) = st_faults s
     @ (if 32 \<le> unat (c AND 0x7F) \<and> unat (c AND 0x7F) < 0x7D then [BadShift] else [])"
  using module_size_shift [of c]
  by (auto simp: dmi_memory_module_size_def Let_def pr_attr_def print_def emit_def shl1_def fault_def
      not_less)

lemma safe_dmi_memory_module_error [safe_intros]: "safe A M lo hi (dmi_memory_module_error c)"
  unfolding dmi_memory_module_error_def by (intro safe_intros) (simp_all add: ok_simps)

lemma safe_dmi_cache_size_2 [safe_intros]: "safe A M lo hi (dmi_cache_size_2 attr c)"
  unfolding dmi_cache_size_2_def by (intro safe_intros) simp_all

lemma safe_dmi_cache_size [safe_intros]: "safe A M lo hi (dmi_cache_size attr c)"
  unfolding dmi_cache_size_def by (intro safe_intros)

lemma safe_dmi_cache_types [safe_intros]: "safe A M lo hi (dmi_cache_types attr c flat)"
  unfolding dmi_cache_types_def
  by (intro safe_if safe_join_bits safe_if_then safe_pr_attr safe_bind safe_pr_list_start
      safe_for_bits safe_pr_list_item safe_pr_list_end)
     (auto simp: ok_simps names_ok_def cache_types_tbl_def upt_rec)

lemma safe_dmi_decode_memory_controller [safe_intros]:
  assumes "struct_ok M lo hi h" "BadShift \<in> A"
  shows "safe A M lo hi (dmi_decode_memory_controller h ver)"
  using assms struct_okD [OF assms(1)] unfolding dmi_decode_memory_controller_def
  by (intro safe_intros) (simp_all add: ok_simps)

lemma safe_dmi_decode_memory_module [safe_intros]:
  assumes "struct_ok M lo hi h" "BadShift \<in> A"
  shows "safe A M lo hi (dmi_decode_memory_module h ver)"
  using assms struct_okD [OF assms(1)] unfolding dmi_decode_memory_module_def
  by (intro safe_intros) simp_all

lemma safe_dmi_decode_cache [safe_intros]:
  assumes "struct_ok M lo hi h" shows "safe A M lo hi (dmi_decode_cache h ver)"
  using assms struct_okD [OF assms] unfolding dmi_decode_cache_def
  by (intro safe_intros) (simp_all add: ok_simps)

end
