(* ===== verification/Slots.thy ===== *)
theory Slots
  imports Struct_Fields Lookups_System
begin

section \<open>Ports, slots, on-board devices, strings, event log (types 8 to 15)\<close>

text \<open>
  Sections 7.9 to 7.16. The names numbered \<^verbatim>\<open>String 1\<close>, \<^verbatim>\<open>Peer Device 1\<close> and so on are
  formatted into local arrays; the safety lemmas show that the arrays are large enough for
  every count a table can hold.
\<close>

subsection \<open>Slots\<close>

text \<open>The PCI Express cases of the two switches.\<close>

definition pcie_slot :: "u8 \<Rightarrow> bool" where
  "pcie_slot type = (let t = unat type in
     (0x1F \<le> t \<and> t \<le> 0x23) \<or> (0xA5 \<le> t \<and> t \<le> 0xB6) \<or> (0xB8 \<le> t \<and> t \<le> 0xC4))"

definition dmi_slot_id :: "u8 \<Rightarrow> u8 \<Rightarrow> u8 \<Rightarrow> (st, unit) state" where
  "dmi_slot_id code1 code2 type =
     (if type \<in> set [0x04, 0x05] then pr_attr ''ID'' [U (unat code1)]
      else if type \<in> set [0x06, 0x0E, 0x0F, 0x10, 0x11, 0x12, 0x13] \<or> pcie_slot type
      then pr_attr ''ID'' [U (unat code1)]
      else if type = 0x07
      then pr_attr ''ID'' [Lit ''Adapter '', U (unat code1), Lit '', Socket '', U (unat code2)]
      else ret ())"

definition dmi_slot_characteristics :: "string \<Rightarrow> u8 \<Rightarrow> u8 \<Rightarrow> (st, unit) state" where
  "dmi_slot_characteristics attr code1 code2 = (let
     characteristics1 =
       [''5.0 V is provided'', ''3.3 V is provided'', ''Opening is shared'',
        ''PC Card-16 is supported'', ''Cardbus is supported'', ''Zoom Video is supported'',
        ''Modem ring resume is supported''];
     characteristics2 =
       [''PME signal is supported'', ''Hot-plug devices are supported'',
        ''SMBus signal is supported'', ''PCIe slot bifurcation is supported'',
        ''Async/surprise removal is supported'', ''Flexbus slot, CXL 1.0 capable'',
        ''Flexbus slot, CXL 2.0 capable'', ''Flexbus slot, CXL 3.0 capable'']
   in if bit code1 0 then pr_attr attr [Lit ''Unknown'']
      else if code1 AND 0xFE = 0 \<and> code2 = 0 then pr_attr attr [Lit ''None'']
      else do {
        pr_list_start attr None;
        for_bits 1 7 code1 (\<lambda>i. pr_list_item [S (tab characteristics1 (i - 1))]);
        for_bits 0 7 code2 (\<lambda>i. pr_list_item [S (tab characteristics2 i)]);
        pr_list_end })"

definition dmi_slot_segment_bus_func :: "u16 \<Rightarrow> u8 \<Rightarrow> u8 \<Rightarrow> (st, unit) state" where
  "dmi_slot_segment_bus_func code1 code2 code3 =
     if_then (\<not> (code1 = 0xFFFF \<and> code2 = 0xFF \<and> code3 = 0xFF))
       (pr_attr ''Bus Address'' [XL 4 (unat code1), Lit '':'', XL 2 (unat code2), Lit '':'',
          XL 2 (unat (drop_bit 3 code3)), Lit ''.'', XL 0 (unat (code3 AND 0x7))])"

definition dmi_slot_peers :: "u8 \<Rightarrow> nat \<Rightarrow> (st, unit) state" where
  "dmi_slot_peers n data = for_each [1..<unat n + 1] (\<lambda>i. do {
     let p = data + 5 * (i - 1);
     attr \<leftarrow> sprintf 16 [Lit ''Peer Device '', U (unat (of_nat i :: u8))];
     w \<leftarrow> WORD p; b2 \<leftarrow> rd8 (p + 2); b3 \<leftarrow> rd8 (p + 3); b4 \<leftarrow> rd8 (p + 4);
     pr_attr attr [XL 4 (unat w), Lit '':'', XL 2 (unat b2), Lit '':'',
       XL 2 (unat (drop_bit 3 b3)), Lit ''.'', XL 0 (unat (b3 AND 0x07)),
       Lit '' (Width '', U (unat b4), Lit '')''] })"

definition dmi_slot_information :: "u8 \<Rightarrow> u8 \<Rightarrow> (st, unit) state" where
  "dmi_slot_information type code =
     if_then (pcie_slot type \<and> code \<noteq> 0) (pr_attr ''PCI Express Generation'' [U (unat code)])"

definition dmi_slot_physical_width :: "u8 \<Rightarrow> (st, unit) state" where
  "dmi_slot_physical_width code =
     if_then (code \<noteq> 0) (pr_attr ''Slot Physical Width'' [S (dmi_slot_bus_width code)])"

definition dmi_slot_pitch :: "u16 \<Rightarrow> (st, unit) state" where
  "dmi_slot_pitch code = if_then (code \<noteq> 0)
     (pr_attr ''Pitch'' [U (unat code div 100), Lit ''.'', UW 2 (unat code mod 100), Lit '' mm''])"

subsection \<open>On-board devices, strings, languages, groups\<close>

definition dmi_on_board_devices :: "dmi_header \<Rightarrow> (st, unit) state" where
  "dmi_on_board_devices h = (let
     p = h_data h + 4;
     count = (word_of_int (cdiv (int (hlen h) - 0x04) 2) :: u8)
   in for_each [0..<unat count] (\<lambda>i. do {
     (if count = 1 then pr_handle_name [Lit ''On Board Device Information'']
      else pr_handle_name [Lit ''On Board Device '', U (i + 1), Lit '' Information'']);
     type \<leftarrow> rd8 (p + 2 * i);
     pr_attr ''Type'' [S (dmi_on_board_devices_type (type AND 0x7F))];
     pr_attr ''Status'' [yes_no (type AND 0x80 \<noteq> 0) ''Enabled'' ''Disabled''];
     c \<leftarrow> rd8 (p + 2 * i + 1);
     s \<leftarrow> dmi_string h c;
     pr_attr ''Description'' [S (Some s)] }))"

definition dmi_oem_strings :: "dmi_header \<Rightarrow> (st, unit) state" where
  "dmi_oem_strings h = do {
     count \<leftarrow> rd8 (h_data h + 4);
     for_each [1..<unat count + 1] (\<lambda>i. do {
       attr \<leftarrow> sprintf 11 [Lit ''String '', U (unat (of_nat i :: u8))];
       s \<leftarrow> dmi_string h (of_nat i);
       pr_attr attr [S (Some s)] }) }"

definition dmi_system_configuration_options :: "dmi_header \<Rightarrow> (st, unit) state" where
  "dmi_system_configuration_options h = do {
     count \<leftarrow> rd8 (h_data h + 4);
     for_each [1..<unat count + 1] (\<lambda>i. do {
       attr \<leftarrow> sprintf 11 [Lit ''Option '', U (unat (of_nat i :: u8))];
       s \<leftarrow> dmi_string h (of_nat i);
       pr_attr attr [S (Some s)] }) }"

definition dmi_bios_languages :: "dmi_header \<Rightarrow> (st, unit) state" where
  "dmi_bios_languages h = do {
     count \<leftarrow> rd8 (h_data h + 4);
     for_each [1..<unat count + 1] (\<lambda>i. do {
       s \<leftarrow> dmi_string h (of_nat i);
       pr_list_item [S (Some s)] }) }"

definition dmi_group_associations_items :: "u8 \<Rightarrow> nat \<Rightarrow> (st, unit) state" where
  "dmi_group_associations_items count p = for_each [0..<unat count] (\<lambda>i. do {
     w \<leftarrow> WORD (p + 3 * i + 1);
     b \<leftarrow> rd8 (p + 3 * i);
     pr_list_item [Lit ''0x'', X 4 (unat w), Lit '' ('', S (dmi_smbios_structure_type b), Lit '')''] })"

subsection \<open>Event log\<close>

definition dmi_event_log_status :: "u8 \<Rightarrow> (st, unit) state" where
  "dmi_event_log_status code = (let valid = [''Invalid'', ''Valid''];
     full_tbl = [''Not Full'', ''Full'']
   in pr_attr ''Status'' [S (tab valid (unat (code AND 1))), Lit '', '',
                        S (tab full_tbl (unat (drop_bit 1 code AND 1)))])"

definition dmi_event_log_address :: "u8 \<Rightarrow> nat \<Rightarrow> (st, unit) state" where
  "dmi_event_log_address method_code p =
     (if method_code \<in> set [0x00, 0x01, 0x02] then do {
        w0 \<leftarrow> WORD p; w2 \<leftarrow> WORD (p + 2);
        pr_attr ''Access Address'' [Lit ''Index 0x'', X 4 (unat w0), Lit '', Data 0x'', X 4 (unat w2)] }
      else if method_code = 0x03 then do {
        d \<leftarrow> DWORD p; pr_attr ''Access Address'' [Lit ''0x'', X 8 (unat d)] }
      else if method_code = 0x04 then do {
        w \<leftarrow> WORD p; pr_attr ''Access Address'' [Lit ''0x'', X 4 (unat w)] }
      else pr_attr ''Access Address'' [Lit ''Unknown''])"

definition dmi_event_log_descriptors :: "u8 \<Rightarrow> u8 \<Rightarrow> nat \<Rightarrow> (st, unit) state" where
  "dmi_event_log_descriptors count len p = for_each [0..<unat count] (\<lambda>i.
     if_then (0x02 \<le> unat len) (do {
       attr \<leftarrow> sprintf 16 [Lit ''Descriptor '', U (i + 1)];
       b0 \<leftarrow> rd8 (p + i * unat len);
       pr_attr attr [S (dmi_event_log_descriptor_type b0)];
       attr2 \<leftarrow> sprintf 16 [Lit ''Data Format '', U (i + 1)];
       b1 \<leftarrow> rd8 (p + i * unat len + 1);
       pr_attr attr2 [S (dmi_event_log_descriptor_format b1)] }))"

subsection \<open>The cases of dmi_decode\<close>

definition dmi_decode_port :: "dmi_header \<Rightarrow> u16 \<Rightarrow> (st, unit) state" where
  "dmi_decode_port h ver = do {
     pr_handle_name [Lit ''Port Connector Information''];
     brk (hlen h < 0x09) (do {
     attr_str ''Internal Reference Designator'' h 0x04;
     attr_look ''Internal Connector Type'' dmi_port_connector_type h 0x05;
     attr_str ''External Reference Designator'' h 0x06;
     attr_look ''External Connector Type'' dmi_port_connector_type h 0x07;
     attr_look ''Port Type'' dmi_port_type h 0x08 }) }"

definition dmi_decode_slot :: "dmi_header \<Rightarrow> u16 \<Rightarrow> (st, unit) state" where
  "dmi_decode_slot h ver = do {
     pr_handle_name [Lit ''System Slot Information''];
     brk (hlen h < 0x0C) (do {
     attr_str ''Designation'' h 0x04;
     attr_look ''Type'' dmi_slot_type h 0x05;
     attr_look ''Data Bus Width'' dmi_slot_bus_width h 0x06;
     attr_look ''Current Usage'' dmi_slot_current_usage h 0x07;
     attr_look ''Length'' dmi_slot_length h 0x08;
     b9 \<leftarrow> data8 h 0x09; bA \<leftarrow> data8 h 0x0A; b5 \<leftarrow> data8 h 0x05;
     dmi_slot_id b9 bA b5;
     bB \<leftarrow> data8 h 0x0B;
     (if hlen h < 0x0D then dmi_slot_characteristics ''Characteristics'' bB 0x00
      else do { bC \<leftarrow> data8 h 0x0C; dmi_slot_characteristics ''Characteristics'' bB bC });
     brk (hlen h < 0x11) (do {
     wD \<leftarrow> data16 h 0x0D; bF \<leftarrow> data8 h 0x0F; b10 \<leftarrow> data8 h 0x10;
     dmi_slot_segment_bus_func wD bF b10;
     brk (hlen h < 0x13) (do {
     attr_u8 ''Data Bus Width (Base)'' h 0x11;
     attr_u8 ''Peer Devices'' h 0x12;
     n \<leftarrow> data8 h 0x12;
     brk (hlen h < 0x13 + unat n * 5) (do {
     dmi_slot_peers n (h_data h + 0x13);
     brk (hlen h < 0x17 + unat n * 5) (do {
     inf \<leftarrow> data8 h (0x13 + unat n * 5);
     dmi_slot_information b5 inf;
     wid \<leftarrow> data8 h (0x14 + unat n * 5);
     dmi_slot_physical_width wid;
     pitch \<leftarrow> data16 h (0x15 + unat n * 5);
     dmi_slot_pitch pitch;
     brk (hlen h < 0x18 + unat n * 5)
       (attr_look ''Height'' dmi_slot_height h (0x17 + unat n * 5)) }) }) }) }) }) }"

definition dmi_decode_oem_strings :: "dmi_header \<Rightarrow> u16 \<Rightarrow> (st, unit) state" where
  "dmi_decode_oem_strings h ver = do {
     pr_handle_name [Lit ''OEM Strings''];
     brk (hlen h < 0x05) (dmi_oem_strings h) }"

definition dmi_decode_config_options :: "dmi_header \<Rightarrow> u16 \<Rightarrow> (st, unit) state" where
  "dmi_decode_config_options h ver = do {
     pr_handle_name [Lit ''System Configuration Options''];
     brk (hlen h < 0x05) (dmi_system_configuration_options h) }"

definition dmi_decode_bios_language :: "dmi_header \<Rightarrow> u16 \<Rightarrow> (st, unit) state" where
  "dmi_decode_bios_language h ver = do {
     pr_handle_name [Lit ''BIOS Language Information''];
     brk (hlen h < 0x16) (do {
     if_then (0x0201 \<le> ver)
       (attr_look ''Language Description Format'' dmi_bios_language_format h 0x05);
     n \<leftarrow> data8 h 0x04;
     pr_list_start ''Installable Languages'' (Some [U (unat n)]);
     dmi_bios_languages h;
     pr_list_end;
     attr_str ''Currently Installed Language'' h 0x15 }) }"

definition dmi_decode_group :: "dmi_header \<Rightarrow> u16 \<Rightarrow> (st, unit) state" where
  "dmi_decode_group h ver = do {
     pr_handle_name [Lit ''Group Associations''];
     brk (hlen h < 0x05) (do {
     attr_str ''Name'' h 0x04;
     pr_list_start ''Items'' (Some [U ((hlen h - 0x05) div 3)]);
     dmi_group_associations_items (of_nat ((hlen h - 0x05) div 3)) (h_data h + 0x05);
     pr_list_end }) }"

definition dmi_decode_event_log :: "dmi_header \<Rightarrow> u16 \<Rightarrow> (st, unit) state" where
  "dmi_decode_event_log h ver = do {
     pr_handle_name [Lit ''System Event Log''];
     brk (hlen h < 0x14) (do {
     w4 \<leftarrow> data16 h 0x04;
     pr_attr ''Area Length'' [U (unat w4), Lit '' bytes''];
     attr_hex16 ''Header Start Offset'' h 0x06;
     w8 \<leftarrow> data16 h 0x08; w6 \<leftarrow> data16 h 0x06;
     let len = int (unat w8) - int (unat w6);
     if_then (len \<noteq> 0) (pr_attr ''Header Length''
       [U (nat (len mod 2 ^ 32)), Lit '' byte'', yes_no (1 < len) ''s'' []]);
     attr_hex16 ''Data Start Offset'' h 0x08;
     attr_look ''Access Method'' dmi_event_log_method h 0x0A;
     bA \<leftarrow> data8 h 0x0A;
     dmi_event_log_address bA (h_data h + 0x10);
     bB \<leftarrow> data8 h 0x0B;
     dmi_event_log_status bB;
     attr_hex32 ''Change Token'' h 0x0C;
     brk (hlen h < 0x17) (do {
     attr_look ''Header Format'' dmi_event_log_header_type h 0x14;
     attr_u8 ''Supported Log Type Descriptors'' h 0x15;
     n \<leftarrow> data8 h 0x15; m \<leftarrow> data8 h 0x16;
     brk (hlen h < 0x17 + unat n * unat m)
       (dmi_event_log_descriptors n m (h_data h + 0x17)) }) }) }"

subsection \<open>Safety\<close>

lemma safe_dmi_slot_id [safe_intros]: "safe A M lo hi (dmi_slot_id a b c)"
  unfolding dmi_slot_id_def by (intro safe_intros) auto

lemma safe_dmi_slot_characteristics [safe_intros]:
  "safe A M lo hi (dmi_slot_characteristics attr a b)"
  unfolding dmi_slot_characteristics_def by (intro safe_intros) (auto simp: ok_simps)

lemma safe_dmi_slot_segment_bus_func [safe_intros]:
  "safe A M lo hi (dmi_slot_segment_bus_func a b c)"
  unfolding dmi_slot_segment_bus_func_def by (intro safe_intros) auto

lemma safe_dmi_slot_peers [safe_intros]:
  "data + unat n * 5 \<le> length M \<Longrightarrow> safe A M lo hi (dmi_slot_peers n data)"
  unfolding dmi_slot_peers_def by (intro safe_intros) (auto simp: ok_simps)

lemma safe_dmi_slot_information [safe_intros]: "safe A M lo hi (dmi_slot_information a b)"
  unfolding dmi_slot_information_def by (intro safe_intros) auto

lemma safe_dmi_slot_physical_width [safe_intros]: "safe A M lo hi (dmi_slot_physical_width a)"
  unfolding dmi_slot_physical_width_def by (intro safe_intros) (simp add: ok_simps)

lemma safe_dmi_slot_pitch [safe_intros]: "safe A M lo hi (dmi_slot_pitch a)"
  unfolding dmi_slot_pitch_def by (intro safe_intros) auto

lemma cdiv_int: "4 \<le> n \<Longrightarrow> cdiv (int n - 4) 2 = int ((n - 4) div 2)"
  by (simp add: cdiv_def of_nat_diff zdiv_int)

lemma on_board_count:
  assumes "4 \<le> hlen h"
  shows "unat (word_of_int (cdiv (int (hlen h) - 0x04) 2) :: u8) = (hlen h - 4) div 2"
proof -
  have "cdiv (int (hlen h) - 0x04) 2 = int ((hlen h - 4) div 2)"
    using cdiv_int [OF assms] by simp
  moreover have "(hlen h - 4) div 2 < 256" using unat_u8_less [of "h_length h"] by linarith
  ultimately show ?thesis by (simp add: unat_of_nat)
qed

lemma safe_dmi_on_board_devices [safe_intros]:
  assumes "struct_ok M lo hi h" "4 \<le> hlen h"
  shows "safe A M lo hi (dmi_on_board_devices h)"
proof -
  have "h_data h + 4 + 2 * i + 1 < length M" if "i < (hlen h - 4) div 2" for i
    using that assms(2) struct_okD [OF assms(1)] by linarith
  then show ?thesis
    using assms(1) unfolding dmi_on_board_devices_def Let_def on_board_count [OF assms(2)]
    by (intro safe_intros) (fastforce simp: ok_simps)+
qed

lemma safe_dmi_oem_strings [safe_intros]:
  assumes "struct_ok M lo hi h" "5 \<le> hlen h" shows "safe A M lo hi (dmi_oem_strings h)"
  using assms struct_okD [OF assms(1)] unfolding dmi_oem_strings_def
  by (intro safe_intros) (simp_all add: ok_simps)

lemma safe_dmi_system_configuration_options [safe_intros]:
  assumes "struct_ok M lo hi h" "5 \<le> hlen h"
  shows "safe A M lo hi (dmi_system_configuration_options h)"
  using assms struct_okD [OF assms(1)] unfolding dmi_system_configuration_options_def
  by (intro safe_intros) (simp_all add: ok_simps)

lemma safe_dmi_bios_languages [safe_intros]:
  assumes "struct_ok M lo hi h" "5 \<le> hlen h" shows "safe A M lo hi (dmi_bios_languages h)"
  using assms struct_okD [OF assms(1)] unfolding dmi_bios_languages_def
  by (intro safe_intros) simp_all

lemma safe_dmi_group_associations_items [safe_intros]:
  "p + 3 * unat n \<le> length M \<Longrightarrow> safe A M lo hi (dmi_group_associations_items n p)"
  unfolding dmi_group_associations_items_def by (intro safe_intros) (auto simp: ok_simps)

lemma safe_dmi_event_log_status [safe_intros]: "safe A M lo hi (dmi_event_log_status c)"
  unfolding dmi_event_log_status_def by (intro safe_intros) (simp add: ok_simps)

lemma safe_dmi_event_log_address [safe_intros]:
  "p + 3 < length M \<Longrightarrow> safe A M lo hi (dmi_event_log_address c p)"
  unfolding dmi_event_log_address_def by (intro safe_intros) simp_all

lemma safe_dmi_event_log_descriptors [safe_intros]:
  assumes "p + unat n * unat m \<le> length M"
  shows "safe A M lo hi (dmi_event_log_descriptors n m p)"
proof -
  have row: "p + i * unat m + unat m \<le> length M" if "i < unat n" for i
    using row_bound [of i "unat n" "unat m"] that assms by linarith
  have i: "Suc i < 1000" if "i < unat n" for i
    using that unat_u8_less [of n] by linarith
  show ?thesis
    unfolding dmi_event_log_descriptors_def
    by (intro safe_intros) (auto simp: ok_simps dest: row i simp del: not_None_eq)
qed

lemma safe_dmi_decode_port [safe_intros]:
  assumes "struct_ok M lo hi h" shows "safe A M lo hi (dmi_decode_port h ver)"
  using assms struct_okD [OF assms] unfolding dmi_decode_port_def
  by (intro safe_intros) (simp_all add: ok_simps)

lemma safe_dmi_decode_slot [safe_intros]:
  assumes "struct_ok M lo hi h" shows "safe A M lo hi (dmi_decode_slot h ver)"
  using assms struct_okD [OF assms] unfolding dmi_decode_slot_def
  by (intro safe_intros) (simp_all add: ok_simps)

lemma safe_dmi_decode_oem_strings [safe_intros]:
  assumes "struct_ok M lo hi h" shows "safe A M lo hi (dmi_decode_oem_strings h ver)"
  using assms unfolding dmi_decode_oem_strings_def by (intro safe_intros) simp_all

lemma safe_dmi_decode_config_options [safe_intros]:
  assumes "struct_ok M lo hi h" shows "safe A M lo hi (dmi_decode_config_options h ver)"
  using assms unfolding dmi_decode_config_options_def by (intro safe_intros) simp_all

lemma safe_dmi_decode_bios_language [safe_intros]:
  assumes "struct_ok M lo hi h" shows "safe A M lo hi (dmi_decode_bios_language h ver)"
  using assms struct_okD [OF assms] unfolding dmi_decode_bios_language_def
  by (intro safe_intros) (auto simp: ok_simps simp del: not_None_eq)

lemma safe_dmi_decode_group [safe_intros]:
  assumes "struct_ok M lo hi h" shows "safe A M lo hi (dmi_decode_group h ver)"
proof -
  have "unat (of_nat ((hlen h - 5) div 3) :: u8) \<le> (hlen h - 5) div 3"
    by (simp add: unat_of_nat)
  then have "5 \<le> hlen h \<Longrightarrow> h_data h + 5 + 3 * unat (of_nat ((hlen h - 5) div 3) :: u8) \<le> length M"
    using struct_okD [OF assms] by linarith
  then show ?thesis
    using assms struct_okD [OF assms] unfolding dmi_decode_group_def
    by (intro safe_intros) (auto simp: ok_simps)
qed

lemma safe_dmi_decode_event_log [safe_intros]:
  assumes "struct_ok M lo hi h" shows "safe A M lo hi (dmi_decode_event_log h ver)"
  using assms struct_okD [OF assms] unfolding dmi_decode_event_log_def
  by (intro safe_intros) (simp_all add: ok_simps)

end
