(* ===== verification/Memory_Device.thy ===== *)
theory Memory_Device
  imports Memory_Modules
begin

section \<open>Memory arrays and memory devices (types 16 to 20)\<close>

text \<open>
  Sections 7.17 to 7.21. The lemmas show that each case is safe, that the lists of the type
  detail and of the operating modes fit their arrays (172 and 99 bytes), and that a voltage
  always has a text (\<open>voltage_total\<close>).
\<close>

subsection \<open>Field printers\<close>

definition dmi_memory_array_error_handle :: "u16 \<Rightarrow> (st, unit) state" where
  "dmi_memory_array_error_handle code =
     (if code = 0xFFFE then pr_attr ''Error Information Handle'' [Lit ''Not Provided'']
      else if code = 0xFFFF then pr_attr ''Error Information Handle'' [Lit ''No Error'']
      else pr_attr ''Error Information Handle'' [Lit ''0x'', X 4 (unat code)])"

definition dmi_memory_device_width :: "string \<Rightarrow> u16 \<Rightarrow> (st, unit) state" where
  "dmi_memory_device_width attr code = do {
     no_quirks \<leftarrow> opt_flag FLAG_NO_QUIRKS;
     if code = 0xFFFF \<or> (code = 0 \<and> \<not> no_quirks) then pr_attr attr [Lit ''Unknown'']
     else pr_attr attr [U (unat code), Lit '' bits''] }"

definition dmi_memory_device_size :: "u16 \<Rightarrow> (st, unit) state" where
  "dmi_memory_device_size code =
     (if code = 0 then pr_attr ''Size'' [Lit ''No Module Installed'']
      else if code = 0xFFFF then pr_attr ''Size'' [Lit ''Unknown'']
      else let s = (ucast (code AND 0x7FFF) :: u64);
               s' = (if code AND 0x8000 = 0 then push_bit 10 s else s)
           in dmi_print_memory_size ''Size'' s' 1)"

definition dmi_memory_device_extended_size :: "u32 \<Rightarrow> (st, unit) state" where
  "dmi_memory_device_extended_size code0 = (let code = code0 AND 0x7FFFFFFF in
     if code AND 0x3FF \<noteq> 0 then pr_attr ''Size'' [U (unat code), Lit '' MiB'']
     else if code AND 0xFFC00 \<noteq> 0 then pr_attr ''Size'' [U (unat (drop_bit 10 code)), Lit '' GiB'']
     else pr_attr ''Size'' [U (unat (drop_bit 20 code)), Lit '' TiB''])"

definition dmi_memory_voltage_value :: "string \<Rightarrow> u16 \<Rightarrow> (st, unit) state" where
  "dmi_memory_voltage_value attr code =
     (if code = 0 then pr_attr attr [Lit ''Unknown'']
      else let v = float_of_ratio (unat code) 1000 in
        if unat code mod 100 \<noteq> 0 then pr_attr attr [S (printf_g v), Lit '' V'']
        else pr_attr attr [Lit (printf_f 1 v), Lit '' V''])"

definition dmi_memory_device_set :: "u8 \<Rightarrow> (st, unit) state" where
  "dmi_memory_device_set code =
     (if code = 0 then pr_attr ''Set'' [Lit ''None'']
      else if code = 0xFF then pr_attr ''Set'' [Lit ''Unknown'']
      else pr_attr ''Set'' [U (unat code)])"

definition type_detail_tbl :: "string list" where
  "type_detail_tbl =
    [''Other'', ''Unknown'', ''Fast-paged'', ''Static Column'', ''Pseudo-static'',
     ''RAMBus'', ''Synchronous'', ''CMOS'', ''EDO'', ''Window DRAM'', ''Cache DRAM'',
     ''Non-Volatile'', ''Registered (Buffered)'', ''Unbuffered (Unregistered)'', ''LRDIMM'']"

definition dmi_memory_device_type_detail :: "u16 \<Rightarrow> (st, unit) state" where
  "dmi_memory_device_type_detail code =
     (if code AND 0xFFFE = 0 then pr_attr ''Type Detail'' [Lit ''None'']
      else do {
        list \<leftarrow> join_bits 172 [1..<16] code (\<lambda>i. tab type_detail_tbl (i - 1)) [];
        pr_attr ''Type Detail'' [Fmt list] })"

definition dmi_memory_device_speed :: "string \<Rightarrow> u16 \<Rightarrow> u32 \<Rightarrow> (st, unit) state" where
  "dmi_memory_device_speed attr code1 code2 =
     (if code1 = 0xFFFF then
        (if code2 = 0 then pr_attr attr [Lit ''Unknown'']
         else pr_attr attr [U (unat code2), Lit '' MT/s''])
      else
        (if code1 = 0 then pr_attr attr [Lit ''Unknown'']
         else pr_attr attr [U (unat code1), Lit '' MT/s'']))"

definition dmi_memory_technology :: "u8 \<Rightarrow> (st, unit) state" where
  "dmi_memory_technology code = (let technology =
       [''Other'', ''Unknown'', ''DRAM'', ''NVDIMM-N'', ''NVDIMM-F'', ''NVDIMM-P'',
        ''Intel Optane DC persistent memory'']
     in if 0x01 \<le> unat code \<and> unat code \<le> 0x07
        then pr_attr ''Memory Technology'' [S (tab technology (unat code - 0x01))]
        else pr_attr ''Memory Technology'' [S (Some out_of_spec)])"

definition operating_mode_tbl :: "string list" where
  "operating_mode_tbl = [''Other'', ''Unknown'', ''Volatile memory'',
     ''Byte-accessible persistent memory'', ''Block-accessible persistent memory'']"

definition dmi_memory_operating_mode_capability :: "u16 \<Rightarrow> (st, unit) state" where
  "dmi_memory_operating_mode_capability code =
     (if code AND 0xFFFE = 0 then pr_attr ''Memory Operating Mode Capability'' [Lit ''None'']
      else do {
        list \<leftarrow> join_bits 99 [1..<6] code (\<lambda>i. tab operating_mode_tbl (i - 1)) [];
        pr_attr ''Memory Operating Mode Capability'' [Fmt list] })"

definition dmi_memory_manufacturer_id :: "string \<Rightarrow> u16 \<Rightarrow> (st, unit) state" where
  "dmi_memory_manufacturer_id attr code =
     (if code = 0 then pr_attr attr [Lit ''Unknown'']
      else pr_attr attr [Lit ''Bank '', U (unat (code AND 0x7F) + 1),
             Lit '', Hex 0x'', X 2 (unat (drop_bit 8 code))])"

definition dmi_memory_product_id :: "string \<Rightarrow> u16 \<Rightarrow> (st, unit) state" where
  "dmi_memory_product_id attr code =
     (if code = 0 then pr_attr attr [Lit ''Unknown'']
      else pr_attr attr [Lit ''0x'', X 4 (unat code)])"

definition dmi_memory_size :: "string \<Rightarrow> u64 \<Rightarrow> (st, unit) state" where
  "dmi_memory_size attr code =
     (if code = NOT 0 then pr_attr attr [Lit ''Unknown'']
      else if code = 0 then pr_attr attr [Lit ''None'']
      else dmi_print_memory_size attr code 0)"

definition dmi_memory_revision :: "string \<Rightarrow> u16 \<Rightarrow> u8 \<Rightarrow> (st, unit) state" where
  "dmi_memory_revision attr_type code mem_type =
     (if code = 0xFF00 then do {
        attr \<leftarrow> snprintf 22 [S (Some attr_type), Lit '' Revision Number''];
        pr_attr attr [Lit ''Unknown''] }
      else if mem_type = 0x22 \<or> mem_type = 0x23 then (let
          dev_type = (ucast (drop_bit 8 code AND 0x0F) :: u8);
          dev_rev = (ucast (code AND 0xFF) :: u8)
        in if code AND 0x8000 \<noteq> 0 then do {
             attr \<leftarrow> snprintf 22 [S (Some attr_type), Lit '' Device Type''];
             pr_attr attr [U (unat dev_type)];
             attr2 \<leftarrow> snprintf 22 [S (Some attr_type), Lit '' Device Revision''];
             pr_attr attr2 [U (unat (drop_bit 4 dev_rev)), Lit ''.'', U (unat (dev_rev AND 0x0F))] }
           else do {
             attr \<leftarrow> snprintf 22 [S (Some attr_type), Lit '' Device Type''];
             pr_attr attr [Lit ''Not Installed''] })
      else do {
        attr \<leftarrow> snprintf 22 [S (Some attr_type), Lit '' Revision Number''];
        pr_attr attr [Lit ''0x'', XL 4 (unat code)] })"

definition dmi_memory_error_syndrome :: "u32 \<Rightarrow> (st, unit) state" where
  "dmi_memory_error_syndrome code =
     (if code = 0 then pr_attr ''Vendor Syndrome'' [Lit ''Unknown'']
      else pr_attr ''Vendor Syndrome'' [Lit ''0x'', X 8 (unat code)])"

definition dmi_32bit_memory_error_address :: "string \<Rightarrow> u32 \<Rightarrow> (st, unit) state" where
  "dmi_32bit_memory_error_address attr code =
     (if code = 0x80000000 then pr_attr attr [Lit ''Unknown'']
      else pr_attr attr [Lit ''0x'', X 8 (unat code)])"

definition dmi_mapped_address_size :: "u32 \<Rightarrow> (st, unit) state" where
  "dmi_mapped_address_size code =
     (if code = 0 then pr_attr ''Range Size'' [Lit ''Invalid'']
      else dmi_print_memory_size ''Range Size'' (ucast code) 1)"

definition dmi_mapped_address_extended_size :: "u64 \<Rightarrow> u64 \<Rightarrow> (st, unit) state" where
  "dmi_mapped_address_extended_size start end_addr =
     (if start = end_addr then pr_attr ''Range Size'' [Lit ''Invalid'']
      else dmi_print_memory_size ''Range Size'' (end_addr - start + 1) 0)"

definition dmi_mapped_address_row_position :: "u8 \<Rightarrow> (st, unit) state" where
  "dmi_mapped_address_row_position code =
     (if code = 0 then pr_attr ''Partition Row Position'' [S (Some out_of_spec)]
      else if code = 0xFF then pr_attr ''Partition Row Position'' [Lit ''Unknown'']
      else pr_attr ''Partition Row Position'' [U (unat code)])"

definition dmi_mapped_address_interleave_position :: "u8 \<Rightarrow> (st, unit) state" where
  "dmi_mapped_address_interleave_position code = if_then (code \<noteq> 0)
     (if code = 0xFF then pr_attr ''Interleave Position'' [Lit ''Unknown'']
      else pr_attr ''Interleave Position'' [U (unat code)])"

definition dmi_mapped_address_interleaved_data_depth :: "u8 \<Rightarrow> (st, unit) state" where
  "dmi_mapped_address_interleaved_data_depth code = if_then (code \<noteq> 0)
     (if code = 0xFF then pr_attr ''Interleaved Data Depth'' [Lit ''Unknown'']
      else pr_attr ''Interleaved Data Depth'' [U (unat code)])"

subsection \<open>The cases of dmi_decode\<close>

definition dmi_decode_memory_array :: "dmi_header \<Rightarrow> u16 \<Rightarrow> (st, unit) state" where
  "dmi_decode_memory_array h ver = do {
     pr_handle_name [Lit ''Physical Memory Array''];
     brk (hlen h < 0x0F) (do {
     attr_look ''Location'' dmi_memory_array_location h 0x04;
     attr_look ''Use'' dmi_memory_array_use h 0x05;
     attr_look ''Error Correction Type'' dmi_memory_array_ec_type h 0x06;
     d7 \<leftarrow> data32 h 0x07;
     (if d7 = 0x80000000 then
        (if hlen h < 0x17 then pr_attr ''Maximum Capacity'' [Lit ''Unknown'']
         else do { q \<leftarrow> data64 h 0x0F; dmi_print_memory_size ''Maximum Capacity'' q 0 })
      else dmi_print_memory_size ''Maximum Capacity'' (ucast d7) 1);
     unless_quiet (do { wB \<leftarrow> data16 h 0x0B; dmi_memory_array_error_handle wB });
     attr_u16 ''Number Of Devices'' h 0x0D }) }"

text \<open>\<^verbatim>\<open>h->length >= 0x5C ? DWORD(data + off) : 0\<close>\<close>

definition ext_speed :: "dmi_header \<Rightarrow> nat \<Rightarrow> (st, u32) state" where
  "ext_speed h off = (if 0x5C \<le> hlen h then data32 h off else ret 0)"

text \<open>The rest of the case from \<^verbatim>\<open>data[0x22]\<close> on.\<close>

definition decode_memory_device_ext :: "dmi_header \<Rightarrow> (st, unit) state" where
  "decode_memory_device_ext h = brk (hlen h < 0x28) (do {
     w22 \<leftarrow> data16 h 0x22; dmi_memory_voltage_value ''Minimum Voltage'' w22;
     w24 \<leftarrow> data16 h 0x24; dmi_memory_voltage_value ''Maximum Voltage'' w24;
     w26 \<leftarrow> data16 h 0x26; dmi_memory_voltage_value ''Configured Voltage'' w26;
     brk (hlen h < 0x34) (do {
     b28 \<leftarrow> data8 h 0x28; dmi_memory_technology b28;
     w29 \<leftarrow> data16 h 0x29; dmi_memory_operating_mode_capability w29;
     attr_str ''Firmware Version'' h 0x2B;
     w2C \<leftarrow> data16 h 0x2C; dmi_memory_manufacturer_id ''Module Manufacturer ID'' w2C;
     w2E \<leftarrow> data16 h 0x2E; dmi_memory_product_id ''Module Product ID'' w2E;
     w30 \<leftarrow> data16 h 0x30;
     dmi_memory_manufacturer_id ''Memory Subsystem Controller Manufacturer ID'' w30;
     w32 \<leftarrow> data16 h 0x32; dmi_memory_product_id ''Memory Subsystem Controller Product ID'' w32;
     brk (hlen h < 0x3C) (do {
     q34 \<leftarrow> data64 h 0x34; dmi_memory_size ''Non-Volatile Size'' q34;
     brk (hlen h < 0x44) (do {
     q3C \<leftarrow> data64 h 0x3C; dmi_memory_size ''Volatile Size'' q3C;
     brk (hlen h < 0x4C) (do {
     q44 \<leftarrow> data64 h 0x44; dmi_memory_size ''Cache Size'' q44;
     brk (hlen h < 0x54) (do {
     q4C \<leftarrow> data64 h 0x4C; dmi_memory_size ''Logical Size'' q4C;
     brk (hlen h < 0x64) (do {
     b12 \<leftarrow> data8 h 0x12;
     w5C \<leftarrow> data16 h 0x5C; dmi_memory_manufacturer_id ''PMIC0 Manufacturer ID'' w5C;
     w5E \<leftarrow> data16 h 0x5E; dmi_memory_revision ''PMIC0'' w5E b12;
     w60 \<leftarrow> data16 h 0x60; dmi_memory_manufacturer_id ''RCD Manufacturer ID'' w60;
     w62 \<leftarrow> data16 h 0x62; dmi_memory_revision ''RCD'' w62 b12 }) }) }) }) }) }) })"

definition dmi_decode_memory_device :: "dmi_header \<Rightarrow> u16 \<Rightarrow> (st, unit) state" where
  "dmi_decode_memory_device h ver = do {
     pr_handle_name [Lit ''Memory Device''];
     brk (hlen h < 0x15) (do {
     unless_quiet (do {
       attr_hex16 ''Array Handle'' h 0x04;
       w6 \<leftarrow> data16 h 0x06; dmi_memory_array_error_handle w6 });
     w8 \<leftarrow> data16 h 0x08; dmi_memory_device_width ''Total Width'' w8;
     wA \<leftarrow> data16 h 0x0A; dmi_memory_device_width ''Data Width'' wA;
     wC \<leftarrow> data16 h 0x0C;
     (if 0x20 \<le> hlen h \<and> wC = 0x7FFF
      then do { d \<leftarrow> data32 h 0x1C; dmi_memory_device_extended_size d }
      else dmi_memory_device_size wC);
     attr_look ''Form Factor'' dmi_memory_device_form_factor h 0x0E;
     bF \<leftarrow> data8 h 0x0F; dmi_memory_device_set bF;
     attr_str ''Locator'' h 0x10;
     attr_str ''Bank Locator'' h 0x11;
     attr_look ''Type'' dmi_memory_device_type h 0x12;
     w13 \<leftarrow> data16 h 0x13; dmi_memory_device_type_detail w13;
     brk (hlen h < 0x17) (do {
     no_quirks \<leftarrow> opt_flag FLAG_NO_QUIRKS;
     brk (wC = 0 \<and> \<not> no_quirks) (do {
     w15 \<leftarrow> data16 h 0x15; e54 \<leftarrow> ext_speed h 0x54;
     dmi_memory_device_speed ''Speed'' w15 e54;
     brk (hlen h < 0x1B) (do {
     attr_str ''Manufacturer'' h 0x17;
     attr_str ''Serial Number'' h 0x18;
     attr_str ''Asset Tag'' h 0x19;
     attr_str ''Part Number'' h 0x1A;
     brk (hlen h < 0x1C) (do {
     b1B \<leftarrow> data8 h 0x1B;
     (if b1B AND 0x0F = 0 then pr_attr ''Rank'' [Lit ''Unknown'']
      else pr_attr ''Rank'' [U (unat (b1B AND 0x0F))]);
     brk (hlen h < 0x22) (do {
     w20 \<leftarrow> data16 h 0x20; e58 \<leftarrow> ext_speed h 0x58;
     dmi_memory_device_speed ''Configured Memory Speed'' w20 e58;
     decode_memory_device_ext h }) }) }) }) }) }) }"

definition dmi_decode_memory_error32 :: "dmi_header \<Rightarrow> u16 \<Rightarrow> (st, unit) state" where
  "dmi_decode_memory_error32 h ver = do {
     pr_handle_name [Lit ''32-bit Memory Error Information''];
     brk (hlen h < 0x17) (do {
     attr_look ''Type'' dmi_memory_error_type h 0x04;
     attr_look ''Granularity'' dmi_memory_error_granularity h 0x05;
     attr_look ''Operation'' dmi_memory_error_operation h 0x06;
     d7 \<leftarrow> data32 h 0x07; dmi_memory_error_syndrome d7;
     dB \<leftarrow> data32 h 0x0B; dmi_32bit_memory_error_address ''Memory Array Address'' dB;
     dF \<leftarrow> data32 h 0x0F; dmi_32bit_memory_error_address ''Device Address'' dF;
     d13 \<leftarrow> data32 h 0x13; dmi_32bit_memory_error_address ''Resolution'' d13 }) }"

text \<open>The address part, the same in types 19 and 20; the extended addresses are at \<open>ext\<close>.\<close>

definition decode_mapped_address :: "dmi_header \<Rightarrow> nat \<Rightarrow> (st, unit) state" where
  "decode_mapped_address h ext = do {
     d4 \<leftarrow> data32 h 0x04;
     if ext + 0x10 \<le> hlen h \<and> d4 = 0xFFFFFFFF then do {
       start \<leftarrow> data64 h ext;
       end_addr \<leftarrow> data64 h (ext + 8);
       pr_attr ''Starting Address'' [Lit ''0x'', XL 16 (unat start)];
       pr_attr ''Ending Address'' [Lit ''0x'', XL 16 (unat end_addr)];
       dmi_mapped_address_extended_size start end_addr }
     else do {
       pr_attr ''Starting Address'' [Lit ''0x'', X 8 (unat (drop_bit 2 d4)),
         X 3 (unat (push_bit 10 (d4 AND 0x3)))];
       d8 \<leftarrow> data32 h 0x08;
       pr_attr ''Ending Address'' [Lit ''0x'', X 8 (unat (drop_bit 2 d8)),
         X 3 (unat (push_bit 10 (d8 AND 0x3) + 0x3FF))];
       dmi_mapped_address_size (d8 - d4 + 1) } }"

definition dmi_decode_mapped_array :: "dmi_header \<Rightarrow> u16 \<Rightarrow> (st, unit) state" where
  "dmi_decode_mapped_array h ver = do {
     pr_handle_name [Lit ''Memory Array Mapped Address''];
     brk (hlen h < 0x0F) (do {
     decode_mapped_address h 0x0F;
     unless_quiet (attr_hex16 ''Physical Array Handle'' h 0x0C);
     attr_u8 ''Partition Width'' h 0x0E }) }"

definition dmi_decode_mapped_device :: "dmi_header \<Rightarrow> u16 \<Rightarrow> (st, unit) state" where
  "dmi_decode_mapped_device h ver = do {
     pr_handle_name [Lit ''Memory Device Mapped Address''];
     brk (hlen h < 0x13) (do {
     decode_mapped_address h 0x13;
     unless_quiet (do {
       attr_hex16 ''Physical Device Handle'' h 0x0C;
       attr_hex16 ''Memory Array Mapped Address Handle'' h 0x0E });
     b10 \<leftarrow> data8 h 0x10; dmi_mapped_address_row_position b10;
     b11 \<leftarrow> data8 h 0x11; dmi_mapped_address_interleave_position b11;
     b12 \<leftarrow> data8 h 0x12; dmi_mapped_address_interleaved_data_depth b12 }) }"

subsection \<open>Voltages\<close>

text \<open>A voltage in millivolts never needs the exponent form of \<^verbatim>\<open>%g\<close>.\<close>

lemma g_exponent_Some: "\<exists>k \<in> set ks. float_ge_pow10 x k \<Longrightarrow> g_exponent x ks \<noteq> None"
  by (induction ks) auto

lemma rne_pos: "0 < d \<Longrightarrow> 0 < rne n d \<Longrightarrow> d \<le> 2 * n"
  using rne_bound [of d n] by (cases "rne n d") auto

lemma voltage_total:
  assumes "0 < n" "n < 65536"
  shows "printf_g (float_of_ratio n 1000) \<noteq> None"
proof -
  obtain m e where me: "float_of_ratio n 1000 = (m, e)" by force
  have sc: "scaled10 3 (m, e) = n"
    using scaled10_exact [of 1000 n 3 n] assms me by simp
  have "2 ^ nat (- e) \<le> m * 2 ^ nat e * 10 ^ 4"
  proof (cases "0 \<le> e")
    case True
    with sc assms(1) have "0 < m" by (simp add: scaled10_def) (metis mult_is_0 not_gr_zero)
    with True show ?thesis by simp
  next
    case False
    with sc have "rne (m * 10 ^ 3) (2 ^ nat (- e)) = n" by (simp add: scaled10_def)
    then have "2 ^ nat (- e) \<le> 2 * (m * 10 ^ 3)" using rne_pos [of "2 ^ nat (- e)" "m * 10 ^ 3"] assms(1) by simp
    then show ?thesis using False by simp
  qed
  then have "float_ge_pow10 (m, e) (-4)" by (simp add: float_ge_pow10_def)
  then have "g_exponent (m, e) [5, 4, 3, 2, 1, 0, -1, -2, -3, -4] \<noteq> None"
    by (intro g_exponent_Some) auto
  then show ?thesis by (auto simp: printf_g_def me Let_def split: option.splits)
qed

subsection \<open>Safety\<close>

lemma safe_dmi_memory_array_error_handle [safe_intros]:
  "safe A M lo hi (dmi_memory_array_error_handle c)"
  unfolding dmi_memory_array_error_handle_def by (intro safe_intros) simp_all

lemma safe_dmi_memory_device_width [safe_intros]: "safe A M lo hi (dmi_memory_device_width attr c)"
  unfolding dmi_memory_device_width_def by (intro safe_intros) simp_all

lemma safe_dmi_memory_device_size [safe_intros]: "safe A M lo hi (dmi_memory_device_size c)"
  unfolding dmi_memory_device_size_def by (intro safe_intros) simp_all

lemma safe_dmi_memory_device_extended_size [safe_intros]:
  "safe A M lo hi (dmi_memory_device_extended_size c)"
  unfolding dmi_memory_device_extended_size_def by (intro safe_intros) simp_all

lemma safe_dmi_memory_voltage_value [safe_intros]:
  "safe A M lo hi (dmi_memory_voltage_value attr c)"
  using voltage_total [of "unat c"] unfolding dmi_memory_voltage_value_def
  by (intro safe_intros) (auto simp: unat_gt_0)

lemma safe_dmi_memory_device_set [safe_intros]: "safe A M lo hi (dmi_memory_device_set c)"
  unfolding dmi_memory_device_set_def by (intro safe_intros) simp_all

lemma safe_dmi_memory_device_type_detail [safe_intros]:
  "safe A M lo hi (dmi_memory_device_type_detail c)"
  unfolding dmi_memory_device_type_detail_def
  by (intro safe_if safe_join_bits safe_pr_attr) (simp_all add: names_ok_def type_detail_tbl_def upt_rec)

lemma safe_dmi_memory_device_speed [safe_intros]:
  "safe A M lo hi (dmi_memory_device_speed attr a b)"
  unfolding dmi_memory_device_speed_def by (intro safe_intros) simp_all

lemma safe_dmi_memory_technology [safe_intros]: "safe A M lo hi (dmi_memory_technology c)"
  unfolding dmi_memory_technology_def by (intro safe_intros) (auto simp: ok_simps)

lemma safe_dmi_memory_operating_mode_capability [safe_intros]:
  "safe A M lo hi (dmi_memory_operating_mode_capability c)"
  unfolding dmi_memory_operating_mode_capability_def
  by (intro safe_if safe_join_bits safe_pr_attr)
     (simp_all add: names_ok_def operating_mode_tbl_def upt_rec)

lemma safe_dmi_memory_manufacturer_id [safe_intros]:
  "safe A M lo hi (dmi_memory_manufacturer_id attr c)"
  unfolding dmi_memory_manufacturer_id_def by (intro safe_intros) simp_all

lemma safe_dmi_memory_product_id [safe_intros]: "safe A M lo hi (dmi_memory_product_id attr c)"
  unfolding dmi_memory_product_id_def by (intro safe_intros) simp_all

lemma safe_dmi_memory_size [safe_intros]: "safe A M lo hi (dmi_memory_size attr c)"
  unfolding dmi_memory_size_def by (intro safe_intros) simp_all

lemma safe_dmi_memory_revision [safe_intros]: "safe A M lo hi (dmi_memory_revision attr c t)"
  unfolding dmi_memory_revision_def by (intro safe_intros) simp_all

lemma safe_dmi_memory_error_syndrome [safe_intros]: "safe A M lo hi (dmi_memory_error_syndrome c)"
  unfolding dmi_memory_error_syndrome_def by (intro safe_intros) simp_all

lemma safe_dmi_32bit_memory_error_address [safe_intros]:
  "safe A M lo hi (dmi_32bit_memory_error_address attr c)"
  unfolding dmi_32bit_memory_error_address_def by (intro safe_intros) simp_all

lemma safe_dmi_mapped_address_size [safe_intros]: "safe A M lo hi (dmi_mapped_address_size c)"
  unfolding dmi_mapped_address_size_def by (intro safe_intros) simp_all

lemma safe_dmi_mapped_address_extended_size [safe_intros]:
  "safe A M lo hi (dmi_mapped_address_extended_size a b)"
  unfolding dmi_mapped_address_extended_size_def by (intro safe_intros) simp_all

lemma safe_dmi_mapped_address_row_position [safe_intros]:
  "safe A M lo hi (dmi_mapped_address_row_position c)"
  unfolding dmi_mapped_address_row_position_def by (intro safe_intros) simp_all

lemma safe_dmi_mapped_address_interleave_position [safe_intros]:
  "safe A M lo hi (dmi_mapped_address_interleave_position c)"
  unfolding dmi_mapped_address_interleave_position_def by (intro safe_intros) simp_all

lemma safe_dmi_mapped_address_interleaved_data_depth [safe_intros]:
  "safe A M lo hi (dmi_mapped_address_interleaved_data_depth c)"
  unfolding dmi_mapped_address_interleaved_data_depth_def by (intro safe_intros) simp_all

lemma safe_dmi_decode_memory_array [safe_intros]:
  assumes "struct_ok M lo hi h" shows "safe A M lo hi (dmi_decode_memory_array h ver)"
  using assms struct_okD [OF assms] unfolding dmi_decode_memory_array_def
  by (intro safe_intros) (simp_all add: ok_simps)

lemma safe_ext_speed [safe_intros]:
  assumes "struct_ok M lo hi h" "off \<le> 0x58" shows "safe A M lo hi (ext_speed h off)"
  using assms struct_okD [OF assms(1)] unfolding ext_speed_def by (intro safe_intros) simp_all

lemma safe_decode_memory_device_ext [safe_intros]:
  assumes "struct_ok M lo hi h" shows "safe A M lo hi (decode_memory_device_ext h)"
  using assms struct_okD [OF assms] unfolding decode_memory_device_ext_def
  by (intro safe_intros) simp_all

lemma safe_dmi_decode_memory_device [safe_intros]:
  assumes "struct_ok M lo hi h" shows "safe A M lo hi (dmi_decode_memory_device h ver)"
  using assms struct_okD [OF assms] unfolding dmi_decode_memory_device_def
  by (intro safe_intros) (simp_all add: ok_simps)

lemma safe_dmi_decode_memory_error32 [safe_intros]:
  assumes "struct_ok M lo hi h" shows "safe A M lo hi (dmi_decode_memory_error32 h ver)"
  using assms struct_okD [OF assms] unfolding dmi_decode_memory_error32_def
  by (intro safe_intros) (simp_all add: ok_simps)

lemma safe_decode_mapped_address [safe_intros]:
  assumes "struct_ok M lo hi h" "0x0C \<le> hlen h" shows "safe A M lo hi (decode_mapped_address h ext)"
  using assms struct_okD [OF assms(1)] unfolding decode_mapped_address_def
  by (intro safe_intros) simp_all

lemma safe_dmi_decode_mapped_array [safe_intros]:
  assumes "struct_ok M lo hi h" shows "safe A M lo hi (dmi_decode_mapped_array h ver)"
  using assms struct_okD [OF assms] unfolding dmi_decode_mapped_array_def
  by (intro safe_intros) simp_all

lemma safe_dmi_decode_mapped_device [safe_intros]:
  assumes "struct_ok M lo hi h" shows "safe A M lo hi (dmi_decode_mapped_device h ver)"
  using assms struct_okD [OF assms] unfolding dmi_decode_mapped_device_def
  by (intro safe_intros) simp_all

end
