(* ===== verification/Lookups_Devices.thy ===== *)
theory Lookups_Devices
  imports Safe
begin

section \<open>Code tables: devices, probes, power and management\<close>

text \<open>
  The lookup functions of \<^verbatim>\<open>dmidecode.c\<close> for the structures of types 21 to 45 that are not about memory: each turns the code of a
  field into its name. A table is read through \<open>tab\<close>, which is \<open>None\<close> outside its bounds;
  codes are compared after promotion to \<^verbatim>\<open>int\<close>, here \<open>nat\<close>. The lemmas say for each function
  that it is total, or, for those that index without a test, on which codes it is defined.
\<close>

definition dmi_pointing_device_type :: "u8 \<Rightarrow> cstr" where
  "dmi_pointing_device_type code = (let c = unat code;
     type = [''Other'', ''Unknown'', ''Mouse'', ''Track Ball'', ''Track Point'',
             ''Glide Point'', ''Touch Pad'', ''Touch Screen'', ''Optical Sensor'']
   in if 0x01 \<le> c \<and> c \<le> 0x09 then tab type (c - 0x01)
      else Some out_of_spec)"

definition dmi_pointing_device_interface :: "u8 \<Rightarrow> cstr" where
  "dmi_pointing_device_interface code = (let c = unat code;
     interface_tbl = [''Other'', ''Unknown'', ''Serial'', ''PS/2'', ''Infrared'',
                      ''HIP-HIL'', ''Bus Mouse'', ''ADB (Apple Desktop Bus)''];
     interface_0xA0 = [''Bus Mouse DB-9'', ''Bus Mouse Micro DIN'', ''USB'', ''I2C'',
                       ''SPI'']
   in if 0x01 \<le> c \<and> c \<le> 0x08 then tab interface_tbl (c - 0x01)
      else if 0xA0 \<le> c \<and> c \<le> 0xA4 then tab interface_0xA0 (c - 0xA0)
      else Some out_of_spec)"

definition dmi_battery_chemistry :: "u8 \<Rightarrow> cstr" where
  "dmi_battery_chemistry code = (let c = unat code;
     chemistry = [''Other'', ''Unknown'', ''Lead Acid'', ''Nickel Cadmium'',
                  ''Nickel Metal Hydride'', ''Lithium Ion'', ''Zinc Air'',
                  ''Lithium Polymer'']
   in if 0x01 \<le> c \<and> c \<le> 0x08 then tab chemistry (c - 0x01)
      else Some out_of_spec)"

definition dmi_system_reset_boot_option :: "u8 \<Rightarrow> cstr" where
  "dmi_system_reset_boot_option code = (let c = unat code;
     option_tbl = [out_of_spec, ''Operating System'', ''System Utilities'',
                   ''Do Not Reboot'']
   in tab option_tbl c)"

definition dmi_hardware_security_status :: "u8 \<Rightarrow> cstr" where
  "dmi_hardware_security_status code = (let c = unat code;
     status = [''Disabled'', ''Enabled'', ''Not Implemented'', ''Unknown'']
   in tab status c)"

definition dmi_voltage_probe_location :: "u8 \<Rightarrow> cstr" where
  "dmi_voltage_probe_location code = (let c = unat code;
     location = [''Other'', ''Unknown'', ''Processor'', ''Disk'', ''Peripheral Bay'',
                 ''System Management Module'', ''Motherboard'', ''Memory Module'',
                 ''Processor Module'', ''Power Unit'', ''Add-in Card'']
   in if 0x01 \<le> c \<and> c \<le> 0x0B then tab location (c - 0x01)
      else Some out_of_spec)"

definition dmi_probe_status :: "u8 \<Rightarrow> cstr" where
  "dmi_probe_status code = (let c = unat code;
     status = [''Other'', ''Unknown'', ''OK'', ''Non-critical'', ''Critical'',
               ''Non-recoverable'']
   in if 0x01 \<le> c \<and> c \<le> 0x06 then tab status (c - 0x01)
      else Some out_of_spec)"

definition dmi_cooling_device_type :: "u8 \<Rightarrow> cstr" where
  "dmi_cooling_device_type code = (let c = unat code;
     type = [''Other'', ''Unknown'', ''Fan'', ''Centrifugal Blower'', ''Chip Fan'',
             ''Cabinet Fan'', ''Power Supply Fan'', ''Heat Pipe'',
             ''Integrated Refrigeration''];
     type_0x10 = [''Active Cooling'', ''Passive Cooling'']
   in if 0x01 \<le> c \<and> c \<le> 0x09 then tab type (c - 0x01)
      else if 0x10 \<le> c \<and> c \<le> 0x11 then tab type_0x10 (c - 0x10)
      else Some out_of_spec)"

definition dmi_temperature_probe_location :: "u8 \<Rightarrow> cstr" where
  "dmi_temperature_probe_location code = (let c = unat code;
     location = [''Other'', ''Unknown'', ''Processor'', ''Disk'', ''Peripheral Bay'',
                 ''System Management Module'', ''Motherboard'', ''Memory Module'',
                 ''Processor Module'', ''Power Unit'', ''Add-in Card'',
                 ''Front Panel Board'', ''Back Panel Board'', ''Power System Board'',
                 ''Drive Back Plane'']
   in if 0x01 \<le> c \<and> c \<le> 0x0F then tab location (c - 0x01)
      else Some out_of_spec)"

definition dmi_system_boot_status :: "u8 \<Rightarrow> cstr" where
  "dmi_system_boot_status code = (let c = unat code;
     status = [''No errors detected'', ''No bootable media'',
               ''Operating system failed to load'', ''Firmware-detected hardware failure'',
               ''Operating system-detected hardware failure'', ''User-requested boot'',
               ''System security violation'', ''Previously-requested image'',
               ''System watchdog timer expired'']
   in if c \<le> 8 then tab status c
      else if 128 \<le> c \<and> c \<le> 191 then Some ''OEM-specific''
      else if 192 \<le> c then Some ''Product-specific''
      else Some out_of_spec)"

definition dmi_management_device_type :: "u8 \<Rightarrow> cstr" where
  "dmi_management_device_type code = (let c = unat code;
     type = [''Other'', ''Unknown'', ''LM75'', ''LM78'', ''LM79'', ''LM80'', ''LM81'',
             ''ADM9240'', ''DS1780'', ''MAX1617'', ''GL518SM'', ''W83781D'', ''HT82H791'']
   in if 0x01 \<le> c \<and> c \<le> 0x0D then tab type (c - 0x01)
      else Some out_of_spec)"

definition dmi_management_device_address_type :: "u8 \<Rightarrow> cstr" where
  "dmi_management_device_address_type code = (let c = unat code;
     type = [''Other'', ''Unknown'', ''I/O Port'', ''Memory'', ''SMBus'']
   in if 0x01 \<le> c \<and> c \<le> 0x05 then tab type (c - 0x01)
      else Some out_of_spec)"

definition dmi_ipmi_interface_type :: "u8 \<Rightarrow> cstr" where
  "dmi_ipmi_interface_type code = (let c = unat code;
     type = [''Unknown'', ''KCS (Keyboard Control Style)'',
             ''SMIC (Server Management Interface Chip)'', ''BT (Block Transfer)'',
             ''SSIF (SMBus System Interface)'']
   in if c \<le> 0x04 then tab type c
      else Some out_of_spec)"

definition dmi_ipmi_register_spacing :: "u8 \<Rightarrow> cstr" where
  "dmi_ipmi_register_spacing code = (let c = unat code;
     spacing = [''Successive Byte Boundaries'', ''32-bit Boundaries'',
                ''16-byte Boundaries'', out_of_spec]
   in tab spacing c)"

definition dmi_power_supply_type :: "u8 \<Rightarrow> cstr" where
  "dmi_power_supply_type code = (let c = unat code;
     type = [''Other'', ''Unknown'', ''Linear'', ''Switching'', ''Battery'', ''UPS'',
             ''Converter'', ''Regulator'']
   in if 0x01 \<le> c \<and> c \<le> 0x08 then tab type (c - 0x01)
      else Some out_of_spec)"

definition dmi_power_supply_status :: "u8 \<Rightarrow> cstr" where
  "dmi_power_supply_status code = (let c = unat code;
     status = [''Other'', ''Unknown'', ''OK'', ''Non-critical'', ''Critical'']
   in if 0x01 \<le> c \<and> c \<le> 0x05 then tab status (c - 0x01)
      else Some out_of_spec)"

definition dmi_power_supply_range_switching :: "u8 \<Rightarrow> cstr" where
  "dmi_power_supply_range_switching code = (let c = unat code;
     switching = [''Other'', ''Unknown'', ''Manual'', ''Auto-switch'', ''Wide Range'',
                  ''N/A'']
   in if 0x01 \<le> c \<and> c \<le> 0x06 then tab switching (c - 0x01)
      else Some out_of_spec)"

definition dmi_management_controller_host_type :: "u8 \<Rightarrow> cstr" where
  "dmi_management_controller_host_type code = (let c = unat code;
     type = [''KCS: Keyboard Controller Style'', ''8250 UART Register Compatible'',
             ''16450 UART Register Compatible'', ''16550/16550A UART Register Compatible'',
             ''16650/16650A UART Register Compatible'',
             ''16750/16750A UART Register Compatible'',
             ''16850/16850A UART Register Compatible'']
   in if 0x02 \<le> c \<and> c \<le> 0x08 then tab type (c - 0x02)
      else if c \<le> 0x3F then Some ''MCTP''
      else if c = 0x40 then Some ''Network''
      else if c = 0xF0 then Some ''OEM''
      else Some out_of_spec)"

definition dmi_protocol_record_type :: "u8 \<Rightarrow> cstr" where
  "dmi_protocol_record_type type = (let c = unat type;
     protocol = [''Reserved'', ''Reserved'', ''IPMI'', ''MCTP'', ''Redfish over IP'']
   in if c \<le> 0x4 then tab protocol c
      else if c = 0xF0 then Some ''OEM''
      else Some out_of_spec)"

definition dmi_protocol_assignment_type :: "u8 \<Rightarrow> cstr" where
  "dmi_protocol_assignment_type type = (let c = unat type;
     assignment = [''Unknown'', ''Static'', ''DHCP'', ''AutoConf'', ''Host Selected'']
   in if c \<le> 0x4 then tab assignment c
      else Some out_of_spec)"

definition dmi_address_type :: "u8 \<Rightarrow> cstr" where
  "dmi_address_type type = (let c = unat type;
     addressformat = [''Unknown'', ''IPv4'', ''IPv6'']
   in if c \<le> 0x2 then tab addressformat c
      else Some out_of_spec)"

definition dmi_parse_device_type :: "u8 \<Rightarrow> cstr" where
  "dmi_parse_device_type type = (let c = unat type;
     devname = [''USB'', ''PCI/PCIe'', ''USB v2'', ''PCI/PCIe v2'']
   in if 0x2 \<le> c \<and> c \<le> 0x5 then tab devname (c - 0x2)
      else if 0x80 \<le> c then Some ''OEM''
      else Some out_of_spec)"

definition dmi_firmware_state :: "u8 \<Rightarrow> cstr" where
  "dmi_firmware_state code = (let c = unat code;
     state = [''Other'', ''Unknown'', ''Disabled'', ''Enabled'', ''Absent'',
              ''Stand-by Offline'', ''Stand-by Spare'', ''Unavailable Offline'']
   in if 0x01 \<le> c \<and> c \<le> 0x08 then tab state (c - 0x01)
      else Some out_of_spec)"

subsection \<open>No table is read outside its bounds\<close>

lemma dmi_pointing_device_type_total [ok_simps]: "dmi_pointing_device_type code \<noteq> None"
  by (auto simp: dmi_pointing_device_type_def Let_def tab_def tab_opt_def)

lemma dmi_pointing_device_interface_total [ok_simps]: "dmi_pointing_device_interface code \<noteq> None"
  by (auto simp: dmi_pointing_device_interface_def Let_def tab_def tab_opt_def)

lemma dmi_battery_chemistry_total [ok_simps]: "dmi_battery_chemistry code \<noteq> None"
  by (auto simp: dmi_battery_chemistry_def Let_def tab_def tab_opt_def)

lemma dmi_system_reset_boot_option_total [ok_simps]: "dmi_system_reset_boot_option code = None \<longleftrightarrow> 4 \<le> unat code"
  by (auto simp: dmi_system_reset_boot_option_def Let_def tab_def)

lemma dmi_hardware_security_status_total [ok_simps]: "dmi_hardware_security_status code = None \<longleftrightarrow> 4 \<le> unat code"
  by (auto simp: dmi_hardware_security_status_def Let_def tab_def)

lemma dmi_voltage_probe_location_total [ok_simps]: "dmi_voltage_probe_location code \<noteq> None"
  by (auto simp: dmi_voltage_probe_location_def Let_def tab_def tab_opt_def)

lemma dmi_probe_status_total [ok_simps]: "dmi_probe_status code \<noteq> None"
  by (auto simp: dmi_probe_status_def Let_def tab_def tab_opt_def)

lemma dmi_cooling_device_type_total [ok_simps]: "dmi_cooling_device_type code \<noteq> None"
  by (auto simp: dmi_cooling_device_type_def Let_def tab_def tab_opt_def)

lemma dmi_temperature_probe_location_total [ok_simps]: "dmi_temperature_probe_location code \<noteq> None"
  by (auto simp: dmi_temperature_probe_location_def Let_def tab_def tab_opt_def)

lemma dmi_system_boot_status_total [ok_simps]: "dmi_system_boot_status code \<noteq> None"
  by (auto simp: dmi_system_boot_status_def Let_def tab_def tab_opt_def)

lemma dmi_management_device_type_total [ok_simps]: "dmi_management_device_type code \<noteq> None"
  by (auto simp: dmi_management_device_type_def Let_def tab_def tab_opt_def)

lemma dmi_management_device_address_type_total [ok_simps]: "dmi_management_device_address_type code \<noteq> None"
  by (auto simp: dmi_management_device_address_type_def Let_def tab_def tab_opt_def)

lemma dmi_ipmi_interface_type_total [ok_simps]: "dmi_ipmi_interface_type code \<noteq> None"
  by (auto simp: dmi_ipmi_interface_type_def Let_def tab_def tab_opt_def)

lemma dmi_ipmi_register_spacing_total [ok_simps]: "dmi_ipmi_register_spacing code = None \<longleftrightarrow> 4 \<le> unat code"
  by (auto simp: dmi_ipmi_register_spacing_def Let_def tab_def)

lemma dmi_power_supply_type_total [ok_simps]: "dmi_power_supply_type code \<noteq> None"
  by (auto simp: dmi_power_supply_type_def Let_def tab_def tab_opt_def)

lemma dmi_power_supply_status_total [ok_simps]: "dmi_power_supply_status code \<noteq> None"
  by (auto simp: dmi_power_supply_status_def Let_def tab_def tab_opt_def)

lemma dmi_power_supply_range_switching_total [ok_simps]: "dmi_power_supply_range_switching code \<noteq> None"
  by (auto simp: dmi_power_supply_range_switching_def Let_def tab_def tab_opt_def)

lemma dmi_management_controller_host_type_total [ok_simps]: "dmi_management_controller_host_type code \<noteq> None"
  by (auto simp: dmi_management_controller_host_type_def Let_def tab_def tab_opt_def)

lemma dmi_protocol_record_type_total [ok_simps]: "dmi_protocol_record_type code \<noteq> None"
  by (auto simp: dmi_protocol_record_type_def Let_def tab_def tab_opt_def)

lemma dmi_protocol_assignment_type_total [ok_simps]: "dmi_protocol_assignment_type code \<noteq> None"
  by (auto simp: dmi_protocol_assignment_type_def Let_def tab_def tab_opt_def)

lemma dmi_address_type_total [ok_simps]: "dmi_address_type code \<noteq> None"
  by (auto simp: dmi_address_type_def Let_def tab_def tab_opt_def)

lemma dmi_parse_device_type_total [ok_simps]: "dmi_parse_device_type code \<noteq> None"
  by (auto simp: dmi_parse_device_type_def Let_def tab_def tab_opt_def)

lemma dmi_firmware_state_total [ok_simps]: "dmi_firmware_state code \<noteq> None"
  by (auto simp: dmi_firmware_state_def Let_def tab_def tab_opt_def)

end
