(* ===== verification/Devices.thy ===== *)
theory Devices
  imports Memory_Device Slots Lookups_Devices
begin

section \<open>Pointing devices to power supplies (types 21 to 39, 41)\<close>

text \<open>
  Sections 7.22 to 7.40 and 7.42. Two cases need more than the structure to be safe:
  \<^verbatim>\<open>dmi_memory_channel_devices\<close> reads the load and the handle of device \<open>i\<close> from
  \<^verbatim>\<open>p + 3 * i\<close>, three bytes late, so that the last handle ends one byte behind the two bytes
  that always follow a structure. The shift of types 5 and 6 and this
  read are the only faults the decoder can produce.
\<close>

subsection \<open>Field printers\<close>

definition dmi_battery_capacity :: "u16 \<Rightarrow> u8 \<Rightarrow> (st, unit) state" where
  "dmi_battery_capacity code multiplier =
     (if code = 0 then pr_attr ''Design Capacity'' [Lit ''Unknown'']
      else pr_attr ''Design Capacity'' [U (unat code * unat multiplier), Lit '' mWh''])"

definition dmi_battery_voltage :: "u16 \<Rightarrow> (st, unit) state" where
  "dmi_battery_voltage code =
     (if code = 0 then pr_attr ''Design Voltage'' [Lit ''Unknown'']
      else pr_attr ''Design Voltage'' [U (unat code), Lit '' mV''])"

definition dmi_battery_maximum_error :: "u8 \<Rightarrow> (st, unit) state" where
  "dmi_battery_maximum_error code =
     (if code = 0xFF then pr_attr ''Maximum Error'' [Lit ''Unknown'']
      else pr_attr ''Maximum Error'' [U (unat code), Lit ''%''])"

definition dmi_system_reset_count :: "string \<Rightarrow> u16 \<Rightarrow> (st, unit) state" where
  "dmi_system_reset_count attr code =
     (if code = 0xFFFF then pr_attr attr [Lit ''Unknown'']
      else pr_attr attr [U (unat code)])"

definition dmi_system_reset_timer :: "string \<Rightarrow> u16 \<Rightarrow> (st, unit) state" where
  "dmi_system_reset_timer attr code =
     (if code = 0xFFFF then pr_attr attr [Lit ''Unknown'']
      else pr_attr attr [U (unat code), Lit '' min''])"

definition dmi_bcd_range :: "u8 \<Rightarrow> u8 \<Rightarrow> u8 \<Rightarrow> bool" where
  "dmi_bcd_range value low high =
     (if 0x99 < value \<or> 0x09 < value AND 0x0F then False
      else if value < low \<or> high < value then False else True)"

text \<open>One field of the date: the separator, then the two digits or a star.\<close>

definition bcd_part :: "string \<Rightarrow> u8 \<Rightarrow> u8 \<Rightarrow> u8 \<Rightarrow> farg list" where
  "bcd_part sep value low high =
     (if dmi_bcd_range value low high then [Lit sep, X 2 (unat value)] else [Lit sep, Lit ''*''])"

definition dmi_power_controls_power_on :: "nat \<Rightarrow> (st, unit) state" where
  "dmi_power_controls_power_on p = do {
     b0 \<leftarrow> rd8 p; b1 \<leftarrow> rd8 (p + 1); b2 \<leftarrow> rd8 (p + 2); b3 \<leftarrow> rd8 (p + 3); b4 \<leftarrow> rd8 (p + 4);
     time \<leftarrow> sprintf_at 15 [bcd_part [] b0 0x01 0x12, bcd_part ''-'' b1 0x01 0x31,
       bcd_part '' '' b2 0x00 0x23, bcd_part '':'' b3 0x00 0x59, bcd_part '':'' b4 0x00 0x59] [];
     pr_attr ''Next Scheduled Power-on'' [Fmt time] }"

definition dmi_voltage_probe_value :: "string \<Rightarrow> u16 \<Rightarrow> (st, unit) state" where
  "dmi_voltage_probe_value attr code =
     (if code = 0x8000 then pr_attr attr [Lit ''Unknown'']
      else pr_attr attr [Lit (float_i16 3 code 1000), Lit '' V''])"

definition dmi_voltage_probe_resolution :: "u16 \<Rightarrow> (st, unit) state" where
  "dmi_voltage_probe_resolution code =
     (if code = 0x8000 then pr_attr ''Resolution'' [Lit ''Unknown'']
      else pr_attr ''Resolution'' [Lit (printf_f 1 (float_of_ratio (unat code) 10)), Lit '' mV''])"

definition dmi_probe_accuracy :: "u16 \<Rightarrow> (st, unit) state" where
  "dmi_probe_accuracy code =
     (if code = 0x8000 then pr_attr ''Accuracy'' [Lit ''Unknown'']
      else pr_attr ''Accuracy'' [Lit (printf_f 2 (float_of_ratio (unat code) 100)), Lit ''%''])"

definition dmi_cooling_device_speed :: "u16 \<Rightarrow> (st, unit) state" where
  "dmi_cooling_device_speed code =
     (if code = 0x8000 then pr_attr ''Nominal Speed'' [Lit ''Unknown Or Non-rotating'']
      else pr_attr ''Nominal Speed'' [U (unat code), Lit '' rpm''])"

definition dmi_temperature_probe_value :: "string \<Rightarrow> u16 \<Rightarrow> (st, unit) state" where
  "dmi_temperature_probe_value attr code =
     (if code = 0x8000 then pr_attr attr [Lit ''Unknown'']
      else pr_attr attr [Lit (float_i16 1 code 10), Lit '' deg C''])"

definition dmi_temperature_probe_resolution :: "u16 \<Rightarrow> (st, unit) state" where
  "dmi_temperature_probe_resolution code =
     (if code = 0x8000 then pr_attr ''Resolution'' [Lit ''Unknown'']
      else pr_attr ''Resolution'' [Lit (printf_f 3 (float_of_ratio (unat code) 1000)), Lit '' deg C''])"

definition dmi_current_probe_value :: "string \<Rightarrow> u16 \<Rightarrow> (st, unit) state" where
  "dmi_current_probe_value attr code =
     (if code = 0x8000 then pr_attr attr [Lit ''Unknown'']
      else pr_attr attr [Lit (float_i16 3 code 1000), Lit '' A''])"

definition dmi_current_probe_resolution :: "u16 \<Rightarrow> (st, unit) state" where
  "dmi_current_probe_resolution code =
     (if code = 0x8000 then pr_attr ''Resolution'' [Lit ''Unknown'']
      else pr_attr ''Resolution'' [Lit (printf_f 1 (float_of_ratio (unat code) 10)), Lit '' mA''])"

definition dmi_64bit_memory_error_address :: "string \<Rightarrow> u64 \<Rightarrow> (st, unit) state" where
  "dmi_64bit_memory_error_address attr code =
     (if code = 0x8000000000000000 then pr_attr attr [Lit ''Unknown'']
      else pr_attr attr [Lit ''0x'', XL 16 (unat code)])"

definition dmi_fixup_type_34 :: "dmi_header \<Rightarrow> bool \<Rightarrow> (st, dmi_header) state" where
  "dmi_fixup_type_34 h display =
     (if h_length h = 0x10 then do {
        ok \<leftarrow> is_printable (h_data h + 0x0B) (0x10 - 0x0B);
        if ok then do {
          unless_quiet (if_then display (eprintf [Lit ''Invalid entry length ('', U 0x10,
            Lit ''). Fixed up to '', U 0x0B, Lit ''.\<newline>'']));
          ret (h\<lparr>h_length := 0x0B\<rparr>) }
        else ret h }
      else ret h)"

text \<open>The loop starts at 1 and reads from \<^verbatim>\<open>p + 3 * i\<close>.\<close>

definition dmi_memory_channel_devices :: "u8 \<Rightarrow> nat \<Rightarrow> (st, unit) state" where
  "dmi_memory_channel_devices count p = for_each [1..<unat count + 1] (\<lambda>i. do {
     attr \<leftarrow> sprintf 18 [Lit ''Device '', U (unat (of_nat i :: u8)), Lit '' Load''];
     load \<leftarrow> rd8 (p + 3 * i);
     pr_attr attr [U (unat load)];
     unless_quiet (do {
       attr2 \<leftarrow> sprintf 18 [Lit ''Device '', U (unat (of_nat i :: u8)), Lit '' Handle''];
       w \<leftarrow> WORD (p + 3 * i + 1);
       pr_attr attr2 [Lit ''0x'', X 4 (unat w)] }) })"

definition dmi_ipmi_base_address :: "u8 \<Rightarrow> nat \<Rightarrow> u8 \<Rightarrow> (st, unit) state" where
  "dmi_ipmi_base_address type p lsb =
     (if type = 0x04 then do {
        b \<leftarrow> rd8 p;
        pr_attr ''Base Address'' [Lit ''0x'', X 2 (unat (drop_bit 1 b)), Lit '' (SMBus)''] }
      else do {
        address \<leftarrow> QWORD p;
        pr_attr ''Base Address'' [Lit ''0x'', XL 16 (unat ((address AND NOT 1) OR ucast lsb)),
          Lit '' ('', yes_no (bit address 0) ''I/O'' ''Memory-mapped'', Lit '')''] })"

definition dmi_power_supply_power :: "u16 \<Rightarrow> (st, unit) state" where
  "dmi_power_supply_power code =
     (if code = 0x8000 then pr_attr ''Max Power Capacity'' [Lit ''Unknown'']
      else pr_attr ''Max Power Capacity'' [U (unat code), Lit '' W''])"

subsection \<open>The cases of dmi_decode\<close>

definition dmi_decode_pointing :: "dmi_header \<Rightarrow> u16 \<Rightarrow> (st, unit) state" where
  "dmi_decode_pointing h ver = do {
     pr_handle_name [Lit ''Built-in Pointing Device''];
     brk (hlen h < 0x07) (do {
     attr_look ''Type'' dmi_pointing_device_type h 0x04;
     attr_look ''Interface'' dmi_pointing_device_interface h 0x05;
     attr_u8 ''Buttons'' h 0x06 }) }"

definition dmi_decode_battery :: "dmi_header \<Rightarrow> u16 \<Rightarrow> (st, unit) state" where
  "dmi_decode_battery h ver = do {
     pr_handle_name [Lit ''Portable Battery''];
     brk (hlen h < 0x10) (do {
     attr_str ''Location'' h 0x04;
     attr_str ''Manufacturer'' h 0x05;
     b6 \<leftarrow> data8 h 0x06; b7 \<leftarrow> data8 h 0x07; b9 \<leftarrow> data8 h 0x09;
     if_then (b6 \<noteq> 0 \<or> hlen h < 0x1A) (attr_str ''Manufacture Date'' h 0x06);
     if_then (b7 \<noteq> 0 \<or> hlen h < 0x1A) (attr_str ''Serial Number'' h 0x07);
     attr_str ''Name'' h 0x08;
     if_then (b9 \<noteq> 0x02 \<or> hlen h < 0x1A) (attr_look ''Chemistry'' dmi_battery_chemistry h 0x09);
     wA \<leftarrow> data16 h 0x0A;
     (if hlen h < 0x16 then dmi_battery_capacity wA 1
      else do { m \<leftarrow> data8 h 0x15; dmi_battery_capacity wA m });
     wC \<leftarrow> data16 h 0x0C; dmi_battery_voltage wC;
     attr_str ''SBDS Version'' h 0x0E;
     bF \<leftarrow> data8 h 0x0F; dmi_battery_maximum_error bF;
     brk (hlen h < 0x1A) (do {
     if_then (b7 = 0) (do { w \<leftarrow> data16 h 0x10; pr_attr ''SBDS Serial Number'' [X 4 (unat w)] });
     if_then (b6 = 0) (do { w \<leftarrow> data16 h 0x12; pr_attr ''SBDS Manufacture Date''
       [U (1980 + unat (drop_bit 9 w)), Lit ''-'', UW 2 (unat (drop_bit 5 w AND 0x0F)),
        Lit ''-'', UW 2 (unat (w AND 0x1F))] });
     if_then (b9 = 0x02) (attr_str ''SBDS Chemistry'' h 0x14);
     attr_hex32 ''OEM-specific Information'' h 0x16 }) }) }"

definition dmi_decode_system_reset :: "dmi_header \<Rightarrow> u16 \<Rightarrow> (st, unit) state" where
  "dmi_decode_system_reset h ver = do {
     pr_handle_name [Lit ''System Reset''];
     brk (hlen h < 0x0D) (do {
     b4 \<leftarrow> data8 h 0x04;
     pr_attr ''Status'' [yes_no (bit b4 0) ''Enabled'' ''Disabled''];
     pr_attr ''Watchdog Timer'' [yes_no (bit b4 5) ''Present'' ''Not Present''];
     brk (\<not> bit b4 5) (do {
     pr_attr ''Boot Option'' [S (dmi_system_reset_boot_option (drop_bit 1 b4 AND 0x3))];
     pr_attr ''Boot Option On Limit'' [S (dmi_system_reset_boot_option (drop_bit 3 b4 AND 0x3))];
     w5 \<leftarrow> data16 h 0x05; dmi_system_reset_count ''Reset Count'' w5;
     w7 \<leftarrow> data16 h 0x07; dmi_system_reset_count ''Reset Limit'' w7;
     w9 \<leftarrow> data16 h 0x09; dmi_system_reset_timer ''Timer Interval'' w9;
     wB \<leftarrow> data16 h 0x0B; dmi_system_reset_timer ''Timeout'' wB }) }) }"

definition dmi_decode_hardware_security :: "dmi_header \<Rightarrow> u16 \<Rightarrow> (st, unit) state" where
  "dmi_decode_hardware_security h ver = do {
     pr_handle_name [Lit ''Hardware Security''];
     brk (hlen h < 0x05) (do {
     b4 \<leftarrow> data8 h 0x04;
     pr_attr ''Power-On Password Status'' [S (dmi_hardware_security_status (drop_bit 6 b4))];
     pr_attr ''Keyboard Password Status'' [S (dmi_hardware_security_status (drop_bit 4 b4 AND 0x3))];
     pr_attr ''Administrator Password Status''
       [S (dmi_hardware_security_status (drop_bit 2 b4 AND 0x3))];
     pr_attr ''Front Panel Reset Status'' [S (dmi_hardware_security_status (b4 AND 0x3))] }) }"

definition dmi_decode_power_controls :: "dmi_header \<Rightarrow> u16 \<Rightarrow> (st, unit) state" where
  "dmi_decode_power_controls h ver = do {
     pr_handle_name [Lit ''System Power Controls''];
     brk (hlen h < 0x09) (dmi_power_controls_power_on (h_data h + 0x04)) }"

text \<open>\<^verbatim>\<open>dmi_probe_status(data[off] >> 5)\<close> and the location in the low five bits.\<close>

definition probe_place :: "(u8 \<Rightarrow> cstr) \<Rightarrow> string \<Rightarrow> dmi_header \<Rightarrow> nat \<Rightarrow> (st, unit) state" where
  "probe_place location name h off = do {
     b \<leftarrow> data8 h off;
     pr_attr name [S (location (b AND 0x1F))];
     pr_attr ''Status'' [S (dmi_probe_status (drop_bit 5 b))] }"

definition dmi_decode_voltage_probe :: "dmi_header \<Rightarrow> u16 \<Rightarrow> (st, unit) state" where
  "dmi_decode_voltage_probe h ver = do {
     pr_handle_name [Lit ''Voltage Probe''];
     brk (hlen h < 0x14) (do {
     attr_str ''Description'' h 0x04;
     probe_place dmi_voltage_probe_location ''Location'' h 0x05;
     w6 \<leftarrow> data16 h 0x06; dmi_voltage_probe_value ''Maximum Value'' w6;
     w8 \<leftarrow> data16 h 0x08; dmi_voltage_probe_value ''Minimum Value'' w8;
     wA \<leftarrow> data16 h 0x0A; dmi_voltage_probe_resolution wA;
     wC \<leftarrow> data16 h 0x0C; dmi_voltage_probe_value ''Tolerance'' wC;
     wE \<leftarrow> data16 h 0x0E; dmi_probe_accuracy wE;
     attr_hex32 ''OEM-specific Information'' h 0x10;
     brk (hlen h < 0x16) (do {
     w14 \<leftarrow> data16 h 0x14; dmi_voltage_probe_value ''Nominal Value'' w14 }) }) }"

definition dmi_decode_cooling :: "dmi_header \<Rightarrow> u16 \<Rightarrow> (st, unit) state" where
  "dmi_decode_cooling h ver = do {
     pr_handle_name [Lit ''Cooling Device''];
     brk (hlen h < 0x0C) (do {
     w4 \<leftarrow> data16 h 0x04;
     unless_quiet (if_then (w4 \<noteq> 0xFFFF) (attr_hex16 ''Temperature Probe Handle'' h 0x04));
     probe_place dmi_cooling_device_type ''Type'' h 0x06;
     b7 \<leftarrow> data8 h 0x07;
     if_then (b7 \<noteq> 0) (pr_attr ''Cooling Unit Group'' [U (unat b7)]);
     attr_hex32 ''OEM-specific Information'' h 0x08;
     brk (hlen h < 0x0E) (do {
     wC \<leftarrow> data16 h 0x0C; dmi_cooling_device_speed wC;
     brk (hlen h < 0x0F) (attr_str ''Description'' h 0x0E) }) }) }"

definition dmi_decode_temperature_probe :: "dmi_header \<Rightarrow> u16 \<Rightarrow> (st, unit) state" where
  "dmi_decode_temperature_probe h ver = do {
     pr_handle_name [Lit ''Temperature Probe''];
     brk (hlen h < 0x14) (do {
     attr_str ''Description'' h 0x04;
     probe_place dmi_temperature_probe_location ''Location'' h 0x05;
     w6 \<leftarrow> data16 h 0x06; dmi_temperature_probe_value ''Maximum Value'' w6;
     w8 \<leftarrow> data16 h 0x08; dmi_temperature_probe_value ''Minimum Value'' w8;
     wA \<leftarrow> data16 h 0x0A; dmi_temperature_probe_resolution wA;
     wC \<leftarrow> data16 h 0x0C; dmi_temperature_probe_value ''Tolerance'' wC;
     wE \<leftarrow> data16 h 0x0E; dmi_probe_accuracy wE;
     attr_hex32 ''OEM-specific Information'' h 0x10;
     brk (hlen h < 0x16) (do {
     w14 \<leftarrow> data16 h 0x14; dmi_temperature_probe_value ''Nominal Value'' w14 }) }) }"

definition dmi_decode_current_probe :: "dmi_header \<Rightarrow> u16 \<Rightarrow> (st, unit) state" where
  "dmi_decode_current_probe h ver = do {
     pr_handle_name [Lit ''Electrical Current Probe''];
     brk (hlen h < 0x14) (do {
     attr_str ''Description'' h 0x04;
     probe_place dmi_voltage_probe_location ''Location'' h 0x05;
     w6 \<leftarrow> data16 h 0x06; dmi_current_probe_value ''Maximum Value'' w6;
     w8 \<leftarrow> data16 h 0x08; dmi_current_probe_value ''Minimum Value'' w8;
     wA \<leftarrow> data16 h 0x0A; dmi_current_probe_resolution wA;
     wC \<leftarrow> data16 h 0x0C; dmi_current_probe_value ''Tolerance'' wC;
     wE \<leftarrow> data16 h 0x0E; dmi_probe_accuracy wE;
     attr_hex32 ''OEM-specific Information'' h 0x10;
     brk (hlen h < 0x16) (do {
     w14 \<leftarrow> data16 h 0x14; dmi_current_probe_value ''Nominal Value'' w14 }) }) }"

definition dmi_decode_remote_access :: "dmi_header \<Rightarrow> u16 \<Rightarrow> (st, unit) state" where
  "dmi_decode_remote_access h ver = do {
     pr_handle_name [Lit ''Out-of-band Remote Access''];
     brk (hlen h < 0x06) (do {
     attr_str ''Manufacturer Name'' h 0x04;
     b5 \<leftarrow> data8 h 0x05;
     pr_attr ''Inbound Connection'' [yes_no (bit b5 0) ''Enabled'' ''Disabled''];
     pr_attr ''Outbound Connection'' [yes_no (bit b5 1) ''Enabled'' ''Disabled''] }) }"

definition dmi_decode_boot_integrity :: "dmi_header \<Rightarrow> u16 \<Rightarrow> (st, unit) state" where
  "dmi_decode_boot_integrity h ver = do {
     pr_handle_name [Lit ''Boot Integrity Services Entry Point''];
     brk (hlen h < 0x1C) (do {
     bytes \<leftarrow> rd_bytes (h_data h) (hlen h);
     pr_attr ''Checksum'' [yes_no (checksum bytes) ''OK'' ''Invalid''];
     d8 \<leftarrow> data32 h 0x08;
     pr_attr ''16-bit Entry Point Address''
       [X 4 (unat (drop_bit 16 d8)), Lit '':'', X 4 (unat (d8 AND 0xFFFF))];
     attr_hex32 ''32-bit Entry Point Address'' h 0x0C }) }"

definition dmi_decode_boot :: "dmi_header \<Rightarrow> u16 \<Rightarrow> (st, unit) state" where
  "dmi_decode_boot h ver = do {
     pr_handle_name [Lit ''System Boot Information''];
     brk (hlen h < 0x0B) (attr_look ''Status'' dmi_system_boot_status h 0x0A) }"

definition dmi_decode_memory_error64 :: "dmi_header \<Rightarrow> u16 \<Rightarrow> (st, unit) state" where
  "dmi_decode_memory_error64 h ver = do {
     pr_handle_name [Lit ''64-bit Memory Error Information''];
     brk (hlen h < 0x1F) (do {
     attr_look ''Type'' dmi_memory_error_type h 0x04;
     attr_look ''Granularity'' dmi_memory_error_granularity h 0x05;
     attr_look ''Operation'' dmi_memory_error_operation h 0x06;
     d7 \<leftarrow> data32 h 0x07; dmi_memory_error_syndrome d7;
     qB \<leftarrow> data64 h 0x0B; dmi_64bit_memory_error_address ''Memory Array Address'' qB;
     q13 \<leftarrow> data64 h 0x13; dmi_64bit_memory_error_address ''Device Address'' q13;
     d1B \<leftarrow> data32 h 0x1B; dmi_32bit_memory_error_address ''Resolution'' d1B }) }"

definition dmi_decode_management_device :: "dmi_header \<Rightarrow> u16 \<Rightarrow> (st, unit) state" where
  "dmi_decode_management_device h ver = do {
     pr_handle_name [Lit ''Management Device''];
     brk (hlen h < 0x0B) (do {
     attr_str ''Description'' h 0x04;
     attr_look ''Type'' dmi_management_device_type h 0x05;
     attr_hex32 ''Address'' h 0x06;
     attr_look ''Address Type'' dmi_management_device_address_type h 0x0A }) }"

definition dmi_decode_management_component :: "dmi_header \<Rightarrow> u16 \<Rightarrow> (st, unit) state" where
  "dmi_decode_management_component h ver = do {
     pr_handle_name [Lit ''Management Device Component''];
     brk (hlen h < 0x0B) (do {
     attr_str ''Description'' h 0x04;
     unless_quiet (do {
       attr_hex16 ''Management Device Handle'' h 0x05;
       attr_hex16 ''Component Handle'' h 0x07;
       w9 \<leftarrow> data16 h 0x09;
       if_then (w9 \<noteq> 0xFFFF) (attr_hex16 ''Threshold Handle'' h 0x09) }) }) }"

text \<open>\<^verbatim>\<open>if (WORD(data + off) != 0x8000) pr_attr(name, "%d", (i16)WORD(data + off))\<close>\<close>

definition attr_threshold :: "string \<Rightarrow> dmi_header \<Rightarrow> nat \<Rightarrow> (st, unit) state" where
  "attr_threshold name h off = do {
     w \<leftarrow> data16 h off; if_then (w \<noteq> 0x8000) (pr_attr name [D (sint w)]) }"

definition dmi_decode_threshold :: "dmi_header \<Rightarrow> u16 \<Rightarrow> (st, unit) state" where
  "dmi_decode_threshold h ver = do {
     pr_handle_name [Lit ''Management Device Threshold Data''];
     brk (hlen h < 0x10) (do {
     attr_threshold ''Lower Non-critical Threshold'' h 0x04;
     attr_threshold ''Upper Non-critical Threshold'' h 0x06;
     attr_threshold ''Lower Critical Threshold'' h 0x08;
     attr_threshold ''Upper Critical Threshold'' h 0x0A;
     attr_threshold ''Lower Non-recoverable Threshold'' h 0x0C;
     attr_threshold ''Upper Non-recoverable Threshold'' h 0x0E }) }"

definition dmi_decode_memory_channel :: "dmi_header \<Rightarrow> u16 \<Rightarrow> (st, unit) state" where
  "dmi_decode_memory_channel h ver = do {
     pr_handle_name [Lit ''Memory Channel''];
     brk (hlen h < 0x07) (do {
     attr_look ''Type'' dmi_memory_channel_type h 0x04;
     attr_u8 ''Maximal Load'' h 0x05;
     attr_u8 ''Devices'' h 0x06;
     n \<leftarrow> data8 h 0x06;
     brk (hlen h < 0x07 + 3 * unat n) (dmi_memory_channel_devices n (h_data h + 0x07)) }) }"

definition dmi_decode_ipmi :: "dmi_header \<Rightarrow> u16 \<Rightarrow> (st, unit) state" where
  "dmi_decode_ipmi h ver = do {
     pr_handle_name [Lit ''IPMI Device Information''];
     brk (hlen h < 0x10) (do {
     attr_look ''Interface Type'' dmi_ipmi_interface_type h 0x04;
     b5 \<leftarrow> data8 h 0x05;
     pr_attr ''Specification Version'' [U (unat (drop_bit 4 b5)), Lit ''.'', U (unat (b5 AND 0x0F))];
     b6 \<leftarrow> data8 h 0x06;
     pr_attr ''I2C Slave Address'' [Lit ''0x'', XL 2 (unat (drop_bit 1 b6))];
     b7 \<leftarrow> data8 h 0x07;
     (if b7 \<noteq> 0xFF then pr_attr ''NV Storage Device Address'' [U (unat b7)]
      else pr_attr ''NV Storage Device'' [Lit ''Not Present'']);
     b4 \<leftarrow> data8 h 0x04;
     lsb \<leftarrow> (if hlen h < 0x11 then ret 0 else do { b \<leftarrow> data8 h 0x10; ret (drop_bit 4 b AND 1) });
     dmi_ipmi_base_address b4 (h_data h + 0x08) lsb;
     brk (hlen h < 0x12) (do {
     b10 \<leftarrow> data8 h 0x10;
     if_then (b4 \<noteq> 0x04) (do {
       pr_attr ''Register Spacing'' [S (dmi_ipmi_register_spacing (drop_bit 6 b10))];
       if_then (bit b10 3) (do {
         pr_attr ''Interrupt Polarity'' [yes_no (bit b10 1) ''Active High'' ''Active Low''];
         pr_attr ''Interrupt Trigger Mode'' [yes_no (bit b10 0) ''Level'' ''Edge''] }) });
     b11 \<leftarrow> data8 h 0x11;
     if_then (b11 \<noteq> 0) (pr_attr ''Interrupt Number'' [U (unat b11)]) }) }) }"

definition attr_probe_handle :: "string \<Rightarrow> dmi_header \<Rightarrow> nat \<Rightarrow> (st, unit) state" where
  "attr_probe_handle name h off = do {
     w \<leftarrow> data16 h off; if_then (w \<noteq> 0xFFFF) (attr_hex16 name h off) }"

definition dmi_decode_power_supply :: "dmi_header \<Rightarrow> u16 \<Rightarrow> (st, unit) state" where
  "dmi_decode_power_supply h ver = do {
     pr_handle_name [Lit ''System Power Supply''];
     brk (hlen h < 0x10) (do {
     b4 \<leftarrow> data8 h 0x04;
     if_then (b4 \<noteq> 0) (pr_attr ''Power Unit Group'' [U (unat b4)]);
     attr_str ''Location'' h 0x05;
     attr_str ''Name'' h 0x06;
     attr_str ''Manufacturer'' h 0x07;
     attr_str ''Serial Number'' h 0x08;
     attr_str ''Asset Tag'' h 0x09;
     attr_str ''Model Part Number'' h 0x0A;
     attr_str ''Revision'' h 0x0B;
     wC \<leftarrow> data16 h 0x0C; dmi_power_supply_power wC;
     wE \<leftarrow> data16 h 0x0E;
     (if bit wE 1 then pr_attr ''Status'' [Lit ''Present, '',
         S (dmi_power_supply_status (ucast (drop_bit 7 wE AND 0x07)))]
      else pr_attr ''Status'' [Lit ''Not Present'']);
     pr_attr ''Type'' [S (dmi_power_supply_type (ucast (drop_bit 10 wE AND 0x0F)))];
     pr_attr ''Input Voltage Range Switching''
       [S (dmi_power_supply_range_switching (ucast (drop_bit 3 wE AND 0x0F)))];
     pr_attr ''Plugged'' [yes_no (bit wE 2) ''No'' ''Yes''];
     pr_attr ''Hot Replaceable'' [yes_no (bit wE 0) ''Yes'' ''No''];
     brk (hlen h < 0x16) (unless_quiet (do {
       attr_probe_handle ''Input Voltage Probe Handle'' h 0x10;
       attr_probe_handle ''Cooling Device Handle'' h 0x12;
       attr_probe_handle ''Input Current Probe Handle'' h 0x14 })) }) }"

definition dmi_decode_onboard_device :: "dmi_header \<Rightarrow> u16 \<Rightarrow> (st, unit) state" where
  "dmi_decode_onboard_device h ver = do {
     pr_handle_name [Lit ''Onboard Device''];
     brk (hlen h < 0x0B) (do {
     attr_str ''Reference Designation'' h 0x04;
     b5 \<leftarrow> data8 h 0x05;
     pr_attr ''Type'' [S (dmi_on_board_devices_type (b5 AND 0x7F))];
     pr_attr ''Status'' [yes_no (b5 AND 0x80 \<noteq> 0) ''Enabled'' ''Disabled''];
     attr_u8 ''Type Instance'' h 0x06;
     w7 \<leftarrow> data16 h 0x07; b9 \<leftarrow> data8 h 0x09; bA \<leftarrow> data8 h 0x0A;
     dmi_slot_segment_bus_func w7 b9 bA }) }"

subsection \<open>Safety\<close>

lemma safe_dmi_battery_capacity [safe_intros]: "safe A M lo hi (dmi_battery_capacity a b)"
  unfolding dmi_battery_capacity_def by (intro safe_intros) simp_all

lemma safe_dmi_battery_voltage [safe_intros]: "safe A M lo hi (dmi_battery_voltage a)"
  unfolding dmi_battery_voltage_def by (intro safe_intros) simp_all

lemma safe_dmi_battery_maximum_error [safe_intros]: "safe A M lo hi (dmi_battery_maximum_error a)"
  unfolding dmi_battery_maximum_error_def by (intro safe_intros) simp_all

lemma safe_dmi_system_reset_count [safe_intros]: "safe A M lo hi (dmi_system_reset_count attr a)"
  unfolding dmi_system_reset_count_def by (intro safe_intros) simp_all

lemma safe_dmi_system_reset_timer [safe_intros]: "safe A M lo hi (dmi_system_reset_timer attr a)"
  unfolding dmi_system_reset_timer_def by (intro safe_intros) simp_all

lemma safe_dmi_voltage_probe_value [safe_intros]: "safe A M lo hi (dmi_voltage_probe_value attr a)"
  unfolding dmi_voltage_probe_value_def by (intro safe_intros) simp_all

lemma safe_dmi_voltage_probe_resolution [safe_intros]: "safe A M lo hi (dmi_voltage_probe_resolution a)"
  unfolding dmi_voltage_probe_resolution_def by (intro safe_intros) simp_all

lemma safe_dmi_probe_accuracy [safe_intros]: "safe A M lo hi (dmi_probe_accuracy a)"
  unfolding dmi_probe_accuracy_def by (intro safe_intros) simp_all

lemma safe_dmi_cooling_device_speed [safe_intros]: "safe A M lo hi (dmi_cooling_device_speed a)"
  unfolding dmi_cooling_device_speed_def by (intro safe_intros) simp_all

lemma safe_dmi_temperature_probe_value [safe_intros]: "safe A M lo hi (dmi_temperature_probe_value attr a)"
  unfolding dmi_temperature_probe_value_def by (intro safe_intros) simp_all

lemma safe_dmi_temperature_probe_resolution [safe_intros]: "safe A M lo hi (dmi_temperature_probe_resolution a)"
  unfolding dmi_temperature_probe_resolution_def by (intro safe_intros) simp_all

lemma safe_dmi_current_probe_value [safe_intros]: "safe A M lo hi (dmi_current_probe_value attr a)"
  unfolding dmi_current_probe_value_def by (intro safe_intros) simp_all

lemma safe_dmi_current_probe_resolution [safe_intros]: "safe A M lo hi (dmi_current_probe_resolution a)"
  unfolding dmi_current_probe_resolution_def by (intro safe_intros) simp_all

lemma safe_dmi_64bit_memory_error_address [safe_intros]: "safe A M lo hi (dmi_64bit_memory_error_address attr a)"
  unfolding dmi_64bit_memory_error_address_def by (intro safe_intros) simp_all

lemma safe_dmi_power_supply_power [safe_intros]: "safe A M lo hi (dmi_power_supply_power a)"
  unfolding dmi_power_supply_power_def by (intro safe_intros) simp_all

lemma bcd_part_ok:
  "args_ok (bcd_part sep b x y)" "length sep \<le> 1 \<Longrightarrow> sum_list (map farg_len (bcd_part sep b x y)) \<le> 3"
  "CHR ''%'' \<notin> set sep \<Longrightarrow> list_all no_percent (bcd_part sep b x y)"
  "sum_list (map farg_len (bcd_part [] b x y)) \<le> 2"
  using length_hex_u8_le [of True b] by (auto simp: bcd_part_def)

lemma safe_dmi_power_controls_power_on [safe_intros]:
  assumes "p + 4 < length M" shows "safe A M lo hi (dmi_power_controls_power_on p)"
proof -
  have "parts_ok 15 [bcd_part [] b0 0x01 0x12, bcd_part ''-'' b1 0x01 0x31,
      bcd_part '' '' b2 0x00 0x23, bcd_part '':'' b3 0x00 0x59, bcd_part '':'' b4 0x00 0x59]"
    for b0 b1 b2 b3 b4
    using bcd_part_ok(4) [of b0 "0x01" "0x12"] bcd_part_ok(2) [of "''-''" b1 "0x01" "0x31"]
      bcd_part_ok(2) [of "'' ''" b2 "0x00" "0x23"] bcd_part_ok(2) [of "'':''" b3 "0x00" "0x59"]
      bcd_part_ok(2) [of "'':''" b4 "0x00" "0x59"]
    by (simp add: parts_ok_def bcd_part_ok(1,3))
  then show ?thesis
    using assms unfolding dmi_power_controls_power_on_def
    by (intro safe_bind [OF safe_rd8] safe_sprintf_at safe_pr_attr) simp_all
qed

lemma safe_dmi_fixup_type_34 [safe_intros]:
  "h_data h + 0x0F < length M \<or> h_length h \<noteq> 0x10 \<Longrightarrow> safe A M lo hi (dmi_fixup_type_34 h display)"
  unfolding dmi_fixup_type_34_def by (intro safe_intros) simp_all

lemma safe_WORD_edge:
  "x + 1 \<le> length M \<Longrightarrow> OutOfBounds (length M) \<in> A \<Longrightarrow> safe A M lo hi (WORD x)"
proof (rule safeI)
  fix s assume "x + 1 \<le> length M" "OutOfBounds (length M) \<in> A" "mem_ok A M lo hi s"
  then show "kept A M lo hi s (snd (run_state (WORD x) s))"
    by (cases "x + 1 = length M") (auto simp: WORD_def rd8_def mem_ok_def kept_def)
qed

text \<open>The last handle may end one byte outside the table.\<close>

lemma safe_dmi_memory_channel_devices [safe_intros]:
  assumes "p + 3 * unat n + 1 < length M" "OutOfBounds (length M) \<in> A"
  shows "safe A M lo hi (dmi_memory_channel_devices n p)"
  using assms unfolding dmi_memory_channel_devices_def
  by (intro safe_for_each safe_bind safe_sprintf safe_unless_quiet safe_pr_attr safe_rd8 safe_WORD_edge)
     (auto simp: ok_simps)

lemma safe_dmi_ipmi_base_address [safe_intros]:
  "p + 7 < length M \<Longrightarrow> safe A M lo hi (dmi_ipmi_base_address t p lsb)"
  unfolding dmi_ipmi_base_address_def by (intro safe_intros) simp_all

lemma safe_attr_threshold [safe_intros]:
  "struct_ok M lo hi h \<Longrightarrow> off + 2 \<le> hlen h \<Longrightarrow> safe A M lo hi (attr_threshold name h off)"
  using struct_okD [of M lo hi h] unfolding attr_threshold_def by (intro safe_intros) simp_all

lemma safe_attr_probe_handle [safe_intros]:
  "struct_ok M lo hi h \<Longrightarrow> off + 2 \<le> hlen h \<Longrightarrow> safe A M lo hi (attr_probe_handle name h off)"
  using struct_okD [of M lo hi h] unfolding attr_probe_handle_def by (intro safe_intros) simp_all

lemma safe_probe_place [safe_intros]:
  "struct_ok M lo hi h \<Longrightarrow> off < hlen h \<Longrightarrow> (\<And>c. location c \<noteq> None)
   \<Longrightarrow> safe A M lo hi (probe_place location name h off)"
  using struct_okD [of M lo hi h] unfolding probe_place_def
  by (intro safe_intros) (simp_all add: ok_simps del: not_None_eq)

lemma safe_dmi_decode_pointing [safe_intros]:
  assumes "struct_ok M lo hi h" shows "safe A M lo hi (dmi_decode_pointing h ver)"
  using assms struct_okD [OF assms] unfolding dmi_decode_pointing_def
  by (intro safe_intros) (simp_all add: ok_simps)

lemma safe_dmi_decode_battery [safe_intros]:
  assumes "struct_ok M lo hi h" shows "safe A M lo hi (dmi_decode_battery h ver)"
  using assms struct_okD [OF assms] unfolding dmi_decode_battery_def
  by (intro safe_intros) (simp_all add: ok_simps)

lemma safe_dmi_decode_system_reset [safe_intros]:
  assumes "struct_ok M lo hi h" shows "safe A M lo hi (dmi_decode_system_reset h ver)"
  using assms struct_okD [OF assms] unfolding dmi_decode_system_reset_def
  by (intro safe_intros) (simp_all add: ok_simps)

lemma safe_dmi_decode_hardware_security [safe_intros]:
  assumes "struct_ok M lo hi h" shows "safe A M lo hi (dmi_decode_hardware_security h ver)"
  using assms struct_okD [OF assms] unfolding dmi_decode_hardware_security_def
  by (intro safe_intros) (simp_all add: ok_simps)

lemma safe_dmi_decode_power_controls [safe_intros]:
  assumes "struct_ok M lo hi h" shows "safe A M lo hi (dmi_decode_power_controls h ver)"
  using assms struct_okD [OF assms] unfolding dmi_decode_power_controls_def
  by (intro safe_intros) (simp_all add: ok_simps)

lemma safe_dmi_decode_voltage_probe [safe_intros]:
  assumes "struct_ok M lo hi h" shows "safe A M lo hi (dmi_decode_voltage_probe h ver)"
  using assms struct_okD [OF assms] unfolding dmi_decode_voltage_probe_def
  by (intro safe_intros) (simp_all add: ok_simps)

lemma safe_dmi_decode_cooling [safe_intros]:
  assumes "struct_ok M lo hi h" shows "safe A M lo hi (dmi_decode_cooling h ver)"
  using assms struct_okD [OF assms] unfolding dmi_decode_cooling_def
  by (intro safe_intros) (simp_all add: ok_simps)

lemma safe_dmi_decode_temperature_probe [safe_intros]:
  assumes "struct_ok M lo hi h" shows "safe A M lo hi (dmi_decode_temperature_probe h ver)"
  using assms struct_okD [OF assms] unfolding dmi_decode_temperature_probe_def
  by (intro safe_intros) (simp_all add: ok_simps)

lemma safe_dmi_decode_current_probe [safe_intros]:
  assumes "struct_ok M lo hi h" shows "safe A M lo hi (dmi_decode_current_probe h ver)"
  using assms struct_okD [OF assms] unfolding dmi_decode_current_probe_def
  by (intro safe_intros) (simp_all add: ok_simps)

lemma safe_dmi_decode_remote_access [safe_intros]:
  assumes "struct_ok M lo hi h" shows "safe A M lo hi (dmi_decode_remote_access h ver)"
  using assms struct_okD [OF assms] unfolding dmi_decode_remote_access_def
  by (intro safe_intros) (simp_all add: ok_simps)

lemma safe_dmi_decode_boot_integrity [safe_intros]:
  assumes "struct_ok M lo hi h" shows "safe A M lo hi (dmi_decode_boot_integrity h ver)"
  using assms struct_okD [OF assms] unfolding dmi_decode_boot_integrity_def
  by (intro safe_intros) (simp_all add: ok_simps)

lemma safe_dmi_decode_boot [safe_intros]:
  assumes "struct_ok M lo hi h" shows "safe A M lo hi (dmi_decode_boot h ver)"
  using assms struct_okD [OF assms] unfolding dmi_decode_boot_def
  by (intro safe_intros) (simp_all add: ok_simps)

lemma safe_dmi_decode_memory_error64 [safe_intros]:
  assumes "struct_ok M lo hi h" shows "safe A M lo hi (dmi_decode_memory_error64 h ver)"
  using assms struct_okD [OF assms] unfolding dmi_decode_memory_error64_def
  by (intro safe_intros) (simp_all add: ok_simps)

lemma safe_dmi_decode_management_device [safe_intros]:
  assumes "struct_ok M lo hi h" shows "safe A M lo hi (dmi_decode_management_device h ver)"
  using assms struct_okD [OF assms] unfolding dmi_decode_management_device_def
  by (intro safe_intros) (simp_all add: ok_simps)

lemma safe_dmi_decode_management_component [safe_intros]:
  assumes "struct_ok M lo hi h" shows "safe A M lo hi (dmi_decode_management_component h ver)"
  using assms struct_okD [OF assms] unfolding dmi_decode_management_component_def
  by (intro safe_intros) (simp_all add: ok_simps)

lemma safe_dmi_decode_threshold [safe_intros]:
  assumes "struct_ok M lo hi h" shows "safe A M lo hi (dmi_decode_threshold h ver)"
  using assms struct_okD [OF assms] unfolding dmi_decode_threshold_def
  by (intro safe_intros) (simp_all add: ok_simps)

lemma safe_dmi_decode_ipmi [safe_intros]:
  assumes "struct_ok M lo hi h" shows "safe A M lo hi (dmi_decode_ipmi h ver)"
  using assms struct_okD [OF assms] unfolding dmi_decode_ipmi_def
  by (intro safe_intros) (simp_all add: ok_simps)

lemma safe_dmi_decode_power_supply [safe_intros]:
  assumes "struct_ok M lo hi h" shows "safe A M lo hi (dmi_decode_power_supply h ver)"
  using assms struct_okD [OF assms] unfolding dmi_decode_power_supply_def
  by (intro safe_intros) (simp_all add: ok_simps)

lemma safe_dmi_decode_onboard_device [safe_intros]:
  assumes "struct_ok M lo hi h" shows "safe A M lo hi (dmi_decode_onboard_device h ver)"
  using assms struct_okD [OF assms] unfolding dmi_decode_onboard_device_def
  by (intro safe_intros) (simp_all add: ok_simps)

lemma safe_dmi_decode_memory_channel [safe_intros]:
  assumes "struct_ok M lo hi h" "OutOfBounds (length M) \<in> A"
  shows "safe A M lo hi (dmi_decode_memory_channel h ver)"
  using assms struct_okD [OF assms(1)] unfolding dmi_decode_memory_channel_def
  by (intro safe_intros) (simp_all add: ok_simps)

end
