(* ===== verification/Controllers.thy ===== *)
theory Controllers
  imports Devices Board
begin

section \<open>Additional information, host interface, TPM, firmware (types 40, 42, 43, 45)\<close>

text \<open>
  Sections 7.41 and 7.43 to 7.46. Types 40 and 42 hold records of variable length; the loops
  over them carry the offset reached so far and stop at the first record that would leave the
  structure (\<open>additional_info_loop\<close>, \<open>protocol_records\<close>). \<open>ntop\<close> stands for
  \<^verbatim>\<open>inet_ntop\<close> of the C library: the text of an address of the given family and bytes.
\<close>

subsection \<open>Additional information\<close>

text \<open>\<open>i\<close> of the entries are done, \<open>n\<close> are left; \<^verbatim>\<open>p\<close> is \<^verbatim>\<open>h->data + offset\<close>.\<close>

fun additional_info_loop :: "dmi_header \<Rightarrow> nat \<Rightarrow> nat \<Rightarrow> nat \<Rightarrow> (st, unit) state" where
  "additional_info_loop h i 0 offset = ret ()"
| "additional_info_loop h i (Suc n) offset = do {
     pr_handle_name [Lit ''Additional Information '', U (i + 1)];
     brk (hlen h < offset + 1) (do {
     len \<leftarrow> data8 h offset;
     brk (unat len < 0x05 \<or> hlen h < offset + unat len) (do {
     w \<leftarrow> data16 h (offset + 0x01);
     pr_attr ''Referenced Handle'' [Lit ''0x'', XL 4 (unat w)];
     b3 \<leftarrow> data8 h (offset + 0x03);
     pr_attr ''Referenced Offset'' [Lit ''0x'', XL 2 (unat b3)];
     attr_str ''String'' h (offset + 0x04);
     (if unat len - 0x05 = 1 then do {
        v \<leftarrow> data8 h (offset + 0x05); pr_attr ''Value'' [Lit ''0x'', XL 2 (unat v)] }
      else if unat len - 0x05 = 2 then do {
        v \<leftarrow> data16 h (offset + 0x05); pr_attr ''Value'' [Lit ''0x'', XL 4 (unat v)] }
      else if unat len - 0x05 = 4 then do {
        v \<leftarrow> data32 h (offset + 0x05); pr_attr ''Value'' [Lit ''0x'', XL 8 (unat v)] }
      else pr_attr ''Value'' [Lit ''Unexpected size'']);
     additional_info_loop h (i + 1) n (offset + unat len) }) }) }"

definition dmi_additional_info :: "dmi_header \<Rightarrow> (st, unit) state" where
  "dmi_additional_info h = do { count \<leftarrow> data8 h 4; additional_info_loop h 0 (unat count) 5 }"

subsection \<open>Management controller host interface\<close>

definition dmi_address_decode :: "(nat \<Rightarrow> u8 list \<Rightarrow> string) \<Rightarrow> nat \<Rightarrow> u8 \<Rightarrow> (st, string) state" where
  "dmi_address_decode ntop data addrtype =
     (if addrtype = 0x1 then do { bs \<leftarrow> rd_bytes data 4; ret (ntop 4 bs) }
      else if addrtype = 0x2 then do { bs \<leftarrow> rd_bytes data 16; ret (ntop 6 bs) }
      else ret out_of_spec)"

text \<open>The characters \<^verbatim>\<open>%.*s\<close> prints: at most \<open>n\<close>, up to the first zero byte.\<close>

fun rd_chars :: "nat \<Rightarrow> nat \<Rightarrow> (st, string) state" where
  "rd_chars a 0 = ret []"
| "rd_chars a (Suc n) = do { b \<leftarrow> rd8 a;
     if b = 0 then ret [] else do { cs \<leftarrow> rd_chars (a + 1) n; ret (char_of_u8 b # cs) } }"

text \<open>Address and mask, named \<^verbatim>\<open>"%s<suffix>"\<close>.\<close>

definition protocol_address :: "(nat \<Rightarrow> u8 list \<Rightarrow> string) \<Rightarrow> cstr \<Rightarrow> string \<Rightarrow> nat \<Rightarrow> u8
    \<Rightarrow> (st, unit) state" where
  "protocol_address ntop addrstr suffix data addrtype = do {
     attr \<leftarrow> sprintf 38 [S addrstr, Lit suffix];
     a \<leftarrow> dmi_address_decode ntop data addrtype;
     pr_subattr attr [S (Some a)] }"

definition dmi_parse_protocol_record :: "(nat \<Rightarrow> u8 list \<Rightarrow> string) \<Rightarrow> nat \<Rightarrow> (st, unit) state" where
  "dmi_parse_protocol_record ntop rec = do {
     rid \<leftarrow> rd8 rec;
     rlen \<leftarrow> rd8 (rec + 0x1);
     let rdata = rec + 0x2;
     pr_attr ''Protocol ID'' [XL 2 (unat rid), Lit '' ('', S (dmi_protocol_record_type rid), Lit '')''];
     if rid \<noteq> 0x4 then ret ()
     else if unat rlen < 91 then ret ()
     else do {
       dmi_system_uuid (Some pr_subattr) ''Service UUID'' rdata 0x311;
       assign_val \<leftarrow> rd8 (rdata + 16);
       pr_subattr ''Host IP Assignment Type'' [S (dmi_protocol_assignment_type assign_val)];
       addrtype \<leftarrow> rd8 (rdata + 17);
       let addrstr = dmi_address_type addrtype;
       pr_subattr ''Host IP Address Format'' [S addrstr];
       if_then (assign_val = 0x1 \<or> assign_val = 0x3) (do {
         protocol_address ntop addrstr '' Address'' (rdata + 18) addrtype;
         protocol_address ntop addrstr '' Mask'' (rdata + 34) addrtype });
       assign_val2 \<leftarrow> rd8 (rdata + 50);
       pr_subattr ''Redfish Service IP Discovery Type'' [S (dmi_protocol_assignment_type assign_val2)];
       addrtype2 \<leftarrow> rd8 (rdata + 51);
       let addrstr2 = dmi_address_type addrtype2;
       pr_subattr ''Redfish Service IP Address Format'' [S addrstr2];
       if_then (assign_val2 = 0x1 \<or> assign_val2 = 0x3) (do {
         protocol_address ntop addrstr2 '' Redfish Service Address'' (rdata + 52) addrtype2;
         protocol_address ntop addrstr2 '' Redfish Service Mask'' (rdata + 68) addrtype2;
         port \<leftarrow> WORD (rdata + 84);
         vlan \<leftarrow> DWORD (rdata + 86);
         pr_subattr ''Redfish Service Port'' [U (unat port)];
         pr_subattr ''Redfish Service Vlan'' [U (unat vlan)] });
       hl \<leftarrow> rd8 (rdata + 90);
       hname \<leftarrow> (if unat rlen < unat hl + 91 then ret out_of_spec
                else rd_chars (rdata + 91) (unat hl));
       pr_subattr ''Redfish Service Hostname'' [S (Some hname)] } }"

definition dmi_device_characteristics :: "u16 \<Rightarrow> (st, unit) state" where
  "dmi_device_characteristics code = (let characteristics =
       [''Credential bootstrapping via IPMI is supported'']
     in if code AND 0x1 = 0 then pr_list_item [Lit ''None'']
        else for_bits 0 0 code (\<lambda>i. pr_list_item [S (tab characteristics i)]))"

text \<open>\<^verbatim>\<open>pr_attr(name, "0x%04x", WORD(p))\<close>\<close>

definition attr_hexl16 :: "string \<Rightarrow> nat \<Rightarrow> (st, unit) state" where
  "attr_hexl16 name p = do { w \<leftarrow> WORD p; pr_attr name [Lit ''0x'', XL 4 (unat w)] }"

definition attr_mac :: "string \<Rightarrow> nat \<Rightarrow> (st, unit) state" where
  "attr_mac name p = do { m \<leftarrow> rd_bytes p 6;
     pr_attr name (concat (map (\<lambda>i. (if i = 0 then [] else [Lit '':'']) @ [XL 2 (unat (m ! i))])
       [0..<6])) }"

text \<open>The device characteristics at \<open>c\<close> and the handle at \<open>p\<close>.\<close>

definition device_credentials :: "nat \<Rightarrow> nat \<Rightarrow> (st, unit) state" where
  "device_credentials c p = do {
     pr_list_start ''Device Characteristics'' None;
     w \<leftarrow> WORD c;
     dmi_device_characteristics w;
     pr_list_end;
     if_then (bit w 0) (attr_hexl16 ''Credential Bootstrapping Handle'' p) }"

text \<open>The interface specific data, \<open>len\<close> bytes from \<^verbatim>\<open>data[0x6]\<close> on; its first byte is the
  device type, the rest starts at \<open>d\<close>.\<close>

definition controller_device :: "dmi_header \<Rightarrow> nat \<Rightarrow> (st, unit) state" where
  "controller_device h len = do {
     type \<leftarrow> data8 h 0x6;
     pr_attr ''Device Type'' [S (dmi_parse_device_type type)];
     let d = h_data h + 0x7;
     if type = 0x2 \<and> 5 \<le> len then do {
       attr_hexl16 ''idVendor'' d;
       attr_hexl16 ''idProduct'' (d + 0x2) }
     else if type = 0x3 \<and> 9 \<le> len then do {
       attr_hexl16 ''VendorID'' d;
       attr_hexl16 ''DeviceID'' (d + 0x2);
       attr_hexl16 ''SubVendorID'' (d + 0x4);
       attr_hexl16 ''SubDeviceID'' (d + 0x6) }
     else if type = 0x4 \<and> 0x0d \<le> len then do {
       attr_hexl16 ''idVendor'' (d + 0x1);
       attr_hexl16 ''idProduct'' (d + 0x3);
       attr_mac ''MAC Address'' (d + 0x6);
       if_then (0x11 \<le> len) (device_credentials (d + 0xc) (d + 0xe)) }
     else if type = 0x5 \<and> 0x14 \<le> len then do {
       attr_hexl16 ''VendorID'' (d + 0x1);
       attr_hexl16 ''DeviceID'' (d + 0x3);
       attr_hexl16 ''SubVendorID'' (d + 0x5);
       attr_hexl16 ''SubDeviceID'' (d + 0x7);
       attr_mac ''MAC Address'' (d + 0x9);
       wf \<leftarrow> WORD (d + 0xf); b11 \<leftarrow> rd8 (d + 0x11); b12 \<leftarrow> rd8 (d + 0x12);
       dmi_slot_segment_bus_func wf b11 b12;
       if_then (0x18 \<le> len) (device_credentials (d + 0x13) (d + 0x15)) }
     else if 0x80 \<le> type \<and> 5 \<le> len then do {
       b0 \<leftarrow> rd8 d; b1 \<leftarrow> rd8 (d + 1); b2 \<leftarrow> rd8 (d + 2); b3 \<leftarrow> rd8 (d + 3);
       pr_attr ''Vendor ID'' [Lit ''0x'', XL 2 (unat b0), Lit '':0x'', XL 2 (unat b1),
         Lit '':0x'', XL 2 (unat b2), Lit '':0x'', XL 2 (unat b3)] }
     else ret () }"

text \<open>\<open>i\<close> of the records are done, \<open>n\<close> are left.\<close>

fun protocol_records :: "(nat \<Rightarrow> u8 list \<Rightarrow> string) \<Rightarrow> dmi_header \<Rightarrow> nat \<Rightarrow> nat \<Rightarrow> nat \<Rightarrow> nat
    \<Rightarrow> (st, unit) state" where
  "protocol_records ntop h i 0 total_read rec = ret ()"
| "protocol_records ntop h i (Suc n) total_read rec = do {
     r1 \<leftarrow> rd8 (rec + 1);
     let total = total_read + unat r1 + 2;
     if hlen h < total then
       eprintf [Lit ''Total read length '', U total, Lit '' exceeds total structure length '',
         U (hlen h), Lit '' (handle 0x'', XL 4 (unat (h_handle h)), Lit '', record '', U (i + 1),
         Lit '')\<newline>'']
     else do {
       dmi_parse_protocol_record ntop rec;
       protocol_records ntop h (i + 1) n total (rec + unat r1 + 2) } }"

definition dmi_parse_controller_structure :: "(nat \<Rightarrow> u8 list \<Rightarrow> string) \<Rightarrow> dmi_header
    \<Rightarrow> (st, unit) state" where
  "dmi_parse_controller_structure ntop h = brk (hlen h < 0xB) (do {
     len \<leftarrow> data8 h 0x5;
     let total_read = unat len + 0x6;
     brk (hlen h < total_read) (do {
     type \<leftarrow> data8 h 0x4;
     pr_attr ''Host Interface Type'' [S (dmi_management_controller_host_type type)];
     brk (type \<noteq> 0x40) (do {
     if_then (len \<noteq> 0) (controller_device h (unat len));
     let data = h_data h + total_read;
     if hlen h < total_read + 1 then
       eprintf [Lit ''Total read length '', U (total_read + 1), Lit '' exceeds total structure length '',
         U (hlen h), Lit '' (handle 0x'', XL 4 (unat (h_handle h)), Lit '')\<newline>'']
     else do {
       count \<leftarrow> rd8 data;
       protocol_records ntop h 0 (unat count) (total_read + 1) (data + 1) } }) }) })"

definition dmi_decode_host_interface :: "(nat \<Rightarrow> u8 list \<Rightarrow> string) \<Rightarrow> dmi_header \<Rightarrow> u16
    \<Rightarrow> (st, unit) state" where
  "dmi_decode_host_interface ntop h ver = do {
     pr_handle_name [Lit ''Management Controller Host Interface''];
     if ver < 0x0302 then brk (hlen h < 0x05) (do {
       attr_look ''Interface Type'' dmi_management_controller_host_type h 0x04;
       brk (hlen h < 0x09) (do {
       b4 \<leftarrow> data8 h 0x04;
       if_then (b4 = 0xF0) (do {
         b5 \<leftarrow> data8 h 0x05; b6 \<leftarrow> data8 h 0x06; b7 \<leftarrow> data8 h 0x07; b8 \<leftarrow> data8 h 0x08;
         pr_attr ''Vendor ID'' [Lit ''0x'', X 2 (unat b5), X 2 (unat b6), X 2 (unat b7),
           X 2 (unat b8)] }) }) })
     else dmi_parse_controller_structure ntop h }"

subsection \<open>TPM and firmware\<close>

fun tpm_vendor_chars :: "nat \<Rightarrow> nat \<Rightarrow> (st, string) state" where
  "tpm_vendor_chars p 0 = ret []"
| "tpm_vendor_chars p (Suc n) = do { b \<leftarrow> rd8 p;
     if b = 0 then ret [] else do { cs \<leftarrow> tpm_vendor_chars (p + 1) n; ret (char_of_u8 (dot b) # cs) } }"

definition dmi_tpm_vendor_id :: "nat \<Rightarrow> (st, unit) state" where
  "dmi_tpm_vendor_id p = do {
     vendor_id \<leftarrow> tpm_vendor_chars p 4; pr_attr ''Vendor ID'' [S (Some vendor_id)] }"

definition dmi_tpm_characteristics :: "u64 \<Rightarrow> (st, unit) state" where
  "dmi_tpm_characteristics code = (let characteristics =
       [''TPM Device characteristics not supported'',
        ''Family configurable via firmware update'',
        ''Family configurable via platform software support'',
        ''Family configurable via OEM proprietary mechanism'']
     in if bit code 2 then pr_list_item [S (tab characteristics 0)]
        else for_bits 3 5 code (\<lambda>i. pr_list_item [S (tab characteristics (i - 2))]))"

definition dmi_decode_tpm :: "dmi_header \<Rightarrow> u16 \<Rightarrow> (st, unit) state" where
  "dmi_decode_tpm h ver = do {
     pr_handle_name [Lit ''TPM Device''];
     brk (hlen h < 0x1B) (do {
     dmi_tpm_vendor_id (h_data h + 0x04);
     b8 \<leftarrow> data8 h 0x08; b9 \<leftarrow> data8 h 0x09;
     pr_attr ''Specification Version'' [U (unat b8), Lit ''.'', U (unat b9)];
     (if b8 = 0x01 then do {
        bC \<leftarrow> data8 h 0x0C; bD \<leftarrow> data8 h 0x0D;
        pr_attr ''Firmware Revision'' [U (unat bC), Lit ''.'', U (unat bD)] }
      else if b8 = 0x02 then do {
        dA \<leftarrow> data32 h 0x0A;
        pr_attr ''Firmware Revision''
          [U (unat (drop_bit 16 dA)), Lit ''.'', U (unat (dA AND 0xFFFF))] }
      else ret ());
     attr_str ''Description'' h 0x12;
     pr_list_start ''Characteristics'' None;
     q13 \<leftarrow> data64 h 0x13;
     dmi_tpm_characteristics q13;
     pr_list_end;
     brk (hlen h < 0x1F) (attr_hex32 ''OEM-specific Information'' h 0x1B) }) }"

definition dmi_firmware_characteristics :: "u16 \<Rightarrow> (st, unit) state" where
  "dmi_firmware_characteristics code = (let characteristics = [''Updatable'', ''Write-Protect''] in
     for_each [0..<2] (\<lambda>i. pr_list_item [S (tab characteristics i), Lit '': '',
       yes_no (bit code i) ''Yes'' ''No'']))"

definition dmi_firmware_components :: "u8 \<Rightarrow> nat \<Rightarrow> (st, unit) state" where
  "dmi_firmware_components count p = do {
     pr_list_start ''Associated Components'' (Some [U (unat count)]);
     for_each [0..<unat count] (\<lambda>i. do {
       w \<leftarrow> WORD (p + 2 * i); pr_list_item [Lit ''0x'', X 4 (unat w)] });
     pr_list_end }"

definition dmi_decode_firmware :: "dmi_header \<Rightarrow> u16 \<Rightarrow> (st, unit) state" where
  "dmi_decode_firmware h ver = do {
     pr_handle_name [Lit ''Firmware Inventory Information''];
     brk (hlen h < 0x18) (do {
     attr_str ''Firmware Component Name'' h 0x04;
     attr_str ''Firmware Version'' h 0x05;
     attr_str ''Firmware ID'' h 0x07;
     attr_str ''Release Date'' h 0x09;
     attr_str ''Manufacturer'' h 0x0A;
     attr_str ''Lowest Supported Firmware Version'' h 0x0B;
     qC \<leftarrow> data64 h 0x0C; dmi_memory_size ''Image Size'' qC;
     pr_list_start ''Characteristics'' None;
     w14 \<leftarrow> data16 h 0x14; dmi_firmware_characteristics w14;
     pr_list_end;
     attr_look ''State'' dmi_firmware_state h 0x16;
     n \<leftarrow> data8 h 0x17;
     brk (hlen h < 0x18 + unat n * 2)
       (unless_quiet (dmi_firmware_components n (h_data h + 0x18))) }) }"

subsection \<open>Safety\<close>

lemma safe_additional_info_loop [safe_intros]:
  "struct_ok M lo hi h \<Longrightarrow> safe A M lo hi (additional_info_loop h i n offset)"
proof (induction n arbitrary: i offset)
  case (Suc n)
  then show ?case
    using struct_okD [OF Suc.prems] unfolding additional_info_loop.simps
    by (intro safe_intros Suc.IH) auto
qed (simp add: safe_ret)

lemma safe_dmi_additional_info [safe_intros]:
  "struct_ok M lo hi h \<Longrightarrow> 0x0B \<le> hlen h \<Longrightarrow> safe A M lo hi (dmi_additional_info h)"
  using struct_okD [of M lo hi h] unfolding dmi_additional_info_def by (intro safe_intros) simp_all

lemma safe_dmi_address_decode [safe_intros]:
  "p + 16 \<le> length M \<Longrightarrow> safe A M lo hi (dmi_address_decode ntop p t)"
  unfolding dmi_address_decode_def by (intro safe_intros) simp_all

lemma safe_rd_chars [safe_intros]: "a + n \<le> length M \<Longrightarrow> safe A M lo hi (rd_chars a n)"
  by (induction n arbitrary: a) (auto intro!: safe_intros)

lemma dmi_address_type_len: "\<exists>s. dmi_address_type c = Some s \<and> length s \<le> 13"
  by (auto simp: dmi_address_type_def Let_def out_of_spec_def numeral_eq_Suc less_Suc_eq_le le_Suc_eq)

lemma safe_protocol_address [safe_intros]:
  assumes "p + 16 \<le> length M" "length suffix \<le> 24"
  shows "safe A M lo hi (protocol_address ntop (dmi_address_type c) suffix p t)"
proof -
  obtain s where "dmi_address_type c = Some s" "length s \<le> 13" using dmi_address_type_len by blast
  then show ?thesis
    using assms unfolding protocol_address_def by (intro safe_intros) simp_all
qed

lemmas safe_uuid_subattr [safe_intros] = subattr.safe_uuid

text \<open>
  The length byte of a record is read twice, by the loop and by the parser. \<open>safe_byte\<close> is
  \<open>safe\<close> for the states in which the byte at \<open>a\<close> is \<open>v\<close>.
\<close>

definition safe_byte :: "fault set \<Rightarrow> u8 list \<Rightarrow> nat \<Rightarrow> nat \<Rightarrow> nat \<Rightarrow> u8 \<Rightarrow> (st, 'a) state \<Rightarrow> bool" where
  "safe_byte A M lo hi a v m \<longleftrightarrow> (\<forall>s. mem_ok A M lo hi s \<and> st_mem s ! a = v
     \<longrightarrow> kept A M lo hi s (snd (run_state m s)))"

lemma safe_rd8_byte:
  "a < length M \<Longrightarrow> (\<And>v. safe_byte A M lo hi a v (f v)) \<Longrightarrow> safe A M lo hi (State_Monad.bind (rd8 a) f)"
  by (auto simp: safe_def safe_byte_def run_rd8 mem_ok_length)

lemma safe_byte_safe: "safe A M lo hi m \<Longrightarrow> safe_byte A M lo hi a v m"
  by (simp add: safe_def safe_byte_def)

lemma safe_byte_rd8:
  "b < length M \<Longrightarrow> (\<And>x. safe_byte A M lo hi a v (f x)) \<Longrightarrow>
   safe_byte A M lo hi a v (State_Monad.bind (rd8 b) f)"
  by (auto simp: safe_byte_def run_rd8 mem_ok_length)

lemma safe_byte_rd8_same:
  "a < length M \<Longrightarrow> safe_byte A M lo hi a v (f v) \<Longrightarrow>
   safe_byte A M lo hi a v (State_Monad.bind (rd8 a) f)"
  by (auto simp: safe_byte_def run_rd8 mem_ok_length)

lemma safe_byte_bind:
  "safe_byte A M lo hi a v m \<Longrightarrow> (\<And>x. safe A M lo hi (f x)) \<Longrightarrow>
   safe_byte A M lo hi a v (State_Monad.bind m f)"
  by (auto simp: safe_byte_def safe_def kept_def split: prod.splits)

lemma safe_byte_parse_protocol_record:
  assumes "rec + 2 + unat v \<le> length M"
  shows "safe_byte A M lo hi (rec + 1) v (dmi_parse_protocol_record ntop rec)"
  unfolding dmi_parse_protocol_record_def
  apply (rule safe_byte_rd8)
  using assms apply simp
  apply (rule safe_byte_rd8_same)
  using assms apply simp
  apply (rule safe_byte_safe)
  using assms apply (intro safe_intros)
  apply (simp_all add: ok_simps safe_protocol_address del: not_None_eq)
  done

lemma safe_protocol_records [safe_intros]:
  assumes "struct_ok M lo hi h"
  shows "rec = h_data h + tr \<Longrightarrow> tr \<le> hlen h \<Longrightarrow>
    safe A M lo hi (protocol_records ntop h i n tr rec)"
proof (induction n arbitrary: i tr rec)
  case (Suc n)
  have "rec + 1 < length M" using Suc.prems struct_okD [OF assms] by linarith
  then show ?case
    unfolding protocol_records.simps Let_def
  proof (intro safe_rd8_byte)
    fix v
    show "safe_byte A M lo hi (rec + 1) v
      (if hlen h < tr + unat v + 2 then
         eprintf [Lit ''Total read length '', U (tr + unat v + 2),
           Lit '' exceeds total structure length '',
           U (hlen h), Lit '' (handle 0x'', XL 4 (unat (h_handle h)), Lit '', record '', U (i + 1),
           Lit '')\<newline>'']
       else do {
         dmi_parse_protocol_record ntop rec;
         protocol_records ntop h (i + 1) n (tr + unat v + 2) (rec + unat v + 2) })"
    proof (cases "hlen h < tr + unat v + 2")
      case True
      then show ?thesis by (simp add: safe_byte_safe safe_eprintf)
    next
      case False
      then show ?thesis
        using Suc.prems struct_okD [OF assms]
        by (simp add: safe_byte_bind safe_byte_parse_protocol_record [simplified] Suc.IH)
    qed
  qed
qed (simp add: safe_ret)

lemma safe_dmi_device_characteristics [safe_intros]: "safe A M lo hi (dmi_device_characteristics c)"
  unfolding dmi_device_characteristics_def by (intro safe_intros) (auto simp: ok_simps)

lemma safe_attr_hexl16 [safe_intros]: "p + 1 < length M \<Longrightarrow> safe A M lo hi (attr_hexl16 name p)"
  unfolding attr_hexl16_def by (intro safe_intros) simp_all

lemma safe_attr_mac [safe_intros]: "p + 6 \<le> length M \<Longrightarrow> safe A M lo hi (attr_mac name p)"
  unfolding attr_mac_def by (intro safe_intros) (simp_all add: args_ok_def list_all_iff)

lemma safe_device_credentials [safe_intros]:
  "c + 1 < length M \<Longrightarrow> p + 1 < length M \<Longrightarrow> safe A M lo hi (device_credentials c p)"
  unfolding device_credentials_def by (intro safe_intros) simp_all

lemma safe_controller_device [safe_intros]:
  assumes "struct_ok M lo hi h" "len + 6 \<le> hlen h" "0 < len"
  shows "safe A M lo hi (controller_device h len)"
  using assms struct_okD [OF assms(1)] unfolding controller_device_def
  by (intro safe_intros) (simp_all add: ok_simps del: not_None_eq)

lemma safe_dmi_parse_controller_structure [safe_intros]:
  assumes "struct_ok M lo hi h" shows "safe A M lo hi (dmi_parse_controller_structure ntop h)"
  using assms struct_okD [OF assms] unfolding dmi_parse_controller_structure_def
  by (intro safe_intros) (simp_all add: ok_simps unat_gt_0 del: not_None_eq)

lemma safe_dmi_decode_host_interface [safe_intros]:
  assumes "struct_ok M lo hi h" shows "safe A M lo hi (dmi_decode_host_interface ntop h ver)"
  using assms struct_okD [OF assms] unfolding dmi_decode_host_interface_def
  by (intro safe_intros) (simp_all add: ok_simps del: not_None_eq)

lemma safe_tpm_vendor_chars [safe_intros]: "p + n \<le> length M \<Longrightarrow> safe A M lo hi (tpm_vendor_chars p n)"
  by (induction n arbitrary: p) (auto intro!: safe_intros)

lemma safe_dmi_tpm_vendor_id [safe_intros]: "p + 4 \<le> length M \<Longrightarrow> safe A M lo hi (dmi_tpm_vendor_id p)"
  unfolding dmi_tpm_vendor_id_def by (intro safe_intros) simp_all

lemma safe_dmi_tpm_characteristics [safe_intros]: "safe A M lo hi (dmi_tpm_characteristics c)"
  unfolding dmi_tpm_characteristics_def by (intro safe_intros) (auto simp: ok_simps)

lemma safe_dmi_decode_tpm [safe_intros]:
  assumes "struct_ok M lo hi h" shows "safe A M lo hi (dmi_decode_tpm h ver)"
  using assms struct_okD [OF assms] unfolding dmi_decode_tpm_def
  by (intro safe_intros) (simp_all add: ok_simps)

lemma safe_dmi_firmware_characteristics [safe_intros]: "safe A M lo hi (dmi_firmware_characteristics c)"
  unfolding dmi_firmware_characteristics_def by (intro safe_intros) (auto simp: ok_simps)

lemma safe_dmi_firmware_components [safe_intros]:
  "p + 2 * unat n \<le> length M \<Longrightarrow> safe A M lo hi (dmi_firmware_components n p)"
  unfolding dmi_firmware_components_def by (intro safe_intros) auto

lemma safe_dmi_decode_firmware [safe_intros]:
  assumes "struct_ok M lo hi h" shows "safe A M lo hi (dmi_decode_firmware h ver)"
  using assms struct_okD [OF assms] unfolding dmi_decode_firmware_def
  by (intro safe_intros) (simp_all add: ok_simps del: not_None_eq)

end
