(* ===== verification/Oem_Vendors.thy ===== *)
theory Oem_Vendors
  imports Controllers
begin

section \<open>OEM structures of Acer, Dell, IBM and Lenovo (dmioem.c)\<close>

text \<open>
  The vendor of the system (\<^verbatim>\<open>dmi_set_vendor\<close>) and the vendor-specific structures of all
  vendors but HP. A decoder returns whether it knows the structure.
\<close>

subsection \<open>Vendor\<close>

definition vendor_table :: "(string \<times> dmi_vendors) list" where
  "vendor_table =
    [(''Acer'', VENDOR_ACER), (''Dell Computer Corporation'', VENDOR_DELL),
     (''Dell Inc.'', VENDOR_DELL), (''HP'', VENDOR_HP), (''Hewlett-Packard'', VENDOR_HP),
     (''HPE'', VENDOR_HPE), (''Hewlett Packard Enterprise'', VENDOR_HPE),
     (''IBM'', VENDOR_IBM), (''LENOVO'', VENDOR_LENOVO)]"

definition trim_spaces :: "string \<Rightarrow> string" where
  "trim_spaces s = rev (dropWhile (\<lambda>c. c = CHR '' '') (rev s))"

definition set_vendor_product :: "dmi_vendors option \<Rightarrow> nat option \<Rightarrow> (st, unit) state" where
  "set_vendor_product v p = State (\<lambda>s. ((), s\<lparr>st_product := p,
     st_vendor := (case v of None \<Rightarrow> st_vendor s | Some x \<Rightarrow> x)\<rparr>))"

definition dmi_set_vendor :: "nat option \<Rightarrow> nat option \<Rightarrow> (st, unit) state" where
  "dmi_set_vendor v p = do {
     name \<leftarrow> (case v of None \<Rightarrow> ret [] | Some a \<Rightarrow> cstring_at a);
     set_vendor_product (map_of vendor_table (trim_spaces name)) p }"

definition get_vendor :: "(st, dmi_vendors) state" where
  "get_vendor = State (\<lambda>s. (st_vendor s, s))"

subsection \<open>Statements\<close>

definition attr_flag :: "string \<Rightarrow> bool \<Rightarrow> (st, unit) state" where
  "attr_flag name b = pr_attr name [yes_no b ''Yes'' ''No'']"

definition subattr_flag :: "string \<Rightarrow> bool \<Rightarrow> (st, unit) state" where
  "subattr_flag name b = pr_subattr name [yes_no b ''Yes'' ''No'']"

text \<open>\<^verbatim>\<open>"0x%02x"\<close> of a byte, \<^verbatim>\<open>"0x%04x"\<close> of a word and \<^verbatim>\<open>"0x%08x"\<close> of a double word.\<close>

definition attr_x8 :: "string \<Rightarrow> dmi_header \<Rightarrow> nat \<Rightarrow> (st, unit) state" where
  "attr_x8 name h off = do { b \<leftarrow> data8 h off; pr_attr name [Lit ''0x'', XL 2 (unat b)] }"
definition attr_x16 :: "string \<Rightarrow> dmi_header \<Rightarrow> nat \<Rightarrow> (st, unit) state" where
  "attr_x16 name h off = do { w \<leftarrow> data16 h off; pr_attr name [Lit ''0x'', XL 4 (unat w)] }"
definition attr_x32 :: "string \<Rightarrow> dmi_header \<Rightarrow> nat \<Rightarrow> (st, unit) state" where
  "attr_x32 name h off = do { d \<leftarrow> data32 h off; pr_attr name [Lit ''0x'', XL 8 (unat d)] }"

text \<open>A \<^verbatim>\<open>break\<close> in a decoder that returns 1 at its end.\<close>

definition brk_known :: "bool \<Rightarrow> (st, unit) state \<Rightarrow> (st, bool) state" where
  "brk_known b m = do { brk b m; ret True }"

subsection \<open>Acer\<close>

definition dmi_decode_acer :: "dmi_header \<Rightarrow> (st, bool) state" where
  "dmi_decode_acer h = (if h_type h = 170 then do {
       pr_handle_name [Lit ''Acer Hotkey Function''];
       brk_known (hlen h < 0x0F) (do {
       cap \<leftarrow> data16 h 0x04;
       pr_attr ''Function bitmap for Communication Button'' [Lit ''0x'', XL 4 (unat cap)];
       subattr_flag ''WiFi'' (cap AND 0x0001 \<noteq> 0);
       subattr_flag ''3G'' (cap AND 0x0040 \<noteq> 0);
       subattr_flag ''WiMAX'' (cap AND 0x0080 \<noteq> 0);
       subattr_flag ''Bluetooth'' (cap AND 0x0800 \<noteq> 0);
       attr_x16 ''Function bitmap for Application Button'' h 0x06;
       attr_x16 ''Function bitmap for Media Button'' h 0x08;
       attr_x16 ''Function bitmap for Display Button'' h 0x0A;
       attr_x16 ''Function bitmap for Others Button'' h 0x0C;
       attr_u8 ''Communication Function Key Number'' h 0x0E }) }
     else ret False)"

subsection \<open>Dell\<close>

definition dmi_dell_bios_flags :: "u64 \<Rightarrow> (st, unit) state" where
  "dmi_dell_bios_flags flags = attr_flag ''ACPI WMI Supported'' (bit flags 1)"

definition dmi_dell_hotkeys :: "dmi_header \<Rightarrow> (st, unit) state" where
  "dmi_dell_hotkeys h = (let count = cdiv (int (hlen h) - 0x04) 0x04 in
     if count = 0 then ret ()
     else do {
       pr_list_start ''Hotkey Mappings'' None;
       for_each [0..<nat count] (\<lambda>i. do {
         let hotkey = 0x04 + 0x04 * i;
         a \<leftarrow> data16 h hotkey; b \<leftarrow> data16 h (hotkey + 0x02);
         pr_list_item [Lit ''Scancode 0x'', XL 4 (unat a), Lit '' -> Keycode 0x'', XL 4 (unat b)] });
       pr_list_end })"

definition dmi_dell_indexed_io_access :: "dmi_header \<Rightarrow> (st, unit) state" where
  "dmi_dell_indexed_io_access h = (let
     checksum_types = [''Word Checksum'', ''Byte Checksum'', ''CRC Checksum'',
                       ''Negative Word Checksum''];
     tokens = cdiv (int (hlen h) - 0x0C) 0x05
   in do {
     attr_x16 ''Index Port'' h 0x04;
     attr_x16 ''Data Port'' h 0x06;
     type \<leftarrow> data8 h 0x08;
     pr_attr ''Type'' [S (if unat type < length checksum_types then tab checksum_types (unat type)
                         else Some out_of_spec)];
     attr_x8 ''Checked Range Start Index'' h 0x09;
     attr_x8 ''Checked Range End Index'' h 0x0A;
     attr_x8 ''Check Value Index'' h 0x0B;
     if tokens \<le> 1 then ret ()
     else do {
       pr_list_start ''Tokens'' None;
       for_each [0..<nat (tokens - 1)] (\<lambda>i. do {
         let token = 0x0C + 0x05 * i;
         w \<leftarrow> data16 h token; b2 \<leftarrow> data8 h (token + 2); b3 \<leftarrow> data8 h (token + 3);
         b4 \<leftarrow> data8 h (token + 4);
         pr_list_item [Lit ''0x'', XL 4 (unat w), Lit '' (location 0x'', XL 2 (unat b2),
           Lit '', AND mask 0x'', XL 2 (unat b3), Lit '', OR mask 0x'', XL 2 (unat b4), Lit '')''] });
       pr_list_end } })"

definition dmi_dell_token_interface :: "dmi_header \<Rightarrow> (st, unit) state" where
  "dmi_dell_token_interface h = (let tokens = cdiv (int (hlen h) - 0x0B) 0x06 in do {
     attr_x16 ''Command I/O Address'' h 0x04;
     attr_x8 ''Command I/O Code'' h 0x06;
     attr_x32 ''Supported Command Classes Bitmap'' h 0x07;
     if tokens \<le> 1 then ret ()
     else do {
       pr_list_start ''Tokens'' None;
       for_each [0..<nat (tokens - 1)] (\<lambda>i. do {
         let token = 0x0B + 0x06 * i;
         w0 \<leftarrow> data16 h token; w2 \<leftarrow> data16 h (token + 2); w4 \<leftarrow> data16 h (token + 4);
         pr_list_item [Lit ''0x'', XL 4 (unat w0), Lit '' (location 0x'', XL 4 (unat w2),
           Lit '', value 0x'', XL 4 (unat w4), Lit '')''] });
       pr_list_end } })"

definition dmi_decode_dell :: "dmi_header \<Rightarrow> (st, bool) state" where
  "dmi_decode_dell h =
     (if h_type h = 177 then do {
        pr_handle_name [Lit ''Dell BIOS Flags''];
        brk_known (hlen h < 0x0C) (do { q \<leftarrow> data64 h 0x04; dmi_dell_bios_flags q }) }
      else if h_type h = 178 then do {
        pr_handle_name [Lit ''Dell Hotkeys''];
        brk_known False (dmi_dell_hotkeys h) }
      else if h_type h = 212 then do {
        pr_handle_name [Lit ''Dell Indexed I/O Access''];
        brk_known (hlen h < 0x0C) (dmi_dell_indexed_io_access h) }
      else if h_type h = 218 then do {
        pr_handle_name [Lit ''Dell Token Interface''];
        brk_known (hlen h < 0x0B) (dmi_dell_token_interface h) }
      else ret False)"

subsection \<open>IBM and Lenovo\<close>

definition dmi_decode_ibm_lenovo :: "dmi_header \<Rightarrow> (st, bool) state" where
  "dmi_decode_ibm_lenovo h =
     (if h_type h = 131 then
        (if hlen h \<noteq> 0x16 then ret False
         else do {
           s \<leftarrow> dmi_string h 1;
           if s \<noteq> ''TVT-Enablement'' then ret False
           else do {
             pr_handle_name [Lit ''ThinkVantage Technologies''];
             attr_u8 ''Version'' h 0x04;
             b14 \<leftarrow> data8 h 0x14;
             pr_attr ''Diagnostics'' [yes_no (b14 AND 0x80 \<noteq> 0) ''Available'' ''No''];
             ret True } })
      else if h_type h = 135 then
        (if hlen h < 0x0A then ret False
         else do {
           bs \<leftarrow> rd_bytes (h_data h + 0x04) 6;
           if map char_of_u8 (take 2 bs) \<noteq> ''TP'' then ret False
           else if bs ! 2 \<noteq> 0x07 \<or> bs ! 3 \<noteq> 0x03 \<or> bs ! 4 \<noteq> 0x01 then ret False
           else do {
             pr_handle_name [Lit ''ThinkPad Device Presence Detection''];
             pr_attr ''Fingerprint Reader'' [yes_no (bs ! 5 AND 0x01 \<noteq> 0) ''Present'' ''No''];
             ret True } })
      else if h_type h = 140 then
        (if hlen h < 0x0F then ret False
         else do {
           bs \<leftarrow> rd_bytes (h_data h + 0x04) 9;
           if map char_of_u8 (take 6 bs) \<noteq> ''LENOVO'' then ret False
           else if bs ! 6 \<noteq> 0x0B \<or> bs ! 7 \<noteq> 0x07 \<or> bs ! 8 \<noteq> 0x01 then ret False
           else do {
             pr_handle_name [Lit ''ThinkPad Embedded Controller Program''];
             s1 \<leftarrow> dmi_string h 1; pr_attr ''Version ID'' [S (Some s1)];
             s2 \<leftarrow> dmi_string h 2; pr_attr ''Release Date'' [S (Some s2)];
             ret True } })
      else ret False)"

subsection \<open>Safety\<close>

lemma safe_get_vendor [safe_intros]: "safe A M lo hi get_vendor"
  by (rule safe_frame) (simp_all add: get_vendor_def)

lemma safe_attr_flag [safe_intros]: "safe A M lo hi (attr_flag name b)"
  unfolding attr_flag_def by (intro safe_intros) simp
lemma safe_subattr_flag [safe_intros]: "safe A M lo hi (subattr_flag name b)"
  unfolding subattr_flag_def by (intro safe_intros) simp

lemma safe_attr_x8 [safe_intros]:
  "struct_ok M lo hi h \<Longrightarrow> off < hlen h \<Longrightarrow> safe A M lo hi (attr_x8 name h off)"
  using struct_okD [of M lo hi h] unfolding attr_x8_def by (intro safe_intros) simp_all
lemma safe_attr_x16 [safe_intros]:
  "struct_ok M lo hi h \<Longrightarrow> off < hlen h \<Longrightarrow> safe A M lo hi (attr_x16 name h off)"
  using struct_okD [of M lo hi h] unfolding attr_x16_def by (intro safe_intros) simp_all
lemma safe_attr_x32 [safe_intros]:
  "struct_ok M lo hi h \<Longrightarrow> off + 3 \<le> hlen h + 1 \<Longrightarrow> safe A M lo hi (attr_x32 name h off)"
  using struct_okD [of M lo hi h] unfolding attr_x32_def by (intro safe_intros) simp_all

lemma safe_brk_known [safe_intros]: "(\<not> b \<Longrightarrow> safe A M lo hi m) \<Longrightarrow> safe A M lo hi (brk_known b m)"
  unfolding brk_known_def by (intro safe_intros) simp

lemma safe_dmi_decode_acer [safe_intros]:
  assumes "struct_ok M lo hi h" shows "safe A M lo hi (dmi_decode_acer h)"
  using assms struct_okD [OF assms] unfolding dmi_decode_acer_def
  by (intro safe_intros) simp_all

lemma safe_dmi_dell_bios_flags [safe_intros]: "safe A M lo hi (dmi_dell_bios_flags q)"
  unfolding dmi_dell_bios_flags_def by (intro safe_intros)

lemma cdiv_le: "b \<le> n \<Longrightarrow> i < nat (cdiv (int n - int b) d) \<Longrightarrow> b + i * d + d \<le> n" if "0 < d"
proof -
  assume b: "b \<le> n" and i: "i < nat (cdiv (int n - int b) d)"
  have "cdiv (int n - int b) d = int ((n - b) div d)"
    using b by (simp add: cdiv_def of_nat_diff zdiv_int)
  then have "Suc i \<le> (n - b) div d" using i by simp
  then have "Suc i * d \<le> (n - b) div d * d" by (rule mult_le_mono1)
  also have "\<dots> \<le> n - b" by simp
  finally show ?thesis using b by simp
qed

lemma safe_dmi_dell_hotkeys [safe_intros]:
  assumes "struct_ok M lo hi h" "4 \<le> hlen h" shows "safe A M lo hi (dmi_dell_hotkeys h)"
  using assms struct_okD [OF assms(1)] cdiv_le [of 4 4 "hlen h"] unfolding dmi_dell_hotkeys_def
  by (intro safe_intros) fastforce+

lemma cdiv_le1:
  "0 < d \<Longrightarrow> b \<le> n \<Longrightarrow> i < nat (cdiv (int n - int b) d - 1) \<Longrightarrow> b + i * d + d \<le> n"
  by (rule cdiv_le) simp_all

lemma safe_dmi_dell_indexed_io_access [safe_intros]:
  assumes "struct_ok M lo hi h" "0x0C \<le> hlen h"
  shows "safe A M lo hi (dmi_dell_indexed_io_access h)"
  using assms struct_okD [OF assms(1)] cdiv_le1 [of 5 12 "hlen h"]
  unfolding dmi_dell_indexed_io_access_def
  by (intro safe_intros) (fastforce simp: ok_simps)+

lemma safe_dmi_dell_token_interface [safe_intros]:
  assumes "struct_ok M lo hi h" "0x0B \<le> hlen h"
  shows "safe A M lo hi (dmi_dell_token_interface h)"
  using assms struct_okD [OF assms(1)] cdiv_le1 [of 6 11 "hlen h"]
  unfolding dmi_dell_token_interface_def
  by (intro safe_intros) fastforce+

lemma safe_dmi_decode_dell [safe_intros]:
  assumes "struct_ok M lo hi h" "4 \<le> hlen h" shows "safe A M lo hi (dmi_decode_dell h)"
  using assms struct_okD [OF assms(1)] unfolding dmi_decode_dell_def
  by (intro safe_intros) simp_all

lemma safe_dmi_decode_ibm_lenovo [safe_intros]:
  assumes "struct_ok M lo hi h" shows "safe A M lo hi (dmi_decode_ibm_lenovo h)"
  using assms struct_okD [OF assms] unfolding dmi_decode_ibm_lenovo_def
  by (intro safe_intros) simp_all

end
