(* ===== verification/Oem_Hp.thy ===== *)
theory Oem_Hp
  imports Oem_Vendors
begin

section \<open>OEM structures of HP and HPE (dmioem.c)\<close>

text \<open>
  The printers of \<^verbatim>\<open>dmioem.c\<close> for the HP types, in the order of the file; the cases of
  \<^verbatim>\<open>dmi_decode_hp\<close> are in theory \<open>Oem_Decode\<close>. Two of the statements here can go wrong on
  a hostile table. \<open>attr_fmt\<close> hands a string of the table to \<^verbatim>\<open>pr_attr\<close> as the format itself, so
  the text must hold no percent sign. \<open>get_product\<close> searches the product name, which is NULL
  when the system structure has no such string.
\<close>

subsection \<open>Generation\<close>

definition G6 :: int where "G6 = 6"
definition G7 :: int where "G7 = 7"
definition G8 :: int where "G8 = 8"
definition G9 :: int where "G9 = 9"
definition G10 :: int where "G10 = 10"
definition G10P :: int where "G10P = 11"
definition G11 :: int where "G11 = 12"
definition G12 :: int where "G12 = 13"

definition hpegen_of :: "dmi_vendors \<Rightarrow> string \<Rightarrow> int" where
  "hpegen_of vendor s = (let table = [(''Gen12'', G12), (''Gen11'', G11), (''Gen10 Plus'', G10P),
       (''Gen10'', G10), (''Gen9'', G9), (''Gen8'', G8), (''G7'', G7), (''G6'', G6)]
   in if \<not> strstr s ''ProLiant'' \<and> \<not> strstr s ''Apollo'' \<and> \<not> strstr s ''Synergy''
         \<and> \<not> strstr s ''Edgeline''
      then -1
      else case List.find (\<lambda>e. strstr s (fst e)) table of
             Some e \<Rightarrow> snd e
           | None \<Rightarrow> if vendor = VENDOR_HPE then G10P else G6)"

definition get_product :: "(st, string) state" where
  "get_product = do {
     p \<leftarrow> State (\<lambda>s. (st_product s, s));
     case p of None \<Rightarrow> do { fault BadString; ret [] } | Some a \<Rightarrow> cstring_at a }"

text \<open>\<^verbatim>\<open>dmi_hpegen(dmi_product)\<close>\<close>

definition dmi_hpegen :: "(st, int) state" where
  "dmi_hpegen = do { s \<leftarrow> get_product; v \<leftarrow> get_vendor; ret (hpegen_of v s) }"

subsection \<open>Statements\<close>

text \<open>\<^verbatim>\<open>str = "Reserved"; if (code < ARRAY_SIZE(tbl)) str = tbl[code];\<close>\<close>

definition or_reserved :: "string list \<Rightarrow> nat \<Rightarrow> cstr" where
  "or_reserved tbl code = (if code < length tbl then tab tbl code else Some ''Reserved'')"

text \<open>\<^verbatim>\<open>pr_attr(name, dmi_string(h, data[off]))\<close>: the string is the format.\<close>

definition attr_fmt :: "string \<Rightarrow> dmi_header \<Rightarrow> nat \<Rightarrow> (st, unit) state" where
  "attr_fmt name h off = do { c \<leftarrow> data8 h off; s \<leftarrow> dmi_string h c; pr_attr name [Fmt s] }"

text \<open>\<^verbatim>\<open>if (data[off] != v) pr_attr(name, "%d", data[off])\<close>, and the same for a string.\<close>

definition attr_unless :: "string \<Rightarrow> u8 \<Rightarrow> dmi_header \<Rightarrow> nat \<Rightarrow> (st, unit) state" where
  "attr_unless name v h off = do { b \<leftarrow> data8 h off; if_then (b \<noteq> v) (pr_attr name [U (unat b)]) }"
definition attr_str_if :: "string \<Rightarrow> dmi_header \<Rightarrow> nat \<Rightarrow> (st, unit) state" where
  "attr_str_if name h off = do { b \<leftarrow> data8 h off; if_then (b \<noteq> 0) (attr_str name h off) }"

subsection \<open>Network interfaces\<close>

definition next_nic :: "(st, u8) state" where
  "next_nic = State (\<lambda>s. (st_nic_ctr s + 1, s\<lparr>st_nic_ctr := st_nic_ctr s + 1\<rparr>))"

definition dmi_print_hp_net_iface_rec :: "u8 \<Rightarrow> u8 \<Rightarrow> u8 \<Rightarrow> nat \<Rightarrow> (st, unit) state" where
  "dmi_print_hp_net_iface_rec id0 bus dev mac = do {
     id1 \<leftarrow> (if id0 = 0xFF then next_nic else ret id0);
     attr \<leftarrow> sprintf 8 [Lit ''NIC '', U (unat id1)];
     if dev = 0x00 \<and> bus = 0x00 then pr_attr attr [Lit ''Disabled'']
     else if dev = 0xFF \<and> bus = 0xFF then pr_attr attr [Lit ''Not Installed'']
     else do {
       m \<leftarrow> rd_bytes mac 6;
       pr_attr attr ([Lit ''PCI device '', XL 2 (unat bus), Lit '':'', XL 2 (unat (drop_bit 3 dev)),
         Lit ''.'', XL 0 (unat (dev AND 7)), Lit '', MAC address '']
         @ concat (map (\<lambda>i. (if i = 0 then [] else [Lit '':'']) @ [X 2 (unat (m ! i))]) [0..<6])) } }"

subsection \<open>Types 197 and 203\<close>

definition dmi_hp_197_qdf :: "nat \<Rightarrow> (st, unit) state" where
  "dmi_hp_197_qdf qdf = do {
     ok \<leftarrow> is_printable qdf 6;
     if \<not> ok then ret ()
     else do {
       bs \<leftarrow> rd_bytes qdf 6;
       pr_attr ''QDF/S-SPEC'' [S (Some (filter (\<lambda>c. c \<noteq> CHR '' '') (map char_of_u8 bs)))] } }"

definition dmi_hp_203_assoc_hndl :: "string \<Rightarrow> u16 \<Rightarrow> (st, unit) state" where
  "dmi_hp_203_assoc_hndl fname num = unless_quiet
     (if num = 0xFFFE then pr_attr fname [Lit ''N/A'']
      else pr_attr fname [Lit ''0x'', X 4 (unat num)])"

definition dmi_hp_203_bayenc :: "string \<Rightarrow> u8 \<Rightarrow> (st, unit) state" where
  "dmi_hp_203_bayenc fname num =
     (if num = 0x00 then pr_attr fname [Lit ''Unknown'']
      else if num = 0xFF then pr_attr fname [Lit ''Do Not Display'']
      else pr_attr fname [U (unat num)])"

definition dmi_hp_203_devtyp :: "string \<Rightarrow> nat \<Rightarrow> (st, unit) state" where
  "dmi_hp_203_devtyp fname code = (let type =
       [''Unknown'', ''Reserved'', ''Reserved'', ''Flexible LOM'', ''Embedded LOM'',
        ''NIC in a Slot'', ''Storage Controller'', ''Smart Array Storage Controller'',
        ''USB Hard Disk'', ''Other PCI Device'', ''RAM Disk'', ''Firmware Volume'',
        ''UEFI Shell'', ''Generic UEFI USB Boot Entry'', ''Dynamic Smart Array Controller'',
        ''File'', ''NVME Hard Drive'', ''NVDIMM'', ''Embedded GPU'']
     in pr_attr fname [S (or_reserved type code)])"

definition dmi_hp_203_devloc :: "string \<Rightarrow> nat \<Rightarrow> (st, unit) state" where
  "dmi_hp_203_devloc fname code = (let location =
       [''Unknown'', ''Embedded'', ''iLO Virtual Media'', ''Front USB Port'',
        ''Rear USB Port'', ''Internal USB'', ''Internal SD Card'',
        ''Internal Virtual USB (Embedded NAND)'', ''Embedded SATA Port'',
        ''Embedded Smart Array'', ''PCI Slot'', ''RAM Memory'', ''USB'',
        ''Dynamic Smart Array Controller'', ''URL'', ''NVMe Drive Bay'',
        ''NVDIMM Processor'', ''NVDIMM Board'', ''NVMe Riser'', ''NVDIMM Name Space'',
        ''VROC SATA'', ''VROC NVMe'']
     in pr_attr fname [S (or_reserved location code)])"

subsection \<open>Type 216\<close>

definition dmi_hp_216_fw_type :: "u16 \<Rightarrow> (st, unit) state" where
  "dmi_hp_216_fw_type code = (let type =
       [''Reserved'', ''System ROM'', ''Redundant System ROM'', ''System ROM Bootblock'',
        ''Power Management Controller Firmware'',
        ''Power Management Controller Firmware Bootloader'', ''SL Chassis Firmware'',
        ''SL Chassis Firmware Bootloader'', ''Hardware PAL/CPLD'',
        ''SPS Firmware (ME Firmware)'', ''SL Chassis PAL/CPLD'',
        ''Compatibility Support Module (CSM)'', ''APML'',
        ''Smart Storage Battery (Megacell) Firmware'',
        ''Trusted Module (TPM or TCM) Firmware Version'', ''NVMe Backplane Firmware'',
        ''Intelligent Provisioning'', ''SPI Descriptor Version'',
        ''Innovation Engine Firmware (IE Firmware)'', ''UMB Backplane Firmware'',
        ''Embedded Diagnostics'', ''Reserved'', ''Reserved'', ''Reserved'', ''Reserved'',
        ''Reserved'', ''Reserved'', ''Reserved'', ''Reserved'', ''Reserved'', ''Reserved'',
        ''Reserved'', ''EL Chassis Abstraction Revision'', ''EL Chassis Firmware Revision'',
        ''EL Chassis PAL/CPLD'', ''EL Cartride Abstraction Revision'', ''Reserved'',
        ''Reserved'', ''Reserved'', ''Reserved'', ''Reserved'', ''Reserved'', ''Reserved'',
        ''Reserved'', ''Reserved'', ''Reserved'', ''Reserved'', ''Reserved'',
        ''Embedded Video Controller'', ''PCIe Riser Programmable Logic Device'',
        ''PCIe cards that contain a CPLD'', ''Intel NVMe VROC'', ''Intel SATA VROC'',
        ''Intel SPS Firmware'', ''Secondary System Programmable Logic Device'',
        ''CPU Mezzanine Board CPLD'', ''Intel Artic Sound -M Accelerator Models Firmware'',
        ''Ampere System Control Processor (SCP - PMPro+SMPro)'', ''Intel CFR information'',
        ''OCP cards'', ''DC-SCM CPLD'', ''Power Distribution Board CPLD'',
        ''PCIe Switch Board CPLD'', ''Sideband Board CPLD'', ''PCIe Riser MCU Firmware'',
        ''PCIe Switch Board Firmware'', ''Power Supply Firmware'', ''BMC Firmware'']
     in pr_attr ''Firmware Type'' [S (or_reserved type (unat code))])"

text \<open>The numbers \<open>ns\<close> separated by dots.\<close>

definition dotted :: "nat list \<Rightarrow> farg list" where
  "dotted ns = concat (map (\<lambda>k. (if k = 0 then [] else [Lit ''.'']) @ [U (ns ! k)]) [0..<length ns])"

text \<open>The arguments of the \<^verbatim>\<open>pr_attr\<close> call for each format; \<open>b i\<close> is \<^verbatim>\<open>data[i]\<close>.\<close>

definition hp_216_args :: "int \<Rightarrow> nat \<Rightarrow> u8 list \<Rightarrow> farg list" where
  "hp_216_args gen format bs = (let
     b = (\<lambda>i. unat (bs ! i));
     w = (\<lambda>i. b i + 256 * b (i + 1));
     d = (\<lambda>i. (of_nat (w i + 65536 * w (i + 2)) :: u32));
     hi4 = unat (drop_bit 4 (bs ! 0)); lo4 = unat (bs ! 0 AND 0x0F);
     rel = unat (bs ! 1 AND 0x7F)
   in if format = 0 then [Lit ''No Version Data'']
      else if format = 1 then
        (if drop_bit 7 (bs ! 0) \<noteq> 0
         then [Lit ''0x'', X 2 rel, Lit '' B.0x'', X 2 (unat (bs ! 0 AND 0x7F))]
         else [Lit ''0x'', X 2 rel])
      else if format = 2 then dotted [hi4, lo4]
      else if format = 4 then dotted [hi4, lo4, rel]
      else if format = 5 then
        (if gen = G9 then dotted [hi4, lo4, rel]
         else if gen = G10 \<or> gen = G10P
         then dotted (map (\<lambda>i. unat (bs ! i AND 0x0F)) [1, 3, 5, 6])
         else [Lit ''Reserved''])
      else if format = 6 then dotted [b 1, b 0]
      else if format = 7 then [Lit ''v'', U (b 0), Lit ''.'', UW 2 (b 1), Lit '' ('', UW 2 (b 2),
        Lit ''/'', UW 2 (b 3), Lit ''/'', U (w 4), Lit '')'']
      else if format = 8 then dotted [w 4, w 0]
      else if format = 9 then dotted [b 0, b 1, w 2]
      else if format = 10 then dotted [b 0, b 1, b 2] @ [Lit '' Build '', U (b 3)]
      else if format = 11 then dotted [w 2, w 0] @ [Lit '' '', D (sint (d 4))]
      else if format = 12 then dotted [w 0, w 2, w 4, w 6]
      else if format = 13 then [U (b 0)]
      else if format = 14 then dotted [b 0, b 1, b 2, w 3]
      else if format = 15 then dotted [w 0, w 2, w 4, w 6] @ [Lit '' ('', UW 2 (b 8), Lit ''/'',
        UW 2 (b 9), Lit ''/'', U (w 10), Lit '')'']
      else if format = 16 then [Lit (map char_of_u8 (take 4 bs)), Lit ''.'', U (b 4), U (b 5)]
      else if format = 17 then [X 8 (unat (d 0))]
      else if format = 18 then [U (b 0), Lit ''.'', UW 2 (b 1)]
      else if format = 19 then [Lit ''0x'', XL 2 (b 0), Lit ''.0x'', XL 2 (b 1), Lit ''.0x'', XL 2 (b 2)]
      else if format = 20 then dotted [b 0, b 1, b 2, b 3]
      else [Lit ''Reserved''])"

definition dmi_hp_216_version :: "u8 \<Rightarrow> nat \<Rightarrow> (st, unit) state" where
  "dmi_hp_216_version format data = do {
     gen \<leftarrow> dmi_hpegen;
     bs \<leftarrow> rd_bytes data 12;
     pr_attr ''Version Data'' (hp_216_args gen (unat format) bs) }"

subsection \<open>Type 224\<close>

definition dmi_hp_224_status :: "u8 \<Rightarrow> (st, bool) state" where
  "dmi_hp_224_status code = (let present =
       [''Not Present'', ''Present/Enabled'', ''Present/Disabled'', ''Reserved'']
     in do {
       pr_attr ''Status'' [S (tab present (unat (code AND 0x03)))];
       if code AND 0x03 = 0x00 then ret False
       else do {
         attr_flag ''Option ROM Measuring'' (bit code 2);
         attr_flag ''Hidden'' (bit code 3);
         ret True } })"

definition dmi_hp_224_ex_status :: "u8 \<Rightarrow> u8 \<Rightarrow> (st, unit) state" where
  "dmi_hp_224_ex_status status code = (let
     disable_reason = [''Not Specified'', ''User Disabled'', ''Error Condition'', ''Reserved''];
     error_condition = [''Not Specified'', ''Self-Test'']
   in do {
     if_then (status AND 0x03 = 0x02)
       (pr_attr ''Disable Reason'' [S (tab disable_reason (unat (code AND 0x03)))]);
     if_then (code AND 0x03 = 0x02)
       (pr_attr ''Error Condition''
          [S (or_reserved error_condition (unat (drop_bit 2 code AND 0x0F)))]) })"

definition dmi_hp_224_module_type :: "u8 \<Rightarrow> (st, unit) state" where
  "dmi_hp_224_module_type code = (let
     type = [''Not Specified'', ''TPM 1.2'', ''TPM 2.0'', ''Intel PTT fTPM'']
   in do {
     pr_attr ''Type'' [S (or_reserved type (unat (code AND 0x0F)))];
     attr_flag ''Standard Algorithm Supported'' (bit code 4);
     attr_flag ''Chinese Algorithm Supported'' (bit code 5) })"

definition dmi_hp_224_module_attr :: "u8 \<Rightarrow> (st, unit) state" where
  "dmi_hp_224_module_attr code = (let
     phys_attr = [''Not Specified'', ''Pluggable and Optional'', ''Pluggable but Standard'',
                  ''Soldered Down on System Board''];
     fips_attr = [''Not Specified'', ''Not FIPS Certified'', ''FIPS Certified'', ''Reserved'']
   in do {
     pr_attr ''Trusted Module Attributes'' [S (tab phys_attr (unat (code AND 0x3)))];
     pr_attr ''FIPS Certification'' [S (tab fips_attr (unat (drop_bit 2 code AND 0x03)))] })"

definition dmi_hp_224_chipid :: "u16 \<Rightarrow> (st, unit) state" where
  "dmi_hp_224_chipid code = (let chipid =
       [''None'', ''STMicroGen10 TPM'', ''Intel firmware TPM (PTT)'', ''Nationz TPM'',
        ''STMicroGen10 Plus TPM'', ''STMicroGen11 TPM'', ''STMicroGen12 TPM'']
     in pr_attr ''Chip Identifier'' [S (or_reserved chipid (unat (code AND 0xFF)))])"

subsection \<open>Types 230, 232, 238 and 239\<close>

definition dmi_hp_230_method_bus_seg_addr :: "u8 \<Rightarrow> u8 \<Rightarrow> u8 \<Rightarrow> (st, unit) state" where
  "dmi_hp_230_method_bus_seg_addr code bus_seg addr = (let
     method_tbl = [''Not Available'', ''IPMI I2C'', ''iLO'', ''Chassis Manager'']
   in do {
     pr_attr ''Access Method'' [S (or_reserved method_tbl (unat code))];
     if code = 0 \<or> length method_tbl \<le> unat code then ret ()
     else do {
       if_then (bus_seg \<noteq> 0xFF)
         (if code = 2 then pr_attr ''I2C Segment Number'' [U (unat bus_seg)]
          else pr_attr ''I2C Bus Number'' [U (unat bus_seg)]);
       if_then (addr \<noteq> 0xFF)
         (pr_attr ''I2C Address'' [Lit ''0x'', XL 2 (unat (drop_bit 1 addr))]) } })"

definition dmi_hp_232_encrypt :: "u8 \<Rightarrow> (st, unit) state" where
  "dmi_hp_232_encrypt code = (let status =
       [''Not Encrypted'', ''Encrypted'', ''Unknown'', ''Not Supported'']
     in pr_attr ''Encryption Status'' [S (or_reserved status (unat code))])"

definition dmi_hp_238_loc :: "string \<Rightarrow> nat \<Rightarrow> (st, unit) state" where
  "dmi_hp_238_loc fname code = (let location =
       [''Internal'', ''Front of Server'', ''Rear of Server'',
        ''Embedded internal SD Card'', ''iLO USB'', ''USB Hub for NAND Controller'',
        ''Reserved'', ''Debug Port'', ''Reserved'', ''OCP USB'']
     in pr_attr fname [S (or_reserved location code)])"

definition dmi_hp_238_flags :: "string \<Rightarrow> nat \<Rightarrow> (st, unit) state" where
  "dmi_hp_238_flags fname code = (let flags =
       [''Not Shared'', ''Shared with physical switch'', ''Shared with automatic control'']
     in pr_attr fname [S (or_reserved flags code)])"

definition dmi_hp_238_speed :: "string \<Rightarrow> nat \<Rightarrow> (st, unit) state" where
  "dmi_hp_238_speed fname code = (let speed =
       [''Reserved'', ''USB 1.1 Full Speed'', ''USB 2.0 High Speed'',
        ''USB 3.0 Super Speed'']
     in pr_attr fname [S (or_reserved speed code)])"

definition usb_storage_protocol :: "u8 \<Rightarrow> string" where
  "usb_storage_protocol protocol =
     (if protocol = 0x00 then ''CBI w/ completion interrupt''
      else if protocol = 0x01 then ''CBI w/o completion interrupt''
      else if protocol = 0x02 then ''Obsolete''
      else if protocol = 0x50 then ''Bulk-Only''
      else if protocol = 0x62 then ''UAS''
      else if protocol = 0xFF then ''Vendor Specific''
      else ''Reserved'')"

definition usb_hub_protocol :: "u8 \<Rightarrow> string" where
  "usb_hub_protocol protocol =
     (if protocol = 0 then ''Full Speed''
      else if protocol = 1 then ''Hi-Speed w/ single TT''
      else if protocol = 2 then ''Hi-Speed w/ multiple TT''
      else ''Reserved'')"

definition dmi_hp_239_usb_device :: "u8 \<Rightarrow> u8 \<Rightarrow> u8 \<Rightarrow> (st, unit) state" where
  "dmi_hp_239_usb_device class subclass protocol = (let sub_class_name =
       [''SCSI command set not reported'', ''RBC'', ''ATAPI'', ''Obsolete'', ''UFI'', ''Obsolete'',
        ''SCSI'', ''LSD FS'', ''IEEE 1667'']
     in if class = 0x08 then do {
          pr_attr ''USB Class'' [Lit ''Mass Storage''];
          pr_attr ''USB SubClass'' [S (if subclass = 0xFF then Some ''Vendor Specific''
            else or_reserved sub_class_name (unat subclass))];
          pr_attr ''USB Protocol'' [S (Some (usb_storage_protocol protocol))] }
        else if class = 0x09 \<and> subclass = 0 then do {
          pr_attr ''USB Class'' [Lit ''HUB''];
          pr_attr ''USB Protocol'' [Fmt (usb_hub_protocol protocol)] }
        else do {
          pr_attr ''USB Class'' [Lit ''0x'', XL 2 (unat class)];
          pr_attr ''USB SubClass'' [Lit ''0x'', XL 2 (unat subclass)];
          pr_attr ''USB Protocol'' [Lit ''0x'', XL 2 (unat protocol)] })"

subsection \<open>Types 240, 242 and 245\<close>

definition dmi_hp_240_attr :: "u64 \<Rightarrow> u64 \<Rightarrow> (st, unit) state" where
  "dmi_hp_240_attr defined set_bits = (let attributes =
       [''Updatable'', ''Reset Required'', ''Authentication Required'', ''In Use'',
        ''UEFI Image'']
     in do {
       pr_list_start ''Attributes Defined/Set'' None;
       for_each [0..<length attributes] (\<lambda>i. if_then (bit defined i)
         (pr_list_item [S (tab attributes i), Lit '': '', yes_no (bit set_bits i) ''Yes'' ''No'']));
       pr_list_end })"

definition dmi_hp_242_hdd_type :: "u8 \<Rightarrow> (st, unit) state" where
  "dmi_hp_242_hdd_type code = (let type =
       [''Undetermined'', ''NVMe SSD'', ''SATA'', ''SAS'', ''SATA SSD'',
        ''NVMe Manged by VROC/VMD'']
     in pr_attr ''Hard Drive Type'' [S (or_reserved type (unat code))])"

definition dmi_hp_242_form_factor :: "u8 \<Rightarrow> (st, unit) state" where
  "dmi_hp_242_form_factor code = (let
     form =
       [''Reserved'', ''Reserved'', ''3.5\" form factor'', ''2.5\" form factor'',
        ''1.8\" form factor'', ''Less than 1.8\" form factor'', ''mSATA'', ''M.2'',
        ''MicroSSD'', ''CFast''];
     form2 =
       [''EDSFF Unknown'', ''EDSFF 1U Short'', ''EDSFF 1U Long'', ''EDSFF E3 Short'',
        ''EDSFF E3 Long''];
     c = unat code
   in pr_attr ''Form Factor'' [S (if c < length form then tab form c
        else if 0x20 \<le> c \<and> c < 0x20 + length form2 then tab form2 (c - 0x20)
        else Some ''Reserved'')])"

definition dmi_hp_242_speed :: "string \<Rightarrow> u16 \<Rightarrow> (st, unit) state" where
  "dmi_hp_242_speed attr speed =
     (if speed \<noteq> 0 then pr_attr attr [U (unat speed), Lit '' Gbit/s'']
      else pr_attr attr [Lit ''Unknown''])"

definition riser_position :: "u8 \<Rightarrow> string" where
  "riser_position b = (if b = 1 then ''Primary'' else if b = 2 then ''Secondary''
     else if b = 3 then ''Tertiary'' else if b = 4 then ''Quaternary''
     else if b = 10 then ''Front'' else ''Reserved'')"

definition dmi_hp_245_pcie_riser :: "dmi_header \<Rightarrow> (st, unit) state" where
  "dmi_hp_245_pcie_riser h = do {
     pr_attr ''Board Type'' [Lit ''PCIe Riser''];
     brk (hlen h < 0x09) (do {
     b5 \<leftarrow> data8 h 0x05;
     pr_attr ''Riser Position'' [S (Some (riser_position b5))];
     attr_u8 ''Riser ID'' h 0x06;
     b7 \<leftarrow> data8 h 0x07;
     if_then (b7 \<noteq> 0) (pr_attr ''CPLD Version''
       [yes_no (drop_bit 7 b7 \<noteq> 0) ''B.'' [], Lit ''0x'', X 2 (unat (b7 AND 0x7F))]);
     attr_fmt ''Riser Name'' h 0x08 }) }"

definition dmi_hp_245_pcie_mhs_riser :: "dmi_header \<Rightarrow> (st, unit) state" where
  "dmi_hp_245_pcie_mhs_riser h = do {
     pr_attr ''Board Type'' [Lit ''PCIe Riser (MHS Platform)''];
     brk (hlen h < 0x0B) (do {
     attr_u8 ''Riser ID'' h 0x05;
     b6 \<leftarrow> data8 h 0x06; b7 \<leftarrow> data8 h 0x07;
     if_then (b6 \<noteq> 0) (pr_attr ''Firmware Version'' [XL 0 (unat b6), Lit ''.'', XL 0 (unat b7)]);
     b8 \<leftarrow> data8 h 0x08;
     attr_flag ''Downgradable'' (b8 AND 0x01 \<noteq> 0);
     attr_fmt ''Riser Name'' h 0x09;
     count \<leftarrow> data8 h 0x0A;
     pr_attr ''Slot Count'' [U (unat count)];
     pr_list_start ''Slot IDs'' None;
     for_each [0..<min (unat count) (hlen h - 0x0B)] (\<lambda>i. do {
       b \<leftarrow> data8 h (0x0B + i); pr_list_item [Lit ''0x'', XL 0 (unat b)] });
     pr_list_end }) }"

subsection \<open>Safety\<close>

lemma or_reserved_total [ok_simps]: "or_reserved tbl code \<noteq> None"
  by (simp add: or_reserved_def)

lemma safe_attr_fmt [safe_intros]:
  assumes "struct_ok M lo hi h" "off < hlen h" "BadFormat \<in> A"
  shows "safe A M lo hi (attr_fmt name h off)"
proof -
  have "safe A M lo hi (pr_attr name [Fmt s])" for s
    using assms(3) by (cases "CHR ''%'' \<in> set s")
      (auto simp: pr_attr_def print_def intro: safe_fault safe_emit)
  then show ?thesis
    using assms struct_okD [OF assms(1)] unfolding attr_fmt_def
    by (intro safe_bind safe_rd8 safe_dmi_string) simp_all
qed

lemma safe_attr_unless [safe_intros]:
  "struct_ok M lo hi h \<Longrightarrow> off < hlen h \<Longrightarrow> safe A M lo hi (attr_unless name v h off)"
  using struct_okD [of M lo hi h] unfolding attr_unless_def by (intro safe_intros) simp_all
lemma safe_attr_str_if [safe_intros]:
  "struct_ok M lo hi h \<Longrightarrow> off < hlen h \<Longrightarrow> safe A M lo hi (attr_str_if name h off)"
  using struct_okD [of M lo hi h] unfolding attr_str_if_def by (intro safe_intros) simp_all

lemma safe_next_nic [safe_intros]: "safe A M lo hi next_nic"
  by (rule safe_frame) (simp_all add: next_nic_def)

lemma safe_dmi_print_hp_net_iface_rec [safe_intros]:
  "mac + 6 \<le> length M \<Longrightarrow> safe A M lo hi (dmi_print_hp_net_iface_rec i bus dev mac)"
  unfolding dmi_print_hp_net_iface_rec_def
  by (intro safe_intros) (auto simp: ok_simps args_ok_def list_all_iff)

lemma safe_dmi_hp_197_qdf [safe_intros]: "p + 6 \<le> length M \<Longrightarrow> safe A M lo hi (dmi_hp_197_qdf p)"
  unfolding dmi_hp_197_qdf_def by (intro safe_intros) simp_all
lemma safe_dmi_hp_203_assoc_hndl [safe_intros]: "safe A M lo hi (dmi_hp_203_assoc_hndl n w)"
  unfolding dmi_hp_203_assoc_hndl_def by (intro safe_intros) simp_all
lemma safe_dmi_hp_203_bayenc [safe_intros]: "safe A M lo hi (dmi_hp_203_bayenc n b)"
  unfolding dmi_hp_203_bayenc_def by (intro safe_intros) simp_all
lemma safe_dmi_hp_203_devtyp [safe_intros]: "safe A M lo hi (dmi_hp_203_devtyp n c)"
  unfolding dmi_hp_203_devtyp_def by (intro safe_intros) (simp add: ok_simps del: not_None_eq)
lemma safe_dmi_hp_203_devloc [safe_intros]: "safe A M lo hi (dmi_hp_203_devloc n c)"
  unfolding dmi_hp_203_devloc_def by (intro safe_intros) (simp add: ok_simps del: not_None_eq)
lemma safe_dmi_hp_216_fw_type [safe_intros]: "safe A M lo hi (dmi_hp_216_fw_type c)"
  unfolding dmi_hp_216_fw_type_def by (intro safe_intros) (simp add: ok_simps del: not_None_eq)

lemma args_ok_dotted [simp]: "args_ok (dotted ns)"
  by (auto simp: dotted_def args_ok_def list_all_iff)

lemma args_ok_hp_216 [simp]: "args_ok (hp_216_args gen f bs)"
  by (simp add: hp_216_args_def Let_def)

lemma safe_dmi_hp_224_status [safe_intros]: "safe A M lo hi (dmi_hp_224_status c)"
  unfolding dmi_hp_224_status_def by (intro safe_intros) (simp_all add: ok_simps)
lemma safe_dmi_hp_224_ex_status [safe_intros]: "safe A M lo hi (dmi_hp_224_ex_status s c)"
  unfolding dmi_hp_224_ex_status_def by (intro safe_intros) (simp_all add: ok_simps del: not_None_eq)
lemma safe_dmi_hp_224_module_type [safe_intros]: "safe A M lo hi (dmi_hp_224_module_type c)"
  unfolding dmi_hp_224_module_type_def by (intro safe_intros) (simp_all add: ok_simps del: not_None_eq)
lemma safe_dmi_hp_224_module_attr [safe_intros]: "safe A M lo hi (dmi_hp_224_module_attr c)"
  unfolding dmi_hp_224_module_attr_def by (intro safe_intros) (simp_all add: ok_simps)
lemma safe_dmi_hp_224_chipid [safe_intros]: "safe A M lo hi (dmi_hp_224_chipid c)"
  unfolding dmi_hp_224_chipid_def by (intro safe_intros) (simp add: ok_simps del: not_None_eq)
lemma safe_dmi_hp_230 [safe_intros]: "safe A M lo hi (dmi_hp_230_method_bus_seg_addr a b c)"
  unfolding dmi_hp_230_method_bus_seg_addr_def
  by (intro safe_intros) (simp_all add: ok_simps del: not_None_eq)
lemma safe_dmi_hp_232_encrypt [safe_intros]: "safe A M lo hi (dmi_hp_232_encrypt c)"
  unfolding dmi_hp_232_encrypt_def by (intro safe_intros) (simp add: ok_simps del: not_None_eq)
lemma safe_dmi_hp_238_loc [safe_intros]: "safe A M lo hi (dmi_hp_238_loc n c)"
  unfolding dmi_hp_238_loc_def by (intro safe_intros) (simp add: ok_simps del: not_None_eq)
lemma safe_dmi_hp_238_flags [safe_intros]: "safe A M lo hi (dmi_hp_238_flags n c)"
  unfolding dmi_hp_238_flags_def by (intro safe_intros) (simp add: ok_simps del: not_None_eq)
lemma safe_dmi_hp_238_speed [safe_intros]: "safe A M lo hi (dmi_hp_238_speed n c)"
  unfolding dmi_hp_238_speed_def by (intro safe_intros) (simp add: ok_simps del: not_None_eq)
lemma safe_dmi_hp_239_usb_device [safe_intros]: "safe A M lo hi (dmi_hp_239_usb_device a b c)"
  unfolding dmi_hp_239_usb_device_def
  by (intro safe_intros) (auto simp: ok_simps usb_hub_protocol_def simp del: not_None_eq)
lemma safe_dmi_hp_240_attr [safe_intros]: "safe A M lo hi (dmi_hp_240_attr a b)"
  unfolding dmi_hp_240_attr_def by (intro safe_intros) (auto simp: ok_simps)
lemma safe_dmi_hp_242_hdd_type [safe_intros]: "safe A M lo hi (dmi_hp_242_hdd_type c)"
  unfolding dmi_hp_242_hdd_type_def by (intro safe_intros) (simp add: ok_simps del: not_None_eq)
lemma safe_dmi_hp_242_form_factor [safe_intros]: "safe A M lo hi (dmi_hp_242_form_factor c)"
  unfolding dmi_hp_242_form_factor_def by (intro safe_intros) (auto simp: ok_simps)
lemma safe_dmi_hp_242_speed [safe_intros]: "safe A M lo hi (dmi_hp_242_speed n c)"
  unfolding dmi_hp_242_speed_def by (intro safe_intros) simp_all

lemma safe_dmi_hp_245_pcie_riser [safe_intros]:
  assumes "struct_ok M lo hi h" "BadFormat \<in> A" shows "safe A M lo hi (dmi_hp_245_pcie_riser h)"
  using assms struct_okD [OF assms(1)] unfolding dmi_hp_245_pcie_riser_def
  by (intro safe_intros) simp_all
lemma safe_dmi_hp_245_pcie_mhs_riser [safe_intros]:
  assumes "struct_ok M lo hi h" "BadFormat \<in> A" shows "safe A M lo hi (dmi_hp_245_pcie_mhs_riser h)"
  using assms struct_okD [OF assms(1)] unfolding dmi_hp_245_pcie_mhs_riser_def
  by (intro safe_intros) auto

end
