(* ===== verification/Dump.thy ===== *)
theory Dump
  imports Struct_Fields
begin

section \<open>Raw dump of a structure\<close>

text \<open>
  \<^verbatim>\<open>dmi_dump\<close>: the bytes of the formatted area, sixteen per row, and the strings. The loop over
  the strings counts with an \<^verbatim>\<open>int\<close> and hands the counter on as a byte, so it starts again at
  the first string when a structure has 255 strings or more and never returns:
  \<open>dump_strings_diverges\<close>. With fewer strings 256 rounds are enough, which is the fuel of
  \<open>dmi_dump\<close>; running out of fuel is the fault \<open>Diverges\<close>.
\<close>

subsection \<open>Definitions\<close>

text \<open>The number of rows, \<^verbatim>\<open>((len - 1) >> 4) + 1\<close>.\<close>

definition dump_rows :: "nat \<Rightarrow> nat" where
  "dump_rows len = nat ((int len - 1) div 16 + 1)"

definition row_parts :: "u8 list \<Rightarrow> farg list list" where
  "row_parts bs = map (\<lambda>i. (if i = 0 then [] else [Lit '' '']) @ [X 2 (unat (bs ! i))]) [0..<length bs]"

definition dump_bytes :: "nat \<Rightarrow> nat \<Rightarrow> (st, unit) state" where
  "dump_bytes a len = for_each [0..<dump_rows len] (\<lambda>row. do {
     bs \<leftarrow> rd_bytes (a + 16 * row) (min 16 (len - 16 * row));
     raw_data \<leftarrow> sprintf_at 48 (row_parts bs) [];
     pr_list_item [Fmt raw_data] })"

text \<open>One string: in dump mode its bytes first, and only then the filter.\<close>

definition dump_string :: "nat \<Rightarrow> bool \<Rightarrow> (st, unit) state" where
  "dump_string p dump = do {
     if_then dump (do { l \<leftarrow> strlen p; dump_bytes p (l + 1); ascii_filter p l });
     t \<leftarrow> cstring_at p;
     pr_list_item [S (Some t)] }"

fun dump_strings :: "nat \<Rightarrow> dmi_header \<Rightarrow> nat \<Rightarrow> bool \<Rightarrow> (st, unit) state" where
  "dump_strings 0 h i dump = fault Diverges"
| "dump_strings (Suc n) h i dump = do {
     s \<leftarrow> dmi_string_raw h (of_nat i) (\<not> dump);
     case s of None \<Rightarrow> ret ()
     | Some p \<Rightarrow> do { dump_string p dump; dump_strings n h (i + 1) dump } }"

definition dmi_dump :: "dmi_header \<Rightarrow> (st, unit) state" where
  "dmi_dump h = do {
     pr_list_start ''Header and Data'' None;
     dump_bytes (h_data h) (hlen h);
     pr_list_end;
     b0 \<leftarrow> data8 h (hlen h);
     b1 \<leftarrow> data8 h (hlen h + 1);
     if_then (b0 \<noteq> 0 \<or> b1 \<noteq> 0) (do {
       pr_list_start ''Strings'' None;
       dump \<leftarrow> opt_flag FLAG_DUMP;
       dump_strings 256 h 1 dump;
       pr_list_end }) }"

subsection \<open>The string set does not depend on the filtered bytes\<close>

lemma takeWhile_cong_nth:
  "length xs = length ys \<Longrightarrow> (\<And>i. i < length xs \<Longrightarrow> P (xs ! i) = P (ys ! i))
   \<Longrightarrow> length (takeWhile P xs) = length (takeWhile P ys)"
proof (induction xs ys rule: list_induct2)
  case (Cons x xs y ys)
  have "P x = P y" using Cons.prems [of 0] by simp
  moreover have "length (takeWhile P xs) = length (takeWhile P ys)"
    using Cons.prems [of "Suc _"] by (intro Cons.IH) simp
  ultimately show ?case by simp
qed simp

lemma string_set_shape:
  "length xs = length ys \<Longrightarrow> (\<And>i. i < length xs \<Longrightarrow> xs ! i = 0 \<longleftrightarrow> ys ! i = 0)
   \<Longrightarrow> map length (string_set xs) = map length (string_set ys)"
proof (induction xs arbitrary: ys rule: string_set.induct)
  case (1 xs)
  let ?w = "takeWhile (\<lambda>b. b \<noteq> 0) xs" and ?v = "takeWhile (\<lambda>b. b \<noteq> 0) ys"
  have len: "length ?w = length ?v"
    using 1 by (intro takeWhile_cong_nth) simp_all
  show ?case
  proof (cases "?w = []")
    case True
    with len have "?v = []" by simp
    with True show ?thesis by (simp add: string_set.simps [of xs] string_set.simps [of ys])
  next
    case False
    with len have v: "?v \<noteq> []" by auto
    have "map length (string_set (drop (length ?w + 1) xs))
        = map length (string_set (drop (length ?w + 1) ys))"
      using 1(2,3) False by (intro 1(1)) simp_all
    with False v len show ?thesis
      by (simp add: string_set.simps [of xs] string_set.simps [of ys] Let_def)
  qed
qed

text \<open>The number of strings of a structure.\<close>

definition string_count :: "u8 list \<Rightarrow> dmi_header \<Rightarrow> nat" where
  "string_count M h = length (string_set (drop (h_data h + hlen h) M))"

lemma mem_ok_string_count: "mem_ok A M lo hi s \<Longrightarrow> string_count (st_mem s) h = string_count M h"
proof -
  assume ok: "mem_ok A M lo hi s"
  have "map length (string_set (drop (h_data h + hlen h) (st_mem s)))
      = map length (string_set (drop (h_data h + hlen h) M))"
    using mem_ok_length [OF ok] mem_ok_zero [OF ok] by (intro string_set_shape) simp_all
  then show ?thesis by (metis string_count_def length_map)
qed

subsection \<open>Rules for string pointers\<close>

lemma safe_strlen_bind:
  assumes "terminated M hi" "p \<le> hi"
    and "\<And>l. p + l \<le> hi \<Longrightarrow> (\<And>i. p \<le> i \<Longrightarrow> i < p + l \<Longrightarrow> M ! i \<noteq> 0) \<Longrightarrow> safe A M lo hi (f l)"
  shows "safe A M lo hi (State_Monad.bind (strlen p) f)"
proof (rule safeI)
  fix s assume ok: "mem_ok A M lo hi s"
  have t: "hi < length (st_mem s)" "st_mem s ! hi = 0"
    using mem_ok_terminated [OF ok assms(1)] by (simp_all add: terminated_def)
  define l where "l = length (takeWhile (\<lambda>b. b \<noteq> 0) (drop p (st_mem s)))"
  have le: "p + l \<le> hi" unfolding l_def using assms(2) t by (intro takeWhile_drop)
  have "M ! i \<noteq> 0" if "p \<le> i" "i < p + l" for i
  proof -
    have "i - p < l" using that by simp
    then have "takeWhile (\<lambda>b. b \<noteq> 0) (drop p (st_mem s)) ! (i - p) \<noteq> 0"
      unfolding l_def by (metis (mono_tags, lifting) nth_mem set_takeWhileD)
    then have "st_mem s ! i \<noteq> 0"
      using that \<open>i - p < l\<close> le t(1) unfolding l_def by (simp add: takeWhile_nth)
    then show ?thesis using mem_ok_zero [OF ok, of i] that le t(1) mem_ok_length [OF ok] by simp
  qed
  then have "kept A M lo hi s (snd (run_state (f l) s))"
    using safeD [OF assms(3) ok] le by blast
  moreover have "run_state (strlen p) s = (l, s)"
    unfolding l_def using assms(2) t by (intro run_strlen)
  ultimately show "kept A M lo hi s (snd (run_state (State_Monad.bind (strlen p) f) s))" by simp
qed

lemma safe_ascii_filter:
  assumes "terminated M hi" "lo \<le> p" "p + l \<le> hi"
    and nz: "\<And>i. p \<le> i \<Longrightarrow> i < p + l \<Longrightarrow> M ! i \<noteq> 0"
  shows "safe A M lo hi (ascii_filter p l)"
proof (rule safeI)
  fix s assume ok: "mem_ok A M lo hi s"
  have len: "hi < length M" "hi < length (st_mem s)"
    using assms(1) mem_ok_length [OF ok] by (simp_all add: terminated_def)
  have "mem_ok A M lo hi (s\<lparr>st_mem := filtered (st_mem s) p l\<rparr>)"
    using assms(2,3) len nz mem_ok_zero [OF ok] by (intro mem_ok_filtered ok) simp_all
  then show "kept A M lo hi s (snd (run_state (ascii_filter p l) s))"
    using assms(3) len by (simp add: run_ascii_filter filtered_def kept_def)
qed

lemma safe_cstring_at:
  assumes "terminated M hi" "p \<le> hi"
  shows "safe A M lo hi (cstring_at p)"
  unfolding cstring_at_def
  using assms by (intro safe_strlen_bind safe_bind safe_rd_bytes safe_ret) (simp_all add: terminated_def)

lemma safe_dmi_string_raw_bind:
  assumes h: "struct_ok M lo hi h"
    and none: "string_count M h \<le> unat n - 1 \<Longrightarrow> safe A M lo hi (f None)"
    and some: "\<And>p. unat n - 1 < string_count M h \<Longrightarrow> lo \<le> p \<Longrightarrow> p \<le> hi \<Longrightarrow> safe A M lo hi (f (Some p))"
  shows "safe A M lo hi (State_Monad.bind (dmi_string_raw h n flt) f)"
proof (rule safeI)
  fix s assume ok: "mem_ok A M lo hi s"
  let ?r = "run_state (dmi_string_raw h n flt) s"
  have t: "terminated (st_mem s) hi" and le: "h_data h + hlen h \<le> hi" and lo: "lo \<le> h_data h + hlen h"
    using h mem_ok_terminated [OF ok] by (simp_all add: struct_ok_def)
  note raw = run_dmi_string_raw [OF t le, of n flt, folded string_count_def,
      unfolded mem_ok_string_count [OF ok]]
  have ok': "kept A M lo hi s (snd ?r)" by (rule kept_dmi_string_raw [OF ok h])
  show "kept A M lo hi s (snd (run_state (State_Monad.bind (dmi_string_raw h n flt) f) s))"
  proof (cases "unat n - 1 < string_count M h")
    case False
    then have r: "?r = (None, s)" using raw(1) by simp
    show ?thesis using safeD [OF none ok] False r by simp
  next
    case True
    then obtain p s' where r: "?r = (Some p, s')" "h_data h + hlen h \<le> p" "p \<le> hi"
      using raw(2) by auto
    then have "kept A M lo hi s' (snd (run_state (f (Some p)) s'))"
      using safeD [OF some [OF True]] ok' lo by (simp add: kept_def)
    with r ok' show ?thesis by (auto intro: kept_trans)
  qed
qed

subsection \<open>Safety\<close>

lemma row_width: "(\<Sum>i\<leftarrow>[0..<n]. if i = 0 then 2 else 3) \<le> 3 * n - (if n = 0 then 0 else 1 :: nat)"
  by (induction n) auto

lemma row_parts_ok: "length bs \<le> 16 \<Longrightarrow> parts_ok 48 (row_parts bs)"
proof -
  assume le: "length bs \<le> 16"
  let ?part = "\<lambda>i. (if i = 0 then [] else [Lit '' '']) @ [X 2 (unat (bs ! i))]"
  have "sum_list (map farg_len (?part i)) \<le> (if i = 0 then 2 else 3)" for i
    using length_hex_u8_le [of True "bs ! i"] by simp
  then have "sum_list (map (\<lambda>as. sum_list (map farg_len as)) (row_parts bs))
      \<le> sum_list (map (\<lambda>i. if i = 0 then 2 else 3) [0..<length bs])"
    unfolding row_parts_def map_map comp_def by (rule sum_list_mono)
  also note row_width
  finally show ?thesis using le by (auto simp: parts_ok_def row_parts_def list_all_iff split: if_splits)
qed

lemma safe_rd_bytes_length:
  assumes "a + n \<le> length M" "\<And>bs. length bs = n \<Longrightarrow> safe A M lo hi (f bs)"
  shows "safe A M lo hi (State_Monad.bind (rd_bytes a n) f)"
proof (rule safeI)
  fix s assume ok: "mem_ok A M lo hi s"
  then have "run_state (rd_bytes a n) s = (take n (drop a (st_mem s)), s)"
    using assms(1) by (intro run_rd_bytes) (simp add: mem_ok_length)
  then show "kept A M lo hi s (snd (run_state (State_Monad.bind (rd_bytes a n) f) s))"
    using safeD [OF assms(2) ok, of "take n (drop a (st_mem s))"] assms(1) mem_ok_length [OF ok] by simp
qed

lemma safe_dump_bytes [safe_intros]:
  assumes "a + len \<le> length M" shows "safe A M lo hi (dump_bytes a len)"
  unfolding dump_bytes_def
proof (intro safe_for_each safe_rd_bytes_length safe_sprintf_at safe_pr_list_item)
  fix row assume "row \<in> set [0..<dump_rows len]"
  then have "int row < (int len - 1) div 16 + 1" by (auto simp: dump_rows_def)
  then have "16 * row < len" by linarith
  then show "a + 16 * row + min 16 (len - 16 * row) \<le> length M" using assms by simp
qed (simp_all add: row_parts_ok)

lemma safe_dump_string:
  assumes "terminated M hi" "lo \<le> p" "p \<le> hi" shows "safe A M lo hi (dump_string p dump)"
proof -
  have "hi + 1 < length M" using assms(1) by (simp add: terminated_def)
  then show ?thesis
    unfolding dump_string_def using assms
    by (intro safe_bind safe_if_then safe_strlen_bind safe_dump_bytes safe_ascii_filter
        safe_cstring_at safe_pr_list_item) simp_all
qed

text \<open>With fewer than 255 strings the counter does not wrap and the fuel is enough.\<close>

lemma safe_dump_strings:
  assumes h: "struct_ok M lo hi h"
  shows "Diverges \<in> A \<or> (string_count M h < 255 \<and> string_count M h + 2 \<le> i + n)
    \<Longrightarrow> Diverges \<in> A \<or> (1 \<le> i \<and> i \<le> string_count M h + 1)
    \<Longrightarrow> safe A M lo hi (dump_strings n h i dump)"
proof (induction n arbitrary: i)
  case 0
  then show ?case by (auto intro: safe_fault)
next
  case (Suc n)
  have t: "terminated M hi" using h by (simp add: struct_ok_def)
  have next_i: "Diverges \<in> A \<or> i + 1 \<le> string_count M h + 1"
    if "unat (of_nat i :: u8) - 1 < string_count M h"
  proof (cases "Diverges \<in> A")
    case False
    with Suc.prems have "i < 256" by auto
    then have "unat (of_nat i :: u8) = i" by (simp add: unat_of_nat)
    with that Suc.prems False show ?thesis by auto
  qed simp
  have step: "safe A M lo hi (do { dump_string p dump; dump_strings n h (i + 1) dump })"
    if "unat (of_nat i :: u8) - 1 < string_count M h" "lo \<le> p" "p \<le> hi" for p
    using that(2,3) t next_i [OF that(1)] Suc.prems
    by (intro safe_bind safe_dump_string Suc.IH) auto
  then show ?case
    unfolding dump_strings.simps
    by (intro safe_dmi_string_raw_bind [OF h]) (simp_all add: safe_ret)
qed

lemma safe_dmi_dump [safe_intros]:
  assumes "struct_ok M lo hi h" "Diverges \<in> A \<or> string_count M h < 255"
  shows "safe A M lo hi (dmi_dump h)"
  using assms struct_okD [OF assms(1)] unfolding dmi_dump_def
  by (intro safe_bind safe_pr_list_start safe_dump_bytes safe_pr_list_end safe_rd8 safe_if_then
      safe_opt_flag safe_dump_strings) auto

subsection \<open>Divergence\<close>

text \<open>With 255 strings or more no number of rounds is enough.\<close>

lemma dump_strings_diverges:
  assumes h: "struct_ok M lo hi h" and many: "255 \<le> string_count M h"
  shows "mem_ok UNIV M lo hi s \<Longrightarrow>
    Diverges \<in> set (st_faults (snd (run_state (dump_strings n h i dump) s)))"
proof (induction n arbitrary: i s)
  case 0
  then show ?case by (simp add: fault_def)
next
  case (Suc n)
  have t: "terminated (st_mem s) hi" and le: "h_data h + hlen h \<le> hi" and lo: "lo \<le> h_data h + hlen h"
    using h mem_ok_terminated [OF Suc.prems] by (simp_all add: struct_ok_def)
  have "unat (of_nat i :: u8) - 1 < string_count M h"
    using many unat_u8_less [of "of_nat i"] by linarith
  then obtain p s' where r: "run_state (dmi_string_raw h (of_nat i) (\<not> dump)) s = (Some p, s')"
    "h_data h + hlen h \<le> p" "p \<le> hi"
    using run_dmi_string_raw(2) [OF t le, of "of_nat i" "\<not> dump", folded string_count_def,
      unfolded mem_ok_string_count [OF Suc.prems]] by auto
  have "mem_ok UNIV M lo hi s'"
    using mem_ok_dmi_string_raw [OF Suc.prems h, of "of_nat i" "\<not> dump"] r(1) by simp
  then have "mem_ok UNIV M lo hi (snd (run_state (dump_string p dump) s'))"
    using h lo r by (intro kept_mem_ok [OF safeD [OF safe_dump_string]]) (simp_all add: struct_ok_def)
  then have "Diverges \<in> set (st_faults (snd (run_state (dump_strings n h (i + 1) dump)
      (snd (run_state (dump_string p dump) s')))))"
    by (rule Suc.IH)
  then show ?case using r(1) by (cases "run_state (dump_string p dump) s'") simp
qed

end
