(* ===== verification/Oem_Decode.thy ===== *)
theory Oem_Decode
  imports Oem_Hp Dump
begin

section \<open>Dispatch on the vendor (dmioem.c)\<close>

text \<open>
  The cases of \<^verbatim>\<open>dmi_decode_hp\<close>, one definition each, and \<^verbatim>\<open>dmi_decode_oem\<close>. The argument
  \<open>company\<close> is the text that starts the names, \<open>gen\<close> the generation of the server.

  \<open>oem_faults\<close> lists what can go wrong per type, and \<open>safe_dmi_decode_oem\<close> that nothing else
  can: a string used as a format (types 242 and 245), and a read outside the four bytes of a
  local array (type 199 on an ARM system with a SoC ID). The third fault, a missing product
  name, does not depend on the type; it is part of \<open>mem_ok\<close>.
\<close>

subsection \<open>The cases of dmi_decode_hp\<close>

definition hp_other_rom :: "string \<Rightarrow> int \<Rightarrow> dmi_header \<Rightarrow> (st, bool) state" where
  "hp_other_rom company gen h = (if gen < G9 then ret False else do {
     pr_handle_name [S (Some company), Lit '' ProLiant Other ROM Info''];
     brk_known (hlen h < 0x09) (do {
     b4 \<leftarrow> data8 h 0x04;
     if_then (gen < G12 \<and> b4 AND 0x01 \<noteq> 0) (attr_str ''Redundant ROM Version'' h 0x05);
     b7 \<leftarrow> data8 h 0x07;
     if_then (b7 \<noteq> 0) (do {
       str \<leftarrow> dmi_string h b7;
       if_then (take 2 str \<noteq> ''  '') (do {
         pr_attr ''OEM ROM Binary Filename'' [S (Some str)];
         attr_str ''OEM ROM Binary Build Date'' h 0x08 }) }) }) })"

definition enabled_disabled :: "string \<Rightarrow> bool \<Rightarrow> (st, unit) state" where
  "enabled_disabled name b = pr_attr name [yes_no b ''Enabled'' ''Disabled'']"

definition hp_super_io :: "string \<Rightarrow> int \<Rightarrow> dmi_header \<Rightarrow> (st, bool) state" where
  "hp_super_io company gen h = do {
     pr_handle_name [S (Some company), Lit '' ProLiant Super IO Enable/Disable Indicator''];
     brk_known (hlen h < 0x05) (do {
     feat \<leftarrow> data8 h 0x04;
     enabled_disabled ''Serial Port A'' (bit feat 0);
     enabled_disabled ''Serial Port B'' (bit feat 1);
     enabled_disabled ''Parallel Port'' (bit feat 2);
     enabled_disabled ''Floppy Disk Port'' (bit feat 3);
     enabled_disabled ''Virtual Serial Port'' (bit feat 4) }) }"

definition hp_processor :: "string \<Rightarrow> int \<Rightarrow> dmi_header \<Rightarrow> (st, bool) state" where
  "hp_processor company gen h = do {
     pr_handle_name [S (Some company), Lit '' Processor Specific Information''];
     brk_known (hlen h < 0x0A) (do {
     unless_quiet (attr_hex16 ''Associated Handle'' h 0x04);
     attr_u8 ''APIC ID'' h 0x06;
     feat \<leftarrow> data8 h 0x07;
     attr_flag ''BSP'' (feat AND 0x01 \<noteq> 0);
     attr_flag ''x2APIC'' (feat AND 0x02 \<noteq> 0);
     attr_flag ''Advanced Thermal Margining'' (feat AND 0x04 \<noteq> 0);
     attr_unless ''Physical Slot'' 0xFF h 0x08;
     attr_unless ''Physical Socket'' 0xFF h 0x09;
     brk (hlen h < 0x0C) (do {
     wA \<leftarrow> data16 h 0x0A;
     if_then (wA \<noteq> 0) (pr_attr ''Maximum Power'' [U (unat wA), Lit '' W'']);
     brk (hlen h < 0x10) (do {
     if_then (feat AND 0x02 \<noteq> 0) (attr_x32 ''x2APIC ID'' h 0x0C);
     brk (hlen h < 0x18) (do {
     d10 \<leftarrow> data32 h 0x10; d14 \<leftarrow> data32 h 0x14;
     if_then (d10 \<noteq> 0 \<or> d14 \<noteq> 0)
       (pr_attr ''UUID'' [Lit ''0x'', XL 8 (unat d14), XL 8 (unat d10)]);
     brk (hlen h < 0x1A) (do {
     w18 \<leftarrow> data16 h 0x18;
     if_then (w18 \<noteq> 0) (pr_attr ''Interconnect Speed'' [U (unat w18), Lit '' MT/s'']);
     brk (hlen h < 0x20) (dmi_hp_197_qdf (h_data h + 0x1A)) }) }) }) }) }) }"

text \<open>The local array \<^verbatim>\<open>cpuid[4]\<close>, with the AMD reconstruction.\<close>

definition patch_cpuid :: "cpuid_type \<Rightarrow> u8 list \<Rightarrow> u8 list" where
  "patch_cpuid ct c = (if ct = cpuid_x86_amd then [c ! 0, 0x0F, c ! 1, c ! 2 AND 0x0F] else c)"

definition get_cpuid_type :: "(st, cpuid_type) state" where
  "get_cpuid_type = State (\<lambda>s. (st_cpuid_type s, s))"

definition hp_microcode :: "string \<Rightarrow> int \<Rightarrow> dmi_header \<Rightarrow> (st, bool) state" where
  "hp_microcode company gen h = (if gen < G9 then ret False else do {
     pr_handle_name [S (Some company), Lit '' ProLiant CPU Microcode Patch Support Info''];
     for_each [0..<(hlen h - 4) div 12] (\<lambda>i. do {
       let ptr = 4 + 12 * i;
       ct \<leftarrow> get_cpuid_type;
       c \<leftarrow> rd_bytes (h_data h + ptr + 8) 4;
       dmi_print_cpuid pr_attr ''CPU ID'' ct (rd_array (patch_cpuid ct c));
       date \<leftarrow> data32 h (ptr + 4);
       pr_subattr ''Date'' [XL 4 (unat (date AND 0xFFFF)), Lit ''-'',
         XL 2 (unat (drop_bit 24 date AND 0xFF)), Lit ''-'', XL 2 (unat (drop_bit 16 date AND 0xFF))];
       patch \<leftarrow> data32 h ptr;
       pr_subattr ''Patch'' [Lit ''0x'', X 0 (unat patch)] });
     ret True })"

text \<open>\<^verbatim>\<open>if (data[off] || data[off + 1])\<close> in front of a statement on \<^verbatim>\<open>WORD(data + off)\<close>\<close>

definition if_word :: "dmi_header \<Rightarrow> nat \<Rightarrow> (u16 \<Rightarrow> (st, unit) state) \<Rightarrow> (st, unit) state" where
  "if_word h off m = do { b0 \<leftarrow> data8 h off; b1 \<leftarrow> data8 h (off + 1);
     if_then (b0 \<noteq> 0 \<or> b1 \<noteq> 0) (do { w \<leftarrow> data16 h off; m w }) }"

definition hp_dimm_location :: "string \<Rightarrow> int \<Rightarrow> dmi_header \<Rightarrow> (st, bool) state" where
  "hp_dimm_location company gen h = (if gen < G9 then ret False else do {
     pr_handle_name [S (Some company), Lit '' DIMM Location Record''];
     brk_known (hlen h < 0x09) (do {
     unless_quiet (attr_hex16 ''Associated Memory Record'' h 0x04);
     b6 \<leftarrow> data8 h 0x06;
     (if b6 = 0xFF then pr_attr ''Board Number'' [Lit ''System Board'']
      else pr_attr ''Board Number'' [U (unat b6)]);
     attr_u8 ''DIMM Number'' h 0x07;
     attr_unless ''Processor Number'' 0xFF h 0x08;
     brk (hlen h < 0x0A) (do {
     attr_u8 ''Logical DIMM Number'' h 0x09;
     brk (hlen h < 0x0D) (do {
     attr_str_if ''UEFI Device Path'' h 0x0A;
     attr_str_if ''UEFI Device Name'' h 0x0B;
     attr_str_if ''Device Name'' h 0x0C;
     brk (hlen h < 0x19) (do {
     attr_unless ''Memory Controller Number'' 0 h 0x0D;
     attr_unless ''Memory Channel Number'' 0 h 0x0E;
     if_then (gen < G12) (attr_unless ''IE DIMM Number'' 0xFF h 0x0F);
     if_then (gen < G12) (attr_unless ''IE PLDM ID'' 0xFF h 0x10);
     if_word h 0x11 (\<lambda>w. pr_attr ''Vendor ID'' [Lit ''0x'', X 4 (unat w)]);
     if_word h 0x13 (\<lambda>w. pr_attr ''Device ID'' [Lit ''0x'', X 4 (unat w)]);
     if_word h 0x15 (dmi_memory_manufacturer_id ''Controller Manufacturer ID'');
     if_word h 0x17 (dmi_memory_product_id ''Controller Product ID'');
     brk (hlen h < 0x1A) (do {
     attr_unless ''Best Interleave'' 0 h 0x19;
     brk (hlen h < 0x1B) (do {
     attr_str ''Part Number'' h 0x1A;
     brk (hlen h < 0x1C) (attr_u8 ''DIMM Index'' h 0x1B) }) }) }) }) }) }) })"

definition hp_device_correlation :: "string \<Rightarrow> int \<Rightarrow> dmi_header \<Rightarrow> (st, bool) state" where
  "hp_device_correlation company gen h = (if gen < G9 then ret False else do {
     pr_handle_name [S (Some company), Lit '' Device Correlation Record''];
     brk_known (hlen h < 0x1F) (do {
     w4 \<leftarrow> data16 h 0x04; dmi_hp_203_assoc_hndl ''Associated Device Record'' w4;
     w6 \<leftarrow> data16 h 0x06; dmi_hp_203_assoc_hndl ''Associated SMBus Record'' w6;
     w8 \<leftarrow> data16 h 0x08; wA \<leftarrow> data16 h 0x0A; wC \<leftarrow> data16 h 0x0C; wE \<leftarrow> data16 h 0x0E;
     b10 \<leftarrow> data8 h 0x10; b11 \<leftarrow> data8 h 0x11;
     (if w8 = 0xFFFF \<and> wA = 0xFFFF \<and> wC = 0xFFFF \<and> wE = 0xFFFF \<and> b10 = 0xFF \<and> b11 = 0xFF
      then pr_attr ''PCI Device Info'' [Lit ''Device Not Present'']
      else do {
        attr_x16 ''PCI Vendor ID'' h 0x08;
        attr_x16 ''PCI Device ID'' h 0x0A;
        attr_x16 ''PCI Sub Vendor ID'' h 0x0C;
        attr_x16 ''PCI Sub Device ID'' h 0x0E;
        attr_x8 ''PCI Class Code'' h 0x10;
        attr_x8 ''PCI Sub Class Code'' h 0x11 });
     w12 \<leftarrow> data16 h 0x12; dmi_hp_203_assoc_hndl ''Parent Handle'' w12;
     attr_hex16 ''Flags'' h 0x14;
     w14 \<leftarrow> data16 h 0x14;
     if_then (w14 AND 0x01 \<noteq> 0) (pr_subattr ''Peer Bifurcated Device'' [Lit ''Yes'']);
     if_then (w14 AND 0x02 \<noteq> 0) (pr_subattr ''Upstream Device'' [Lit ''Yes'']);
     b16 \<leftarrow> data8 h 0x16; dmi_hp_203_devtyp ''Device Type'' (unat b16);
     b17 \<leftarrow> data8 h 0x17; dmi_hp_203_devloc ''Device Location'' (unat b17);
     attr_u8 ''Device Instance'' h 0x18;
     attr_u8 ''Device Sub-Instance'' h 0x19;
     b1A \<leftarrow> data8 h 0x1A; dmi_hp_203_bayenc ''Bay'' b1A;
     b1B \<leftarrow> data8 h 0x1B; dmi_hp_203_bayenc ''Enclosure'' b1B;
     attr_str ''Device Path'' h 0x1C;
     attr_str ''Structured Name'' h 0x1D;
     attr_str ''Device Name'' h 0x1E;
     brk (hlen h < 0x22) (do {
     attr_str ''UEFI Location'' h 0x1F;
     unless_quiet (if w14 AND 1 \<noteq> 0 then attr_hex16 ''Associated Real/Phys Handle'' h 0x20
                   else pr_attr ''Associated Real/Phys Handle'' [Lit ''N/A'']);
     brk (hlen h < 0x24) (do {
     attr_str ''PCI Part Number'' h 0x22;
     attr_str ''Serial Number'' h 0x23;
     brk (hlen h < 0x28) (do {
     attr_x16 ''Segment Group Number'' h 0x24;
     b26 \<leftarrow> data8 h 0x26; b27 \<leftarrow> data8 h 0x27;
     pr_attr ''PCI Device'' [XL 2 (unat b26), Lit '':'', XL 2 (unat (drop_bit 3 b27)), Lit ''.'',
       XL 0 (unat (b27 AND 7))] }) }) }) }) })"

definition hp_rack_locator :: "string \<Rightarrow> int \<Rightarrow> dmi_header \<Rightarrow> (st, bool) state" where
  "hp_rack_locator company gen h = do {
     pr_handle_name [S (Some company), Lit '' ProLiant System/Rack Locator''];
     brk_known (hlen h < 0x0B) (do {
     attr_str ''Rack Name'' h 0x04;
     attr_str ''Enclosure Name'' h 0x05;
     attr_str ''Enclosure Model'' h 0x06;
     attr_str ''Enclosure Serial'' h 0x0A;
     attr_u8 ''Enclosure Bays'' h 0x08;
     attr_str ''Server Bay'' h 0x07;
     attr_u8 ''Bays Filled'' h 0x09 }) }"

definition hp_nic_mac :: "string \<Rightarrow> int \<Rightarrow> dmi_header \<Rightarrow> (st, bool) state" where
  "hp_nic_mac company gen h = (if G8 \<le> gen \<and> h_type h = 221 then ret False else do {
     pr_handle_name [S (Some company), Lit '' '', yes_no (h_type h = 221)
       ''BIOS iSCSI NIC PCI and MAC Information'' ''BIOS PXE NIC PCI and MAC Information''];
     for_each [0..<(hlen h - 4) div 8] (\<lambda>i. do {
       let ptr = 4 + 8 * i;
       bus \<leftarrow> data8 h (ptr + 0x01);
       dev \<leftarrow> data8 h ptr;
       dmi_print_hp_net_iface_rec (of_nat (i + 1)) bus dev (h_data h + ptr + 0x02) });
     ret True })"

definition hp_cru :: "string \<Rightarrow> int \<Rightarrow> dmi_header \<Rightarrow> (st, bool) state" where
  "hp_cru company gen h = (if G9 \<le> gen then ret False else do {
     pr_handle_name [S (Some company), Lit '' 64-bit CRU Information''];
     brk_known (hlen h < 0x18) (do {
     ok \<leftarrow> is_printable (h_data h + 0x04) 4;
     d4 \<leftarrow> data32 h 0x04;
     (if ok then do {
        cs \<leftarrow> rd_bytes (h_data h + 0x04) 4;
        pr_attr ''Signature'' [Lit ''0x'', XL 8 (unat d4), Lit '' ('', Lit (map char_of_u8 cs), Lit '')''] }
      else pr_attr ''Signature'' [Lit ''0x'', XL 8 (unat d4)]);
     if_then (d4 = 0x55524324) (do {
       q8 \<leftarrow> data64 h 0x08; d14 \<leftarrow> data32 h 0x14;
       pr_attr ''Physical Address'' [Lit ''0x'', XL 16 (unat (q8 + ucast d14))];
       attr_x32 ''Length'' h 0x10 }) }) })"

definition hp_version :: "string \<Rightarrow> int \<Rightarrow> dmi_header \<Rightarrow> (st, bool) state" where
  "hp_version company gen h = (if gen < G8 then ret False else do {
     pr_handle_name [S (Some company), Lit '' Version Indicator''];
     brk_known (hlen h < 23) (do {
     w4 \<leftarrow> data16 h 0x04; dmi_hp_216_fw_type w4;
     attr_str ''Firmware Name String'' h 0x06;
     attr_str ''Firmware Version String'' h 0x07;
     b8 \<leftarrow> data8 h 0x08;
     dmi_hp_216_version b8 (h_data h + 0x09);
     w15 \<leftarrow> data16 h 0x15;
     if_then (w15 \<noteq> 0) (pr_attr ''Unique ID'' [Lit ''0x'', XL 4 (unat w15)]) }) })"

definition hp_proliant :: "string \<Rightarrow> int \<Rightarrow> dmi_header \<Rightarrow> (st, bool) state" where
  "hp_proliant company gen h = do {
     pr_handle_name [S (Some company), Lit '' ProLiant Information''];
     brk_known (hlen h < 0x08) (do {
     attr_x32 ''Power Features'' h 0x04;
     brk (hlen h < 0x0C) (do {
     attr_x32 ''Omega Features'' h 0x08;
     brk (hlen h < 0x14) (do {
     feat \<leftarrow> data32 h 0x10;
     pr_attr ''Misc. Features'' [Lit ''0x'', XL 8 (unat feat)];
     subattr_flag ''iCRU'' (feat AND 0x0001 \<noteq> 0);
     subattr_flag ''UEFI'' (feat AND 0x1400 \<noteq> 0) }) }) }) }"

definition hp_trusted_module :: "string \<Rightarrow> int \<Rightarrow> dmi_header \<Rightarrow> (st, bool) state" where
  "hp_trusted_module company gen h = do {
     pr_handle_name [S (Some company), Lit '' Trusted Module (TPM or TCM) Status''];
     brk_known (hlen h < 0x05) (do {
     b4 \<leftarrow> data8 h 0x04;
     present \<leftarrow> dmi_hp_224_status b4;
     brk (\<not> present) (brk (hlen h < 0x0A) (do {
     b5 \<leftarrow> data8 h 0x05; dmi_hp_224_ex_status b4 b5;
     b6 \<leftarrow> data8 h 0x06; dmi_hp_224_module_type b6;
     b7 \<leftarrow> data8 h 0x07; dmi_hp_224_module_attr b7;
     unless_quiet (attr_hex16 ''Associated Handle'' h 0x08);
     brk (hlen h < 0x0C) (do { wA \<leftarrow> data16 h 0x0A; dmi_hp_224_chipid wA }) })) }) }"

definition hp_power_supply :: "string \<Rightarrow> int \<Rightarrow> dmi_header \<Rightarrow> (st, bool) state" where
  "hp_power_supply company gen h = do {
     pr_handle_name [S (Some company), Lit '' Power Supply Information''];
     brk_known (hlen h < 0x0B) (do {
     unless_quiet (attr_hex16 ''Associated Handle'' h 0x04);
     attr_str ''Manufacturer'' h 0x06;
     attr_str ''Revision'' h 0x07;
     b8 \<leftarrow> data8 h 0x08; b9 \<leftarrow> data8 h 0x09; bA \<leftarrow> data8 h 0x0A;
     dmi_hp_230_method_bus_seg_addr b8 b9 bA }) }"

definition millivolts :: "string \<Rightarrow> dmi_header \<Rightarrow> nat \<Rightarrow> (st, unit) state" where
  "millivolts name h off = do { w \<leftarrow> data16 h off;
     if w \<noteq> 0 then pr_attr name [U (unat w), Lit '' mV''] else pr_attr name [Lit ''Unknown''] }"

definition hp_dimm_attributes :: "string \<Rightarrow> int \<Rightarrow> dmi_header \<Rightarrow> (st, bool) state" where
  "hp_dimm_attributes company gen h = (if gen < G9 then ret False else do {
     pr_handle_name [S (Some company), Lit '' DIMM Attributes Record''];
     brk_known (hlen h < 0x0E) (do {
     unless_quiet (attr_hex16 ''Associated Handle'' h 0x04);
     feat \<leftarrow> data32 h 0x06;
     pr_attr ''Attributes'' [Lit ''0x'', X 8 (unat feat)];
     pr_subattr ''HPE Smart Memory'' [Lit (if feat AND 0x03 = 0 then ''No''
       else if feat AND 0x03 = 1 then ''Yes'' else ''Unknown'')];
     if_then (bit feat 2) (subattr_flag ''Load Reduced DIMM installed'' (bit feat 3));
     if_then (bit feat 4) (subattr_flag ''HPE Standard Memory Installed'' (bit feat 5));
     millivolts ''Minimum Voltage'' h 0x0A;
     millivolts ''Configured Voltage'' h 0x0C;
     brk (hlen h < 0x23) (do {
     map_out \<leftarrow> data8 h 0x22;
     if_then (map_out \<noteq> 0) (do {
       pr_attr ''Map-Out Reason'' [Lit ''0x'', X 0 (unat map_out)];
       subattr_flag ''Configuration Error'' (map_out AND 0x01 \<noteq> 0);
       subattr_flag ''Training Error'' (map_out AND 0x02 \<noteq> 0) });
     brk (hlen h < 0x24) (do { b23 \<leftarrow> data8 h 0x23; dmi_hp_232_encrypt b23 }) }) }) })"

definition hp_nic :: "string \<Rightarrow> int \<Rightarrow> dmi_header \<Rightarrow> (st, bool) state" where
  "hp_nic company gen h = do {
     pr_handle_name [S (Some company), Lit '' BIOS PXE NIC PCI and MAC Information''];
     brk_known (hlen h < 0x0E) (do {
     nic \<leftarrow> (if 0x28 < hlen h then data8 h 0x28 else ret 0xFF);
     bus \<leftarrow> data8 h 0x06; dev \<leftarrow> data8 h 0x07;
     dmi_print_hp_net_iface_rec nic bus dev (h_data h + 0x08);
     brk (hlen h < 0x2A) (attr_str ''UEFI Device Path'' h 0x29) }) }"

text \<open>\<^verbatim>\<open>"0x%X"\<close> takes 32 of the 64 bits of the WWID.\<close>

definition hp_backplane :: "string \<Rightarrow> int \<Rightarrow> dmi_header \<Rightarrow> (st, bool) state" where
  "hp_backplane company gen h = (if G11 \<le> gen then ret False else do {
     pr_handle_name [S (Some company), Lit '' HDD Backplane FRU Information''];
     brk_known (hlen h < 0x08) (do {
     b4 \<leftarrow> data8 h 0x04;
     pr_attr ''FRU I2C Address'' [Lit ''0x'', X 0 (unat (drop_bit 1 b4)), Lit '' raw(0x'',
       X 0 (unat b4), Lit '')''];
     attr_u16 ''Box Number'' h 0x05;
     w7 \<leftarrow> data16 h 0x07; pr_attr ''NVRAM ID'' [Lit ''0x'', X 0 (unat w7)];
     brk (hlen h < 0x11) (do {
     q9 \<leftarrow> data64 h 0x09;
     pr_attr ''SAS Expander WWID'' [Lit ''0x'', X 0 (unat (ucast q9 :: u32))];
     brk (hlen h < 0x12) (do {
     attr_u8 ''Total SAS Bays'' h 0x11;
     brk (hlen h < 0x15) (if_then (gen < G10P) (do {
       attr_u8 ''A0 Bay Count'' h 0x12;
       attr_u8 ''A2 Bay Count'' h 0x13;
       attr_str ''Backplane Name'' h 0x14 })) }) }) }) })"

definition hp_dimm_vendor :: "string \<Rightarrow> int \<Rightarrow> dmi_header \<Rightarrow> (st, bool) state" where
  "hp_dimm_vendor company gen h = (if gen < G9 then ret False else do {
     pr_handle_name [S (Some company), Lit '' DIMM Vendor Information''];
     brk_known (hlen h < 0x08) (do {
     unless_quiet (attr_hex16 ''Associated Handle'' h 0x04);
     attr_str ''DIMM Manufacturer'' h 0x06;
     attr_str ''DIMM Manufacturer Part Number'' h 0x07;
     brk (hlen h < 0x09) (do {
     attr_str ''DIMM Vendor Serial Number'' h 0x08;
     brk (hlen h < 0x0B) (do {
     w9 \<leftarrow> data16 h 0x09; b9 \<leftarrow> data8 h 0x09; bA \<leftarrow> data8 h 0x0A;
     if_then (w9 \<noteq> 0) (pr_attr ''DIMM Manufacture Date''
       [Lit ''20'', XL 2 (unat b9), Lit ''-W'', XL 2 (unat bA)]) }) }) }) })"

definition hp_usb_port :: "string \<Rightarrow> int \<Rightarrow> dmi_header \<Rightarrow> (st, bool) state" where
  "hp_usb_port company gen h = (if gen < G9 then ret False else do {
     pr_handle_name [S (Some company), Lit '' ProLiant USB Port Connector Correlation Record''];
     brk_known (hlen h < 0x0F) (do {
     unless_quiet (attr_hex16 ''Associated Handle'' h 0x04);
     b6 \<leftarrow> data8 h 0x06; b7 \<leftarrow> data8 h 0x07;
     let dev = [XL 2 (unat b6), Lit '':'', XL 2 (unat (drop_bit 3 b7)), Lit ''.'',
                XL 0 (unat (b7 AND 0x7))];
     (if hlen h < 0x11 then pr_attr ''PCI Device'' dev
      else do { wF \<leftarrow> data16 h 0x0F; pr_attr ''PCI Device'' ([XL 4 (unat wF), Lit '':''] @ dev) });
     b8 \<leftarrow> data8 h 0x08; dmi_hp_238_loc ''Location'' (unat b8);
     w9 \<leftarrow> data16 h 0x09; dmi_hp_238_flags ''Management Port'' (unat w9);
     attr_u8 ''Port Instance'' h 0x0B;
     bC \<leftarrow> data8 h 0x0C;
     (if bC \<noteq> 0xFE then pr_attr ''Parent Hub Port Instance'' [U (unat bC)]
      else pr_attr ''Parent Hub Port Instance'' [Lit ''N/A'']);
     bD \<leftarrow> data8 h 0x0D; dmi_hp_238_speed ''Port Speed Capability'' (unat bD);
     attr_str ''Device Path'' h 0x0E }) })"

definition hp_usb_device :: "string \<Rightarrow> int \<Rightarrow> dmi_header \<Rightarrow> (st, bool) state" where
  "hp_usb_device company gen h = (if gen < G9 then ret False else do {
     pr_handle_name [S (Some company), Lit '' USB Device Correlation Record''];
     brk_known (hlen h < 0x17) (do {
     unless_quiet (attr_hex16 ''Associated Handle'' h 0x04);
     attr_x16 ''USB Vendor ID'' h 0x06;
     b8 \<leftarrow> data8 h 0x08;
     pr_attr ''Embedded SD Card'' [yes_no (b8 AND 0x01 \<noteq> 0) ''Present'' ''Empty''];
     bA \<leftarrow> data8 h 0x0A; bB \<leftarrow> data8 h 0x0B; bC \<leftarrow> data8 h 0x0C;
     dmi_hp_239_usb_device bA bB bC;
     attr_x16 ''USB Product ID'' h 0x0D;
     dF \<leftarrow> data32 h 0x0F;
     if_then (dF \<noteq> 0) (pr_attr ''USB Capacity'' [U (unat dF), Lit '' MB'']);
     attr_str ''UEFI Device Path'' h 0x13;
     attr_str ''UEFI Device Name'' h 0x14;
     attr_str ''Device Name'' h 0x15;
     attr_str ''Device Location'' h 0x16 }) })"

text \<open>The test before the image size reads 32 bits of the 64.\<close>

definition hp_inventory :: "string \<Rightarrow> int \<Rightarrow> dmi_header \<Rightarrow> (st, bool) state" where
  "hp_inventory company gen h = do {
     pr_handle_name [S (Some company), Lit '' ProLiant Inventory Record''];
     brk_known (hlen h < 0x27) (do {
     unless_quiet (attr_hex16 ''Associated Handle'' h 0x04);
     attr_hex32 ''Package Version'' h 0x06;
     attr_str ''Version String'' h 0x0A;
     dB \<leftarrow> data32 h 0x0B;
     (if dB \<noteq> 0 then do { q \<leftarrow> data64 h 0x0B; dmi_print_memory_size ''Image Size'' q 0 }
      else pr_attr ''Image Size'' [Lit ''Not Available'']);
     q13 \<leftarrow> data64 h 0x13; q1B \<leftarrow> data64 h 0x1B;
     dmi_hp_240_attr q13 q1B;
     d23 \<leftarrow> data32 h 0x23;
     (if d23 \<noteq> 0 then pr_attr ''Lowest Supported Version'' [Lit ''0x'', X 8 (unat d23)]
      else pr_attr ''Lowest Supported Version'' [Lit ''Not Available'']) }) }"

definition hp_hard_drive :: "string \<Rightarrow> int \<Rightarrow> dmi_header \<Rightarrow> (st, bool) state" where
  "hp_hard_drive company gen h = (if gen < G10 then ret False else do {
     pr_handle_name [S (Some company), Lit '' ProLiant Hard Drive Inventory Record''];
     brk_known (hlen h < 0x2A) (do {
     unless_quiet (attr_hex16 ''Associated Handle'' h 0x04);
     b6 \<leftarrow> data8 h 0x06; dmi_hp_242_hdd_type b6;
     q7 \<leftarrow> data64 h 0x07; pr_attr ''ID'' [XL 0 (unat q7)];
     (if hlen h < 0x3E
      then do { dF \<leftarrow> data32 h 0x0F; dmi_print_storage_size ''Capacity'' (ucast dF) 2 }
      else do { q2C \<leftarrow> data64 h 0x2C; dmi_print_storage_size ''Capacity'' q2C 0 });
     q13 \<leftarrow> data64 h 0x13; pr_attr ''Poweron'' [D (sint q13), Lit '' hours''];
     b24 \<leftarrow> data8 h 0x24;
     (if b24 \<noteq> 0 then pr_attr ''Power Wattage'' [U (unat b24), Lit '' W'']
      else pr_attr ''Power Wattage'' [Lit ''Unknown'']);
     b25 \<leftarrow> data8 h 0x25; dmi_hp_242_form_factor b25;
     b26 \<leftarrow> data8 h 0x26;
     pr_attr ''Health Status'' [Lit (if b26 = 0x00 then ''OK'' else if b26 = 0x01 then ''Warning''
       else if b26 = 0x02 then ''Critical'' else if b26 = 0xFF then ''Unknown'' else ''Reserved'')];
     attr_fmt ''Serial Number'' h 0x27;
     attr_fmt ''Model Number'' h 0x28;
     attr_fmt ''Firmware Revision'' h 0x29;
     brk (hlen h < 0x2C) (do {
     attr_fmt ''Location'' h 0x2A;
     b2B \<leftarrow> data8 h 0x2B;
     pr_attr ''Encryption Status'' [Lit (if b2B = 0 then ''Not Encrypted''
       else if b2B = 1 then ''Encrypted'' else if b2B = 2 then ''Unknown''
       else if b2B = 3 then ''Not Supported'' else ''Reserved'')];
     brk (hlen h < 0x3E) (do {
     d34 \<leftarrow> data32 h 0x34; pr_attr ''Block Size'' [U (unat d34), Lit '' bytes''];
     b38 \<leftarrow> data8 h 0x38;
     if_then (1 < b38) (pr_attr ''Rotational Speed'' [U (unat b38), Lit '' RPM'']);
     w3A \<leftarrow> data16 h 0x3A; dmi_hp_242_speed ''Negotiated Speed'' w3A;
     w3C \<leftarrow> data16 h 0x3C; dmi_hp_242_speed ''Capable Speed'' w3C }) }) }) })"

definition hp_extension_board :: "string \<Rightarrow> int \<Rightarrow> dmi_header \<Rightarrow> (st, bool) state" where
  "hp_extension_board company gen h = do {
     pr_handle_name [S (Some company), Lit '' ProLiant Extension Board Inventory Record''];
     brk_known (hlen h < 0x05) (do {
     b4 \<leftarrow> data8 h 0x04;
     if b4 = 0 then dmi_hp_245_pcie_riser h
     else if b4 = 1 then dmi_hp_245_pcie_mhs_riser h
     else ret () }) }"

text \<open>The switch of \<^verbatim>\<open>dmi_decode_hp\<close>.\<close>

definition hp_case :: "nat \<Rightarrow> (string \<Rightarrow> int \<Rightarrow> dmi_header \<Rightarrow> (st, bool) state) option" where
  "hp_case = map_of [(193, hp_other_rom), (194, hp_super_io), (197, hp_processor),
     (199, hp_microcode), (202, hp_dimm_location), (203, hp_device_correlation),
     (204, hp_rack_locator), (209, hp_nic_mac), (221, hp_nic_mac), (212, hp_cru),
     (216, hp_version), (219, hp_proliant), (224, hp_trusted_module), (230, hp_power_supply),
     (232, hp_dimm_attributes), (233, hp_nic), (236, hp_backplane), (237, hp_dimm_vendor),
     (238, hp_usb_port), (239, hp_usb_device), (240, hp_inventory), (242, hp_hard_drive),
     (245, hp_extension_board)]"

definition dmi_decode_hp :: "dmi_header \<Rightarrow> (st, bool) state" where
  "dmi_decode_hp h = do {
     v \<leftarrow> get_vendor;
     let company = (if v = VENDOR_HP then ''HP'' else ''HPE'');
     gen \<leftarrow> dmi_hpegen;
     if gen < 0 then ret False
     else (case hp_case (unat (h_type h)) of None \<Rightarrow> ret False | Some d \<Rightarrow> d company gen h) }"

definition dmi_decode_oem :: "dmi_header \<Rightarrow> (st, bool) state" where
  "dmi_decode_oem h = do {
     v \<leftarrow> get_vendor;
     case v of
       VENDOR_HP \<Rightarrow> dmi_decode_hp h | VENDOR_HPE \<Rightarrow> dmi_decode_hp h
     | VENDOR_ACER \<Rightarrow> dmi_decode_acer h | VENDOR_DELL \<Rightarrow> dmi_decode_dell h
     | VENDOR_IBM \<Rightarrow> dmi_decode_ibm_lenovo h | VENDOR_LENOVO \<Rightarrow> dmi_decode_ibm_lenovo h
     | VENDOR_UNKNOWN \<Rightarrow> ret False }"

subsection \<open>Safety of the cases\<close>

lemma safe_enabled_disabled [safe_intros]: "safe A M lo hi (enabled_disabled name b)"
  unfolding enabled_disabled_def by (intro safe_intros) simp
lemma safe_get_cpuid_type [safe_intros]: "safe A M lo hi get_cpuid_type"
  by (rule safe_frame) (simp_all add: get_cpuid_type_def)
lemma safe_millivolts [safe_intros]:
  "struct_ok M lo hi h \<Longrightarrow> off < hlen h \<Longrightarrow> safe A M lo hi (millivolts name h off)"
  using struct_okD [of M lo hi h] unfolding millivolts_def by (intro safe_intros) simp_all
lemma safe_if_word [safe_intros]:
  "struct_ok M lo hi h \<Longrightarrow> off < hlen h \<Longrightarrow> (\<And>w. safe A M lo hi (m w)) \<Longrightarrow> safe A M lo hi (if_word h off m)"
  using struct_okD [of M lo hi h] unfolding if_word_def by (intro safe_intros) simp_all

text \<open>The faults an OEM structure of a type can cause.\<close>

definition oem_faults :: "nat \<Rightarrow> fault set" where
  "oem_faults type = (if type = 242 \<or> type = 245 then {BadFormat}
     else if type = 199 then {OutOfArray 4, OutOfArray 5, OutOfArray 6, OutOfArray 7} else {})"

lemma length_patch_cpuid: "length c = 4 \<Longrightarrow> length (patch_cpuid ct c) = 4"
  by (simp add: patch_cpuid_def)

lemma safe_hp_microcode [safe_intros]:
  assumes "struct_ok M lo hi h" "oem_faults 199 \<subseteq> A"
  shows "safe A M lo hi (hp_microcode company gen h)"
proof -
  have arr: "safe A M lo hi (rd_array (patch_cpuid ct c) i)" if "length c = 4" "i < 8" for ct c i
    using that assms(2) length_patch_cpuid [OF that(1)]
    by (intro safe_rd_array) (auto simp: oem_faults_def numeral_eq_Suc less_Suc_eq)
  have row: "h_data h + (4 + 12 * i) + 12 < length M" if "i < (hlen h - 4) div 12" for i
    using that struct_okD [OF assms(1)] by linarith
  show ?thesis
    unfolding hp_microcode_def Let_def
    by (intro safe_if safe_bind safe_for_each safe_rd_bytes_length safe_ret safe_pr_handle_name
        safe_get_cpuid_type attr.safe_print_cpuid arr safe_DWORD safe_pr_subattr)
       (auto dest: row)
qed

lemma safe_hp_nic_mac [safe_intros]:
  assumes "struct_ok M lo hi h" shows "safe A M lo hi (hp_nic_mac company gen h)"
proof -
  have row: "h_data h + (4 + 8 * i) + 8 < length M" if "i < (hlen h - 4) div 8" for i
    using that struct_okD [OF assms(1)] by linarith
  show ?thesis
    unfolding hp_nic_mac_def Let_def by (intro safe_intros) (auto dest: row)
qed

lemma safe_hp_other_rom [safe_intros]:
  assumes "struct_ok M lo hi h" shows "safe A M lo hi (hp_other_rom company gen h)"
  using assms struct_okD [OF assms] unfolding hp_other_rom_def by (intro safe_intros) simp_all

lemma safe_hp_super_io [safe_intros]:
  assumes "struct_ok M lo hi h" shows "safe A M lo hi (hp_super_io company gen h)"
  using assms struct_okD [OF assms] unfolding hp_super_io_def by (intro safe_intros) simp_all

lemma safe_hp_processor [safe_intros]:
  assumes "struct_ok M lo hi h" shows "safe A M lo hi (hp_processor company gen h)"
  using assms struct_okD [OF assms] unfolding hp_processor_def by (intro safe_intros) simp_all

lemma safe_hp_dimm_location [safe_intros]:
  assumes "struct_ok M lo hi h" shows "safe A M lo hi (hp_dimm_location company gen h)"
  using assms struct_okD [OF assms] unfolding hp_dimm_location_def by (intro safe_intros) simp_all

lemma safe_hp_device_correlation [safe_intros]:
  assumes "struct_ok M lo hi h" shows "safe A M lo hi (hp_device_correlation company gen h)"
  using assms struct_okD [OF assms] unfolding hp_device_correlation_def by (intro safe_intros) simp_all

lemma safe_hp_rack_locator [safe_intros]:
  assumes "struct_ok M lo hi h" shows "safe A M lo hi (hp_rack_locator company gen h)"
  using assms struct_okD [OF assms] unfolding hp_rack_locator_def by (intro safe_intros) simp_all

lemma safe_hp_cru [safe_intros]:
  assumes "struct_ok M lo hi h" shows "safe A M lo hi (hp_cru company gen h)"
  using assms struct_okD [OF assms] unfolding hp_cru_def by (intro safe_intros) simp_all

lemma safe_hp_proliant [safe_intros]:
  assumes "struct_ok M lo hi h" shows "safe A M lo hi (hp_proliant company gen h)"
  using assms struct_okD [OF assms] unfolding hp_proliant_def by (intro safe_intros) simp_all

lemma safe_hp_trusted_module [safe_intros]:
  assumes "struct_ok M lo hi h" shows "safe A M lo hi (hp_trusted_module company gen h)"
  using assms struct_okD [OF assms] unfolding hp_trusted_module_def by (intro safe_intros) simp_all

lemma safe_hp_power_supply [safe_intros]:
  assumes "struct_ok M lo hi h" shows "safe A M lo hi (hp_power_supply company gen h)"
  using assms struct_okD [OF assms] unfolding hp_power_supply_def by (intro safe_intros) simp_all

lemma safe_hp_dimm_attributes [safe_intros]:
  assumes "struct_ok M lo hi h" shows "safe A M lo hi (hp_dimm_attributes company gen h)"
  using assms struct_okD [OF assms] unfolding hp_dimm_attributes_def by (intro safe_intros) simp_all

lemma safe_hp_nic [safe_intros]:
  assumes "struct_ok M lo hi h" shows "safe A M lo hi (hp_nic company gen h)"
  using assms struct_okD [OF assms] unfolding hp_nic_def by (intro safe_intros) simp_all

lemma safe_hp_backplane [safe_intros]:
  assumes "struct_ok M lo hi h" shows "safe A M lo hi (hp_backplane company gen h)"
  using assms struct_okD [OF assms] unfolding hp_backplane_def by (intro safe_intros) simp_all

lemma safe_hp_dimm_vendor [safe_intros]:
  assumes "struct_ok M lo hi h" shows "safe A M lo hi (hp_dimm_vendor company gen h)"
  using assms struct_okD [OF assms] unfolding hp_dimm_vendor_def by (intro safe_intros) simp_all

lemma safe_hp_usb_port [safe_intros]:
  assumes "struct_ok M lo hi h" shows "safe A M lo hi (hp_usb_port company gen h)"
  using assms struct_okD [OF assms] unfolding hp_usb_port_def by (intro safe_intros) simp_all

lemma safe_hp_usb_device [safe_intros]:
  assumes "struct_ok M lo hi h" shows "safe A M lo hi (hp_usb_device company gen h)"
  using assms struct_okD [OF assms] unfolding hp_usb_device_def by (intro safe_intros) simp_all

lemma safe_hp_inventory [safe_intros]:
  assumes "struct_ok M lo hi h" shows "safe A M lo hi (hp_inventory company gen h)"
  using assms struct_okD [OF assms] unfolding hp_inventory_def by (intro safe_intros) simp_all

lemma safe_hp_hard_drive [safe_intros]:
  assumes "struct_ok M lo hi h" "BadFormat \<in> A" shows "safe A M lo hi (hp_hard_drive company gen h)"
  using assms struct_okD [OF assms(1)] unfolding hp_hard_drive_def by (intro safe_intros) simp_all

lemma safe_hp_extension_board [safe_intros]:
  assumes "struct_ok M lo hi h" "BadFormat \<in> A"
  shows "safe A M lo hi (hp_extension_board company gen h)"
  using assms struct_okD [OF assms(1)] unfolding hp_extension_board_def
  by (intro safe_intros) simp_all

subsection \<open>The product name\<close>

text \<open>\<open>safe\<close> for the states in which the product name is there, or NULL is allowed.\<close>

definition safe_prod :: "fault set \<Rightarrow> u8 list \<Rightarrow> nat \<Rightarrow> nat \<Rightarrow> (st, 'a) state \<Rightarrow> bool" where
  "safe_prod A M lo hi m \<longleftrightarrow> (\<forall>s. mem_ok A M lo hi s \<and> (st_product s = None \<longrightarrow> BadString \<in> A)
     \<longrightarrow> kept A M lo hi s (snd (run_state m s)))"

lemma safe_prod_safe: "safe A M lo hi m \<Longrightarrow> safe_prod A M lo hi m"
  by (simp add: safe_prod_def safe_def)

lemma safe_prod_bind:
  "safe_prod A M lo hi m \<Longrightarrow> (\<And>x. safe_prod A M lo hi (f x))
   \<Longrightarrow> safe_prod A M lo hi (State_Monad.bind m f)"
  by (auto simp: safe_prod_def kept_def env_def split_beta)

lemma safe_prod_if:
  "(b \<Longrightarrow> safe_prod A M lo hi m) \<Longrightarrow> (\<not> b \<Longrightarrow> safe_prod A M lo hi n) \<Longrightarrow> safe_prod A M lo hi (if b then m else n)"
  by simp

lemma safe_cstring_zero:
  assumes "k < length M" "a \<le> k" "M ! k = 0" shows "safe A M lo hi (cstring_at a)"
proof (rule safeI)
  fix s assume ok: "mem_ok A M lo hi s"
  then have "k < length (st_mem s)" "st_mem s ! k = 0"
    using assms mem_ok_length [OF ok] mem_ok_zero [OF ok] by simp_all
  then show "kept A M lo hi s (snd (run_state (cstring_at a) s))"
    using run_cstring_at [OF assms(2)] ok by (simp add: kept_def)
qed

lemma safe_prod_get_product: "safe_prod A M lo hi get_product"
  unfolding safe_prod_def
proof (intro allI impI)
  fix s assume s: "mem_ok A M lo hi s \<and> (st_product s = None \<longrightarrow> BadString \<in> A)"
  show "kept A M lo hi s (snd (run_state get_product s))"
  proof (cases "st_product s")
    case None
    then have "safe A M lo hi (do { fault BadString; ret [] :: (st, string) state })"
      using s by (intro safe_bind safe_fault safe_ret) simp
    then show ?thesis using s None by (auto simp: get_product_def dest: safeD)
  next
    case (Some a)
    then obtain k where "k < length M" "a \<le> k" "M ! k = 0"
      using mem_ok_prod s by (fastforce simp: prod_ok_def)
    then have "safe A M lo hi (cstring_at a)" by (rule safe_cstring_zero)
    then show ?thesis using s Some by (auto simp: get_product_def dest: safeD)
  qed
qed

lemma safe_prod_dmi_hpegen: "safe_prod A M lo hi dmi_hpegen"
  unfolding dmi_hpegen_def
  by (intro safe_prod_bind safe_prod_get_product safe_prod_safe safe_get_vendor safe_ret)

lemma safe_prod_hp_version:
  assumes "struct_ok M lo hi h" shows "safe_prod A M lo hi (hp_version company gen h)"
proof -
  have ver: "safe_prod A M lo hi (dmi_hp_216_version f (h_data h + 9))" if "23 \<le> hlen h" for f
    using that struct_okD [OF assms] unfolding dmi_hp_216_version_def
    by (intro safe_prod_bind safe_prod_dmi_hpegen safe_prod_safe safe_rd_bytes safe_pr_attr) simp_all
  show ?thesis
    using assms struct_okD [OF assms]
    unfolding hp_version_def brk_known_def brk_def
    by (intro safe_prod_if safe_prod_bind ver
        safe_prod_safe safe_ret safe_WORD safe_dmi_hp_216_fw_type safe_attr_str safe_rd8
        safe_if_then safe_pr_attr safe_pr_handle_name) simp_all
qed

subsection \<open>Safety of the dispatch\<close>

lemma safe_prod_hp_case:
  assumes "struct_ok M lo hi h" "oem_faults t \<subseteq> A" "hp_case t = Some d"
  shows "safe_prod A M lo hi (d company gen h)"
proof (cases "d = hp_version")
  case True
  then show ?thesis using safe_prod_hp_version [OF assms(1)] by simp
next
  case False
  then show ?thesis
    using assms unfolding hp_case_def
    by (auto split: if_splits simp: oem_faults_def intro!: safe_prod_safe safe_intros)
qed

lemma safe_prod_dmi_decode_hp:
  assumes "struct_ok M lo hi h" "oem_faults (unat (h_type h)) \<subseteq> A"
  shows "safe_prod A M lo hi (dmi_decode_hp h)"
  unfolding dmi_decode_hp_def Let_def
  by (intro safe_prod_bind safe_prod_dmi_hpegen
      safe_prod_safe [OF safe_get_vendor])
     (auto split: option.split intro: safe_prod_safe [OF safe_ret] safe_prod_hp_case [OF assms])

lemma safe_dmi_decode_oem [safe_intros]:
  assumes "struct_ok M lo hi h" "4 \<le> hlen h" "oem_faults (unat (h_type h)) \<subseteq> A"
  shows "safe A M lo hi (dmi_decode_oem h)"
proof (rule safeI)
  fix s assume ok: "mem_ok A M lo hi s"
  have hp: "kept A M lo hi s (snd (run_state (dmi_decode_hp h) s))"
    if "st_vendor s = VENDOR_HP \<or> st_vendor s = VENDOR_HPE"
    using safe_prod_dmi_decode_hp [OF assms(1,3)] ok that mem_ok_prod [OF ok]
    by (auto simp: safe_prod_def prod_ok_def split: option.splits)
  have other: "kept A M lo hi s (snd (run_state (dmi_decode_acer h) s))"
    "kept A M lo hi s (snd (run_state (dmi_decode_dell h) s))"
    "kept A M lo hi s (snd (run_state (dmi_decode_ibm_lenovo h) s))"
    using assms ok by (auto intro!: safeD [OF _ ok] safe_intros)
  show "kept A M lo hi s (snd (run_state (dmi_decode_oem h) s))"
    using hp other ok kept_refl [OF ok]
    by (cases "st_vendor s") (simp_all add: dmi_decode_oem_def get_vendor_def)
qed

end
