(* ===== verification/Decode.thy ===== *)
theory Decode
  imports Board Processor Memory_Modules Slots Memory_Device Devices Controllers Oem_Decode
begin

section \<open>Decoding one structure\<close>

text \<open>
  \<^verbatim>\<open>dmi_decode\<close>: the switch on the structure type. The case bodies are the definitions of
  the theories \<open>Board\<close> to \<open>Controllers\<close> and \<open>Oem_Decode\<close>. \<open>ntop\<close> stands for the
  C library's \<^verbatim>\<open>inet_ntop\<close> (types 42).

  \<open>decode_faults M h\<close> is the set of faults a structure \<open>h\<close> of the table \<open>M\<close> can
  cause when it lies in the table; it is empty for all standard types except the memory
  controller and module (5 and 6, a shift count taken from the table) and the memory channel
  (37, a loop that starts one too late and may read one byte behind the table).
  \<open>safe_dmi_decode\<close> says that nothing else can happen. The locale \<open>structure_decoder\<close>
  states that contract for the code that walks the table.
\<close>

subsection \<open>Definitions\<close>

text \<open>The cases that start with \<^verbatim>\<open>pr_handle_name\<close> and are followed by \<^verbatim>\<open>pr_sep\<close>.\<close>

definition dmi_decode_standard ::
    "(nat \<Rightarrow> u8 list \<Rightarrow> string) \<Rightarrow> nat \<Rightarrow> (dmi_header \<Rightarrow> u16 \<Rightarrow> (st, unit) state) option" where
  "dmi_decode_standard ntop = map_of [
     (0, dmi_decode_bios), (1, dmi_decode_system), (2, dmi_decode_base_board),
     (3, dmi_decode_chassis), (4, dmi_decode_processor), (5, dmi_decode_memory_controller),
     (6, dmi_decode_memory_module), (7, dmi_decode_cache), (8, dmi_decode_port),
     (9, dmi_decode_slot), (10, \<lambda>h ver. dmi_on_board_devices h), (11, dmi_decode_oem_strings),
     (12, dmi_decode_config_options), (13, dmi_decode_bios_language), (14, dmi_decode_group),
     (15, dmi_decode_event_log), (16, dmi_decode_memory_array), (17, dmi_decode_memory_device),
     (18, dmi_decode_memory_error32), (19, dmi_decode_mapped_array),
     (20, dmi_decode_mapped_device), (21, dmi_decode_pointing), (22, dmi_decode_battery),
     (23, dmi_decode_system_reset), (24, dmi_decode_hardware_security),
     (25, dmi_decode_power_controls), (26, dmi_decode_voltage_probe), (27, dmi_decode_cooling),
     (28, dmi_decode_temperature_probe), (29, dmi_decode_current_probe),
     (30, dmi_decode_remote_access), (31, dmi_decode_boot_integrity), (32, dmi_decode_boot),
     (33, dmi_decode_memory_error64), (34, dmi_decode_management_device),
     (35, dmi_decode_management_component), (36, dmi_decode_threshold),
     (37, dmi_decode_memory_channel), (38, dmi_decode_ipmi), (39, dmi_decode_power_supply),
     (41, dmi_decode_onboard_device), (42, dmi_decode_host_interface ntop),
     (43, dmi_decode_tpm), (45, dmi_decode_firmware),
     (126, \<lambda>h ver. pr_handle_name [Lit ''Inactive'']),
     (127, \<lambda>h ver. pr_handle_name [Lit ''End Of Table''])]"

definition dmi_decode :: "(nat \<Rightarrow> u8 list \<Rightarrow> string) \<Rightarrow> dmi_header \<Rightarrow> u16 \<Rightarrow> (st, unit) state" where
  "dmi_decode ntop h ver = (case dmi_decode_standard ntop (unat (h_type h)) of
       Some d \<Rightarrow> do { d h ver; pr_sep }
     | None \<Rightarrow>
         if h_type h = 40 then
           (if hlen h < 0x0B then pr_sep
            else do { quiet \<leftarrow> opt_flag FLAG_QUIET;
              if quiet then ret () else do { dmi_additional_info h; pr_sep } })
         else do {
           oem \<leftarrow> dmi_decode_oem h;
           if oem then pr_sep
           else do { quiet \<leftarrow> opt_flag FLAG_QUIET;
             if quiet then ret ()
             else do {
               pr_handle_name [S (Some (if 128 \<le> h_type h then ''OEM-specific'' else ''Unknown'')),
                 Lit '' Type''];
               dmi_dump h;
               pr_sep } } })"

subsection \<open>Safety\<close>

definition decode_faults :: "u8 list \<Rightarrow> dmi_header \<Rightarrow> fault set" where
  "decode_faults M h =
     (if h_type h = 5 \<or> h_type h = 6 then {BadShift} else {})
     \<union> (if h_type h = 37 then {OutOfBounds (length M)} else {})
     \<union> oem_faults (unat (h_type h))
     \<union> (if string_count M h < 255 then {} else {Diverges})"

lemma unat_type: "h_type h = w \<longleftrightarrow> unat (h_type h) = unat w"
  by (rule word_eq_iff_unsigned)

lemma safe_dmi_decode_standard:
  assumes "struct_ok M lo hi h" "4 \<le> hlen h" "decode_faults M h \<subseteq> A"
    and "dmi_decode_standard ntop (unat (h_type h)) = Some d"
  shows "safe A M lo hi (d h ver)"
  using assms unfolding dmi_decode_standard_def
  by (simp only: map_of.simps fst_conv snd_conv fun_upd_apply split: if_split_asm)
     (simp_all add: decode_faults_def unat_type safe_intros, (drule sym, simp add: safe_intros)+)

lemma safe_dmi_decode [safe_intros]:
  assumes "struct_ok M lo hi h" "4 \<le> hlen h" "decode_faults M h \<subseteq> A"
  shows "safe A M lo hi (dmi_decode ntop h ver)"
proof -
  have "oem_faults (unat (h_type h)) \<subseteq> A" "Diverges \<in> A \<or> string_count M h < 255"
    using assms(3) by (auto simp: decode_faults_def split: if_split_asm)
  then have other: "safe A M lo hi (dmi_decode_oem h)" "safe A M lo hi (dmi_dump h)"
    using assms(1,2) by (auto intro: safe_intros)
  show ?thesis
  proof (cases "dmi_decode_standard ntop (unat (h_type h))")
    case (Some d)
    have "safe A M lo hi (d h ver)" by (rule safe_dmi_decode_standard [OF assms Some])
    with Some show ?thesis by (simp add: dmi_decode_def safe_bind safe_pr_sep)
  next
    case None
    then show ?thesis
      unfolding dmi_decode_def using assms(1)
      by (auto intro!: other safe_bind safe_if safe_dmi_additional_info safe_pr_handle_name safe_pr_sep
          safe_ret safe_opt_flag)
  qed
qed

subsection \<open>The contract of a structure decoder\<close>

locale structure_decoder =
  fixes decode :: "dmi_header \<Rightarrow> (st, unit) state"
    and faults :: "u8 list \<Rightarrow> dmi_header \<Rightarrow> fault set"
  assumes safe_decode:
    "struct_ok M 0 hi h \<Longrightarrow> 4 \<le> hlen h \<Longrightarrow> faults M h \<subseteq> A \<Longrightarrow> safe A M 0 hi (decode h)"

text \<open>The two decoders of standard \<^verbatim>\<open>dmidecode\<close>: the full one and the raw dump.\<close>

interpretation full: structure_decoder "\<lambda>h. dmi_decode ntop h ver" decode_faults
  by unfold_locales (rule safe_dmi_decode)

definition dump_faults :: "u8 list \<Rightarrow> dmi_header \<Rightarrow> fault set" where
  "dump_faults M h = (if string_count M h < 255 then {} else {Diverges})"

interpretation raw_dump: structure_decoder "\<lambda>h. do { dmi_dump h; pr_sep }" dump_faults
  by unfold_locales (auto simp: dump_faults_def intro!: safe_intros split: if_split_asm)

end
