(* ===== verification/Cpux.thy ===== *)
theory Cpux
  imports Decode
begin

section \<open>What CPU-X reads from the table\<close>

text \<open>
  \<^verbatim>\<open>dmi_decode_cpux\<close>, which fills the record of the daemon (\<^verbatim>\<open>src/src/daemon/daemon.h\<close>)
  instead of printing, and the \<^verbatim>\<open>*_str\<close> functions it calls. Those keep their result in static
  buffers (\<open>st_bufs\<close>); several return the buffer without writing it first, so that a
  missing value of one structure shows the value of the one before. \<^verbatim>\<open>strncpy\<close> copies into
  an array of 80 characters without a terminator when the source is longer. Both are stated in
  the theory \<open>Record_Properties\<close>.

  \<open>gettext\<close> translates a message (\<^verbatim>\<open>_()\<close>); \<open>alloc n\<close> says whether \<^verbatim>\<open>realloc\<close> finds room
  for \<open>n\<close> memory sticks.
\<close>

subsection \<open>String functions of the C library\<close>

abbreviation NUL :: char where "NUL \<equiv> CHR 0x00"

definition strncpy_arr :: "string \<Rightarrow> nat \<Rightarrow> char_array" where
  "strncpy_arr src n = take n (src @ replicate (n - length src) NUL)"

text \<open>\<^verbatim>\<open>snprintf(dst, MAXSTR, ...)\<close> of the text \<open>s\<close>: the rest of the array is left alone.\<close>

definition store_text :: "char_array \<Rightarrow> string \<Rightarrow> char_array" where
  "store_text dst s = (let t = take (MAXSTR - 1) s in t @ [NUL] @ drop (length t + 1) dst)"

text \<open>The C string in an array that holds a terminator.\<close>

definition c_str :: "char_array \<Rightarrow> cstr" where
  "c_str a = (if NUL \<in> set a then Some (takeWhile (\<lambda>c. c \<noteq> NUL) a) else None)"

subsection \<open>The functions with a static buffer\<close>

definition get_bufs :: "(st, str_bufs) state" where
  "get_bufs = State (\<lambda>s. (st_bufs s, s))"

definition set_bufs :: "(str_bufs \<Rightarrow> str_bufs) \<Rightarrow> (st, unit) state" where
  "set_bufs f = State (\<lambda>s. ((), s\<lparr>st_bufs := f (st_bufs s)\<rparr>))"

definition STR_LEN :: nat where "STR_LEN = 24"

definition dmi_bios_runtime_size_str :: "u32 \<Rightarrow> (st, string) state" where
  "dmi_bios_runtime_size_str code = do {
     t \<leftarrow> (if code AND 0x3FF \<noteq> 0
           then snprintf STR_LEN [U (unat code), Lit '' '', S (Some TOKEN_UNIT_B)]
           else snprintf STR_LEN [U (unat (drop_bit 10 code)), Lit '' '', S (Some TOKEN_UNIT_KIB)]);
     set_bufs (\<lambda>b. b\<lparr>b_runtime_size := t\<rparr>);
     ret t }"

definition dmi_bios_rom_size_str :: "u8 \<Rightarrow> u16 \<Rightarrow> (st, string) state" where
  "dmi_bios_rom_size_str code1 code2 = (let unit = [TOKEN_UNIT_MIB, TOKEN_UNIT_GIB, ''?B'', ''?B'']
   in do {
     t \<leftarrow> (if code1 \<noteq> 0xFF
           then dmi_print_memory_size_str STR_LEN (push_bit 6 (ucast code1 + 1)) 1
           else snprintf STR_LEN [U (unat (code2 AND 0x3FFF)), Lit '' '',
                  S (tab unit (unat (drop_bit 14 code2)))]);
     set_bufs (\<lambda>b. b\<lparr>b_rom_size := t\<rparr>);
     ret t })"

definition dmi_memory_device_size_str :: "u16 \<Rightarrow> (st, string) state" where
  "dmi_memory_device_size_str code = do {
     (if code = 0 then pr_attr ''Size'' [Lit ''No Module Installed'']
      else if code = 0xFFFF then pr_attr ''Size'' [Lit ''Unknown'']
      else let s = (ucast (code AND 0x7FFF) :: u64);
               s' = (if code AND 0x8000 = 0 then push_bit 10 s else s)
           in do { t \<leftarrow> dmi_print_memory_size_str STR_LEN s' 1; set_bufs (\<lambda>b. b\<lparr>b_size := t\<rparr>) });
     b \<leftarrow> get_bufs;
     ret (b_size b) }"

definition dmi_memory_device_extended_size_str :: "u32 \<Rightarrow> (st, string) state" where
  "dmi_memory_device_extended_size_str code0 = (let code = code0 AND 0x7FFFFFFF in do {
     t \<leftarrow> (if code AND 0x3FF \<noteq> 0
           then snprintf STR_LEN [U (unat code), Lit '' '', S (Some TOKEN_UNIT_MIB)]
           else if code AND 0xFFC00 \<noteq> 0
           then snprintf STR_LEN [U (unat (drop_bit 10 code)), Lit '' '', S (Some TOKEN_UNIT_GIB)]
           else snprintf STR_LEN [U (unat (drop_bit 20 code)), Lit '' '', S (Some TOKEN_UNIT_TIB)]);
     set_bufs (\<lambda>b. b\<lparr>b_extended_size := t\<rparr>);
     ret t })"

definition dmi_memory_voltage_value_str :: "u16 \<Rightarrow> (st, string) state" where
  "dmi_memory_voltage_value_str code = do {
     if_then (code \<noteq> 0) (do {
       t \<leftarrow> (let v = float_of_ratio (unat code) 1000 in
         if unat code mod 100 \<noteq> 0 then snprintf MAXSTR [S (printf_g v), Lit '' V'']
         else snprintf MAXSTR [Lit (printf_f 1 v), Lit '' V'']);
       set_bufs (\<lambda>b. b\<lparr>b_voltage := t\<rparr>) });
     b \<leftarrow> get_bufs;
     ret (b_voltage b) }"

text \<open>The buffer of this one is always written before it is returned.\<close>

definition dmi_memory_device_type_detail_str :: "u16 \<Rightarrow> (st, string) state" where
  "dmi_memory_device_type_detail_str code =
     (if code AND 0xFFFE = 0 then ret ''None''
      else join_bits 172 [1..<16] code (\<lambda>i. tab type_detail_tbl (i - 1)) [])"

definition dmi_memory_device_speed_str :: "u16 \<Rightarrow> u32 \<Rightarrow> (st, string) state" where
  "dmi_memory_device_speed_str code1 code2 = do {
     (if code1 = 0xFFFF then
        if_then (code2 \<noteq> 0) (do { t \<leftarrow> snprintf STR_LEN [U (unat code2), Lit '' MT/s''];
          set_bufs (\<lambda>b. b\<lparr>b_speed := t\<rparr>) })
      else
        if_then (code1 \<noteq> 0) (do { t \<leftarrow> snprintf STR_LEN [U (unat code1), Lit '' MT/s''];
          set_bufs (\<lambda>b. b\<lparr>b_speed := t\<rparr>) }));
     b \<leftarrow> get_bufs;
     ret (b_speed b) }"

subsection \<open>dmi_decode_cpux\<close>

definition blank_array :: char_array where
  "blank_array = replicate MAXSTR NUL"

definition blank_stick :: DmidecodeMemoryData where
  "blank_stick = \<lparr>m_manufacturer = blank_array, m_part_number = blank_array, m_type = blank_array,
     m_type_detail = blank_array, m_device_locator = blank_array, m_bank_locator = blank_array,
     m_size = blank_array, m_rank = blank_array, m_speed_maximum = blank_array,
     m_speed_configured = blank_array, m_voltage_minimum = blank_array,
     m_voltage_maximum = blank_array, m_voltage_configured = blank_array\<rparr>"

definition put_str :: "string \<Rightarrow> char_array" where
  "put_str src = strncpy_arr src MAXSTR"

text \<open>\<^verbatim>\<open>realloc\<close> to \<open>n\<close> elements.\<close>

definition resize :: "DmidecodeMemoryData list \<Rightarrow> nat \<Rightarrow> DmidecodeMemoryData list" where
  "resize xs n = take n (xs @ replicate (n - length xs) blank_stick)"

definition cpux_bios :: "dmi_header \<Rightarrow> DmidecodeData \<Rightarrow> (st, DmidecodeData) state" where
  "cpux_bios h d = (if hlen h < 0x12 then ret d else do {
     b4 \<leftarrow> data8 h 0x04; brand \<leftarrow> dmi_string h b4;
     b5 \<leftarrow> data8 h 0x05; version \<leftarrow> dmi_string h b5;
     b8 \<leftarrow> data8 h 0x08; date \<leftarrow> dmi_string h b8;
     w6 \<leftarrow> data16 h 0x06;
     runtime \<leftarrow> dmi_bios_runtime_size_str (push_bit 4 (0x10000 - ucast w6));
     b9 \<leftarrow> data8 h 0x09;
     w18 \<leftarrow> (if hlen h < 0x1A then ret 16 else data16 h 0x18);
     rom \<leftarrow> dmi_bios_rom_size_str b9 w18;
     t \<leftarrow> snprintf MAXSTR [S (Some runtime), Lit '' / '', S (Some rom)];
     ret (d\<lparr>d_bios := \<lparr>bios_brand = put_str brand, bios_version = put_str version,
       bios_date = put_str date, bios_romsize = store_text (bios_romsize (d_bios d)) t\<rparr>\<rparr>) })"

definition cpux_board :: "dmi_header \<Rightarrow> DmidecodeData \<Rightarrow> (st, DmidecodeData) state" where
  "cpux_board h d = (if hlen h < 0x08 then ret d else do {
     b4 \<leftarrow> data8 h 0x04; manufacturer \<leftarrow> dmi_string h b4;
     b5 \<leftarrow> data8 h 0x05; model \<leftarrow> dmi_string h b5;
     b6 \<leftarrow> data8 h 0x06; revision \<leftarrow> dmi_string h b6;
     ret (d\<lparr>d_mb := \<lparr>mb_manufacturer = put_str manufacturer, mb_model = put_str model,
       mb_revision = put_str revision\<rparr>\<rparr>) })"

definition cpux_processor :: "dmi_header \<Rightarrow> DmidecodeData \<Rightarrow> (st, DmidecodeData) state" where
  "cpux_processor h d = (if hlen h < 0x1A then ret d else do {
     w12 \<leftarrow> data16 h 0x12;
     b4 \<leftarrow> data8 h 0x04; socket \<leftarrow> dmi_string h b4;
     ret (d\<lparr>d_processor := \<lparr>bus_freq = w12, cpu_package = put_str socket\<rparr>\<rparr>) })"

text \<open>The fields of one memory stick, in the three groups between the length checks.\<close>

definition stick_place :: "dmi_header \<Rightarrow> DmidecodeMemoryData \<Rightarrow> (st, DmidecodeMemoryData) state" where
  "stick_place h m = do {
     wC \<leftarrow> data16 h 0x0C;
     size \<leftarrow> (if 0x20 \<le> hlen h \<and> wC = 0x7FFF
              then do { x \<leftarrow> data32 h 0x1C; dmi_memory_device_extended_size_str x }
              else dmi_memory_device_size_str wC);
     bE \<leftarrow> data8 h 0x0E; b12 \<leftarrow> data8 h 0x12;
     t \<leftarrow> snprintf MAXSTR [S (dmi_memory_device_form_factor bE), Lit '' '', S (dmi_memory_device_type b12)];
     b10 \<leftarrow> data8 h 0x10; device \<leftarrow> dmi_string h b10;
     b11 \<leftarrow> data8 h 0x11; bank \<leftarrow> dmi_string h b11;
     w13 \<leftarrow> data16 h 0x13; detail \<leftarrow> dmi_memory_device_type_detail_str w13;
     ret (m\<lparr>m_size := put_str size, m_type := store_text (m_type m) t,
       m_device_locator := put_str device, m_bank_locator := put_str bank,
       m_type_detail := put_str detail\<rparr>) }"

definition stick_tail ::
    "(string \<Rightarrow> string) \<Rightarrow> dmi_header \<Rightarrow> DmidecodeMemoryData \<Rightarrow> (st, DmidecodeMemoryData) state" where
  "stick_tail gettext h m = (if hlen h < 0x1C then ret m else do {
     b1B \<leftarrow> data8 h 0x1B;
     m \<leftarrow> (if b1B AND 0x0F = 0 then ret (m\<lparr>m_rank := put_str (gettext ''Unknown'')\<rparr>)
           else do { t \<leftarrow> snprintf MAXSTR [U (unat (b1B AND 0x0F))];
             ret (m\<lparr>m_rank := store_text (m_rank m) t\<rparr>) });
     if hlen h < 0x22 then ret m else do {
     w20 \<leftarrow> data16 h 0x20; e58 \<leftarrow> ext_speed h 0x58;
     speed \<leftarrow> dmi_memory_device_speed_str w20 e58;
     let m = m\<lparr>m_speed_configured := put_str speed\<rparr>;
     if hlen h < 0x28 then ret m else do {
     w22 \<leftarrow> data16 h 0x22; vmin \<leftarrow> dmi_memory_voltage_value_str w22;
     w24 \<leftarrow> data16 h 0x24; vmax \<leftarrow> dmi_memory_voltage_value_str w24;
     w26 \<leftarrow> data16 h 0x26; vconf \<leftarrow> dmi_memory_voltage_value_str w26;
     ret (m\<lparr>m_voltage_minimum := put_str vmin, m_voltage_maximum := put_str vmax,
       m_voltage_configured := put_str vconf\<rparr>) } } })"

definition stick_module ::
    "(string \<Rightarrow> string) \<Rightarrow> dmi_header \<Rightarrow> DmidecodeMemoryData \<Rightarrow> (st, DmidecodeMemoryData) state" where
  "stick_module gettext h m = (if hlen h < 0x17 then ret m else do {
     wC \<leftarrow> data16 h 0x0C;
     no_quirks \<leftarrow> opt_flag FLAG_NO_QUIRKS;
     if wC = 0 \<and> \<not> no_quirks then ret m else do {
     w15 \<leftarrow> data16 h 0x15; e54 \<leftarrow> ext_speed h 0x54;
     speed \<leftarrow> dmi_memory_device_speed_str w15 e54;
     let m = m\<lparr>m_speed_maximum := put_str speed\<rparr>;
     if hlen h < 0x1B then ret m else do {
     b17 \<leftarrow> data8 h 0x17; manufacturer \<leftarrow> dmi_string h b17;
     b1A \<leftarrow> data8 h 0x1A; part \<leftarrow> dmi_string h b1A;
     stick_tail gettext h (m\<lparr>m_manufacturer := put_str manufacturer, m_part_number := put_str part\<rparr>)
     } } })"

definition cpux_memory :: "(string \<Rightarrow> string) \<Rightarrow> (nat \<Rightarrow> bool) \<Rightarrow> dmi_header \<Rightarrow> DmidecodeData
    \<Rightarrow> (st, DmidecodeData) state" where
  "cpux_memory gettext alloc h d = (if hlen h < 0x15 then ret d else do {
     bE \<leftarrow> data8 h 0x0E;
     let n = unat (d_stick_count d) + 1;
     case dmi_memory_device_form_factor bE of
       None \<Rightarrow> do { fault BadString; ret d }
     | Some form \<Rightarrow>
       if strstr form ''Unknown'' then ret d
       else if \<not> alloc n then do {
         eprintf [Lit ''dmi_decode_cpux(): failed to reallocate cpux_data->memory'']; ret d }
       else do {
         let stick_index = unat (d_stick_count d);
         let sticks = resize (d_memory d) n;
         m \<leftarrow> stick_place h blank_stick;
         m \<leftarrow> stick_module gettext h m;
         ret (d\<lparr>d_memory := sticks[stick_index := m], d_stick_count := d_stick_count d + 1\<rparr>) } })"

definition dmi_decode_cpux :: "(string \<Rightarrow> string) \<Rightarrow> (nat \<Rightarrow> bool) \<Rightarrow> dmi_header \<Rightarrow> DmidecodeData
    \<Rightarrow> (st, DmidecodeData) state" where
  "dmi_decode_cpux gettext alloc h d =
     (if h_type h = 0 then cpux_bios h d
      else if h_type h = 2 then cpux_board h d
      else if h_type h = 4 then cpux_processor h d
      else if h_type h = 17 then cpux_memory gettext alloc h d
      else do {
        eprintf [Lit ''internal error in dmi_decode_cpux(): type '', U (unat (h_type h)),
          Lit '' is not supported.''];
        ret d })"

text \<open>The call through the global pointer, which the caller has found not to be NULL.\<close>

definition get_cpux :: "(st, DmidecodeData option) state" where
  "get_cpux = State (\<lambda>s. (st_cpux s, s))"

definition set_cpux :: "DmidecodeData \<Rightarrow> (st, unit) state" where
  "set_cpux d = State (\<lambda>s. ((), s\<lparr>st_cpux := Some d\<rparr>))"

subsection \<open>Safety\<close>

lemma safe_get_bufs [safe_intros]: "safe A M lo hi get_bufs"
  by (rule safe_frame) (simp_all add: get_bufs_def)
lemma safe_set_bufs [safe_intros]: "safe A M lo hi (set_bufs f)"
  by (rule safe_frame) (simp_all add: set_bufs_def)
lemma safe_get_cpux [safe_intros]: "safe A M lo hi get_cpux"
  by (rule safe_frame) (simp_all add: get_cpux_def)
lemma safe_set_cpux [safe_intros]: "safe A M lo hi (set_cpux d)"
  by (rule safe_frame) (simp_all add: set_cpux_def)

lemma unat_push_bit_le: "unat (push_bit n w) \<le> unat w * 2 ^ n" for w :: "'a :: len word"
  by (subst unsigned_push_bit_eq) (simp only: take_bit_eq_mod push_bit_eq_mult mod_less_eq_dividend)

lemma rom_size_bound: "unat (push_bit 6 (ucast (c :: u8) + 1 :: u64)) < 2 ^ 60"
proof -
  have "unat (ucast c + 1 :: u64) \<le> unat (ucast c :: u64) + 1"
    by (simp add: unat_word_ariths)
  also have "unat (ucast c :: u64) = unat c"
    unfolding unat_ucast_mod by (rule mod_less) (rule less_trans [OF unat_u8_less], simp)
  finally have "unat (ucast c + 1 :: u64) \<le> 256" using unat_u8_le [of c] by linarith
  then show ?thesis using unat_push_bit_le [of 6 "ucast c + 1 :: u64"] by simp
qed

lemma device_size_bound: "unat (ucast (c AND 0x7FFF :: u16) :: u64) \<le> 0x7FFF"
  using unat_and_le_right [of c "0x7FFF"] by (simp add: unat_ucast_mod)

lemma safe_dmi_bios_runtime_size_str [safe_intros]: "safe A M lo hi (dmi_bios_runtime_size_str c)"
  unfolding dmi_bios_runtime_size_str_def by (intro safe_intros) simp_all

lemma safe_dmi_bios_rom_size_str [safe_intros]: "safe A M lo hi (dmi_bios_rom_size_str a b)"
  using rom_size_bound [of a] unfolding dmi_bios_rom_size_str_def
  by (intro safe_intros) (simp_all add: ok_simps)

lemma safe_dmi_memory_device_size_str [safe_intros]: "safe A M lo hi (dmi_memory_device_size_str c)"
proof -
  have "unat (push_bit 10 (ucast (c AND 0x7FFF)) :: u64) < 2 ^ 60"
    using unat_push_bit_le [of 10 "ucast (c AND 0x7FFF) :: u64"] device_size_bound [of c] by simp
  then show ?thesis
    using device_size_bound [of c] unfolding dmi_memory_device_size_str_def
    by (intro safe_intros) auto
qed

lemma safe_dmi_memory_device_extended_size_str [safe_intros]:
  "safe A M lo hi (dmi_memory_device_extended_size_str c)"
  unfolding dmi_memory_device_extended_size_str_def by (intro safe_intros) simp_all

lemma safe_dmi_memory_voltage_value_str [safe_intros]:
  "safe A M lo hi (dmi_memory_voltage_value_str c)"
  using voltage_total [of "unat c"] unfolding dmi_memory_voltage_value_str_def Let_def
  by (intro safe_intros) simp_all

lemma safe_join_bits_str:
  "names_ok cap is name \<Longrightarrow> safe A M lo hi (join_bits cap is code name [])"
  using safe_join_bits [of cap "is" name A M lo hi ret code] by (simp add: safe_ret)

lemma safe_dmi_memory_device_type_detail_str [safe_intros]:
  "safe A M lo hi (dmi_memory_device_type_detail_str c)"
  unfolding dmi_memory_device_type_detail_str_def
  by (intro safe_if safe_ret safe_join_bits_str) (simp add: names_ok_def type_detail_tbl_def upt_rec)

lemma safe_dmi_memory_device_speed_str [safe_intros]: "safe A M lo hi (dmi_memory_device_speed_str a b)"
  unfolding dmi_memory_device_speed_str_def by (intro safe_intros) simp_all

lemma safe_cpux_bios [safe_intros]: "struct_ok M lo hi h \<Longrightarrow> safe A M lo hi (cpux_bios h d)"
  using struct_okD [of M lo hi h] unfolding cpux_bios_def by (intro safe_intros) simp_all

lemma safe_cpux_board [safe_intros]: "struct_ok M lo hi h \<Longrightarrow> safe A M lo hi (cpux_board h d)"
  using struct_okD [of M lo hi h] unfolding cpux_board_def by (intro safe_intros) simp_all

lemma safe_cpux_processor [safe_intros]:
  "struct_ok M lo hi h \<Longrightarrow> safe A M lo hi (cpux_processor h d)"
  using struct_okD [of M lo hi h] unfolding cpux_processor_def by (intro safe_intros) simp_all

lemma safe_stick_place [safe_intros]:
  "struct_ok M lo hi h \<Longrightarrow> 0x15 \<le> hlen h \<Longrightarrow> safe A M lo hi (stick_place h m)"
  using struct_okD [of M lo hi h] unfolding stick_place_def
  by (intro safe_intros) (simp_all add: ok_simps)

lemma safe_stick_tail [safe_intros]:
  "struct_ok M lo hi h \<Longrightarrow> safe A M lo hi (stick_tail gettext h m)"
  using struct_okD [of M lo hi h] unfolding stick_tail_def by (intro safe_intros) simp_all

lemma safe_stick_module [safe_intros]:
  "struct_ok M lo hi h \<Longrightarrow> safe A M lo hi (stick_module gettext h m)"
  using struct_okD [of M lo hi h] unfolding stick_module_def by (intro safe_intros) simp_all

lemma safe_cpux_memory [safe_intros]:
  "struct_ok M lo hi h \<Longrightarrow> safe A M lo hi (cpux_memory gettext alloc h d)"
  using struct_okD [of M lo hi h] dmi_memory_device_form_factor_total unfolding cpux_memory_def
  by (intro safe_intros) (simp_all add: ok_simps)

lemma safe_dmi_decode_cpux [safe_intros]:
  "struct_ok M lo hi h \<Longrightarrow> safe A M lo hi (dmi_decode_cpux gettext alloc h d)"
  unfolding dmi_decode_cpux_def by (intro safe_intros) simp_all

text \<open>The third decoder: it causes no fault at all.\<close>

interpretation cpux: structure_decoder "\<lambda>h. do { d \<leftarrow> get_cpux;
    case d of None \<Rightarrow> ret () | Some d \<Rightarrow> do { d' \<leftarrow> dmi_decode_cpux gettext alloc h d; set_cpux d' } }"
  "\<lambda>M h. {}"
  by unfold_locales (intro safe_intros)

end
