(* ===== verification/Table.thy ===== *)
theory Table
  imports Cpux
begin

section \<open>Walking the structure table\<close>

text \<open>
  \<^verbatim>\<open>dmi_table_decode\<close>: two passes over the table. The first remembers the vendor and the
  product of the system and the kind of CPU, which the vendor-specific decoders need; the second
  decodes. Both find the next structure by searching for two zero bytes behind the current one.

  The table is memory from address 0 on, \<open>len\<close> bytes long. The recursion of the passes ends
  because the search returns an address that is not before the one it starts from
  (\<open>results_find_next\<close>) and a structure is at least four bytes long.

  The theory \<open>Walk\<close> compares the passes with their specification.
\<close>

subsection \<open>Results of an operation\<close>

text \<open>For the termination proofs: the continuation of a bind is only called with results.\<close>

definition results :: "(st, 'a) state \<Rightarrow> 'a set" where
  "results m = {x. \<exists>s. x = fst (run_state m s)}"

lemma bind_cong_results [fundef_cong]:
  assumes "m = m'" "\<And>x. x \<in> results m' \<Longrightarrow> f x = f' x"
  shows "State_Monad.bind m f = State_Monad.bind m' f'"
proof -
  have "f (fst (run_state m' s)) = f' (fst (run_state m' s))" for s
    using assms(2) by (auto simp: results_def)
  then show ?thesis by (simp add: assms(1) State_Monad.bind_def split_beta)
qed

lemma results_ret [simp]: "results (ret x) = {x}"
  by (auto simp: results_def)

lemma results_bind: "x \<in> results (State_Monad.bind m f) \<Longrightarrow> \<exists>y \<in> results m. x \<in> results (f y)"
  by (force simp: results_def split_beta)

subsection \<open>Definitions\<close>

definition FLAG_NO_FILE_OFFSET :: u32 where "FLAG_NO_FILE_OFFSET = 1"
definition FLAG_STOP_AT_EOT :: u32 where "FLAG_STOP_AT_EOT = 2"

definition to_dmi_header :: "nat \<Rightarrow> (st, dmi_header) state" where
  "to_dmi_header data = do {
     t \<leftarrow> rd8 data; l \<leftarrow> rd8 (data + 1); w \<leftarrow> WORD (data + 2);
     ret \<lparr>h_type = t, h_length = l, h_handle = w, h_data = data\<rparr> }"

text \<open>The search for the end of the string area.\<close>

function find_next :: "nat \<Rightarrow> nat \<Rightarrow> (st, nat) state" where
  "find_next len next = (if next + 1 < len then do {
       b0 \<leftarrow> rd8 next;
       b1 \<leftarrow> (if b0 \<noteq> 0 then ret 1 else rd8 (next + 1));
       if b1 \<noteq> 0 then find_next len (next + 1) else ret next }
     else ret next)"
  by pat_completeness auto
termination by (relation "measure (\<lambda>(len, next). len - next)") auto

declare find_next.simps [simp del]

lemma results_find_next: "n \<in> results (find_next len next) \<Longrightarrow> next \<le> n"
proof (induction len "next" rule: find_next.induct)
  case (1 len "next")
  show ?case
  proof (cases "next + 1 < len")
    case True
    from 1(2) obtain b0 b1 where "b0 \<in> results (rd8 next)"
      "b1 \<in> results (if b0 \<noteq> 0 then ret 1 else rd8 (next + 1))"
      "n \<in> results (if b1 \<noteq> 0 then find_next len (next + 1) else ret next)"
      using True by (subst (asm) find_next.simps) (fastforce dest!: results_bind)
    with 1(1) True show ?thesis by (fastforce split: if_splits)
  next
    case False
    with 1(2) show ?thesis by (simp add: find_next.simps [of len "next"])
  qed
qed

definition set_cpuid_type :: "cpuid_type \<Rightarrow> (st, unit) state" where
  "set_cpuid_type ct = State (\<lambda>s. ((), s\<lparr>st_cpuid_type := ct\<rparr>))"

text \<open>The body of the first pass. It tests \<^verbatim>\<open>opt.flags\<close> for a bit that belongs to the argument
  \<^verbatim>\<open>flags\<close>; among the options that bit is \<^verbatim>\<open>FLAG_HELP\<close>.\<close>

definition save_structure :: "dmi_header \<Rightarrow> (st, unit) state" where
  "save_structure h = do {
     if_then (h_type h = 1 \<and> 6 \<le> hlen h) (do {
       b4 \<leftarrow> data8 h 0x04; v \<leftarrow> dmi_string_raw h b4 False;
       b5 \<leftarrow> data8 h 0x05; p \<leftarrow> dmi_string_raw h b5 False;
       dmi_set_vendor v p });
     if_then (h_type h = 4 \<and> 0x1A \<le> hlen h) (do {
       ct \<leftarrow> get_cpuid_type;
       if_then (ct = cpuid_none) (do { sig \<leftarrow> dmi_get_cpuid_type h; set_cpuid_type sig }) }) }"

function save_pass :: "u16 \<Rightarrow> nat \<Rightarrow> nat \<Rightarrow> nat \<Rightarrow> (st, unit) state" where
  "save_pass num len i data = (if (i < unat num \<or> num = 0) \<and> data + 4 \<le> len then do {
     h \<leftarrow> to_dmi_header data;
     if hlen h < 4 then ret ()
     else do {
       stop \<leftarrow> (if h_type h = 127 then opt_flag (FLAG_QUIET OR FLAG_STOP_AT_EOT) else ret False);
       if stop then ret ()
       else do {
         end \<leftarrow> find_next len (data + hlen h);
         if len < end + 2 then ret ()
         else do { save_structure h; save_pass num len (i + 1) (end + 2) } } } }
   else ret ())"
  by pat_completeness auto
termination
  by (relation "measure (\<lambda>(num, len, i, data). len - data)") (auto dest!: results_find_next)

declare save_pass.simps [simp del]

definition get_opt :: "(st, opt) state" where
  "get_opt = State (\<lambda>s. (st_opt s, s))"

definition set_flags :: "u32 \<Rightarrow> (st, unit) state" where
  "set_flags f = State (\<lambda>s. ((), s\<lparr>st_opt := (st_opt s)\<lparr>o_flags := o_flags (st_opt s) OR f\<rparr>\<rparr>))"

text \<open>\<^verbatim>\<open>display\<close>\<close>

definition is_display :: "dmi_header \<Rightarrow> (st, bool) state" where
  "is_display h = do {
     opt \<leftarrow> get_opt;
     ret ((case o_type opt of None \<Rightarrow> True | Some ts \<Rightarrow> ts (h_type h) \<noteq> 0)
       \<and> (o_handle opt = NOT 0 \<or> o_handle opt = ucast (h_handle h))
       \<and> \<not> (o_flags opt AND FLAG_QUIET \<noteq> 0 \<and> (h_type h = 126 \<or> h_type h = 127))
       \<and> o_string opt = None) }"

definition dmi_table_string :: "string_keyword \<Rightarrow> dmi_header \<Rightarrow> u16 \<Rightarrow> (st, unit) state" where
  "dmi_table_string kw h ver = (let offset = unat (kw_offset kw) in
     if kw_type kw = 11 then
       (if hlen h < 5 then eprintf [Lit ''No OEM string number '', U offset, Lit ''\<newline>'']
        else do {
          b4 \<leftarrow> data8 h 4;
          if unat b4 < offset then eprintf [Lit ''No OEM string number '', U offset, Lit ''\<newline>'']
          else if offset \<noteq> 0 then do { t \<leftarrow> dmi_string h (kw_offset kw); printf [S (Some t), Lit ''\<newline>''] }
          else printf [U (unat b4), Lit ''\<newline>''] })
     else if hlen h \<le> offset then ret ()
     else (let key = unat (kw_type kw) * 256 + offset in
       if key = 0x015 \<or> key = 0x017 then do {
         major \<leftarrow> data8 h (offset - 1); minor \<leftarrow> data8 h offset;
         if_then (major \<noteq> 0xFF \<and> minor \<noteq> 0xFF)
           (printf [U (unat major), Lit ''.'', U (unat minor), Lit ''\<newline>'']) }
       else if key = 0x108 then dmi_system_uuid None [] (h_data h + offset) ver
       else if key = 0x305 then do {
         c \<leftarrow> data8 h offset; printf [S (dmi_chassis_type c), Lit ''\<newline>''] }
       else if key = 0x406 then do {
         family \<leftarrow> dmi_processor_family h ver; printf [S (Some family), Lit ''\<newline>''] }
       else if key = 0x416 then dmi_processor_frequency None (h_data h + offset)
       else do { c \<leftarrow> data8 h offset; t \<leftarrow> dmi_string h c; printf [S (Some t), Lit ''\<newline>''] }))"

text \<open>What the second pass does with a structure that lies in the table. \<open>ext\<close> are the functions
  of the environment.\<close>

record externals =
  ntop :: "nat \<Rightarrow> u8 list \<Rightarrow> string"
  gettext :: "string \<Rightarrow> string"
  alloc :: "nat \<Rightarrow> bool"

definition process_structure :: "externals \<Rightarrow> u16 \<Rightarrow> dmi_header \<Rightarrow> bool \<Rightarrow> (st, unit) state" where
  "process_structure ext ver h display =
     (if display then do {
        dump \<leftarrow> opt_flag FLAG_DUMP;
        if dump then do { dmi_dump h; pr_sep }
        else do {
          cpux \<leftarrow> get_cpux;
          case cpux of
            Some d \<Rightarrow> do { d' \<leftarrow> dmi_decode_cpux (gettext ext) (alloc ext) h d; set_cpux d' }
          | None \<Rightarrow> dmi_decode (ntop ext) h ver } }
      else do {
        opt \<leftarrow> get_opt;
        case o_string opt of None \<Rightarrow> ret ()
        | Some kw \<Rightarrow> if_then (kw_type kw = h_type h) (dmi_table_string kw h ver) })"

function decode_pass :: "externals \<Rightarrow> u16 \<Rightarrow> u32 \<Rightarrow> u16 \<Rightarrow> nat \<Rightarrow> nat \<Rightarrow> nat \<Rightarrow> (st, nat \<times> nat) state" where
  "decode_pass ext ver flags num len i data =
     (if (i < unat num \<or> num = 0) \<and> data + 4 \<le> len then do {
        h \<leftarrow> to_dmi_header data;
        display \<leftarrow> is_display h;
        quiet \<leftarrow> opt_flag FLAG_QUIET;
        if hlen h < 4 then do {
          if_then (\<not> quiet) (do {
            eprintf [Lit ''Invalid entry length ('', U (hlen h), Lit ''). DMI table is broken! Stop.\<newline>\<newline>''];
            set_flags FLAG_QUIET });
          ret (i, data) }
        else if quiet \<and> h_type h = 127 then ret (i + 1, data)
        else do {
          dump \<leftarrow> opt_flag FLAG_DUMP;
          if_then (display \<and> (\<not> quiet \<or> dump)) (pr_handle h);
          end \<leftarrow> find_next len (data + hlen h);
          if len < end + 2 then do {
            if_then (display \<and> \<not> quiet) (pr_struct_err [Lit ''<TRUNCATED>'']);
            pr_sep;
            ret (i + 1, end + 2) }
          else do {
            no_quirks \<leftarrow> opt_flag FLAG_NO_QUIRKS;
            h \<leftarrow> (if h_type h = 34 \<and> \<not> no_quirks then dmi_fixup_type_34 h display else ret h);
            process_structure ext ver h display;
            if h_type h = 127 \<and> flags AND FLAG_STOP_AT_EOT \<noteq> 0 then ret (i + 1, end + 2)
            else decode_pass ext ver flags num len (i + 1) (end + 2) } } }
      else ret (i, data))"
  by pat_completeness auto
termination
  by (relation "measure (\<lambda>(ext, ver, flags, num, len, i, data). len - data)")
     (auto dest!: results_find_next)

declare decode_pass.simps [simp del]

definition dmi_table_decode :: "externals \<Rightarrow> u32 \<Rightarrow> u16 \<Rightarrow> u16 \<Rightarrow> u32 \<Rightarrow> (st, unit) state" where
  "dmi_table_decode ext len num ver flags = do {
     save_pass num (unat len) 0 0;
     (i, data) \<leftarrow> decode_pass ext ver flags num (unat len) 0 0;
     quiet \<leftarrow> opt_flag FLAG_QUIET;
     if_then (\<not> quiet) (do {
       if_then (num \<noteq> 0 \<and> i \<noteq> unat num)
         (eprintf [Lit ''Wrong DMI structures count: '', U (unat num), Lit '' announced, only '', U i,
            Lit '' decoded.\<newline>'']);
       if_then (unat len < data \<or> (num \<noteq> 0 \<and> data < unat len))
         (eprintf [Lit ''Wrong DMI structures length: '', U (unat len),
            Lit '' bytes announced, structures occupy '', U data, Lit '' bytes.\<newline>'']) }) }"

text \<open>The state when the table has been read: the globals have their initial values.\<close>

definition start_state :: "u8 list \<Rightarrow> opt \<Rightarrow> DmidecodeData option \<Rightarrow> st" where
  "start_state M opt cpux = \<lparr>st_mem = M, st_out = [], st_err = [], st_faults = [], st_opt = opt,
     st_cpuid_type = cpuid_none, st_vendor = VENDOR_UNKNOWN, st_product = None, st_nic_ctr = 0,
     st_cpux = cpux, st_bufs = \<lparr>b_runtime_size = [], b_rom_size = [], b_size = [],
       b_extended_size = [], b_voltage = [], b_speed = []\<rparr>,
     st_dump = [], st_oem_offset = 0\<rparr>"

end
