(* ===== verification/Options.thy ===== *)
theory Options
  imports Table
begin

section \<open>The command line (dmiopt.c)\<close>

text \<open>
  The arguments of the options: lists of types, keywords of strings, numbers of OEM strings and
  handles, with the parts of the C library they are read by (\<^verbatim>\<open>strtoul\<close>,
  \<^verbatim>\<open>strcasecmp\<close>), and \<^verbatim>\<open>parse_command_line\<close>. What
  \<^verbatim>\<open>getopt_long\<close> returns, one item per call, is an argument of the model.

  The lemmas show that the numbers the decoder prints are read back as the same numbers
  (\<open>strtoul_udec\<close>, \<open>strtoul_hex\<close>), for lists of types too
  (\<open>parse_type_numbers_list\<close>).
\<close>

subsection \<open>The C library\<close>

definition isspace :: "char \<Rightarrow> bool" where
  "isspace c = (c \<in> {CHR '' '', CHR 0x09, CHR 0x0A, CHR 0x0B, CHR 0x0C, CHR 0x0D})"

definition to_lower :: "char \<Rightarrow> char" where
  "to_lower c = (if 65 \<le> (of_char c :: nat) \<and> (of_char c :: nat) \<le> 90 then char_of (of_char c + 32 :: nat) else c)"

text \<open>\<^verbatim>\<open>!strcasecmp(a, b)\<close>\<close>

definition strcasecmp_eq :: "string \<Rightarrow> string \<Rightarrow> bool" where
  "strcasecmp_eq a b = (map to_lower a = map to_lower b)"

definition digit_val :: "char \<Rightarrow> nat option" where
  "digit_val c = (let n = of_char c in
     if 48 \<le> n \<and> n \<le> 57 then Some (n - 48)
     else if 97 \<le> n \<and> n \<le> 122 then Some (n - 87)
     else if 65 \<le> n \<and> n \<le> 90 then Some (n - 55) else None)"

text \<open>The digits at the front of a string, and the rest.\<close>

fun digits :: "nat \<Rightarrow> string \<Rightarrow> nat list \<times> string" where
  "digits b [] = ([], [])"
| "digits b (c # cs) = (case digit_val c of
       None \<Rightarrow> ([], c # cs)
     | Some d \<Rightarrow> if d < b then (case digits b cs of (ds, rest) \<Rightarrow> (d # ds, rest)) else ([], c # cs))"

definition from_base :: "nat \<Rightarrow> nat list \<Rightarrow> nat" where
  "from_base b ds = fold (\<lambda>d acc. acc * b + d) ds 0"

text \<open>The sign, and with base 0 the prefix that selects the base.\<close>

definition sign :: "string \<Rightarrow> bool \<times> string" where
  "sign s = (case s of c # t \<Rightarrow> if c = CHR ''-'' then (True, t) else if c = CHR ''+'' then (False, t)
       else (False, s) | [] \<Rightarrow> (False, s))"

definition is_hex_digit :: "char \<Rightarrow> bool" where
  "is_hex_digit c = (case digit_val c of None \<Rightarrow> False | Some d \<Rightarrow> d < 16)"

definition radix :: "nat \<Rightarrow> string \<Rightarrow> nat \<times> string" where
  "radix b s = (if b \<noteq> 0 then (b, s) else case s of
       z # x # d # t \<Rightarrow> if z \<noteq> CHR ''0'' then (10, s)
         else if x \<in> {CHR ''x'', CHR ''X''} \<and> is_hex_digit d then (16, d # t) else (8, s)
     | z # t \<Rightarrow> (if z = CHR ''0'' then 8 else 10, s)
     | [] \<Rightarrow> (10, s))"

text \<open>\<^verbatim>\<open>strtoul(s, &next, base)\<close> for base 0 or 10: the value, at most \<^verbatim>\<open>ULONG_MAX\<close>,
  and the rest of the string, which is the string itself when it holds no number.\<close>

definition strtoul :: "nat \<Rightarrow> string \<Rightarrow> u64 \<times> string" where
  "strtoul base s = (let (neg, t) = sign (dropWhile isspace s); (b, u) = radix base t;
       (ds, rest) = digits b u in
     if ds = [] then (0, s)
     else if 2 ^ 64 \<le> from_base b ds then (- 1, rest)
     else (if neg then - of_nat (from_base b ds) else of_nat (from_base b ds), rest))"

lemma length_digits: "length (snd (digits b s)) \<le> length s"
  by (induction b s rule: digits.induct) (auto split: option.splits prod.splits)

lemma length_strtoul: "length (snd (strtoul b s)) \<le> length s"
proof -
  define t where "t = snd (sign (dropWhile isspace s))"
  define u where "u = snd (radix b t)"
  have "length t \<le> length s"
    using length_dropWhile_le [of isspace s] by (auto simp: t_def sign_def split: list.split)
  moreover have "length u \<le> length t"
    by (auto simp: u_def radix_def split: list.split)
  ultimately show ?thesis
    using length_digits [of "fst (radix b t)" u]
    by (auto simp: strtoul_def t_def u_def split_beta Let_def)
qed

text \<open>A number was found exactly if something was consumed.\<close>

lemma strtoul_progress: "snd (strtoul b s) \<noteq> s \<Longrightarrow> length (snd (strtoul b s)) < length s"
proof -
  assume *: "snd (strtoul b s) \<noteq> s"
  define t where "t = snd (sign (dropWhile isspace s))"
  define u where "u = snd (radix b t)"
  have t: "length t \<le> length s"
    using length_dropWhile_le [of isspace s] by (auto simp: t_def sign_def split: list.split)
  have u: "length u \<le> length t"
    by (auto simp: u_def radix_def split: list.split)
  let ?d = "digits (fst (radix b t)) u"
  have ne: "fst ?d \<noteq> []" and r: "snd (strtoul b s) = snd ?d"
    using * by (auto simp: strtoul_def t_def u_def split_beta Let_def split: if_splits)
  from ne have "length (snd ?d) < length u"
    using length_digits [of "fst (radix b t)" "tl u"]
    by (cases u) (auto split: option.splits if_splits prod.splits)
  with r t u show ?thesis by simp
qed

definition perror :: "string \<Rightarrow> (st, unit) state" where
  "perror prefix = eprintf [Lit prefix, Lit '': <strerror(errno)>\<newline>'']"

subsection \<open>Option --type\<close>

definition opt_type_keyword :: "(string \<times> u8 list) list" where
  "opt_type_keyword = [
     (''bios'', [0, 13, 255]),
     (''system'', [1, 12, 15, 23, 32, 255]),
     (''baseboard'', [2, 10, 41, 255]),
     (''chassis'', [3, 255]),
     (''processor'', [4, 255]),
     (''memory'', [5, 6, 16, 17, 255]),
     (''cache'', [7, 255]),
     (''connector'', [8, 255]),
     (''slot'', [9, 255])]"

definition print_opt_type_list :: "(st, unit) state" where
  "print_opt_type_list = do {
     eprintf [Lit ''Valid type keywords are:\<newline>''];
     for_each opt_type_keyword (\<lambda>(kw, ts). eprintf [Lit ''  '', S (Some kw), Lit ''\<newline>'']) }"

definition is_separator :: "char \<Rightarrow> bool" where
  "is_separator c = (c = CHR '','' \<or> c = CHR '' '')"

function parse_type_numbers :: "(u8 \<Rightarrow> u8) \<Rightarrow> string \<Rightarrow> (st, (u8 \<Rightarrow> u8) option) state" where
  "parse_type_numbers p arg = (if arg = [] then ret (Some p) else
     let val = fst (strtoul 0 arg); next = snd (strtoul 0 arg) in
     if next = arg \<or> (next \<noteq> [] \<and> \<not> is_separator (hd next)) then do {
       eprintf [Lit ''Invalid type keyword: '', S (Some arg), Lit ''\<newline>''];
       print_opt_type_list;
       ret None }
     else if 0xff < val then do {
       eprintf [Lit ''Invalid type number: '', U (unat val), Lit ''\<newline>''];
       ret None }
     else parse_type_numbers (p(ucast val := 1)) (dropWhile is_separator next))"
  by pat_completeness auto
termination
proof (relation "measure (\<lambda>(p, arg). length arg)", goal_cases)
  case (2 p arg val "next")
  then have "length next < length arg" using strtoul_progress [of 0 arg] by simp
  then show ?case using length_dropWhile_le [of is_separator "next"] by simp
qed simp

declare parse_type_numbers.simps [simp del]

definition mark_types :: "u8 list \<Rightarrow> (u8 \<Rightarrow> u8) \<Rightarrow> (u8 \<Rightarrow> u8)" where
  "mark_types ts p = fold (\<lambda>t p. p(t := 1)) (takeWhile (\<lambda>t. t \<noteq> 255) ts) p"

definition parse_opt_type :: "(nat \<Rightarrow> bool) \<Rightarrow> (u8 \<Rightarrow> u8) option \<Rightarrow> string \<Rightarrow> (st, (u8 \<Rightarrow> u8) option) state" where
  "parse_opt_type room p arg =
     (case (case p of Some p \<Rightarrow> Some p | None \<Rightarrow> if room 256 then Some (\<lambda>_. 0) else None) of
        None \<Rightarrow> do { perror ''calloc''; ret None }
      | Some p \<Rightarrow> (case List.find (\<lambda>(kw, ts). strcasecmp_eq arg kw) opt_type_keyword of
            Some (kw, ts) \<Rightarrow> ret (Some (mark_types ts p))
          | None \<Rightarrow> parse_type_numbers p arg))"

subsection \<open>Options --string and --oem-string\<close>

definition kw :: "string \<Rightarrow> u8 \<Rightarrow> u8 \<Rightarrow> string_keyword" where
  "kw k t off = \<lparr>kw_keyword = Some k, kw_type = t, kw_offset = off\<rparr>"

definition opt_string_keyword :: "string_keyword list" where
  "opt_string_keyword = [
     kw ''bios-vendor'' 0 0x04, kw ''bios-version'' 0 0x05, kw ''bios-release-date'' 0 0x08,
     kw ''bios-revision'' 0 0x15, kw ''firmware-revision'' 0 0x17,
     kw ''system-manufacturer'' 1 0x04, kw ''system-product-name'' 1 0x05,
     kw ''system-version'' 1 0x06, kw ''system-serial-number'' 1 0x07, kw ''system-uuid'' 1 0x08,
     kw ''system-sku-number'' 1 0x19, kw ''system-family'' 1 0x1a,
     kw ''baseboard-manufacturer'' 2 0x04, kw ''baseboard-product-name'' 2 0x05,
     kw ''baseboard-version'' 2 0x06, kw ''baseboard-serial-number'' 2 0x07,
     kw ''baseboard-asset-tag'' 2 0x08,
     kw ''chassis-manufacturer'' 3 0x04, kw ''chassis-type'' 3 0x05, kw ''chassis-version'' 3 0x06,
     kw ''chassis-serial-number'' 3 0x07, kw ''chassis-asset-tag'' 3 0x08,
     kw ''processor-family'' 4 0x06, kw ''processor-manufacturer'' 4 0x07,
     kw ''processor-version'' 4 0x10, kw ''processor-frequency'' 4 0x16]"

definition opt_oem_string_keyword :: "u8 \<Rightarrow> string_keyword" where
  "opt_oem_string_keyword off = \<lparr>kw_keyword = None, kw_type = 11, kw_offset = off\<rparr>"

definition print_opt_string_list :: "(st, unit) state" where
  "print_opt_string_list = do {
     eprintf [Lit ''Valid string keywords are:\<newline>''];
     for_each opt_string_keyword (\<lambda>k. eprintf [Lit ''  '', S (kw_keyword k), Lit ''\<newline>'']) }"

definition upd_opt :: "(opt \<Rightarrow> opt) \<Rightarrow> (st, unit) state" where
  "upd_opt f = State (\<lambda>s. ((), s\<lparr>st_opt := f (st_opt s)\<rparr>))"

text \<open>The functions that return \<^verbatim>\<open>-1\<close> on error and 0 on success return whether they succeed.\<close>

definition parse_opt_string :: "string \<Rightarrow> (st, bool) state" where
  "parse_opt_string arg = do {
     opt \<leftarrow> get_opt;
     if o_string opt \<noteq> None then do {
       eprintf [Lit ''Only one string can be specified\<newline>'']; ret False }
     else case List.find (\<lambda>k. strcasecmp_eq arg (the (kw_keyword k))) opt_string_keyword of
       Some k \<Rightarrow> do { upd_opt (\<lambda>opt. opt\<lparr>o_string := Some k\<rparr>); ret True }
     | None \<Rightarrow> do {
         eprintf [Lit ''Invalid string keyword: '', S (Some arg), Lit ''\<newline>''];
         print_opt_string_list;
         ret False } }"

definition oem_string_offset :: "(st, u8) state" where
  "oem_string_offset = State (\<lambda>s. (st_oem_offset s, s))"

definition set_oem_string_offset :: "u8 \<Rightarrow> (st, unit) state" where
  "set_oem_string_offset off = State (\<lambda>s. ((), s\<lparr>st_oem_offset := off\<rparr>))"

definition use_oem_string :: "(st, bool) state" where
  "use_oem_string = do {
     off \<leftarrow> oem_string_offset;
     upd_opt (\<lambda>opt. opt\<lparr>o_string := Some (opt_oem_string_keyword off)\<rparr>);
     ret True }"

definition parse_opt_oem_string :: "string \<Rightarrow> (st, bool) state" where
  "parse_opt_oem_string arg = do {
     opt \<leftarrow> get_opt;
     if o_string opt \<noteq> None then do {
       eprintf [Lit ''Only one string can be specified\<newline>'']; ret False }
     else if arg = ''count'' then use_oem_string
     else (let (val, next) = strtoul 10 arg in
       if next = arg \<or> next \<noteq> [] \<or> val = 0 \<or> 0xff < val then do {
         eprintf [Lit ''Invalid OEM string number: '', S (Some arg), Lit ''\<newline>'']; ret False }
       else do { set_oem_string_offset (ucast val); use_oem_string }) }"

subsection \<open>Option --handle\<close>

text \<open>\<^verbatim>\<open>u32 val = strtoul(...)\<close>: the value is truncated before it is compared.\<close>

definition parse_opt_handle :: "string \<Rightarrow> (st, u32) state" where
  "parse_opt_handle arg = (let (v, next) = strtoul 0 arg; val = ucast v :: u32 in
     if next = arg \<or> next \<noteq> [] \<or> 0xffff < val then do {
       eprintf [Lit ''Invalid handle number: '', S (Some arg), Lit ''\<newline>'']; ret (NOT 0) }
     else ret val)"

subsection \<open>parse_command_line\<close>

text \<open>One result of \<^verbatim>\<open>getopt_long\<close> before the final \<^verbatim>\<open>-1\<close>: an option character and
  \<^verbatim>\<open>optarg\<close>, or \<^verbatim>\<open>'?'\<close> and \<^verbatim>\<open>optopt\<close>.\<close>

datatype getopt_result = Got char string | Unrecognized char

definition or_flag :: "u32 \<Rightarrow> opt \<Rightarrow> opt" where
  "or_flag f opt = opt\<lparr>o_flags := o_flags opt OR f\<rparr>"

text \<open>The body of the loop: the value it returns, or \<open>None\<close> to go on.\<close>

definition on_option :: "(nat \<Rightarrow> bool) \<Rightarrow> char \<Rightarrow> string \<Rightarrow> (st, bool option) state" where
  "on_option room option optarg = (
     if option = CHR ''B'' then do {
       upd_opt (or_flag FLAG_DUMP_BIN); upd_opt (\<lambda>opt. opt\<lparr>o_dumpfile := optarg\<rparr>); ret None }
     else if option = CHR ''F'' then do {
       upd_opt (or_flag FLAG_FROM_DUMP); upd_opt (\<lambda>opt. opt\<lparr>o_dumpfile := optarg\<rparr>); ret None }
     else if option = CHR ''d'' then do { upd_opt (\<lambda>opt. opt\<lparr>o_devmem := optarg\<rparr>); ret None }
     else if option = CHR ''h'' then do { upd_opt (or_flag FLAG_HELP); ret None }
     else if option = CHR ''q'' then do { upd_opt (or_flag FLAG_QUIET); ret None }
     else if option = CHR ''Q'' then do { upd_opt (or_flag FLAG_NO_QUIRKS); ret None }
     else if option = CHR ''s'' then do {
       ok \<leftarrow> parse_opt_string optarg;
       if \<not> ok then ret (Some False) else do { upd_opt (or_flag FLAG_QUIET); ret None } }
     else if option = CHR ''O'' then do {
       ok \<leftarrow> parse_opt_oem_string optarg;
       if \<not> ok then ret (Some False) else do { upd_opt (or_flag FLAG_QUIET); ret None } }
     else if option = CHR ''t'' then do {
       opt \<leftarrow> get_opt;
       t \<leftarrow> parse_opt_type room (o_type opt) optarg;
       upd_opt (\<lambda>opt. opt\<lparr>o_type := t\<rparr>);
       ret (if t = None then Some False else None) }
     else if option = CHR ''H'' then do {
       v \<leftarrow> parse_opt_handle optarg;
       upd_opt (\<lambda>opt. opt\<lparr>o_handle := v\<rparr>);
       ret (if v = NOT 0 then Some False else None) }
     else if option = CHR ''u'' then do { upd_opt (or_flag FLAG_DUMP); ret None }
     else if option = CHR ''S'' then do { upd_opt (or_flag FLAG_NO_SYSFS); ret None }
     else if option = CHR ''L'' then do {
       for_each opt_string_keyword (\<lambda>k. printf [S (kw_keyword k), Lit ''\<newline>'']);
       upd_opt (or_flag FLAG_LIST);
       ret (Some True) }
     else if option = CHR ''T'' then do {
       for_each opt_type_keyword (\<lambda>(k, ts). printf [S (Some k), Lit ''\<newline>'']);
       upd_opt (or_flag FLAG_LIST);
       ret (Some True) }
     else if option = CHR ''V'' then do { upd_opt (or_flag FLAG_VERSION); ret None }
     else ret None)"

definition on_unrecognized :: "char \<Rightarrow> (st, bool option) state" where
  "on_unrecognized optopt = do {
     if_then (optopt = CHR ''s'') (do {
       eprintf [Lit ''String keyword expected\<newline>'']; print_opt_string_list });
     if_then (optopt = CHR ''t'') (do {
       eprintf [Lit ''Type number or keyword expected\<newline>'']; print_opt_type_list });
     ret (Some False) }"

definition check_exclusive :: "(st, bool) state" where
  "check_exclusive = do {
     opt \<leftarrow> get_opt;
     if 1 < (if o_string opt \<noteq> None then 1 else 0) + (if o_type opt \<noteq> None then 1 else 0)
          + (if o_flags opt AND FLAG_DUMP_BIN \<noteq> 0 then 1 else 0) + (if o_handle opt \<noteq> NOT 0 then 1 else 0 :: nat)
     then do {
       eprintf [Lit ''Options --string, --type, --handle and --dump-bin are mutually exclusive\<newline>''];
       ret False }
     else if o_flags opt AND FLAG_FROM_DUMP \<noteq> 0 \<and> o_flags opt AND FLAG_DUMP_BIN \<noteq> 0 then do {
       eprintf [Lit ''Options --from-dump and --dump-bin are mutually exclusive\<newline>''];
       ret False }
     else ret True }"

fun parse_command_line :: "(nat \<Rightarrow> bool) \<Rightarrow> getopt_result list \<Rightarrow> (st, bool) state" where
  "parse_command_line room [] = check_exclusive"
| "parse_command_line room (g # gs) = do {
     r \<leftarrow> (case g of Got option optarg \<Rightarrow> on_option room option optarg
                   | Unrecognized optopt \<Rightarrow> on_unrecognized optopt);
     case r of Some v \<Rightarrow> ret v | None \<Rightarrow> parse_command_line room gs }"

definition DEFAULT_MEM_DEV :: string where "DEFAULT_MEM_DEV = ''/dev/mem''"

definition help_text :: string where
  "help_text = ''Usage: dmidecode [OPTIONS]\<newline>''
     @ ''Options are:\<newline>''
     @ '' -d, --dev-mem FILE     Read memory from device FILE (default: '' @ DEFAULT_MEM_DEV @ '')\<newline>''
     @ '' -h, --help             Display this help text and exit\<newline>''
     @ '' -q, --quiet            Less verbose output\<newline>''
     @ ''     --no-quirks        Decode everything without quirks\<newline>''
     @ '' -s, --string KEYWORD   Only display the value of the given DMI string\<newline>''
     @ ''     --list-strings     List available string keywords and exit\<newline>''
     @ '' -t, --type TYPE        Only display the entries of given type\<newline>''
     @ ''     --list-types       List available type keywords and exit\<newline>''
     @ '' -H, --handle HANDLE    Only display the entry of given handle\<newline>''
     @ '' -u, --dump             Do not decode the entries\<newline>''
     @ ''     --dump-bin FILE    Dump the DMI data to a binary file\<newline>''
     @ ''     --from-dump FILE   Read the DMI data from a binary file\<newline>''
     @ ''     --no-sysfs         Do not attempt to read DMI data from sysfs files\<newline>''
     @ ''     --oem-string N     Only display the value of the given OEM string\<newline>''
     @ '' -V, --version          Display the version and exit\<newline>''"

definition print_help :: "(st, unit) state" where
  "print_help = printf [S (Some help_text)]"

subsection \<open>Numbers are read back\<close>

lemma digit_val_digit: "d < 16 \<Longrightarrow> digit_val (digit up d) = Some d"
proof -
  assume "d < 16"
  then have "d \<in> set [0..<16]" by simp
  moreover have "\<forall>d \<in> set [0..<16]. \<forall>up. digit_val (digit up d) = Some d" by code_simp
  ultimately show ?thesis by blast
qed

lemma digit_plain: "d < 16 \<Longrightarrow> \<not> isspace (digit up d) \<and> digit up d \<noteq> CHR ''-'' \<and> digit up d \<noteq> CHR ''+''
   \<and> digit up d \<noteq> CHR ''x'' \<and> digit up d \<noteq> CHR ''X'' \<and> (digit up d = CHR ''0'' \<longleftrightarrow> d = 0)"
proof -
  assume "d < 16"
  then have "d \<in> set [0..<16]" by simp
  moreover have "\<forall>d \<in> set [0..<16]. \<forall>up. \<not> isspace (digit up d) \<and> digit up d \<noteq> CHR ''-''
    \<and> digit up d \<noteq> CHR ''+'' \<and> digit up d \<noteq> CHR ''x'' \<and> digit up d \<noteq> CHR ''X''
    \<and> (digit up d = CHR ''0'' \<longleftrightarrow> d = 0)" by code_simp
  ultimately show ?thesis by blast
qed

text \<open>\<open>rest\<close> does not go on with a number.\<close>

definition no_digit :: "string \<Rightarrow> bool" where
  "no_digit rest \<longleftrightarrow> rest = [] \<or> (digit_val (hd rest) = None)"

lemma digits_map:
  "b \<le> 16 \<Longrightarrow> list_all (\<lambda>d. d < b) ds \<Longrightarrow> no_digit rest \<Longrightarrow> digits b (map (digit up) ds @ rest) = (ds, rest)"
proof (induction ds)
  case Nil
  then show ?case by (cases rest) (auto simp: no_digit_def)
qed (auto simp: digit_val_digit)

lemma from_base_append: "from_base b (ds @ [d]) = from_base b ds * b + d"
  by (simp add: from_base_def)

lemma to_base_props:
  assumes "2 \<le> b"
  shows "from_base b (to_base b n) = n \<and> list_all (\<lambda>d. d < b) (to_base b n)
    \<and> to_base b n \<noteq> [] \<and> (hd (to_base b n) = 0 \<longleftrightarrow> n = 0)"
  using assms
proof (induction b n rule: to_base.induct)
  case (1 b n)
  show ?case
  proof (cases "n < b")
    case True
    with 1 show ?thesis by (simp add: to_base.simps [of b n] from_base_def)
  next
    case False
    with 1 have IH: "from_base b (to_base b (n div b)) = n div b" "list_all (\<lambda>d. d < b) (to_base b (n div b))"
      "to_base b (n div b) \<noteq> []" "hd (to_base b (n div b)) = 0 \<longleftrightarrow> n div b = 0" by auto
    have "n div b \<noteq> 0" using False 1(2) by (simp add: div_eq_0_iff)
    with False 1(2) IH show ?thesis
      by (simp add: to_base.simps [of b n] from_base_append hd_append)
  qed
qed

lemma parse_digits_to_base: "2 \<le> b \<Longrightarrow> from_base b (to_base b n) = n"
  using to_base_props by blast

lemma from_base_zeros: "from_base b (replicate k 0 @ ds) = from_base b ds"
proof (induction k)
  case (Suc k)
  then show ?case by (simp add: from_base_def)
qed simp

lemma digits_nonempty: "list_all (\<lambda>d. d < b) ds \<Longrightarrow> b \<le> 16 \<Longrightarrow> ds \<noteq> []
  \<Longrightarrow> \<exists>d t. map (digit up) ds @ rest = digit up d # t \<and> d < 16 \<and> d = hd ds"
  by (cases ds) auto

lemma sign_digit: "d < 16 \<Longrightarrow> sign (dropWhile isspace (digit up d # t)) = (False, digit up d # t)"
  using digit_plain [of d up] by (simp add: sign_def)

lemma strtoul_plain:
  assumes "sign (dropWhile isspace s) = (False, t)" "radix b t = (b', u)" "digits b' u = (ds, rest)"
    "ds \<noteq> []" "from_base b' ds = n" "n < 2 ^ 64"
  shows "strtoul b s = (of_nat n, rest)"
  unfolding strtoul_def assms(1) using assms(4,5,6) by (simp add: assms(2) assms(3))

lemma strtoul_udec:
  assumes "n < 2 ^ 64" "no_digit rest" "b = 0 \<or> b = 10"
  shows "strtoul b (udec n @ rest) = (of_nat n, rest)"
proof -
  let ?ds = "to_base 10 n"
  have p: "from_base 10 ?ds = n" "list_all (\<lambda>d. d < 10) ?ds" "?ds \<noteq> []" "hd ?ds = 0 \<longleftrightarrow> n = 0"
    using to_base_props [of 10 n] by auto
  obtain d t where dt: "map (digit False) ?ds @ rest = digit False d # t" "d < 16" "d = hd ?ds"
    using digits_nonempty [OF p(2) _ p(3)] by fastforce
  have s: "udec n @ rest = digit False d # t" using dt(1) by (simp add: udec_def)
  show ?thesis
  proof (cases "n = 0 \<and> b = 0")
    case True
    then have u: "udec n @ rest = CHR ''0'' # rest" by (simp add: udec_def to_base.simps digit_def)
    have "radix 0 (CHR ''0'' # rest) = (8, CHR ''0'' # rest)"
      using assms(2) by (auto simp: radix_def no_digit_def digit_val_def split: list.split)
    moreover have "digits 8 (CHR ''0'' # rest) = ([0], rest)"
      using digits_map [of 8 "[0]" rest False] assms(2) by (simp add: digit_def)
    moreover have "sign (dropWhile isspace (CHR ''0'' # rest)) = (False, CHR ''0'' # rest)"
      using sign_digit [of 0 False rest] by (simp add: digit_def)
    ultimately have "strtoul 0 (CHR ''0'' # rest) = (of_nat 0, rest)"
      by (intro strtoul_plain) (auto simp: from_base_def)
    with True u show ?thesis by simp
  next
    case False
    with assms(3) have r: "radix b (digit False d # t) = (10, digit False d # t)"
      using dt(2,3) p(4) digit_plain [of d False] by (auto simp: radix_def split: list.split)
    have "digits 10 (udec n @ rest) = (?ds, rest)"
      unfolding udec_def using p(2) assms(2) by (intro digits_map) simp_all
    then show ?thesis
      using strtoul_plain [OF sign_digit [OF dt(2)] r _ p(3) p(1) assms(1)] s by metis
  qed
qed

text \<open>The number behind a \<^verbatim>\<open>0x\<close>, the way handles are printed.\<close>

lemma strtoul_hex:
  assumes "n < 2 ^ 64" "no_digit rest"
  shows "strtoul 0 (''0x'' @ pad0 w (hex up n) @ rest) = (of_nat n, rest)"
proof -
  let ?ds = "replicate (w - length (hex up n)) 0 @ to_base 16 n"
  have zero: "digit up 0 = CHR ''0''" by (simp add: digit_def)
  have s: "pad0 w (hex up n) @ rest = map (digit up) ?ds @ rest"
    by (simp add: pad0_def hex_def map_replicate zero)
  have p: "from_base 16 ?ds = n" "list_all (\<lambda>d. d < 16) ?ds" "?ds \<noteq> []"
    using to_base_props [of 16 n] by (auto simp: from_base_zeros list_all_iff)
  then obtain d t where dt: "map (digit up) ?ds @ rest = digit up d # t" "d < 16"
    using digits_nonempty [OF p(2) _ p(3)] by fastforce
  have "sign (dropWhile isspace (''0x'' @ digit up d # t)) = (False, ''0x'' @ digit up d # t)"
    using sign_digit [of 0 False "CHR ''x'' # digit up d # t"] by (simp add: digit_def)
  moreover have "radix 0 (''0x'' @ digit up d # t) = (16, digit up d # t)"
    using dt(2) by (simp add: radix_def is_hex_digit_def digit_val_digit)
  moreover have "digits 16 (digit up d # t) = (?ds, rest)"
    using digits_map [OF _ p(2) assms(2), of up] dt(1) by simp
  ultimately have "strtoul 0 (''0x'' @ digit up d # t) = (of_nat n, rest)"
    using p(3,1) assms(1) by (rule strtoul_plain)
  with s dt(1) show ?thesis by simp
qed

subsection \<open>A list of types\<close>

fun type_list :: "u8 list \<Rightarrow> string" where
  "type_list [] = []"
| "type_list [t] = udec (unat t)"
| "type_list (t # ts) = udec (unat t) @ '','' @ type_list ts"

lemma udec_hd: "udec n \<noteq> [] \<and> \<not> is_separator (hd (udec n))"
proof -
  have "udec n = map (digit False) (to_base 10 n)" by (simp add: udec_def)
  moreover obtain d t where "map (digit False) (to_base 10 n) @ [] = digit False d # t" "d < 16"
    using digits_nonempty [of 10 "to_base 10 n" False "[]"] to_base_props [of 10 n] by fastforce
  moreover from \<open>d < 16\<close> have "\<not> is_separator (digit False d)"
    using digit_val_digit [of d False] by (auto simp: is_separator_def digit_val_def)
  ultimately show ?thesis by simp
qed

lemma type_list_hd: "ts \<noteq> [] \<Longrightarrow> type_list ts \<noteq> [] \<and> \<not> is_separator (hd (type_list ts))"
  by (cases ts rule: type_list.cases) (simp_all add: udec_hd hd_append)

lemma parse_type_numbers_step:
  assumes "rest = [] \<or> (\<exists>u. rest = CHR '','' # u \<and> u \<noteq> [] \<and> \<not> is_separator (hd u))"
  shows "parse_type_numbers p (udec (unat t) @ rest)
    = parse_type_numbers (p(t := 1)) (case rest of [] \<Rightarrow> [] | c # u \<Rightarrow> u)"
proof -
  have r: "no_digit rest" using assms by (auto simp: no_digit_def digit_val_def)
  have "strtoul 0 (udec (unat t) @ rest) = (ucast t, rest)"
    using strtoul_udec [of "unat t" rest 0] r unat_u8_less [of t] by simp
  moreover have "udec (unat t) @ rest \<noteq> rest \<and> udec (unat t) @ rest \<noteq> []"
    using udec_hd by simp
  moreover have "\<not> 0xff < (ucast t :: u64)"
    by (simp add: word_less_nat_alt unat_ucast_mod not_less order.trans [OF mod_less_eq_dividend])
  moreover have "ucast (ucast t :: u64) = t" by (rule bit_word_eqI) (auto simp: bit_simps)
  moreover have "rest = [] \<or> is_separator (hd rest)" using assms by (auto simp: is_separator_def)
  moreover have "dropWhile is_separator rest = (case rest of [] \<Rightarrow> [] | c # u \<Rightarrow> u)"
    using assms by (auto simp: is_separator_def neq_Nil_conv)
  ultimately show ?thesis by (subst parse_type_numbers.simps) (auto simp: Let_def)
qed

lemma parse_type_numbers_list:
  "parse_type_numbers p (type_list ts) = ret (Some (\<lambda>t. if t \<in> set ts then 1 else p t))"
proof (induction ts arbitrary: p rule: type_list.induct)
  case 1
  show ?case by (simp add: parse_type_numbers.simps)
next
  case (2 t)
  show ?case
    using parse_type_numbers_step [of "[]" p t]
    by (simp add: parse_type_numbers.simps [of _ "[]"] fun_upd_def)
next
  case (3 t u ts)
  have "parse_type_numbers p (type_list (t # u # ts)) = parse_type_numbers (p(t := 1)) (type_list (u # ts))"
    using parse_type_numbers_step [of "'','' @ type_list (u # ts)" p t] type_list_hd [of "u # ts"] by simp
  also have "\<dots> = ret (Some (\<lambda>x. if x \<in> set (t # u # ts) then 1 else p x))"
    unfolding "3.IH" by (rule arg_cong [where f = "\<lambda>q. ret (Some q)"]) auto
  finally show ?case .
qed

end
