(* ===== verification/Files.thy ===== *)
theory Files
  imports Options
begin

section \<open>Files and physical memory (util.c)\<close>

text \<open>
  \<^verbatim>\<open>read_file\<close>, \<^verbatim>\<open>mem_chunk\<close> and \<^verbatim>\<open>myread\<close>. The operating system is the
  record \<open>os\<close>: what opening a name gives, and for an open file the answers to the calls
  the program makes on it. \<^verbatim>\<open>read\<close> may return fewer bytes than asked for, fail, or be
  interrupted: \<open>f_reads\<close> lists the results of the successive calls, and after the last of
  them the file is at its end.

  \<open>myread_spec\<close> says which bytes \<^verbatim>\<open>myread\<close> delivers from such a list, and when it fails;
  \<open>read_plain_file\<close> that a regular file is read from the offset on, and the length trimmed to
  what the file holds.
\<close>

datatype read_result = Interrupted | ReadError | Bytes "u8 list"

datatype file_kind = Regular | CharDevice | OtherKind

text \<open>\<open>f_size\<close> is \<open>None\<close> when \<^verbatim>\<open>fstat\<close> fails. \<open>f_mmap off n\<close> are the \<open>n\<close> bytes
  mapped from \<open>off\<close> on, or \<open>None\<close> for \<^verbatim>\<open>MAP_FAILED\<close>. \<open>f_munmap\<close>, \<open>f_close\<close> and
  \<open>f_seek\<close> say whether the call succeeds.\<close>

record os_file =
  f_size :: "nat option"
  f_kind :: file_kind
  f_seek :: "int \<Rightarrow> bool"
  f_reads :: "int \<Rightarrow> read_result list"
  f_mmap :: "int \<Rightarrow> nat \<Rightarrow> u8 list option"
  f_munmap :: bool
  f_close :: bool

text \<open>\<open>Missing\<close> is the error \<^verbatim>\<open>ENOENT\<close>.\<close>

datatype open_result = Missing | OpenError | Opened os_file

text \<open>Which call of \<^verbatim>\<open>dmi_table_dump\<close> fails.\<close>

datatype dump_step = OpenDump | FdopenDump | WriteEntry | SeekDump | WriteTable | CloseDump

text \<open>\<open>os_systab\<close> is the first of the two EFI system tables that can be opened: its name, the
  lines \<^verbatim>\<open>fgets\<close> returns and whether \<^verbatim>\<open>fclose\<close> succeeds.\<close>

record os =
  os_open :: "string \<Rightarrow> open_result"
  os_root :: bool
  os_pagesize :: nat
  os_env :: externals
  os_dump :: "string \<Rightarrow> dump_step option"
  os_systab :: "(string \<times> string list \<times> bool) option"

fun myread :: "read_result list \<Rightarrow> nat \<Rightarrow> string \<Rightarrow> u8 list \<Rightarrow> (st, u8 list option) state" where
  "myread rs count prefix buf = (if length buf = count then ret (Some buf) else case rs of
       Interrupted # rs \<Rightarrow> myread rs count prefix buf
     | ReadError # rs \<Rightarrow> do { perror prefix; ret None }
     | Bytes (b # bs) # rs \<Rightarrow> myread rs count prefix (buf @ take (count - length buf) (b # bs))
     | _ \<Rightarrow> do { eprintf [S (Some prefix), Lit '': Unexpected end of file\<newline>'']; ret None })"

declare myread.simps [simp del]

definition close_file :: "os_file \<Rightarrow> string \<Rightarrow> (st, unit) state" where
  "close_file f filename = if_then (\<not> f_close f) (perror filename)"

text \<open>\<^verbatim>\<open>lseek\<close> and \<^verbatim>\<open>myread\<close> into a fresh buffer.\<close>

definition seek_and_read :: "os_file \<Rightarrow> int \<Rightarrow> nat \<Rightarrow> string \<Rightarrow> (st, u8 list option) state" where
  "seek_and_read f base len filename =
     (if \<not> f_seek f base then do {
        eprintf [S (Some filename), Lit '': '']; perror ''lseek''; ret None }
      else myread (f_reads f base) len filename [])"

text \<open>\<^verbatim>\<open>*max_len\<close> is the second component of the result. The subtraction
  \<^verbatim>\<open>(size_t)statbuf.st_size - base\<close> wraps at 64 bits.\<close>

definition available :: "nat \<Rightarrow> int \<Rightarrow> nat" where
  "available n base = nat ((int n - base) mod 2 ^ 64)"

definition read_file :: "os \<Rightarrow> int \<Rightarrow> nat \<Rightarrow> string \<Rightarrow> (st, u8 list option \<times> nat) state" where
  "read_file os base max_len filename = (case os_open os filename of
       Missing \<Rightarrow> ret (None, max_len)
     | OpenError \<Rightarrow> do { perror filename; ret (None, max_len) }
     | Opened f \<Rightarrow> do {
         r \<leftarrow> (if case f_size f of Some n \<Rightarrow> int n \<le> base | None \<Rightarrow> False then do {
             eprintf [S (Some filename), Lit '': Can't read data beyond EOF\<newline>''];
             ret (None, max_len) }
           else do {
             len \<leftarrow> ret (case f_size f of Some n \<Rightarrow> min max_len (available n base) | None \<Rightarrow> max_len);
             p \<leftarrow> (if \<not> alloc (os_env os) len then do { perror ''malloc''; ret None }
                   else seek_and_read f base len filename);
             ret (p, len) });
         close_file f filename;
         ret r })"

text \<open>The remainder of C, with the sign of the dividend.\<close>

definition c_mod :: "int \<Rightarrow> int \<Rightarrow> int" where
  "c_mod a b = (if a < 0 then - ((- a) mod b) else a mod b)"

text \<open>\<open>None\<close> of the mapping is \<^verbatim>\<open>goto try_read\<close>.\<close>

definition map_chunk :: "os \<Rightarrow> os_file \<Rightarrow> int \<Rightarrow> nat \<Rightarrow> string \<Rightarrow> (st, u8 list option) state" where
  "map_chunk os f base len devmem = (let mmoffset = c_mod base (int (os_pagesize os)) in
     case f_mmap f (base - mmoffset) (nat (mmoffset + int len)) of
       None \<Rightarrow> seek_and_read f base len devmem
     | Some mmp \<Rightarrow> do {
         if_then (\<not> f_munmap f) (do { eprintf [S (Some devmem), Lit '': '']; perror ''munmap'' });
         ret (Some (take len (drop (nat mmoffset) mmp))) })"

definition mem_chunk :: "os \<Rightarrow> int \<Rightarrow> nat \<Rightarrow> string \<Rightarrow> (st, u8 list option) state" where
  "mem_chunk os base len devmem = (let refuse = eprintf [Lit ''Can't read memory from '',
       S (Some devmem), Lit ''\<newline>''] in
     case os_open os devmem of
       Opened f \<Rightarrow> do {
         p \<leftarrow> (if f_size f = None \<or> (os_root os \<and> f_kind f \<noteq> CharDevice) then do { refuse; ret None }
           else if \<not> alloc (os_env os) len then do { perror ''malloc''; ret None }
           else if f_kind f = Regular \<and> int (the (f_size f)) < base + int len then do {
             eprintf [Lit ''mmap: Can't map beyond end of file '', S (Some devmem), Lit ''\<newline>''];
             ret None }
           else map_chunk os f base len devmem);
         close_file f devmem;
         ret p }
     | _ \<Rightarrow> do { refuse; ret None })"

subsection \<open>What is read\<close>

text \<open>The bytes the calls return before the first failure or the end of the file.\<close>

fun delivered :: "read_result list \<Rightarrow> u8 list" where
  "delivered (Interrupted # rs) = delivered rs"
| "delivered (Bytes (b # bs) # rs) = b # bs @ delivered rs"
| "delivered _ = []"

lemma myread_done: "length buf = count \<Longrightarrow> myread rs count prefix buf = ret (Some buf)"
  by (simp add: myread.simps [of rs count prefix buf])

lemma myread_steps:
  assumes "length buf \<noteq> count"
  shows "myread (Interrupted # rs) count prefix buf = myread rs count prefix buf"
    "myread (Bytes (b # bs) # rs) count prefix buf
       = myread rs count prefix (buf @ take (count - length buf) (b # bs))"
    "myread (ReadError # rs) count prefix buf = do { perror prefix; ret None }"
    "myread [] count prefix buf
       = do { eprintf [S (Some prefix), Lit '': Unexpected end of file\<newline>'']; ret None }"
    "myread (Bytes [] # rs) count prefix buf
       = do { eprintf [S (Some prefix), Lit '': Unexpected end of file\<newline>'']; ret None }"
  using assms by (subst myread.simps, simp)+

lemma myread_spec:
  "length buf \<le> count \<Longrightarrow> fst (run_state (myread rs count prefix buf) s) =
     (if count \<le> length (buf @ delivered rs) then Some (take count (buf @ delivered rs)) else None)"
proof (induction rs count prefix buf rule: myread.induct)
  case (1 rs count prefix buf)
  show ?case
  proof (cases "length buf = count")
    case True
    then show ?thesis by (simp add: myread_done)
  next
    case False
    with "1.prems" have l: "length buf < count" by simp
    show ?thesis
    proof (cases rs rule: delivered.cases)
      case (1 rs')
      with False "1.IH"(1) "1.prems" show ?thesis by (simp add: myread_steps)
    next
      case (2 b bs rs')
      let ?buf = "buf @ take (count - length buf) (b # bs)"
      have "length ?buf \<le> count" using l by simp
      with 2 False "1.IH"(2) have "fst (run_state (myread rs count prefix buf) s) =
         (if count \<le> length (?buf @ delivered rs') then Some (take count (?buf @ delivered rs')) else None)"
        by (simp add: myread_steps)
      with 2 l show ?thesis
        using take_append [of "count - length buf" "b # bs" "delivered rs'"]
        by (cases "count - length buf \<le> Suc (length bs)") auto
    qed (use l in \<open>simp_all add: myread_steps split_beta\<close>)
  qed
qed

text \<open>Operations that only print.\<close>

definition prints :: "(st, 'a) state \<Rightarrow> bool" where
  "prints m \<longleftrightarrow> (\<forall>s. \<exists>out err. snd (run_state m s) = s\<lparr>st_out := out, st_err := err\<rparr>)"

named_theorems prints_intros \<open>operations that only print\<close>

lemma printsD: "prints m \<Longrightarrow> \<exists>out err. snd (run_state m s) = s\<lparr>st_out := out, st_err := err\<rparr>"
  by (simp add: prints_def)

lemma printsI: "(\<And>s. snd (run_state m s) = s\<lparr>st_out := out s, st_err := err s\<rparr>) \<Longrightarrow> prints m"
  unfolding prints_def by blast

lemma prints_pure: "(\<And>s. snd (run_state m s) = s) \<Longrightarrow> prints m"
  by (rule printsI [where out = st_out and err = st_err]) simp

lemma prints_ret [prints_intros]: "prints (ret x)"
  by (rule prints_pure) simp

lemma prints_opt_flag [prints_intros]: "prints (opt_flag f)"
  by (rule prints_pure) (simp add: opt_flag_def)

lemma prints_get_opt [prints_intros]: "prints get_opt"
  by (rule prints_pure) (simp add: get_opt_def)

lemma prints_bind [prints_intros]:
  assumes m: "prints m" and f: "\<And>x. prints (f x)"
  shows "prints (State_Monad.bind m f)"
  unfolding prints_def
proof
  fix s
  obtain o' e where s': "snd (run_state m s) = s\<lparr>st_out := o', st_err := e\<rparr>" using printsD [OF m] by blast
  obtain o2 e2 where "snd (run_state (f (fst (run_state m s))) (s\<lparr>st_out := o', st_err := e\<rparr>))
      = s\<lparr>st_out := o', st_err := e\<rparr>\<lparr>st_out := o2, st_err := e2\<rparr>" using printsD [OF f] by blast
  then have "snd (run_state (State_Monad.bind m f) s) = s\<lparr>st_out := o2, st_err := e2\<rparr>"
    using s' by (simp add: split_beta)
  then show "\<exists>out err. snd (run_state (State_Monad.bind m f) s) = s\<lparr>st_out := out, st_err := err\<rparr>"
    by blast
qed

lemma prints_emit [prints_intros]: "prints (emit l)"
  by (rule printsI [where out = "\<lambda>s. st_out s @ [l]" and err = st_err]) (simp add: emit_def)

lemma prints_print: "args_ok as \<Longrightarrow> prints (print mk as)"
  using fmt_ok [of as] by (auto simp: print_def intro: prints_emit)

lemma prints_outputs [prints_intros]:
  "args_ok as \<Longrightarrow> prints (pr_comment as)" "args_ok as \<Longrightarrow> prints (pr_info as)"
  "args_ok as \<Longrightarrow> prints (printf as)" "prints pr_sep"
  by (simp_all add: pr_comment_def pr_info_def printf_def pr_sep_def prints_print prints_emit)

lemma prints_eprintf [prints_intros]: "args_ok as \<Longrightarrow> prints (eprintf as)"
  using fmt_ok [of as]
  by (auto intro: printsI [where out = st_out and err = "\<lambda>s. st_err s @ [projr (fmt as)]"]
      simp: eprintf_def)

lemma prints_if [prints_intros]:
  "(b \<Longrightarrow> prints m) \<Longrightarrow> (\<not> b \<Longrightarrow> prints n) \<Longrightarrow> prints (if b then m else n)"
  by simp

lemma prints_if_then [prints_intros]: "(b \<Longrightarrow> prints m) \<Longrightarrow> prints (if_then b m)"
  by (simp add: if_then_def prints_ret)

lemma prints_perror [prints_intros]: "prints (perror p)"
  unfolding perror_def by (intro prints_intros) simp

lemma prints_for_each [prints_intros]: "(\<And>x. prints (f x)) \<Longrightarrow> prints (for_each xs f)"
  by (induction xs) (auto intro!: prints_intros)

lemma prints_myread [prints_intros]: "prints (myread rs count prefix buf)"
proof (induction rs count prefix buf rule: myread.induct)
  case (1 rs count prefix buf)
  have e: "prints (do { perror prefix; ret None :: (st, u8 list option) state })"
    "prints (do { eprintf [S (Some prefix), Lit '': Unexpected end of file\<newline>''];
       ret None :: (st, u8 list option) state })"
    by (intro prints_intros, simp?)+
  show ?case
  proof (cases "length buf = count")
    case True
    then show ?thesis by (simp add: myread_done prints_ret)
  next
    case False
    show ?thesis
      by (cases rs rule: delivered.cases)
         (use False "1.IH" e in \<open>simp_all add: myread_steps\<close>)
  qed
qed

lemma prints_close_file [prints_intros]: "prints (close_file f filename)"
  unfolding close_file_def by (intro prints_intros)

lemma prints_seek_and_read [prints_intros]: "prints (seek_and_read f base len filename)"
  unfolding seek_and_read_def by (intro prints_intros) simp

lemma prints_read_file [prints_intros]: "prints (read_file os base max_len filename)"
  unfolding read_file_def by (cases "os_open os filename") (auto intro!: prints_intros)

lemma prints_map_chunk [prints_intros]: "prints (map_chunk os f base len devmem)"
  unfolding map_chunk_def Let_def
  by (cases "f_mmap f (base - c_mod base (int (os_pagesize os)))
       (nat (c_mod base (int (os_pagesize os)) + int len))") (auto intro!: prints_intros)

lemma prints_mem_chunk [prints_intros]: "prints (mem_chunk os base len devmem)"
  unfolding mem_chunk_def Let_def by (cases "os_open os devmem") (auto intro!: prints_intros)

subsection \<open>A plain file\<close>

text \<open>A regular file with the given bytes, none of whose calls fails; it may be read in any
  number of parts, interrupted or not.\<close>

definition plain_file :: "os \<Rightarrow> string \<Rightarrow> u8 list \<Rightarrow> bool" where
  "plain_file os name bytes \<longleftrightarrow> (\<exists>f. os_open os name = Opened f \<and> f_size f = Some (length bytes)
     \<and> length bytes < 2 ^ 63 \<and> f_close f
     \<and> (\<forall>base. 0 \<le> base \<and> base < int (length bytes) \<longrightarrow>
          f_seek f base \<and> delivered (f_reads f base) = drop (nat base) bytes)
     \<and> (\<forall>base < 0. \<not> f_seek f base)
     \<and> (\<forall>n. alloc (os_env os) n))"

lemma run_myread_success:
  assumes "length buf \<le> count" "count \<le> length (buf @ delivered rs)"
  shows "run_state (myread rs count prefix buf) s = (Some (take count (buf @ delivered rs)), s)"
  using assms
proof (induction rs count prefix buf rule: myread.induct)
  case (1 rs count prefix buf)
  show ?case
  proof (cases "length buf = count")
    case True
    then show ?thesis by (simp add: myread_done)
  next
    case False
    with "1.prems" have l: "length buf < count" by simp
    show ?thesis
    proof (cases rs rule: delivered.cases)
      case (1 rs')
      with False "1.IH"(1) "1.prems" show ?thesis by (simp add: myread_steps)
    next
      case (2 b bs rs')
      let ?buf = "buf @ take (count - length buf) (b # bs)"
      have "length ?buf \<le> count" "count \<le> length (?buf @ delivered rs')"
        using l 2 "1.prems" by auto
      with 2 False "1.IH"(2) have "run_state (myread rs count prefix buf) s =
         (Some (take count (?buf @ delivered rs')), s)"
        by (simp add: myread_steps)
      with 2 l show ?thesis
        using take_append [of "count - length buf" "b # bs" "delivered rs'"]
        by (cases "count - length buf \<le> Suc (length bs)") auto
    qed (use "1.prems" l in auto)
  qed
qed

lemma available_plain:
  assumes "b \<le> n" "n < 2 ^ 63"
  shows "available n (int b) = n - b"
proof -
  have "int n - int b = int (n - b)" using assms(1) by (simp only: of_nat_diff)
  moreover have "int k mod 2 ^ 64 = int (k mod 2 ^ 64)" for k
    by (simp only: of_nat_mod of_nat_power of_nat_numeral)
  moreover have "n - b < 2 ^ 64" using assms(2) by simp
  ultimately show ?thesis by (simp only: available_def nat_int mod_less)
qed

text \<open>At an offset outside of the file nothing is read.\<close>

lemma read_plain_file_outside:
  assumes f: "plain_file os name bytes" and base: "base < 0 \<or> int (length bytes) \<le> base"
  shows "fst (fst (run_state (read_file os base len name) s)) = None"
proof -
  obtain f where "os_open os name = Opened f" "f_size f = Some (length bytes)" "base < 0 \<longrightarrow> \<not> f_seek f base"
    "\<And>n. alloc (os_env os) n"
    using f by (auto simp: plain_file_def)
  with base show ?thesis
    by (cases "int (length bytes) \<le> base") (auto simp: read_file_def seek_and_read_def split_beta)
qed

lemma read_plain_file:
  assumes f: "plain_file os name bytes" and base: "base < length bytes"
  shows "run_state (read_file os (int base) len name) s =
    ((Some (take len (drop base bytes)), min len (length bytes - base)), s)"
proof -
  obtain f where f': "os_open os name = Opened f" "f_size f = Some (length bytes)" "f_close f"
    "length bytes < 2 ^ 63" "f_seek f (int base)" "delivered (f_reads f (int base)) = drop base bytes"
    "\<And>n. alloc (os_env os) n"
    using f base by (force simp: plain_file_def)
  have av: "available (length bytes) (int base) = length bytes - base"
    using base f'(4) by (intro available_plain) simp_all
  have "run_state (myread (f_reads f (int base)) (min len (length bytes - base)) name []) s
      = (Some (take len (drop base bytes)), s)"
    using f'(6) by (subst run_myread_success) (auto simp: min_def)
  then have r: "run_state (seek_and_read f (int base) (min len (length bytes - base)) name) s
      = (Some (take len (drop base bytes)), s)"
    by (simp add: seek_and_read_def f'(5))
  have "\<not> int (length bytes) \<le> int base" using base by simp
  then show ?thesis
    unfolding read_file_def f'(1,2) open_result.case option.case av
    by (simp add: f'(3,7) r close_file_def if_then_def)
qed

end
