(* ===== verification/Walk.thy ===== *)
theory Walk
  imports Table
begin

section \<open>The walk against its specification\<close>

text \<open>
  \<open>parse_table M\<close> reads the list of structures off the bytes \<open>M\<close> of a table, and says
  where and why the list ends. It is a function of the table as it was read; the program walks a
  table it changes on the way, since printing a string replaces its unprintable characters.

  \<open>decode_pass_parse\<close>: the second pass visits exactly the structures of \<open>parse_table\<close>, in
  order, each once, and ends the same way. \<open>dmi_table_decode_ok\<close>: both passes together
  cause no faults but those of the structures in the list, and change nothing in the table but
  characters of strings, to dots.
\<close>

subsection \<open>The specification\<close>

function find_end :: "u8 list \<Rightarrow> nat \<Rightarrow> nat \<Rightarrow> nat" where
  "find_end M len n = (if n + 1 < len \<and> \<not> (M ! n = 0 \<and> M ! (n + 1) = 0)
     then find_end M len (n + 1) else n)"
  by pat_completeness auto
termination by (relation "measure (\<lambda>(M, len, n). len - n)") auto

declare find_end.simps [simp del]

definition header_at :: "u8 list \<Rightarrow> nat \<Rightarrow> dmi_header" where
  "header_at M data = \<lparr>h_type = M ! data, h_length = M ! (data + 1),
     h_handle = ucast (M ! (data + 2)) + push_bit 8 (ucast (M ! (data + 3))), h_data = data\<rparr>"

datatype walk_end = Exhausted | ShortEntry dmi_header | QuietEnd | Truncated dmi_header | EndMarker

lemma find_end_step:
  "n + 1 < len \<Longrightarrow> \<not> (M ! n = 0 \<and> M ! (n + 1) = 0) \<Longrightarrow> find_end M len n = find_end M len (n + 1)"
  "\<not> (n + 1 < len \<and> \<not> (M ! n = 0 \<and> M ! (n + 1) = 0)) \<Longrightarrow> find_end M len n = n"
  using find_end.simps [of M len n] by (simp_all only: if_P if_not_P simp_thms)

lemma find_end_le: "n \<le> find_end M len n"
proof (induction M len n rule: find_end.induct)
  case (1 M len n)
  then show ?case
    by (cases "n + 1 < len \<and> \<not> (M ! n = 0 \<and> M ! (n + 1) = 0)") (simp_all add: find_end_step)
qed

lemma find_end_progress:
  "data + 4 \<le> len \<Longrightarrow> len - Suc (Suc (find_end M len (data + k))) < len - data"
  using find_end_le [of "data + k" M len] by linarith

function parse_table :: "u8 list \<Rightarrow> nat \<Rightarrow> u16 \<Rightarrow> bool \<Rightarrow> bool \<Rightarrow> nat \<Rightarrow> nat
    \<Rightarrow> dmi_header list \<times> walk_end \<times> nat \<times> nat" where
  "parse_table M len num quiet eot i data =
     (if (i < unat num \<or> num = 0) \<and> data + 4 \<le> len then
        let h = header_at M data; next = find_end M len (data + hlen h) + 2 in
        if hlen h < 4 then ([], ShortEntry h, i, data)
        else if quiet \<and> h_type h = 127 then ([], QuietEnd, i + 1, data)
        else if len < next then ([], Truncated h, i + 1, next)
        else if h_type h = 127 \<and> eot then ([h], EndMarker, i + 1, next)
        else case parse_table M len num quiet eot (i + 1) next of (hs, r) \<Rightarrow> (h # hs, r)
      else ([], Exhausted, i, data))"
  by pat_completeness auto
termination
  by (relation "measure (\<lambda>(M, len, num, quiet, eot, i, data). len - data)")
     (auto intro!: find_end_progress)

declare parse_table.simps [simp del]

text \<open>The same as a relation: one rule per way the loop of the program goes on or ends.\<close>

definition goes_on :: "nat \<Rightarrow> u16 \<Rightarrow> nat \<Rightarrow> nat \<Rightarrow> bool" where
  "goes_on len num i data \<longleftrightarrow> (i < unat num \<or> num = 0) \<and> data + 4 \<le> len"

definition next_at :: "u8 list \<Rightarrow> nat \<Rightarrow> nat \<Rightarrow> nat" where
  "next_at M len data = find_end M len (data + hlen (header_at M data)) + 2"

inductive walks :: "u8 list \<Rightarrow> nat \<Rightarrow> u16 \<Rightarrow> bool \<Rightarrow> bool
    \<Rightarrow> nat \<Rightarrow> nat \<Rightarrow> dmi_header list \<Rightarrow> walk_end \<Rightarrow> nat \<Rightarrow> nat \<Rightarrow> bool"
  for M len num quiet eot where
  exhausted: "\<not> goes_on len num i data \<Longrightarrow> walks M len num quiet eot i data [] Exhausted i data"
| short: "goes_on len num i data \<Longrightarrow> h = header_at M data \<Longrightarrow> hlen h < 4
    \<Longrightarrow> walks M len num quiet eot i data [] (ShortEntry h) i data"
| quiet_end: "goes_on len num i data \<Longrightarrow> h = header_at M data \<Longrightarrow> 4 \<le> hlen h \<Longrightarrow> quiet \<Longrightarrow> h_type h = 127
    \<Longrightarrow> walks M len num quiet eot i data [] QuietEnd (i + 1) data"
| truncated: "goes_on len num i data \<Longrightarrow> h = header_at M data \<Longrightarrow> 4 \<le> hlen h
    \<Longrightarrow> \<not> (quiet \<and> h_type h = 127) \<Longrightarrow> len < next_at M len data
    \<Longrightarrow> walks M len num quiet eot i data [] (Truncated h) (i + 1) (next_at M len data)"
| end_marker: "goes_on len num i data \<Longrightarrow> h = header_at M data \<Longrightarrow> 4 \<le> hlen h
    \<Longrightarrow> \<not> (quiet \<and> h_type h = 127) \<Longrightarrow> next_at M len data \<le> len \<Longrightarrow> h_type h = 127 \<and> eot
    \<Longrightarrow> walks M len num quiet eot i data [h] EndMarker (i + 1) (next_at M len data)"
| step: "goes_on len num i data \<Longrightarrow> h = header_at M data \<Longrightarrow> 4 \<le> hlen h
    \<Longrightarrow> \<not> (quiet \<and> h_type h = 127) \<Longrightarrow> next_at M len data \<le> len \<Longrightarrow> \<not> (h_type h = 127 \<and> eot)
    \<Longrightarrow> walks M len num quiet eot (i + 1) (next_at M len data) hs w i' data'
    \<Longrightarrow> walks M len num quiet eot i data (h # hs) w i' data'"

lemma next_at_le: "data + hlen (header_at M data) + 2 \<le> next_at M len data"
  by (simp add: next_at_def find_end_le)

lemma parse_table_step:
  "parse_table M len num quiet eot i data =
     (if goes_on len num i data then
        (if hlen (header_at M data) < 4 then ([], ShortEntry (header_at M data), i, data)
         else if quiet \<and> h_type (header_at M data) = 127 then ([], QuietEnd, i + 1, data)
         else if len < next_at M len data
         then ([], Truncated (header_at M data), i + 1, next_at M len data)
         else if h_type (header_at M data) = 127 \<and> eot
         then ([header_at M data], EndMarker, i + 1, next_at M len data)
         else case parse_table M len num quiet eot (i + 1) (next_at M len data) of
                (hs, r) \<Rightarrow> (header_at M data # hs, r))
      else ([], Exhausted, i, data))"
  unfolding goes_on_def next_at_def
  by (subst parse_table.simps) (simp only: Let_def)

lemma walks_parse_table:
  "walks M len num quiet eot i data hs w i' data'
     \<longleftrightarrow> parse_table M len num quiet eot i data = (hs, w, i', data')" (is "?W i data hs w i' data' \<longleftrightarrow> _")
proof
  show "?W i data hs w i' data' \<Longrightarrow> parse_table M len num quiet eot i data = (hs, w, i', data')"
    by (induction rule: walks.induct) (subst parse_table_step, auto)+
next
  show "parse_table M len num quiet eot i data = (hs, w, i', data') \<Longrightarrow> ?W i data hs w i' data'"
  proof (induction "len - data" arbitrary: i data hs w i' data' rule: less_induct)
    case less
    show ?case
    proof (cases "goes_on len num i data \<and> 4 \<le> hlen (header_at M data)
        \<and> \<not> (quiet \<and> h_type (header_at M data) = 127) \<and> next_at M len data \<le> len
        \<and> \<not> (h_type (header_at M data) = 127 \<and> eot)")
      case True
      then obtain hs' where rec: "hs = header_at M data # hs'"
        "parse_table M len num quiet eot (i + 1) (next_at M len data) = (hs', w, i', data')"
        using less.prems
        by (subst (asm) parse_table_step)
           (cases "parse_table M len num quiet eot (i + 1) (next_at M len data)", auto)
      have "len - next_at M len data < len - data"
        using True next_at_le [of data M len] by (auto simp: goes_on_def)
      then have "?W (i + 1) (next_at M len data) hs' w i' data'" using rec(2) by (rule less.hyps)
      then show ?thesis unfolding rec(1) using True by (intro walks.step) auto
    next
      case False
      then show ?thesis
        using less.prems
        by (subst (asm) parse_table_step)
             (auto simp: not_less split: if_split_asm intro!: walks.intros [unfolded Suc_eq_plus1 [symmetric]])
    qed
  qed
qed

subsection \<open>The search\<close>

lemma find_end_zeros:
  "find_end M len n + 2 \<le> len \<Longrightarrow> M ! find_end M len n = 0 \<and> M ! (find_end M len n + 1) = 0"
proof (induction M len n rule: find_end.induct)
  case (1 M len n)
  then show ?case
    by (cases "n + 1 < len \<and> \<not> (M ! n = 0 \<and> M ! (n + 1) = 0)") (auto simp: find_end_step)
qed

text \<open>It is the first such place.\<close>

lemma find_end_first:
  "n \<le> k \<Longrightarrow> k < find_end M len n \<Longrightarrow> k + 1 < len \<and> \<not> (M ! k = 0 \<and> M ! (k + 1) = 0)"
proof (induction M len n rule: find_end.induct)
  case (1 M len n)
  show ?case
  proof (cases "n + 1 < len \<and> \<not> (M ! n = 0 \<and> M ! (n + 1) = 0)")
    case True
    then have "find_end M len n = find_end M len (n + 1)" by (intro find_end_step) simp_all
    with 1 True show ?thesis by (cases "k = n") auto
  next
    case False
    with 1(2,3) show ?thesis by (simp only: find_end_step(2) [OF False])
  qed
qed

lemma find_end_cong:
  "(\<And>k. n \<le> k \<Longrightarrow> k < len \<Longrightarrow> M ! k = N ! k) \<Longrightarrow> find_end M len n = find_end N len n"
proof (induction M len n rule: find_end.induct)
  case (1 M len n)
  have same: "n + 1 < len \<Longrightarrow> M ! n = N ! n \<and> M ! (n + 1) = N ! (n + 1)" using 1(2) by simp
  show ?case
  proof (cases "n + 1 < len \<and> \<not> (M ! n = 0 \<and> M ! (n + 1) = 0)")
    case True
    with same have "find_end N len n = find_end N len (n + 1)" by (intro find_end_step(1)) auto
    moreover from True have "find_end M len n = find_end M len (n + 1)" by (intro find_end_step(1)) auto
    moreover have "find_end M len (n + 1) = find_end N len (n + 1)" using 1(1) [OF True] 1(2) by simp
    ultimately show ?thesis by simp
  next
    case False
    with same have "find_end N len n = n" by (intro find_end_step(2)) auto
    with find_end_step(2) [OF False] show ?thesis by simp
  qed
qed

lemma run_find_next:
  "len \<le> length (st_mem s) \<Longrightarrow> run_state (find_next len n) s = (find_end (st_mem s) len n, s)"
proof (induction "st_mem s" len n rule: find_end.induct)
  case (1 len n)
  then show ?case
    by (cases "n + 1 < len")
       (simp_all add: find_end.simps [of "st_mem s" len n] find_next.simps [of len n] run_rd8)
qed

lemma run_to_dmi_header:
  "data + 3 < length (st_mem s) \<Longrightarrow> run_state (to_dmi_header data) s = (header_at (st_mem s) data, s)"
  by (simp add: to_dmi_header_def header_at_def WORD_def run_rd8 numeral_3_eq_3)

subsection \<open>Visiting one structure\<close>

text \<open>What the second pass does with a structure of the list, and where the list ends.\<close>

definition visit :: "externals \<Rightarrow> u16 \<Rightarrow> dmi_header \<Rightarrow> (st, unit) state" where
  "visit ext ver h = do {
     display \<leftarrow> is_display h;
     quiet \<leftarrow> opt_flag FLAG_QUIET;
     dump \<leftarrow> opt_flag FLAG_DUMP;
     if_then (display \<and> (\<not> quiet \<or> dump)) (pr_handle h);
     no_quirks \<leftarrow> opt_flag FLAG_NO_QUIRKS;
     h \<leftarrow> (if h_type h = 34 \<and> \<not> no_quirks then dmi_fixup_type_34 h display else ret h);
     process_structure ext ver h display }"

definition finish :: "walk_end \<Rightarrow> (st, unit) state" where
  "finish w = (case w of
       ShortEntry h \<Rightarrow> do {
         quiet \<leftarrow> opt_flag FLAG_QUIET;
         if_then (\<not> quiet) (do {
           eprintf [Lit ''Invalid entry length ('', U (hlen h), Lit ''). DMI table is broken! Stop.\<newline>\<newline>''];
           set_flags FLAG_QUIET }) }
     | Truncated h \<Rightarrow> do {
         display \<leftarrow> is_display h;
         quiet \<leftarrow> opt_flag FLAG_QUIET;
         dump \<leftarrow> opt_flag FLAG_DUMP;
         if_then (display \<and> (\<not> quiet \<or> dump)) (pr_handle h);
         if_then (display \<and> \<not> quiet) (pr_struct_err [Lit ''<TRUNCATED>'']);
         pr_sep }
     | _ \<Rightarrow> ret ())"

text \<open>The faults of one structure. Printing the UUID of a short structure (\<^verbatim>\<open>-s system-uuid\<close>) may
  read behind the table.\<close>

definition string_faults :: "u8 list \<Rightarrow> dmi_header \<Rightarrow> fault set" where
  "string_faults M h = (if h_type h = 1 \<and> length M < h_data h + 24
     then OutOfBounds ` {length M ..< h_data h + 24} else {})"

definition process_faults :: "u8 list \<Rightarrow> dmi_header \<Rightarrow> fault set" where
  "process_faults M h = decode_faults M h \<union> string_faults M h"

definition visit_faults :: "u8 list \<Rightarrow> dmi_header \<Rightarrow> fault set" where
  "visit_faults M h = process_faults M h
     \<union> (if h_type h = 34 \<and> h_length h = 16 then process_faults M (h\<lparr>h_length := 11\<rparr>) else {})"

lemma safe_rd_bytes_faults:
  "(\<And>i. a \<le> i \<Longrightarrow> i < a + n \<Longrightarrow> length M \<le> i \<Longrightarrow> OutOfBounds i \<in> A) \<Longrightarrow> safe A M lo hi (rd_bytes a n)"
proof (induction n arbitrary: a)
  case (Suc n)
  have "safe A M lo hi (rd8 a)"
    using Suc.prems [of a] by (auto simp: safe_def kept_def mem_ok_def rd8_def)
  then show ?case using Suc by (auto intro!: safe_bind safe_ret)
qed (simp add: safe_ret)

lemma safe_uuid_faults:
  "(\<And>i. p \<le> i \<Longrightarrow> i < p + 16 \<Longrightarrow> length M \<le> i \<Longrightarrow> OutOfBounds i \<in> A)
   \<Longrightarrow> safe A M lo hi (dmi_system_uuid None name p ver)"
  unfolding dmi_system_uuid_def
  by (intro safe_bind safe_rd_bytes_faults) (auto split: prod.split intro!: safe_printf)

lemma safe_get_opt [safe_intros]: "safe A M lo hi get_opt"
  by (rule safe_frame) (simp_all add: get_opt_def)

lemma safe_is_display [safe_intros]: "safe A M lo hi (is_display h)"
  unfolding is_display_def by (intro safe_intros)

lemma safe_dmi_table_string:
  assumes "struct_ok M lo hi h" "kw_type kw = h_type h" "string_faults M h \<subseteq> A"
  shows "safe A M lo hi (dmi_table_string kw h ver)"
proof -
  define offset where "offset = unat (kw_offset kw)"
  have small: "offset < 256" by (simp add: offset_def)
  have type1: "h_type h = 1" "offset = 8" if "unat (kw_type kw) * 256 + offset = 0x108"
  proof -
    have "unat (kw_type kw) = 1" "offset = 8" using that small by presburger+
    then show "h_type h = 1" "offset = 8" using assms(2) by (simp_all add: unat_type)
  qed
  have uuid: "safe A M lo hi (dmi_system_uuid None [] (h_data h + offset) ver)"
    if "unat (kw_type kw) * 256 + offset = 0x108"
    using type1 [OF that] assms(3)
    by (intro safe_uuid_faults) (auto simp: string_faults_def split: if_splits)
  show ?thesis
    using assms(1) struct_okD [OF assms(1)] small
    unfolding dmi_table_string_def Let_def offset_def [symmetric]
    by (intro safe_if uuid safe_bind safe_eprintf safe_printf safe_rd8 safe_dmi_string safe_ret
        safe_if_then safe_dmi_processor_family safe_dmi_processor_frequency)
       (simp_all add: ok_simps, presburger)
qed

lemma safe_process_structure [safe_intros]:
  assumes h: "struct_ok M lo hi h" "4 \<le> hlen h" and faults: "process_faults M h \<subseteq> A"
  shows "safe A M lo hi (process_structure ext ver h display)"
proof -
  have f: "decode_faults M h \<subseteq> A" "string_faults M h \<subseteq> A"
    using faults by (simp_all add: process_faults_def)
  then have dump: "Diverges \<in> A \<or> string_count M h < 255"
    by (auto simp: decode_faults_def split: if_split_asm)
  show ?thesis
    unfolding process_structure_def
    by (intro safe_if safe_bind safe_opt_flag safe_dmi_dump safe_pr_sep safe_get_cpux safe_case_option
        safe_dmi_decode_cpux safe_set_cpux safe_dmi_decode safe_get_opt safe_ret safe_if_then
        safe_dmi_table_string h f dump)
qed

lemma run_fixup:
  "fst (run_state (dmi_fixup_type_34 h display) s) = h
    \<or> h_length h = 16 \<and> fst (run_state (dmi_fixup_type_34 h display) s) = h\<lparr>h_length := 11\<rparr>"
proof (cases "run_state (is_printable (h_data h + 0x0B) (0x10 - 0x0B)) s")
  case (Pair ok t)
  then show ?thesis by (cases ok) (simp_all add: dmi_fixup_type_34_def split_beta)
qed

lemma fixup_type [simp]: "h_type (fst (run_state (dmi_fixup_type_34 h display) s)) = h_type h"
  using run_fixup [of h display s] by auto

lemma safe_fixup_bind:
  assumes "h_data h + hlen h < length M" "safe A M lo hi (f h)"
    and "h_length h = 16 \<Longrightarrow> safe A M lo hi (f (h\<lparr>h_length := 11\<rparr>))"
  shows "safe A M lo hi (State_Monad.bind (dmi_fixup_type_34 h display) f)"
proof (rule safeI)
  fix s assume ok: "mem_ok A M lo hi s"
  let ?m = "dmi_fixup_type_34 h display"
  have "safe A M lo hi ?m" using assms(1) by (intro safe_dmi_fixup_type_34) auto
  then have k: "kept A M lo hi s (snd (run_state ?m s))" using ok by (rule safeD)
  have "safe A M lo hi (f (fst (run_state ?m s)))"
    using run_fixup [of h display s] assms by auto
  then have "kept A M lo hi (snd (run_state ?m s))
      (snd (run_state (f (fst (run_state ?m s))) (snd (run_state ?m s))))"
    using k by (intro safeD) (simp_all add: kept_def)
  with k show "kept A M lo hi s (snd (run_state (State_Monad.bind ?m f) s))"
    by (simp add: split_beta kept_trans)
qed

lemma safe_visit:
  assumes h: "struct_ok M 0 hi h" "4 \<le> hlen h" and faults: "visit_faults M h \<subseteq> A"
  shows "safe A M 0 hi (visit ext ver h)"
proof -
  have f: "process_faults M h \<subseteq> A" using faults by (simp add: visit_faults_def)
  have h': "struct_ok M 0 hi (h\<lparr>h_length := 11\<rparr>)" if "h_length h = 16"
    using h(1) that by (simp add: struct_ok_def)
  have f': "process_faults M (h\<lparr>h_length := 11\<rparr>) \<subseteq> A" if "h_type h = 34" "h_length h = 16"
    using faults that by (simp add: visit_faults_def)
  have len: "h_data h + hlen h < length M" using struct_okD [OF h(1)] by simp
  have p: "safe A M 0 hi (process_structure ext ver h display)" for display
    using h f by (rule safe_process_structure)
  have p': "safe A M 0 hi (process_structure ext ver (h\<lparr>h_length := 11\<rparr>) display)"
    if "h_type h = 34" "h_length h = 16" for display
    using h' f' that by (intro safe_process_structure) simp_all
  have body: "safe A M 0 hi (do { h \<leftarrow> (if h_type h = 34 \<and> b then dmi_fixup_type_34 h display else ret h);
      process_structure ext ver h display })" for b display
    using len p p' by (auto intro!: safe_fixup_bind)
  show ?thesis
    unfolding visit_def
    by (intro safe_bind [OF safe_is_display] safe_bind [OF safe_opt_flag]
        safe_bind [OF safe_if_then [OF safe_pr_handle]] body)
qed

interpretation visit: structure_decoder "visit ext ver" visit_faults
  by unfold_locales (rule safe_visit)

subsection \<open>Decoding all structures\<close>

lemma mem_ok_mono: "mem_ok A M lo hi s \<Longrightarrow> hi \<le> hi' \<Longrightarrow> mem_ok A M lo hi' s"
  by (fastforce simp: mem_ok_def)

lemma kept_mono: "kept A M lo hi s t \<Longrightarrow> hi \<le> hi' \<Longrightarrow> kept A M lo hi' s t"
  by (auto simp: kept_def intro: mem_ok_mono)

text \<open>The bytes from the current structure on are still those of the table.\<close>

lemma mem_ok_header:
  "mem_ok A M 0 data s \<Longrightarrow> data + 4 \<le> length M \<Longrightarrow> header_at (st_mem s) data = header_at M data"
  by (simp add: header_at_def mem_ok_outside)

lemma mem_ok_find_end:
  "mem_ok A M 0 data s \<Longrightarrow> data \<le> n \<Longrightarrow> len \<le> length M \<Longrightarrow> find_end (st_mem s) len n = find_end M len n"
  by (intro find_end_cong) (simp add: mem_ok_outside)

context structure_decoder begin

lemma decode_one:
  assumes ok: "mem_ok A M 0 data s" and len: "len \<le> length M"
    and h: "h = header_at M data" "4 \<le> hlen h" and e: "next_at M len data \<le> len"
    and f: "faults M h \<subseteq> A"
  shows "kept A M 0 (next_at M len data) s (snd (run_state (decode h) s))"
proof -
  define e where "e = find_end M len (data + hlen h)"
  have d: "h_data h = data" and n: "next_at M len data = e + 2"
    using h(1) by (simp_all add: header_at_def next_at_def e_def)
  have le: "data + hlen h \<le> e" unfolding e_def by (rule find_end_le)
  have "struct_ok M 0 e h"
    using le e len find_end_zeros [of M len "data + hlen h", folded e_def] n
    by (simp add: struct_ok_def terminated_def d)
  then have "safe A M 0 e (decode h)" using h(2) f by (rule safe_decode)
  moreover have "mem_ok A M 0 e s" using mem_ok_mono [OF ok, of e] le by simp
  ultimately have "kept A M 0 e s (snd (run_state (decode h) s))" by (rule safeD)
  then show ?thesis unfolding n by (rule kept_mono) simp
qed

lemma decode_all:
  "walks M len num quiet eot i data hs w i' data' \<Longrightarrow> mem_ok A M 0 data s \<Longrightarrow> data \<le> len
   \<Longrightarrow> len \<le> length M \<Longrightarrow> (\<Union>h \<in> set hs. faults M h) \<subseteq> A
   \<Longrightarrow> kept A M 0 len s (snd (run_state (for_each hs decode) s))"
proof (induction arbitrary: s rule: walks.induct)
  case (end_marker i data h)
  then have "kept A M 0 (next_at M len data) s (snd (run_state (decode h) s))"
    by (intro decode_one) auto
  then have "kept A M 0 len s (snd (run_state (decode h) s))" using end_marker by (elim kept_mono)
  then show ?case by (simp add: split_beta)
next
  case (step i data h hs w i' data')
  let ?s = "snd (run_state (decode h) s)"
  have one: "kept A M 0 (next_at M len data) s ?s" using step by (intro decode_one) auto
  then have "kept A M 0 len ?s (snd (run_state (for_each hs decode) ?s))"
    using step by (intro step.IH) (auto simp: kept_def)
  moreover have "kept A M 0 len s ?s" using one step by (elim kept_mono)
  ultimately show ?case by (simp add: split_beta kept_trans)
qed (simp_all add: kept_refl mem_ok_mono)

end

subsection \<open>The second pass visits the structures of the list\<close>

definition display_of :: "opt \<Rightarrow> dmi_header \<Rightarrow> bool" where
  "display_of opt h \<longleftrightarrow> (case o_type opt of None \<Rightarrow> True | Some ts \<Rightarrow> ts (h_type h) \<noteq> 0)
     \<and> (o_handle opt = NOT 0 \<or> o_handle opt = ucast (h_handle h))
     \<and> \<not> (o_flags opt AND FLAG_QUIET \<noteq> 0 \<and> (h_type h = 126 \<or> h_type h = 127))
     \<and> o_string opt = None"

lemma run_is_display [simp]: "run_state (is_display h) s = (display_of (st_opt s) h, s)"
  by (simp add: is_display_def get_opt_def display_of_def)

lemma run_opt_flag [simp]: "run_state (opt_flag f) s = (o_flags (st_opt s) AND f \<noteq> 0, s)"
  by (simp add: opt_flag_def)

definition quiet_in :: "st \<Rightarrow> bool" where
  "quiet_in s \<longleftrightarrow> o_flags (st_opt s) AND FLAG_QUIET \<noteq> 0"

definition eot_of :: "u32 \<Rightarrow> bool" where
  "eot_of flags \<longleftrightarrow> flags AND FLAG_STOP_AT_EOT \<noteq> 0"

text \<open>One round of the loop, on the bytes of the table as it was read.\<close>

definition with_handle :: "bool \<Rightarrow> dmi_header \<Rightarrow> st \<Rightarrow> st" where
  "with_handle b h s = snd (run_state (if_then b (pr_handle h)) s)"

lemma run_pr_handle_if:
  "run_state (if_then b (pr_handle h)) s = ((), with_handle b h s)"
  "st_mem (with_handle b h s) = st_mem s" "st_opt (with_handle b h s) = st_opt s"
  by (simp_all add: with_handle_def if_then_def pr_handle_def emit_def)

lemma decode_pass_round:
  assumes ok: "mem_ok A M 0 data s" and len: "len \<le> length M" and goes_on: "goes_on len num i data"
  defines "h \<equiv> header_at M data" and "n \<equiv> next_at M len data"
  shows "run_state (decode_pass ext ver flags num len i data) s = run_state
    (if hlen h < 4 then do { finish (ShortEntry h); ret (i, data) }
     else if quiet_in s \<and> h_type h = 127 then ret (i + 1, data)
     else if len < n then do { finish (Truncated h); ret (i + 1, n) }
     else do { visit ext ver h;
       if h_type h = 127 \<and> eot_of flags then ret (i + 1, n)
       else decode_pass ext ver flags num len (i + 1) n }) s"
proof -
  have mem: "length (st_mem s) = length M" "data + 4 \<le> len"
    using mem_ok_length [OF ok] goes_on by (simp_all add: goes_on_def)
  have hdr: "run_state (to_dmi_header data) s = (h, s)"
    using mem len mem_ok_header [OF ok] run_to_dmi_header [of data s] by (simp add: h_def)
  have search: "run_state (find_next len (data + hlen h)) t = (n - 2, t)" if "st_mem t = st_mem s" for t
    using that mem len mem_ok_find_end [OF ok, of "data + hlen h" len] run_find_next [of len t]
    by (simp add: n_def next_at_def h_def)
  have n2: "n - 2 + 2 = n" by (simp add: n_def next_at_def)
  show ?thesis
  proof (cases "hlen h < 4 \<or> quiet_in s \<and> h_type h = 127")
    case True
    then show ?thesis
      using goes_on hdr unfolding goes_on_def decode_pass.simps [of ext ver flags num len i data]
      by (auto simp: finish_def quiet_in_def split_beta)
  next
    case False
    then show ?thesis
      using goes_on hdr search n2
      unfolding goes_on_def decode_pass.simps [of ext ver flags num len i data] visit_def eot_of_def finish_def
      by (cases "h_type h = 127"; cases "o_flags (st_opt s) AND FLAG_QUIET = 0")
         (simp_all add: quiet_in_def run_pr_handle_if split_beta)
  qed
qed

lemma decode_pass_parse:
  "walks M len num quiet eot i data hs w i' data' \<Longrightarrow> mem_ok UNIV M 0 data s \<Longrightarrow> len \<le> length M
   \<Longrightarrow> quiet = quiet_in s \<Longrightarrow> eot = eot_of flags
   \<Longrightarrow> run_state (decode_pass ext ver flags num len i data) s
     = run_state (do { for_each hs (visit ext ver); finish w; ret (i', data') }) s"
proof (induction arbitrary: s rule: walks.induct)
  case (exhausted i data)
  then have "decode_pass ext ver flags num len i data = ret (i, data)"
    unfolding goes_on_def by (subst decode_pass.simps) (simp only: if_False)
  then show ?case by (simp add: finish_def)
next
  case (step i data h hs w i' data')
  let ?s = "snd (run_state (visit ext ver h) s)"
  have k: "kept UNIV M 0 (next_at M len data) s ?s"
    using step by (intro visit.decode_one) auto
  then have "quiet_in ?s = quiet" using step.prems by (simp add: kept_def env_def quiet_in_def)
  then have "run_state (decode_pass ext ver flags num len (i + 1) (next_at M len data)) ?s
      = run_state (do { for_each hs (visit ext ver); finish w; ret (i', data') }) ?s"
    using step k by (intro step.IH) (auto simp: kept_def)
  then show ?case
    using step by (cases "h_type h = 127") (simp_all add: decode_pass_round split_beta)
qed (auto simp: decode_pass_round split_beta finish_def)

subsection \<open>The first pass changes no memory\<close>

text \<open>A product name that is not there is the one fault it prepares.\<close>

definition save_faults :: "u8 list \<Rightarrow> dmi_header \<Rightarrow> fault set" where
  "save_faults M h = (if h_type h = 1 \<and> 6 \<le> hlen h
     \<and> string_count M h \<le> unat (M ! (h_data h + 5)) - 1 then {BadString} else {})"

lemma run_dmi_string_unfiltered:
  assumes t: "terminated (st_mem s) e" and le: "h_data h + hlen h \<le> e"
  shows "\<exists>r. run_state (dmi_string_raw h n False) s = (r, s)
    \<and> (case r of None \<Rightarrow> string_count (st_mem s) h \<le> unat n - 1 | Some p \<Rightarrow> p \<le> e)"
  using run_dmi_string_raw [OF t le, of n False] unfolding string_count_def [symmetric]
  by (cases "unat n - 1 < string_count (st_mem s) h") fastforce+

lemma run_dmi_set_vendor:
  assumes t: "terminated (st_mem s) e" and v: "\<And>a. v = Some a \<Longrightarrow> a \<le> e"
  shows "\<exists>x. run_state (dmi_set_vendor v p) s = ((), s\<lparr>st_product := p, st_vendor := x\<rparr>)"
proof -
  have "\<exists>name. run_state (case v of None \<Rightarrow> ret [] | Some a \<Rightarrow> cstring_at a) s = (name, s)"
    using t v run_cstring_at [of _ e s] by (cases v) (auto simp: terminated_def)
  then show ?thesis by (auto simp: dmi_set_vendor_def set_vendor_product_def)
qed

lemma save_structure_ok:
  assumes ok: "mem_ok A M 0 0 s" and t: "terminated M e" and le: "h_data h + hlen h \<le> e"
    and f: "save_faults M h \<subseteq> A"
  shows "mem_ok A M 0 0 (snd (run_state (save_structure h) s))"
    and "st_opt (snd (run_state (save_structure h) s)) = st_opt s"
proof -
  define sys where "sys = (do {
     b4 \<leftarrow> data8 h 0x04; v \<leftarrow> dmi_string_raw h b4 False;
     b5 \<leftarrow> data8 h 0x05; p \<leftarrow> dmi_string_raw h b5 False;
     dmi_set_vendor v p })"
  define proc where "proc = if_then (h_type h = 4 \<and> 0x1A \<le> hlen h) (do {
       ct \<leftarrow> get_cpuid_type;
       if_then (ct = cpuid_none) (do { sig \<leftarrow> dmi_get_cpuid_type h; set_cpuid_type sig }) })"
  have len: "e + 1 < length M" "M ! e = 0" using t by (simp_all add: terminated_def)
  have sys: "mem_ok A M 0 0 (snd (run_state sys s)) \<and> st_opt (snd (run_state sys s)) = st_opt s"
    if "h_type h = 1" "6 \<le> hlen h"
  proof -
    have t': "terminated (st_mem s) e" using mem_ok_terminated [OF ok t] .
    have rd: "run_state (data8 h k) s = (M ! (h_data h + k), s)" if "k < 6" for k
      using that \<open>6 \<le> hlen h\<close> le len mem_ok_length [OF ok] mem_ok_outside [OF ok]
      by (simp add: run_rd8)
    obtain v where v: "run_state (dmi_string_raw h (M ! (h_data h + 4)) False) s = (v, s)"
      "\<And>a. v = Some a \<Longrightarrow> a \<le> e"
      using run_dmi_string_unfiltered [OF t' le, of "M ! (h_data h + 4)"] by fastforce
    obtain p where p: "run_state (dmi_string_raw h (M ! (h_data h + 5)) False) s = (p, s)"
      "case p of None \<Rightarrow> string_count (st_mem s) h \<le> unat (M ! (h_data h + 5)) - 1 | Some p \<Rightarrow> p \<le> e"
      using run_dmi_string_unfiltered [OF t' le, of "M ! (h_data h + 5)"] by fastforce
    obtain x where x: "run_state (dmi_set_vendor v p) s = ((), s\<lparr>st_product := p, st_vendor := x\<rparr>)"
      using run_dmi_set_vendor [OF t' v(2)] by blast
    have "prod_ok A M x p"
      using p(2) f that len
      by (auto simp: prod_ok_def save_faults_def mem_ok_string_count [OF ok] intro!: exI [of _ e]
          split: option.splits)
    then show ?thesis
      using ok rd [of 4] rd [of 5] v(1) p(1) x by (simp add: sys_def mem_ok_def)
  qed
  have proc: "mem_ok A M 0 0 (snd (run_state proc t)) \<and> st_opt (snd (run_state proc t)) = st_opt t"
    if "mem_ok A M 0 0 t" for t
  proof (cases "h_type h = 4 \<and> 0x1A \<le> hlen h \<and> st_cpuid_type t = cpuid_none")
    case True
    then have "safe A M 0 0 (dmi_get_cpuid_type h)" using le len by (intro safe_dmi_get_cpuid_type) auto
    then have "kept A M 0 0 t (snd (run_state (dmi_get_cpuid_type h) t))" using that by (rule safeD)
    with True show ?thesis
      by (auto simp: proc_def if_then_def get_cpuid_type_def set_cpuid_type_def split_beta kept_def
          mem_ok_def env_def)
  next
    case False
    with that show ?thesis by (auto simp: proc_def if_then_def get_cpuid_type_def)
  qed
  have "run_state (save_structure h) s
      = run_state proc (snd (run_state (if_then (h_type h = 1 \<and> 6 \<le> hlen h) sys) s))"
    unfolding save_structure_def sys_def [symmetric] proc_def [symmetric] by (simp add: split_beta)
  with sys proc ok show "mem_ok A M 0 0 (snd (run_state (save_structure h) s))"
    and "st_opt (snd (run_state (save_structure h) s)) = st_opt s"
    by (auto simp: if_then_def)
qed

lemma save_pass_round:
  assumes ok: "mem_ok A M 0 0 s" and len: "len \<le> length M" and goes_on: "goes_on len num i data"
  defines "h \<equiv> header_at M data" and "n \<equiv> next_at M len data"
  shows "run_state (save_pass num len i data) s = run_state
    (if hlen h < 4 then ret ()
     else if h_type h = 127 \<and> o_flags (st_opt s) AND (FLAG_QUIET OR FLAG_STOP_AT_EOT) \<noteq> 0 then ret ()
     else if len < n then ret ()
     else do { save_structure h; save_pass num len (i + 1) n }) s"
proof -
  have ok': "mem_ok A M 0 data s" by (rule mem_ok_mono [OF ok]) simp
  have mem: "length (st_mem s) = length M" "data + 4 \<le> len"
    using mem_ok_length [OF ok] goes_on by (simp_all add: goes_on_def)
  have hdr: "run_state (to_dmi_header data) s = (h, s)"
    using mem len mem_ok_header [OF ok'] run_to_dmi_header [of data s] by (simp add: h_def)
  have search: "run_state (find_next len (data + hlen h)) s = (n - 2, s)"
    using mem len mem_ok_find_end [OF ok', of "data + hlen h" len] run_find_next [of len s]
    by (simp add: n_def next_at_def h_def)
  have n2: "n - 2 + 2 = n" by (simp add: n_def next_at_def)
  show ?thesis
    using goes_on hdr search n2 unfolding goes_on_def save_pass.simps [of num len i data]
    by (cases "h_type h = 127") (simp_all add: split_beta)
qed

lemma save_pass_ok:
  "walks M len num quiet eot i data hs w i' data' \<Longrightarrow> \<not> quiet \<Longrightarrow> \<not> eot \<Longrightarrow> mem_ok A M 0 0 s
   \<Longrightarrow> len \<le> length M \<Longrightarrow> (\<Union>h \<in> set hs. save_faults M h) \<subseteq> A
   \<Longrightarrow> mem_ok A M 0 0 (snd (run_state (save_pass num len i data) s))
     \<and> st_opt (snd (run_state (save_pass num len i data) s)) = st_opt s"
proof (induction arbitrary: s rule: walks.induct)
  case (exhausted i data)
  then have "save_pass num len i data = ret ()"
    unfolding goes_on_def by (subst save_pass.simps) (simp only: if_False)
  with exhausted show ?case by simp
next
  case (step i data h hs w i' data')
  let ?e = "find_end M len (data + hlen h)" and ?s = "snd (run_state (save_structure h) s)"
  have n: "?e + 2 \<le> len" using step by (simp add: next_at_def)
  then have "terminated M ?e" using find_end_zeros [OF n] step.prems by (simp add: terminated_def)
  moreover have "h_data h + hlen h \<le> ?e" using step by (simp add: header_at_def find_end_le)
  ultimately have s: "mem_ok A M 0 0 ?s" "st_opt ?s = st_opt s"
    using step.prems by (auto intro!: save_structure_ok)
  then have "mem_ok A M 0 0 (snd (run_state (save_pass num len (i + 1) (next_at M len data)) ?s))
    \<and> st_opt (snd (run_state (save_pass num len (i + 1) (next_at M len data)) ?s)) = st_opt ?s"
    using step.prems by (intro step.IH) auto
  then show ?case using step.prems step.hyps s by (simp add: save_pass_round split_beta)
qed (simp_all add: save_pass_round)

subsection \<open>Both passes\<close>

definition table_structs :: "u8 list \<Rightarrow> nat \<Rightarrow> u16 \<Rightarrow> dmi_header list" where
  "table_structs M len num = fst (parse_table M len num False False 0 0)"

definition table_faults :: "u8 list \<Rightarrow> nat \<Rightarrow> u16 \<Rightarrow> fault set" where
  "table_faults M len num = (\<Union>h \<in> set (table_structs M len num). save_faults M h \<union> visit_faults M h)"

text \<open>Quiet mode and the end marker only cut the list short.\<close>

lemma walks_subset:
  "walks M len num quiet eot i data hs w i' data'
   \<Longrightarrow> set hs \<subseteq> set (fst (parse_table M len num False False i data))"
proof (induction rule: walks.induct)
  case (end_marker i data h)
  then show ?case by (subst parse_table_step) (simp add: split_beta)
next
  case (step i data h hs w i' data')
  then show ?case by (subst parse_table_step) (auto simp: split_beta)
qed simp_all

lemma mem_ok_faults_mono: "mem_ok A M lo hi s \<Longrightarrow> A \<subseteq> B \<Longrightarrow> mem_ok B M lo hi s"
  by (auto simp: mem_ok_def prod_ok_def split: option.splits)

lemma finish_ok: "mem_ok A M lo hi s \<Longrightarrow> mem_ok A M lo hi (snd (run_state (finish w) s))"
proof (cases w)
  case (ShortEntry h)
  assume ok: "mem_ok A M lo hi s"
  let ?msg = "eprintf [Lit ''Invalid entry length ('', U (hlen h), Lit ''). DMI table is broken! Stop.\<newline>\<newline>'']"
  have "kept A M lo hi s (snd (run_state ?msg s))" by (intro safeD [OF safe_eprintf] ok) simp
  with ok ShortEntry show ?thesis
    by (simp add: finish_def if_then_def set_flags_def split_beta kept_def mem_ok_def)
next
  case (Truncated h)
  assume ok: "mem_ok A M lo hi s"
  have "safe A M lo hi (finish w)"
    unfolding finish_def Truncated walk_end.case by (intro safe_intros) simp_all
  then show ?thesis using ok by (blast dest: safeD kept_mem_ok)
qed (simp_all add: finish_def)

lemma dmi_table_decode_ok:
  assumes ok: "mem_ok A M 0 0 s" and len: "unat len \<le> length M"
    and f: "table_faults M (unat len) num \<subseteq> A"
  shows "mem_ok A M 0 (unat len) (snd (run_state (dmi_table_decode ext len num ver flags) s))"
proof -
  let ?s1 = "snd (run_state (save_pass num (unat len) 0 0) s)"
  obtain hs w i data where W: "walks M (unat len) num (quiet_in ?s1) (eot_of flags) 0 0 hs w i data"
    using walks_parse_table prod_cases4 by metis
  obtain hs0 w0 i0 d0 where W0: "walks M (unat len) num False False 0 0 hs0 w0 i0 d0"
    using walks_parse_table prod_cases4 by metis
  then have hs0: "table_structs M (unat len) num = hs0"
    by (simp add: table_structs_def walks_parse_table)
  have s1: "mem_ok A M 0 0 ?s1"
    using save_pass_ok [OF W0 _ _ ok len] f by (auto simp: table_faults_def hs0)
  let ?s2 = "snd (run_state (for_each hs (visit ext ver)) ?s1)"
  have "set hs \<subseteq> set hs0"
    using walks_subset [OF W] hs0 by (simp add: table_structs_def)
  then have "kept A M 0 (unat len) ?s1 ?s2"
    using f by (intro visit.decode_all [OF W s1 _ len]) (auto simp: table_faults_def hs0)
  then have s3: "mem_ok A M 0 (unat len) (snd (run_state (finish w) ?s2))"
    by (intro finish_ok) (rule kept_mem_ok)
  let ?tail = "do {
     quiet \<leftarrow> opt_flag FLAG_QUIET;
     if_then (\<not> quiet) (do {
       if_then (num \<noteq> 0 \<and> i \<noteq> unat num)
         (eprintf [Lit ''Wrong DMI structures count: '', U (unat num), Lit '' announced, only '', U i,
            Lit '' decoded.\<newline>'']);
       if_then (unat len < data \<or> (num \<noteq> 0 \<and> data < unat len))
         (eprintf [Lit ''Wrong DMI structures length: '', U (unat len),
            Lit '' bytes announced, structures occupy '', U data, Lit '' bytes.\<newline>'']) }) }"
  have "safe A M 0 (unat len) ?tail"
    by (intro safe_bind safe_opt_flag safe_if_then safe_eprintf) simp_all
  then have "kept A M 0 (unat len) (snd (run_state (finish w) ?s2))
      (snd (run_state ?tail (snd (run_state (finish w) ?s2))))"
    using s3 by (rule safeD)
  moreover have "run_state (decode_pass ext ver flags num (unat len) 0 0) ?s1
      = ((i, data), snd (run_state (finish w) ?s2))"
    using decode_pass_parse [OF W mem_ok_faults_mono [OF s1 subset_UNIV] len, where ext = ext and ver = ver and flags = flags] by (simp add: split_beta)
  ultimately show ?thesis
    by (simp add: dmi_table_decode_def split_beta kept_def del: run_opt_flag)
qed

end
