(* ===== verification/Table_Spec.thy ===== *)
theory Table_Spec
  imports Walk
begin

section \<open>Facts about the list of structures\<close>

text \<open>
  What the list \<open>parse_table\<close> looks like: every structure lies in the table, starts where the
  one before ends, and ends at the first two zero bytes behind its formatted area
  (\<open>walks_laid_out\<close>); there are no more structures than announced, and no more than
  fit (\<open>walks_count\<close>). And which tables are decoded without any fault
  (\<open>clean_table_faults\<close>).
\<close>

text \<open>\<open>e\<close> is the first place from \<open>a\<close> on where two zero bytes stand.\<close>

definition first_end :: "u8 list \<Rightarrow> nat \<Rightarrow> nat \<Rightarrow> bool" where
  "first_end M a e \<longleftrightarrow> a \<le> e \<and> terminated M e \<and> (\<forall>k. a \<le> k \<and> k < e \<longrightarrow> \<not> (M ! k = 0 \<and> M ! (k + 1) = 0))"

fun laid_out :: "u8 list \<Rightarrow> nat \<Rightarrow> nat \<Rightarrow> dmi_header list \<Rightarrow> bool" where
  "laid_out M len data [] = True"
| "laid_out M len data (h # hs) = (h = header_at M data \<and> 4 \<le> hlen h
     \<and> (\<exists>e. first_end M (data + hlen h) e \<and> e + 2 \<le> len \<and> laid_out M len (e + 2) hs))"

lemma next_at_first_end:
  assumes "next_at M len data \<le> len" "len \<le> length M"
  obtains e where "next_at M len data = e + 2" "first_end M (data + hlen (header_at M data)) e"
proof
  let ?a = "data + hlen (header_at M data)"
  let ?e = "find_end M len ?a"
  show n: "next_at M len data = ?e + 2" by (simp add: next_at_def)
  then have "M ! ?e = 0 \<and> M ! (?e + 1) = 0" using assms by (intro find_end_zeros) simp
  then show "first_end M ?a ?e"
    using assms n find_end_first [of ?a _ M len]
    by (auto simp: first_end_def terminated_def find_end_le)
qed

lemma walks_laid_out:
  "walks M len num quiet eot i data hs w i' data' \<Longrightarrow> len \<le> length M \<Longrightarrow> laid_out M len data hs"
proof (induction rule: walks.induct)
  case (end_marker i data h)
  then obtain e where "next_at M len data = e + 2" "first_end M (data + hlen h) e"
    using next_at_first_end by metis
  with end_marker show ?case by auto
next
  case (step i data h hs w i' data')
  then obtain e where "next_at M len data = e + 2" "first_end M (data + hlen h) e"
    using next_at_first_end by metis
  with step show ?case by auto
qed simp_all

lemma walks_count:
  "walks M len num quiet eot i data hs w i' data' \<Longrightarrow> data \<le> len
   \<Longrightarrow> 6 * length hs \<le> len - data \<and> (num \<noteq> 0 \<longrightarrow> i \<le> unat num \<longrightarrow> i + length hs \<le> unat num)"
proof (induction rule: walks.induct)
  case (end_marker i data h)
  have "data + 6 \<le> next_at M len data" using end_marker next_at_le [of data M len] by simp
  with end_marker show ?case by (auto simp: goes_on_def)
next
  case (step i data h hs w i' data')
  have "data + 6 \<le> next_at M len data" using step next_at_le [of data M len] by simp
  with step show ?case by (auto simp: goes_on_def)
qed simp_all

subsection \<open>Tables that cause no fault\<close>

text \<open>A structure of a standard type other than 5, 6 and 37, with fewer than 255 strings; a system
  structure has a product name and 24 bytes of table behind its start.\<close>

definition clean :: "u8 list \<Rightarrow> dmi_header \<Rightarrow> bool" where
  "clean M h \<longleftrightarrow> h_type h \<noteq> 5 \<and> h_type h \<noteq> 6 \<and> h_type h \<noteq> 37 \<and> oem_faults (unat (h_type h)) = {}
     \<and> string_count M h < 255
     \<and> (h_type h = 34 \<and> h_length h = 16 \<longrightarrow> string_count M (h\<lparr>h_length := 11\<rparr>) < 255)
     \<and> (h_type h = 1 \<longrightarrow> h_data h + 24 \<le> length M
          \<and> (6 \<le> hlen h \<longrightarrow> unat (M ! (h_data h + 5)) - 1 < string_count M h))"

lemma clean_faults: "clean M h \<Longrightarrow> save_faults M h = {} \<and> visit_faults M h = {}"
  by (auto simp: clean_def save_faults_def visit_faults_def process_faults_def decode_faults_def
      string_faults_def)

lemma clean_table_faults: "list_all (clean M) (table_structs M len num) \<Longrightarrow> table_faults M len num = {}"
  by (auto simp: table_faults_def list_all_iff dest: clean_faults)

end
