(* ===== verification/Entry_Point.thy ===== *)
theory Entry_Point
  imports Files Table_Spec
begin

section \<open>Entry points and the main function (dmidecode.c)\<close>

text \<open>
  From the entry point of the table to its structures: \<^verbatim>\<open>smbios3_decode\<close>,
  \<^verbatim>\<open>smbios_decode\<close>, \<^verbatim>\<open>legacy_decode\<close>, with \<^verbatim>\<open>dmi_table_get\<close> that
  fetches the table and \<^verbatim>\<open>dmi_table_dump\<close> that saves it; then \<^verbatim>\<open>dmidecode\<close>, which
  looks for the entry point in a dump, in sysfs, in the EFI system table or by a scan of the
  memory, in the build for Linux on x86.

  The entry point is in a buffer of its own: the list of its bytes, read with
  \<open>rd_array\<close>. The table is loaded as the memory (\<open>load_table\<close>).
\<close>

subsection \<open>Reads of the entry point\<close>

fun read_bytes :: "u8 list \<Rightarrow> nat \<Rightarrow> nat \<Rightarrow> (st, u8 list) state" where
  "read_bytes buf a 0 = ret []"
| "read_bytes buf a (Suc n) = do { b \<leftarrow> rd_array buf a; bs \<leftarrow> read_bytes buf (Suc a) n; ret (b # bs) }"

text \<open>\<^verbatim>\<open>memcmp(buf + a, text, strlen(text)) == 0\<close> and \<^verbatim>\<open>checksum(buf + a, n)\<close>\<close>

definition ascii :: "string \<Rightarrow> u8 list" where
  "ascii = map of_char"

definition memcmp_eq :: "u8 list \<Rightarrow> nat \<Rightarrow> string \<Rightarrow> (st, bool) state" where
  "memcmp_eq buf a t = do { bs \<leftarrow> read_bytes buf a (length t); ret (bs = ascii t) }"

definition checksum_at :: "u8 list \<Rightarrow> nat \<Rightarrow> nat \<Rightarrow> (st, bool) state" where
  "checksum_at buf a n = do { bs \<leftarrow> read_bytes buf a n; ret (checksum bs) }"

definition le64 :: "reader \<Rightarrow> nat \<Rightarrow> (st, u64) state" where
  "le64 p i = do { hi \<leftarrow> le32 p (i + 4); lo \<leftarrow> le32 p i; ret (push_bit 32 (ucast hi) + ucast lo) }"

subsection \<open>The dump file\<close>

text \<open>Writing at a position of a file fills a gap with zeros.\<close>

definition write_at :: "nat \<Rightarrow> u8 list \<Rightarrow> u8 list \<Rightarrow> u8 list" where
  "write_at pos bs f = take pos (f @ replicate (pos - length f) 0) @ bs @ drop (pos + length bs) f"

definition upd_dump :: "(u8 list \<Rightarrow> u8 list) \<Rightarrow> (st, unit) state" where
  "upd_dump f = State (\<lambda>s. ((), s\<lparr>st_dump := f (st_dump s)\<rparr>))"

text \<open>\<^verbatim>\<open>fprintf(stderr, "%s: ", opt.dumpfile); perror(what); return -1;\<close>\<close>

definition dump_error :: "string \<Rightarrow> (st, unit) state" where
  "dump_error what = do {
     opt \<leftarrow> get_opt;
     eprintf [S (Some (o_dumpfile opt)), Lit '': ''];
     perror what }"

text \<open>\<^verbatim>\<open>fwrite(bytes, len, 1, f)\<close> at position \<open>pos\<close>: it returns 1 only if something is to be written.\<close>

definition fwrite :: "bool \<Rightarrow> nat \<Rightarrow> u8 list \<Rightarrow> (st, bool) state" where
  "fwrite fails pos bytes = (if fails \<or> bytes = [] then ret False
     else do { upd_dump (write_at pos bytes); ret True })"

definition writing_comment :: "nat \<Rightarrow> (st, unit) state" where
  "writing_comment n = do {
     quiet \<leftarrow> opt_flag FLAG_QUIET;
     opt \<leftarrow> get_opt;
     if_then (\<not> quiet) (pr_comment [Lit ''Writing '', D (sint (of_nat n :: u32)), Lit '' bytes to '', S (Some (o_dumpfile opt)), Lit ''.'']) }"

text \<open>The last component of \<open>os\<close> says which call fails. The result is not used.\<close>

definition dmi_table_dump :: "os \<Rightarrow> u8 list \<Rightarrow> u8 list \<Rightarrow> (st, bool) state" where
  "dmi_table_dump os ep table = do {
     opt \<leftarrow> get_opt;
     fail \<leftarrow> ret (os_dump os (o_dumpfile opt));
     if fail = Some OpenDump then do { dump_error ''open''; ret False }
     else if fail = Some FdopenDump then do { dump_error ''fdopen''; ret False }
     else do {
       writing_comment (length ep);
       w \<leftarrow> fwrite (fail = Some WriteEntry) 0 ep;
       if \<not> w then do { dump_error ''fwrite''; ret False }
       else if fail = Some SeekDump then do { dump_error ''fseek''; ret False }
       else do {
         writing_comment (length table);
         w \<leftarrow> fwrite (fail = Some WriteTable) 32 table;
         if \<not> w then do { dump_error ''fwrite''; ret False }
         else if fail = Some CloseDump then do { dump_error ''fclose''; ret False }
         else ret True } } }"

subsection \<open>Fetching the table\<close>

definition SUPPORTED_SMBIOS_VER :: u32 where "SUPPORTED_SMBIOS_VER = 0x030701"

text \<open>An address as \<^verbatim>\<open>unsigned long long\<close>.\<close>

definition ull :: "int \<Rightarrow> nat" where
  "ull a = nat (a mod 2 ^ 64)"

definition announce_table :: "int \<Rightarrow> u32 \<Rightarrow> u16 \<Rightarrow> u32 \<Rightarrow> (st, unit) state" where
  "announce_table base len num ver = do {
     quiet \<leftarrow> opt_flag FLAG_QUIET;
     from_dump \<leftarrow> opt_flag FLAG_FROM_DUMP;
     opt \<leftarrow> get_opt;
     if_then (SUPPORTED_SMBIOS_VER < ver \<and> \<not> quiet) (do {
       pr_comment [Lit ''SMBIOS implementations newer than version '',
         U (unat (drop_bit 16 SUPPORTED_SMBIOS_VER)), Lit ''.'',
         U (unat (drop_bit 8 SUPPORTED_SMBIOS_VER AND 0xFF)), Lit ''.'',
         U (unat (SUPPORTED_SMBIOS_VER AND 0xFF)), Lit '' are not''];
       pr_comment [Lit ''fully supported by this version of dmidecode.''] });
     if_then (\<not> quiet) (do {
       if_then (o_type opt = None) (do {
         if_then (num \<noteq> 0) (pr_info [U (unat num), Lit '' structures occupying '', U (unat len), Lit '' bytes.'']);
         if_then (\<not> from_dump) (pr_info [Lit ''Table at 0x'', X 8 (ull base), Lit ''.'']) });
       pr_sep }) }"

text \<open>The table and its length, \<^verbatim>\<open>*len\<close> trimmed to what a file holds.\<close>

definition dmi_table_get ::
  "os \<Rightarrow> int \<Rightarrow> u32 \<Rightarrow> u16 \<Rightarrow> u32 \<Rightarrow> string \<Rightarrow> u32 \<Rightarrow> (st, u8 list option \<times> u32) state" where
  "dmi_table_get os base len num ver devmem flags = do {
     announce_table base len num ver;
     quiet \<leftarrow> opt_flag FLAG_QUIET;
     from_dump \<leftarrow> opt_flag FLAG_FROM_DUMP;
     (buf, len) \<leftarrow> (if flags AND FLAG_NO_FILE_OFFSET \<noteq> 0 \<or> from_dump then do {
         (buf, n) \<leftarrow> read_file os (if flags AND FLAG_NO_FILE_OFFSET \<noteq> 0 then 0 else base) (unat len) devmem;
         if_then (\<not> quiet \<and> num \<noteq> 0 \<and> n \<noteq> unat len)
           (eprintf [Lit ''Wrong DMI structures length: '', U (unat len),
              Lit '' bytes announced, only '', U n, Lit '' bytes available.\<newline>'']);
         ret (buf, of_nat n) }
       else do { buf \<leftarrow> mem_chunk os base (unat len) devmem; ret (buf, len) });
     if_then (buf = None) (eprintf [Lit ''Failed to read table, sorry.\<newline>'']);
     ret (buf, len) }"

subsection \<open>Crafted entry points\<close>

text \<open>The 32-bit and legacy entry point at \<open>buf + at\<close>, and the one of SMBIOS 3.\<close>

definition overwrite_dmi_address :: "nat \<Rightarrow> u8 list \<Rightarrow> u8 list" where
  "overwrite_dmi_address at buf = buf
     [at + 0x05 := buf ! (at + 0x05) + (buf ! (at + 0x08) + buf ! (at + 0x09) + buf ! (at + 0x0A)
        + buf ! (at + 0x0B) - 32),
      at + 0x08 := 32, at + 0x09 := 0, at + 0x0A := 0, at + 0x0B := 0]"

definition overwrite_smbios3_address :: "u8 list \<Rightarrow> u8 list" where
  "overwrite_smbios3_address buf = buf
     [0x05 := buf ! 0x05 + (buf ! 0x10 + buf ! 0x11 + buf ! 0x12 + buf ! 0x13
        + buf ! 0x14 + buf ! 0x15 + buf ! 0x16 + buf ! 0x17 - 32),
      0x10 := 32, 0x11 := 0, 0x12 := 0, 0x13 := 0, 0x14 := 0, 0x15 := 0, 0x16 := 0, 0x17 := 0]"

subsection \<open>Decoding from an entry point\<close>

definition load_table :: "u8 list \<Rightarrow> (st, unit) state" where
  "load_table table = State (\<lambda>s. ((), s\<lparr>st_mem := table\<rparr>))"

definition entry_too_long :: "u8 \<Rightarrow> nat \<Rightarrow> (st, unit) state" where
  "entry_too_long len expected = eprintf [Lit ''Entry point length too large ('', U (unat len),
     Lit '' bytes, expected '', U expected, Lit '').\<newline>'']"

text \<open>What follows the checks of the entry point. \<open>craft\<close> gives the entry point to save.\<close>

definition use_table :: "os \<Rightarrow> (st, u8 list) state \<Rightarrow> u8 list option \<times> u32 \<Rightarrow> u16 \<Rightarrow> u16 \<Rightarrow> u32 \<Rightarrow> (st, unit) state" where
  "use_table os craft t num ver flags = (case t of
       (None, len) \<Rightarrow> ret ()
     | (Some table, len) \<Rightarrow> do {
         dump \<leftarrow> opt_flag FLAG_DUMP_BIN;
         if dump then do {
           crafted \<leftarrow> craft;
           ok \<leftarrow> dmi_table_dump os crafted (take (unat len) table);
           ret () }
         else do { load_table table; dmi_table_decode (os_env os) len num ver flags } })"

definition smbios3_decode :: "os \<Rightarrow> u8 list \<Rightarrow> nat \<Rightarrow> string \<Rightarrow> u32 \<Rightarrow> (st, bool) state" where
  "smbios3_decode os buf buf_len devmem flags = do {
     l \<leftarrow> rd_array buf 0x06;
     if buf_len < unat l then do { entry_too_long l 0x18; ret False }
     else do {
       ok \<leftarrow> (if l < 0x18 then ret False else checksum_at buf 0 (unat l));
       if \<not> ok then ret False
       else do {
         b7 \<leftarrow> rd_array buf 0x07; b8 \<leftarrow> rd_array buf 0x08; b9 \<leftarrow> rd_array buf 0x09;
         ver \<leftarrow> ret (push_bit 16 (ucast b7) + push_bit 8 (ucast b8) + ucast b9 :: u32);
         quiet \<leftarrow> opt_flag FLAG_QUIET;
         if_then (\<not> quiet) (pr_info [Lit ''SMBIOS '', U (unat b7), Lit ''.'', U (unat b8), Lit ''.'',
           U (unat b9), Lit '' present.'']);
         offset \<leftarrow> le64 (rd_array buf) 0x10;
         len \<leftarrow> le32 (rd_array buf) 0x0C;
         t \<leftarrow> dmi_table_get os (sint offset) len 0 ver devmem (flags OR FLAG_STOP_AT_EOT);
         use_table os (do {
             c \<leftarrow> read_bytes buf 0 32;
             ret (take (unat (overwrite_smbios3_address c ! 0x06)) (overwrite_smbios3_address c)) })
           t 0 (ucast (drop_bit 8 ver)) (flags OR FLAG_STOP_AT_EOT);
         ret True } } }"

definition dmi_fixup_version :: "u16 \<Rightarrow> (st, u16) state" where
  "dmi_fixup_version ver = do {
     quiet \<leftarrow> opt_flag FLAG_QUIET;
     if ver = 0x021F \<or> ver = 0x0221 then do {
       if_then (\<not> quiet) (eprintf [Lit ''SMBIOS version fixup (2.'', U (unat (ver AND 0xFF)),
         Lit '' -> 2.'', U 3, Lit '').\<newline>'']);
       ret 0x0203 }
     else if ver = 0x0233 then do {
       if_then (\<not> quiet) (eprintf [Lit ''SMBIOS version fixup (2.'', U 51, Lit '' -> 2.'', U 6, Lit '').\<newline>'']);
       ret 0x0206 }
     else ret ver }"

definition smbios_decode :: "os \<Rightarrow> u8 list \<Rightarrow> nat \<Rightarrow> string \<Rightarrow> u32 \<Rightarrow> (st, bool) state" where
  "smbios_decode os buf buf_len devmem flags = do {
     l \<leftarrow> rd_array buf 0x05;
     if buf_len < unat l then do { entry_too_long l 0x1F; ret False }
     else do {
       ok \<leftarrow> (if l < 0x1E then ret False else checksum_at buf 0 (unat l));
       ok \<leftarrow> (if \<not> ok then ret False else memcmp_eq buf 0x10 ''_DMI_'');
       ok \<leftarrow> (if \<not> ok then ret False else checksum_at buf 0x10 0x0F);
       if \<not> ok then ret False
       else do {
         b6 \<leftarrow> rd_array buf 0x06; b7 \<leftarrow> rd_array buf 0x07;
         no_quirks \<leftarrow> opt_flag FLAG_NO_QUIRKS;
         ver \<leftarrow> (if no_quirks then ret (push_bit 8 (ucast b6) + ucast b7)
                 else dmi_fixup_version (push_bit 8 (ucast b6) + ucast b7));
         quiet \<leftarrow> opt_flag FLAG_QUIET;
         if_then (\<not> quiet) (pr_info [Lit ''SMBIOS '', U (unat (drop_bit 8 ver)), Lit ''.'',
           U (unat (ver AND 0xFF)), Lit '' present.'']);
         len \<leftarrow> le16 (rd_array buf) 0x16;
         num \<leftarrow> le16 (rd_array buf) 0x1C;
         addr \<leftarrow> le32 (rd_array buf) 0x18;
         t \<leftarrow> dmi_table_get os (uint addr) (ucast len) num (push_bit 8 (ucast ver)) devmem flags;
         use_table os (do {
             c \<leftarrow> read_bytes buf 0 32;
             ret (take (unat (overwrite_dmi_address 0x10 c ! 0x05)) (overwrite_dmi_address 0x10 c)) })
           t num ver flags;
         ret True } } }"

definition legacy_decode :: "os \<Rightarrow> u8 list \<Rightarrow> string \<Rightarrow> u32 \<Rightarrow> (st, bool) state" where
  "legacy_decode os buf devmem flags = do {
     ok \<leftarrow> checksum_at buf 0 0x0F;
     if \<not> ok then ret False
     else do {
       e \<leftarrow> rd_array buf 0x0E;
       ver \<leftarrow> ret (push_bit 4 (ucast (e AND 0xF0)) + ucast (e AND 0x0F) :: u16);
       quiet \<leftarrow> opt_flag FLAG_QUIET;
       if_then (\<not> quiet) (pr_info [Lit ''Legacy DMI '', U (unat (drop_bit 4 e)), Lit ''.'',
         U (unat (e AND 0x0F)), Lit '' present.'']);
       len \<leftarrow> le16 (rd_array buf) 0x06;
       num \<leftarrow> le16 (rd_array buf) 0x0C;
       addr \<leftarrow> le32 (rd_array buf) 0x08;
       t \<leftarrow> dmi_table_get os (uint addr) (ucast len) num (push_bit 8 (ucast ver)) devmem flags;
       use_table os (do { c \<leftarrow> read_bytes buf 0 16; ret (take 0x0F (overwrite_dmi_address 0 c)) })
         t num ver flags;
       ret True } }"

subsection \<open>The EFI system table\<close>

datatype efi = EFI_NOT_FOUND | EFI_NO_SMBIOS | EFI_FOUND u64

text \<open>The loop over the lines: the address and the kind of the entry point. A line without
  \<^verbatim>\<open>=\<close> makes \<^verbatim>\<open>strchr\<close> return NULL, which is written through.\<close>

fun efi_lines :: "string list \<Rightarrow> (st, (u64 \<times> string) option) state" where
  "efi_lines [] = ret None"
| "efi_lines (line # lines) = (if CHR ''='' \<notin> set line then do { fault NullPointer; ret None }
     else let key = takeWhile (\<lambda>c. c \<noteq> CHR ''='') line; addrp = drop (length key + 1) line in
       if key = ''SMBIOS3'' \<or> key = ''SMBIOS'' then ret (Some (fst (strtoul 0 addrp), key))
       else efi_lines lines)"

definition address_from_efi :: "os \<Rightarrow> (st, efi) state" where
  "address_from_efi os = (case os_systab os of
       None \<Rightarrow> ret EFI_NOT_FOUND
     | Some (filename, lines, closes) \<Rightarrow> do {
         r \<leftarrow> efi_lines lines;
         if_then (\<not> closes) (perror filename);
         quiet \<leftarrow> opt_flag FLAG_QUIET;
         case r of
           None \<Rightarrow> do { eprintf [S (Some filename), Lit '': SMBIOS entry point missing\<newline>'']; ret EFI_NO_SMBIOS }
         | Some (address, eptype) \<Rightarrow> do {
             if_then (\<not> quiet) (pr_comment [S (Some eptype), Lit '' entry point at 0x'', XL 8 (unat address)]);
             ret (EFI_FOUND address) } })"

subsection \<open>dmidecode\<close>

definition VERSION :: string where "VERSION = ''3.6.20250725''"
definition SYS_ENTRY_FILE :: string where "SYS_ENTRY_FILE = ''/sys/firmware/dmi/tables/smbios_entry_point''"
definition SYS_TABLE_FILE :: string where "SYS_TABLE_FILE = ''/sys/firmware/dmi/tables/DMI''"

definition info :: "farg list \<Rightarrow> (st, unit) state" where
  "info as = do { quiet \<leftarrow> opt_flag FLAG_QUIET; if_then (\<not> quiet) (pr_info as) }"

text \<open>\<^verbatim>\<open>done:\<close>\<close>

definition finish_found :: "bool \<Rightarrow> int \<Rightarrow> (st, int) state" where
  "finish_found found code = do {
     quiet \<leftarrow> opt_flag FLAG_QUIET;
     if_then (\<not> found \<and> \<not> quiet) (pr_comment [Lit ''No SMBIOS nor DMI entry point found, sorry.'']);
     ret code }"

definition decode_dump :: "os \<Rightarrow> (st, int) state" where
  "decode_dump os = do {
     opt \<leftarrow> get_opt;
     info [Lit ''Reading SMBIOS/DMI data from file '', S (Some (o_dumpfile opt)), Lit ''.''];
     (buf, n) \<leftarrow> read_file os 0 0x20 (o_dumpfile opt);
     case buf of
       None \<Rightarrow> ret 1
     | Some buf \<Rightarrow>
         if n < 0x20 then finish_found False 1
         else do {
           sm3 \<leftarrow> memcmp_eq buf 0 ''_SM3_'';
           sm \<leftarrow> memcmp_eq buf 0 ''_SM_'';
           dmi \<leftarrow> memcmp_eq buf 0 ''_DMI_'';
           found \<leftarrow> (if sm3 then smbios3_decode os buf n (o_dumpfile opt) 0
             else if sm then smbios_decode os buf n (o_dumpfile opt) 0
             else if dmi then legacy_decode os buf (o_dumpfile opt) 0
             else ret False);
           finish_found found 0 } }"

text \<open>The sysfs tables: whether an entry point was found.\<close>

definition decode_sysfs :: "os \<Rightarrow> (st, bool) state" where
  "decode_sysfs os = do {
     no_sysfs \<leftarrow> opt_flag FLAG_NO_SYSFS;
     if no_sysfs then ret False
     else do {
       (buf, n) \<leftarrow> read_file os 0 0x20 SYS_ENTRY_FILE;
       case buf of
         None \<Rightarrow> ret False
       | Some buf \<Rightarrow> do {
           info [Lit ''Getting SMBIOS data from sysfs.''];
           sm3 \<leftarrow> (if 24 \<le> n then memcmp_eq buf 0 ''_SM3_'' else ret False);
           sm \<leftarrow> (if 31 \<le> n then memcmp_eq buf 0 ''_SM_'' else ret False);
           dmi \<leftarrow> (if 15 \<le> n then memcmp_eq buf 0 ''_DMI_'' else ret False);
           found \<leftarrow> (if sm3 then smbios3_decode os buf n SYS_TABLE_FILE FLAG_NO_FILE_OFFSET
             else if sm then smbios_decode os buf n SYS_TABLE_FILE FLAG_NO_FILE_OFFSET
             else if dmi then legacy_decode os buf SYS_TABLE_FILE FLAG_NO_FILE_OFFSET
             else ret False);
           if_then (\<not> found) (info [Lit ''Failed to get SMBIOS data from sysfs.'']);
           ret found } } }"

definition decode_efi :: "os \<Rightarrow> u64 \<Rightarrow> (st, int) state" where
  "decode_efi os fp = do {
     opt \<leftarrow> get_opt;
     info [Lit ''Found SMBIOS entry point in EFI, reading table from '', S (Some (o_devmem opt)), Lit ''.''];
     buf \<leftarrow> mem_chunk os (sint fp) 0x20 (o_devmem opt);
     case buf of
       None \<Rightarrow> ret 1
     | Some buf \<Rightarrow> do {
         sm3 \<leftarrow> memcmp_eq buf 0 ''_SM3_'';
         sm \<leftarrow> memcmp_eq buf 0 ''_SM_'';
         found \<leftarrow> (if sm3 then smbios3_decode os buf 0x20 (o_devmem opt) 0
           else if sm then smbios_decode os buf 0x20 (o_devmem opt) 0
           else ret False);
         finish_found found 0 } }"

text \<open>The scan tries one place after the other until one decodes.\<close>

fun first_found :: "(nat \<Rightarrow> (st, bool) state) \<Rightarrow> nat list \<Rightarrow> (st, bool) state" where
  "first_found try [] = ret False"
| "first_found try (fp # fps) = do { found \<leftarrow> try fp; if found then ret True else first_found try fps }"

definition scan_smbios3 :: "os \<Rightarrow> string \<Rightarrow> u8 list \<Rightarrow> nat \<Rightarrow> (st, bool) state" where
  "scan_smbios3 os devmem buf fp = do {
     sm3 \<leftarrow> memcmp_eq buf fp ''_SM3_'';
     if sm3 then smbios3_decode os (drop fp buf) 0x20 devmem 0 else ret False }"

definition scan_smbios :: "os \<Rightarrow> string \<Rightarrow> u8 list \<Rightarrow> nat \<Rightarrow> (st, bool) state" where
  "scan_smbios os devmem buf fp = do {
     sm \<leftarrow> memcmp_eq buf fp ''_SM_'';
     dmi \<leftarrow> (if sm \<and> fp \<le> 0xFFE0 then ret False else memcmp_eq buf fp ''_DMI_'');
     if sm \<and> fp \<le> 0xFFE0 then smbios_decode os (drop fp buf) 0x20 devmem 0
     else if dmi then legacy_decode os (drop fp buf) devmem 0
     else ret False }"

definition paragraphs :: "nat \<Rightarrow> nat list" where
  "paragraphs fp = map (\<lambda>i. 16 * i) [0..<fp div 16 + 1]"

definition memory_scan :: "os \<Rightarrow> (st, int) state" where
  "memory_scan os = do {
     opt \<leftarrow> get_opt;
     info [Lit ''Scanning '', S (Some (o_devmem opt)), Lit '' for entry point.''];
     buf \<leftarrow> mem_chunk os 0xF0000 0x10000 (o_devmem opt);
     case buf of
       None \<Rightarrow> ret 1
     | Some buf \<Rightarrow> do {
         found \<leftarrow> first_found (scan_smbios3 os (o_devmem opt) buf) (paragraphs 0xFFE0);
         found \<leftarrow> (if found then ret True
                  else first_found (scan_smbios os (o_devmem opt) buf) (paragraphs 0xFFF0));
         finish_found found 0 } }"

definition find_tables :: "os \<Rightarrow> (st, int) state" where
  "find_tables os = do {
     found \<leftarrow> decode_sysfs os;
     if found then finish_found True 0
     else do {
       efi \<leftarrow> address_from_efi os;
       case efi of
         EFI_NOT_FOUND \<Rightarrow> memory_scan os
       | EFI_NO_SMBIOS \<Rightarrow> ret 1
       | EFI_FOUND fp \<Rightarrow> decode_efi os fp } }"

text \<open>The types CPU-X asks for, the default options, and the label \<^verbatim>\<open>exit_free\<close>.\<close>

definition cpux_types :: "u8 \<Rightarrow> u8" where
  "cpux_types = (\<lambda>_. 0)(0 := 1, 2 := 1, 4 := 1, 17 := 1)"

definition default_opt :: "bool \<Rightarrow> opt \<Rightarrow> opt" where
  "default_opt quiet opt = opt\<lparr>o_devmem := DEFAULT_MEM_DEV, o_handle := NOT 0,
     o_flags := (if quiet then FLAG_QUIET else 0)\<rparr>"

definition run_options :: "os \<Rightarrow> string \<Rightarrow> (st, int) state" where
  "run_options os argv0 = do {
     list \<leftarrow> opt_flag FLAG_LIST;
     help \<leftarrow> opt_flag FLAG_HELP;
     version \<leftarrow> opt_flag FLAG_VERSION;
     if list then ret 0
     else if help then do { print_help; ret 0 }
     else if version then do { printf [S (Some VERSION), Lit ''\<newline>'']; ret 0 }
     else do {
       cpux \<leftarrow> get_cpux;
       if_then (cpux = None) (pr_comment [S (Some argv0), Lit '' '', S (Some VERSION), Lit ''\<newline>'']);
       from_dump \<leftarrow> opt_flag FLAG_FROM_DUMP;
       if from_dump then decode_dump os else find_tables os } }"

definition dmidecode :: "os \<Rightarrow> string \<Rightarrow> getopt_result list \<Rightarrow> bool \<Rightarrow> DmidecodeData option \<Rightarrow> (st, int) state" where
  "dmidecode os argv0 options quiet cpux = do {
     State (\<lambda>s. ((), s\<lparr>st_cpux := cpux\<rparr>));
     if cpux \<noteq> None \<and> \<not> alloc (os_env os) 256 then do {
       upd_opt (\<lambda>opt. opt\<lparr>o_type := None\<rparr>); perror ''calloc''; ret 255 }
     else do {
       if_then (cpux \<noteq> None) (upd_opt (\<lambda>opt. opt\<lparr>o_type := Some cpux_types\<rparr>));
       upd_opt (default_opt quiet);
       ok \<leftarrow> parse_command_line (alloc (os_env os)) options;
       code \<leftarrow> (if ok then run_options os argv0 else ret 2);
       upd_opt (\<lambda>opt. opt\<lparr>o_type := None\<rparr>);
       ret code } }"

end
