(* ===== verification/Entry_Spec.thy ===== *)
theory Entry_Spec
  imports Entry_Point
begin

section \<open>Entry points against their specification\<close>

text \<open>
  What an entry point says, as a function of its bytes (\<open>parse_smbios3\<close>,
  \<open>parse_smbios\<close>, \<open>parse_legacy\<close>), and that the three decoders follow it
  (\<open>smbios3_decode_run\<close> and its companions) without reading outside of the
  buffer. Then the specification of \<^verbatim>\<open>--from-dump\<close>: what the file holds
  (\<open>dump_entry\<close>, \<open>dump_table\<close>) and that \<open>decode_dump\<close> decodes that
  (\<open>decode_dump_spec\<close>). The theory \<open>Dump_Image\<close> adds that a saved dump is read back.
\<close>

subsection \<open>Little-endian fields\<close>

definition word16_at :: "u8 list \<Rightarrow> nat \<Rightarrow> u16" where
  "word16_at buf i = ucast (buf ! i) + push_bit 8 (ucast (buf ! (i + 1)))"

definition word32_at :: "u8 list \<Rightarrow> nat \<Rightarrow> u32" where
  "word32_at buf i = ucast (buf ! i) + push_bit 8 (ucast (buf ! (i + 1)))
     + push_bit 16 (ucast (buf ! (i + 2))) + push_bit 24 (ucast (buf ! (i + 3)))"

definition word64_at :: "u8 list \<Rightarrow> nat \<Rightarrow> u64" where
  "word64_at buf i = push_bit 32 (ucast (word32_at buf (i + 4))) + ucast (word32_at buf i)"

lemma run_rd_array: "i < length buf \<Longrightarrow> run_state (rd_array buf i) s = (buf ! i, s)"
  by (simp add: rd_array_def)

lemma run_le16: "i + 1 < length buf \<Longrightarrow> run_state (le16 (rd_array buf) i) s = (word16_at buf i, s)"
  by (simp add: le16_def run_rd_array word16_at_def)

lemma run_le32: "i + 3 < length buf \<Longrightarrow> run_state (le32 (rd_array buf) i) s = (word32_at buf i, s)"
  by (simp add: le32_def run_rd_array word32_at_def)

lemma run_le64: "i + 7 < length buf \<Longrightarrow> run_state (le64 (rd_array buf) i) s = (word64_at buf i, s)"
  by (simp add: le64_def run_le32 word64_at_def)

lemma run_read_bytes:
  "a + n \<le> length buf \<Longrightarrow> run_state (read_bytes buf a n) s = (take n (drop a buf), s)"
  by (induction n arbitrary: a) (simp_all add: run_rd_array Cons_nth_drop_Suc [symmetric])

lemma run_memcmp_eq: "a + length t \<le> length buf
  \<Longrightarrow> run_state (memcmp_eq buf a t) s = (take (length t) (drop a buf) = ascii t, s)"
  by (simp add: memcmp_eq_def run_read_bytes)

lemma run_checksum_at: "a + n \<le> length buf
  \<Longrightarrow> run_state (checksum_at buf a n) s = (checksum (take n (drop a buf)), s)"
  by (simp add: checksum_at_def run_read_bytes)

lemma run_anchors:
  "a + 5 \<le> length buf \<Longrightarrow> run_state (memcmp_eq buf a ''_SM3_'') s = (take 5 (drop a buf) = ascii ''_SM3_'', s)"
  "a + 4 \<le> length buf \<Longrightarrow> run_state (memcmp_eq buf a ''_SM_'') s = (take 4 (drop a buf) = ascii ''_SM_'', s)"
  "a + 5 \<le> length buf \<Longrightarrow> run_state (memcmp_eq buf a ''_DMI_'') s = (take 5 (drop a buf) = ascii ''_DMI_'', s)"
  using run_memcmp_eq [of a _ buf s] by (simp_all add: numeral_eq_Suc)

lemmas run_entry = run_rd_array run_le16 run_le32 run_le64 run_read_bytes run_anchors run_checksum_at

subsection \<open>Entry points\<close>

text \<open>\<open>e_version\<close> is the version the decoders are called with, \<open>e_full\<close> the one that is
  compared with the supported one.\<close>

record entry =
  e_base :: int
  e_len :: u32
  e_num :: u16
  e_version :: u16
  e_full :: u32

definition parse_smbios3 :: "u8 list \<Rightarrow> nat \<Rightarrow> entry option" where
  "parse_smbios3 buf n = (let l = unat (buf ! 6);
       ver = push_bit 16 (ucast (buf ! 7)) + push_bit 8 (ucast (buf ! 8)) + ucast (buf ! 9) :: u32 in
     if 0x18 \<le> l \<and> l \<le> n \<and> checksum (take l buf)
     then Some \<lparr>e_base = sint (word64_at buf 0x10), e_len = word32_at buf 0x0C, e_num = 0,
       e_version = ucast (drop_bit 8 ver), e_full = ver\<rparr>
     else None)"

definition fixed_version :: "u16 \<Rightarrow> u16" where
  "fixed_version v = (if v = 0x021F \<or> v = 0x0221 then 0x0203 else if v = 0x0233 then 0x0206 else v)"

definition parse_smbios :: "bool \<Rightarrow> u8 list \<Rightarrow> nat \<Rightarrow> entry option" where
  "parse_smbios no_quirks buf n = (let l = unat (buf ! 5);
       v = push_bit 8 (ucast (buf ! 6)) + ucast (buf ! 7); ver = if no_quirks then v else fixed_version v in
     if 0x1E \<le> l \<and> l \<le> n \<and> checksum (take l buf) \<and> take 5 (drop 0x10 buf) = ascii ''_DMI_''
       \<and> checksum (take 0x0F (drop 0x10 buf))
     then Some \<lparr>e_base = uint (word32_at buf 0x18), e_len = ucast (word16_at buf 0x16),
       e_num = word16_at buf 0x1C, e_version = ver, e_full = push_bit 8 (ucast ver)\<rparr>
     else None)"

definition parse_legacy :: "u8 list \<Rightarrow> entry option" where
  "parse_legacy buf = (let e = buf ! 0x0E; ver = push_bit 4 (ucast (e AND 0xF0)) + ucast (e AND 0x0F) in
     if checksum (take 0x0F buf)
     then Some \<lparr>e_base = uint (word32_at buf 0x08), e_len = ucast (word16_at buf 0x06),
       e_num = word16_at buf 0x0C, e_version = ver, e_full = push_bit 8 (ucast ver)\<rparr>
     else None)"

text \<open>What is done with a valid entry point; the rejection only prints.\<close>

definition use_entry :: "os \<Rightarrow> (st, u8 list) state \<Rightarrow> entry \<Rightarrow> string \<Rightarrow> u32 \<Rightarrow> (st, bool) state" where
  "use_entry os craft e devmem flags = do {
     t \<leftarrow> dmi_table_get os (e_base e) (e_len e) (e_num e) (e_full e) devmem flags;
     use_table os craft t (e_num e) (e_version e) flags;
     ret True }"

definition craft_smbios3 :: "u8 list \<Rightarrow> u8 list" where
  "craft_smbios3 buf = (let c = overwrite_smbios3_address (take 32 buf) in take (unat (c ! 6)) c)"

definition craft_smbios :: "u8 list \<Rightarrow> u8 list" where
  "craft_smbios buf = (let c = overwrite_dmi_address 0x10 (take 32 buf) in take (unat (c ! 5)) c)"

definition craft_legacy :: "u8 list \<Rightarrow> u8 list" where
  "craft_legacy buf = take 0x0F (overwrite_dmi_address 0 (take 16 buf))"

abbreviation dump_smbios3 :: "u8 list \<Rightarrow> (st, u8 list) state" where
  "dump_smbios3 buf \<equiv> do { c \<leftarrow> read_bytes buf 0 32;
     ret (take (unat (overwrite_smbios3_address c ! 6)) (overwrite_smbios3_address c)) }"

abbreviation dump_smbios :: "u8 list \<Rightarrow> (st, u8 list) state" where
  "dump_smbios buf \<equiv> do { c \<leftarrow> read_bytes buf 0 32;
     ret (take (unat (overwrite_dmi_address 0x10 c ! 5)) (overwrite_dmi_address 0x10 c)) }"

abbreviation dump_legacy :: "u8 list \<Rightarrow> (st, u8 list) state" where
  "dump_legacy buf \<equiv> do { c \<leftarrow> read_bytes buf 0 16; ret (take 0x0F (overwrite_dmi_address 0 c)) }"

subsection \<open>The decoders follow the specification\<close>

text \<open>\<open>runs_as m s e n\<close>: with the entry \<open>e\<close>, the decoder \<open>m\<close> first prints and then does
  \<open>n\<close>; without one it prints and finds nothing.\<close>

definition runs_as :: "(st, bool) state \<Rightarrow> st \<Rightarrow> entry option \<Rightarrow> (entry \<Rightarrow> (st, bool) state) \<Rightarrow> bool" where
  "runs_as m s e n \<longleftrightarrow> (\<exists>out err. let s' = s\<lparr>st_out := out, st_err := err\<rparr> in
     run_state m s = (case e of None \<Rightarrow> (False, s') | Some e \<Rightarrow> run_state (n e) s'))"

lemma runs_as_None: "prints m \<Longrightarrow> fst (run_state m s) = False \<Longrightarrow> runs_as m s None n"
  using printsD [of m s] by (metis (mono_tags, lifting) option.simps(4) prod.collapse runs_as_def)

lemma runs_as_Some: "prints p \<Longrightarrow> runs_as (do { x \<leftarrow> p; n e }) s (Some e) n"
proof -
  assume "prints p"
  then obtain out err where "snd (run_state p s) = s\<lparr>st_out := out, st_err := err\<rparr>"
    using printsD by blast
  then have "run_state (do { x \<leftarrow> p; n e }) s = run_state (n e) (s\<lparr>st_out := out, st_err := err\<rparr>)"
    by (simp add: split_beta)
  then show ?thesis unfolding runs_as_def Let_def option.case by blast
qed

lemma runs_as_cong: "run_state m s = run_state m' s \<Longrightarrow> runs_as m' s e n \<Longrightarrow> runs_as m s e n"
  by (simp add: runs_as_def)

definition announce :: "farg list \<Rightarrow> (st, unit) state" where
  "announce as = do { quiet \<leftarrow> opt_flag FLAG_QUIET; if_then (\<not> quiet) (pr_info as) }"

lemma prints_announce: "args_ok as \<Longrightarrow> prints (announce as)"
  unfolding announce_def by (intro prints_intros)

lemma smbios3_decode_run:
  assumes "n \<le> length buf" "24 \<le> length buf"
  shows "runs_as (smbios3_decode os buf n devmem flags) s (parse_smbios3 buf n)
    (\<lambda>e. use_entry os (dump_smbios3 buf) e devmem (flags OR FLAG_STOP_AT_EOT))"
proof (cases "parse_smbios3 buf n")
  case None
  let ?l = "unat (buf ! 6)"
  have "run_state (smbios3_decode os buf n devmem flags) s
      = run_state (do { if_then (n < ?l) (entry_too_long (buf ! 6) 0x18); ret False }) s"
    using None assms
    by (auto simp: smbios3_decode_def parse_smbios3_def run_entry if_then_def word_less_nat_alt Let_def
        split: if_splits)
  moreover have "prints (do { if_then (n < ?l) (entry_too_long (buf ! 6) 0x18); ret False })"
    unfolding entry_too_long_def by (intro prints_intros) simp
  ultimately show ?thesis unfolding None by (rule runs_as_cong [OF _ runs_as_None]) (simp add: split_beta)
next
  case (Some e)
  let ?as = "[Lit ''SMBIOS '', U (unat (buf ! 7)), Lit ''.'', U (unat (buf ! 8)), Lit ''.'',
           U (unat (buf ! 9)), Lit '' present.'']"
  have "run_state (smbios3_decode os buf n devmem flags) s
      = run_state (do { announce ?as; use_entry os (dump_smbios3 buf) e devmem (flags OR FLAG_STOP_AT_EOT) }) s"
    using Some assms
    by (auto simp: smbios3_decode_def parse_smbios3_def run_entry Let_def word_less_nat_alt not_le
        use_entry_def announce_def split_beta split: if_splits)
  then show ?thesis unfolding Some
    by (rule runs_as_cong) (intro runs_as_Some prints_announce, simp)
qed

lemma run_dmi_fixup_version:
  "fst (run_state (dmi_fixup_version v) s) = fixed_version v" "prints (dmi_fixup_version v)"
proof -
  show "fst (run_state (dmi_fixup_version v) s) = fixed_version v"
    by (simp add: dmi_fixup_version_def fixed_version_def split_beta)
  show "prints (dmi_fixup_version v)"
    unfolding dmi_fixup_version_def by (intro prints_intros) simp_all
qed

definition smbios_version :: "bool \<Rightarrow> u8 list \<Rightarrow> (st, u16) state" where
  "smbios_version no_quirks buf = (if no_quirks then ret (push_bit 8 (ucast (buf ! 6)) + ucast (buf ! 7))
     else dmi_fixup_version (push_bit 8 (ucast (buf ! 6)) + ucast (buf ! 7)))"

lemma smbios_version: "prints (smbios_version no_quirks buf)"
  "fst (run_state (smbios_version no_quirks buf) s) = (let v = push_bit 8 (ucast (buf ! 6)) + ucast (buf ! 7)
     in if no_quirks then v else fixed_version v)"
  by (simp_all add: smbios_version_def run_dmi_fixup_version prints_ret)

lemma smbios_decode_run:
  assumes "n \<le> length buf" "31 \<le> length buf"
  shows "runs_as (smbios_decode os buf n devmem flags) s
    (parse_smbios (o_flags (st_opt s) AND FLAG_NO_QUIRKS \<noteq> 0) buf n)
    (\<lambda>e. use_entry os (dump_smbios buf) e devmem flags)"
proof (cases "parse_smbios (o_flags (st_opt s) AND FLAG_NO_QUIRKS \<noteq> 0) buf n")
  case None
  let ?l = "unat (buf ! 5)"
  have "run_state (smbios_decode os buf n devmem flags) s
      = run_state (do { if_then (n < ?l) (entry_too_long (buf ! 5) 0x1F); ret False }) s"
    using None assms
    by (auto simp: smbios_decode_def parse_smbios_def run_entry if_then_def word_less_nat_alt Let_def
        split: if_splits)
  moreover have "prints (do { if_then (n < ?l) (entry_too_long (buf ! 5) 0x1F); ret False })"
    unfolding entry_too_long_def by (intro prints_intros) simp
  ultimately show ?thesis unfolding None by (rule runs_as_cong [OF _ runs_as_None]) (simp add: split_beta)
next
  case (Some e)
  let ?nq = "o_flags (st_opt s) AND FLAG_NO_QUIRKS \<noteq> 0"
  let ?as = "\<lambda>v :: u16. [Lit ''SMBIOS '', U (unat (drop_bit 8 v)), Lit ''.'',
           U (unat (v AND 0xFF)), Lit '' present.'']"
  have "run_state (smbios_decode os buf n devmem flags) s
      = run_state (do { x \<leftarrow> do { v \<leftarrow> smbios_version ?nq buf; announce (?as v) };
          use_entry os (dump_smbios buf) e devmem flags }) s"
    using Some assms
    by (auto simp: smbios_decode_def parse_smbios_def run_entry Let_def word_less_nat_alt not_le
        smbios_version_def run_dmi_fixup_version(1) use_entry_def announce_def split_beta split: if_splits)
  then show ?thesis unfolding Some
    by (rule runs_as_cong) (intro runs_as_Some prints_announce prints_bind smbios_version, simp)
qed

lemma legacy_decode_run:
  assumes "16 \<le> length buf"
  shows "runs_as (legacy_decode os buf devmem flags) s (parse_legacy buf)
    (\<lambda>e. use_entry os (dump_legacy buf) e devmem flags)"
proof (cases "parse_legacy buf")
  case None
  then have "run_state (legacy_decode os buf devmem flags) s = run_state (ret False) s"
    using assms by (auto simp: legacy_decode_def parse_legacy_def run_entry Let_def split: if_splits)
  then show ?thesis unfolding None
    by (rule runs_as_cong [OF _ runs_as_None [OF prints_ret]]) simp
next
  case (Some e)
  let ?as = "[Lit ''Legacy DMI '', U (unat (drop_bit 4 (buf ! 0x0E))), Lit ''.'',
         U (unat (buf ! 0x0E AND 0x0F)), Lit '' present.'']"
  have "run_state (legacy_decode os buf devmem flags) s
      = run_state (do { announce ?as; use_entry os (dump_legacy buf) e devmem flags }) s"
    using Some assms
    by (auto simp: legacy_decode_def parse_legacy_def run_entry Let_def
        use_entry_def announce_def split_beta split: if_splits)
  then show ?thesis unfolding Some
    by (rule runs_as_cong) (intro runs_as_Some prints_announce, simp)
qed

subsection \<open>Decoding a dump file\<close>

text \<open>The entry point of a dump and the flags its table is decoded with; and the table itself.\<close>

definition dump_entry :: "bool \<Rightarrow> u8 list \<Rightarrow> (entry \<times> u32) option" where
  "dump_entry no_quirks bytes = (
     if length bytes < 32 then None
     else if take 5 bytes = ascii ''_SM3_''
       then map_option (\<lambda>e. (e, FLAG_STOP_AT_EOT)) (parse_smbios3 (take 32 bytes) 32)
     else if take 4 bytes = ascii ''_SM_''
       then map_option (\<lambda>e. (e, 0)) (parse_smbios no_quirks (take 32 bytes) 32)
     else if take 5 bytes = ascii ''_DMI_''
       then map_option (\<lambda>e. (e, 0)) (parse_legacy (take 32 bytes))
     else None)"

definition dump_table :: "u8 list \<Rightarrow> entry \<Rightarrow> u8 list option" where
  "dump_table bytes e = (if 0 \<le> e_base e \<and> e_base e < int (length bytes)
     then Some (take (unat (e_len e)) (drop (nat (e_base e)) bytes)) else None)"

lemma prints_dmi_table_get: "prints (dmi_table_get os base len num full name flags)"
  unfolding dmi_table_get_def announce_table_def
  by (intro prints_intros) (auto split: prod.split intro!: prints_intros)

lemma prints_run: "prints m \<Longrightarrow> \<exists>out err. run_state m s = (fst (run_state m s), s\<lparr>st_out := out, st_err := err\<rparr>)"
  using printsD [of m s] by (metis prod.collapse)

lemma table_get_dump:
  assumes f: "plain_file os name bytes" and e: "0 < length bytes"
    and from_dump: "o_flags (st_opt s) AND FLAG_FROM_DUMP \<noteq> 0" and flags: "flags AND FLAG_NO_FILE_OFFSET = 0"
  shows "case dump_table bytes e of
      None \<Rightarrow> fst (fst (run_state (dmi_table_get os (e_base e) (e_len e) num full name flags) s)) = None
    | Some T \<Rightarrow> fst (run_state (dmi_table_get os (e_base e) (e_len e) num full name flags) s)
        = (Some T, of_nat (length T))"
proof -
  have pa: "prints (announce_table (e_base e) (e_len e) num full)"
    unfolding announce_table_def by (intro prints_intros) simp_all
  obtain out err where a: "run_state (announce_table (e_base e) (e_len e) num full) s
      = ((), s\<lparr>st_out := out, st_err := err\<rparr>)"
    using prints_run [OF pa, of s] by auto
  let ?s = "s\<lparr>st_out := out, st_err := err\<rparr>"
  have fst: "fst (run_state (dmi_table_get os (e_base e) (e_len e) num full name flags) s)
      = (let r = fst (run_state (read_file os (e_base e) (unat (e_len e)) name) ?s) in (fst r, of_nat (snd r)))"
    using from_dump flags by (simp add: dmi_table_get_def a split_beta Let_def)
  show ?thesis
  proof (cases "0 \<le> e_base e \<and> e_base e < int (length bytes)")
    case True
    then have base: "nat (e_base e) < length bytes" "int (nat (e_base e)) = e_base e" by auto
    have T: "dump_table bytes e = Some (take (unat (e_len e)) (drop (nat (e_base e)) bytes))"
      using True by (simp add: dump_table_def)
    show ?thesis
      unfolding fst T option.case
      using read_plain_file [OF f base(1), of "unat (e_len e)" ?s, unfolded base(2)]
      by (simp add: min.commute)
  next
    case False
    then show ?thesis
      unfolding fst using read_plain_file_outside [OF f, of "e_base e" "unat (e_len e)" ?s]
      by (auto simp: dump_table_def Let_def)
  qed
qed

lemma use_entry_dump:
  assumes f: "plain_file os name bytes" and e: "0 < length bytes"
    and from_dump: "o_flags (st_opt s) AND FLAG_FROM_DUMP \<noteq> 0" and flags: "flags AND FLAG_NO_FILE_OFFSET = 0"
    and no_dump: "o_flags (st_opt s) AND FLAG_DUMP_BIN = 0"
  shows "\<exists>out err. let s' = s\<lparr>st_out := out, st_err := err\<rparr> in
    run_state (use_entry os craft e name flags) s = (True, case dump_table bytes e of None \<Rightarrow> s'
      | Some T \<Rightarrow> snd (run_state (dmi_table_decode (os_env os) (of_nat (length T)) (e_num e) (e_version e) flags)
          (s'\<lparr>st_mem := T\<rparr>)))"
proof -
  let ?get = "dmi_table_get os (e_base e) (e_len e) (e_num e) (e_full e) name flags"
  obtain out err where get: "run_state ?get s = (fst (run_state ?get s), s\<lparr>st_out := out, st_err := err\<rparr>)"
    using prints_run [OF prints_dmi_table_get] by blast
  have t: "case dump_table bytes e of None \<Rightarrow> fst (fst (run_state ?get s)) = None
    | Some T \<Rightarrow> fst (run_state ?get s) = (Some T, of_nat (length T))"
    using table_get_dump [OF f e from_dump flags] .
  have "run_state (use_entry os craft e name flags) s = (True, case dump_table bytes e of
      None \<Rightarrow> s\<lparr>st_out := out, st_err := err\<rparr>
    | Some T \<Rightarrow> snd (run_state (dmi_table_decode (os_env os) (of_nat (length T)) (e_num e) (e_version e) flags)
        (s\<lparr>st_out := out, st_err := err\<rparr>\<lparr>st_mem := T\<rparr>)))"
  proof (cases "dump_table bytes e")
    case None
    then obtain l where "fst (run_state ?get s) = (None, l)" using t by (cases "fst (run_state ?get s)") auto
    with None get show ?thesis by (simp add: use_entry_def use_table_def)
  next
    case (Some T)
    then have "fst (run_state ?get s) = (Some T, of_nat (length T))" using t by simp
    with Some get no_dump show ?thesis by (simp add: use_entry_def use_table_def load_table_def split_beta)
  qed
  then show ?thesis unfolding Let_def by blast
qed

text \<open>\<open>decode_dump\<close> does what the specification says with any file.\<close>

definition decodes_as :: "os \<Rightarrow> st \<Rightarrow> st \<Rightarrow> u8 list \<Rightarrow> (entry \<times> u32) option \<Rightarrow> bool" where
  "decodes_as os s t bytes e \<longleftrightarrow> (\<exists>out err. let s' = s\<lparr>st_out := out, st_err := err\<rparr> in
     t = (case e of None \<Rightarrow> s' | Some (e, flags) \<Rightarrow> (case dump_table bytes e of None \<Rightarrow> s'
       | Some T \<Rightarrow> snd (run_state (dmi_table_decode (os_env os) (of_nat (length T)) (e_num e) (e_version e) flags)
          (s'\<lparr>st_mem := T\<rparr>)))))"

lemma upd_twice: "s\<lparr>st_out := a, st_err := b\<rparr>\<lparr>st_out := c, st_err := d\<rparr> = s\<lparr>st_out := c, st_err := d\<rparr>" for s :: st
  by simp

lemma decodes_as_mono: "decodes_as os (s\<lparr>st_out := a, st_err := b\<rparr>) t bytes e \<Longrightarrow> decodes_as os s t bytes e"
  unfolding decodes_as_def upd_twice .

lemma decodes_as_prints: "prints m \<Longrightarrow> decodes_as os s (snd (run_state m s)) bytes None"
  using printsD [of m s] by (auto simp: decodes_as_def Let_def)

lemma prints_finish: "prints (finish_found found code)"
  unfolding finish_found_def by (intro prints_intros) simp

lemma runs_as_decodes:
  assumes f: "plain_file os name bytes" and l: "0 < length bytes"
    and from_dump: "o_flags (st_opt s) AND FLAG_FROM_DUMP \<noteq> 0" and flags: "flags AND FLAG_NO_FILE_OFFSET = 0"
    and no_dump: "o_flags (st_opt s) AND FLAG_DUMP_BIN = 0"
    and m: "runs_as m s e (\<lambda>e. use_entry os craft e name flags)"
  shows "decodes_as os s (snd (run_state (do { found \<leftarrow> m; finish_found found 0 }) s)) bytes
    (map_option (\<lambda>e. (e, flags)) e)"
proof -
  obtain out err where r: "run_state m s = (case e of None \<Rightarrow> (False, s\<lparr>st_out := out, st_err := err\<rparr>)
      | Some e \<Rightarrow> run_state (use_entry os craft e name flags) (s\<lparr>st_out := out, st_err := err\<rparr>))"
    using m unfolding runs_as_def Let_def by blast
  have fin: "run_state (finish_found True 0) t = (0, t)" for t
    by (simp add: finish_found_def if_then_def)
  show ?thesis
  proof (cases e)
    case None
    show ?thesis
      using r None printsD [OF prints_finish, of False 0 "s\<lparr>st_out := out, st_err := err\<rparr>"]
      by (auto simp: decodes_as_def Let_def)
  next
    case (Some e')
    let ?s = "s\<lparr>st_out := out, st_err := err\<rparr>"
    obtain o2 e2 where use: "run_state (use_entry os craft e' name flags) ?s = (True,
      case dump_table bytes e' of None \<Rightarrow> ?s\<lparr>st_out := o2, st_err := e2\<rparr>
      | Some T \<Rightarrow> snd (run_state (dmi_table_decode (os_env os) (of_nat (length T)) (e_num e') (e_version e') flags)
          (?s\<lparr>st_out := o2, st_err := e2\<rparr>\<lparr>st_mem := T\<rparr>)))"
      using use_entry_dump [OF f l _ flags, of ?s craft e'] from_dump no_dump unfolding Let_def by auto
    then have "decodes_as os ?s (snd (run_state (use_entry os craft e' name flags) ?s)) bytes (Some (e', flags))"
      unfolding decodes_as_def Let_def by auto
    moreover have "run_state (do { found \<leftarrow> m; finish_found found 0 }) s
        = (0, snd (run_state (use_entry os craft e' name flags) ?s))"
      using r Some fin use by (simp add: split_beta)
    ultimately show ?thesis using Some by (simp add: decodes_as_mono)
  qed
qed

lemma decode_dump_spec:
  assumes f: "plain_file os name bytes" and name: "o_dumpfile (st_opt s) = name"
    and from_dump: "o_flags (st_opt s) AND FLAG_FROM_DUMP \<noteq> 0"
    and no_dump: "o_flags (st_opt s) AND FLAG_DUMP_BIN = 0"
  shows "decodes_as os s (snd (run_state (decode_dump os) s)) bytes
    (dump_entry (o_flags (st_opt s) AND FLAG_NO_QUIRKS \<noteq> 0) bytes)"
proof -
  let ?as = "[Lit ''Reading SMBIOS/DMI data from file '', S (Some name), Lit ''.'']"
  have "prints (info ?as)" unfolding info_def by (intro prints_intros) simp
  then obtain out err where i: "run_state (info ?as) s = ((), s\<lparr>st_out := out, st_err := err\<rparr>)"
    using prints_run [of "info ?as" s] by auto
  let ?s = "s\<lparr>st_out := out, st_err := err\<rparr>"
  let ?buf = "take 32 bytes"
  let ?kind = "if take 5 bytes = ascii ''_SM3_'' then smbios3_decode os ?buf 32 name 0
    else if take 4 bytes = ascii ''_SM_'' then smbios_decode os ?buf 32 name 0
    else if take 5 bytes = ascii ''_DMI_'' then legacy_decode os ?buf name 0 else ret False"
  show ?thesis
  proof (cases "bytes = []")
    case True
    then have none: "fst (fst (run_state (read_file os 0 32 name) ?s)) = None"
      using read_plain_file_outside [OF f, of 0 32 ?s] by simp
    have "prints (read_file os 0 32 name)" by (intro prints_intros)
    then show ?thesis
      using none i name printsD [of "read_file os 0 32 name" ?s] True
      by (auto simp: decode_dump_def dump_entry_def decodes_as_def split_beta Let_def get_opt_def)
  next
    case False
    then have rd: "run_state (read_file os 0 32 name) ?s = ((Some ?buf, min 32 (length bytes)), ?s)"
      using read_plain_file [OF f, of 0 32 ?s] by simp
    show ?thesis
    proof (cases "length bytes < 32")
      case True
      show ?thesis
        using True i rd name printsD [OF prints_finish, of False 1 ?s]
        by (auto simp: decode_dump_def dump_entry_def decodes_as_def Let_def get_opt_def)
    next
      case long: False
      have "run_state (decode_dump os) s = run_state (do { found \<leftarrow> ?kind; finish_found found 0 }) ?s"
        using long i rd name by (simp add: decode_dump_def run_anchors get_opt_def min_def)
      moreover have "decodes_as os ?s (snd (run_state (do { found \<leftarrow> ?kind; finish_found found 0 }) ?s)) bytes
          (dump_entry (o_flags (st_opt s) AND FLAG_NO_QUIRKS \<noteq> 0) bytes)"
      proof -
        have l: "length ?buf = 32" "0 < length bytes" using long False by simp_all
        have fl: "o_flags (st_opt ?s) AND FLAG_FROM_DUMP \<noteq> 0" "o_flags (st_opt ?s) AND FLAG_DUMP_BIN = 0"
          using from_dump no_dump by simp_all
        have eot: "(0 OR FLAG_STOP_AT_EOT) AND FLAG_NO_FILE_OFFSET = 0" "0 AND FLAG_NO_FILE_OFFSET = 0"
          by (simp_all add: FLAG_STOP_AT_EOT_def FLAG_NO_FILE_OFFSET_def)
        note d = runs_as_decodes [OF f l(2) fl(1) _ fl(2)]
        note d3 = d [OF eot(1) smbios3_decode_run [where n = 32 and flags = 0]]
          and d2 = d [OF eot(2) smbios_decode_run [where n = 32]]
          and d1 = d [OF eot(2) legacy_decode_run]
        have buf: "32 \<le> length ?buf" "24 \<le> length ?buf" "31 \<le> length ?buf" "16 \<le> length ?buf"
          by (simp_all only: l(1))
        consider (sm3) "take 5 bytes = ascii ''_SM3_''"
          | (sm) "take 5 bytes \<noteq> ascii ''_SM3_''" "take 4 bytes = ascii ''_SM_''"
          | (dmi) "take 5 bytes \<noteq> ascii ''_SM3_''" "take 4 bytes \<noteq> ascii ''_SM_''" "take 5 bytes = ascii ''_DMI_''"
          | (none) "take 5 bytes \<noteq> ascii ''_SM3_''" "take 4 bytes \<noteq> ascii ''_SM_''" "take 5 bytes \<noteq> ascii ''_DMI_''"
          by blast
        then show ?thesis
        proof cases
          case sm3
          show ?thesis using d3 [OF buf(1,2)] by (simp only: dump_entry_def sm3 long if_True if_False or.left_neutral simp_thms)
        next
          case sm
          have "st_opt ?s = st_opt s" by simp
          then show ?thesis using d2 [OF buf(1,3)]
            by (simp only: dump_entry_def sm long if_True if_False simp_thms)
        next
          case dmi
          have "ascii ''_DMI_'' \<noteq> ascii ''_SM3_''" using dmi by metis
          then show ?thesis using d1 [OF buf(4)]
            by (simp only: dump_entry_def dmi long if_True if_False simp_thms)
        next
          case none
          have "prints (do { found \<leftarrow> ret False; finish_found found 0 })"
            by (intro prints_bind prints_ret prints_finish)
          from decodes_as_prints [OF this, of os ?s bytes] show ?thesis
            by (simp only: dump_entry_def none long if_False simp_thms)
        qed
      qed
      ultimately show ?thesis by (metis decodes_as_mono)
    qed
  qed
qed

end
