(* ===== verification/Dump_Image.thy ===== *)
theory Dump_Image
  imports Entry_Spec
begin

section \<open>Dumps are read back\<close>

text \<open>
  The address of the table in a crafted entry point is 32 and its checksum is right
  (\<open>parse_image_smbios3\<close>, \<open>parse_image_smbios\<close>, \<open>parse_image_legacy\<close>): the image
  \<^verbatim>\<open>--dump-bin\<close> writes has the same entry, but for the address, and the table behind it.
  An entry point of the length \<^verbatim>\<open>0x1E\<close>, which \<^verbatim>\<open>smbios_decode\<close> accepts, is the
  exception: the image lacks its last byte, so that the image is accepted only if that byte is 0.
\<close>

subsection \<open>Checksums\<close>

lemma sum_list_upd: "i < length xs \<Longrightarrow> sum_list (xs[i := v]) = sum_list xs - xs ! i + v"
  for v :: "'a :: ab_group_add"
proof (induction xs arbitrary: i)
  case (Cons x xs)
  then show ?case by (cases i) (simp_all add: algebra_simps)
qed simp

lemmas take_upd = take_update_swap

lemma length_overwrite [simp]:
  "length (overwrite_smbios3_address buf) = length buf"
  "length (overwrite_dmi_address k buf) = length buf"
  by (simp_all add: overwrite_smbios3_address_def overwrite_dmi_address_def)

text \<open>The bytes that are not overwritten.\<close>

lemma nth_overwrite:
  "i \<noteq> 5 \<Longrightarrow> i < 0x10 \<or> 0x18 \<le> i \<Longrightarrow> overwrite_smbios3_address buf ! i = buf ! i"
  "i \<noteq> k + 5 \<Longrightarrow> i < k + 8 \<or> k + 12 \<le> i \<Longrightarrow> overwrite_dmi_address k buf ! i = buf ! i"
  by (auto simp: overwrite_smbios3_address_def overwrite_dmi_address_def nth_list_update)

lemma nth_address3:
  assumes "0x18 \<le> length buf"
  shows "overwrite_smbios3_address buf ! 0x10 = 32"
    "0x10 < i \<Longrightarrow> i < 0x18 \<Longrightarrow> overwrite_smbios3_address buf ! i = 0"
  using assms by (auto simp: overwrite_smbios3_address_def nth_list_update)

lemma nth_address:
  assumes "k + 12 \<le> length buf"
  shows "overwrite_dmi_address k buf ! (k + 8) = 32"
    "k + 8 < i \<Longrightarrow> i < k + 12 \<Longrightarrow> overwrite_dmi_address k buf ! i = 0"
  using assms by (auto simp: overwrite_dmi_address_def nth_list_update)

lemma sum_overwrite3:
  assumes "0x18 \<le> l" "l \<le> length buf"
  shows "sum_list (take l (overwrite_smbios3_address buf)) = sum_list (take l buf)"
  using assms by (simp add: overwrite_smbios3_address_def take_upd sum_list_upd nth_list_update)

lemma sum_overwrite:
  assumes "a \<le> k" "k + 12 \<le> a + l" "a + l \<le> length buf"
  shows "sum_list (take l (drop a (overwrite_dmi_address k buf))) = sum_list (take l (drop a buf))"
proof -
  have "drop a (overwrite_dmi_address k buf) = overwrite_dmi_address (k - a) (drop a buf)"
    using assms by (simp add: overwrite_dmi_address_def drop_update_swap add.commute)
  moreover have "sum_list (take l (overwrite_dmi_address j xs)) = sum_list (take l xs)"
    if "j + 12 \<le> l" "l \<le> length xs" for j and xs :: "u8 list"
    using that by (simp add: overwrite_dmi_address_def take_upd sum_list_upd nth_list_update)
  ultimately show ?thesis using assms by simp
qed

subsection \<open>The image\<close>

definition dump_image :: "u8 list \<Rightarrow> u8 list \<Rightarrow> u8 list" where
  "dump_image ep table = ep @ replicate (32 - length ep) 0 @ table"

lemma write_image: "length ep \<le> 32 \<Longrightarrow> write_at 32 table (write_at 0 ep []) = dump_image ep table"
  by (simp add: write_at_def dump_image_def)

lemma take_image: "length ep \<le> 32 \<Longrightarrow> take 32 (dump_image ep table) = ep @ replicate (32 - length ep) 0"
  and drop_image: "length ep \<le> 32 \<Longrightarrow> drop 32 (dump_image ep table) = table"
  by (simp_all add: dump_image_def)

lemma nth_pad: "i < l \<Longrightarrow> l \<le> length c \<Longrightarrow> (take l c @ xs) ! i = c ! i"
  by (simp add: nth_append)

text \<open>What the dump writes, if no call fails.\<close>

lemma run_dmi_table_dump:
  assumes "os_dump os (o_dumpfile (st_opt s)) = None" "ep \<noteq> []" "table \<noteq> []" "length ep \<le> 32" "st_dump s = []"
  shows "st_dump (snd (run_state (dmi_table_dump os ep table) s)) = dump_image ep table"
    and "fst (run_state (dmi_table_dump os ep table) s) = True"
proof -
  have w: "prints (writing_comment n)" for n
    unfolding writing_comment_def by (intro prints_intros) simp
  have r: "\<exists>out err. run_state (writing_comment n) t = ((), t\<lparr>st_out := out, st_err := err\<rparr>)" for n t
    using prints_run [OF w, of n t] by auto
  obtain a b where 1: "run_state (writing_comment (length ep)) s = ((), s\<lparr>st_out := a, st_err := b\<rparr>)"
    using r by blast
  let ?t = "s\<lparr>st_out := a, st_err := b\<rparr>\<lparr>st_dump := write_at 0 ep []\<rparr>"
  obtain c d where 2: "run_state (writing_comment (length table)) ?t = ((), ?t\<lparr>st_out := c, st_err := d\<rparr>)"
    using r by blast
  show "st_dump (snd (run_state (dmi_table_dump os ep table) s)) = dump_image ep table"
    and "fst (run_state (dmi_table_dump os ep table) s) = True"
    using assms 1 2 by (simp_all add: dmi_table_dump_def get_opt_def fwrite_def upd_dump_def write_image)
qed

subsection \<open>The entry of an image\<close>

lemma image_nth: "i < l \<Longrightarrow> l \<le> length c \<Longrightarrow> length c = 32 \<Longrightarrow> dump_image (take l c) t ! i = c ! i"
  by (simp add: dump_image_def nth_append)

lemma take_take_image: "length c = 32 \<Longrightarrow> l \<le> 32 \<Longrightarrow> take l (dump_image (take l c) t) = take l c"
  by (simp add: dump_image_def min_def)

lemma craft3:
  assumes "parse_smbios3 buf n = Some e" "32 \<le> length buf" "n \<le> 32"
  obtains c l where "craft_smbios3 buf = take l c" "c = overwrite_smbios3_address (take 32 buf)"
    "0x18 \<le> l" "l \<le> 32" "l = unat (buf ! 6)" "length c = 32"
proof
  let ?c = "overwrite_smbios3_address (take 32 buf)"
  have "?c ! 6 = buf ! 6" using assms by (simp add: nth_overwrite)
  then show "craft_smbios3 buf = take (unat (buf ! 6)) ?c" by (simp add: craft_smbios3_def Let_def)
  show "0x18 \<le> unat (buf ! 6)" "unat (buf ! 6) \<le> 32"
    using assms by (auto simp: parse_smbios3_def Let_def split: if_splits)
  show "length ?c = 32" using assms by simp
qed simp_all

lemma parse_image_smbios3:
  assumes p: "parse_smbios3 buf n = Some e" and b: "32 \<le> length buf" "n \<le> 32"
  shows "parse_smbios3 (take 32 (dump_image (craft_smbios3 buf) table)) 32 = Some (e\<lparr>e_base := 32\<rparr>)"
proof -
  obtain c l where c: "craft_smbios3 buf = take l c" "c = overwrite_smbios3_address (take 32 buf)"
    "0x18 \<le> l" "l \<le> 32" "l = unat (buf ! 6)" "length c = 32"
    using craft3 [OF p b] .
  let ?i = "take 32 (dump_image (take l c) table)"
  have nth: "dump_image (take l c) table ! i = c ! i" if "i < 0x18" for i
    using that c(3,4,6) by (simp add: image_nth)
  have same: "c ! i = buf ! i" if "i \<noteq> 5" "i < 0x10" for i
    using that b by (simp add: c(2) nth_overwrite)
  have addr: "c ! 0x10 = 32" "c ! 0x11 = 0" "c ! 0x12 = 0" "c ! 0x13 = 0" "c ! 0x14 = 0" "c ! 0x15 = 0"
    "c ! 0x16 = 0" "c ! 0x17 = 0"
    using b unfolding c(2) by (simp_all add: nth_address3)
  have "sum_list (take l ?i) = sum_list (take l buf)"
    using c b sum_overwrite3 [of l "take 32 buf"] by (simp add: take_take_image min_def)
  moreover have "checksum (take l buf)" using p c by (auto simp: parse_smbios3_def Let_def split: if_splits)
  ultimately have "checksum (take l ?i)" by (simp add: checksum_sum_list)
  with p c(3,4) show ?thesis
    unfolding c(1)
    by (auto simp: parse_smbios3_def Let_def nth same addr c(5) [symmetric] word64_at_def word32_at_def
        split: if_splits)
qed

lemma parse_image_legacy:
  assumes p: "parse_legacy buf = Some e" and b: "16 \<le> length buf"
  shows "parse_legacy (take 32 (dump_image (craft_legacy buf) table)) = Some (e\<lparr>e_base := 32\<rparr>)"
proof -
  define c where "c = overwrite_dmi_address 0 (take 16 buf)"
  have len: "length c = 16" using b by (simp add: c_def)
  have nth: "dump_image (take 15 c) table ! i = c ! i" if "i < 15" for i
    using that len by (simp add: dump_image_def nth_append)
  have same: "c ! i = buf ! i" if "i \<noteq> 5" "i < 8 \<or> 12 \<le> i" "i < 16" for i
    using that b by (simp add: c_def nth_overwrite)
  have addr: "c ! 8 = 32" "c ! 9 = 0" "c ! 10 = 0" "c ! 11 = 0"
    using b nth_address [of 0 "take 16 buf"] by (simp_all add: c_def)
  have "take 15 (take 32 (dump_image (take 15 c) table)) = take 15 c"
    using len by (simp add: dump_image_def)
  moreover have "sum_list (take 15 c) = sum_list (take 15 buf)"
    using b sum_overwrite [of 0 0 15 "take 16 buf"] by (simp add: c_def min_def)
  moreover have "checksum (take 15 buf)" using p by (auto simp: parse_legacy_def Let_def split: if_splits)
  ultimately have "checksum (take 15 (take 32 (dump_image (take 15 c) table)))" by (simp add: checksum_sum_list)
  with p show ?thesis
    by (auto simp: craft_legacy_def c_def [symmetric] parse_legacy_def Let_def nth same addr word32_at_def
        word16_at_def split: if_splits)
qed

text \<open>For the 32-bit entry point of the specified length, the two checksums both hold.\<close>

lemma craft:
  assumes "parse_smbios nq buf n = Some e" "32 \<le> length buf" "n \<le> 32"
  obtains c l where "craft_smbios buf = take l c" "c = overwrite_dmi_address 0x10 (take 32 buf)"
    "0x1E \<le> l" "l \<le> 32" "l = unat (buf ! 5)" "length c = 32"
proof
  let ?c = "overwrite_dmi_address 0x10 (take 32 buf)"
  have "?c ! 5 = buf ! 5" using assms by (simp add: nth_overwrite)
  then show "craft_smbios buf = take (unat (buf ! 5)) ?c" by (simp add: craft_smbios_def Let_def)
  show "0x1E \<le> unat (buf ! 5)" "unat (buf ! 5) \<le> 32"
    using assms by (auto simp: parse_smbios_def Let_def split: if_splits)
  show "length ?c = 32" using assms by simp
qed simp_all

lemma sum_take_drop_split:
  "i < length xs \<Longrightarrow> sum_list (take (Suc i) xs) = sum_list (take i xs) + xs ! i" for xs :: "'a :: comm_monoid_add list"
  by (simp add: take_Suc_conv_app_nth)

lemma parse_image_smbios:
  assumes p: "parse_smbios nq buf n = Some e" and b: "32 \<le> length buf" "n \<le> 32"
  shows "parse_smbios nq (take 32 (dump_image (craft_smbios buf) table)) 32
    = (if buf ! 5 = 0x1E \<and> buf ! 0x1E \<noteq> 0 then None else Some (e\<lparr>e_base := 32\<rparr>))"
proof -
  obtain c l where c: "craft_smbios buf = take l c" "c = overwrite_dmi_address 0x10 (take 32 buf)"
    "0x1E \<le> l" "l \<le> 32" "l = unat (buf ! 5)" "length c = 32"
    using craft [OF p b] .
  let ?i = "dump_image (take l c) table"
  have v: "checksum (take l buf)" "take 5 (drop 16 buf) = ascii ''_DMI_''" "checksum (take 15 (drop 16 buf))"
    using p c(5) by (auto simp: parse_smbios_def Let_def split: if_splits)
  have nth: "?i ! i = c ! i" if "i < 30" for i
    using that c(3,4,6) by (simp add: image_nth)
  have last: "?i ! 30 = (if l = 30 then 0 else buf ! 30)"
    using b c(3,4,6) by (auto simp: dump_image_def nth_append c(2) nth_overwrite)
  have same: "c ! i = buf ! i" if "i \<noteq> 0x15" "i < 0x18 \<or> 0x1C \<le> i" "i < 32" for i
    using that b by (simp add: c(2) nth_overwrite)
  have addr: "c ! 0x18 = 32" "c ! 0x19 = 0" "c ! 0x1A = 0" "c ! 0x1B = 0"
    using b nth_address [of 16 "take 32 buf"] by (simp_all add: c(2))
  have "sum_list (take l (take 32 ?i)) = sum_list (take l buf)"
    using c b sum_overwrite [of 0 16 l "take 32 buf"] by (simp add: take_take_image min_def)
  then have outer: "checksum (take l (take 32 ?i))" using v(1) by (simp add: checksum_sum_list)
  have li: "32 \<le> length ?i" using c(4,6) by (simp add: dump_image_def)
  have anchor: "take 5 (drop 16 ?i) = ascii ''_DMI_''"
  proof -
    have "take 5 (drop 16 ?i) = take 5 (drop 16 buf)"
      by (rule nth_equalityI) (use b li in \<open>auto simp: nth same\<close>)
    then show ?thesis using v(2) by simp
  qed
  have inner: "checksum (take 15 (drop 16 ?i)) \<longleftrightarrow> \<not> (l = 30 \<and> buf ! 30 \<noteq> 0)"
  proof -
    have "take 14 (drop 16 ?i) = take 14 (drop 16 c)"
      by (rule nth_equalityI) (use c(6) li in \<open>auto simp: nth\<close>)
    then have "sum_list (take 15 (drop 16 ?i)) = sum_list (take 14 (drop 16 c)) + ?i ! 30"
      using sum_take_drop_split [of 14 "drop 16 ?i"] li by simp
    also have "sum_list (take 14 (drop 16 c)) = sum_list (take 14 (drop 16 buf))"
      using b sum_overwrite [of 16 16 14 "take 32 buf"] by (simp add: c(2) drop_take min_def)
    also have "sum_list (take 14 (drop 16 buf)) + ?i ! 30
        = sum_list (take 15 (drop 16 buf)) - buf ! 30 + ?i ! 30"
      using sum_take_drop_split [of 14 "drop 16 buf"] b by simp
    also have "\<dots> = (if l = 30 then - (buf ! 30) else 0)"
      using v(3) by (simp add: last checksum_sum_list)
    finally show ?thesis by (simp add: checksum_sum_list)
  qed
  have l30: "l = 30 \<longleftrightarrow> buf ! 5 = 0x1E" using c(5) by (simp add: word_unat_eq_iff)
  have "take 15 (drop 16 (take 32 ?i)) = take 15 (drop 16 ?i)" "take 5 (drop 16 (take 32 ?i)) = take 5 (drop 16 ?i)"
    by (simp_all add: drop_take)
  with p c(3,4) outer anchor inner l30 show ?thesis
    unfolding c(1)
    by (auto simp: parse_smbios_def Let_def nth same addr c(5) [symmetric] word32_at_def word16_at_def
        split: if_splits)
qed

subsection \<open>The table behind it\<close>

lemma take_image_front: "j \<le> l \<Longrightarrow> l \<le> length c \<Longrightarrow> take j (dump_image (take l c) t) = take j c"
  by (simp add: dump_image_def min_def)

lemma take_overwrite: "j \<le> 5 \<Longrightarrow> take j (overwrite_smbios3_address buf) = take j buf"
  "j \<le> k + 5 \<Longrightarrow> take j (overwrite_dmi_address k buf) = take j buf"
  by (simp_all add: overwrite_smbios3_address_def overwrite_dmi_address_def)

lemma length_dump_image: "length ep \<le> 32 \<Longrightarrow> length (dump_image ep table) = 32 + length table"
  by (simp add: dump_image_def)

lemma dump_table_image:
  "length ep \<le> 32 \<Longrightarrow> table \<noteq> [] \<Longrightarrow> length table \<le> unat (e_len e)
   \<Longrightarrow> dump_table (dump_image ep table) (e\<lparr>e_base := 32\<rparr>) = Some table"
  by (simp add: dump_table_def length_dump_image drop_image)

lemma anchors_differ: "take 4 xs = ascii ''_SM_'' \<Longrightarrow> take 5 xs \<noteq> ascii ''_SM3_''"
  "take 5 xs = ascii ''_DMI_'' \<Longrightarrow> take 5 xs \<noteq> ascii ''_SM3_'' \<and> take 4 xs \<noteq> ascii ''_SM_''"
proof -
  have t: "take 4 (take 5 xs) = take 4 xs" by simp
  have a: "take 4 (ascii ''_SM3_'') \<noteq> ascii ''_SM_''" "take 4 (ascii ''_DMI_'') \<noteq> ascii ''_SM_''"
    "ascii ''_DMI_'' \<noteq> ascii ''_SM3_''"
    by (simp_all add: ascii_def)
  show "take 4 xs = ascii ''_SM_'' \<Longrightarrow> take 5 xs \<noteq> ascii ''_SM3_''" using t a by metis
  show "take 5 xs = ascii ''_DMI_'' \<Longrightarrow> take 5 xs \<noteq> ascii ''_SM3_'' \<and> take 4 xs \<noteq> ascii ''_SM_''"
    using t a by metis
qed

lemma dump_entry_smbios3:
  assumes p: "parse_smbios3 buf n = Some e" and b: "32 \<le> length buf" "n \<le> 32"
    and a: "take 5 buf = ascii ''_SM3_''"
  shows "dump_entry nq (dump_image (craft_smbios3 buf) table) = Some (e\<lparr>e_base := 32\<rparr>, FLAG_STOP_AT_EOT)"
    and "length (craft_smbios3 buf) \<le> 32" "craft_smbios3 buf \<noteq> []"
proof -
  obtain c l where c: "craft_smbios3 buf = take l c" "c = overwrite_smbios3_address (take 32 buf)"
    "0x18 \<le> l" "l \<le> 32" "l = unat (buf ! 6)" "length c = 32"
    using craft3 [OF p b] .
  have "take 5 (dump_image (craft_smbios3 buf) table) = ascii ''_SM3_''"
    using c a by (simp add: take_image_front take_overwrite)
  moreover have "\<not> length (dump_image (craft_smbios3 buf) table) < 32"
    using c(1,4,6) by (simp add: length_dump_image)
  ultimately show "dump_entry nq (dump_image (craft_smbios3 buf) table) = Some (e\<lparr>e_base := 32\<rparr>, FLAG_STOP_AT_EOT)"
    using parse_image_smbios3 [OF p b, of table] by (simp add: dump_entry_def)
  show "length (craft_smbios3 buf) \<le> 32" "craft_smbios3 buf \<noteq> []"
    unfolding c(1) using c(3,4,6) by auto
qed

lemma dump_entry_smbios:
  assumes p: "parse_smbios nq buf n = Some e" and b: "32 \<le> length buf" "n \<le> 32"
    and a: "take 4 buf = ascii ''_SM_''"
  shows "dump_entry nq (dump_image (craft_smbios buf) table)
      = (if buf ! 5 = 0x1E \<and> buf ! 0x1E \<noteq> 0 then None else Some (e\<lparr>e_base := 32\<rparr>, 0))"
    and "length (craft_smbios buf) \<le> 32" "craft_smbios buf \<noteq> []"
proof -
  obtain c l where c: "craft_smbios buf = take l c" "c = overwrite_dmi_address 0x10 (take 32 buf)"
    "0x1E \<le> l" "l \<le> 32" "l = unat (buf ! 5)" "length c = 32"
    using craft [OF p b] .
  have "take 4 (dump_image (craft_smbios buf) table) = ascii ''_SM_''"
    using c a by (simp add: take_image_front take_overwrite)
  moreover have "\<not> length (dump_image (craft_smbios buf) table) < 32"
    using c(1,4,6) by (simp add: length_dump_image)
  ultimately show "dump_entry nq (dump_image (craft_smbios buf) table)
      = (if buf ! 5 = 0x1E \<and> buf ! 0x1E \<noteq> 0 then None else Some (e\<lparr>e_base := 32\<rparr>, 0))"
    using parse_image_smbios [OF p b, of table] anchors_differ(1) by (simp add: dump_entry_def)
  show "length (craft_smbios buf) \<le> 32" "craft_smbios buf \<noteq> []"
    unfolding c(1) using c(3,4,6) by auto
qed

lemma dump_entry_legacy:
  assumes p: "parse_legacy buf = Some e" and b: "16 \<le> length buf" and a: "take 5 buf = ascii ''_DMI_''"
  shows "dump_entry nq (dump_image (craft_legacy buf) table) = Some (e\<lparr>e_base := 32\<rparr>, 0)"
    and "length (craft_legacy buf) \<le> 32" "craft_legacy buf \<noteq> []"
proof -
  have l: "length (craft_legacy buf) = 15" using b by (simp add: craft_legacy_def)
  have "take 5 (dump_image (craft_legacy buf) table) = ascii ''_DMI_''"
    using b a unfolding craft_legacy_def by (simp add: take_image_front take_overwrite)
  moreover have "\<not> length (dump_image (craft_legacy buf) table) < 32"
    using l by (simp add: length_dump_image)
  ultimately show "dump_entry nq (dump_image (craft_legacy buf) table) = Some (e\<lparr>e_base := 32\<rparr>, 0)"
    using parse_image_legacy [OF p b, of table] anchors_differ(2)
    by (simp add: dump_entry_def)
  show "length (craft_legacy buf) \<le> 32" "craft_legacy buf \<noteq> []" using l by auto
qed

text \<open>The crafted entry point the decoders hand to the dump.\<close>

lemma run_dump_craft:
  "32 \<le> length buf \<Longrightarrow> run_state (dump_smbios3 buf) s = (craft_smbios3 buf, s)"
  "32 \<le> length buf \<Longrightarrow> run_state (dump_smbios buf) s = (craft_smbios buf, s)"
  "16 \<le> length buf \<Longrightarrow> run_state (dump_legacy buf) s = (craft_legacy buf, s)"
  by (simp_all add: run_read_bytes craft_smbios3_def craft_smbios_def craft_legacy_def Let_def)

lemma use_table_dump:
  assumes "run_state craft s = (ep, s)" "ep \<noteq> []" "length ep \<le> 32" "table \<noteq> []" "length table = unat len"
    and "o_flags (st_opt s) AND FLAG_DUMP_BIN \<noteq> 0" "os_dump os (o_dumpfile (st_opt s)) = None" "st_dump s = []"
  shows "st_dump (snd (run_state (use_table os craft (Some table, len) num ver flags) s)) = dump_image ep table"
  using assms run_dmi_table_dump(1) [of os s ep table] by (simp add: use_table_def split_beta)

end
