(* ===== verification/Whole_Program.thy ===== *)
theory Whole_Program
  imports Dump_Image
begin

section \<open>The main function on a dump\<close>

text \<open>
  \<open>run_from_dump\<close>: the command line \<^verbatim>\<open>--from-dump FILE\<close> leads to \<open>decode_dump\<close> with the
  options that \<^verbatim>\<open>dmidecode\<close> sets; \<open>from_dump_ok\<close>: whatever the file holds, the run
  causes no faults but those of the structures of the one table the file names, if it names one,
  and in the table changes only characters of strings.
\<close>

definition image_faults :: "bool \<Rightarrow> u8 list \<Rightarrow> fault set" where
  "image_faults no_quirks bytes = (case dump_entry no_quirks bytes of None \<Rightarrow> {}
     | Some (e, flags) \<Rightarrow> (case dump_table bytes e of None \<Rightarrow> {}
        | Some T \<Rightarrow> table_faults T (length T) (e_num e)))"

lemma length_dump_table: "dump_table bytes e = Some T \<Longrightarrow> unat (of_nat (length T) :: u32) = length T"
proof -
  assume "dump_table bytes e = Some T"
  then have "length T \<le> unat (e_len e)" by (auto simp: dump_table_def split: if_splits)
  then have "length T < 2 ^ 32" using unat_u32_less [of "e_len e"] by (auto intro: le_less_trans)
  then show ?thesis by (simp add: unat_of_nat take_bit_nat_eq_self)
qed

lemma decodes_as_faults:
  assumes d: "decodes_as os s t bytes (dump_entry nq bytes)"
    and s: "st_faults s = []" "st_vendor s = VENDOR_UNKNOWN" "st_product s = None"
  shows "set (st_faults t) \<subseteq> image_faults nq bytes"
proof -
  obtain out err where t: "t = (case dump_entry nq bytes of None \<Rightarrow> s\<lparr>st_out := out, st_err := err\<rparr>
      | Some (e, flags) \<Rightarrow> (case dump_table bytes e of None \<Rightarrow> s\<lparr>st_out := out, st_err := err\<rparr>
       | Some T \<Rightarrow> snd (run_state (dmi_table_decode (os_env os) (of_nat (length T)) (e_num e) (e_version e) flags)
          (s\<lparr>st_out := out, st_err := err\<rparr>\<lparr>st_mem := T\<rparr>))))"
    using d unfolding decodes_as_def Let_def by blast
  show ?thesis
  proof (cases "dump_entry nq bytes")
    case None
    with t s show ?thesis by simp
  next
    case (Some ef)
    obtain e flags where ef: "ef = (e, flags)" by (cases ef)
    show ?thesis
    proof (cases "dump_table bytes e")
      case None
      with t s Some ef show ?thesis by simp
    next
      case T: (Some T)
      let ?A = "table_faults T (length T) (e_num e)"
      have "mem_ok ?A T 0 0 (s\<lparr>st_out := out, st_err := err\<rparr>\<lparr>st_mem := T\<rparr>)"
        using s by (simp add: mem_ok_def prod_ok_def)
      then have "mem_ok ?A T 0 (length T) t"
        using dmi_table_decode_ok [of ?A T _ "of_nat (length T)" "e_num e"] length_dump_table [OF T]
        by (simp add: t Some ef T)
      then have "set (st_faults t) \<subseteq> ?A" by (rule mem_ok_faults)
      then show ?thesis by (simp add: image_faults_def Some ef T)
    qed
  qed
qed

text \<open>The options on the way to \<open>decode_dump\<close>.\<close>

definition dump_opt :: "bool \<Rightarrow> string \<Rightarrow> opt \<Rightarrow> opt" where
  "dump_opt quiet name opt = or_flag FLAG_FROM_DUMP (default_opt quiet opt)\<lparr>o_dumpfile := name\<rparr>"

lemma dump_opt:
  "o_flags (dump_opt quiet name opt) = (if quiet then FLAG_QUIET OR FLAG_FROM_DUMP else FLAG_FROM_DUMP)"
  "o_dumpfile (dump_opt quiet name opt) = name" "o_handle (dump_opt quiet name opt) = NOT 0"
  "o_string (dump_opt quiet name opt) = o_string opt" "o_type (dump_opt quiet name opt) = o_type opt"
  by (simp_all add: dump_opt_def or_flag_def default_opt_def)

lemma dump_flags:
  "o_flags (dump_opt quiet name opt) AND FLAG_DUMP_BIN = 0"
  "o_flags (dump_opt quiet name opt) AND FLAG_FROM_DUMP \<noteq> 0"
  "o_flags (dump_opt quiet name opt) AND FLAG_LIST = 0"
  "o_flags (dump_opt quiet name opt) AND FLAG_HELP = 0"
  "o_flags (dump_opt quiet name opt) AND FLAG_VERSION = 0"
  "o_flags (dump_opt quiet name opt) AND FLAG_NO_QUIRKS = 0"
  by (simp_all add: dump_opt FLAG_DUMP_BIN_def FLAG_FROM_DUMP_def FLAG_QUIET_def FLAG_LIST_def
      FLAG_HELP_def FLAG_VERSION_def FLAG_NO_QUIRKS_def)

lemma run_parse_from_dump:
  assumes "o_string (st_opt s) = None"
  shows "run_state (parse_command_line room [Got CHR ''F'' name]) (s\<lparr>st_opt := default_opt quiet (st_opt s)\<rparr>)
    = (True, s\<lparr>st_opt := dump_opt quiet name (st_opt s)\<rparr>)"
proof -
  have "run_state (on_option room CHR ''F'' name) (s\<lparr>st_opt := default_opt quiet (st_opt s)\<rparr>)
      = (None, s\<lparr>st_opt := dump_opt quiet name (st_opt s)\<rparr>)"
    by (simp add: on_option_def upd_opt_def dump_opt_def or_flag_def)
  moreover have "run_state check_exclusive (s\<lparr>st_opt := dump_opt quiet name (st_opt s)\<rparr>)
      = (True, s\<lparr>st_opt := dump_opt quiet name (st_opt s)\<rparr>)"
    using assms dump_flags(1) [of quiet name "st_opt s"] by (simp add: check_exclusive_def get_opt_def dump_opt)
  ultimately show ?thesis by simp
qed

lemma run_from_dump:
  assumes string: "o_string (st_opt s) = None" and room: "\<And>n. alloc (os_env os) n"
  shows "\<exists>t code. t = s\<lparr>st_cpux := cpux, st_out := st_out t, st_opt := dump_opt quiet name
        (if cpux = None then st_opt s else (st_opt s)\<lparr>o_type := Some cpux_types\<rparr>)\<rparr>
    \<and> run_state (dmidecode os prog [Got CHR ''F'' name] quiet cpux) s
      = (code, (snd (run_state (decode_dump os) t))\<lparr>st_opt :=
          (st_opt (snd (run_state (decode_dump os) t)))\<lparr>o_type := None\<rparr>\<rparr>)
    \<and> code = fst (run_state (decode_dump os) t)"
proof -
  define o1 where "o1 = (if cpux = None then st_opt s else (st_opt s)\<lparr>o_type := Some cpux_types\<rparr>)"
  define s1 where "s1 = s\<lparr>st_cpux := cpux, st_opt := dump_opt quiet name o1\<rparr>"
  have o1: "o_string o1 = None" using string by (simp add: o1_def)
  let ?hello = "if_then (cpux = None) (pr_comment [S (Some prog), Lit '' '', S (Some VERSION), Lit ''\<newline>''])"
  have h: "\<exists>out. run_state ?hello s1 = ((), s1\<lparr>st_out := out\<rparr>)"
    using fmt_ok [of "[S (Some prog), Lit '' '', S (Some VERSION), Lit ''\<newline>'']"]
    by (cases "cpux = None") (auto simp: if_then_def pr_comment_def print_def emit_def intro: exI [of _ "st_out s1"])
  then obtain out where hello: "run_state ?hello s1 = ((), s1\<lparr>st_out := out\<rparr>)" by blast
  have parse: "run_state (parse_command_line (alloc (os_env os)) [Got CHR ''F'' name])
      (s\<lparr>st_cpux := cpux, st_opt := default_opt quiet o1\<rparr>) = (True, s1)"
    using run_parse_from_dump [of "s\<lparr>st_cpux := cpux, st_opt := o1\<rparr>" "alloc (os_env os)" name quiet] o1
    by (simp add: s1_def)
  have opts: "run_state (run_options os prog) s1 = run_state (decode_dump os) (s1\<lparr>st_out := out\<rparr>)"
    using hello dump_flags [of quiet name o1]
    by (simp add: run_options_def get_cpux_def s1_def)
  have pre: "run_state (dmidecode os prog [Got CHR ''F'' name] quiet cpux) s
      = run_state (do { code \<leftarrow> run_options os prog; upd_opt (\<lambda>opt. opt\<lparr>o_type := None\<rparr>); ret code }) s1"
    using parse room by (cases "cpux = None") (simp_all add: dmidecode_def if_then_def upd_opt_def o1_def del: parse_command_line.simps)
  have "run_state (dmidecode os prog [Got CHR ''F'' name] quiet cpux) s
      = (fst (run_state (decode_dump os) (s1\<lparr>st_out := out\<rparr>)),
         (snd (run_state (decode_dump os) (s1\<lparr>st_out := out\<rparr>)))\<lparr>st_opt :=
          (st_opt (snd (run_state (decode_dump os) (s1\<lparr>st_out := out\<rparr>))))\<lparr>o_type := None\<rparr>\<rparr>)"
    by (simp add: pre opts split_beta upd_opt_def)
  moreover have "s1\<lparr>st_out := out\<rparr> = s\<lparr>st_cpux := cpux, st_out := st_out (s1\<lparr>st_out := out\<rparr>),
      st_opt := dump_opt quiet name o1\<rparr>"
    by (simp add: s1_def)
  ultimately show ?thesis unfolding o1_def [symmetric] by blast
qed

lemma from_dump_ok:
  assumes f: "plain_file os name bytes" and string: "o_string (st_opt s) = None"
    and s: "st_faults s = []" "st_vendor s = VENDOR_UNKNOWN" "st_product s = None"
  shows "set (st_faults (snd (run_state (dmidecode os prog [Got CHR ''F'' name] quiet cpux) s)))
    \<subseteq> image_faults False bytes"
proof -
  have room: "\<And>n. alloc (os_env os) n" using f by (auto simp: plain_file_def)
  obtain t code where t: "t = s\<lparr>st_cpux := cpux, st_out := st_out t, st_opt := dump_opt quiet name
        (if cpux = None then st_opt s else (st_opt s)\<lparr>o_type := Some cpux_types\<rparr>)\<rparr>"
    "run_state (dmidecode os prog [Got CHR ''F'' name] quiet cpux) s
      = (code, (snd (run_state (decode_dump os) t))\<lparr>st_opt :=
          (st_opt (snd (run_state (decode_dump os) t)))\<lparr>o_type := None\<rparr>\<rparr>)"
    using run_from_dump [OF string room, where cpux = cpux and quiet = quiet and name = name and prog = prog] by blast
  have opt: "st_opt t = dump_opt quiet name
      (if cpux = None then st_opt s else (st_opt s)\<lparr>o_type := Some cpux_types\<rparr>)"
    by (subst t(1)) simp
  have "st_faults t = []" "st_vendor t = VENDOR_UNKNOWN" "st_product t = None"
    using s by (subst t(1), simp)+
  moreover have "decodes_as os t (snd (run_state (decode_dump os) t)) bytes (dump_entry False bytes)"
    using decode_dump_spec [OF f, of t] by (simp add: opt dump_opt(2) dump_flags)
  ultimately have "set (st_faults (snd (run_state (decode_dump os) t))) \<subseteq> image_faults False bytes"
    by (intro decodes_as_faults)
  then show ?thesis by (simp add: t(2))
qed

end
