(* ===== verification/Example_Data.thy ===== *)
theory Example_Data
  imports Whole_Program
begin

section \<open>Data for the examples\<close>

text \<open>The concrete inputs the properties are tried on: an option record, an environment and small
  tables.\<close>

definition plain_opt :: opt where
  "plain_opt = \<lparr>o_flags = 0, o_type = None, o_string = None, o_handle = NOT 0,
     o_devmem = [], o_dumpfile = []\<rparr>"

definition plain_ext :: externals where
  "plain_ext = \<lparr>ntop = (\<lambda>_ _. []), gettext = id, alloc = (\<lambda>_. True)\<rparr>"

definition small_table :: "u8 list" where
  "small_table = [32, 11, 1, 0, 0, 0, 0, 0, 0, 0, 0, 0, 0, 127, 4, 2, 0, 0, 0]"

end
