(* ===== verification/Field_Properties.thy ===== *)
theory Field_Properties
  imports Example_Data
begin

section \<open>Properties of the fields\<close>

text \<open>
  What the decoder prints for one field, and what CPU-X stores for it, stated for every value of
  the field: numbers in little-endian order, strings, lists of bits, sizes, voltages; and where the
  code does something else than it means to.
\<close>

text \<open>Printing one attribute, as an equation.\<close>

lemma run_pr_attr: "args_ok as \<Longrightarrow> run_state (pr_attr name as) s
    = ((), s\<lparr>st_out := st_out s @ [PrAttr name (fmt_text as)]\<rparr>)"
  using fmt_ok [of as] by (auto simp: pr_attr_def print_def emit_def fmt_text_def)

lemma run_state_pure: "run_state (ret x) s = (x, s)"
  by simp

subsection \<open>Numbers\<close>

fun le_value :: "u8 list \<Rightarrow> nat" where
  "le_value [] = 0"
| "le_value (b # bs) = unat b + 256 * le_value bs"

lemma le_value_less: "le_value bs < 256 ^ length bs"
proof (induction bs)
  case (Cons b bs)
  then have "unat b + 256 * (le_value bs + 1) \<le> 255 + 256 * 256 ^ length bs"
    by (intro add_mono mult_left_mono) simp_all
  then show ?case by simp
qed simp

lemma of_nat_unat_ucast: "of_nat (unat b) = (ucast b :: 'a :: len word)" for b :: "'b :: len word"
  by (rule of_nat_unat)

lemma ucast_of_nat_small: "n < 2 ^ 32 \<Longrightarrow> (ucast (of_nat n :: u32) :: u64) = of_nat n"
proof -
  assume "n < 2 ^ 32"
  then have "unat (of_nat n :: u32) = n" by (simp add: unat_of_nat take_bit_nat_eq_self)
  then show ?thesis by (metis of_nat_unat)
qed

lemma le_value_append: "le_value (xs @ ys) = le_value xs + 256 ^ length xs * le_value ys"
  by (induction xs) (simp_all add: algebra_simps)

lemma take_4_drop: "x + 4 \<le> length m
    \<Longrightarrow> take 4 (drop x m) = [m ! x, m ! (x + 1), m ! (x + 2), m ! (x + 3)]"
  by (intro nth_equalityI) (auto simp: less_Suc_eq numeral_eq_Suc)

lemma run_DWORD: "x + 4 \<le> length (st_mem s)
    \<Longrightarrow> run_state (DWORD x) s = (of_nat (le_value (take 4 (drop x (st_mem s)))), s)"
  by (simp add: DWORD_def run_rd8 take_4_drop push_bit_eq_mult of_nat_unat_ucast algebra_simps)

text \<open>The reads of 16, 32 and 64 bits take their bytes in little-endian order, without wrap-around,
  and change nothing.\<close>

lemma little_endian_reads:
  assumes "x + 8 \<le> length (st_mem s)"
  shows "run_state (WORD x) s = (of_nat (le_value (take 2 (drop x (st_mem s)))), s)
    \<and> run_state (DWORD x) s = (of_nat (le_value (take 4 (drop x (st_mem s)))), s)
    \<and> run_state (QWORD x) s = (of_nat (le_value (take 8 (drop x (st_mem s)))), s)
    \<and> le_value (take 2 (drop x (st_mem s))) < 2 ^ 16
    \<and> le_value (take 4 (drop x (st_mem s))) < 2 ^ 32
    \<and> le_value (take 8 (drop x (st_mem s))) < 2 ^ 64"
proof -
  let ?m = "st_mem s"
  have t2: "take 2 (drop x ?m) = [?m ! x, ?m ! (x + 1)]"
    using assms by (intro nth_equalityI) (auto simp: less_Suc_eq numeral_eq_Suc)
  have t8: "take 8 (drop x ?m) = take 4 (drop x ?m) @ take 4 (drop (x + 4) ?m)"
    using take_add [of 4 4 "drop x ?m"] by (simp add: add.commute)
  define lo hi where "lo = le_value (take 4 (drop x ?m))" and "hi = le_value (take 4 (drop (x + 4) ?m))"
  have bound: "lo < 2 ^ 32" "hi < 2 ^ 32"
    using le_value_less [of "take 4 (drop x ?m)"] le_value_less [of "take 4 (drop (x + 4) ?m)"] assms
    by (simp_all add: lo_def hi_def)
  have v8: "le_value (take 8 (drop x ?m)) = lo + 2 ^ 32 * hi"
    using assms by (simp add: t8 le_value_append lo_def hi_def)
  have word: "run_state (WORD x) s = (of_nat (le_value (take 2 (drop x ?m))), s)"
    using assms by (simp add: WORD_def run_rd8 t2 push_bit_eq_mult of_nat_unat_ucast)
  have dword: "run_state (DWORD x) s = (of_nat lo, s)" "run_state (DWORD (x + 4)) s = (of_nat hi, s)"
    using assms by (simp_all add: run_DWORD lo_def hi_def)
  have "run_state (QWORD x) s = (of_nat (le_value (take 8 (drop x ?m))), s)"
    unfolding v8 using dword bound by (simp add: QWORD_def ucast_of_nat_small push_bit_eq_mult mult.commute)
  moreover have "le_value (take 2 (drop x ?m)) < 2 ^ 16"
    using le_value_less [of "take 2 (drop x ?m)"] assms by simp
  moreover have "lo + 2 ^ 32 * hi < 2 ^ 64" using bound by simp
  ultimately show ?thesis using word dword(1) bound(1) unfolding v8 lo_def by simp
qed

lemma little_endian_reads_example:
  "2 + 8 \<le> length (st_mem (start_state [0, 0, 1, 2, 3, 4, 5, 6, 7, 8] plain_opt None))
   \<and> fst (run_state (WORD 2) (start_state [0, 0, 1, 2, 3, 4, 5, 6, 7, 8] plain_opt None)) = 0x0201"
  using little_endian_reads [of 2 "start_state [0, 0, 1, 2, 3, 4, 5, 6, 7, 8] plain_opt None"]
  by (simp add: start_state_def)

subsection \<open>Checksums\<close>

text \<open>The checksum of an entry point notices every change of a single byte.\<close>

lemma checksum_detects_change:
  assumes "i < length bs" "v \<noteq> bs ! i" "checksum bs"
  shows "\<not> checksum (bs[i := v])"
  using assms by (simp add: checksum_sum_list sum_list_upd)

lemma checksum_detects_change_example:
  "2 < length [250 :: u8, 5, 1] \<and> (7 :: u8) \<noteq> [250, 5, 1] ! 2 \<and> checksum [250, 5, 1]
   \<and> \<not> checksum ([250, 5, 1][2 := 7])"
proof -
  have "2 < length [250 :: u8, 5, 1]" "(7 :: u8) \<noteq> [250, 5, 1] ! 2" "checksum [250, 5, 1]"
    by (simp_all add: checksum_def)
  with checksum_detects_change [of 2 "[250, 5, 1]" 7] show ?thesis by blast
qed

subsection \<open>Strings\<close>

text \<open>C37: \<^verbatim>\<open>dmi_string\<close> yields the text of string number \<open>n\<close> of the structure, its unprintable
  characters replaced by dots; a fixed text for number 0, and the empty string for a number the
  structure has no string for.\<close>

lemma dmi_string_text:
  assumes "terminated (st_mem s) k" "h_data h + hlen h \<le> k"
  shows "fst (run_state (dmi_string h n) s) =
    (let ss = string_set (drop (h_data h + hlen h) (st_mem s)) in
     if n = 0 then ''Not Specified''
     else if unat n \<le> length ss then map (char_of_u8 \<circ> dot) (ss ! (unat n - 1)) else [])"
  using run_dmi_string [OF assms, of n] by (simp add: Let_def)

text \<open>A structure of four bytes with the strings \<^verbatim>\<open>Hi\<close> and \<^verbatim>\<open>A\<close>, the second with an escape character.\<close>

definition hello_table :: "u8 list" where
  "hello_table = [11, 4, 0, 0, 72, 105, 0, 65, 27, 0, 0, 0]"

lemma hello_strings: "string_set (drop 4 hello_table) = [[72, 105], [65, 27]]"
  by (simp add: hello_table_def string_set.simps)

lemma dmi_string_text_example:
  "terminated (st_mem (start_state hello_table plain_opt None)) 9
   \<and> h_data (header_at hello_table 0) + hlen (header_at hello_table 0) \<le> 9
   \<and> fst (run_state (dmi_string (header_at hello_table 0) 2) (start_state hello_table plain_opt None)) = ''A.''"
proof -
  have "terminated hello_table 9" by (simp add: terminated_def hello_table_def)
  moreover have h: "h_data (header_at hello_table 0) + hlen (header_at hello_table 0) = 4"
    by (simp add: header_at_def hello_table_def)
  ultimately show ?thesis
    using dmi_string_text [of "start_state hello_table plain_opt None" 9 "header_at hello_table 0" 2]
    by (simp add: start_state_def h hello_strings char_of_u8_def dot_def char_of_def bit_0)
qed

text \<open>The loop over the 16 bytes of a UUID, which stops early, decides whether all of them are
  \<^verbatim>\<open>0xFF\<close> and whether all are 0.\<close>

lemma uuid_scan_all:
  "uuid_scan bs a b = (a \<and> list_all (\<lambda>x. x = 0xFF) bs, b \<and> list_all (\<lambda>x. x = 0) bs)"
  by (induction bs arbitrary: a b) auto

text \<open>The UUID of a system is printed from its 16 bytes, of which those of the first three fields are
  in little-endian order from SMBIOS 2.6 on; two values have a meaning of their own.\<close>

lemma system_uuid_text:
  assumes "p + 16 \<le> length (st_mem s)"
  shows "run_state (dmi_system_uuid (Some pr_attr) attr p ver) s
    = ((), s\<lparr>st_out := st_out s @ [PrAttr attr (let bs = take 16 (drop p (st_mem s)) in
        if list_all (\<lambda>b. b = 0xFF) bs then ''Not Present''
        else if list_all (\<lambda>b. b = 0) bs then ''Not Settable''
        else fmt_text (uuid_format bs (if ver < 0x0206 then [0..<16] else [3, 2, 1, 0, 5, 4, 7, 6] @ [8..<16])))]\<rparr>)"
proof -
  have o: "[3, 2, 1, 0, 5, 4, 7, 6] @ [8..<16] = [3, 2, 1, 0, 5, 4, 7, 6, 8, 9, 10, 11, 12, 13, 14, 15 :: nat]"
    "[0..<16] = [0, 1, 2, 3, 4, 5, 6, 7, 8, 9, 10, 11, 12, 13, 14, 15 :: nat]"
    by (simp_all add: upt_rec)
  show ?thesis
    unfolding o dmi_system_uuid_def
    using assms by (simp add: run_rd_bytes uuid_scan_all run_pr_attr Let_def not_less fmt_text_def)
qed

lemma system_uuid_text_example:
  "0 + 16 \<le> length (st_mem (start_state (replicate 16 255) plain_opt None))
   \<and> run_state (dmi_system_uuid (Some pr_attr) ''UUID'' 0 0x0300) (start_state (replicate 16 255) plain_opt None)
     = ((), (start_state (replicate 16 255) plain_opt None)\<lparr>st_out := [PrAttr ''UUID'' ''Not Present'']\<rparr>)"
  using system_uuid_text [of 0 "start_state (replicate 16 255) plain_opt None" "''UUID''" "0x0300"]
  by (simp add: start_state_def list_all_iff)

subsection \<open>Lists of bits\<close>

text \<open>The detail of a memory device lists the names of the bits that are set, separated by single
  spaces, and fits the array of 172 bytes it is built in.\<close>

lemma type_detail_text:
  "run_state (dmi_memory_device_type_detail_str code) s =
     (if code AND 0xFFFE = 0 then ''None''
      else words_of (map (\<lambda>i. type_detail_tbl ! (i - 1)) (filter (bit code) [1..<16])), s)
   \<and> length (words_of (map (\<lambda>i. type_detail_tbl ! (i - 1)) (filter (bit code) [1..<16]))) < 172"
proof
  let ?name = "\<lambda>i. tab type_detail_tbl (i - 1)"
  have ok: "names_ok 172 [1..<16] ?name"
    by (simp add: names_ok_def type_detail_tbl_def upt_rec)
  have names: "set_names [1..<16] code ?name = map (\<lambda>i. type_detail_tbl ! (i - 1)) (filter (bit code) [1..<16])"
    unfolding set_names_def by (rule map_cong [OF refl]) (auto simp: type_detail_tbl_def)
  have "run_state (join_bits 172 [1..<16] code ?name []) s = (words_of (set_names [1..<16] code ?name), s)"
    using ok by (intro run_join_bits) (auto simp: names_ok_def list_all_iff)
  then show "run_state (dmi_memory_device_type_detail_str code) s =
     (if code AND 0xFFFE = 0 then ''None''
      else words_of (map (\<lambda>i. type_detail_tbl ! (i - 1)) (filter (bit code) [1..<16])), s)"
    unfolding dmi_memory_device_type_detail_str_def names by (simp del: One_nat_def)
  have len: "length (words_of xs) \<le> sum_list (map (\<lambda>x. length x + 1) xs) - 1" for xs
    by (induction xs rule: words_of.induct) simp_all
  have sub: "sum_list (map f (filter P xs)) \<le> sum_list (map f xs)" for f :: "nat \<Rightarrow> nat" and P xs
    by (induction xs) auto
  have "length (words_of (map (\<lambda>i. type_detail_tbl ! (i - 1)) (filter (bit code) [1..<16])))
      \<le> sum_list (map (\<lambda>i. length (type_detail_tbl ! (i - 1)) + 1) [1..<16]) - 1"
    by (rule order.trans [OF len]) (simp only: map_map comp_def, rule diff_le_mono, rule sub)
  also have "\<dots> < 172" by (simp add: type_detail_tbl_def upt_rec)
  finally show "length (words_of (map (\<lambda>i. type_detail_tbl ! (i - 1)) (filter (bit code) [1..<16]))) < 172" .
qed

text \<open>Characteristics of which only the bits 8 and 9 are set, 128-bit capability and the Arm64 SoC
  identification, are printed as None although the table has names for them.\<close>

lemma characteristics_high_bits:
  "run_state (dmi_processor_characteristics attr (code AND 0x0300)) s
     = ((), s\<lparr>st_out := st_out s @ [PrAttr attr ''None'']\<rparr>)"
proof -
  have "(code AND 0x0300) AND 0x00FC = (0 :: u16)" by (simp add: and.assoc)
  then show ?thesis
    by (simp add: dmi_processor_characteristics_def run_pr_attr fmt_text_def)
qed

subsection \<open>Sizes and voltages\<close>

text \<open>A size is printed as a whole number of the largest unit that needs at most 20 bits, rounded
  down and not below 1 unless the size is 0.\<close>

lemma memory_size_text:
  assumes "shift \<le> 1"
  shows "\<exists>c i. run_state (dmi_print_memory_size attr code shift) s
      = ((), s\<lparr>st_out := st_out s @ [PrAttr attr (udec c @ '' '' @
          [''bytes'', ''KiB'', ''MiB'', ''GiB'', ''TiB'', ''PiB'', ''EiB'', ''ZiB''] ! (i + shift))]\<rparr>)
    \<and> i \<le> 6 \<and> c * 1024 ^ i \<le> unat code \<and> unat code < (c + 1) * 1024 ^ i \<and> c < 2 ^ 20
    \<and> (c = 0) = (code = 0)"
proof -
  obtain c i where ci: "size_unit code = (c, i)" by force
  note u = size_unit_div [OF ci]
  have "c * 1024 ^ i \<le> unat code" "unat code < (c + 1) * 1024 ^ i"
    unfolding u(1) by (simp_all add: dividend_less_div_times)
  moreover have "(c = 0) = (code = 0)"
  proof
    show "c = 0 \<Longrightarrow> code = 0" using u(4) by (auto simp: unat_eq_0)
    show "code = 0 \<Longrightarrow> c = 0" using u(1) by simp
  qed
  moreover have "run_state (dmi_print_memory_size attr code shift) s
      = ((), s\<lparr>st_out := st_out s @ [PrAttr attr (udec c @ '' '' @
          [''bytes'', ''KiB'', ''MiB'', ''GiB'', ''TiB'', ''PiB'', ''EiB'', ''ZiB''] ! (i + shift))]\<rparr>)"
    using u(2) assms by (simp add: dmi_print_memory_size_def Let_def ci run_pr_attr fmt_text_def)
  ultimately show ?thesis using u(2,3) by blast
qed

lemma memory_size_text_example:
  "(1 :: nat) \<le> 1 \<and> (\<exists>c i. run_state (dmi_print_memory_size ''Size'' 4096 1) (start_state [] plain_opt None)
      = ((), (start_state [] plain_opt None)\<lparr>st_out := st_out (start_state [] plain_opt None) @
          [PrAttr ''Size'' (udec c @ '' '' @
          [''bytes'', ''KiB'', ''MiB'', ''GiB'', ''TiB'', ''PiB'', ''EiB'', ''ZiB''] ! (i + 1))]\<rparr>)
    \<and> i \<le> 6 \<and> c * 1024 ^ i \<le> unat (4096 :: u64) \<and> unat (4096 :: u64) < (c + 1) * 1024 ^ i \<and> c < 2 ^ 20
    \<and> (c = 0) = ((4096 :: u64) = 0))"
  using memory_size_text [of 1 "''Size''" 4096 "start_state [] plain_opt None"] by blast

text \<open>The tenths of a volt of a processor are printed exactly: the division and the conversion in
  single precision lose nothing.\<close>

lemma processor_voltage_exact:
  "run_state (dmi_processor_voltage attr (0x80 OR v)) s
     = ((), s\<lparr>st_out := st_out s @ [PrAttr attr (udec (unat (v AND 0x7F) div 10) @ ''.''
          @ udec (unat (v AND 0x7F) mod 10) @ '' V'')]\<rparr>)"
proof -
  have f: "(0x80 OR v) AND 0x80 \<noteq> (0 :: u8)" "(0x80 OR v) AND 0x7F = v AND 0x7F"
    by (simp_all add: bit.conj_disj_distrib2)
  let ?n = "unat (v AND 0x7F)"
  have "?n < 2 ^ 22" using unat_and_le_right [of v "0x7F"] by simp
  then have "printf_f 1 (float_of_ratio ?n 10) = decimals 1 ?n"
    by (intro printf_f_exact) simp_all
  moreover have "pad0 1 (udec (?n mod 10)) = udec (?n mod 10)"
    by (simp add: pad0_def udec_def to_base.simps)
  ultimately show ?thesis
    using f by (simp add: dmi_processor_voltage_def Let_def run_pr_attr fmt_text_def decimals_def)
qed

text \<open>The voltage of a memory device, in millivolts, is always printed, and exactly when it is a whole
  number of tenths.\<close>

lemma voltage_exact:
  "\<exists>t. run_state (dmi_memory_voltage_value attr code) s = ((), s\<lparr>st_out := st_out s @ [PrAttr attr t]\<rparr>)
     \<and> (if code = 0 then t = ''Unknown''
        else if unat code mod 100 = 0
        then t = udec (unat code div 1000) @ ''.'' @ udec (unat code div 100 mod 10) @ '' V''
        else Some t = map_option (\<lambda>x. x @ '' V'') (printf_g (float_of_ratio (unat code) 1000)))"
proof -
  let ?n = "unat code"
  consider (zero) "code = 0" | (exact) "code \<noteq> 0" "?n mod 100 = 0" | (rest) "code \<noteq> 0" "?n mod 100 \<noteq> 0"
    by blast
  then show ?thesis
  proof cases
    case zero
    then show ?thesis by (simp add: dmi_memory_voltage_value_def run_pr_attr fmt_text_def)
  next
    case exact
    from exact(2) have "100 dvd ?n" by (simp only: dvd_eq_mod_eq_0)
    then obtain k where "?n = 100 * k" by (rule dvdE)
    then have "?n * 10 = ?n div 100 * 1000" by simp
    then have "?n * 10 ^ 1 = ?n div 100 * 1000" by simp
    moreover have "?n div 100 < 2 ^ 22"
      by (rule le_less_trans [OF div_le_dividend]) (rule less_trans [OF unat_u16_less], simp)
    ultimately have "printf_f 1 (float_of_ratio ?n 1000) = decimals 1 (?n div 100)"
      by (intro printf_f_exact) simp_all
    moreover have "pad0 1 (udec (m mod 10)) = udec (m mod 10)" for m
      by (simp add: pad0_def udec_def to_base.simps)
    moreover have "?n div 100 div 10 = ?n div 1000" by (simp only: div_mult2_eq [symmetric]) simp
    ultimately have "printf_f 1 (float_of_ratio ?n 1000)
        = udec (?n div 1000) @ ''.'' @ udec (?n div 100 mod 10)"
      by (simp only: decimals_def power_one_right)
    with exact show ?thesis
      by (simp only: dmi_memory_voltage_value_def Let_def if_False if_True simp_thms)
         (simp add: run_pr_attr fmt_text_def)
  next
    case rest
    have "0 < ?n" using rest(1) by (simp add: unat_gt_0)
    then obtain g where g: "printf_g (float_of_ratio ?n 1000) = Some g"
      using voltage_total [of ?n] by auto
    with rest show ?thesis by (simp add: dmi_memory_voltage_value_def Let_def run_pr_attr fmt_text_def)
  qed
qed

end
