(* ===== verification/Record_Properties.thy ===== *)
theory Record_Properties
  imports Field_Properties
begin

section \<open>Properties of the CPU-X record, the raw dump and the code tables\<close>

text \<open>
  The record CPU-X fills: which texts of the structures it holds (\<open>texts_recorded\<close>), when a value is left over from
  the structure before, and how the number of memory sticks and the array of sticks belong
  together. Then the two loops of the decoder that misbehave, and the code tables.
\<close>

subsection \<open>Stored strings\<close>

text \<open>A string that \<^verbatim>\<open>strncpy\<close> copied into an array of the record is read back as it was if it has
  less than 80 characters; a longer one leaves the array without a terminator, so that reading it
  back as a C string runs beyond the array.\<close>

definition read_back :: "string \<Rightarrow> cstr" where
  "read_back t = (if length t < MAXSTR then Some t else None)"

lemma c_str_put_str:
  assumes "NUL \<notin> set src"
  shows "c_str (put_str src) = read_back src"
proof (cases "length src < MAXSTR")
  case True
  then obtain n where n: "MAXSTR - length src = Suc n" by (cases "MAXSTR - length src") auto
  have "takeWhile (\<lambda>c. c \<noteq> NUL) (src @ NUL # replicate n NUL) = src"
    using assms by (subst takeWhile_append2) auto
  then show ?thesis using True n by (auto simp: c_str_def put_str_def strncpy_arr_def read_back_def)
next
  case False
  then have "set (put_str src) \<subseteq> set src" by (auto simp: put_str_def strncpy_arr_def dest: in_set_takeD)
  then show ?thesis using False assms by (auto simp: c_str_def read_back_def)
qed

text \<open>\<^verbatim>\<open>dmi_string\<close> filters a string where it stands; the memory before and behind has the same texts.\<close>

definition alike :: "u8 list \<Rightarrow> u8 list \<Rightarrow> bool" where
  "alike m m' \<longleftrightarrow> list_all2 (\<lambda>a b. (a = 0 \<longleftrightarrow> b = 0) \<and> dot a = dot b) m m'"

lemma alike_refl: "alike m m"
  by (simp add: alike_def list.rel_refl)

lemma alike_trans: "alike a b \<Longrightarrow> alike b c \<Longrightarrow> alike a c"
  unfolding alike_def by (erule list_all2_trans [rotated]) auto

lemma dot_dot: "dot (dot b) = dot b"
  by (simp add: dot_def)

lemma alike_filtered:
  assumes "p + n \<le> length m" "\<And>i. p \<le> i \<Longrightarrow> i < p + n \<Longrightarrow> m ! i \<noteq> 0"
  shows "alike m (filtered m p n)"
  using assms by (auto simp: alike_def list_all2_conv_all_nth nth_filtered dot_dot)

lemma alike_takeWhile:
  "alike m m' \<Longrightarrow> map dot (takeWhile (\<lambda>b. b \<noteq> 0) m) = map dot (takeWhile (\<lambda>b. b \<noteq> 0) m')"
  unfolding alike_def by (induction rule: list_all2_induct) auto

lemma string_set_alike:
  "alike m m' \<Longrightarrow> map (map dot) (string_set m) = map (map dot) (string_set m')"
proof (induction m arbitrary: m' rule: string_set.induct)
  case (1 bs)
  let ?w = "takeWhile (\<lambda>b. b \<noteq> 0) bs" and ?w' = "takeWhile (\<lambda>b. b \<noteq> 0) m'"
  have w: "map dot ?w = map dot ?w'" using 1(2) by (rule alike_takeWhile)
  then have len: "length ?w = length ?w'" by (metis length_map)
  show ?case
  proof (cases "?w = []")
    case True
    with len have "?w' = []" by simp
    with True show ?thesis by (simp add: string_set.simps [of bs] string_set.simps [of m'])
  next
    case False
    with len have "?w' \<noteq> []" by auto
    have "alike (drop (length ?w + 1) bs) (drop (length ?w + 1) m')" using 1(2) by (simp add: alike_def)
    from 1(1) [OF refl False this] show ?thesis using False \<open>?w' \<noteq> []\<close> w
      by (simp add: string_set.simps [of bs] string_set.simps [of m'] Let_def len)
  qed
qed

text \<open>The text of string number \<open>n\<close> of a structure.\<close>

definition string_text :: "u8 list \<Rightarrow> dmi_header \<Rightarrow> u8 \<Rightarrow> string" where
  "string_text M h n = (let ss = string_set (drop (h_data h + hlen h) M) in
     if n = 0 then ''Not Specified''
     else if unat n \<le> length ss then map (char_of_u8 \<circ> dot) (ss ! (unat n - 1)) else [])"

lemma string_text_alike:
  assumes "alike m m'"
  shows "string_text m h n = string_text m' h n"
proof -
  define ss ss' where "ss = string_set (drop (h_data h + hlen h) m)" and "ss' = string_set (drop (h_data h + hlen h) m')"
  have "alike (drop (h_data h + hlen h) m) (drop (h_data h + hlen h) m')" using assms by (simp add: alike_def)
  then have eq: "map (map dot) ss = map (map dot) ss'" unfolding ss_def ss'_def by (rule string_set_alike)
  then have len: "length ss = length ss'" by (metis length_map)
  show ?thesis
  proof (cases "n = 0 \<or> length ss < unat n")
    case True
    then show ?thesis using len by (auto simp: string_text_def simp flip: ss_def ss'_def)
  next
    case False
    then have "0 < unat n" "unat n \<le> length ss" by (simp_all add: unat_gt_0)
    then have "unat n - 1 < length ss" by linarith
    then have "map dot (ss ! (unat n - 1)) = map dot (ss' ! (unat n - 1))"
      using arg_cong [OF eq, of "\<lambda>x. x ! (unat n - 1)"] len by simp
    then have "map char_of_u8 (map dot (ss ! (unat n - 1))) = map char_of_u8 (map dot (ss' ! (unat n - 1)))" by simp
    then show ?thesis using False len by (simp add: string_text_def flip: ss_def ss'_def)
  qed
qed

lemma string_text_plain: "NUL \<notin> set (string_text M h n)"
proof -
  have "char_of_u8 (dot b) \<noteq> NUL" for b
  proof
    assume "char_of_u8 (dot b) = NUL"
    then have "of_char (char_of (unat (dot b))) = (of_char NUL :: nat)" by (simp only: char_of_u8_def)
    then have "unat (dot b) = 0" using unat_u8_less [of "dot b"] by simp
    then show False by (simp add: unat_eq_zero)
  qed
  then have "NUL \<notin> (char_of_u8 \<circ> dot) ` A" for A by (metis comp_apply imageE)
  then show ?thesis by (simp add: string_text_def Let_def)
qed

text \<open>\<^verbatim>\<open>dmi_string\<close> yields the text and leaves all texts as they are.\<close>

lemma dmi_string_runs:
  assumes "terminated (st_mem s) k" "h_data h + hlen h \<le> k"
  obtains m where "run_state (dmi_string h n) s = (string_text (st_mem s) h n, s\<lparr>st_mem := m\<rparr>)"
    "alike (st_mem s) m" "take (h_data h + hlen h) m = take (h_data h + hlen h) (st_mem s)"
proof -
  let ?f = "h_data h + hlen h"
  define ss where "ss = string_set (drop ?f (st_mem s))"
  have val: "fst (run_state (dmi_string h n) s) = string_text (st_mem s) h n"
    using run_dmi_string [OF assms, of n] by (simp add: string_text_def Let_def)
  have k: "k < length (st_mem s)" "st_mem s ! k = 0" using assms(1) by (simp_all add: terminated_def)
  note raw = run_dmi_string_raw [OF assms, where n = n and f = True, folded ss_def]
  show thesis
  proof (cases "n = 0 \<or> length ss \<le> unat n - 1")
    case True
    then have "snd (run_state (dmi_string h n) s) = s" using raw(1) by (auto simp: dmi_string_def)
    then have "run_state (dmi_string h n) s = (string_text (st_mem s) h n, s\<lparr>st_mem := st_mem s\<rparr>)"
      using val by (simp add: prod_eq_iff)
    then show thesis by (rule that) (simp_all add: alike_refl)
  next
    case False
    then obtain p where p: "?f \<le> p" "p + length (ss ! (unat n - 1)) \<le> k"
      "ss ! (unat n - 1) = takeWhile (\<lambda>b. b \<noteq> 0) (drop p (st_mem s))"
      "run_state (dmi_string_raw h n True) s = (Some p, s\<lparr>st_mem := filtered (st_mem s) p (length (ss ! (unat n - 1)))\<rparr>)"
      using raw(2) by (auto simp: not_le)
    let ?l = "length (ss ! (unat n - 1))" and ?m = "filtered (st_mem s) p (length (ss ! (unat n - 1)))"
    have nz: "st_mem s ! i \<noteq> 0" if "p \<le> i" "i < p + ?l" for i
    proof -
      have "i - p < length (takeWhile (\<lambda>b. b \<noteq> 0) (drop p (st_mem s)))" using that p(3) by simp
      from nth_mem [OF this] have "takeWhile (\<lambda>b. b \<noteq> 0) (drop p (st_mem s)) ! (i - p) \<noteq> 0" by (auto dest: set_takeWhileD)
      then show ?thesis using that p(2,3) k(1) \<open>i - p < _\<close> by (simp add: takeWhile_nth)
    qed
    have mk: "?m ! k = 0" using p(2) k by (subst nth_filtered) auto
    have "run_state (cstring_at p) (s\<lparr>st_mem := ?m\<rparr>)
        = (map char_of_u8 (takeWhile (\<lambda>b. b \<noteq> 0) (drop p ?m)), s\<lparr>st_mem := ?m\<rparr>)"
      using p(2) k mk by (subst run_cstring_at [where k = k]) simp_all
    then have "snd (run_state (dmi_string h n) s) = s\<lparr>st_mem := ?m\<rparr>"
      using False p(4) by (simp add: dmi_string_def)
    then have "run_state (dmi_string h n) s = (string_text (st_mem s) h n, s\<lparr>st_mem := ?m\<rparr>)"
      using val by (simp add: prod_eq_iff)
    moreover have "alike (st_mem s) ?m" by (rule alike_filtered) (use p(2) k nz in auto)
    moreover have "take ?f ?m = take ?f (st_mem s)" using p(1,2) k(1) by (simp add: filtered_def min_def)
    ultimately show thesis by (rule that)
  qed
qed

text \<open>The arrays that hold the texts of a structure of type \<open>t\<close>, and where it has their numbers.\<close>

definition record_texts :: "u8 \<Rightarrow> DmidecodeData \<Rightarrow> char_array list" where
  "record_texts t d =
     (if t = 0 then [bios_brand (d_bios d), bios_version (d_bios d), bios_date (d_bios d)]
      else if t = 2 then [mb_manufacturer (d_mb d), mb_model (d_mb d), mb_revision (d_mb d)]
      else [cpu_package (d_processor d)])"

definition text_offsets :: "u8 \<Rightarrow> nat list" where
  "text_offsets t = (if t = 0 then [0x04, 0x05, 0x08] else if t = 2 then [0x04, 0x05, 0x06] else [0x04])"

lemma string_read:
  assumes M: "alike M (st_mem s)" "take (h_data h + hlen h) (st_mem s) = take (h_data h + hlen h) M"
    and t: "terminated M k" "h_data h + hlen h \<le> k" and i: "i < hlen h"
  obtains m where "run_state (data8 h i) s = (M ! (h_data h + i), s)"
    "run_state (dmi_string h n) s = (string_text M h n, s\<lparr>st_mem := m\<rparr>)"
    "alike M m" "take (h_data h + hlen h) m = take (h_data h + hlen h) M"
proof -
  have len: "length (st_mem s) = length M" using M(1) by (simp add: alike_def list_all2_lengthD)
  have zero: "st_mem s ! j = 0 \<longleftrightarrow> M ! j = 0" if "j < length M" for j
    using M(1) that by (simp add: alike_def list_all2_conv_all_nth)
  have k: "terminated (st_mem s) k" using t(1) zero len by (simp add: terminated_def)
  have "st_mem s ! (h_data h + i) = M ! (h_data h + i)"
    using arg_cong [OF M(2), of "\<lambda>x. x ! (h_data h + i)"] i by simp
  moreover have "h_data h + i < length (st_mem s)" using k t(2) i by (simp add: terminated_def)
  ultimately have "run_state (data8 h i) s = (M ! (h_data h + i), s)" by (simp add: run_rd8)
  moreover obtain m where "run_state (dmi_string h n) s = (string_text (st_mem s) h n, s\<lparr>st_mem := m\<rparr>)"
    "alike (st_mem s) m" "take (h_data h + hlen h) m = take (h_data h + hlen h) (st_mem s)"
    by (rule dmi_string_runs [OF k t(2)])
  ultimately show thesis using that [of m] M alike_trans [OF M(1), of m] string_text_alike [OF M(1), of h n] by simp
qed

text \<open>C37: the record of CPU-X holds, of the structures of the firmware, the board and the processor, the
  texts of the strings whose numbers stand at the given offsets: read back as a C string, each is the text, its
  unprintable characters replaced by dots, if that has less than 80 characters; a longer text
  leaves the array without a terminator.\<close>

theorem texts_recorded:
  assumes "(h_type h, n) \<in> {(0, 0x12), (2, 0x08), (4, 0x1A)}" "n \<le> hlen h"
    and "terminated (st_mem s) k" "h_data h + hlen h \<le> k"
  shows "map c_str (record_texts (h_type h) (fst (run_state (dmi_decode_cpux tr room h d) s)))
    = map (\<lambda>i. read_back (string_text (st_mem s) h (st_mem s ! (h_data h + i)))) (text_offsets (h_type h))"
proof -
  let ?M = "st_mem s"
  have "alike ?M (st_mem s)" by (rule alike_refl)
  obtain m1 where a1: "run_state (data8 h 4) s = (?M ! (h_data h + 4), s)"
    "run_state (dmi_string h (?M ! (h_data h + 4))) s = (string_text ?M h (?M ! (h_data h + 4)), s\<lparr>st_mem := m1\<rparr>)"
    "alike ?M m1" "take (h_data h + hlen h) m1 = take (h_data h + hlen h) ?M"
    by (rule string_read [OF alike_refl refl assms(3,4), of 4]) (use assms(1,2) in auto)
  let ?s1 = "s\<lparr>st_mem := m1\<rparr>"
  obtain m2 where a2: "run_state (data8 h 5) ?s1 = (?M ! (h_data h + 5), ?s1)"
    "run_state (dmi_string h (?M ! (h_data h + 5))) ?s1 = (string_text ?M h (?M ! (h_data h + 5)), ?s1\<lparr>st_mem := m2\<rparr>)"
    "alike ?M m2" "take (h_data h + hlen h) m2 = take (h_data h + hlen h) ?M"
    by (rule string_read [of ?M ?s1 h k 5]) (use assms a1 in auto)
  let ?s2 = "s\<lparr>st_mem := m2\<rparr>" and ?o = "if h_type h = 0 then 8 else 6"
  obtain m3 where a3: "run_state (data8 h ?o) ?s2 = (?M ! (h_data h + ?o), ?s2)"
    "run_state (dmi_string h (?M ! (h_data h + ?o))) ?s2 = (string_text ?M h (?M ! (h_data h + ?o)), ?s2\<lparr>st_mem := m3\<rparr>)"
    by (rule string_read [of ?M ?s2 h k ?o]) (use assms a2 in auto)
  have word: "snd (run_state (data16 h 0x12) s) = s" if "0x1A \<le> hlen h"
    using that assms(3,4) by (simp add: WORD_def run_rd8 terminated_def split_beta)
  note read = c_str_put_str [OF string_text_plain]
  consider "h_type h = 0" "0x12 \<le> hlen h" | "h_type h = 2" "0x08 \<le> hlen h" | "h_type h = 4" "0x1A \<le> hlen h"
    using assms(1,2) by auto
  then show ?thesis
  proof cases
    case 1
    then show ?thesis
      using a1 a2 a3 by (simp add: dmi_decode_cpux_def cpux_bios_def record_texts_def text_offsets_def read split_beta)
  next
    case 2
    then show ?thesis
      using a1 a2 a3 by (simp add: dmi_decode_cpux_def cpux_board_def record_texts_def text_offsets_def read split_beta)
  next
    case 3
    then show ?thesis using a1 word by (simp add: dmi_decode_cpux_def cpux_processor_def record_texts_def text_offsets_def read split_beta)
  qed
qed

text \<open>Records with \<open>n\<close> sticks.\<close>

definition filled :: "nat \<Rightarrow> DmidecodeData" where
  "filled n = \<lparr>d_stick_count = of_nat n,
     d_bios = \<lparr>bios_brand = blank_array, bios_version = blank_array, bios_date = blank_array,
       bios_romsize = blank_array\<rparr>,
     d_mb = \<lparr>mb_manufacturer = blank_array, mb_model = blank_array, mb_revision = blank_array\<rparr>,
     d_processor = \<lparr>bus_freq = 0, cpu_package = blank_array\<rparr>,
     d_memory = replicate n blank_stick\<rparr>"

text \<open>A board of the maker \<^verbatim>\<open>Hi\<close>, of the model \<^verbatim>\<open>A\<close> and an escape character, without a revision.\<close>

definition board_table :: "u8 list" where
  "board_table = [2, 8, 0, 0, 1, 2, 0, 0, 72, 105, 0, 65, 27, 0, 0]"

theorem texts_recorded_witness:
  "map c_str (record_texts 2 (fst (run_state (dmi_decode_cpux id (\<lambda>_. True) (header_at board_table 0) (filled 0))
      (start_state board_table plain_opt None)))) = [Some ''Hi'', Some ''A.'', Some ''Not Specified'']"
proof -
  let ?h = "header_at board_table 0" and ?s = "start_state board_table plain_opt None"
  have h: "h_type ?h = 2" "hlen ?h = 8" "h_data ?h = 0" by (simp_all add: header_at_def board_table_def)
  have mem: "st_mem ?s = board_table" by (simp add: start_state_def)
  have "drop 8 board_table = [72, 105, 0, 65, 27, 0, 0]" by (simp add: board_table_def)
  then have ss: "string_set (drop 8 board_table) = [[72, 105], [65, 27]]" by (simp add: string_set.simps)
  have txts: "read_back (string_text board_table ?h 1) = Some ''Hi''" "read_back (string_text board_table ?h 2) = Some ''A.''"
    "read_back (string_text board_table ?h 0) = Some ''Not Specified''"
    by (simp_all add: string_text_def read_back_def MAXSTR_def h ss char_of_u8_def dot_def char_of_def bit_0)
  have "terminated board_table 13" by (simp add: terminated_def board_table_def)
  then have "map c_str (record_texts (h_type ?h) (fst (run_state (dmi_decode_cpux id (\<lambda>_. True) ?h (filled 0)) ?s)))
      = map (\<lambda>i. read_back (string_text board_table ?h (board_table ! i))) (text_offsets 2)"
    using texts_recorded [of ?h "0x08" ?s 13 id "\<lambda>_. True" "filled 0"] by (simp add: h mem)
  then show ?thesis using txts by (simp add: h text_offsets_def) (simp add: board_table_def)
qed

subsection \<open>Values left over\<close>

text \<open>For a speed of 0, and for an extended speed of 0, the function returns the speed of the memory
  device before; for a size of 0 or an unknown size it returns the size of the one before, and
  prints an attribute although it is to return a text.\<close>

lemma stale_speed_and_size:
  "run_state (dmi_memory_device_speed_str 0 code2) s = (b_speed (st_bufs s), s)
   \<and> run_state (dmi_memory_device_speed_str 0xFFFF 0) s = (b_speed (st_bufs s), s)
   \<and> run_state (dmi_memory_device_size_str 0) s
       = (b_size (st_bufs s), s\<lparr>st_out := st_out s @ [PrAttr ''Size'' ''No Module Installed'']\<rparr>)
   \<and> run_state (dmi_memory_device_size_str 0xFFFF) s
       = (b_size (st_bufs s), s\<lparr>st_out := st_out s @ [PrAttr ''Size'' ''Unknown'']\<rparr>)"
  by (simp add: dmi_memory_device_speed_str_def dmi_memory_device_size_str_def get_bufs_def if_then_def
      run_pr_attr fmt_text_def)

subsection \<open>The memory sticks\<close>

text \<open>The array has as many elements as the count says.\<close>

definition sticks_ok :: "DmidecodeData \<Rightarrow> bool" where
  "sticks_ok d \<longleftrightarrow> length (d_memory d) = unat (d_stick_count d)"

text \<open>The result of \<^verbatim>\<open>cpux_memory\<close> in terms of what it does with the array.\<close>

lemma cpux_memory_result:
  "fst (run_state (cpux_memory tr room h d) s) = d
   \<or> (\<exists>m. fst (run_state (cpux_memory tr room h d) s)
        = d\<lparr>d_memory := (resize (d_memory d) (unat (d_stick_count d) + 1))[unat (d_stick_count d) := m],
            d_stick_count := d_stick_count d + 1\<rparr>)"
proof (cases "hlen h < 0x15")
  case True
  then show ?thesis by (simp add: cpux_memory_def)
next
  case False
  obtain b s1 where b: "run_state (data8 h 0x0E) s = (b, s1)" by force
  show ?thesis
  proof (cases "dmi_memory_device_form_factor b")
    case None
    with False b show ?thesis by (simp add: cpux_memory_def fault_def split_beta)
  next
    case (Some form)
    show ?thesis
      using False b Some
      by (cases "strstr form ''Unknown''"; cases "room (unat (d_stick_count d) + 1)")
         (auto simp: cpux_memory_def Let_def split_beta)
  qed
qed

lemma length_resize: "length (resize xs n) = n"
  by (simp add: resize_def)

text \<open>C35: decoding a structure for CPU-X keeps the number of sticks and the length of their array equal,
  as long as there are fewer than 255; the sticks stored before are kept.\<close>

theorem stick_count_invariant:
  assumes "sticks_ok d" "d_stick_count d \<noteq> 255"
  shows "sticks_ok (fst (run_state (cpux_memory tr room h d) s))
    \<and> take (unat (d_stick_count d)) (d_memory (fst (run_state (cpux_memory tr room h d) s))) = d_memory d"
proof -
  have "unat (d_stick_count d) \<noteq> 255" using assms(2) by (simp add: word_unat_eq_iff)
  then have "unat (d_stick_count d) < 255" using unat_u8_le [of "d_stick_count d"] by linarith
  then have n: "unat (d_stick_count d + 1) = unat (d_stick_count d) + 1"
    by (simp add: unat_word_ariths)
  show ?thesis
    using cpux_memory_result [of tr room h d s] assms(1) n
    by (auto simp: sticks_ok_def length_resize resize_def take_update_cancel)
qed

text \<open>The structure describes a memory stick: it is long enough and its form factor is known.\<close>

definition describes_stick :: "u8 list \<Rightarrow> dmi_header \<Rightarrow> bool" where
  "describes_stick M h \<longleftrightarrow> 0x15 \<le> hlen h \<and> h_data h + 0x0E < length M
     \<and> (case dmi_memory_device_form_factor (M ! (h_data h + 0x0E)) of
          None \<Rightarrow> False | Some form \<Rightarrow> \<not> strstr form ''Unknown'')"

text \<open>C36: a structure that describes a memory stick is always stored; the 256th makes the count, a byte,
  wrap to 0 although the array then holds 256 sticks.\<close>

theorem stick_count_wraps:
  assumes "d_stick_count d = 255" "describes_stick (st_mem s) h" "room 256"
  shows "d_stick_count (fst (run_state (cpux_memory tr room h d) s)) = 0
      \<and> length (d_memory (fst (run_state (cpux_memory tr room h d) s))) = 256"
  using assms
  by (auto simp: describes_stick_def cpux_memory_def run_rd8 Let_def split_beta length_resize
      split: option.splits)

theorem stick_count_invariant_witness:
  "sticks_ok (filled 2) \<and> d_stick_count (filled 2) \<noteq> 255
   \<and> sticks_ok (fst (run_state (cpux_memory id (\<lambda>_. True) (header_at small_table 0) (filled 2))
        (start_state small_table plain_opt None)))"
proof -
  have "sticks_ok (filled 2)" "d_stick_count (filled 2) \<noteq> 255"
    by (simp_all add: sticks_ok_def filled_def)
  with stick_count_invariant [of "filled 2" id "\<lambda>_. True" "header_at small_table 0"
    "start_state small_table plain_opt None"] show ?thesis by blast
qed

text \<open>A stick of the form factor DIMM.\<close>

definition dimm_table :: "u8 list" where
  "dimm_table = [17, 0x15, 0, 0, 0, 0, 0, 0, 0, 0, 0, 0, 0, 0, 9, 0, 0, 0, 0, 0, 0, 0, 0]"

theorem stick_count_wraps_witness:
  "d_stick_count (filled 255) = 255 \<and> describes_stick (st_mem (start_state dimm_table plain_opt None)) (header_at dimm_table 0)
   \<and> d_stick_count (fst (run_state (cpux_memory id (\<lambda>_. True) (header_at dimm_table 0) (filled 255))
        (start_state dimm_table plain_opt None))) = 0
   \<and> length (d_memory (fst (run_state (cpux_memory id (\<lambda>_. True) (header_at dimm_table 0) (filled 255))
        (start_state dimm_table plain_opt None)))) = 256"
proof -
  have 1: "d_stick_count (filled 255) = 255" by (simp add: filled_def)
  have 2: "describes_stick (st_mem (start_state dimm_table plain_opt None)) (header_at dimm_table 0)"
    by (simp add: describes_stick_def start_state_def header_at_def dimm_table_def
        dmi_memory_device_form_factor_def Let_def tab_def tab_opt_def)
  show ?thesis using 1 2 stick_count_wraps [OF 1 2, where tr = id and room = "\<lambda>_. True"] by simp
qed

subsection \<open>Shifts and loops\<close>

text \<open>The size of a memory module (type 6) shifts by an amount taken from the table; the shift is
  undefined exactly for the amounts 32 to 124, and nothing else goes wrong.\<close>

lemma module_size_shift_faults:
  "st_faults (snd (run_state (dmi_memory_module_size attr c) s)) = st_faults s
     @ (if 32 \<le> unat (c AND 0x7F) \<and> unat (c AND 0x7F) < 0x7D then [BadShift] else [])"
  by (rule module_size_faults)

lemma run_for_each_Cons:
  "run_state (for_each (x # xs) f) s = run_state (for_each xs f) (snd (run_state (f x) s))"
  by (simp add: split_beta)

text \<open>In quiet mode the loads printed for the devices of a memory channel (type 37) are the bytes
  at \<open>p + 3\<close>, \<open>p + 6\<close> and so on, behind the ones at \<open>p\<close>, \<open>p + 3\<close> where
  the structure has them: the first device is left out, and the last byte read is behind the
  structure when it holds no more than its devices.\<close>

lemma channel_devices_last:
  assumes "o_flags (st_opt s) AND FLAG_QUIET \<noteq> 0" "p + 3 * unat count < length (st_mem s)"
  shows "run_state (dmi_memory_channel_devices count p) s
    = ((), s\<lparr>st_out := st_out s @ map (\<lambda>i. PrAttr (''Device '' @ udec i @ '' Load'')
        (udec (unat (st_mem s ! (p + 3 * i))))) [1..<unat count + 1]\<rparr>)"
proof -
  let ?body = "\<lambda>i. do {
     attr \<leftarrow> sprintf 18 [Lit ''Device '', U (unat (of_nat i :: u8)), Lit '' Load''];
     load \<leftarrow> rd8 (p + 3 * i);
     pr_attr attr [U (unat load)];
     unless_quiet (do {
       attr2 \<leftarrow> sprintf 18 [Lit ''Device '', U (unat (of_nat i :: u8)), Lit '' Handle''];
       w \<leftarrow> WORD (p + 3 * i + 1);
       pr_attr attr2 [Lit ''0x'', X 4 (unat w)] }) }"
  have step: "run_state (?body i) t = ((), t\<lparr>st_out := st_out t @ [PrAttr (''Device '' @ udec i @ '' Load'')
        (udec (unat (st_mem s ! (p + 3 * i))))]\<rparr>)"
    if "i \<le> unat count" "st_mem t = st_mem s" "st_opt t = st_opt s" for i t
  proof -
    have i: "i < 256" using that(1) unat_u8_less [of count] by linarith
    then have "unat (of_nat i :: u8) = i" by (simp add: unat_of_nat take_bit_nat_eq_self)
    moreover have "length (udec i) \<le> 3" using i by (rule length_udec_u8)
    moreover have "p + 3 * i < length (st_mem s)" using that(1) assms(2) by linarith
    ultimately show ?thesis
      using assms(1) that(2,3)
      by (simp add: sprintf_def run_rd8 run_pr_attr fmt_text_def unless_quiet_def if_then_def)
  qed
  have "run_state (for_each xs ?body) t = ((), t\<lparr>st_out := st_out t @ map (\<lambda>i. PrAttr
        (''Device '' @ udec i @ '' Load'') (udec (unat (st_mem s ! (p + 3 * i))))) xs\<rparr>)"
    if "\<forall>i \<in> set xs. i \<le> unat count" "st_mem t = st_mem s" "st_opt t = st_opt s" for xs t
    using that
  proof (induction xs arbitrary: t)
    case (Cons i xs)
    then show ?case by (subst run_for_each_Cons, subst step) (auto simp del: run_state_bind)
  qed simp
  then show ?thesis unfolding dmi_memory_channel_devices_def by simp
qed

lemma channel_devices_last_example:
  "o_flags (st_opt (start_state [0, 7, 8, 9, 10, 0, 0, 0] (plain_opt\<lparr>o_flags := FLAG_QUIET\<rparr>) None)) AND FLAG_QUIET \<noteq> 0
   \<and> 1 + 3 * unat (1 :: u8) < length (st_mem (start_state [0, 7, 8, 9, 10, 0, 0, 0] (plain_opt\<lparr>o_flags := FLAG_QUIET\<rparr>) None))
   \<and> st_out (snd (run_state (dmi_memory_channel_devices 1 1)
        (start_state [0, 7, 8, 9, 10, 0, 0, 0] (plain_opt\<lparr>o_flags := FLAG_QUIET\<rparr>) None)))
     = [PrAttr ''Device 1 Load'' ''10'']"
  using channel_devices_last [of "start_state [0, 7, 8, 9, 10, 0, 0, 0] (plain_opt\<lparr>o_flags := FLAG_QUIET\<rparr>) None" 1 1]
  by (simp add: start_state_def FLAG_QUIET_def udec_def to_base.simps digit_def)

text \<open>C38: the raw dump of a structure ends exactly if it has fewer than 255 strings: the loop counts with
  a byte.\<close>

theorem dump_diverges_iff:
  assumes h: "struct_ok M 0 hi h" and ok: "mem_ok {} M 0 hi s"
  shows "Diverges \<in> set (st_faults (snd (run_state (dmi_dump h) s))) \<longleftrightarrow> 255 \<le> string_count M h"
proof (cases "string_count M h < 255")
  case True
  then have "safe {} M 0 hi (dmi_dump h)" using h by (intro safe_dmi_dump) auto
  then have "kept {} M 0 hi s (snd (run_state (dmi_dump h) s))" using ok by (rule safeD)
  then have "st_faults (snd (run_state (dmi_dump h) s)) = []" by (simp add: kept_def mem_ok_def)
  with True show ?thesis by simp
next
  case False
  let ?pre = "do { pr_list_start ''Header and Data'' None; dump_bytes (h_data h) (hlen h); pr_list_end }"
  let ?s = "snd (run_state ?pre s)"
  note len = struct_okD [OF h]
  have "safe {} M 0 hi ?pre"
    using len by (intro safe_bind safe_pr_list_start safe_dump_bytes safe_pr_list_end) auto
  then have s: "mem_ok {} M 0 hi ?s" using ok by (intro kept_mem_ok) (rule safeD)
  have "string_set (drop (h_data h + hlen h) M) \<noteq> []" using False by (auto simp: string_count_def)
  then have "M ! (h_data h + hlen h) \<noteq> 0" using len string_set_0 by force
  then have b0: "st_mem ?s ! (h_data h + hlen h) \<noteq> 0" using len mem_ok_zero [OF s] by simp
  have rd: "run_state (data8 h (hlen h)) ?s = (st_mem ?s ! (h_data h + hlen h), ?s)"
    "run_state (data8 h (hlen h + 1)) ?s = (st_mem ?s ! (h_data h + (hlen h + 1)), ?s)"
    using len mem_ok_length [OF s] by (simp_all add: run_rd8)
  let ?t = "?s\<lparr>st_out := st_out ?s @ [PrListStart ''Strings'' None]\<rparr>"
  have t: "mem_ok UNIV M 0 hi ?t"
    using mem_ok_faults_mono [OF s subset_UNIV] by (simp add: mem_ok_def)
  have "snd (run_state (dmi_dump h) s) = snd (run_state (do {
       dump_strings 256 h 1 (o_flags (st_opt ?s) AND FLAG_DUMP \<noteq> 0); pr_list_end }) ?t)"
    using b0 rd by (simp add: dmi_dump_def split_beta if_then_def pr_list_start_def emit_def)
  moreover have "Diverges \<in> set (st_faults (snd (run_state
      (dump_strings 256 h 1 (o_flags (st_opt ?s) AND FLAG_DUMP \<noteq> 0)) ?t)))"
    using False by (intro dump_strings_diverges [OF h _ t]) simp
  ultimately show ?thesis using False by (simp add: split_beta pr_list_end_def emit_def)
qed

theorem dump_diverges_iff_witness:
  "struct_ok hello_table 0 9 (header_at hello_table 0)
   \<and> mem_ok {} hello_table 0 9 (start_state hello_table plain_opt None)
   \<and> Diverges \<notin> set (st_faults (snd (run_state (dmi_dump (header_at hello_table 0)) (start_state hello_table plain_opt None))))"
proof -
  have 1: "struct_ok hello_table 0 9 (header_at hello_table 0)"
    by (simp add: struct_ok_def header_at_def hello_table_def terminated_def)
  have 2: "mem_ok {} hello_table 0 9 (start_state hello_table plain_opt None)"
    by (simp add: mem_ok_def start_state_def prod_ok_def)
  have "string_count hello_table (header_at hello_table 0) = 2"
    using hello_strings by (simp add: string_count_def header_at_def) (simp add: hello_table_def)
  with 1 2 dump_diverges_iff [OF 1 2] show ?thesis by simp
qed

end
