(* ===== verification/Table_Properties.thy ===== *)
theory Table_Properties
  imports Record_Properties
begin

section \<open>Properties of the walk through the table\<close>

text \<open>
  The code tables are complete, the decoders of a structure cause no undefined behaviour but the
  named one, and the two passes visit the structures the specification \<open>parse_table\<close> reads
  off the bytes.
\<close>

subsection \<open>Tables of names\<close>

text \<open>C39: the binary search for the processor family ends, and finds exactly the entry of the table, or none
  when there is none.\<close>

theorem family_search_correct:
  "bsearch family2 code 0 (length family2 - 1)
     = Some (case map_of family2 code of Some n \<Rightarrow> n | None \<Rightarrow> out_of_spec)"
  by (rule family_search [unfolded family_name_def])

text \<open>The functions that name a code found in a structure have a name for every byte; those
  that lack some are called with 1, 2 or 3 bits only, for which they have one.\<close>

lemma names_complete:
  "\<forall>code :: u8. dmi_smbios_structure_type code \<noteq> None \<and> dmi_base_board_type code \<noteq> None
     \<and> dmi_chassis_type code \<noteq> None \<and> dmi_processor_type code \<noteq> None \<and> dmi_processor_upgrade code \<noteq> None
     \<and> dmi_cache_type code \<noteq> None \<and> dmi_port_type code \<noteq> None \<and> dmi_slot_type code \<noteq> None
     \<and> dmi_memory_device_form_factor code \<noteq> None \<and> dmi_memory_device_type code \<noteq> None
     \<and> dmi_chassis_lock (code AND 1) \<noteq> None \<and> dmi_cache_mode (code AND 3) \<noteq> None
     \<and> dmi_processor_status (code AND 7) \<noteq> None"
proof
  fix code :: u8
  have "unat (code AND 1) < 2" "unat (code AND 3) < 4" "unat (code AND 7) < 8"
    using unat_and_le_right [of code 1] unat_and_le_right [of code 3] unat_and_le_right [of code 7] by auto
  then show "dmi_smbios_structure_type code \<noteq> None \<and> dmi_base_board_type code \<noteq> None
     \<and> dmi_chassis_type code \<noteq> None \<and> dmi_processor_type code \<noteq> None \<and> dmi_processor_upgrade code \<noteq> None
     \<and> dmi_cache_type code \<noteq> None \<and> dmi_port_type code \<noteq> None \<and> dmi_slot_type code \<noteq> None
     \<and> dmi_memory_device_form_factor code \<noteq> None \<and> dmi_memory_device_type code \<noteq> None
     \<and> dmi_chassis_lock (code AND 1) \<noteq> None \<and> dmi_cache_mode (code AND 3) \<noteq> None
     \<and> dmi_processor_status (code AND 7) \<noteq> None"
    by (simp add: ok_simps)
qed

subsection \<open>One structure\<close>

text \<open>A structure of the table and a state in which nothing has gone wrong so far; what may change.\<close>

definition only_dots :: "u8 list \<Rightarrow> nat \<Rightarrow> u8 list \<Rightarrow> bool" where
  "only_dots M hi M' \<longleftrightarrow> length M' = length M
     \<and> (\<forall>i < length M. M' ! i = M ! i \<or> i < hi \<and> M ! i \<noteq> 0 \<and> M' ! i = 46)"

lemma mem_ok_only_dots: "mem_ok A M 0 hi s \<Longrightarrow> only_dots M hi (st_mem s) \<and> set (st_faults s) \<subseteq> A"
  by (auto simp: mem_ok_def only_dots_def)

text \<open>C15: decoding a structure of any type and content causes no fault (of the kinds that are logged) but what
  \<open>decode_faults\<close> lists (a shift in the types 5 and 6, one read behind the structure in type 37,
  the format strings of types 242 and 245, the array of type 199, and the endless dump of 255 strings),
  changes nothing of the table but characters of the strings, to dots, and keeps the options.\<close>

theorem decode_structure_safe:
  assumes "struct_ok M 0 hi h" "4 \<le> hlen h" "mem_ok {} M 0 hi s"
  shows "set (st_faults (snd (run_state (dmi_decode to_text h ver) s))) \<subseteq> decode_faults M h
    \<and> only_dots M hi (st_mem (snd (run_state (dmi_decode to_text h ver) s)))
    \<and> env (snd (run_state (dmi_decode to_text h ver) s)) = env s"
proof -
  have "mem_ok (decode_faults M h) M 0 hi s" using assms(3) by (rule mem_ok_faults_mono) simp
  then have "kept (decode_faults M h) M 0 hi s (snd (run_state (dmi_decode to_text h ver) s))"
    by (rule safeD [OF full.safe_decode [OF assms(1,2) order.refl]])
  then show ?thesis unfolding kept_def by (blast dest: mem_ok_only_dots)
qed

lemma hello_ok: "struct_ok hello_table 0 9 (header_at hello_table 0)" "4 \<le> hlen (header_at hello_table 0)"
  "mem_ok {} hello_table 0 9 (start_state hello_table opt cpux)"
  by (simp_all add: struct_ok_def header_at_def hello_table_def terminated_def mem_ok_def start_state_def prod_ok_def)

theorem decode_structure_safe_witness:
  "struct_ok hello_table 0 9 (header_at hello_table 0) \<and> 4 \<le> hlen (header_at hello_table 0)
   \<and> mem_ok {} hello_table 0 9 (start_state hello_table plain_opt None)
   \<and> set (st_faults (snd (run_state (dmi_decode (\<lambda>_ _. []) (header_at hello_table 0) 0x0300)
       (start_state hello_table plain_opt None)))) \<subseteq> decode_faults hello_table (header_at hello_table 0)"
  using hello_ok decode_structure_safe [OF hello_ok] by blast

text \<open>C16: the decoder of CPU-X causes no fault at all of the kinds that are logged, whatever the structure.\<close>

theorem cpux_structure_safe:
  assumes "struct_ok M 0 hi h" "mem_ok {} M 0 hi s"
  shows "st_faults (snd (run_state (dmi_decode_cpux tr room h d) s)) = []
    \<and> only_dots M hi (st_mem (snd (run_state (dmi_decode_cpux tr room h d) s)))
    \<and> env (snd (run_state (dmi_decode_cpux tr room h d) s)) = env s"
proof -
  have "kept {} M 0 hi s (snd (run_state (dmi_decode_cpux tr room h d) s))"
    by (rule safeD [OF safe_dmi_decode_cpux [OF assms(1)] assms(2)])
  then show ?thesis unfolding kept_def by (auto dest: mem_ok_only_dots)
qed

theorem cpux_structure_safe_witness:
  "struct_ok hello_table 0 9 (header_at hello_table 0)
   \<and> mem_ok {} hello_table 0 9 (start_state hello_table plain_opt (Some (filled 0)))
   \<and> st_faults (snd (run_state (dmi_decode_cpux id (\<lambda>_. True) (header_at hello_table 0) (filled 0))
       (start_state hello_table plain_opt (Some (filled 0))))) = []"
  using hello_ok cpux_structure_safe [OF hello_ok(1) hello_ok(3)] by blast

subsection \<open>The second pass\<close>

text \<open>C14: the second pass, which changes the table it walks, visits exactly the structures
  \<open>parse_table\<close> reads off the original bytes, each once and in this order, and ends at the
  place and for the reason \<open>parse_table\<close> gives.\<close>

theorem second_pass_refines:
  assumes "mem_ok UNIV M 0 0 s" "len \<le> length M"
    "parse_table M len num (quiet_in s) (eot_of flags) 0 0 = (hs, w, i, data)"
  shows "run_state (decode_pass ext ver flags num len 0 0) s
     = run_state (do { for_each hs (visit ext ver); finish w; ret (i, data) }) s"
  using assms by (intro decode_pass_parse) (simp_all add: walks_parse_table)

lemma goes_on_small: "goes_on 19 2 0 0" "goes_on 19 2 (Suc 0) 13" "\<not> goes_on 19 2 (Suc (Suc 0)) 19"
  by (simp_all add: goes_on_def)

lemma small_headers: "h_type (header_at small_table 0) = 32" "hlen (header_at small_table 0) = 11"
  "h_type (header_at small_table 13) = 127" "hlen (header_at small_table 13) = 4"
  by (simp_all add: header_at_def small_table_def)

lemma small_ends: "next_at small_table 19 0 = 13" "next_at small_table 19 13 = 19"
  by (simp_all add: next_at_def small_headers find_end.simps)
     (simp_all add: small_table_def)

lemma parse_small: "parse_table small_table 19 2 False False 0 0
    = ([header_at small_table 0, header_at small_table 13], Exhausted, 2, 19)"
  using goes_on_small small_headers small_ends
  by (subst parse_table_step, simp, subst parse_table_step, simp, subst parse_table_step, simp)

theorem second_pass_refines_witness:
  "mem_ok UNIV small_table 0 0 (start_state small_table plain_opt None) \<and> (19 :: nat) \<le> length small_table
   \<and> parse_table small_table 19 2 (quiet_in (start_state small_table plain_opt None)) (eot_of 0) 0 0
     = ([header_at small_table 0, header_at small_table 13], Exhausted, 2, 19)
   \<and> run_state (decode_pass plain_ext 0x0300 0 2 19 0 0) (start_state small_table plain_opt None)
     = run_state (do { for_each [header_at small_table 0, header_at small_table 13] (visit plain_ext 0x0300);
         finish Exhausted; ret (2, 19) }) (start_state small_table plain_opt None)"
proof -
  have 1: "mem_ok UNIV small_table 0 0 (start_state small_table plain_opt None)" "(19 :: nat) \<le> length small_table"
    by (simp_all add: mem_ok_def prod_ok_def start_state_def small_table_def)
  have 2: "parse_table small_table 19 2 (quiet_in (start_state small_table plain_opt None)) (eot_of 0) 0 0
     = ([header_at small_table 0, header_at small_table 13], Exhausted, 2, 19)"
    using parse_small by (simp add: quiet_in_def start_state_def plain_opt_def eot_of_def)
  show ?thesis using 1 2 second_pass_refines [OF 1 2] by blast
qed

text \<open>C17: every structure the second pass visits starts where the one before ends, lies in the table with
  its strings, and ends at the first two zero bytes behind its formatted area; the pass visits no more
  structures than announced and no more than fit the table at six bytes each.\<close>

theorem visited_structures:
  assumes "mem_ok UNIV M 0 0 s" "len \<le> length M"
  shows "\<exists>hs w. run_state (decode_pass ext ver flags num len 0 0) s
        = run_state (do { for_each hs (visit ext ver); finish w;
            ret (fst (run_state (decode_pass ext ver flags num len 0 0) s)) }) s
      \<and> laid_out M len 0 hs \<and> 6 * length hs \<le> len \<and> (num \<noteq> 0 \<longrightarrow> length hs \<le> unat num)"
proof -
  obtain hs w i data where W: "walks M len num (quiet_in s) (eot_of flags) 0 0 hs w i data"
    using walks_parse_table prod_cases4 by metis
  then have "run_state (decode_pass ext ver flags num len 0 0) s
        = run_state (do { for_each hs (visit ext ver); finish w; ret (i, data) }) s"
    using assms by (intro decode_pass_parse) simp_all
  moreover from this have "fst (run_state (decode_pass ext ver flags num len 0 0) s) = (i, data)"
    by (simp add: split_beta)
  moreover have "laid_out M len 0 hs" using W assms(2) by (rule walks_laid_out)
  moreover have "6 * length hs \<le> len \<and> (num \<noteq> 0 \<longrightarrow> length hs \<le> unat num)"
    using walks_count [OF W] by simp
  ultimately show ?thesis by auto
qed

theorem visited_structures_witness:
  "mem_ok UNIV small_table 0 0 (start_state small_table plain_opt None) \<and> (19 :: nat) \<le> length small_table
   \<and> (\<exists>hs. laid_out small_table 19 0 hs \<and> length hs \<le> unat (2 :: u16))"
proof -
  have 1: "mem_ok UNIV small_table 0 0 (start_state small_table plain_opt None)" "(19 :: nat) \<le> length small_table"
    by (simp_all add: mem_ok_def prod_ok_def start_state_def small_table_def)
  have "(2 :: u16) \<noteq> 0" by simp
  with 1 visited_structures [OF 1, where num = 2 and ext = plain_ext and ver = 0 and flags = 0]
  show ?thesis by blast
qed

subsection \<open>The first pass\<close>

lemma save_pass_visits:
  "walks M len num quiet eot i data hs w i' data' \<Longrightarrow> \<not> eot \<Longrightarrow> mem_ok UNIV M 0 0 s
   \<Longrightarrow> len \<le> length M \<Longrightarrow> quiet \<longleftrightarrow> o_flags (st_opt s) AND (FLAG_QUIET OR FLAG_STOP_AT_EOT) \<noteq> 0
   \<Longrightarrow> run_state (save_pass num len i data) s = run_state (for_each hs save_structure) s"
proof (induction arbitrary: s rule: walks.induct)
  case (exhausted i data)
  then have "save_pass num len i data = ret ()"
    unfolding goes_on_def by (subst save_pass.simps) (simp only: if_False)
  then show ?case by simp
next
  case (step i data h hs w i' data')
  let ?e = "find_end M len (data + hlen h)" and ?s = "snd (run_state (save_structure h) s)"
  have n: "?e + 2 \<le> len" using step by (simp add: next_at_def)
  then have "terminated M ?e" using find_end_zeros [OF n] step.prems by (simp add: terminated_def)
  moreover have "h_data h + hlen h \<le> ?e" using step by (simp add: header_at_def find_end_le)
  ultimately have "mem_ok UNIV M 0 0 ?s" "st_opt ?s = st_opt s"
    using step.prems by (auto intro!: save_structure_ok)
  then have "run_state (save_pass num len (i + 1) (next_at M len data)) ?s = run_state (for_each hs save_structure) ?s"
    using step.prems by (intro step.IH) auto
  then show ?case using step.prems step.hyps by (auto simp: save_pass_round split_beta)
qed (simp_all add: save_pass_round)

text \<open>C29: the first pass saves from the structures of the table in their order: with \<^verbatim>\<open>--quiet\<close>
  (or the bit of \<^verbatim>\<open>--help\<close>) up to the first end marker, and otherwise from those behind an end marker,
  too, whatever the flags of the table say. The flag that makes the second pass stop there,
  \<^verbatim>\<open>FLAG_STOP_AT_EOT\<close>, is looked up among the options, where its bit means \<^verbatim>\<open>--help\<close>.\<close>

theorem first_pass_end_marker:
  assumes "mem_ok UNIV M 0 0 s" "len \<le> length M"
  shows "run_state (save_pass num len 0 0) s = run_state (for_each
    (if o_flags (st_opt s) AND (FLAG_QUIET OR FLAG_HELP) = 0 then table_structs M len num
     else fst (parse_table M len num True False 0 0)) save_structure) s"
proof -
  let ?q = "o_flags (st_opt s) AND (FLAG_QUIET OR FLAG_HELP) \<noteq> 0"
  obtain hs w i data where W: "walks M len num ?q False 0 0 hs w i data"
    using walks_parse_table prod_cases4 by metis
  then have "parse_table M len num ?q False 0 0 = (hs, w, i, data)" by (simp only: walks_parse_table)
  then have "(if \<not> ?q then table_structs M len num else fst (parse_table M len num True False 0 0)) = hs"
    by (cases ?q) (simp_all add: table_structs_def)
  moreover have "FLAG_STOP_AT_EOT = FLAG_HELP" by (simp add: FLAG_STOP_AT_EOT_def FLAG_HELP_def)
  ultimately show ?thesis using save_pass_visits [OF W _ assms] by simp
qed

lemma parse_small_quiet: "parse_table small_table 19 2 True False 0 0 = ([header_at small_table 0], QuietEnd, 2, 13)"
  using goes_on_small small_headers small_ends
  by (subst parse_table_step, simp, subst parse_table_step, simp)

definition quiet_opt :: opt where
  "quiet_opt = plain_opt\<lparr>o_flags := FLAG_QUIET\<rparr>"

theorem first_pass_end_marker_witness:
  "run_state (save_pass 2 19 0 0) (start_state small_table plain_opt None)
     = run_state (for_each [header_at small_table 0, header_at small_table 13] save_structure)
         (start_state small_table plain_opt None)
   \<and> run_state (save_pass 2 19 0 0) (start_state small_table quiet_opt None)
     = run_state (for_each [header_at small_table 0] save_structure) (start_state small_table quiet_opt None)"
proof -
  have ok: "mem_ok UNIV small_table 0 0 (start_state small_table opt None)" "(19 :: nat) \<le> length small_table" for opt
    by (simp_all add: mem_ok_def prod_ok_def start_state_def small_table_def)
  have flags: "o_flags (st_opt (start_state small_table plain_opt None)) AND (FLAG_QUIET OR FLAG_HELP) = 0"
    "o_flags (st_opt (start_state small_table quiet_opt None)) AND (FLAG_QUIET OR FLAG_HELP) \<noteq> 0"
    by (simp_all add: start_state_def plain_opt_def quiet_opt_def FLAG_QUIET_def FLAG_HELP_def)
  have "table_structs small_table 19 2 = [header_at small_table 0, header_at small_table 13]"
    by (simp add: table_structs_def parse_small)
  then show ?thesis
    using first_pass_end_marker [OF ok, of 2 plain_opt] first_pass_end_marker [OF ok, of 2 quiet_opt] flags parse_small_quiet
    by simp
qed

subsection \<open>Printing one value\<close>

lemma faults_rd_bytes:
  "st_faults (snd (run_state (rd_bytes a n) s))
     = st_faults s @ map OutOfBounds [max a (length (st_mem s)) ..< a + n]
   \<and> st_mem (snd (run_state (rd_bytes a n) s)) = st_mem s"
proof (induction n arbitrary: a s)
  case (Suc n)
  have "[a ..< a + Suc n] = a # [Suc a ..< Suc a + n]" by (simp add: upt_rec)
  then show ?case
    using Suc [of "Suc a" s] Suc [of "Suc a" "s\<lparr>st_faults := st_faults s @ [OutOfBounds a]\<rparr>"]
    by (auto simp: rd8_def split_beta max_def not_less_eq_eq le_Suc_eq)
qed simp

lemma printf_faults: "args_ok as \<Longrightarrow> st_faults (snd (run_state (printf as) s)) = st_faults s"
  using prints_run [OF prints_outputs(3), of as s] by force

text \<open>\<^verbatim>\<open>--string system-uuid\<close> needs only one byte of the UUID to lie in the structure, but reads
  all 16: with a short structure at the end of the table it reads behind the table.\<close>

lemma system_uuid_over_read:
  assumes "8 < hlen h"
  shows "st_faults (snd (run_state (dmi_table_string (kw ''system-uuid'' 1 8) h ver) s))
    = st_faults s @ map OutOfBounds [max (h_data h + 8) (length (st_mem s)) ..< h_data h + 24]"
proof -
  have ok: "args_ok (uuid_format bs order @ [Lit t])" for bs order t
    using args_ok_uuid_format [of bs order] by (simp add: args_ok_def)
  have "run_state (dmi_table_string (kw ''system-uuid'' 1 8) h ver) s
      = run_state (dmi_system_uuid None [] (h_data h + 8) ver) s"
    using assms by (simp add: dmi_table_string_def kw_def Let_def)
  moreover have e: "h_data h + 8 + 16 = h_data h + 24" by simp
  ultimately show ?thesis
    using faults_rd_bytes [of "h_data h + 8" 16 s, unfolded e]
    by (simp add: dmi_system_uuid_def Let_def split_beta printf_faults ok)
qed

text \<open>A system structure of nine bytes at the end of a table.\<close>

definition short_system :: "u8 list" where
  "short_system = [1, 9, 0, 0, 0, 0, 0, 0, 7, 0, 0]"

lemma system_uuid_over_read_example:
  "8 < hlen (header_at short_system 0)
   \<and> st_faults (snd (run_state (dmi_table_string (kw ''system-uuid'' 1 8) (header_at short_system 0) 0x0300)
       (start_state short_system plain_opt None))) = map OutOfBounds [11 ..< 24]"
proof -
  have h: "hlen (header_at short_system 0) = 9" "h_data (header_at short_system 0) = 0"
    by (simp_all add: header_at_def short_system_def)
  have s: "length (st_mem (start_state short_system plain_opt None)) = 11"
    "st_faults (start_state short_system plain_opt None) = []"
    by (simp_all add: start_state_def short_system_def)
  show ?thesis
    using system_uuid_over_read [of "header_at short_system 0" "0x0300" "start_state short_system plain_opt None"]
    by (simp add: h s del: upt_Suc upt.simps)
qed

subsection \<open>Tables without faults\<close>

text \<open>A table all of whose structures are clean (of standard types other than 5, 6 and 37, with fewer
  than 255 strings each, system structures with a product name and room for a UUID) is decoded without any
  undefined behaviour.\<close>

lemma clean_table_no_faults:
  assumes "list_all (clean M) (table_structs M (unat len) num)" "unat len \<le> length M"
  shows "st_faults (snd (run_state (dmi_table_decode ext len num ver flags) (start_state M opt cpux))) = []"
proof -
  have "mem_ok {} M 0 0 (start_state M opt cpux)" by (simp add: mem_ok_def prod_ok_def start_state_def)
  then have "mem_ok {} M 0 (unat len) (snd (run_state (dmi_table_decode ext len num ver flags) (start_state M opt cpux)))"
    using assms by (intro dmi_table_decode_ok) (simp_all add: clean_table_faults)
  then show ?thesis by (auto dest: mem_ok_only_dots)
qed

lemma clean_small: "list_all (clean small_table) (table_structs small_table 19 2)"
proof -
  have "string_count small_table (header_at small_table 0) = 0"
    "string_count small_table (header_at small_table 13) = 0"
    by (simp_all add: string_count_def header_at_def small_table_def string_set.simps)
  then show ?thesis
    by (simp add: table_structs_def parse_small clean_def small_headers unat_type oem_faults_def)
qed

lemma clean_table_no_faults_example:
  "list_all (clean small_table) (table_structs small_table (unat (19 :: u32)) 2)
   \<and> unat (19 :: u32) \<le> length small_table
   \<and> st_faults (snd (run_state (dmi_table_decode plain_ext 19 2 0x0300 0) (start_state small_table plain_opt None))) = []"
proof -
  have 1: "list_all (clean small_table) (table_structs small_table (unat (19 :: u32)) 2)"
    using clean_small by simp
  have 2: "unat (19 :: u32) \<le> length small_table" by (simp add: small_table_def)
  show ?thesis using 1 2 clean_table_no_faults [OF 1 2] by blast
qed

end
