(* ===== verification/Option_Properties.thy ===== *)
theory Option_Properties
  imports Table_Properties
begin

section \<open>Properties of the command line and of files\<close>

text \<open>
  Numbers, handles and lists of types are read back from the text they are printed as; which
  arguments are accepted; which options exclude each other. Then what \<^verbatim>\<open>read_file\<close> delivers.
\<close>

subsection \<open>Numbers and handles\<close>

text \<open>\<^verbatim>\<open>strtoul\<close> reads every decimal number below \<open>2 ^ 64\<close> back from its digits, and every
  hexadecimal one from its digits behind \<^verbatim>\<open>0x\<close>, in the form handles are printed; both leave
  the text behind the number.\<close>

lemma numbers_read_back:
  assumes "n < 2 ^ 64" "no_digit rest"
  shows "strtoul 0 (udec n @ rest) = (of_nat n, rest)
    \<and> strtoul 0 (''0x'' @ pad0 w (hex up n) @ rest) = (of_nat n, rest)"
  using strtoul_udec [of n rest 0] strtoul_hex [of n rest w up] assms by blast

lemma numbers_read_back_example:
  "(300 :: nat) < 2 ^ 64 \<and> no_digit '',5'' \<and> strtoul 0 (udec 300 @ '',5'') = (of_nat 300, '',5'')"
proof -
  have 1: "(300 :: nat) < 2 ^ 64" and 2: "no_digit '',5''" by (simp_all add: no_digit_def digit_val_def)
  show ?thesis using 1 2 numbers_read_back [OF 1 2] by blast
qed

lemma no_digit_Nil: "no_digit []"
  by (simp add: no_digit_def)

lemma udec_Nil: "udec n \<noteq> []"
  using udec_hd by simp

lemma ucast_of_nat_u64: "LENGTH('a :: len) \<le> 64 \<Longrightarrow> (ucast (of_nat n :: u64) :: 'a word) = of_nat n"
  by (rule bit_word_eqI) (auto simp: bit_simps)

lemma digit_hd_udec: "\<exists>d t. udec n = digit False d # t \<and> d < 10"
proof -
  have p: "list_all (\<lambda>d. d < 10) (to_base 10 n)" "to_base 10 n \<noteq> []" using to_base_props [of 10 n] by auto
  then show ?thesis by (cases "to_base 10 n") (auto simp: udec_def)
qed

lemma u32_le_nat: "0xFFFF < (of_nat n :: u32) \<longleftrightarrow> 0xFFFF < n mod 2 ^ 32"
  by (simp add: word_less_nat_alt unat_of_nat take_bit_eq_mod)

text \<open>A handle is read back from the text it is printed as.\<close>

lemma handle_read_back:
  "run_state (parse_opt_handle (''0x'' @ pad0 4 (hex True (unat w)))) s = (ucast w, s)" for w :: u16
proof -
  have n: "unat w < 2 ^ 16" using unat_u16_less [of w] by simp
  then have "strtoul 0 (''0x'' @ pad0 4 (hex True (unat w)) @ []) = (of_nat (unat w), [])"
    by (intro strtoul_hex no_digit_Nil) (rule less_trans, assumption, simp)
  moreover have "unat w \<le> 0xFFFF" using unat_u16_less [of w] by linarith
  then have "unat w mod 2 ^ 32 \<le> 0xFFFF" by (rule order.trans [OF mod_less_eq_dividend])
  then have "\<not> 0xFFFF < (of_nat (unat w) :: u32)" unfolding u32_le_nat by linarith
  moreover have "(ucast (ucast w :: u64) :: u32) = ucast w" by (rule bit_word_eqI) (auto simp: bit_simps)
  ultimately show ?thesis by (simp add: parse_opt_handle_def Let_def)
qed

text \<open>Of a decimal number only the low 32 bits are looked at: a handle is accepted exactly if they are
  at most \<^verbatim>\<open>0xFFFF\<close>, so that 4294967296 is taken for the handle 0.\<close>

lemma handle_truncated:
  assumes "n < 2 ^ 64"
  shows "fst (run_state (parse_opt_handle (udec n)) s)
    = (if n mod 2 ^ 32 \<le> 0xFFFF then of_nat (n mod 2 ^ 32) else NOT 0)"
proof -
  have "strtoul 0 (udec n) = (of_nat n, [])" using strtoul_udec [of n "[]" 0] assms no_digit_Nil by simp
  moreover have "(of_nat n :: u32) = of_nat (n mod 2 ^ 32)"
    by (simp add: word_unat_eq_iff unat_of_nat take_bit_eq_mod)
  ultimately show ?thesis
    using assms u32_le_nat [of n] udec_Nil [of n]
    by (auto simp: parse_opt_handle_def ucast_of_nat_u64 split_beta)
qed

lemma handle_truncated_example:
  "(4294967296 :: nat) < 2 ^ 64
   \<and> fst (run_state (parse_opt_handle (udec 4294967296)) (start_state [] plain_opt None)) = 0"
  using handle_truncated [of 4294967296 "start_state [] plain_opt None"] by simp

lemma eprintf_opt: "args_ok as \<Longrightarrow> st_opt (snd (run_state (eprintf as) s)) = st_opt s"
  using printsD [OF prints_eprintf, of as s] by auto

text \<open>\<^verbatim>\<open>--oem-string\<close> accepts exactly the numbers 1 to 255, and then selects that string of the
  structures of type 11; it refuses every other number without changing the options.\<close>

lemma oem_string_number:
  assumes "n < 2 ^ 64" "o_string (st_opt s) = None"
  shows "if 1 \<le> n \<and> n \<le> 255
    then run_state (parse_opt_oem_string (udec n)) s = (True, s\<lparr>st_oem_offset := of_nat n,
        st_opt := (st_opt s)\<lparr>o_string := Some \<lparr>kw_keyword = None, kw_type = 11, kw_offset = of_nat n\<rparr>\<rparr>\<rparr>)
    else fst (run_state (parse_opt_oem_string (udec n)) s) = False
      \<and> st_opt (snd (run_state (parse_opt_oem_string (udec n)) s)) = st_opt s"
proof -
  have "strtoul 10 (udec n) = (of_nat n, [])" using strtoul_udec [of n "[]" 10] assms no_digit_Nil by simp
  moreover have "udec n \<noteq> ''count''"
  proof
    assume c: "udec n = ''count''"
    obtain d t where "udec n = digit False d # t" "d < 10" using digit_hd_udec by blast
    then have "digit_val CHR ''c'' = Some d" "d < 10" using c digit_val_digit [of d False] by auto
    then show False by (simp add: digit_val_def)
  qed
  moreover have "(of_nat n = (0 :: u64)) = (n = 0)" "(0xFF < (of_nat n :: u64)) = (255 < n)"
    using assms(1) by (simp_all add: word_unat_eq_iff word_less_nat_alt unat_of_nat take_bit_nat_eq_self)
  moreover have "(ucast (of_nat n :: u64) :: u8) = of_nat n" by (rule ucast_of_nat_u64) simp
  ultimately show ?thesis
    using assms(2) udec_Nil [of n]
    by (auto simp: parse_opt_oem_string_def get_opt_def use_oem_string_def oem_string_offset_def
        set_oem_string_offset_def upd_opt_def opt_oem_string_keyword_def split_beta eprintf_opt)
qed

lemma oem_string_number_example:
  "(3 :: nat) < 2 ^ 64 \<and> o_string (st_opt (start_state [] plain_opt None)) = None
   \<and> fst (run_state (parse_opt_oem_string (udec 3)) (start_state [] plain_opt None))
   \<and> fst (run_state (parse_opt_oem_string (udec 256)) (start_state [] plain_opt None)) = False"
proof -
  have 1: "(3 :: nat) < 2 ^ 64" "(256 :: nat) < 2 ^ 64" and 2: "o_string (st_opt (start_state [] plain_opt None)) = None"
    by (simp_all add: start_state_def plain_opt_def)
  show ?thesis using 1 2 oem_string_number [OF 1(1) 2] oem_string_number [OF 1(2) 2] by simp
qed

subsection \<open>Types and strings\<close>

lemma not_keyword: "List.find (\<lambda>(kw, ts). strcasecmp_eq (udec n @ rest) kw) opt_type_keyword = None"
proof -
  obtain d t where dt: "udec n = digit False d # t" "d \<in> set [0..<10]" using digit_hd_udec by fastforce
  have "\<forall>d \<in> set [0..<10]. \<forall>(kw, ts) \<in> set opt_type_keyword.
      kw \<noteq> [] \<and> to_lower (hd kw) \<noteq> to_lower (digit False d)"
    by code_simp
  with dt have "\<forall>(kw, ts) \<in> set opt_type_keyword. kw \<noteq> [] \<and> to_lower (hd kw) \<noteq> to_lower (digit False d)"
    by blast
  then show ?thesis
    using dt(1) by (fastforce simp: find_None_iff strcasecmp_eq_def neq_Nil_conv)
qed

lemma not_keyword_list: "ts \<noteq> [] \<Longrightarrow> List.find (\<lambda>(kw, u). strcasecmp_eq (type_list ts) kw) opt_type_keyword = None"
  using not_keyword [of "unat (hd ts)" "[]"] not_keyword [of "unat (hd ts)" "'','' @ type_list (tl ts)"]
  by (cases ts rule: type_list.cases) simp_all

text \<open>C32: \<^verbatim>\<open>--type\<close> selects exactly the types of a list of numbers, besides those selected before; if
  none were, the array is allocated and cleared.\<close>

theorem type_list_read_back:
  assumes "ts \<noteq> []" "p = None \<longrightarrow> room 256"
  shows "run_state (parse_opt_type room p (type_list ts)) s
    = (Some (\<lambda>t. if t \<in> set ts then 1 else case p of None \<Rightarrow> 0 | Some q \<Rightarrow> q t), s)"
  using assms by (cases p) (simp_all add: parse_opt_type_def not_keyword_list parse_type_numbers_list cong: if_cong)

theorem type_list_read_back_witness:
  "[4, 17 :: u8] \<noteq> [] \<and> alloc plain_ext 256
   \<and> run_state (parse_opt_type (alloc plain_ext) None (type_list [4, 17])) (start_state [] plain_opt None)
     = (Some (\<lambda>t. if t \<in> set [4, 17] then 1 else 0), start_state [] plain_opt None)"
  using type_list_read_back [of "[4, 17]" None "alloc plain_ext" "start_state [] plain_opt None"]
  by (simp add: plain_ext_def cong: if_cong)

text \<open>A keyword of \<^verbatim>\<open>--string\<close>, in upper or lower case, selects its entry of the table; a second
  one is refused.\<close>

lemma string_keyword_found:
  assumes "k \<in> set opt_string_keyword" "strcasecmp_eq arg (the (kw_keyword k))" "o_string (st_opt s) = None"
  shows "run_state (parse_opt_string arg) s = (True, s\<lparr>st_opt := (st_opt s)\<lparr>o_string := Some k\<rparr>\<rparr>)
    \<and> fst (run_state (do { ok \<leftarrow> parse_opt_string arg; parse_opt_string arg }) s) = False"
proof -
  have inj: "distinct (map (\<lambda>k. map to_lower (the (kw_keyword k))) opt_string_keyword)" by code_simp
  have "List.find (\<lambda>k. strcasecmp_eq arg (the (kw_keyword k))) opt_string_keyword = Some k"
  proof -
    obtain k' where f: "List.find (\<lambda>k. strcasecmp_eq arg (the (kw_keyword k))) opt_string_keyword = Some k'"
      using assms(1,2) by (metis (mono_tags, lifting) find_None_iff not_None_eq)
    then have "k' \<in> set opt_string_keyword" "strcasecmp_eq arg (the (kw_keyword k'))"
      by (auto simp: find_Some_iff)
    with inj assms(1,2) have "k' = k" by (auto simp: distinct_map strcasecmp_eq_def dest: inj_onD)
    with f show ?thesis by simp
  qed
  then show ?thesis using assms(3) by (simp add: parse_opt_string_def get_opt_def upd_opt_def split_beta)
qed

lemma string_keyword_found_example:
  "kw ''system-uuid'' 1 8 \<in> set opt_string_keyword \<and> strcasecmp_eq ''System-UUID'' (the (kw_keyword (kw ''system-uuid'' 1 8)))
   \<and> o_string (st_opt (start_state [] plain_opt None)) = None
   \<and> fst (run_state (parse_opt_string ''System-UUID'') (start_state [] plain_opt None))"
proof -
  have 1: "kw ''system-uuid'' 1 8 \<in> set opt_string_keyword" by (simp add: opt_string_keyword_def)
  have 2: "strcasecmp_eq ''System-UUID'' (the (kw_keyword (kw ''system-uuid'' 1 8)))"
    by code_simp
  have 3: "o_string (st_opt (start_state [] plain_opt None)) = None" by (simp add: start_state_def plain_opt_def)
  show ?thesis using 1 2 3 string_keyword_found [OF 1 2 3] by simp
qed

subsection \<open>The whole command line\<close>

definition exclusive :: "opt \<Rightarrow> bool" where
  "exclusive opt \<longleftrightarrow>
     length (filter id [o_string opt \<noteq> None, o_type opt \<noteq> None, o_flags opt AND FLAG_DUMP_BIN \<noteq> 0,
       o_handle opt \<noteq> NOT 0]) \<le> 1
     \<and> \<not> (o_flags opt AND FLAG_FROM_DUMP \<noteq> 0 \<and> o_flags opt AND FLAG_DUMP_BIN \<noteq> 0)"

lemma check_exclusive_spec:
  "fst (run_state check_exclusive s) = exclusive (st_opt s)"
  "st_opt (snd (run_state check_exclusive s)) = st_opt s"
proof -
  show "fst (run_state check_exclusive s) = exclusive (st_opt s)"
    by (simp add: check_exclusive_def get_opt_def exclusive_def split_beta)
  have p: "prints check_exclusive" unfolding check_exclusive_def by (intro prints_intros) simp_all
  show "st_opt (snd (run_state check_exclusive s)) = st_opt s"
    using printsD [OF p, of s] by auto
qed

lemma on_option_True:
  assumes "fst (run_state (on_option room c arg) s) = Some True"
  shows "o_flags (st_opt (snd (run_state (on_option room c arg) s))) AND FLAG_LIST \<noteq> 0"
proof -
  have "(f OR FLAG_LIST) AND FLAG_LIST \<noteq> 0" for f
    by (simp add: bit.conj_disj_distrib2 FLAG_LIST_def)
  then show ?thesis
    using assms by (auto simp: on_option_def upd_opt_def or_flag_def split_beta split: if_splits)
qed

text \<open>C31: an accepted command line either only asks for a list, or names at most one of a string, a type, a
  handle and a file to dump to, and does not both read and write a dump.\<close>

theorem command_line_exclusive:
  assumes "fst (run_state (parse_command_line room gs) s)"
  shows "o_flags (st_opt (snd (run_state (parse_command_line room gs) s))) AND FLAG_LIST \<noteq> 0
    \<or> exclusive (st_opt (snd (run_state (parse_command_line room gs) s)))"
  using assms
proof (induction gs arbitrary: s)
  case Nil
  then show ?case by (simp add: check_exclusive_spec)
next
  case (Cons g gs)
  show ?case
  proof (cases g)
    case (Got c arg)
    then show ?thesis
      using Cons on_option_True [of room c arg s]
      by (cases "fst (run_state (on_option room c arg) s)") (auto simp: split_beta)
  next
    case (Unrecognized c)
    with Cons show ?thesis by (simp add: on_unrecognized_def split_beta)
  qed
qed

theorem command_line_exclusive_witness:
  "fst (run_state (parse_command_line (\<lambda>_. True) [Got CHR ''q'' []]) (start_state [] plain_opt None))
   \<and> exclusive (st_opt (snd (run_state (parse_command_line (\<lambda>_. True) [Got CHR ''q'' []]) (start_state [] plain_opt None))))"
proof -
  let ?m = "parse_command_line (\<lambda>_. True) [Got CHR ''q'' []]" and ?s = "start_state [] plain_opt None"
  have r: "run_state (on_option (\<lambda>_. True) CHR ''q'' []) ?s = (None, ?s\<lparr>st_opt := or_flag FLAG_QUIET plain_opt\<rparr>)"
    by (simp add: on_option_def upd_opt_def start_state_def)
  have ex: "exclusive (or_flag FLAG_QUIET plain_opt)" "o_flags (or_flag FLAG_QUIET plain_opt) AND FLAG_LIST = 0"
    by (simp_all add: exclusive_def or_flag_def plain_opt_def FLAG_QUIET_def FLAG_DUMP_BIN_def FLAG_LIST_def)
  have 1: "fst (run_state ?m ?s)" and "o_flags (st_opt (snd (run_state ?m ?s))) AND FLAG_LIST = 0"
    using ex by (simp_all add: r check_exclusive_spec)
  with command_line_exclusive [OF 1] show ?thesis by simp
qed

subsection \<open>Files\<close>

text \<open>C33: \<^verbatim>\<open>myread\<close> returns the first \<open>count\<close> bytes the file delivers, in however many parts
  and with however many interruptions, and fails if it delivers fewer.\<close>

theorem myread_delivers:
  "fst (run_state (myread rs count prefix []) s)
     = (if count \<le> length (delivered rs) then Some (take count (delivered rs)) else None)"
  using myread_spec [of "[]" count rs prefix s] by simp

text \<open>C34: a regular file is read from the offset on, at most \<open>len\<close> bytes and no more than it holds, and
  the length is trimmed to that; an offset outside of the file is refused.\<close>

theorem read_file_plain:
  assumes "plain_file os name bytes"
  shows "if 0 \<le> base \<and> base < int (length bytes)
    then run_state (read_file os base len name) s
      = ((Some (take len (drop (nat base) bytes)), min len (length bytes - nat base)), s)
    else fst (fst (run_state (read_file os base len name) s)) = None"
  using read_plain_file [OF assms, of "nat base" len s] read_plain_file_outside [OF assms, of base len s]
  by auto

text \<open>A system on which every file is the given one.\<close>

definition one_file :: "u8 list \<Rightarrow> os" where
  "one_file bytes = \<lparr>os_open = (\<lambda>_. Opened \<lparr>f_size = Some (length bytes), f_kind = Regular,
       f_seek = (\<lambda>base. 0 \<le> base), f_reads = (\<lambda>base. if drop (nat base) bytes = [] then []
         else [Interrupted, Bytes (drop (nat base) bytes)]),
       f_mmap = (\<lambda>_ _. None), f_munmap = True, f_close = True\<rparr>),
     os_root = True, os_pagesize = 4096, os_env = plain_ext, os_dump = (\<lambda>_. None), os_systab = None\<rparr>"

lemma plain_one_file: "length bytes < 2 ^ 63 \<Longrightarrow> plain_file (one_file bytes) name bytes"
proof -
  have "delivered [Bytes bs] = bs" if "bs \<noteq> []" for bs using that by (cases bs) auto
  then show "length bytes < 2 ^ 63 \<Longrightarrow> plain_file (one_file bytes) name bytes"
    by (auto simp: plain_file_def one_file_def plain_ext_def)
qed

theorem read_file_plain_witness:
  "plain_file (one_file [1, 2, 3]) ''f'' [1, 2, 3]
   \<and> run_state (read_file (one_file [1, 2, 3]) 1 32 ''f'') (start_state [] plain_opt None)
     = ((Some [2, 3], 2), start_state [] plain_opt None)"
proof -
  have 1: "plain_file (one_file [1, 2, 3]) ''f'' [1, 2, 3]" by (rule plain_one_file) simp
  show ?thesis using 1 read_file_plain [OF 1, of 1 32 "start_state [] plain_opt None"] by simp
qed

end
