(* ===== verification/Program_Properties.thy ===== *)
theory Program_Properties
  imports Option_Properties
begin

section \<open>Properties of entry points and of the whole program\<close>

text \<open>
  The decoders of entry points follow their specification; decoding a dump does what the bytes of
  the file say, whatever they are; and what \<^verbatim>\<open>--dump-bin\<close> writes is read back by
  \<^verbatim>\<open>--from-dump\<close>, with one exception.
\<close>

subsection \<open>Entry points\<close>

text \<open>C13: the three decoders of entry points accept exactly the buffers the specification accepts, without
  reading outside of them; a rejection only prints, and with a valid entry point the decoder goes on with
  the fields the specification reads off.\<close>

theorem entry_points_follow_spec:
  assumes "n \<le> length buf" "31 \<le> length buf"
  shows "runs_as (smbios3_decode os buf n devmem flags) s (parse_smbios3 buf n)
      (\<lambda>e. use_entry os (dump_smbios3 buf) e devmem (flags OR FLAG_STOP_AT_EOT))
    \<and> runs_as (smbios_decode os buf n devmem flags) s
      (parse_smbios (o_flags (st_opt s) AND FLAG_NO_QUIRKS \<noteq> 0) buf n)
      (\<lambda>e. use_entry os (dump_smbios buf) e devmem flags)
    \<and> runs_as (legacy_decode os buf devmem flags) s (parse_legacy buf)
      (\<lambda>e. use_entry os (dump_legacy buf) e devmem flags)"
  using assms by (simp add: smbios3_decode_run smbios_decode_run legacy_decode_run)

text \<open>A 64-bit entry point for a table of six bytes.\<close>

definition entry3 :: "u8 list" where
  "entry3 = [95, 83, 77, 51, 95, 77, 24, 3, 0, 0, 1, 0, 6, 0, 0, 0, 0, 0, 0, 0, 0, 0, 0, 0, 0, 0, 0, 0, 0, 0, 0, 0]"

lemma parse_entry3: "parse_smbios3 entry3 32
    = Some \<lparr>e_base = 0, e_len = 6, e_num = 0, e_version = 0x0300, e_full = 0x030000\<rparr>"
  by (simp add: parse_smbios3_def entry3_def checksum_def word32_at_def word64_at_def)

theorem entry_points_follow_spec_witness:
  "32 \<le> length entry3 \<and> 31 \<le> length entry3
   \<and> runs_as (smbios3_decode (one_file entry3) entry3 32 ''mem'' 0) (start_state [] plain_opt None)
       (Some \<lparr>e_base = 0, e_len = 6, e_num = 0, e_version = 0x0300, e_full = 0x030000\<rparr>)
       (\<lambda>e. use_entry (one_file entry3) (dump_smbios3 entry3) e ''mem'' (0 OR FLAG_STOP_AT_EOT))"
proof -
  have l: "32 \<le> length entry3" "31 \<le> length entry3" by (simp_all add: entry3_def)
  show ?thesis
    using l entry_points_follow_spec [OF l, of "one_file entry3" "''mem''" 0 "start_state [] plain_opt None"]
    unfolding parse_entry3 by blast
qed

text \<open>The lines up to the first that names an entry point.\<close>

definition efi_key :: "string \<Rightarrow> bool" where
  "efi_key line \<longleftrightarrow> CHR ''='' \<in> set line \<and> takeWhile (\<lambda>c. c \<noteq> CHR ''='') line \<in> {''SMBIOS3'', ''SMBIOS''}"

text \<open>A line of the EFI system table without an equals sign makes the search write through a null
  pointer if it comes before the line of an entry point; nothing else goes wrong.\<close>

lemma efi_line_without_equals:
  "st_faults (snd (run_state (efi_lines lines) s)) = st_faults s
    @ (if list_all (\<lambda>line. CHR ''='' \<in> set line) (takeWhile (\<lambda>line. \<not> efi_key line) lines) then []
       else [NullPointer])"
  by (induction lines) (auto simp: efi_key_def fault_def Let_def)

subsection \<open>Dumps\<close>

text \<open>C12: \<^verbatim>\<open>--from-dump\<close> decodes the table that the bytes of the file describe, with the entry
  point they hold, and nothing if they describe none.\<close>

theorem decode_dump_refines:
  assumes "plain_file os (o_dumpfile (st_opt s)) bytes"
    "o_flags (st_opt s) AND FLAG_FROM_DUMP \<noteq> 0" "o_flags (st_opt s) AND FLAG_DUMP_BIN = 0"
  shows "\<exists>out err. let s' = s\<lparr>st_out := out, st_err := err\<rparr> in
     snd (run_state (decode_dump os) s) =
       (case dump_entry (o_flags (st_opt s) AND FLAG_NO_QUIRKS \<noteq> 0) bytes of None \<Rightarrow> s'
        | Some (e, flags) \<Rightarrow> (case dump_table bytes e of None \<Rightarrow> s'
          | Some T \<Rightarrow> snd (run_state (dmi_table_decode (os_env os) (of_nat (length T)) (e_num e) (e_version e) flags)
              (s'\<lparr>st_mem := T\<rparr>))))"
  using decode_dump_spec [OF assms(1) refl assms(2,3)] unfolding decodes_as_def .

theorem decode_dump_refines_witness:
  "plain_file (one_file [1, 2, 3]) (o_dumpfile (plain_opt\<lparr>o_flags := FLAG_FROM_DUMP\<rparr>)) [1, 2, 3]
   \<and> (\<exists>out err. snd (run_state (decode_dump (one_file [1, 2, 3])) (start_state [] (plain_opt\<lparr>o_flags := FLAG_FROM_DUMP\<rparr>) None))
        = (start_state [] (plain_opt\<lparr>o_flags := FLAG_FROM_DUMP\<rparr>) None)\<lparr>st_out := out, st_err := err\<rparr>)"
proof -
  let ?s = "start_state [] (plain_opt\<lparr>o_flags := FLAG_FROM_DUMP\<rparr>) None"
  have 1: "plain_file (one_file [1, 2, 3]) (o_dumpfile (st_opt ?s)) [1, 2, 3]" by (rule plain_one_file) simp
  have 2: "o_flags (st_opt ?s) AND FLAG_FROM_DUMP \<noteq> 0" "o_flags (st_opt ?s) AND FLAG_DUMP_BIN = 0"
    by (simp_all add: start_state_def FLAG_FROM_DUMP_def FLAG_DUMP_BIN_def)
  have "dump_entry b [1, 2, 3] = None" for b by (simp add: dump_entry_def)
  then show ?thesis using decode_dump_refines [OF 1 2] plain_one_file [of "[1, 2, 3]"] by simp
qed

text \<open>C3: with any file whatsoever, \<^verbatim>\<open>dmidecode --from-dump\<close> causes no fault of the kinds that are logged but those
  of the structures of the single table the file describes.\<close>

theorem from_dump_safe:
  assumes "plain_file os name bytes"
  shows "set (st_faults (snd (run_state (dmidecode os prog [Got CHR ''F'' name] quiet cpux)
      (start_state [] (plain_opt\<lparr>o_type := types\<rparr>) None)))) \<subseteq> image_faults False bytes"
  using assms by (rule from_dump_ok) (simp_all add: start_state_def plain_opt_def)

theorem from_dump_safe_witness:
  "plain_file (one_file [1, 2, 3]) ''dump'' [1, 2, 3]
   \<and> st_faults (snd (run_state (dmidecode (one_file [1, 2, 3]) ''dmidecode'' [Got CHR ''F'' ''dump''] False None)
      (start_state [] (plain_opt\<lparr>o_type := None\<rparr>) None))) = []"
proof -
  have 1: "plain_file (one_file [1, 2, 3]) ''dump'' [1, 2, 3]" by (rule plain_one_file) simp
  have "image_faults False [1, 2, 3] = {}" by (simp add: image_faults_def dump_entry_def)
  then show ?thesis using 1 from_dump_safe [OF 1, of "''dmidecode''" False None None] by simp
qed

text \<open>C2: what \<^verbatim>\<open>--dump-bin\<close> writes for a 64-bit entry point is read by \<^verbatim>\<open>--from-dump\<close> as the same
  entry point, but for the address of the table, and the same table.\<close>

theorem dump_read_back:
  assumes "parse_smbios3 buf n = Some e" "32 \<le> length buf" "n \<le> 32" "take 5 buf = ascii ''_SM3_''"
    "table \<noteq> []" "length table = unat (e_len e)"
    "o_flags (st_opt s) AND FLAG_DUMP_BIN \<noteq> 0" "os_dump os (o_dumpfile (st_opt s)) = None" "st_dump s = []"
  shows "let image = st_dump (snd (run_state (use_table os (dump_smbios3 buf) (Some table, e_len e) num ver flags) s))
    in dump_entry no_quirks image = Some (e\<lparr>e_base := 32\<rparr>, FLAG_STOP_AT_EOT)
      \<and> dump_table image (e\<lparr>e_base := 32\<rparr>) = Some table"
proof -
  note d = dump_entry_smbios3 [OF assms(1-4)]
  have "st_dump (snd (run_state (use_table os (dump_smbios3 buf) (Some table, e_len e) num ver flags) s))
      = dump_image (craft_smbios3 buf) table"
    using d(2,3) assms by (intro use_table_dump run_dump_craft) auto
  then show ?thesis using d dump_table_image assms(5,6) by (simp add: Let_def)
qed

theorem dump_read_back_witness:
  "parse_smbios3 entry3 32 = Some \<lparr>e_base = 0, e_len = 6, e_num = 0, e_version = 0x0300, e_full = 0x030000\<rparr>
   \<and> (let image = st_dump (snd (run_state (use_table (one_file []) (dump_smbios3 entry3)
         (Some [127, 4, 0, 0, 0, 0], 6) 0 0x0300 0) (start_state [] (plain_opt\<lparr>o_flags := FLAG_DUMP_BIN\<rparr>) None)))
      in dump_entry False image = Some (\<lparr>e_base = 32, e_len = 6, e_num = 0, e_version = 0x0300, e_full = 0x030000\<rparr>,
           FLAG_STOP_AT_EOT))"
proof -
  let ?s = "start_state [] (plain_opt\<lparr>o_flags := FLAG_DUMP_BIN\<rparr>) None"
  have 1: "32 \<le> length entry3" "(32 :: nat) \<le> 32" "take 5 entry3 = ascii ''_SM3_''"
    by (simp_all add: entry3_def ascii_def)
  have 2: "[127, 4, 0, 0, 0, 0 :: u8] \<noteq> []" "length [127, 4, 0, 0, 0, 0 :: u8]
      = unat (e_len \<lparr>e_base = 0, e_len = 6, e_num = 0, e_version = 0x0300, e_full = 0x030000\<rparr>)"
    "o_flags (st_opt ?s) AND FLAG_DUMP_BIN \<noteq> 0" "os_dump (one_file []) (o_dumpfile (st_opt ?s)) = None" "st_dump ?s = []"
    by (simp_all add: start_state_def FLAG_DUMP_BIN_def one_file_def)
  show ?thesis using dump_read_back [OF parse_entry3 1 2, of 0 "0x0300" 0 False] parse_entry3 by (simp add: Let_def)
qed

text \<open>C30: of a 32-bit entry point of the length \<^verbatim>\<open>0x1E\<close>, which is accepted, the dump lacks the last
  byte, which the second checksum covers: exactly if that byte is not 0, the dump is refused. Of every
  other length, and of a legacy entry point, it is read back.\<close>

theorem dump_of_short_entry:
  assumes "parse_smbios nq buf n = Some e" "32 \<le> length buf" "n \<le> 32" "take 4 buf = ascii ''_SM_''"
    "table \<noteq> []" "length table = unat (e_len e)"
    "o_flags (st_opt s) AND FLAG_DUMP_BIN \<noteq> 0" "os_dump os (o_dumpfile (st_opt s)) = None" "st_dump s = []"
  shows "let image = st_dump (snd (run_state (use_table os (dump_smbios buf) (Some table, e_len e) num ver flags) s))
    in dump_entry nq image = (if buf ! 5 = 0x1E \<and> buf ! 0x1E \<noteq> 0 then None else Some (e\<lparr>e_base := 32\<rparr>, 0))
      \<and> dump_table image (e\<lparr>e_base := 32\<rparr>) = Some table"
proof -
  note d = dump_entry_smbios [OF assms(1-4)]
  have "st_dump (snd (run_state (use_table os (dump_smbios buf) (Some table, e_len e) num ver flags) s))
      = dump_image (craft_smbios buf) table"
    using d(2,3) assms by (intro use_table_dump run_dump_craft) auto
  then show ?thesis using d dump_table_image assms(5,6) by (simp add: Let_def)
qed

text \<open>A 32-bit entry point of the length \<^verbatim>\<open>0x1E\<close> with the last byte 1.\<close>

definition entry_1e :: "u8 list" where
  "entry_1e = [95, 83, 77, 95, 123, 30, 2, 8, 0, 0, 0, 0, 0, 0, 0, 0,
     95, 68, 77, 73, 95, 96, 6, 0, 0, 0, 0, 0, 1, 0, 1, 0]"

theorem dump_of_short_entry_witness:
  "(\<exists>e. parse_smbios True entry_1e 32 = Some e)
   \<and> dump_entry True (st_dump (snd (run_state (use_table (one_file []) (dump_smbios entry_1e)
       (Some [127, 4, 0, 0, 0, 0], 6) 1 0x0208 0) (start_state [] (plain_opt\<lparr>o_flags := FLAG_DUMP_BIN\<rparr>) None)))) = None"
proof -
  let ?s = "start_state [] (plain_opt\<lparr>o_flags := FLAG_DUMP_BIN\<rparr>) None"
  let ?e = "\<lparr>e_base = 0, e_len = 6, e_num = 1, e_version = 0x0208, e_full = 0x020800\<rparr>"
  have p: "parse_smbios True entry_1e 32 = Some ?e"
    by (simp add: parse_smbios_def entry_1e_def checksum_def word32_at_def word16_at_def ascii_def)
  have 1: "32 \<le> length entry_1e" "(32 :: nat) \<le> 32" "take 4 entry_1e = ascii ''_SM_''"
    by (simp_all add: entry_1e_def ascii_def)
  have 2: "[127, 4, 0, 0, 0, 0 :: u8] \<noteq> []" "length [127, 4, 0, 0, 0, 0 :: u8] = unat (e_len ?e)"
    "o_flags (st_opt ?s) AND FLAG_DUMP_BIN \<noteq> 0" "os_dump (one_file []) (o_dumpfile (st_opt ?s)) = None" "st_dump ?s = []"
    by (simp_all add: start_state_def FLAG_DUMP_BIN_def one_file_def)
  have "entry_1e ! 5 = 0x1E \<and> entry_1e ! 0x1E \<noteq> 0" by (simp add: entry_1e_def)
  then show ?thesis
    using dump_of_short_entry [OF p 1 2, of 1 "0x0208" 0] p by (simp add: Let_def)
qed

end
