(* ===== verification/Selection.thy ===== *)
theory Selection
  imports Prelude
begin

section \<open>What the user has selected (options.cpp)\<close>

text \<open>
  The static members of the class \<^verbatim>\<open>Options\<close> of \<^verbatim>\<open>src/src/options.cpp\<close>: the selected
  tab, type of CPU, core, memory stick, graphics card and test, each kept below the number of things
  there are. \<^verbatim>\<open>vector::at\<close> throws outside of the vector: an operation that may throw
  returns \<open>None\<close>. Messages of the log and the CPU affinity, which is set in the operating
  system, are left out.

  \<open>selection_ok\<close> is the invariant; the theory \<open>Selection_Properties\<close> states what follows.
\<close>

datatype TabNumber = TAB_CPU | TAB_CACHES | TAB_MOTHERBOARD | TAB_MEMORY | TAB_SYSTEM | TAB_GRAPHICS
  | TAB_BENCH | TAB_ABOUT

datatype OptKeymap = ARROWS | EMACS | INVERTED_T | VIM

datatype OptTempUnit = CELSIUS | FAHRENHEIT | KELVIN | RANKINE

text \<open>A value of an enumeration may be any number; the ones without a name take the default
  branches.\<close>

definition tabs :: "TabNumber list" where
  "tabs = [TAB_CPU, TAB_CACHES, TAB_MOTHERBOARD, TAB_MEMORY, TAB_SYSTEM, TAB_GRAPHICS, TAB_BENCH, TAB_ABOUT]"

fun tab_num :: "TabNumber \<Rightarrow> nat" where
  "tab_num TAB_CPU = 0" | "tab_num TAB_CACHES = 1" | "tab_num TAB_MOTHERBOARD = 2" | "tab_num TAB_MEMORY = 3"
| "tab_num TAB_SYSTEM = 4" | "tab_num TAB_GRAPHICS = 5" | "tab_num TAB_BENCH = 6" | "tab_num TAB_ABOUT = 7"

text \<open>The pairs of the class: the current value and the number of allowed ones.\<close>

record selection =
  sel_page :: TabNumber
  page_visible :: "TabNumber \<Rightarrow> bool"
  sel_type :: u8
  num_types :: u8
  sel_core :: u16
  num_cores :: "u16 list"
  sel_stick :: u8
  num_sticks :: u8
  sel_gpu :: u8
  num_gpus :: u8
  sel_test :: u8
  output_type :: u16
  refr_time :: u16
  keymap :: OptKeymap
  temp_unit :: OptTempUnit

definition initial_selection :: selection where
  "initial_selection = \<lparr>sel_page = TAB_CPU, page_visible = (\<lambda>_. False), sel_type = 0, num_types = - 1,
     sel_core = 0, num_cores = [], sel_stick = 0, num_sticks = - 1, sel_gpu = 0, num_gpus = - 1,
     sel_test = 0, output_type = 0, refr_time = 1, keymap = ARROWS, temp_unit = CELSIUS\<rparr>"

subsection \<open>Tabs\<close>

definition init_page_visibility :: "selection \<Rightarrow> selection" where
  "init_page_visibility s = s\<lparr>page_visible := (\<lambda>_. True)\<rparr>"

definition set_page_visibility :: "TabNumber \<Rightarrow> bool \<Rightarrow> selection \<Rightarrow> selection" where
  "set_page_visibility page visible s = s\<lparr>page_visible := (page_visible s)(page := visible)\<rparr>"

text \<open>The arguments are the numbers of caches of the selected type of CPU, of memory sticks and of
  graphics cards.\<close>

definition set_page_visibility_auto :: "nat \<Rightarrow> nat \<Rightarrow> nat \<Rightarrow> selection \<Rightarrow> selection" where
  "set_page_visibility_auto caches sticks cards s =
     set_page_visibility TAB_GRAPHICS (0 < cards)
       (set_page_visibility TAB_MEMORY (0 < sticks)
         (set_page_visibility TAB_CACHES (0 < caches) s))"

definition set_selected_page :: "nat \<Rightarrow> selection \<Rightarrow> bool \<times> selection" where
  "set_selected_page n s =
     (if n < length tabs then
        (if page_visible s (tabs ! n) then (True, s\<lparr>sel_page := tabs ! n\<rparr>) else (False, s\<lparr>sel_page := TAB_CPU\<rparr>))
      else (False, s\<lparr>sel_page := TAB_CPU\<rparr>))"

text \<open>The loops over the tabs: from number \<open>n\<close> on to the next one that is visible, or the last.\<close>

function next_page :: "(TabNumber \<Rightarrow> bool) \<Rightarrow> nat \<Rightarrow> nat" where
  "next_page vis n = (let n = n + 1 in if n < 7 \<and> \<not> vis (tabs ! n) then next_page vis n else n)"
  by pat_completeness auto
termination by (relation "measure (\<lambda>(vis, n). 7 - n)") auto

fun prev_page :: "(TabNumber \<Rightarrow> bool) \<Rightarrow> nat \<Rightarrow> nat" where
  "prev_page vis 0 = 0"
| "prev_page vis (Suc n) = (if 0 < n \<and> \<not> vis (tabs ! n) then prev_page vis n else n)"

declare next_page.simps [simp del]

definition set_selected_page_next :: "selection \<Rightarrow> bool \<times> selection" where
  "set_selected_page_next s =
     (if tab_num (sel_page s) < 7
      then (True, s\<lparr>sel_page := tabs ! next_page (page_visible s) (tab_num (sel_page s))\<rparr>) else (False, s))"

definition set_selected_page_prev :: "selection \<Rightarrow> bool \<times> selection" where
  "set_selected_page_prev s =
     (if 0 < tab_num (sel_page s)
      then (True, s\<lparr>sel_page := tabs ! prev_page (page_visible s) (tab_num (sel_page s))\<rparr>) else (False, s))"

subsection \<open>Types of CPU and cores\<close>

definition check_selected_type_valid :: "u8 \<Rightarrow> selection \<Rightarrow> bool \<times> selection" where
  "check_selected_type_valid t s = (if t < num_types s then (True, s) else (False, s\<lparr>sel_type := 0\<rparr>))"

definition set_num_types :: "u8 \<Rightarrow> selection \<Rightarrow> selection" where
  "set_num_types n s = s\<lparr>num_types := n, num_cores := replicate (unat n) (- 1)\<rparr>"

definition get_selected_type :: "selection \<Rightarrow> u8 \<times> selection" where
  "get_selected_type s = (let s = snd (check_selected_type_valid (sel_type s) s) in (sel_type s, s))"

text \<open>\<^verbatim>\<open>v.at(i)\<close>\<close>

definition at :: "'a list \<Rightarrow> nat \<Rightarrow> 'a option" where
  "at v i = (if i < length v then Some (v ! i) else None)"

definition check_selected_core_valid :: "u16 \<Rightarrow> selection \<Rightarrow> (bool \<times> selection) option" where
  "check_selected_core_valid c s =
     (if num_cores s = [] then Some (True, s)
      else (let (t, s) = get_selected_type s in
        case at (num_cores s) (unat t) of None \<Rightarrow> None
        | Some n \<Rightarrow> Some (if c < n then (True, s) else (False, s\<lparr>sel_core := 0\<rparr>))))"

definition get_selected_core :: "selection \<Rightarrow> (u16 \<times> selection) option" where
  "get_selected_core s = map_option (\<lambda>(_, s). (sel_core s, s)) (check_selected_core_valid (sel_core s) s)"

definition set_num_cores :: "u8 \<Rightarrow> u16 \<Rightarrow> selection \<Rightarrow> selection option" where
  "set_num_cores t n s =
     (if num_cores s = [] then Some s
      else if unat t < length (num_cores s) then Some (s\<lparr>num_cores := (num_cores s)[unat t := n]\<rparr>) else None)"

text \<open>The number of the selected core among all cores, a sum of 16 bits.\<close>

definition get_selected_core_id :: "selection \<Rightarrow> (u16 \<times> selection) option" where
  "get_selected_core_id s =
     (if num_cores s = [] then Some (0, s)
      else (let (t, s) = get_selected_type s in
        if length (num_cores s) < unat t then None
        else map_option (\<lambda>(c, s). (sum_list (take (unat t) (num_cores s)) + c, s)) (get_selected_core s)))"

definition set_selected_core :: "u16 \<Rightarrow> selection \<Rightarrow> (bool \<times> selection) option" where
  "set_selected_core c s = (case check_selected_core_valid c s of
       None \<Rightarrow> None
     | Some (False, s) \<Rightarrow> Some (False, s)
     | Some (True, s) \<Rightarrow> map_option (\<lambda>(_, s). (True, s)) (get_selected_core_id (s\<lparr>sel_core := c\<rparr>)))"

definition set_selected_type :: "u8 \<Rightarrow> selection \<Rightarrow> (bool \<times> selection) option" where
  "set_selected_type t s = (case check_selected_type_valid t s of
       (False, s) \<Rightarrow> Some (False, s)
     | (True, s) \<Rightarrow> map_option (\<lambda>(_, s). (True, s)) (set_selected_core 0 (s\<lparr>sel_type := t\<rparr>)))"

subsection \<open>Sticks, cards, tests\<close>

definition check_selected_stick_valid :: "u8 \<Rightarrow> selection \<Rightarrow> bool \<times> selection" where
  "check_selected_stick_valid n s = (if n < num_sticks s then (True, s) else (False, s\<lparr>sel_stick := 0\<rparr>))"

definition set_num_sticks :: "u8 \<Rightarrow> selection \<Rightarrow> selection" where
  "set_num_sticks n s = s\<lparr>num_sticks := n\<rparr>"

definition set_selected_stick :: "u8 \<Rightarrow> selection \<Rightarrow> bool \<times> selection" where
  "set_selected_stick n s = (case check_selected_stick_valid n s of
       (True, s) \<Rightarrow> (True, s\<lparr>sel_stick := n\<rparr>) | (False, s) \<Rightarrow> (False, s))"

definition get_selected_stick :: "selection \<Rightarrow> u8 \<times> selection" where
  "get_selected_stick s = (let s = snd (check_selected_stick_valid (sel_stick s) s) in (sel_stick s, s))"

definition check_selected_gpu_valid :: "u8 \<Rightarrow> selection \<Rightarrow> bool \<times> selection" where
  "check_selected_gpu_valid n s = (if n < num_gpus s then (True, s) else (False, s\<lparr>sel_gpu := 0\<rparr>))"

definition set_num_gpus :: "u8 \<Rightarrow> selection \<Rightarrow> selection" where
  "set_num_gpus n s = s\<lparr>num_gpus := n\<rparr>"

definition set_selected_gpu :: "u8 \<Rightarrow> selection \<Rightarrow> bool \<times> selection" where
  "set_selected_gpu n s = (case check_selected_gpu_valid n s of
       (True, s) \<Rightarrow> (True, s\<lparr>sel_gpu := n\<rparr>) | (False, s) \<Rightarrow> (False, s))"

definition get_selected_gpu :: "selection \<Rightarrow> u8 \<times> selection" where
  "get_selected_gpu s = (let s = snd (check_selected_gpu_valid (sel_gpu s) s) in (sel_gpu s, s))"

definition BANDWIDTH_LAST_TEST :: u8 where "BANDWIDTH_LAST_TEST = 30"

definition set_selected_test :: "u8 \<Rightarrow> selection \<Rightarrow> bool \<times> selection" where
  "set_selected_test n s = (if n < BANDWIDTH_LAST_TEST then (True, s\<lparr>sel_test := n\<rparr>) else (False, s\<lparr>sel_test := 0\<rparr>))"

subsection \<open>Output, refresh time, keys, units\<close>

definition OUT_GTK :: u16 where "OUT_GTK = push_bit 0 1"
definition OUT_NCURSES :: u16 where "OUT_NCURSES = push_bit 1 1"
definition OUT_DUMP :: u16 where "OUT_DUMP = push_bit 2 1"
definition OUT_NO_CPUX :: u16 where "OUT_NO_CPUX = push_bit 10 1"
definition OUT_DMIDECODE :: u16 where "OUT_DMIDECODE = push_bit 11 1"
definition OUT_BANDWIDTH :: u16 where "OUT_BANDWIDTH = push_bit 12 1"

definition set_output_type :: "u16 \<Rightarrow> selection \<Rightarrow> bool \<times> selection" where
  "set_output_type t s =
     (if t \<in> {OUT_GTK, OUT_NCURSES, OUT_DUMP, OUT_NO_CPUX, OUT_DMIDECODE, OUT_BANDWIDTH}
      then (True, s\<lparr>output_type := t\<rparr>) else (False, s\<lparr>output_type := OUT_DUMP\<rparr>))"

definition set_refr_time :: "u16 \<Rightarrow> selection \<Rightarrow> bool \<times> selection" where
  "set_refr_time t s = (if 1 \<le> t then (True, s\<lparr>refr_time := t\<rparr>) else (False, s\<lparr>refr_time := 1\<rparr>))"

definition set_keymap :: "nat \<Rightarrow> selection \<Rightarrow> bool \<times> selection" where
  "set_keymap n s = (case at [ARROWS, EMACS, INVERTED_T, VIM] n of
       Some k \<Rightarrow> (True, s\<lparr>keymap := k\<rparr>) | None \<Rightarrow> (False, s\<lparr>keymap := ARROWS\<rparr>))"

definition set_temp_unit :: "nat \<Rightarrow> selection \<Rightarrow> bool \<times> selection" where
  "set_temp_unit n s = (case at [CELSIUS, FAHRENHEIT, KELVIN, RANKINE] n of
       Some u \<Rightarrow> (True, s\<lparr>temp_unit := u\<rparr>) | None \<Rightarrow> (False, s\<lparr>temp_unit := CELSIUS\<rparr>))"

end
