(* ===== verification/Selection_Properties.thy ===== *)
theory Selection_Properties
  imports Selection
begin

section \<open>Properties of the selection\<close>

text \<open>
  Whatever sequence of operations the user interface calls, what is read is a valid choice, and no
  operation throws but \<^verbatim>\<open>set_num_cores\<close> for a type that there is not; the number of the selected core is different for different choices; and moving
  between the tabs goes forth and back.
\<close>

subsection \<open>Every sequence of operations\<close>

text \<open>One call of a member function that returns. Of the four that may throw, \<^verbatim>\<open>set_num_cores\<close> does so
  before it changes anything, and the others never do as is shown below.\<close>

inductive sel_step :: "selection \<Rightarrow> selection \<Rightarrow> bool" where
  visible: "sel_step s (set_page_visibility p v s)"
| init_visible: "sel_step s (init_page_visibility s)"
| page: "sel_step s (snd (set_selected_page n s))"
| next_tab: "sel_step s (snd (set_selected_page_next s))"
| prev_tab: "sel_step s (snd (set_selected_page_prev s))"
| num_types: "sel_step s (set_num_types n s)"
| type: "set_selected_type t s = Some (b, s') \<Longrightarrow> sel_step s s'"
| get_type: "sel_step s (snd (get_selected_type s))"
| num_cores: "set_num_cores t n s = Some s' \<Longrightarrow> sel_step s s'"
| core: "set_selected_core c s = Some (b, s') \<Longrightarrow> sel_step s s'"
| get_core: "get_selected_core s = Some (c, s') \<Longrightarrow> sel_step s s'"
| core_id: "get_selected_core_id s = Some (c, s') \<Longrightarrow> sel_step s s'"
| num_sticks: "sel_step s (set_num_sticks n s)"
| stick: "sel_step s (snd (set_selected_stick n s))"
| get_stick: "sel_step s (snd (get_selected_stick s))"
| num_gpus: "sel_step s (set_num_gpus n s)"
| gpu: "sel_step s (snd (set_selected_gpu n s))"
| get_gpu: "sel_step s (snd (get_selected_gpu s))"
| test: "sel_step s (snd (set_selected_test n s))"
| set_output: "sel_step s (snd (set_output_type t s))"
| refresh: "sel_step s (snd (set_refr_time t s))"
| keys: "sel_step s (snd (set_keymap k s))"
| unit: "sel_step s (snd (set_temp_unit k s))"

definition reachable :: "selection \<Rightarrow> bool" where
  "reachable s \<longleftrightarrow> sel_step\<^sup>*\<^sup>* initial_selection s"

definition selection_ok :: "selection \<Rightarrow> bool" where
  "selection_ok s \<longleftrightarrow> (num_cores s = [] \<or> length (num_cores s) = unat (num_types s))
     \<and> sel_test s < BANDWIDTH_LAST_TEST \<and> 1 \<le> refr_time s"

lemma get_type_valid: "fst (get_selected_type s) < num_types s \<or> fst (get_selected_type s) = 0"
  by (simp add: get_selected_type_def check_selected_type_valid_def)

lemma get_type_frame:
  "num_types (snd (get_selected_type s)) = num_types s" "num_cores (snd (get_selected_type s)) = num_cores s"
  "sel_test (snd (get_selected_type s)) = sel_test s" "refr_time (snd (get_selected_type s)) = refr_time s"
  "sel_core (snd (get_selected_type s)) = sel_core s" "sel_type (snd (get_selected_type s)) = fst (get_selected_type s)"
  "selection_ok (snd (get_selected_type s)) = selection_ok s"
  by (simp_all add: get_selected_type_def check_selected_type_valid_def selection_ok_def)

lemma get_type_idem: "get_selected_type (snd (get_selected_type s)) = get_selected_type s"
  by (auto simp: get_selected_type_def check_selected_type_valid_def)

lemma type_in_vector:
  "selection_ok s \<Longrightarrow> num_cores s \<noteq> [] \<Longrightarrow> unat (fst (get_selected_type s)) < length (num_cores s)"
  using get_type_valid [of s] length_greater_0_conv [of "num_cores s"]
  by (auto simp: selection_ok_def word_less_nat_alt)

lemma check_core:
  assumes "selection_ok s"
  shows "check_selected_core_valid c s = Some (let s' = snd (get_selected_type s) in
    if num_cores s = [] then (True, s)
    else if c < num_cores s ! unat (fst (get_selected_type s)) then (True, s') else (False, s'\<lparr>sel_core := 0\<rparr>))"
  using type_in_vector [OF assms]
  by (auto simp: check_selected_core_valid_def split_beta at_def Let_def get_type_frame)

lemma ok_sel_core: "selection_ok (s\<lparr>sel_core := c\<rparr>) = selection_ok s" "selection_ok (s\<lparr>sel_type := t\<rparr>) = selection_ok s"
  by (simp_all add: selection_ok_def)

lemma get_core:
  assumes "selection_ok s"
  obtains c s' where "get_selected_core s = Some (c, s')" "selection_ok s'" "num_cores s' = num_cores s"
    "sel_core s' = c" "num_cores s \<noteq> [] \<Longrightarrow> c < num_cores s ! unat (fst (get_selected_type s)) \<or> c = 0"
    "num_cores s \<noteq> [] \<Longrightarrow> sel_core s < num_cores s ! unat (fst (get_selected_type s)) \<Longrightarrow> c = sel_core s"
proof -
  let ?r = "the (check_selected_core_valid (sel_core s) s)"
  have "get_selected_core s = Some (sel_core (snd ?r), snd ?r)"
    by (simp add: get_selected_core_def check_core [OF assms] split_beta)
  then show thesis
    by (rule that)
       (use assms in \<open>auto simp: check_core [OF assms] Let_def get_type_frame ok_sel_core split: if_splits\<close>)
qed

lemma core_id:
  assumes "selection_ok s"
  obtains i s' where "get_selected_core_id s = Some (i, s')" "selection_ok s'"
    "num_cores s \<noteq> [] \<Longrightarrow> sel_core s < num_cores s ! unat (fst (get_selected_type s))
       \<Longrightarrow> i = sum_list (take (unat (fst (get_selected_type s))) (num_cores s)) + sel_core s"
proof (cases "num_cores s = []")
  case True
  then show thesis using assms that by (simp add: get_selected_core_id_def)
next
  case False
  let ?s = "snd (get_selected_type s)"
  have ok: "selection_ok ?s" using assms by (simp add: get_type_frame)
  obtain c s' where c: "get_selected_core ?s = Some (c, s')" "selection_ok s'" "num_cores s' = num_cores ?s"
    "num_cores ?s \<noteq> [] \<Longrightarrow> sel_core ?s < num_cores ?s ! unat (fst (get_selected_type ?s)) \<Longrightarrow> c = sel_core ?s"
    using get_core [OF ok] by metis
  have i: "get_selected_core_id s = Some (sum_list (take (unat (fst (get_selected_type s))) (num_cores s)) + c, s')"
    using c(1,3) False type_in_vector [OF assms False]
    by (simp add: get_selected_core_id_def split_beta Let_def get_type_frame)
  moreover have "c = sel_core s" if "sel_core s < num_cores s ! unat (fst (get_selected_type s))"
    using c(4) False that by (simp add: get_type_frame get_type_idem)
  ultimately show thesis using c(2) that by blast
qed

lemma set_core:
  assumes "selection_ok s"
  obtains b s' where "set_selected_core c s = Some (b, s')" "selection_ok s'"
proof -
  obtain b s1 where 1: "check_selected_core_valid c s = Some (b, s1)" "selection_ok s1"
    using check_core [OF assms, of c] assms
    by (cases "the (check_selected_core_valid c s)") (auto simp: Let_def get_type_frame ok_sel_core split: if_splits)
  show thesis
  proof (cases b)
    case True
    obtain i s' where "get_selected_core_id (s1\<lparr>sel_core := c\<rparr>) = Some (i, s')" "selection_ok s'"
      using core_id [of "s1\<lparr>sel_core := c\<rparr>"] 1(2) ok_sel_core by metis
    with True 1 that show thesis by (simp add: set_selected_core_def)
  next
    case False
    with 1 that show thesis by (simp add: set_selected_core_def)
  qed
qed

lemma set_type:
  assumes "selection_ok s"
  obtains b s' where "set_selected_type t s = Some (b, s')" "selection_ok s'"
proof (cases "t < num_types s")
  case True
  obtain b s' where "set_selected_core 0 (s\<lparr>sel_type := t\<rparr>) = Some (b, s')" "selection_ok s'"
    using set_core [of "s\<lparr>sel_type := t\<rparr>" 0] assms ok_sel_core by metis
  with True that show thesis by (simp add: set_selected_type_def check_selected_type_valid_def)
next
  case False
  with assms that show thesis
    by (simp add: set_selected_type_def check_selected_type_valid_def ok_sel_core)
qed

lemma step_ok: "sel_step s s' \<Longrightarrow> selection_ok s \<Longrightarrow> selection_ok s'"
proof (induction rule: sel_step.induct)
  case (type t s b s')
  then show ?case using set_type [of s t] by (metis option.inject prod.inject)
next
  case (core c s b s')
  then show ?case using set_core [of s c] by (metis option.inject prod.inject)
next
  case (get_core s c s')
  then show ?case using Selection_Properties.get_core [of s] by (metis option.inject prod.inject)
next
  case (core_id s c s')
  then show ?case using Selection_Properties.core_id [of s] by (metis option.inject prod.inject)
next
  case (num_cores t n s s')
  then show ?case by (auto simp: set_num_cores_def selection_ok_def split: if_splits)
qed (auto simp: selection_ok_def set_page_visibility_def init_page_visibility_def set_selected_page_def
    set_selected_page_next_def set_selected_page_prev_def set_num_types_def get_selected_type_def
    check_selected_type_valid_def set_num_sticks_def set_selected_stick_def get_selected_stick_def
    check_selected_stick_valid_def set_num_gpus_def set_selected_gpu_def get_selected_gpu_def
    check_selected_gpu_valid_def set_selected_test_def set_output_type_def set_refr_time_def set_keymap_def
    set_temp_unit_def BANDWIDTH_LAST_TEST_def split: option.split)

lemma reachable_ok: "reachable s \<Longrightarrow> selection_ok s"
  unfolding reachable_def
proof (induction rule: rtranclp_induct)
  case base
  show ?case by (simp add: selection_ok_def initial_selection_def BANDWIDTH_LAST_TEST_def)
qed (rule step_ok)

text \<open>C20: after any sequence of calls, some of which may have thrown, the selected type of CPU, stick and
  card that are read are below their number, or 0; so is the core for the selected type. The calls that read
  or select a core or a type never throw; \<^verbatim>\<open>set_num_cores\<close> throws exactly if the number of types is
  set, and its argument is not below it.\<close>

theorem selection_always_valid:
  assumes "reachable s"
  shows "(fst (get_selected_type s) < num_types s \<or> fst (get_selected_type s) = 0)
    \<and> (fst (get_selected_stick s) < num_sticks s \<or> fst (get_selected_stick s) = 0)
    \<and> (fst (get_selected_gpu s) < num_gpus s \<or> fst (get_selected_gpu s) = 0)
    \<and> (\<exists>c s'. get_selected_core s = Some (c, s')
         \<and> (num_cores s = [] \<or> c = 0 \<or> c < num_cores s ! unat (fst (get_selected_type s))))
    \<and> get_selected_core_id s \<noteq> None \<and> set_selected_core c s \<noteq> None \<and> set_selected_type t s \<noteq> None
    \<and> (set_num_cores t n s = None \<longleftrightarrow> num_cores s \<noteq> [] \<and> num_types s \<le> t)"
proof -
  note ok = reachable_ok [OF assms]
  have "\<exists>c s'. get_selected_core s = Some (c, s')
         \<and> (num_cores s = [] \<or> c = 0 \<or> c < num_cores s ! unat (fst (get_selected_type s)))"
    using get_core [OF ok] by metis
  moreover have "get_selected_core_id s \<noteq> None" "set_selected_core c s \<noteq> None" "set_selected_type t s \<noteq> None"
    using core_id [OF ok] set_core [OF ok] set_type [OF ok] by (metis option.discI)+
  moreover have "set_num_cores t n s = None \<longleftrightarrow> num_cores s \<noteq> [] \<and> num_types s \<le> t"
    using ok by (auto simp: set_num_cores_def selection_ok_def word_le_nat_alt)
  ultimately show ?thesis
    using get_type_valid
    by (simp add: get_selected_stick_def check_selected_stick_valid_def get_selected_gpu_def
        check_selected_gpu_valid_def)
qed

text \<open>A processor of two types with 4 and 8 cores.\<close>

definition two_types :: selection where
  "two_types = initial_selection\<lparr>num_types := 2, num_cores := [4, 8]\<rparr>"

lemma two_types_reachable: "reachable two_types"
proof -
  let ?a = "set_num_types 2 initial_selection"
  have two: "replicate 2 x = [x, x]" for x :: u16 by (simp add: numeral_2_eq_2)
  have "sel_step initial_selection ?a" by (rule sel_step.num_types)
  moreover have "sel_step ?a (?a\<lparr>num_cores := [4, - 1]\<rparr>)"
    by (rule sel_step.num_cores [of 0 4]) (simp add: set_num_cores_def set_num_types_def two)
  moreover have "sel_step (?a\<lparr>num_cores := [4, - 1]\<rparr>) two_types"
    by (rule sel_step.num_cores [of 1 8]) (simp add: set_num_cores_def set_num_types_def two_types_def)
  ultimately show ?thesis
    unfolding reachable_def by (meson rtranclp.rtrancl_into_rtrancl rtranclp.rtrancl_refl)
qed

theorem selection_always_valid_witness:
  "reachable two_types \<and> get_selected_core_id two_types \<noteq> None \<and> set_selected_type 1 two_types \<noteq> None
    \<and> set_num_cores 1 8 two_types \<noteq> None \<and> set_num_cores 2 8 two_types = None"
proof -
  have two: "num_cores two_types \<noteq> []" "\<not> num_types two_types \<le> 1" "num_types two_types \<le> 2"
    by (simp_all add: two_types_def word_le_nat_alt)
  then show ?thesis
    using two_types_reachable selection_always_valid [OF two_types_reachable] by blast
qed

subsection \<open>Core numbers\<close>

lemma sum_u16: "sum_list (map unat cs) < 2 ^ 16 \<Longrightarrow> unat (sum_list cs) = sum_list (map unat cs)" for cs :: "u16 list"
proof (induction cs)
  case (Cons c cs)
  then show ?case by (simp add: unat_word_ariths)
qed simp

lemma sum_take_mono: "i < j \<Longrightarrow> j \<le> length xs \<Longrightarrow> sum_list (take i xs) + xs ! i \<le> sum_list (take j xs)"
  for xs :: "nat list"
proof (induction xs arbitrary: i j)
  case (Cons x xs)
  then show ?case by (cases i; cases j) auto
qed simp

lemma core_number:
  assumes ok: "selection_ok s" and ne: "num_cores s \<noteq> []" and total: "sum_list (map unat (num_cores s)) < 2 ^ 16"
    and t: "sel_type s < num_types s" and c: "sel_core s < num_cores s ! unat (sel_type s)"
    and i: "get_selected_core_id s = Some (i, s')"
  shows "unat i = sum_list (take (unat (sel_type s)) (map unat (num_cores s))) + unat (sel_core s)"
    "unat (sel_core s) < map unat (num_cores s) ! unat (sel_type s)" "unat (sel_type s) < length (num_cores s)"
proof -
  have ty: "fst (get_selected_type s) = sel_type s"
    using t by (simp add: get_selected_type_def check_selected_type_valid_def)
  show len: "unat (sel_type s) < length (num_cores s)" using type_in_vector [OF ok ne] by (simp add: ty)
  let ?n = "map unat (num_cores s)" and ?k = "unat (sel_type s)"
  show c': "unat (sel_core s) < ?n ! ?k" using c len by (simp add: word_less_nat_alt)
  have "sum_list (take ?k ?n) + ?n ! ?k \<le> sum_list ?n"
    using sum_take_mono [of ?k "length ?n" ?n] len by simp
  with c' total have small: "sum_list (take ?k ?n) + unat (sel_core s) < 2 ^ 16" by linarith
  have "unat (sum_list (take ?k (num_cores s))) = sum_list (take ?k ?n)"
    using sum_u16 [of "take ?k (num_cores s)"] small by (simp add: take_map)
  moreover have "i = sum_list (take ?k (num_cores s)) + sel_core s"
    using core_id [OF ok] ne c i ty by (metis option.inject prod.inject)
  ultimately show "unat i = sum_list (take ?k ?n) + unat (sel_core s)"
    using small by (simp add: unat_word_ariths)
qed

text \<open>With fewer than 65536 cores, the number of the selected core tells the type of CPU and the core:
  two valid selections with the same number are the same.\<close>

lemma core_numbers_distinct:
  assumes "reachable s1" "reachable s2" "num_cores s1 = num_cores s2" "num_cores s1 \<noteq> []"
    "sum_list (map unat (num_cores s1)) < 2 ^ 16"
    "sel_type s1 < num_types s1" "sel_core s1 < num_cores s1 ! unat (sel_type s1)"
    "sel_type s2 < num_types s2" "sel_core s2 < num_cores s2 ! unat (sel_type s2)"
    "get_selected_core_id s1 = Some (i, t1)" "get_selected_core_id s2 = Some (i, t2)"
  shows "sel_type s1 = sel_type s2 \<and> sel_core s1 = sel_core s2"
proof -
  let ?n = "map unat (num_cores s1)" and ?k1 = "unat (sel_type s1)" and ?k2 = "unat (sel_type s2)"
  note 1 = core_number [OF reachable_ok [OF assms(1)] assms(4,5,6,7,10)]
  have ne: "num_cores s2 \<noteq> []" "sum_list (map unat (num_cores s2)) < 2 ^ 16" using assms(3-5) by simp_all
  note 2 = core_number [OF reachable_ok [OF assms(2)] ne assms(8,9,11)]
  have eq: "sum_list (take ?k1 ?n) + unat (sel_core s1) = sum_list (take ?k2 ?n) + unat (sel_core s2)"
    using 1(1) 2(1) assms(3) by simp
  have k: "?k1 < length ?n" "?k2 < length ?n" "unat (sel_core s1) < ?n ! ?k1" "unat (sel_core s2) < ?n ! ?k2"
    using 1(2,3) 2(2,3) assms(3) by simp_all
  have "\<not> ?k1 < ?k2" using sum_take_mono [of ?k1 ?k2 ?n] k eq by linarith
  moreover have "\<not> ?k2 < ?k1" using sum_take_mono [of ?k2 ?k1 ?n] k eq by linarith
  ultimately have "?k1 = ?k2" by simp
  with eq show ?thesis by (simp add: word_unat_eq_iff)
qed

lemma core_numbers_distinct_example:
  "reachable two_types \<and> sum_list (map unat (num_cores two_types)) < 2 ^ 16
   \<and> (\<exists>i t. get_selected_core_id two_types = Some (i, t))
   \<and> sel_type two_types = sel_type two_types \<and> sel_core two_types = sel_core two_types"
proof -
  have 1: "num_cores two_types \<noteq> []" "sum_list (map unat (num_cores two_types)) < 2 ^ 16"
    "sel_type two_types < num_types two_types" "sel_core two_types < num_cores two_types ! unat (sel_type two_types)"
    by (simp_all add: two_types_def initial_selection_def)
  obtain i t where i: "get_selected_core_id two_types = Some (i, t)"
    using core_id [OF reachable_ok [OF two_types_reachable]] by metis
  show ?thesis
    using core_numbers_distinct [OF two_types_reachable two_types_reachable refl 1 1(3,4) i i] two_types_reachable 1 i
    by blast
qed

subsection \<open>Moving between the tabs\<close>

lemma next_page_step: "next_page vis n = (if n + 1 < 7 \<and> \<not> vis (tabs ! (n + 1)) then next_page vis (n + 1) else n + 1)"
  by (subst next_page.simps) (simp add: Let_def)

lemma next_page_spec:
  "n < 7 \<Longrightarrow> n < next_page vis n \<and> next_page vis n \<le> 7 \<and> (next_page vis n = 7 \<or> vis (tabs ! next_page vis n))
     \<and> (\<forall>k. n < k \<and> k < next_page vis n \<longrightarrow> \<not> vis (tabs ! k))"
proof (induction vis n rule: next_page.induct)
  case (1 vis n)
  show ?case
  proof (cases "n + 1 < 7 \<and> \<not> vis (tabs ! (n + 1))")
    case True
    then have n: "n + 1 < 7" and eq: "next_page vis n = next_page vis (n + 1)"
      using next_page_step [of vis n] by simp_all
    have hidden: "\<not> vis (tabs ! k)" if "n < k" "k < next_page vis (n + 1)" for k
      using 1(1) [OF refl True n] True that by (cases "k = n + 1") auto
    show ?thesis using 1(1) [OF refl True n] hidden unfolding eq by auto
  next
    case False
    then have "next_page vis n = n + 1" by (subst next_page_step) (rule if_not_P)
    with 1(2) False show ?thesis by auto
  qed
qed

lemma prev_page_back:
  "m < n \<Longrightarrow> (\<forall>k. m < k \<and> k < n \<longrightarrow> \<not> vis (tabs ! k)) \<Longrightarrow> m = 0 \<or> vis (tabs ! m) \<Longrightarrow> prev_page vis n = m"
proof (induction vis n rule: prev_page.induct)
  case (2 vis n)
  show ?case
  proof (cases "m = n")
    case False
    with 2 have "m < n" "\<not> vis (tabs ! n)" by auto
    then have "prev_page vis n = m" using 2 by auto
    with \<open>m < n\<close> \<open>\<not> vis (tabs ! n)\<close> show ?thesis by auto
  qed (use 2 in auto)
qed simp

lemma tab_num: "tab_num t \<le> 7" "tabs ! tab_num t = t" "n \<le> 7 \<Longrightarrow> tab_num (tabs ! n) = n"
proof -
  show "tab_num t \<le> 7" "tabs ! tab_num t = t" by (cases t; simp add: tabs_def)+
  assume "n \<le> 7"
  then have "n \<in> {0, 1, 2, 3, 4, 5, 6, 7}" by auto
  then show "tab_num (tabs ! n) = n" by (auto simp: tabs_def)
qed

text \<open>C28: the next tab lies behind the current one, is visible unless it is the last, and none between them
  is; from a visible tab or the first, going to the next tab and back ends where it began.\<close>

theorem next_tab_and_back:
  assumes "sel_page s \<noteq> TAB_ABOUT"
  defines "s' \<equiv> snd (set_selected_page_next s)"
  shows "tab_num (sel_page s) < tab_num (sel_page s')
    \<and> (sel_page s' = TAB_ABOUT \<or> page_visible s (sel_page s'))
    \<and> (\<forall>p. tab_num (sel_page s) < tab_num p \<and> tab_num p < tab_num (sel_page s') \<longrightarrow> \<not> page_visible s p)
    \<and> (sel_page s = TAB_CPU \<or> page_visible s (sel_page s) \<longrightarrow> snd (set_selected_page_prev s') = s)"
proof -
  let ?n = "tab_num (sel_page s)" and ?m = "next_page (page_visible s) (tab_num (sel_page s))"
  have n: "?n < 7" using assms(1) by (cases "sel_page s") auto
  note np = next_page_spec [OF n, of "page_visible s"]
  have s': "s' = s\<lparr>sel_page := tabs ! ?m\<rparr>" using n by (simp add: s'_def set_selected_page_next_def)
  have m: "tab_num (sel_page s') = ?m" using np by (simp add: s' tab_num)
  have about: "?m = 7 \<Longrightarrow> sel_page s' = TAB_ABOUT" by (simp add: s' tabs_def)
  have between: "\<not> page_visible s p" if "?n < tab_num p" "tab_num p < ?m" for p
    using np that tab_num(2) [of p] by metis
  have goes_back: "snd (set_selected_page_prev s') = s" if "sel_page s = TAB_CPU \<or> page_visible s (sel_page s)"
  proof -
    have "prev_page (page_visible s) ?m = ?n"
      using np that tab_num(2) [of "sel_page s"] by (intro prev_page_back) auto
    then have "snd (set_selected_page_prev s') = s\<lparr>sel_page := tabs ! ?n\<rparr>"
      using np m by (simp add: set_selected_page_prev_def s')
    then show ?thesis by (simp add: tab_num)
  qed
  show ?thesis using np m about between goes_back by (auto simp: s')
qed

theorem next_tab_and_back_witness:
  "sel_page initial_selection \<noteq> TAB_ABOUT
   \<and> snd (set_selected_page_prev (snd (set_selected_page_next initial_selection))) = initial_selection"
proof -
  have 1: "sel_page initial_selection \<noteq> TAB_ABOUT" "sel_page initial_selection = TAB_CPU"
    by (simp_all add: initial_selection_def)
  show ?thesis using next_tab_and_back [OF 1(1)] 1 by blast
qed

end
