(* ===== verification/Benchmark.thy ===== *)
theory Benchmark
  imports CFloat
begin

section \<open>The benchmark (core/benchmarks.cpp)\<close>

text \<open>
  \<^verbatim>\<open>src/src/core/benchmarks.cpp\<close> counts prime numbers in several threads that share a counter,
  until a timer or the user stops them; the data is \<^verbatim>\<open>Data::Bench\<close> of
  \<^verbatim>\<open>src/src/data.hpp\<close>. A thread is a value of \<open>thread\<close>, the point it has reached;
  \<open>thread_step\<close> is what it does next, up to and including one access to shared variables, and
  \<open>bench_step\<close> lets any thread, any timer or the user do the next step.

  Messages are the untranslated ones. Left out: the binding of threads to processors, and the log.
\<close>

subsection \<open>Data\<close>

text \<open>\<^verbatim>\<open>uint_fast32_t\<close> has 64 bits, as it does on x86-64.\<close>

record prime_numbers =
  primes :: u64
  number :: u64
  score_value :: string
  state_value :: string

text \<open>A thread: before it has read which record it works on (\<open>Starting\<close>), at the head of its loop, in
  the search for a divisor of a number, with the bound and the candidate, or at its end. The flag tells
  the record: of the fast or of the slow benchmark.\<close>

datatype thread = Starting | Looping bool | Testing bool u64 nat u64 | Exited

text \<open>\<^verbatim>\<open>stop_benchmarks\<close>: in its waiting loop, behind it, at its end.\<close>

datatype timer = Waiting | Joining | Ended

record bench =
  did_run :: bool
  is_running :: bool
  is_completed :: bool
  fast_mode :: bool
  prime_slow :: prime_numbers
  prime_fast :: prime_numbers
  threads_i :: u64
  threads_value :: string
  elapsed_i :: u64
  duration_i :: u64
  duration_value :: string
  compute_threads :: "thread list"
  timers :: "timer list"

definition numbers_of :: "bool \<Rightarrow> bench \<Rightarrow> prime_numbers" where
  "numbers_of fast s = (if fast then prime_fast s else prime_slow s)"

definition put_numbers :: "bool \<Rightarrow> prime_numbers \<Rightarrow> bench \<Rightarrow> bench" where
  "put_numbers fast p s = (if fast then s\<lparr>prime_fast := p\<rparr> else s\<lparr>prime_slow := p\<rparr>)"

subsection \<open>Double precision\<close>

text \<open>
  \<^verbatim>\<open>const uint_fast64_t sup = fast_mode ? sqrt(number) : number\<close> has the type
  \<^verbatim>\<open>double\<close> on the right in both modes: the number is rounded to 53 bits (to even), and the
  square root is the real one, rounded to 53 bits, cut off below the point.
\<close>

definition double_of :: "nat \<Rightarrow> nat" where
  "double_of n = (if n < 2 ^ 53 then n
     else let k = bit_len n - 53; q = n div 2 ^ k; r = n mod 2 ^ k; half = 2 ^ (k - 1)
       in (if half < r \<or> r = half \<and> odd q then q + 1 else q) * 2 ^ k)"

fun isqrt :: "nat \<Rightarrow> nat" where
  "isqrt n = (if n = 0 then 0 else let r = 2 * isqrt (n div 4) in if (r + 1) * (r + 1) \<le> n then r + 1 else r)"

declare isqrt.simps [simp del]

text \<open>The root of \<open>x\<close> is rounded up to the next integer \<open>r + 1\<close> if it is beyond the middle between
  \<open>r + 1\<close> and the value of 53 bits below it, \<open>r + 1 - 2 ^ (e - 52)\<close>, where \<open>2 ^ e \<le> r\<close>.\<close>

definition sqrt_double :: "nat \<Rightarrow> nat" where
  "sqrt_double x = (let r = isqrt x; p = 2 ^ (54 - bit_len r)
     in if ((r + 1) * p - 1) * ((r + 1) * p - 1) \<le> x * (p * p) then r + 1 else r)"

definition test_bound :: "bool \<Rightarrow> u64 \<Rightarrow> nat" where
  "test_bound fast n = (if fast then sqrt_double (double_of (unat n)) else double_of (unat n))"

subsection \<open>The threads\<close>

text \<open>\<^verbatim>\<open>primes_bench\<close>. A thread at its end makes no step.\<close>

fun thread_step :: "bench \<Rightarrow> thread \<Rightarrow> (bench \<times> thread) option" where
  "thread_step s Starting = Some (s, Looping (fast_mode s))"
| "thread_step s (Looping b) =
     (if is_running s
      then let p = numbers_of b s; n = number p + 1
        in Some (put_numbers b (p\<lparr>number := n\<rparr>) s, Testing b n (test_bound (fast_mode s) n) 2)
      else Some (s, Exited))"
| "thread_step s (Testing b n bound i) =
     (if unat i < bound \<and> n mod i \<noteq> 0 then Some (s, Testing b n bound (i + 1))
      else if fast_mode s \<and> n mod i \<noteq> 0 \<or> \<not> fast_mode s \<and> n = i
      then let p = numbers_of b s in Some (put_numbers b (p\<lparr>primes := primes p + 1\<rparr>) s, Looping b)
      else Some (s, Looping b))"
| "thread_step s Exited = None"

text \<open>\<^verbatim>\<open>stop_benchmarks\<close>; \<open>now\<close> is the time since its start. It joins all threads and removes
  them.\<close>

definition time_left :: "bench \<Rightarrow> bool" where
  "time_left s \<longleftrightarrow> elapsed_i s < duration_i s * 60"

fun timer_step :: "u64 \<Rightarrow> bench \<Rightarrow> timer \<Rightarrow> (bench \<times> timer) option" where
  "timer_step now s Waiting =
     (if time_left s \<and> is_running s then Some (s\<lparr>elapsed_i := now\<rparr>, Waiting)
      else let s = (if \<not> time_left s then s\<lparr>is_completed := True\<rparr> else s)
        in Some (s\<lparr>is_running := False\<rparr>, Joining))"
| "timer_step now s Joining =
     (if \<forall>t \<in> set (compute_threads s). t = Exited then Some (s\<lparr>compute_threads := []\<rparr>, Ended) else None)"
| "timer_step now s Ended = None"

definition step_thread :: "nat \<Rightarrow> bench \<Rightarrow> bench option" where
  "step_thread k s = (if k < length (compute_threads s)
     then map_option (\<lambda>(s', t). s'\<lparr>compute_threads := (compute_threads s)[k := t]\<rparr>)
            (thread_step s (compute_threads s ! k))
     else None)"

definition step_timer :: "u64 \<Rightarrow> nat \<Rightarrow> bench \<Rightarrow> bench option" where
  "step_timer now k s = (if k < length (timers s)
     then map_option (\<lambda>(s', t). s'\<lparr>timers := (timers s)[k := t]\<rparr>) (timer_step now s (timers s ! k))
     else None)"

text \<open>The user turns the switch off.\<close>

definition user_stops :: "bench \<Rightarrow> bench" where
  "user_stops s = s\<lparr>is_running := False\<rparr>"

inductive bench_step :: "bench \<Rightarrow> bench \<Rightarrow> bool" where
  thread: "step_thread k s = Some s' \<Longrightarrow> bench_step s s'"
| timer: "step_timer now k s = Some s' \<Longrightarrow> bench_step s s'"
| user: "bench_step s (user_stops s)"

inductive_cases bench_stepE: "bench_step s s'"

subsection \<open>Start\<close>

definition start_benchmarks :: "bench \<Rightarrow> bench" where
  "start_benchmarks s = (let b = fast_mode s in
     (put_numbers b ((numbers_of b s)\<lparr>number := 2, primes := 1\<rparr>) s)
       \<lparr>did_run := True, is_running := True, is_completed := False, elapsed_i := 0,
        compute_threads := compute_threads s @ replicate (unat (threads_i s)) Starting,
        timers := timers s @ [Waiting]\<rparr>)"

text \<open>The switch of the user interface for one of the modes (\<^verbatim>\<open>start_bench_prime_slow\<close>,
  \<^verbatim>\<open>start_bench_prime_fast\<close>).\<close>

definition user_starts :: "bool \<Rightarrow> bench \<Rightarrow> bench" where
  "user_starts fast s = start_benchmarks (s\<lparr>fast_mode := fast\<rparr>)"

subsection \<open>Parameters and report\<close>

definition set_threads :: "u64 \<Rightarrow> u64 \<Rightarrow> bench \<Rightarrow> bool \<times> bench" where
  "set_threads hardware_concurrency n s =
     (if 0 < n \<and> n \<le> hardware_concurrency
      then (True, s\<lparr>threads_i := n, threads_value := udec (unat n)\<rparr>)
      else (False, s\<lparr>threads_i := 1, threads_value := udec 1\<rparr>))"

text \<open>\<^verbatim>\<open>%u\<close> takes an \<^verbatim>\<open>unsigned int\<close>, the low half of the argument.\<close>

definition percent_u :: "u64 \<Rightarrow> string" where
  "percent_u x = udec (unat (ucast x :: u32))"

definition set_duration :: "u64 \<Rightarrow> bench \<Rightarrow> bool \<times> bench" where
  "set_duration d s =
     (if 0 < d \<and> d < 60 * 24
      then (True, s\<lparr>duration_i := d, duration_value := percent_u d @ '' mins''\<rparr>)
      else (False, s\<lparr>duration_i := 1, duration_value := percent_u 1 @ '' mins''\<rparr>))"

definition left_text :: "u64 \<Rightarrow> u64 \<Rightarrow> string" where
  "left_text duration elapsed =
     (if 60 * 59 < duration * 60 - elapsed
      then ''('' @ percent_u ((duration - elapsed div 60) div 60) @ '' hours left)''
      else if 60 \<le> duration * 60 - elapsed
      then ''('' @ percent_u (duration - elapsed div 60) @ '' minutes left)''
      else ''('' @ percent_u (duration * 60 - elapsed) @ '' seconds left)'')"

definition passed_text :: "u64 \<Rightarrow> string" where
  "passed_text elapsed =
     (if 60 * 60 \<le> elapsed then ''in '' @ percent_u (elapsed div 60 div 60) @ '' hours''
      else if 60 \<le> elapsed then ''in '' @ percent_u (elapsed div 60) @ '' minutes''
      else ''in '' @ percent_u elapsed @ '' seconds'')"

definition benchmark_status :: "bench \<Rightarrow> bench" where
  "benchmark_status s = (if \<not> did_run s then s else
     let b = fast_mode s; p = numbers_of b s; count = udec (unat (primes p)) @ '' '' in
     put_numbers b
       (if is_running s
        then p\<lparr>state_value := ''Active'', score_value := count @ left_text (duration_i s) (elapsed_i s)\<rparr>
        else p\<lparr>state_value := ''Inactive'', score_value := count @ passed_text (elapsed_i s)\<rparr>) s)"

definition init_benchmarks :: "u64 \<Rightarrow> bench \<Rightarrow> bench" where
  "init_benchmarks hardware_concurrency s = (let
     s = snd (set_threads hardware_concurrency (threads_i s) s);
     s = snd (set_duration (duration_i s) s)
   in s\<lparr>prime_slow := (prime_slow s)\<lparr>state_value := ''Inactive''\<rparr>,
       prime_fast := (prime_fast s)\<lparr>state_value := ''Inactive''\<rparr>\<rparr>)"

text \<open>\<^verbatim>\<open>Data::Bench\<close> as it is constructed.\<close>

definition new_numbers :: prime_numbers where
  "new_numbers = \<lparr>primes = 0, number = 0, score_value = ''Not started'', state_value = ''''\<rparr>"

definition new_bench :: bench where
  "new_bench = \<lparr>did_run = False, is_running = False, is_completed = False, fast_mode = False,
     prime_slow = new_numbers, prime_fast = new_numbers, threads_i = 1, threads_value = '''',
     elapsed_i = 0, duration_i = 1, duration_value = '''', compute_threads = [], timers = []\<rparr>"

end
