(* ===== verification/Benchmark_Properties.thy ===== *)
theory Benchmark_Properties
  imports Benchmark
begin

section \<open>Properties of the benchmark\<close>

text \<open>
  The count of primes is right at any moment, however the threads are interleaved
  (\<open>bench_counts_primes\<close>), and the threads end after a stop (\<open>threads_end_after_stop\<close>).
  A second start while threads of the first still run breaks the count
  (\<open>restart_breaks_count\<close>). The report never says that 0 hours or minutes are left.
\<close>

subsection \<open>Square roots\<close>

lemma isqrt_spec: "isqrt n * isqrt n \<le> n \<and> n < (isqrt n + 1) * (isqrt n + 1)"
proof (induction n rule: isqrt.induct)
  case (1 n)
  show ?case
  proof (cases "n = 0")
    case False
    let ?q = "isqrt (n div 4)"
    have q: "?q * ?q \<le> n div 4" "n div 4 < (?q + 1) * (?q + 1)" using 1 False by auto
    have "4 * (n div 4) \<le> n" "n < 4 * (n div 4) + 4" by linarith+
    moreover have "(2 * ?q) * (2 * ?q) = 4 * (?q * ?q)" "(2 * ?q + 2) * (2 * ?q + 2) = 4 * ((?q + 1) * (?q + 1))"
      by simp_all
    ultimately have "(2 * ?q) * (2 * ?q) \<le> n" "n < (2 * ?q + 2) * (2 * ?q + 2)"
      using q by linarith+
    then show ?thesis using False by (subst (1 2 3 4) isqrt.simps) (auto simp: Let_def)
  qed (simp add: isqrt.simps)
qed

lemma isqrt_le: "isqrt n \<le> n"
  using isqrt_spec [of n] by (cases "isqrt n") (auto simp: le_trans)

lemma isqrt_less: "n < m * m \<Longrightarrow> isqrt n < m"
  using isqrt_spec [of n] mult_le_mono [of m "isqrt n" m "isqrt n"] by (metis le_trans not_less)

lemma bit_len_le: "n < 2 ^ k \<Longrightarrow> bit_len n \<le> k"
proof (induction n arbitrary: k rule: bit_len.induct)
  case (1 n)
  show ?case
  proof (cases "n = 0")
    case False
    with 1(2) obtain j where k: "k = Suc j" by (cases k) auto
    with 1 False show ?thesis by (subst bit_len.simps) auto
  qed (simp add: bit_len.simps)
qed

lemma sqrt_double_exact:
  assumes "x < 2 ^ 52"
  shows "sqrt_double x = isqrt x"
proof -
  define r where "r = isqrt x"
  define p :: nat where "p = 2 ^ (54 - bit_len r)"
  have r: "r < 2 ^ 26" unfolding r_def using assms by (intro isqrt_less) simp
  then have "bit_len r \<le> 26" by (rule bit_len_le)
  then have "(2 :: nat) ^ 28 \<le> p" unfolding p_def by (intro power_increasing) auto
  with r have rp: "2 * (r + 1) \<le> p" by simp
  have x: "x + 1 \<le> (r + 1) * (r + 1)" using isqrt_spec [of x] by (simp add: r_def)
  obtain y where y: "(r + 1) * p = Suc y" using rp by (cases "(r + 1) * p") auto
  have "x * (p * p) + p * p \<le> ((r + 1) * p) * ((r + 1) * p)"
    using mult_le_mono1 [OF x, of "p * p"] by (simp add: algebra_simps)
  moreover have "((r + 1) * p) * ((r + 1) * p) = y * y + 2 * y + 1" unfolding y by simp
  moreover have "2 * y + 1 < p * p"
  proof -
    have "2 * y + 2 = 2 * (r + 1) * p" using y by simp
    also have "\<dots> \<le> p * p" using rp by (rule mult_le_mono1)
    finally show ?thesis by simp
  qed
  ultimately have "x * (p * p) < y * y" by linarith
  then show ?thesis
    by (simp add: sqrt_double_def Let_def flip: r_def p_def) (use y in simp)
qed

lemma test_bound_exact: "unat n < 2 ^ 52 \<Longrightarrow> test_bound fast n = (if fast then isqrt (unat n) else unat n)"
  by (simp add: test_bound_def double_of_def sqrt_double_exact)

subsection \<open>The test of one number\<close>

definition is_prime :: "nat \<Rightarrow> bool" where
  "is_prime n \<longleftrightarrow> 2 \<le> n \<and> (\<forall>d \<in> {2..<n}. n mod d \<noteq> 0)"

text \<open>No divisor below \<open>i\<close>.\<close>

definition no_divisor :: "nat \<Rightarrow> nat \<Rightarrow> bool" where
  "no_divisor n i \<longleftrightarrow> (\<forall>d \<in> {2..<i}. n mod d \<noteq> 0)"

lemma no_divisor_step: "no_divisor n i \<Longrightarrow> n mod i \<noteq> 0 \<Longrightarrow> no_divisor n (Suc i)"
  by (auto simp: no_divisor_def less_Suc_eq)

lemma prime_if_root:
  assumes n: "3 \<le> n" and d: "no_divisor n (Suc i)" and i: "isqrt n \<le> i"
  shows "is_prime n"
proof -
  have "n mod d \<noteq> 0" if "2 \<le> d" "d < n" for d
  proof
    assume "n mod d = 0"
    then obtain e where e: "n = d * e" by auto
    have "e \<noteq> 0" "e \<noteq> 1" using e that n by auto
    then have e2: "2 \<le> e" by linarith
    have "d < Suc i \<or> e < Suc i"
    proof (rule ccontr)
      assume "\<not> ?thesis"
      then have "(isqrt n + 1) * (isqrt n + 1) \<le> d * e" using i by (intro mult_le_mono) linarith+
      with isqrt_spec [of n] e show False by simp
    qed
    moreover have "n mod e = 0" using e by simp
    moreover have nd: "n mod k \<noteq> 0" if "2 \<le> k" "k < Suc i" for k
      using d that unfolding no_divisor_def by auto
    ultimately show False
      using nd [of d] nd [of e] \<open>2 \<le> d\<close> e2 \<open>n mod d = 0\<close> by metis
  qed
  then show ?thesis using n by (auto simp: is_prime_def)
qed

lemma test_correct:
  assumes "3 \<le> n" "no_divisor n i" "2 \<le> i"
    and "i \<le> max 2 (if fast then isqrt n else n)" "\<not> (i < (if fast then isqrt n else n) \<and> n mod i \<noteq> 0)"
  shows "(fast \<and> n mod i \<noteq> 0 \<or> \<not> fast \<and> n = i) = is_prime n"
proof (cases fast)
  case True
  have "isqrt n < n" using assms(1) by (intro isqrt_less) (cases n; simp)
  then have less: "i < n" using assms(1,4) True by auto
  show ?thesis
  proof (cases "n mod i = 0")
    case True
    with less assms(3) have "\<not> is_prime n" by (auto simp: is_prime_def intro!: bexI [of _ i])
    with True \<open>fast\<close> show ?thesis by simp
  next
    case False
    then have "isqrt n \<le> i" using assms(5) True by auto
    then have "is_prime n" using prime_if_root [OF assms(1) no_divisor_step [OF assms(2)]] False by simp
    with False True show ?thesis by simp
  qed
next
  case False
  have "i \<le> n" using assms(1,4) False by auto
  show ?thesis
  proof (cases "n = i")
    case True
    then show ?thesis using assms(1,2) False by (auto simp: is_prime_def no_divisor_def)
  next
    case F: False
    then have "n mod i = 0" "i < n" using assms(5) False \<open>i \<le> n\<close> by auto
    then have "\<not> is_prime n" using assms(3) by (auto simp: is_prime_def intro!: bexI [of _ i])
    then show ?thesis using F False by simp
  qed
qed

subsection \<open>Every interleaving\<close>

definition prime_count :: "nat \<Rightarrow> nat" where
  "prime_count m = card {p. p \<le> m \<and> is_prime p}"

lemma prime_count_Suc: "prime_count (Suc m) = prime_count m + (if is_prime (Suc m) then 1 else 0)"
proof -
  have "{p. p \<le> Suc m \<and> is_prime p} =
    (if is_prime (Suc m) then insert (Suc m) {p. p \<le> m \<and> is_prime p} else {p. p \<le> m \<and> is_prime p})"
    by (auto simp: le_Suc_eq)
  then show ?thesis by (simp add: prime_count_def)
qed

lemma prime_count_le: "prime_count m \<le> m"
proof -
  have "{p. p \<le> m \<and> is_prime p} \<subseteq> {1..m}" by (auto simp: is_prime_def)
  from card_mono [OF _ this] show ?thesis by (simp add: prime_count_def)
qed

lemma prime_count_2: "prime_count 2 = 1"
proof -
  have "{p. p \<le> 2 \<and> is_prime p} = {2}" by (auto simp: is_prime_def)
  then show ?thesis by (simp add: prime_count_def)
qed

text \<open>What is known of a thread of the mode \<open>f\<close> when \<open>m\<close> is the last number given out, and whether it
  is about to count its number.\<close>

fun thread_ok :: "bool \<Rightarrow> nat \<Rightarrow> thread \<Rightarrow> bool" where
  "thread_ok f m (Looping b) = (b = f)"
| "thread_ok f m (Testing b n bound i) = (b = f \<and> 3 \<le> unat n \<and> unat n \<le> m
     \<and> bound = (if f then isqrt (unat n) else unat n) \<and> 2 \<le> unat i \<and> unat i \<le> max 2 bound
     \<and> no_divisor (unat n) (unat i))"
| "thread_ok f m _ = True"

fun pending :: "thread \<Rightarrow> nat" where
  "pending (Testing b n bound i) = (if is_prime (unat n) then 1 else 0)"
| "pending _ = 0"

definition pool_ok :: "bool \<Rightarrow> nat \<Rightarrow> nat \<Rightarrow> thread list \<Rightarrow> bool" where
  "pool_ok f m found ts \<longleftrightarrow> 2 \<le> m \<and> (\<forall>t \<in> set ts. thread_ok f m t)
     \<and> found + sum_list (map pending ts) = prime_count m"

lemma thread_ok_mono: "thread_ok f m t \<Longrightarrow> m \<le> m' \<Longrightarrow> thread_ok f m' t"
  by (cases t) auto

lemma pool_update:
  assumes "pool_ok f m found ts" "k < length ts" "thread_ok f m t" "found' + pending t = found + pending (ts ! k)"
  shows "pool_ok f m found' (ts[k := t])"
proof -
  have "pending (ts ! k) \<le> sum_list (map pending ts)"
    using assms(2) by (intro member_le_sum_list) auto
  then have "found' + sum_list (map pending (ts[k := t])) = found + sum_list (map pending ts)"
    using assms(2,4) by (simp add: map_update sum_list_update)
  then show ?thesis using assms by (auto simp: pool_ok_def dest!: set_update_subset_insert [THEN subsetD])
qed

lemma pool_take:
  assumes "pool_ok f m found ts" "k < length ts" "ts ! k = Looping f" "unat n = m + 1"
  shows "pool_ok f (m + 1) found (ts[k := Testing f n (if f then isqrt (unat n) else unat n) 2])"
proof -
  let ?t = "Testing f n (if f then isqrt (unat n) else unat n) 2"
  have "sum_list (map pending (ts[k := ?t])) = sum_list (map pending ts) + pending ?t"
    using assms(2,3) by (simp add: map_update sum_list_update)
  moreover have "prime_count (m + 1) = prime_count m + pending ?t" using assms(4) by (simp add: prime_count_Suc)
  moreover have "thread_ok f (m + 1) ?t" using assms(1,4) by (auto simp: pool_ok_def no_divisor_def)
  moreover have "thread_ok f (m + 1) t" if "t \<in> set ts" for t
    using assms(1) that thread_ok_mono [of f m t "m + 1"] by (auto simp: pool_ok_def)
  ultimately show ?thesis
    using assms(1) by (auto simp: pool_ok_def simp del: pending.simps thread_ok.simps dest!: set_update_subset_insert [THEN subsetD])
qed

definition bench_inv :: "bool \<Rightarrow> nat \<Rightarrow> bench \<Rightarrow> bool" where
  "bench_inv f m s \<longleftrightarrow> fast_mode s = f \<and> unat (number (numbers_of f s)) \<le> m
     \<and> pool_ok f (unat (number (numbers_of f s))) (unat (primes (numbers_of f s))) (compute_threads s)"

lemma numbers_put [simp]:
  "numbers_of f (put_numbers f p s) = p" "fast_mode (put_numbers f p s) = fast_mode s"
  "compute_threads (put_numbers f p s) = compute_threads s" "is_running (put_numbers f p s) = is_running s"
  by (simp_all add: numbers_of_def put_numbers_def)

lemma numbers_frame [simp]:
  "numbers_of f (s\<lparr>compute_threads := ts\<rparr>) = numbers_of f s" "numbers_of f (s\<lparr>timers := js\<rparr>) = numbers_of f s"
  "numbers_of f (s\<lparr>is_running := r\<rparr>) = numbers_of f s" "numbers_of f (s\<lparr>is_completed := r\<rparr>) = numbers_of f s"
  "numbers_of f (s\<lparr>elapsed_i := e\<rparr>) = numbers_of f s" "numbers_of f (s\<lparr>did_run := r\<rparr>) = numbers_of f s"
  by (simp_all add: numbers_of_def)

lemma number_Suc: "unat (x :: u64) < 2 ^ 52 \<Longrightarrow> unat (x + 1) = unat x + 1"
  by (simp add: unat_word_ariths)

lemma word_mod_eq_0: "x mod y = 0 \<longleftrightarrow> unat x mod unat y = 0" for x y :: u64
  by (metis unat_mod unat_eq_zero)

lemma testing_ends:
  assumes "thread_ok f m (Testing b n bound i)" "\<not> (unat i < bound \<and> n mod i \<noteq> 0)" "m < 2 ^ 52"
  shows "(f \<and> n mod i \<noteq> 0 \<or> \<not> f \<and> n = i) = is_prime (unat n)"
proof -
  note mod0 = word_mod_eq_0 [of n i]
  have "(f \<and> unat n mod unat i \<noteq> 0 \<or> \<not> f \<and> unat n = unat i) = is_prime (unat n)"
    using assms by (intro test_correct) (auto simp: mod0)
  then show ?thesis by (simp only: mod0 word_unat_eq_iff [of n i])
qed

lemma testing_goes_on:
  assumes "thread_ok f m (Testing b n bound i)" "unat i < bound" "n mod i \<noteq> 0" "m < 2 ^ 52"
  shows "thread_ok f m (Testing b n bound (i + 1))"
proof -
  note mod0 = word_mod_eq_0 [of n i]
  have "bound \<le> unat n" using assms(1) isqrt_le [of "unat n"] by auto
  then have "unat (i + 1) = unat i + 1" using assms by (intro number_Suc) auto
  with assms mod0 no_divisor_step [of "unat n" "unat i"] show ?thesis by auto
qed

lemma thread_step_inv:
  assumes inv: "bench_inv f m s" and m: "m + 1 < 2 ^ 52" and k: "k < length (compute_threads s)"
    and step: "thread_step s (compute_threads s ! k) = Some (s', t)"
  shows "bench_inv f (m + 1) (s'\<lparr>compute_threads := (compute_threads s)[k := t]\<rparr>)"
proof -
  let ?ts = "compute_threads s" and ?p = "numbers_of f s"
  have f: "fast_mode s = f" and le: "unat (number ?p) \<le> m"
    and pool: "pool_ok f (unat (number ?p)) (unat (primes ?p)) ?ts"
    using inv by (auto simp: bench_inv_def)
  have ok: "thread_ok f (unat (number ?p)) (?ts ! k)" using pool k by (auto simp: pool_ok_def)
  have small: "unat (number ?p) < 2 ^ 52" using le m by simp
  show ?thesis
  proof (cases "?ts ! k")
    case Starting
    then show ?thesis using step f le pool_update [OF pool k, of "Looping f"]
      by (auto simp: bench_inv_def)
  next
    case (Looping b)
    then have b: "b = f" using ok by simp
    show ?thesis
    proof (cases "is_running s")
      case True
      let ?n = "number ?p + 1"
      have n: "unat ?n = unat (number ?p) + 1" using small by (rule number_Suc)
      have "test_bound f ?n = (if f then isqrt (unat ?n) else unat ?n)"
        using n le m by (intro test_bound_exact) simp
      then show ?thesis using True step f b Looping n le pool_take [OF pool k _ n]
        by (auto simp: bench_inv_def Let_def)
    next
      case False
      then show ?thesis using step f le Looping pool_update [OF pool k, of Exited]
        by (auto simp: bench_inv_def)
    qed
  next
    case (Testing b n bound i)
    then have b: "b = f" using ok by simp
    show ?thesis
    proof (cases "unat i < bound \<and> n mod i \<noteq> 0")
      case True
      with Testing ok small have "thread_ok f (unat (number ?p)) (Testing b n bound (i + 1))"
        using testing_goes_on by metis
      with True Testing step f le pool_update [OF pool k, of "Testing b n bound (i + 1)"]
      show ?thesis by (auto simp: bench_inv_def)
    next
      case False
      note prime = testing_ends [OF _ False small] 
      have pr: "(f \<and> n mod i \<noteq> 0 \<or> \<not> f \<and> n = i) = is_prime (unat n)" using prime ok Testing by metis
      have "unat (primes ?p) \<le> unat (number ?p)"
        using pool prime_count_le [of "unat (number ?p)"] by (simp add: pool_ok_def)
      then have inc: "unat (primes ?p + 1) = unat (primes ?p) + 1" using small by (intro number_Suc) simp
      have pend: "pending (?ts ! k) = (if is_prime (unat n) then 1 else 0)" using Testing by simp
      have st: "thread_step s (?ts ! k) = (if is_prime (unat n)
          then Some (put_numbers f (?p\<lparr>primes := primes ?p + 1\<rparr>) s, Looping f) else Some (s, Looping f))"
        using False pr f b by (simp add: Testing Let_def del: not_all) 
      show ?thesis
        using step st f le inc pend pool_update [OF pool k, of "Looping f"]
        by (auto simp: bench_inv_def split: if_splits)
    qed
  next
    case Exited
    with step show ?thesis by simp
  qed
qed

lemma bench_inv_mono: "bench_inv f m s \<Longrightarrow> m \<le> m' \<Longrightarrow> bench_inv f m' s"
  by (auto simp: bench_inv_def)

lemma timer_step_inv:
  assumes "timer_step now s t = Some (s', t')" "bench_inv f m s"
  shows "bench_inv f m (s'\<lparr>timers := ts\<rparr>)"
proof (cases t)
  case Joining
  then have "\<forall>t \<in> set (compute_threads s). t = Exited" and s': "s' = s\<lparr>compute_threads := []\<rparr>"
    using assms(1) by (auto split: if_splits)
  then have "\<forall>t \<in> set (compute_threads s). pending t = 0" by fastforce
  then have "sum_list (map pending (compute_threads s)) = 0" by (simp add: sum_list_eq_0_iff)
  with assms(2) show ?thesis by (auto simp: bench_inv_def pool_ok_def s')
qed (use assms in \<open>auto simp: bench_inv_def Let_def split: if_splits\<close>)

lemma bench_step_inv:
  assumes "bench_step s s'" "bench_inv f m s" "m + 1 < 2 ^ 52"
  shows "bench_inv f (m + 1) s'"
  using assms(1)
proof (cases rule: bench_step.cases)
  case (thread k)
  then show ?thesis using thread_step_inv [OF assms(2,3)] by (auto simp: step_thread_def split: if_splits)
next
  case (timer now k)
  then have "bench_inv f m s'"
    using timer_step_inv [OF _ assms(2)] by (auto simp: step_timer_def split: if_splits)
  then show ?thesis by (rule bench_inv_mono) simp
next
  case user
  then show ?thesis using assms(2) by (auto simp: user_stops_def bench_inv_def)
qed

lemma started_inv:
  assumes "compute_threads s = []"
  shows "bench_inv (fast_mode s) 2 (start_benchmarks s)"
proof -
  have "pool_ok f 2 1 (replicate n Starting)" for f n
    by (simp add: pool_ok_def prime_count_2)
  then show ?thesis using assms
    by (simp add: bench_inv_def start_benchmarks_def Let_def numbers_of_def put_numbers_def)
qed

lemma bench_run_inv: "(bench_step ^^ k) s s' \<Longrightarrow> bench_inv f m s \<Longrightarrow> m + k < 2 ^ 52 \<Longrightarrow> bench_inv f (m + k) s'"
proof (induction k arbitrary: s')
  case (Suc k)
  then obtain s1 where "(bench_step ^^ k) s s1" "bench_step s1 s'" by auto
  with Suc bench_step_inv [of s1 s' f "m + k"] show ?case by simp
qed auto

text \<open>C6: after any interleaving of fewer than 2^51 steps of the threads, the timer and the user, the
  number of primes found is the number of primes up to the last number given out, less those that a
  thread is still about to count; once no thread is at work it is exact.\<close>

theorem bench_counts_primes:
  assumes "compute_threads s = []" "(bench_step ^^ k) (start_benchmarks s) s'" "k < 2 ^ 51"
  defines "p \<equiv> numbers_of (fast_mode s) s'"
  shows "unat (primes p) + length (filter (\<lambda>t. pending t = 1) (compute_threads s')) = prime_count (unat (number p))
    \<and> (compute_threads s' = [] \<longrightarrow> unat (primes p) = card {q. q \<le> unat (number p) \<and> is_prime q})"
proof -
  have "bench_inv (fast_mode s) (2 + k) s'"
    using bench_run_inv [OF assms(2) started_inv [OF assms(1)]] assms(3) by simp
  moreover have "sum_list (map pending ts) = length (filter (\<lambda>t. pending t = 1) ts)" for ts
  proof (induction ts)
    case (Cons t ts)
    then show ?case by (cases t) auto
  qed simp
  ultimately show ?thesis by (auto simp: bench_inv_def pool_ok_def p_def prime_count_def)
qed

text \<open>One thread counts 3, sees that the user has stopped, and is joined.\<close>

fun run_threads :: "nat list \<Rightarrow> bench \<Rightarrow> bench option" where
  "run_threads [] s = Some s"
| "run_threads (k # ks) s = (case step_thread k s of None \<Rightarrow> None | Some s' \<Rightarrow> run_threads ks s')"

lemma run_threads_steps: "run_threads ks s = Some s' \<Longrightarrow> (bench_step ^^ length ks) s s'"
proof (induction ks arbitrary: s)
  case (Cons k ks)
  then obtain s1 where "step_thread k s = Some s1" "run_threads ks s1 = Some s'"
    by (auto split: option.splits)
  then show ?case using Cons.IH bench_step.thread [of k s s1] by (auto intro: relpowp_Suc_I2 simp del: relpowp.simps)
qed simp

definition after_four :: bench where
  "after_four = the (run_threads [0, 0, 0, 0] (start_benchmarks new_bench))"

lemmas bench_eval = start_benchmarks_def new_bench_def new_numbers_def numbers_of_def put_numbers_def
  step_thread_def Let_def test_bound_def double_of_def

lemma after_four:
  "run_threads [0, 0, 0, 0] (start_benchmarks new_bench) = Some after_four"
  "compute_threads after_four = [Looping False]" "number (prime_slow after_four) = 3"
  by (simp_all add: after_four_def bench_eval)

theorem bench_counts_primes_witness:
  "(bench_step ^^ 4) (start_benchmarks new_bench) after_four
   \<and> unat (primes (prime_slow after_four)) = prime_count 3"
proof -
  have 1: "compute_threads new_bench = []" by (simp add: new_bench_def)
  have 2: "(bench_step ^^ 4) (start_benchmarks new_bench) after_four"
    using run_threads_steps [OF after_four(1)] by (simp del: relpowp.simps add: numeral_eq_Suc)
  have 3: "numbers_of (fast_mode new_bench) after_four = prime_slow after_four"
    by (simp add: numbers_of_def new_bench_def)
  show ?thesis using bench_counts_primes [OF 1 2] 2 after_four by (simp add: 3 del: relpowp.simps)
qed

subsection \<open>Behind a stop\<close>

definition thread_run :: "bench \<Rightarrow> bench \<Rightarrow> bool" where
  "thread_run s s' \<longleftrightarrow> (\<exists>k. step_thread k s = Some s')"

fun remaining :: "thread \<Rightarrow> nat" where
  "remaining Starting = 2"
| "remaining (Looping b) = 1"
| "remaining (Testing b n bound i) = (bound - unat i) + 2"
| "remaining Exited = 0"

fun small :: "thread \<Rightarrow> bool" where
  "small (Testing b n bound i) = (bound < 2 ^ 64)"
| "small _ = True"

definition steps_left :: "bench \<Rightarrow> nat" where
  "steps_left s = sum_list (map remaining (compute_threads s))"

definition stopped :: "bench \<Rightarrow> bool" where
  "stopped s \<longleftrightarrow> \<not> is_running s \<and> (\<forall>t \<in> set (compute_threads s). small t)"

lemma thread_step_stopped:
  assumes "thread_step s t = Some (s', t')" "\<not> is_running s" "small t"
  shows "\<not> is_running s' \<and> small t' \<and> remaining t' < remaining t"
proof (cases t)
  case (Testing b n bound i)
  have "unat (i + 1) = unat i + 1" if "unat i < bound"
    using that assms(3) Testing by (simp add: unat_word_ariths)
  then show ?thesis using assms Testing by (auto simp: Let_def split: if_splits)
qed (use assms in auto)

lemma step_thread_stopped:
  assumes "step_thread k s = Some s'" "stopped s"
  shows "stopped s' \<and> steps_left s' < steps_left s"
proof -
  let ?ts = "compute_threads s"
  obtain t s1 where k: "k < length ?ts" and t: "thread_step s (?ts ! k) = Some (s1, t)"
    and s': "s' = s1\<lparr>compute_threads := ?ts[k := t]\<rparr>"
    using assms(1) by (auto simp: step_thread_def split: if_splits)
  have sm: "small (?ts ! k)" "\<not> is_running s" using assms(2) k by (auto simp: stopped_def)
  note st = thread_step_stopped [OF t sm(2,1)]
  have "remaining (?ts ! k) \<le> steps_left s" unfolding steps_left_def using k by (intro member_le_sum_list) auto
  moreover have "steps_left s' = steps_left s + remaining t - remaining (?ts ! k)"
    using k by (simp add: steps_left_def s' map_update sum_list_update)
  ultimately have "steps_left s' < steps_left s" using st by linarith
  with st assms(2) show ?thesis
    by (auto simp: stopped_def s' dest!: set_update_subset_insert [THEN subsetD])
qed

lemma thread_run_steps_left: "(thread_run ^^ j) s s' \<Longrightarrow> stopped s \<Longrightarrow> stopped s' \<and> j + steps_left s' \<le> steps_left s"
proof (induction j arbitrary: s')
  case (Suc j)
  then obtain s1 where 1: "(thread_run ^^ j) s s1" "thread_run s1 s'" by auto
  with Suc have "stopped s1" "j + steps_left s1 \<le> steps_left s" by auto
  moreover obtain k where "step_thread k s1 = Some s'" using 1(2) by (auto simp: thread_run_def)
  ultimately show ?case using step_thread_stopped [of k s1 s'] by linarith
qed simp

lemma thread_run_ends:
  "stopped s \<Longrightarrow> \<exists>s'. thread_run\<^sup>*\<^sup>* s s' \<and> (\<forall>t \<in> set (compute_threads s'). t = Exited)"
proof (induction "steps_left s" arbitrary: s rule: less_induct)
  case less
  show ?case
  proof (cases "\<forall>t \<in> set (compute_threads s). t = Exited")
    case False
    then obtain k where k: "k < length (compute_threads s)" "compute_threads s ! k \<noteq> Exited"
      by (auto simp: in_set_conv_nth)
    then have "thread_step s (compute_threads s ! k) \<noteq> None"
      by (cases "compute_threads s ! k") (auto simp: Let_def)
    with k obtain s1 where "step_thread k s = Some s1" by (auto simp: step_thread_def)
    with less step_thread_stopped [of k s s1] obtain s' where
      "thread_run s s1" "thread_run\<^sup>*\<^sup>* s1 s'" "\<forall>t \<in> set (compute_threads s'). t = Exited"
      unfolding thread_run_def by metis
    then show ?thesis by (meson converse_rtranclp_into_rtranclp)
  qed auto
qed

lemma bench_inv_small: "bench_inv f m s \<Longrightarrow> m < 2 ^ 52 \<Longrightarrow> t \<in> set (compute_threads s) \<Longrightarrow> small t"
proof (cases t)
  case (Testing b n bound i)
  moreover assume "bench_inv f m s" "m < 2 ^ 52" "t \<in> set (compute_threads s)"
  ultimately have "bound \<le> unat n" "unat n < 2 ^ 52"
    using isqrt_le [of "unat n"] by (fastforce simp: bench_inv_def pool_ok_def)+
  then show ?thesis using Testing by simp
qed auto

text \<open>C21: once the benchmark is stopped, by the timer or the user, its threads make a bounded number of
  further steps, and they can all reach their end.\<close>

theorem threads_end_after_stop:
  assumes "compute_threads s = []" "(bench_step ^^ k) (start_benchmarks s) s'" "k < 2 ^ 51" "\<not> is_running s'"
  shows "(\<forall>j s''. (thread_run ^^ j) s' s'' \<longrightarrow> j \<le> sum_list (map remaining (compute_threads s')))
    \<and> (\<exists>s''. thread_run\<^sup>*\<^sup>* s' s'' \<and> (\<forall>t \<in> set (compute_threads s''). t = Exited))"
proof -
  have "bench_inv (fast_mode s) (2 + k) s'"
    using bench_run_inv [OF assms(2) started_inv [OF assms(1)]] assms(3) by simp
  then have "stopped s'" using bench_inv_small [of _ _ s'] assms(3,4) by (auto simp: stopped_def)
  then have "j \<le> sum_list (map remaining (compute_threads s'))" if "(thread_run ^^ j) s' s''" for j s''
    using thread_run_steps_left [OF that] by (simp add: steps_left_def)
  then show ?thesis using thread_run_ends [OF \<open>stopped s'\<close>] by blast
qed

theorem threads_end_after_stop_witness:
  "(bench_step ^^ 5) (start_benchmarks new_bench) (user_stops after_four)
   \<and> (\<exists>s. thread_run\<^sup>*\<^sup>* (user_stops after_four) s \<and> set (compute_threads s) \<subseteq> {Exited})"
proof -
  have 1: "compute_threads new_bench = []" by (simp add: new_bench_def)
  have "(bench_step ^^ 4) (start_benchmarks new_bench) after_four"
    using run_threads_steps [OF after_four(1)] by (simp del: relpowp.simps add: numeral_eq_Suc)
  from relpowp_Suc_I [OF this bench_step.user]
  have 2: "(bench_step ^^ 5) (start_benchmarks new_bench) (user_stops after_four)" by (simp add: eval_nat_numeral)
  have 3: "\<not> is_running (user_stops after_four)" by (simp add: user_stops_def)
  show ?thesis using threads_end_after_stop [OF 1 2 _ 3] 2 by (auto simp del: relpowp.simps)
qed

subsection \<open>A second start\<close>

text \<open>The user stops, and starts again before the thread has seen it: 3 is counted in the new run,
  which has not reached it.\<close>

definition stopped_early :: bench where
  "stopped_early = user_stops (the (run_threads [0, 0, 0] (start_benchmarks new_bench)))"

definition counted_twice :: bench where
  "counted_twice = the (step_thread 0 (user_starts False stopped_early))"

text \<open>C27: a benchmark started again while a thread of the run before is still at work may count more
  primes than there are up to the last number given out.\<close>

theorem restart_breaks_count:
  "\<exists>s s'. bench_step\<^sup>*\<^sup>* (start_benchmarks new_bench) s \<and> \<not> is_running s
     \<and> bench_step\<^sup>*\<^sup>* (user_starts (fast_mode s) s) s'
     \<and> prime_count (unat (number (prime_slow s'))) < unat (primes (prime_slow s'))"
proof (intro exI conjI)
  let ?s = "the (run_threads [0, 0, 0] (start_benchmarks new_bench))"
  have "run_threads [0, 0, 0] (start_benchmarks new_bench) = Some ?s" by (simp add: bench_eval)
  from run_threads_steps [OF this] have "bench_step\<^sup>*\<^sup>* (start_benchmarks new_bench) ?s" by (rule relpowp_imp_rtranclp)
  from rtranclp.rtrancl_into_rtrancl [OF this bench_step.user]
  show "bench_step\<^sup>*\<^sup>* (start_benchmarks new_bench) stopped_early" by (simp add: stopped_early_def)
  show "\<not> is_running stopped_early" by (simp add: stopped_early_def user_stops_def)
  have f: "fast_mode stopped_early = False" by (simp add: stopped_early_def user_stops_def bench_eval)
  have "step_thread 0 (user_starts False stopped_early) = Some counted_twice"
    by (simp add: counted_twice_def user_starts_def stopped_early_def user_stops_def bench_eval)
  then show "bench_step\<^sup>*\<^sup>* (user_starts (fast_mode stopped_early) stopped_early) counted_twice"
    using f bench_step.thread by auto
  have "number (prime_slow counted_twice) = 2" "primes (prime_slow counted_twice) = 2"
    by (simp_all add: counted_twice_def user_starts_def stopped_early_def user_stops_def bench_eval)
  then show "prime_count (unat (number (prime_slow counted_twice))) < unat (primes (prime_slow counted_twice))"
    by (simp add: prime_count_2)
qed

subsection \<open>The report\<close>

lemma percent_u_small: "unat x < 2 ^ 32 \<Longrightarrow> percent_u x = udec (unat x)"
  by (simp add: percent_u_def unat_ucast_mod)

lemma minutes_left: "e \<le> 60 * d \<Longrightarrow> d - e div 60 = (60 * d - e + 59) div 60" for d e :: nat
  by linarith

text \<open>While time is left, the report gives whole hours if more than 59 minutes are left, then minutes,
  both at least 1, then seconds; a timer that is late makes it report hours.\<close>

lemma report_time_left:
  assumes "0 < d" "d < 60 * 24" "e \<le> d * 60"
  defines "r \<equiv> unat d * 60 - unat e"
  shows "left_text d e =
      (if 3540 < r then ''('' @ udec ((r + 59) div 60 div 60) @ '' hours left)''
       else if 60 \<le> r then ''('' @ udec ((r + 59) div 60) @ '' minutes left)''
       else ''('' @ udec r @ '' seconds left)'')
    \<and> (3540 < r \<longrightarrow> 1 \<le> (r + 59) div 60 div 60) \<and> left_text 1 61 = ''(0 hours left)''"
proof -
  have d: "unat d < 1440" using assms(2) by (simp add: word_less_nat_alt)
  then have d60: "unat (d * 60) = unat d * 60" by (simp add: unat_word_ariths)
  have e: "unat e \<le> unat d * 60" using assms(3) d60 by (simp add: word_le_nat_alt)
  have r: "unat (d * 60 - e) = r" using assms(3) d60 by (simp add: unat_sub r_def)
  have e60: "unat (e div 60) = unat e div 60" by (simp add: unat_div)
  then have "e div 60 \<le> d" using e by (simp add: word_le_nat_alt)
  then have m: "unat (d - e div 60) = (r + 59) div 60"
    using e minutes_left [of "unat e" "unat d"] by (simp add: unat_sub e60 r_def mult.commute)
  have h: "unat ((d - e div 60) div 60) = (r + 59) div 60 div 60" by (simp add: unat_div m)
  have rs: "r \<le> 86400" using d by (simp add: r_def)
  have small: "r < 2 ^ 32" "(r + 59) div 60 < 2 ^ 32" "(r + 59) div 60 div 60 < 2 ^ 32" using rs by simp_all
  have ifs: "3540 < d * 60 - e \<longleftrightarrow> 3540 < r" "60 \<le> d * 60 - e \<longleftrightarrow> 60 \<le> r"
    by (simp_all add: word_less_nat_alt word_le_nat_alt r)
  have "left_text 1 61 = ''(0 hours left)''"
    by (simp add: left_text_def percent_u_def udec_def to_base.simps digit_def)
  moreover have "3540 < r \<longrightarrow> 1 \<le> (r + 59) div 60 div 60" by linarith
  ultimately show ?thesis
    using small by (simp add: left_text_def ifs percent_u_small m h r del: One_nat_def)
qed

lemma report_time_left_example: "left_text 90 60 = ''(1 hours left)''"
  using report_time_left [of 90 60] by (simp add: udec_def to_base.simps digit_def)

end
