(* ===== verification/Util.thy ===== *)
theory Util
  imports Options
begin

section \<open>Helper functions (util.cpp)\<close>

text \<open>
  The functions of \<^verbatim>\<open>src/src/util.cpp\<close> on strings, sizes, pipes and the output of commands.
  \<open>tr\<close> (\<^verbatim>\<open>gettext\<close>) translates a message; the log is left out. The loop of
  \<^verbatim>\<open>string_set_size_unit\<close> need not end: it is a \<^verbatim>\<open>partial_function\<close>, and \<open>None\<close> is
  its value when it does not.
\<close>

subsection \<open>Prefixes of units\<close>

text \<open>The index of an element of the tables is its multiplier: \<^verbatim>\<open>MULT_NONE\<close> is 0,
  \<^verbatim>\<open>MULT_E\<close> is 6, \<^verbatim>\<open>MULT_LAST\<close> is 7.\<close>

record prefix_unit =
  pu_init :: bool
  pu_prefix :: string
  pu_divisor :: u64

definition MULT_LAST :: nat where "MULT_LAST = 7"

definition si_prefixes :: "(nat \<times> string \<times> u64) list" where
  "si_prefixes = [(0, ''bytes'', 1), (1, ''kB'', 1000), (2, ''MB'', 1000000), (3, ''GB'', 1000000000),
     (4, ''TB'', 1000000000000), (5, ''PB'', 1000000000000000), (6, ''EB'', 1000000000000000000)]"

definition binary_prefixes :: "(nat \<times> string \<times> u64) list" where
  "binary_prefixes = [(0, ''bytes'', 1), (1, ''KiB'', push_bit 10 1), (2, ''MiB'', push_bit 20 1),
     (3, ''GiB'', push_bit 30 1), (4, ''TiB'', push_bit 40 1), (5, ''PiB'', push_bit 50 1),
     (6, ''EiB'', push_bit 60 1)]"

text \<open>The search reads the element before it compares the index with the size of the table: \<open>None\<close> is a
  read behind the table.\<close>

fun find_multiplier :: "(nat \<times> string \<times> u64) list \<Rightarrow> nat \<Rightarrow> nat \<Rightarrow> nat option" where
  "find_multiplier [] m i = None"
| "find_multiplier (e # es) m i = (if fst e \<noteq> m then find_multiplier es m (i + 1) else Some i)"

function grow_prefix :: "(nat \<times> string \<times> u64) list \<Rightarrow> u64 \<Rightarrow> nat \<Rightarrow> nat \<Rightarrow> prefix_unit \<Rightarrow> prefix_unit" where
  "grow_prefix ps v i k pu =
     (if i < length ps \<and> k < length ps \<and> 0 < v div snd (snd (ps ! k))
      then grow_prefix ps v (i + 1) (k + 1)
             (pu\<lparr>pu_prefix := fst (snd (ps ! i)), pu_divisor := snd (snd (ps ! k))\<rparr>)
      else pu)"
  by pat_completeness auto
termination by (relation "measure (\<lambda>(ps, v, i, k, pu). length ps - i)") auto

declare grow_prefix.simps [simp del]

definition find_best_prefix ::
    "(string \<Rightarrow> string) \<Rightarrow> u64 \<Rightarrow> nat \<Rightarrow> bool \<Rightarrow> prefix_unit \<Rightarrow> prefix_unit option" where
  "find_best_prefix tr v m use_si pu = (let
     ps = map (\<lambda>(m, u, d). (m, tr u, d)) (if use_si then si_prefixes else binary_prefixes)
   in map_option (\<lambda>i. grow_prefix ps v (i + 1) 1
        (pu\<lparr>pu_init := True, pu_prefix := fst (snd (ps ! i)), pu_divisor := snd (snd (ps ! 0))\<rparr>))
      (find_multiplier ps m 0))"

definition find_best_si_prefix ::
    "(string \<Rightarrow> string) \<Rightarrow> u64 \<Rightarrow> nat \<Rightarrow> prefix_unit \<Rightarrow> prefix_unit option" where
  "find_best_si_prefix tr v m pu = find_best_prefix tr v m True pu"

definition find_best_binary_prefix ::
    "(string \<Rightarrow> string) \<Rightarrow> u64 \<Rightarrow> nat \<Rightarrow> prefix_unit \<Rightarrow> prefix_unit option" where
  "find_best_binary_prefix tr v m pu = find_best_prefix tr v m False pu"

subsection \<open>Strings\<close>

text \<open>\<^verbatim>\<open>std::stoull\<close> throws without a digit and beyond 64 bits; it accepts a sign, and anything
  behind the number.\<close>

definition is_unsigned_integer :: "string \<Rightarrow> bool" where
  "is_unsigned_integer s = (let ds = fst (digits 10 (snd (sign (dropWhile isspace s))))
     in ds \<noteq> [] \<and> from_base 10 ds < 2 ^ 64)"

definition string_ltrim :: "string \<Rightarrow> string" where
  "string_ltrim s = dropWhile isspace s"

definition string_rtrim :: "string \<Rightarrow> string" where
  "string_rtrim s = rev (dropWhile isspace (rev s))"

definition string_trim :: "string \<Rightarrow> string" where
  "string_trim s = string_ltrim (string_rtrim s)"

subsection \<open>Units of sizes\<close>

definition si_tokens :: "(string \<times> string) list" where
  "si_tokens = [(TOKEN_UNIT_B, ''bytes''), (''@KB@'', ''kB''), (''@MB@'', ''MB''), (''@GB@'', ''GB''),
     (''@TB@'', ''TB''), (''@PB@'', ''PB''), (''@EB@'', ''EB'')]"

definition binary_tokens :: "(string \<times> string) list" where
  "binary_tokens = [(TOKEN_UNIT_KIB, ''KiB''), (TOKEN_UNIT_MIB, ''MiB''), (TOKEN_UNIT_GIB, ''GiB''),
     (TOKEN_UNIT_TIB, ''TiB''), (TOKEN_UNIT_PIB, ''PiB''), (TOKEN_UNIT_EIB, ''EiB'')]"

definition unit_text :: "(string \<Rightarrow> string) \<Rightarrow> (string \<times> string) list \<Rightarrow> string \<Rightarrow> string" where
  "unit_text tr tokens t = (case map_of tokens t of None \<Rightarrow> [] | Some u \<Rightarrow> tr u)"

text \<open>At an at sign: the text of the token there, and the number of characters to go on by.\<close>

definition unit_token :: "(string \<Rightarrow> string) \<Rightarrow> string \<Rightarrow> string \<times> nat" where
  "unit_token tr s =
     (if 3 < length s \<and> s ! 3 = CHR ''@'' then (unit_text tr si_tokens (take 4 s), 4)
      else if 4 < length s \<and> s ! 4 = CHR ''@'' then (unit_text tr binary_tokens (take 5 s), 5)
      else ([], 0))"

partial_function (option) set_units :: "(string \<Rightarrow> string) \<Rightarrow> string \<Rightarrow> string \<Rightarrow> string option" where
  "set_units tr dst s =
     (if s = [] then Some dst
      else if hd s = CHR ''@''
      then set_units tr (dst @ fst (unit_token tr s)) (drop (snd (unit_token tr s)) s)
      else set_units tr (dst @ [hd s]) (tl s))"

definition string_set_size_unit :: "(string \<Rightarrow> string) \<Rightarrow> string option \<Rightarrow> string option" where
  "string_set_size_unit tr src = (case src of None \<Rightarrow> Some [] | Some s \<Rightarrow> set_units tr [] s)"

subsection \<open>Output of commands and files\<close>

text \<open>\<^verbatim>\<open>fgets(buffer, n, f)\<close>: up to a newline, at most \<open>n - 1\<close> bytes.\<close>

fun fgets :: "nat \<Rightarrow> string \<Rightarrow> string \<times> string" where
  "fgets 0 s = ([], s)"
| "fgets (Suc n) [] = ([], [])"
| "fgets (Suc n) (c # s) = (if c = CHR 0x0A then ([c], s) else case fgets n s of (l, r) \<Rightarrow> (c # l, r))"

lemma fgets_length: "0 < n \<Longrightarrow> s \<noteq> [] \<Longrightarrow> length (snd (fgets n s)) < length s"
proof -
  have "length (snd (fgets n s)) \<le> length s" for n s
    by (induction n s rule: fgets.induct) (auto split: prod.splits)
  then show "0 < n \<Longrightarrow> s \<noteq> [] \<Longrightarrow> length (snd (fgets n s)) < length s"
    by (cases n; cases s) (auto split: prod.splits simp: less_Suc_eq_le, metis snd_conv)
qed

text \<open>What is added of a buffer: the text up to the first carriage return, newline or null byte.\<close>

definition line_text :: "string \<Rightarrow> string" where
  "line_text l = takeWhile (\<lambda>c. c \<noteq> CHR 0x0D \<and> c \<noteq> CHR 0x0A \<and> c \<noteq> CHR 0x00) l"

text \<open>What \<^verbatim>\<open>popen_to_str\<close> stores, for the bytes the command writes.\<close>

function popen_to_str :: "string \<Rightarrow> string" where
  "popen_to_str s = (if s = [] then [] else case fgets (MAXSTR - 1) s of (l, r) \<Rightarrow> line_text l @ popen_to_str r)"
  by pat_completeness auto
termination
  by (relation "measure length") (use fgets_length [of "MAXSTR - 1"] in \<open>auto simp: MAXSTR_def, metis snd_conv zero_less_numeral\<close>)

declare popen_to_str.simps [simp del]

text \<open>\<^verbatim>\<open>std::getline\<close> until the end of the file.\<close>

fun fopen_to_str :: "string \<Rightarrow> string" where
  "fopen_to_str [] = []"
| "fopen_to_str (c # s) = (if c = CHR 0x0A then fopen_to_str s else c # fopen_to_str s)"

subsection \<open>Strings through a pipe\<close>

text \<open>\<open>le_text k n\<close>: the \<open>k\<close> bytes of a number in memory.\<close>

definition le_text :: "nat \<Rightarrow> nat \<Rightarrow> string" where
  "le_text k n = map (\<lambda>i. char_of (n div 256 ^ i)) [0..<k]"

definition le_number :: "string \<Rightarrow> nat" where
  "le_number bs = (\<Sum>i < length bs. of_char (bs ! i) * 256 ^ i)"

lemma le_number_text: "le_number (le_text k n) = n mod 256 ^ k"
proof -
  have "(\<Sum>i < k. n div 256 ^ i mod 256 * 256 ^ i) = n mod 256 ^ k"
  proof (induction k)
    case (Suc k)
    then show ?case by (simp add: mod_mult2_eq mult.commute [of 256])
  qed simp
  then show ?thesis by (simp add: le_number_def le_text_def)
qed

lemma length_le_text [simp]: "length (le_text k n) = k"
  by (simp add: le_text_def)

text \<open>A pipe is its unread bytes. \<^verbatim>\<open>read\<close> returns what is there at the time, at most \<open>there\<close> bytes.
  A count of 0 bytes, or an error, gives an empty string.\<close>

definition write_string_to_pipe :: "string \<Rightarrow> string \<Rightarrow> string" where
  "write_string_to_pipe str pipe =
     pipe @ le_text 8 (length str) @ str"

definition read_string_from_pipe :: "nat \<Rightarrow> nat \<Rightarrow> string \<Rightarrow> string \<times> string" where
  "read_string_from_pipe there1 there2 pipe = (let
     n = min 8 there1; head = take n pipe; rest = drop n pipe; size = le_number head
   in if head = [] \<or> size = 0 then ([], rest)
      else let m = min size there2; body = take m rest
        in if body = [] then ([], drop m rest)
           else (body @ replicate (size - length body) CHR '' '', drop m rest))"

text \<open>\<^verbatim>\<open>argv\<close> for a list of arguments, with the null pointer at the end.\<close>

definition transform_string_list_to_char_array :: "string \<Rightarrow> string list \<Rightarrow> cstr list" where
  "transform_string_list_to_char_array arg0 args = Some arg0 # map Some args @ [None]"

end
