(* ===== verification/Confluence.thy ===== *)
theory Confluence
  imports Prelude
begin

section \<open>Runs whose order does not matter\<close>

text \<open>
  Two processes that talk over queues can be interleaved in many ways. If any two different next steps
  can be exchanged (the diamond property), one complete run decides them all: every run can be
  extended to the same end, and none is longer.
\<close>

locale diamond =
  fixes step :: "'s \<Rightarrow> 's \<Rightarrow> bool"
  assumes exchange: "step s a \<Longrightarrow> step s b \<Longrightarrow> a = b \<or> (\<exists>c. step a c \<and> step b c)"
begin

lemma shorter: "(step ^^ n) s t \<Longrightarrow> \<nexists>u. step t u \<Longrightarrow> step s a \<Longrightarrow> \<exists>m. n = Suc m \<and> (step ^^ m) a t"
proof (induction n arbitrary: s a)
  case 0
  then show ?case by auto
next
  case (Suc n)
  from Suc.prems(1) obtain b where b: "step s b" "(step ^^ n) b t" by (elim relpowp_Suc_E2)
  show ?case
  proof (cases "a = b")
    case True
    with b show ?thesis by auto
  next
    case False
    with exchange [OF Suc.prems(3) b(1)] obtain c where c: "step a c" "step b c" by auto
    from Suc.IH [OF b(2) Suc.prems(2) c(2)] obtain m where "n = Suc m" "(step ^^ m) c t" by auto
    with c(1) show ?thesis by (auto intro: relpowp_Suc_I2 simp del: relpowp.simps)
  qed
qed

lemma one_outcome:
  assumes "(step ^^ n) s t" "\<nexists>u. step t u" "(step ^^ k) s u"
  shows "k \<le> n \<and> (step ^^ (n - k)) u t"
  using assms(3)
proof (induction k arbitrary: u)
  case 0
  with assms(1) show ?case by simp
next
  case (Suc k)
  then obtain v where v: "(step ^^ k) s v" "step v u" by auto
  from shorter [OF Suc.IH [OF v(1), THEN conjunct2] assms(2) v(2)] Suc.IH [OF v(1)]
  obtain m where "n - k = Suc m" "(step ^^ m) u t" by auto
  then have "Suc k \<le> n" "n - Suc k = m" by linarith+
  with \<open>(step ^^ m) u t\<close> show ?case by simp
qed

lemma same_end:
  assumes "(step ^^ n) s t" "\<nexists>u. step t u" "(step ^^ k) s u" "\<nexists>v. step u v"
  shows "u = t"
proof (cases "n - k")
  case 0
  then show ?thesis using one_outcome [OF assms(1-3)] by simp
next
  case (Suc m)
  then show ?thesis using one_outcome [OF assms(1-3)] assms(4) by (metis relpowp_Suc_E2)
qed

end

end
