(* ===== verification/Daemon.thy ===== *)
theory Daemon
  imports Util Cpux Selection Confluence
begin

section \<open>The daemon and its client\<close>

text \<open>
  The program asks a daemon that runs as root for what it may not read itself. The client side is
  \<^verbatim>\<open>call_dmidecode\<close> (\<^verbatim>\<open>core/dmidecode/libdmidecode.cpp\<close>), the
  \<^verbatim>\<open>call_libcpuid_msr_*\<close> functions (\<^verbatim>\<open>core/libcpuid.cpp\<close>),
  \<^verbatim>\<open>can_access_sys_debug_dri\<close> (\<^verbatim>\<open>core/libpci.cpp\<close>) and
  \<^verbatim>\<open>load_module\<close> (\<^verbatim>\<open>util.cpp\<close>); the other side is \<^verbatim>\<open>request_handler\<close>
  of \<^verbatim>\<open>daemon/server.cpp\<close>; the messages and the macros \<^verbatim>\<open>SEND_DATA\<close>,
  \<^verbatim>\<open>RECEIVE_DATA\<close> are in \<^verbatim>\<open>daemon/daemon.h\<close>.

  Either side is a \<open>proc\<close>, its remaining actions; the connection (\<^verbatim>\<open>SOCK_SEQPACKET\<close>) is two
  queues of messages, and \<open>net_step\<close> lets either side do its next action. A read of \<open>n\<close> bytes takes one
  message and drops what is beyond \<open>n\<close>. When the server has closed its end, because of a failed read or
  because an exception that nothing catches has ended it, a read of the client that finds no message
  returns nothing. The client keeps its end open, and a write does not fail: what happens to one when
  the other side has gone away is left out. Bytes are characters. The answers of libcpuid, of
  the system calls and of dmidecode are parameters (\<open>env\<close>); the log and the formatted labels of
  numbers are left out, and messages are untranslated but for the units of sizes.
\<close>

subsection \<open>Messages\<close>

datatype DaemonCommand = LIBCPUID_MSR_DEBUG | LIBCPUID_MSR_STATIC | LIBCPUID_MSR_DYNAMIC | DMIDECODE
  | ACCESS_DEV_PCI | ACCESS_SYS_DEBUG | LOAD_MODULE

fun command_number :: "DaemonCommand \<Rightarrow> nat" where
  "command_number LIBCPUID_MSR_DEBUG = 0" | "command_number LIBCPUID_MSR_STATIC = 1"
| "command_number LIBCPUID_MSR_DYNAMIC = 2" | "command_number DMIDECODE = 3"
| "command_number ACCESS_DEV_PCI = 4" | "command_number ACCESS_SYS_DEBUG = 5"
| "command_number LOAD_MODULE = 6"

definition command_bytes :: "DaemonCommand \<Rightarrow> string" where
  "command_bytes c = le_text 4 (command_number c)"

definition int_bytes :: "u32 \<Rightarrow> string" where
  "int_bytes x = le_text 4 (unat x)"

definition int_at :: "nat \<Rightarrow> string \<Rightarrow> u32" where
  "int_at i bs = of_nat (le_number (take 4 (drop i bs)))"

text \<open>The bytes of a \<^verbatim>\<open>double\<close> with the value of a 16-bit integer, and the value, cut off at the point,
  of a \<^verbatim>\<open>double\<close> that is not negative and below \<open>2 ^ 52\<close>.\<close>

definition double_bits :: "nat \<Rightarrow> nat" where
  "double_bits n = (if n = 0 then 0 else let e = bit_len n - 1 in (1023 + e) * 2 ^ 52 + (n - 2 ^ e) * 2 ^ (52 - e))"

definition double_value :: "nat \<Rightarrow> nat" where
  "double_value bits = (let e = bits div 2 ^ 52 mod 2048
     in if e < 1023 then 0 else (2 ^ 52 + bits mod 2 ^ 52) div 2 ^ (52 - (e - 1023)))"

definition cpu_bytes :: "DmidecodeCPUData \<Rightarrow> string" where
  "cpu_bytes p = le_text 8 (double_bits (unat (bus_freq p))) @ cpu_package p"

definition mb_fields :: "DmidecodeMBData \<Rightarrow> char_array list" where
  "mb_fields b = [mb_manufacturer b, mb_model b, mb_revision b]"

definition bios_fields :: "DmidecodeBiosData \<Rightarrow> char_array list" where
  "bios_fields b = [bios_brand b, bios_version b, bios_date b, bios_romsize b]"

definition stick_fields :: "DmidecodeMemoryData \<Rightarrow> char_array list" where
  "stick_fields m = [m_manufacturer m, m_part_number m, m_type m, m_type_detail m, m_device_locator m,
     m_bank_locator m, m_size m, m_rank m, m_speed_maximum m, m_speed_configured m,
     m_voltage_minimum m, m_voltage_maximum m, m_voltage_configured m]"

text \<open>The C string at an offset of a structure; it ends at the first null byte, be it in a later field.
  \<open>None\<close>: there is none up to the end of the structure.\<close>

definition c_str_at :: "nat \<Rightarrow> string \<Rightarrow> string option" where
  "c_str_at i bs = c_str (drop i bs)"

subsection \<open>Processes\<close>

text \<open>\<open>Abort\<close>: an exception ends the process, which closes its end of the connection. \<open>Dead\<close>: it runs for
  ever or has undefined behaviour.\<close>

datatype 'a proc =
    Done 'a
  | Send string "'a proc"
  | Recv nat "string \<Rightarrow> 'a proc"
  | Run string "u32 \<Rightarrow> 'a proc"
  | Abort
  | Dead

primrec and_then :: "'a proc \<Rightarrow> ('a \<Rightarrow> 'b proc) \<Rightarrow> 'b proc" where
  "and_then (Done a) f = f a"
| "and_then (Send m p) f = Send m (and_then p f)"
| "and_then (Recv n k) f = Recv n (\<lambda>b. and_then (k b) f)"
| "and_then (Run c k) f = Run c (\<lambda>r. and_then (k r) f)"
| "and_then Abort f = Abort"
| "and_then Dead f = Dead"

definition receive :: "nat \<Rightarrow> 'a \<Rightarrow> (string \<Rightarrow> 'a proc) \<Rightarrow> 'a proc" where
  "receive n err k = Recv n (\<lambda>b. if length b = n then k b else Done err)"

definition sends :: "string list \<Rightarrow> 'a proc \<Rightarrow> 'a proc" where
  "sends ms p = foldr Send ms p"

definition value_or_dead :: "'b option \<Rightarrow> ('b \<Rightarrow> 'a proc) \<Rightarrow> 'a proc" where
  "value_or_dead x k = (case x of None \<Rightarrow> Dead | Some y \<Rightarrow> k y)"

subsection \<open>The server (server.cpp)\<close>

datatype cpu_msrinfo_request = INFO_MIN_MULTIPLIER | INFO_MAX_MULTIPLIER | INFO_BCLK | INFO_VOLTAGE | INFO_TEMPERATURE

record env =
  env_dmidecode :: "u32 \<times> DmidecodeData"
  env_msr :: "u16 \<Rightarrow> (cpu_msrinfo_request \<Rightarrow> u32) option"
  env_invalid :: u32
  env_fs_throws :: bool
  env_permissions_fail :: bool
  env_alloc :: "nat \<Rightarrow> bool"
  env_system :: "string \<Rightarrow> u32"

text \<open>A handler returns whether the socket is still open. The number of a core is read without a check: of
  a short message, only the low bytes are set.\<close>

definition libcpuid_init_msr :: "env \<Rightarrow> string \<Rightarrow> (cpu_msrinfo_request \<Rightarrow> u32) option" where
  "libcpuid_init_msr e b = env_msr e (of_nat (le_number b))"

definition srv_call_libcpuid_msr_debug :: "env \<Rightarrow> bool proc" where
  "srv_call_libcpuid_msr_debug e = Recv 2 (\<lambda>b. Done True)"

definition srv_call_libcpuid_msr_static :: "env \<Rightarrow> bool proc" where
  "srv_call_libcpuid_msr_static e = Recv 2 (\<lambda>b. let info = (case libcpuid_init_msr e b of
       None \<Rightarrow> (\<lambda>_. env_invalid e) | Some f \<Rightarrow> f) in
     Send (int_bytes (info INFO_MIN_MULTIPLIER) @ int_bytes (info INFO_MAX_MULTIPLIER) @ int_bytes (info INFO_BCLK))
       (Done True))"

definition srv_call_libcpuid_msr_dynamic :: "env \<Rightarrow> bool proc" where
  "srv_call_libcpuid_msr_dynamic e = Recv 2 (\<lambda>b. let info = (case libcpuid_init_msr e b of
       None \<Rightarrow> (\<lambda>_. env_invalid e) | Some f \<Rightarrow> f) in
     Send (int_bytes (info INFO_VOLTAGE) @ int_bytes (info INFO_TEMPERATURE)) (Done True))"

text \<open>Whatever dmidecode returns, all its data is sent.\<close>

definition dmidecode_messages :: "u32 \<Rightarrow> DmidecodeData \<Rightarrow> string list" where
  "dmidecode_messages r d = [int_bytes r, cpu_bytes (d_processor d), concat (mb_fields (d_mb d)),
     concat (bios_fields (d_bios d)), le_text 1 (unat (d_stick_count d))]
     @ map (\<lambda>i. concat (stick_fields (d_memory d ! i))) [0..<unat (d_stick_count d)]"

definition srv_call_dmidecode :: "env \<Rightarrow> bool proc" where
  "srv_call_dmidecode e = (case env_dmidecode e of (r, d) \<Rightarrow> sends (dmidecode_messages r d) (Done True))"

definition srv_find_devices :: "env \<Rightarrow> bool proc" where
  "srv_find_devices e = Send (int_bytes (- 1)) (Done True)"

text \<open>\<^verbatim>\<open>fs::is_directory\<close> and \<^verbatim>\<open>fs::create_directory\<close> are called without an error code and
  may throw, which nothing catches (\<open>env_fs_throws\<close>); \<^verbatim>\<open>fs::permissions\<close> is called with one.\<close>

definition srv_can_access_sys_debug_dri :: "env \<Rightarrow> bool proc" where
  "srv_can_access_sys_debug_dri e = (if env_fs_throws e then Abort
     else Send (int_bytes (if env_permissions_fail e then 1 else - 1)) (Done True))"

text \<open>\<^verbatim>\<open>new char[len]\<close> throws for a negative length and without memory, and nothing catches it; the
  array is then used as a C string.\<close>

definition srv_load_module :: "env \<Rightarrow> bool proc" where
  "srv_load_module e = receive 8 False (\<lambda>b. let len = le_number b in
     if 2 ^ 63 \<le> len \<or> \<not> env_alloc e len then Abort
     else if len = 0 then Dead
     else receive len False (\<lambda>m. value_or_dead (c_str m) (\<lambda>module.
       Run (''modprobe '' @ module @ '' 2> /dev/null'') (\<lambda>r. Send (int_bytes r) (Done True)))))"

definition handle_command :: "env \<Rightarrow> string \<Rightarrow> bool proc" where
  "handle_command e b = (let c = le_number b in
     if c = 0 then srv_call_libcpuid_msr_debug e
     else if c = 1 then srv_call_libcpuid_msr_static e
     else if c = 2 then srv_call_libcpuid_msr_dynamic e
     else if c = 3 then srv_call_dmidecode e
     else if c = 4 then srv_find_devices e
     else if c = 5 then srv_can_access_sys_debug_dri e
     else if c = 6 then srv_load_module e
     else Done True)"

text \<open>The handler of a connection: at the head of its loop, in the handler of a command, behind the loop.\<close>

datatype server = Idle | Busy "bool proc" | Gone

subsection \<open>The connection\<close>

record 'a net =
  cli :: "'a proc"
  srv :: server
  to_server :: "string list"
  to_client :: "string list"
  ran :: "string list"

fun client_step :: "'a net \<Rightarrow> 'a net option" where
  "client_step s = (case cli s of
       Send m p \<Rightarrow> Some (s\<lparr>cli := p, to_server := to_server s @ [m]\<rparr>)
     | Recv n k \<Rightarrow> (case to_client s of
           [] \<Rightarrow> if srv s = Gone then Some (s\<lparr>cli := k []\<rparr>) else None
         | m # ms \<Rightarrow> Some (s\<lparr>cli := k (take n m), to_client := ms\<rparr>))
     | _ \<Rightarrow> None)"

fun server_step :: "env \<Rightarrow> 'a net \<Rightarrow> 'a net option" where
  "server_step e s = (case srv s of
       Idle \<Rightarrow> (case to_server s of [] \<Rightarrow> None
         | m # ms \<Rightarrow> Some (s\<lparr>srv := if 4 \<le> length m then Busy (handle_command e (take 4 m)) else Gone,
                            to_server := ms\<rparr>))
     | Busy (Done b) \<Rightarrow> Some (s\<lparr>srv := if b then Idle else Gone\<rparr>)
     | Busy (Send m p) \<Rightarrow> Some (s\<lparr>srv := Busy p, to_client := to_client s @ [m]\<rparr>)
     | Busy (Recv n k) \<Rightarrow> (case to_server s of [] \<Rightarrow> None
         | m # ms \<Rightarrow> Some (s\<lparr>srv := Busy (k (take n m)), to_server := ms\<rparr>))
     | Busy (Run c k) \<Rightarrow> Some (s\<lparr>srv := Busy (k (env_system e c)), ran := ran s @ [c]\<rparr>)
     | Busy Abort \<Rightarrow> Some (s\<lparr>srv := Gone\<rparr>)
     | _ \<Rightarrow> None)"

declare client_step.simps [simp del] server_step.simps [simp del]

inductive net_step :: "env \<Rightarrow> 'a net \<Rightarrow> 'a net \<Rightarrow> bool" where
  client: "client_step s = Some s' \<Longrightarrow> net_step e s s'"
| server: "server_step e s = Some s' \<Longrightarrow> net_step e s s'"

inductive_simps net_step_iff: "net_step e s s'"

definition connect :: "'a proc \<Rightarrow> 'a net" where
  "connect p = \<lparr>cli = p, srv = Idle, to_server = [], to_client = [], ran = []\<rparr>"

end
