(* ===== verification/Client.thy ===== *)
theory Client
  imports Daemon
begin

section \<open>The client of the daemon\<close>

text \<open>
  The functions that ask the daemon and fill \<^verbatim>\<open>Data\<close>. Numbers of type \<^verbatim>\<open>double\<close> that are
  multiples of 0.01 are integers here, the number of hundredths. A member is kept as its value; the
  label formatted from it is left out.
\<close>

subsection \<open>Data (data.hpp)\<close>

record memory_stick =
  st_manufacturer :: string
  st_part_number :: string
  st_type :: string
  st_type_detail :: string
  st_device_locator :: string
  st_bank_locator :: string
  st_size :: string
  st_rank :: string
  st_speed :: string
  st_voltage :: string

definition new_stick :: memory_stick where
  "new_stick = \<lparr>st_manufacturer = [], st_part_number = [], st_type = [], st_type_detail = [],
     st_device_locator = [], st_bank_locator = [], st_size = [], st_rank = [], st_speed = [], st_voltage = []\<rparr>"

text \<open>\<open>socket_up\<close>: \<^verbatim>\<open>socket_fd >= 0\<close>; \<open>packages\<close>: of each type of CPU; \<open>dri_ret\<close>: the static
  variable of \<^verbatim>\<open>can_access_sys_debug_dri\<close>; \<open>sel\<close>: the class \<^verbatim>\<open>Options\<close>.\<close>

record client_data =
  socket_up :: bool
  x86 :: bool
  packages :: "string list"
  bus_speed :: int
  cpu_min_mult :: int
  cpu_max_mult :: int
  cpu_voltage :: "int option"
  cpu_temperature :: "int option"
  board_manufacturer :: string
  board_model :: string
  board_revision :: string
  fw_brand :: string
  fw_version :: string
  fw_date :: string
  fw_romsize :: string
  sticks :: "memory_stick list"
  dri_ret :: u32
  sel :: selection

definition set_bus_freq :: "int \<Rightarrow> client_data \<Rightarrow> client_data" where
  "set_bus_freq x d = (if x \<le> 0 then d else d\<lparr>bus_speed := x\<rparr>)"

definition grow_sticks_vector :: "client_data \<Rightarrow> client_data" where
  "grow_sticks_vector d = d\<lparr>sticks := sticks d @ [new_stick]\<rparr>"

definition lose_socket :: "client_data \<Rightarrow> client_data" where
  "lose_socket d = d\<lparr>socket_up := False\<rparr>"

text \<open>\<^verbatim>\<open>RECEIVE_DATA\<close>: on failure the socket is closed and 1 is returned.\<close>

definition RECEIVE_DATA :: "nat \<Rightarrow> client_data \<Rightarrow> (string \<Rightarrow> (u32 \<times> client_data) proc) \<Rightarrow> (u32 \<times> client_data) proc" where
  "RECEIVE_DATA n d k = receive n (1, lose_socket d) k"

subsection \<open>dmidecode\<close>

definition fill_processor :: "string \<Rightarrow> client_data \<Rightarrow> client_data option" where
  "fill_processor b d = do {
     package \<leftarrow> c_str_at 8 b;
     let d = d\<lparr>packages := map (\<lambda>_. package) (packages d)\<rparr>;
     Some (if bus_speed d = 0 then set_bus_freq (100 * int (double_value (le_number (take 8 b)))) d else d) }"

definition fill_board :: "string \<Rightarrow> client_data \<Rightarrow> client_data option" where
  "fill_board b d = do {
     manufacturer \<leftarrow> c_str_at 0 b; model \<leftarrow> c_str_at 80 b; revision \<leftarrow> c_str_at 160 b;
     Some (d\<lparr>board_manufacturer := manufacturer, board_model := model, board_revision := revision\<rparr>) }"

definition fill_bios :: "(string \<Rightarrow> string) \<Rightarrow> string \<Rightarrow> client_data \<Rightarrow> client_data option" where
  "fill_bios tr b d = do {
     brand \<leftarrow> c_str_at 0 b; version \<leftarrow> c_str_at 80 b; date \<leftarrow> c_str_at 160 b; romsize \<leftarrow> c_str_at 240 b;
     romsize \<leftarrow> string_set_size_unit tr (Some romsize);
     Some (d\<lparr>fw_brand := brand, fw_version := version, fw_date := date, fw_romsize := romsize\<rparr>) }"

text \<open>Appends a part to a label, with a separator if a part has been set before.\<close>

definition speed_label :: "string \<Rightarrow> string \<Rightarrow> string \<Rightarrow> string" where
  "speed_label label configured maximum = (let
     (label, sep) = (if configured \<noteq> [] then (configured @ '' (configured)'', '' / '') else (label, ''''))
   in if maximum \<noteq> [] then label @ sep @ maximum @ '' (max)'' else label)"

definition voltage_label :: "string \<Rightarrow> string \<Rightarrow> string \<Rightarrow> string \<Rightarrow> string" where
  "voltage_label label minimum configured maximum = (let
     (label, sep) = (if minimum \<noteq> [] then (minimum @ '' (min)'', '' / '') else (label, ''''));
     (label, sep) = (if configured \<noteq> [] then (label @ sep @ configured @ '' (configured)'', '' / '') else (label, sep))
   in if maximum \<noteq> [] then label @ sep @ maximum @ '' (max)'' else label)"

definition fill_stick :: "(string \<Rightarrow> string) \<Rightarrow> string \<Rightarrow> memory_stick \<Rightarrow> memory_stick option" where
  "fill_stick tr b m = do {
     manufacturer \<leftarrow> c_str_at 0 b; part_number \<leftarrow> c_str_at 80 b; type \<leftarrow> c_str_at 160 b;
     type_detail \<leftarrow> c_str_at 240 b; device_locator \<leftarrow> c_str_at 320 b; bank_locator \<leftarrow> c_str_at 400 b;
     size \<leftarrow> c_str_at 480 b; size \<leftarrow> string_set_size_unit tr (Some size); rank \<leftarrow> c_str_at 560 b;
     speed_maximum \<leftarrow> c_str_at 640 b; speed_configured \<leftarrow> c_str_at 720 b;
     voltage_minimum \<leftarrow> c_str_at 800 b; voltage_maximum \<leftarrow> c_str_at 880 b; voltage_configured \<leftarrow> c_str_at 960 b;
     Some (m\<lparr>st_manufacturer := manufacturer, st_part_number := part_number, st_type := type,
       st_type_detail := type_detail, st_device_locator := device_locator, st_bank_locator := bank_locator,
       st_size := size, st_rank := rank, st_speed := speed_label (st_speed m) speed_configured speed_maximum,
       st_voltage := voltage_label (st_voltage m) voltage_minimum voltage_configured voltage_maximum\<rparr>) }"

text \<open>The loop over the sticks: \<open>n\<close> are left, the next is number \<open>i\<close>.\<close>

fun receive_sticks :: "(string \<Rightarrow> string) \<Rightarrow> nat \<Rightarrow> nat \<Rightarrow> client_data \<Rightarrow> (u32 \<times> client_data) proc" where
  "receive_sticks tr 0 i d = Done (0, d\<lparr>sel := set_num_sticks (of_nat (length (sticks d))) (sel d)\<rparr>)"
| "receive_sticks tr (Suc n) i d = RECEIVE_DATA 1040 d (\<lambda>b. let d = grow_sticks_vector d in
     value_or_dead (fill_stick tr b (sticks d ! i)) (\<lambda>m. receive_sticks tr n (Suc i) (d\<lparr>sticks := (sticks d)[i := m]\<rparr>)))"

definition call_dmidecode :: "(string \<Rightarrow> string) \<Rightarrow> client_data \<Rightarrow> (u32 \<times> client_data) proc" where
  "call_dmidecode tr d = Send (command_bytes DMIDECODE) (RECEIVE_DATA 4 d (\<lambda>b.
     if le_number b \<noteq> 0 then Done (1, d)
     else RECEIVE_DATA 88 d (\<lambda>b. value_or_dead (fill_processor b d) (\<lambda>d.
       RECEIVE_DATA 240 d (\<lambda>b. value_or_dead (fill_board b d) (\<lambda>d.
       RECEIVE_DATA 320 d (\<lambda>b. value_or_dead (fill_bios tr b d) (\<lambda>d.
       RECEIVE_DATA 1 d (\<lambda>b. receive_sticks tr (le_number b) 0 d)))))))))"

subsection \<open>Registers of the processor\<close>

definition call_libcpuid_msr_debug :: "u16 \<Rightarrow> client_data \<Rightarrow> (u32 \<times> client_data) proc" where
  "call_libcpuid_msr_debug all_cpu_count d = (if \<not> x86 d then Done (1, d)
     else Send (command_bytes LIBCPUID_MSR_DEBUG) (Send (le_text 2 (unat all_cpu_count)) (Done (0, d))))"

definition call_libcpuid_msr_static :: "u32 \<Rightarrow> client_data \<Rightarrow> (u32 \<times> client_data) proc" where
  "call_libcpuid_msr_static invalid d = (case get_selected_core_id (sel d) of None \<Rightarrow> Dead | Some (core, s) \<Rightarrow> let
     d = d\<lparr>sel := s\<rparr>
   in if \<not> x86 d then Done (1, d)
     else Send (command_bytes LIBCPUID_MSR_STATIC) (Send (le_text 2 (unat core)) (RECEIVE_DATA 12 d (\<lambda>b. let
       min_mult = int_at 0 b; max_mult = int_at 4 b; bclk = int_at 8 b;
       d = (if min_mult \<noteq> invalid \<and> max_mult \<noteq> invalid
            then d\<lparr>cpu_min_mult := sint min_mult, cpu_max_mult := sint max_mult\<rparr> else d);
       d = (if bclk \<noteq> invalid \<and> bus_speed d = 0 then set_bus_freq (sint bclk) d else d)
     in Done (0, d)))))"

definition call_libcpuid_msr_dynamic :: "u32 \<Rightarrow> client_data \<Rightarrow> (u32 \<times> client_data) proc" where
  "call_libcpuid_msr_dynamic invalid d = (case get_selected_core_id (sel d) of None \<Rightarrow> Dead | Some (core, s) \<Rightarrow> let
     d = d\<lparr>sel := s\<rparr>
   in if \<not> x86 d then Done (1, d)
     else Send (command_bytes LIBCPUID_MSR_DYNAMIC) (Send (le_text 2 (unat core)) (RECEIVE_DATA 8 d (\<lambda>b. let
       voltage = int_at 0 b; temp = int_at 4 b;
       d = (if voltage \<noteq> invalid then d\<lparr>cpu_voltage := Some (sint voltage)\<rparr> else d);
       d = (if temp \<noteq> invalid then d\<lparr>cpu_temperature := Some (sint temp)\<rparr> else d)
     in Done (0, d)))))"

subsection \<open>Permissions and modules\<close>

text \<open>\<open>denied\<close>: \<^verbatim>\<open>access(SYS_DEBUG_DRI, X_OK)\<close> fails. The function has the type
  \<^verbatim>\<open>bool\<close>, as which the 1 of a failing \<^verbatim>\<open>RECEIVE_DATA\<close> is true.\<close>

definition can_access_sys_debug_dri :: "bool \<Rightarrow> client_data \<Rightarrow> (bool \<times> client_data) proc" where
  "can_access_sys_debug_dri denied d = (let answer = (\<lambda>d. Done (dri_ret d = 0, d)) in
     if dri_ret d \<noteq> 1 then answer d
     else if \<not> denied then answer (d\<lparr>dri_ret := 0\<rparr>)
     else if socket_up d
     then Send (command_bytes ACCESS_SYS_DEBUG) (receive 4 (True, lose_socket d)
            (\<lambda>b. answer (d\<lparr>dri_ret := int_at 0 b\<rparr>)))
     else answer (d\<lparr>dri_ret := - 2\<rparr>))"

text \<open>\<open>grep_ret\<close>: what the search for the module in \<^verbatim>\<open>/proc/modules\<close> returns, 0 if it is there.\<close>

definition load_module :: "u32 \<Rightarrow> string \<Rightarrow> client_data \<Rightarrow> (u32 \<times> client_data) proc" where
  "load_module grep_ret module d =
     (if grep_ret \<noteq> 0 \<and> socket_up d
      then Send (command_bytes LOAD_MODULE) (Send (le_text 8 (length module + 1)) (Send (module @ [NUL])
             (RECEIVE_DATA 4 d (\<lambda>b. Done (int_at 0 b, d)))))
      else Done (grep_ret, d))"

end
