(* ===== verification/Util_Properties.thy ===== *)
theory Util_Properties
  imports Util Cpux
begin

section \<open>Properties of the helper functions\<close>

text \<open>
  The prefix that is found is the largest that leaves a number to show (\<open>best_prefix\<close>); unit tokens
  are replaced, and a stray at sign makes the function run for ever (\<open>units_replaced\<close>,
  \<open>stray_at_sign_hangs\<close>); the output of a command is collected without its line ends
  (\<open>command_output_joined\<close>); a string sent through a pipe is read back (\<open>pipe_read_back\<close>).
\<close>

subsection \<open>Prefixes\<close>

definition unit_base :: "bool \<Rightarrow> nat" where "unit_base use_si = (if use_si then 1000 else 1024)"

definition prefix_table :: "bool \<Rightarrow> (nat \<times> string \<times> u64) list" where
  "prefix_table use_si = (if use_si then si_prefixes else binary_prefixes)"

lemma nat_below_7: "i < 7 \<Longrightarrow> i = 0 \<or> i = 1 \<or> i = 2 \<or> i = 3 \<or> i = 4 \<or> i = 5 \<or> i = (6 :: nat)"
  by linarith

lemma prefix_table:
  "length (prefix_table b) = 7" "map fst (prefix_table b) = [0..<7]"
  "i < 7 \<Longrightarrow> unat (snd (snd (prefix_table b ! i))) = unit_base b ^ i"
  by (auto simp: prefix_table_def si_prefixes_def binary_prefixes_def unit_base_def upt_rec dest!: nat_below_7)

lemma find_multiplier_index:
  "m < length ps \<Longrightarrow> map fst ps = [i..<i + length ps] \<Longrightarrow> find_multiplier ps (i + m) i = Some (i + m)"
proof (induction ps arbitrary: m i)
  case (Cons p ps)
  then have "fst p = i" "map fst ps = [Suc i..<Suc i + length ps]" by (auto simp: upt_rec)
  with Cons.IH [of "m - 1" "Suc i"] Cons.prems(1) show ?case by (cases m) auto
qed simp

lemma find_multiplier_None: "m \<notin> fst ` set ps \<Longrightarrow> find_multiplier ps m i = None"
  by (induction ps arbitrary: i) auto

text \<open>The state of the loop of the second search after \<open>k\<close> rounds.\<close>

definition at_prefix :: "(nat \<times> string \<times> u64) list \<Rightarrow> nat \<Rightarrow> nat \<Rightarrow> prefix_unit \<Rightarrow> bool" where
  "at_prefix ps m k pu \<longleftrightarrow> m + k < length ps \<and> pu_init pu \<and> pu_prefix pu = fst (snd (ps ! (m + k)))
     \<and> pu_divisor pu = snd (snd (ps ! k))"

lemma div_pos_iff: "0 < v div d \<longleftrightarrow> d \<le> v" if "0 < unat d" for v d :: u64
  using that by (simp add: word_less_nat_alt word_le_nat_alt unat_div div_greater_zero_iff)

lemma grow_prefix_spec:
  assumes "at_prefix ps m k pu" "\<forall>i < length ps. 0 < unat (snd (snd (ps ! i)))"
    "k = 0 \<or> snd (snd (ps ! k)) \<le> v"
  shows "\<exists>k'. at_prefix ps m k' (grow_prefix ps v (m + k + 1) (k + 1) pu) \<and> (k' = 0 \<or> snd (snd (ps ! k')) \<le> v)
    \<and> (m + k' + 1 < length ps \<longrightarrow> v < snd (snd (ps ! (k' + 1))))"
  using assms
proof (induction "length ps - k" arbitrary: k pu rule: less_induct)
  case less
  show ?case
  proof (cases "m + k + 1 < length ps \<and> snd (snd (ps ! (k + 1))) \<le> v")
    case True
    let ?pu = "pu\<lparr>pu_prefix := fst (snd (ps ! (m + k + 1))), pu_divisor := snd (snd (ps ! (k + 1)))\<rparr>"
    have "at_prefix ps m (k + 1) ?pu" using less.prems(1) True by (simp add: at_prefix_def)
    moreover have "grow_prefix ps v (m + k + 1) (k + 1) pu = grow_prefix ps v (m + (k + 1) + 1) (k + 1 + 1) ?pu"
      using True less.prems(2) by (subst grow_prefix.simps) (simp add: div_pos_iff)
    moreover have "length ps - (k + 1) < length ps - k" using True by linarith
    ultimately show ?thesis using less.hyps [of "k + 1" ?pu] less.prems(2) True by simp
  next
    case False
    have "grow_prefix ps v (m + k + 1) (k + 1) pu = pu"
      using False less.prems(2) by (subst grow_prefix.simps) (auto simp: div_pos_iff)
    with less.prems False show ?thesis by (intro exI [of _ k]) auto
  qed
qed

text \<open>The unit found for a value that counts units of the prefix \<open>m\<close> is \<open>k\<close> prefixes further, with the
  divisor 1000^k or 1024^k, where \<open>k\<close> is the largest possible such that the quotient is not 0; for
  \<open>MULT_LAST\<close> the tables are read behind their end.\<close>

lemma best_prefix:
  assumes "m \<le> MULT_LAST"
  shows "case find_best_prefix tr v m use_si pu of
      None \<Rightarrow> m = MULT_LAST
    | Some pu' \<Rightarrow> m < MULT_LAST \<and> (\<exists>k. m + k < 7 \<and> pu_init pu'
        \<and> pu_prefix pu' = tr (fst (snd (prefix_table use_si ! (m + k))))
        \<and> unat (pu_divisor pu') = unit_base use_si ^ k
        \<and> (k = 0 \<or> unit_base use_si ^ k \<le> unat v) \<and> (m + k < 6 \<longrightarrow> unat v < unit_base use_si ^ (k + 1)))"
proof -
  define ps where "ps = map (\<lambda>(m, u, d). (m, tr u, d)) (prefix_table use_si)"
  have len: "length ps = 7" by (simp add: ps_def prefix_table)
  have fsts: "map fst ps = [0..<7]" using prefix_table(2) [of use_si] by (simp add: ps_def comp_def split_beta)
  have nth: "snd (snd (ps ! i)) = snd (snd (prefix_table use_si ! i))" "fst (snd (ps ! i)) = tr (fst (snd (prefix_table use_si ! i)))"
    if "i < 7" for i using that by (simp_all add: ps_def prefix_table split_beta)
  have base: "0 < unit_base use_si" by (simp add: unit_base_def)
  have un: "unat (snd (snd (ps ! i))) = unit_base use_si ^ i" if "i < 7" for i using that nth prefix_table(3) by simp
  have ps: "find_best_prefix tr v m use_si pu = map_option (\<lambda>i. grow_prefix ps v (i + 1) 1
      (pu\<lparr>pu_init := True, pu_prefix := fst (snd (ps ! i)), pu_divisor := snd (snd (ps ! 0))\<rparr>)) (find_multiplier ps m 0)"
    by (simp add: find_best_prefix_def ps_def prefix_table_def Let_def)
  show ?thesis
  proof (cases "m = MULT_LAST")
    case True
    have "m \<notin> fst ` set ps" using fsts True by (simp add: MULT_LAST_def flip: set_map)
    then show ?thesis using True ps find_multiplier_None by simp
  next
    case False
    with assms have m: "m < 7" by (simp add: MULT_LAST_def)
    let ?pu = "pu\<lparr>pu_init := True, pu_prefix := fst (snd (ps ! m)), pu_divisor := snd (snd (ps ! 0))\<rparr>"
    have found: "find_best_prefix tr v m use_si pu = Some (grow_prefix ps v (m + 0 + 1) (0 + 1) ?pu)"
      using find_multiplier_index [of m ps 0] m len fsts by (simp add: ps)
    have "at_prefix ps m 0 ?pu" using m len by (simp add: at_prefix_def)
    moreover have "\<forall>i < length ps. 0 < unat (snd (snd (ps ! i)))" using un base len by simp
    ultimately obtain k where k: "at_prefix ps m k (grow_prefix ps v (m + 0 + 1) (0 + 1) ?pu)"
      "k = 0 \<or> snd (snd (ps ! k)) \<le> v" "m + k + 1 < length ps \<Longrightarrow> v < snd (snd (ps ! (k + 1)))"
      using grow_prefix_spec [of ps m 0 ?pu v] by auto
    have k7: "m + k < 7" using k(1) len by (simp add: at_prefix_def)
    have "unat (pu_divisor (grow_prefix ps v (m + 0 + 1) (0 + 1) ?pu)) = unit_base use_si ^ k"
      using k(1) k7 un [of k] by (simp add: at_prefix_def)
    moreover have "k = 0 \<or> unit_base use_si ^ k \<le> unat v"
      using k(2) k7 un [of k] by (auto simp: word_le_nat_alt)
    moreover have "m + k < 6 \<longrightarrow> unat v < unit_base use_si ^ (k + 1)"
      using k(3) un [of "k + 1"] len by (auto simp: word_less_nat_alt)
    ultimately show ?thesis
      using found k(1) k7 m nth(2) [of "m + k"] by (auto simp: at_prefix_def MULT_LAST_def intro!: exI [of _ k])
  qed
qed

lemma best_prefix_example:
  "(1 :: nat) \<le> MULT_LAST \<and> find_best_prefix id 16384 1 False \<lparr>pu_init = False, pu_prefix = [], pu_divisor = 0\<rparr> \<noteq> None"
  using best_prefix [where m = 1 and v = 16384 and use_si = False and tr = id
      and pu = "\<lparr>pu_init = False, pu_prefix = [], pu_divisor = 0\<rparr>"]
  by (auto simp: MULT_LAST_def split: option.splits)

subsection \<open>Unit tokens\<close>

text \<open>A text with tokens: its pieces are characters other than the at sign, and known tokens.\<close>

datatype piece = Plain char | Unit string

definition tokens :: "(string \<times> string) list" where
  "tokens = si_tokens @ binary_tokens"

fun piece_ok :: "piece \<Rightarrow> bool" where
  "piece_ok (Plain c) = (c \<noteq> CHR ''@'')"
| "piece_ok (Unit t) = (t \<in> set (map fst tokens))"

fun source :: "piece \<Rightarrow> string" where
  "source (Plain c) = [c]"
| "source (Unit t) = t"

fun shown :: "(string \<Rightarrow> string) \<Rightarrow> piece \<Rightarrow> string" where
  "shown tr (Plain c) = [c]"
| "shown tr (Unit t) = unit_text tr tokens t"

lemmas token_defs = tokens_def si_tokens_def binary_tokens_def TOKEN_UNIT_B_def TOKEN_UNIT_KIB_def
  TOKEN_UNIT_MIB_def TOKEN_UNIT_GIB_def TOKEN_UNIT_TIB_def TOKEN_UNIT_PIB_def TOKEN_UNIT_EIB_def

lemma unit_token_known:
  assumes "t \<in> set (map fst tokens)"
  shows "hd t = CHR ''@'' \<and> t \<noteq> [] \<and> unit_token tr (t @ rest) = (unit_text tr tokens t, length t)"
  using assms by (auto simp: token_defs unit_token_def unit_text_def)

lemma set_units_known: "\<forall>p \<in> set ps. piece_ok p
    \<Longrightarrow> set_units tr dst (concat (map source ps)) = Some (dst @ concat (map (shown tr) ps))"
proof (induction ps arbitrary: dst)
  case Nil
  then show ?case by (simp add: set_units.simps)
next
  case (Cons p ps)
  show ?case
  proof (cases p)
    case (Plain c)
    with Cons.prems have "c \<noteq> CHR ''@''" by simp
    then have "set_units tr dst (concat (map source (p # ps))) = set_units tr (dst @ [c]) (concat (map source ps))"
      using Plain by (subst set_units.simps) simp
    with Cons Plain show ?thesis by simp
  next
    case (Unit t)
    with Cons.prems have t: "t \<in> set (map fst tokens)" by simp
    from unit_token_known [OF t] have "set_units tr dst (concat (map source (p # ps)))
        = set_units tr (dst @ unit_text tr tokens t) (concat (map source ps))"
      using Unit by (subst set_units.simps) simp
    with Cons Unit show ?thesis by simp
  qed
qed

text \<open>A text made of plain characters and known tokens is copied with every token replaced by the
  translated name of its unit; in particular the loop ends.\<close>

lemma units_replaced:
  assumes "\<forall>p \<in> set ps. piece_ok p"
  shows "string_set_size_unit tr (Some (concat (map source ps))) = Some (concat (map (shown tr) ps))"
  using set_units_known [OF assms, of tr "[]"] by (simp add: string_set_size_unit_def)

lemma units_replaced_example: "string_set_size_unit id (Some ''16 @GIB@'') = Some ''16 GiB''"
proof -
  let ?ps = "[Plain CHR ''1'', Plain CHR ''6'', Plain CHR '' '', Unit ''@GIB@'']"
  have "\<forall>p \<in> set ?ps. piece_ok p" by (simp add: token_defs)
  from units_replaced [OF this, of id] show ?thesis by (simp add: token_defs unit_text_def)
qed

text \<open>A stray at sign: none at the places where a token would end.\<close>

definition stray :: "string \<Rightarrow> bool" where
  "stray s \<longleftrightarrow> s \<noteq> [] \<and> hd s = CHR ''@'' \<and> \<not> (3 < length s \<and> s ! 3 = CHR ''@'') \<and> \<not> (4 < length s \<and> s ! 4 = CHR ''@'')"

lemma stray_loops:
  assumes "set_units tr dst s = Some y"
  shows "\<not> stray s"
proof (rule set_units.raw_induct [where P = "\<lambda>tr dst s y. \<not> stray s", OF _ assms], rule notI)
  fix f tr dst s y
  assume ih: "\<And>tr dst s y. f tr dst s = Some y \<Longrightarrow> \<not> stray s" and s: "stray s"
    and body: "(if s = [] then Some dst
      else if hd s = CHR ''@'' then f tr (dst @ fst (unit_token tr s)) (drop (snd (unit_token tr s)) s)
      else f tr (dst @ [hd s]) (tl s)) = Some y"
  from s have "unit_token tr s = ([], 0)" by (simp add: stray_def unit_token_def)
  with body s have "f tr dst s = Some y" by (simp add: stray_def)
  with ih s show False by blast
qed

text \<open>C23: behind any known pieces, a stray at sign keeps the loop from ever ending.\<close>

theorem stray_at_sign_hangs:
  assumes "\<forall>p \<in> set ps. piece_ok p" "stray s"
  shows "string_set_size_unit tr (Some (concat (map source ps) @ s)) = None"
proof -
  have "set_units tr dst (concat (map source ps) @ s) = None" for dst
    using assms(1)
  proof (induction ps arbitrary: dst)
    case Nil
    then show ?case using stray_loops [of tr dst s] assms(2) by (cases "set_units tr dst s") auto
  next
    case (Cons p ps)
    show ?case
    proof (cases p)
      case (Plain c)
      then show ?thesis using Cons by (subst set_units.simps) simp
    next
      case (Unit t)
      with Cons.prems have t: "t \<in> set (map fst tokens)" by simp
      from unit_token_known [OF t] show ?thesis using Unit Cons by (subst set_units.simps) simp
    qed
  qed
  then show ?thesis by (simp add: string_set_size_unit_def)
qed

theorem stray_at_sign_hangs_witness: "stray ''@ home'' \<and> string_set_size_unit id (Some ''x@ home'') = None"
proof -
  have 1: "\<forall>p \<in> set [Plain CHR ''x'']. piece_ok p" and 2: "stray ''@ home''" by (simp_all add: stray_def)
  show ?thesis using stray_at_sign_hangs [OF 1 2, of id] 2 by simp
qed

text \<open>The sizes of the memory devices, in bytes, and how they arrive at the user.\<close>

definition size_bytes :: "u16 \<Rightarrow> nat" where
  "size_bytes c = unat (c AND 0x7FFF) * (if c AND 0x8000 = 0 then 1024 ^ 2 else 1024)"

lemma size_unit_exact:
  assumes "unat code = v * 1024 ^ j" "j \<le> 1" "v < 32768" "size_unit code = (c, i)"
  shows "unat code = c * 1024 ^ i \<and> i \<le> 2"
proof -
  define a where "a = v mod 1024"
  define b where "b = v div 1024"
  have v: "v = a + 1024 * b" and ab: "a < 1024" "b < 32" using assms(3) by (simp_all add: a_def b_def)
  from assms(2) consider "j = 0" | "j = 1" by linarith
  then show ?thesis
  proof cases
    case 1
    then have sp: "size_split code k = (if k = 0 then a else if k = 1 then b else 0)" if "k < 7" for k
      using nat_below_7 [OF that] ab assms(1) by (auto simp: size_split_div v)
    then have top: "top_split code 6 = (if b \<noteq> 0 then 1 else 0)" by (simp add: eval_nat_numeral)
    have "size_unit code = (if b \<noteq> 0 \<and> a = 0 then (b, 1) else (a + b * 1024, 0))"
      by (simp add: size_unit_def Let_def top sp)
    with assms(1,4) 1 show ?thesis by (auto simp: v split: if_splits)
  next
    case 2
    then have sp: "size_split code k = (if k = 1 then a else if k = 2 then b else 0)" if "k < 7" for k
      using nat_below_7 [OF that] ab assms(1) by (auto simp: size_split_div v algebra_simps)
    then have top: "top_split code 6 = (if b \<noteq> 0 then 2 else if a \<noteq> 0 then 1 else 0)" by (simp add: eval_nat_numeral)
    have "size_unit code = (if b \<noteq> 0 then if a = 0 then (b, 2) else (a + b * 1024, 1) else if a = 0 then (0, 0) else (a, 1))"
      by (simp add: size_unit_def Let_def top sp)
    with assms(1,4) 2 show ?thesis by (auto simp: v split: if_splits)
  qed
qed

lemma udec_plain: "\<forall>p \<in> set (map Plain (udec n)). piece_ok p"
proof -
  have "digit False d \<noteq> CHR ''@''" for d
  proof -
    have "digit False d \<in> set ''0123456789abcdef''" unfolding digit_def by (simp del: list.set) 
    then show ?thesis by auto
  qed
  then show ?thesis by (auto simp: udec_def)
qed

lemma Plain_text: "concat (map source (map Plain s)) = s" "concat (map (shown tr) (map Plain s)) = s"
  by (induction s) auto

lemma number_with_unit:
  assumes "t \<in> set (map fst tokens)"
  shows "string_set_size_unit tr (Some (udec n @ '' '' @ t)) = Some (udec n @ '' '' @ unit_text tr tokens t)"
  using set_units_known [of "map Plain (udec n) @ [Plain CHR '' '', Unit t]" tr "[]"] udec_plain [of n] assms
  by (simp add: string_set_size_unit_def Plain_text del: map_map)

lemma udec_length: "n < 10 ^ Suc k \<Longrightarrow> length (udec n) \<le> Suc k"
proof (induction k arbitrary: n)
  case 0
  then show ?case by (simp add: udec_def to_base.simps)
next
  case (Suc k)
  then have "n div 10 < 10 ^ Suc k" by (simp add: less_mult_imp_div_less mult.commute)
  from Suc.IH [OF this] show ?case by (cases "n < 10") (simp_all add: udec_def to_base.simps [of 10 n])
qed

text \<open>C22: the size of a memory device (not missing, not unknown) is shown exactly, as a number of KiB, MiB
  or larger units.\<close>

theorem memory_size_shown:
  assumes "c \<noteq> 0" "c \<noteq> 0xFFFF"
  shows "\<exists>n k. size_bytes c = n * 1024 ^ k \<and> 1 \<le> k \<and> k \<le> 3
    \<and> string_set_size_unit tr (Some (fst (run_state (dmi_memory_device_size_str c) s)))
        = Some (udec n @ '' '' @ tr (fst (snd (binary_prefixes ! k))))"
proof -
  define v where "v = unat (c AND 0x7FFF)"
  define j :: nat where "j = (if c AND 0x8000 = 0 then 1 else 0)"
  define code :: u64 where "code = (if c AND 0x8000 = 0 then push_bit 10 (ucast (c AND 0x7FFF)) else ucast (c AND 0x7FFF))"
  have v: "v < 32768" using unat_and_le_right [of c "0x7FFF"] by (simp add: v_def)
  have u: "unat (ucast (c AND 0x7FFF) :: u64) = v" using v by (simp add: v_def unat_ucast_mod)
  have code: "unat code = v * 1024 ^ j"
    using v u by (simp add: code_def j_def push_bit_eq_mult unat_word_ariths)
  obtain n i where ni: "size_unit code = (n, i)" by force
  have j: "j \<le> 1" by (simp add: j_def)
  have ex: "unat code = n * 1024 ^ i" "i \<le> 2" using size_unit_exact [OF code j v ni] by auto
  have n: "n < 2 ^ 20" using size_unit_div(3) [OF ni] .
  have bytes: "size_bytes c = n * 1024 ^ (i + 1)"
    using ex(1) code by (simp add: size_bytes_def v_def j_def power2_eq_square split: if_splits)
  define tok where "tok = [TOKEN_UNIT_B, TOKEN_UNIT_KIB, TOKEN_UNIT_MIB, TOKEN_UNIT_GIB] ! (i + 1)"
  have i: "i = 0 \<or> i = 1 \<or> i = 2" using ex(2) by linarith
  have len: "length (udec n) \<le> 7" using udec_length [of n 6] n by simp
  have tok: "tok \<in> set (map fst tokens)" "unit_text tr tokens tok = tr (fst (snd (binary_prefixes ! (i + 1))))"
    "length tok = 5"
    using i by (auto simp: tok_def token_defs unit_text_def binary_prefixes_def)
  have "fst (run_state (dmi_memory_device_size_str c) s) = udec n @ '' '' @ tok"
    using assms i len tok(3) ni
    by (auto simp: dmi_memory_device_size_str_def dmi_print_memory_size_str_def Let_def code_def tok_def
        tab_opt_def snprintf_def STR_LEN_def set_bufs_def get_bufs_def split: if_splits)
  with number_with_unit [OF tok(1), of tr n] tok(2) bytes i
  show ?thesis by (intro exI [of _ n] exI [of _ "i + 1"]) auto
qed

theorem memory_size_shown_witness:
  "(16384 :: u16) \<noteq> 0 \<and> (\<exists>n k. size_bytes 16384 = n * 1024 ^ k
    \<and> string_set_size_unit id (Some (fst (run_state (dmi_memory_device_size_str 16384) (undefined :: st))))
      = Some (udec n @ '' '' @ fst (snd (binary_prefixes ! k))))"
proof -
  have 1: "(16384 :: u16) \<noteq> 0" "(16384 :: u16) \<noteq> 0xFFFF" by simp_all
  from memory_size_shown [OF 1, of id undefined] 1(1) show ?thesis unfolding id_apply by blast
qed

subsection \<open>Output of commands\<close>

lemma fopen_to_str_filter: "fopen_to_str s = filter (\<lambda>c. c \<noteq> CHR 0x0A) s"
  by (induction s) auto

lemma fgets_line:
  "fgets n s = (l, r) \<Longrightarrow> s = l @ r \<and> (CHR 0x0A \<notin> set l \<or> (\<exists>t. l = t @ [CHR 0x0A] \<and> CHR 0x0A \<notin> set t))"
proof (induction n s arbitrary: l rule: fgets.induct)
  case (3 n c s)
  show ?case
  proof (cases "c = CHR 0x0A")
    case True
    with 3(2) show ?thesis by auto
  next
    case False
    with 3(2) obtain l' where l': "fgets n s = (l', r)" "l = c # l'" by (auto split: prod.splits)
    with 3(1) [OF False l'(1)] False show ?thesis by (auto intro: exI [of _ "c # t" for t])
  qed
qed auto

lemma line_text_filter:
  assumes "CHR 0x0D \<notin> set l" "CHR 0x00 \<notin> set l"
    and "CHR 0x0A \<notin> set l \<or> (\<exists>t. l = t @ [CHR 0x0A] \<and> CHR 0x0A \<notin> set t)"
  shows "line_text l = filter (\<lambda>c. c \<noteq> CHR 0x0A) l"
proof -
  have plain: "line_text (t @ u) = t @ line_text u" "filter (\<lambda>c. c \<noteq> CHR 0x0A) t = t"
    if "CHR 0x0D \<notin> set t" "CHR 0x00 \<notin> set t" "CHR 0x0A \<notin> set t" for t u
    using that by (induction t) (auto simp: line_text_def)
  from assms(3) show ?thesis
  proof (elim disjE exE conjE)
    assume "CHR 0x0A \<notin> set l"
    with assms(1,2) plain(1) [of l "[]"] plain(2) [of l] show ?thesis by (simp add: line_text_def)
  next
    fix t
    assume "l = t @ [CHR 0x0A]" "CHR 0x0A \<notin> set t"
    with assms(1,2) plain(1) [of t "[CHR 0x0A]"] plain(2) [of t] show ?thesis by (simp add: line_text_def)
  qed
qed

text \<open>The output of a command that holds no carriage return and no null byte is collected with exactly
  its newlines removed, however it is cut by the buffer of 80 bytes; so is the content of a file.\<close>

lemma command_output_joined:
  assumes "CHR 0x0D \<notin> set s" "CHR 0x00 \<notin> set s"
  shows "popen_to_str s = filter (\<lambda>c. c \<noteq> CHR 0x0A) s \<and> fopen_to_str s = popen_to_str s"
proof -
  have "popen_to_str s = filter (\<lambda>c. c \<noteq> CHR 0x0A) s"
    using assms
  proof (induction s rule: popen_to_str.induct)
    case (1 s)
    show ?case
    proof (cases "s = []")
      case False
      obtain l r where lr: "fgets (MAXSTR - 1) s = (l, r)" by force
      note f = fgets_line [OF lr]
      then have ok: "CHR 0x0D \<notin> set l" "CHR 0x00 \<notin> set l" "CHR 0x0D \<notin> set r" "CHR 0x00 \<notin> set r"
        using 1(2,3) by auto
      have "popen_to_str s = line_text l @ popen_to_str r" using False lr by (subst popen_to_str.simps) simp
      also have "\<dots> = filter (\<lambda>c. c \<noteq> CHR 0x0A) l @ filter (\<lambda>c. c \<noteq> CHR 0x0A) r"
        using line_text_filter [OF ok(1,2)] f 1(1) [OF False lr [symmetric]] ok(3,4) by simp
      finally show ?thesis using f by simp
    qed (simp add: popen_to_str.simps)
  qed
  then show ?thesis by (simp add: fopen_to_str_filter)
qed

lemma command_output_joined_example: "popen_to_str [CHR ''a'', CHR 0x0A, CHR ''b''] = ''ab''"
proof -
  have 1: "CHR 0x0D \<notin> set [CHR ''a'', CHR 0x0A, CHR ''b'']" "CHR 0x00 \<notin> set [CHR ''a'', CHR 0x0A, CHR ''b'']"
    by simp_all
  from command_output_joined [OF 1, THEN conjunct1] show ?thesis by simp
qed

subsection \<open>Pipes\<close>

text \<open>A string written to a pipe is read back, and the pipe is at the next string, if both reads find all
  they ask for; if the second finds less, the string is filled up with blanks and the rest of it stays
  in the pipe, where the next string is expected.\<close>

lemma pipe_read_back:
  assumes "length str < 2 ^ 64" "8 \<le> there1"
  shows "(length str \<le> there2 \<longrightarrow> read_string_from_pipe there1 there2 (write_string_to_pipe str [] @ next) = (str, next))
    \<and> (0 < there2 \<and> there2 < length str \<longrightarrow> read_string_from_pipe there1 there2 (write_string_to_pipe str [] @ next)
        = (take there2 str @ replicate (length str - there2) CHR '' '', drop there2 str @ next))"
proof -
  have n: "min 8 there1 = 8" using assms(2) by simp
  have size: "le_number (le_text 8 (length str)) = length str" using assms(1) by (simp add: le_number_text)
  have ne: "le_text 8 (length str) \<noteq> []" by (metis length_le_text list.size(3) zero_neq_numeral)
  show ?thesis
    by (auto simp: read_string_from_pipe_def write_string_to_pipe_def Let_def n size ne)
qed

lemma pipe_read_back_example:
  "read_string_from_pipe 8 100 (write_string_to_pipe ''4.6'' [] @ ''rest'') = (''4.6'', ''rest'')"
  using pipe_read_back [of "''4.6''" 8 100 "''rest''"] by simp

lemma unsigned_integer_lax:
  "is_unsigned_integer ''-5''" "is_unsigned_integer ''12 MHz''" "\<not> is_unsigned_integer ''MHz''"
  by (simp_all add: is_unsigned_integer_def sign_def isspace_def digit_val_def from_base_def)

end
