(* ===== verification/Daemon_Properties.thy ===== *)
theory Daemon_Properties
  imports Client Util_Properties
begin

section \<open>Properties of the daemon and its client\<close>

text \<open>
  The order in which the two sides act does not matter (the interpretation \<open>net\<close> of \<open>diamond\<close>), so one
  run tells the outcome of all. A record of dmidecode arrives as it was sent
  (\<open>dmidecode_over_socket\<close>). After a dmidecode that failed, its data stays in the queue and is taken
  for the answer to the next request (\<open>failed_dmidecode_answers_next\<close>).
\<close>

subsection \<open>The two sides commute\<close>

lemma commute:
  assumes "client_step s = Some a" "server_step e s = Some b"
  shows "\<exists>c. server_step e a = Some c \<and> client_step b = Some c"
proof (cases "cli s")
  case (Send m p)
  with assms(1) have a: "a = s\<lparr>cli := p, to_server := to_server s @ [m]\<rparr>" by (simp add: client_step.simps)
  have "cli b = Send m p" using assms(2) Send
    by (auto simp: server_step.simps split: server.splits proc.splits list.splits)
  with assms(2) show ?thesis
    by (auto simp: a server_step.simps client_step.simps split: server.splits proc.splits list.splits)
next
  case (Recv n k)
  have "srv s \<noteq> Gone" using assms(2) by (auto simp: server_step.simps)
  with assms(1) Recv obtain m ms where q: "to_client s = m # ms" and a: "a = s\<lparr>cli := k (take n m), to_client := ms\<rparr>"
    by (auto simp: client_step.simps split: list.splits)
  have "cli b = Recv n k" using assms(2) Recv
    by (auto simp: server_step.simps split: server.splits proc.splits list.splits)
  with assms(2) q show ?thesis
    by (auto simp: a server_step.simps client_step.simps split: server.splits proc.splits list.splits)
qed (use assms(1) in \<open>auto simp: client_step.simps\<close>)

interpretation net: diamond "net_step e" for e
proof
  fix s a b :: "'a net"
  assume ab: "net_step e s a" "net_step e s b"
  have both: "\<exists>c. net_step e x c \<and> net_step e y c" if "client_step s = Some x" "server_step e s = Some y" for x y
    using commute [OF that] net_step.intros by blast
  from ab [unfolded net_step_iff [of e s]]
  consider "client_step s = Some a" "client_step s = Some b" | "client_step s = Some a" "server_step e s = Some b"
    | "server_step e s = Some a" "client_step s = Some b" | "server_step e s = Some a" "server_step e s = Some b"
    by blast
  then show "a = b \<or> (\<exists>c. net_step e a c \<and> net_step e b c)"
  proof cases
    case 2
    then show ?thesis using both by blast
  next
    case 3
    then show ?thesis using both by blast
  qed simp_all
qed

text \<open>Every run of \<open>s\<close> ends in \<open>t\<close>.\<close>

definition always_ends_in :: "env \<Rightarrow> 'a net \<Rightarrow> 'a net \<Rightarrow> bool" where
  "always_ends_in e s t \<longleftrightarrow>
     (\<exists>n. \<forall>k u. (net_step e ^^ k) s u \<longrightarrow> k \<le> n \<and> (net_step e ^^ (n - k)) u t \<and> (k = n \<longrightarrow> u = t))"

lemma outcome:
  assumes "(net_step e)\<^sup>*\<^sup>* s t" "\<nexists>u. net_step e t u"
  shows "always_ends_in e s t"
proof -
  obtain n where n: "(net_step e ^^ n) s t" using assms(1) by (auto dest: rtranclp_imp_relpowp)
  then have "k \<le> n \<and> (net_step e ^^ (n - k)) u t \<and> (k = n \<longrightarrow> u = t)" if "(net_step e ^^ k) s u" for k u
    using net.one_outcome [OF n assms(2) that] by auto
  then show ?thesis unfolding always_ends_in_def by blast
qed

subsection \<open>Runs\<close>

text \<open>The client with the messages that are there.\<close>

fun feed :: "'a proc \<Rightarrow> string list \<Rightarrow> 'a proc \<times> string list" where
  "feed (Recv n k) (m # ms) = feed (k (take n m)) ms"
| "feed p ms = (p, ms)"

lemma same_queue: "cli s = p \<Longrightarrow> to_client s = ms \<Longrightarrow> s\<lparr>cli := p, to_client := ms\<rparr> = s"
  by (cases s) simp

lemma client_feeds:
  "feed p ms = (p', ms') \<Longrightarrow> cli s = p \<Longrightarrow> to_client s = ms
   \<Longrightarrow> (net_step e)\<^sup>*\<^sup>* s (s\<lparr>cli := p', to_client := ms'\<rparr>)"
proof (induction p ms arbitrary: s rule: feed.induct)
  case (1 n k m ms)
  let ?s = "s\<lparr>cli := k (take n m), to_client := ms\<rparr>"
  have "net_step e s ?s" using 1(3,4) by (intro net_step.client) (simp add: client_step.simps)
  moreover have "(net_step e)\<^sup>*\<^sup>* ?s (?s\<lparr>cli := p', to_client := ms'\<rparr>)" using 1(2) by (intro 1(1)) simp_all
  ultimately show ?case by (simp add: converse_rtranclp_into_rtranclp)
qed (auto simp: same_queue)

lemma server_sends:
  "srv s = Busy (sends ms p) \<Longrightarrow> (net_step e)\<^sup>*\<^sup>* s (s\<lparr>srv := Busy p, to_client := to_client s @ ms\<rparr>)"
proof (induction ms arbitrary: s)
  case Nil
  then have "s\<lparr>srv := Busy p, to_client := to_client s @ []\<rparr> = s" by (cases s) (simp add: sends_def)
  then show ?case by simp
next
  case (Cons m ms)
  let ?s = "s\<lparr>srv := Busy (sends ms p), to_client := to_client s @ [m]\<rparr>"
  have "net_step e s ?s" using Cons.prems by (intro net_step.server) (simp add: server_step.simps sends_def)
  moreover have "(net_step e)\<^sup>*\<^sup>* ?s (?s\<lparr>srv := Busy p, to_client := to_client ?s @ ms\<rparr>)" by (rule Cons.IH) simp
  ultimately show ?case by (simp add: converse_rtranclp_into_rtranclp)
qed

subsection \<open>The record of dmidecode arrives\<close>

definition arrays_ok :: "char_array list \<Rightarrow> bool" where
  "arrays_ok as \<longleftrightarrow> (\<forall>a \<in> set as. length a = 80 \<and> NUL \<in> set a)"

definition text_of :: "char_array \<Rightarrow> string" where
  "text_of a = takeWhile (\<lambda>c. c \<noteq> NUL) a"

lemma c_str_append: "NUL \<in> set a \<Longrightarrow> c_str (a @ b) = Some (text_of a)"
  by (simp add: c_str_def text_of_def)

lemma drop_concat: "\<forall>a \<in> set as. length a = n \<Longrightarrow> i \<le> length as \<Longrightarrow> drop (n * i) (concat as) = concat (drop i as)"
proof (induction as arbitrary: i)
  case (Cons a as)
  then show ?case by (cases i) auto
qed simp

lemma field_text:
  assumes "arrays_ok as" "i < length as"
  shows "c_str_at (80 * i) (concat as) = Some (text_of (as ! i))"
proof -
  have "drop (80 * i) (concat as) = as ! i @ concat (drop (Suc i) as)"
    using drop_concat [of as 80 i] assms by (simp add: arrays_ok_def flip: Cons_nth_drop_Suc)
  moreover have "NUL \<in> set (as ! i)" using assms by (simp add: arrays_ok_def)
  ultimately show ?thesis by (simp add: c_str_at_def c_str_append)
qed

lemma length_concat_fields: "arrays_ok as \<Longrightarrow> length (concat as) = 80 * length as"
  by (induction as) (auto simp: arrays_ok_def)

lemma double_value_bits:
  assumes "n < 2 ^ 16"
  shows "double_value (double_bits n) = n" "double_bits n < 2 ^ 64"
proof -
  have "double_value (double_bits n) = n \<and> double_bits n < 2 ^ 64"
  proof (cases "n = 0")
    case False
    define e where "e = bit_len n - 1"
    have e: "2 ^ e \<le> n" "n < 2 * 2 ^ e" using bit_len_bounds [of n] False
      by (cases "bit_len n"; simp add: e_def)+
    have "e < 16"
    proof (rule ccontr)
      assume "\<not> e < 16"
      then have "(2 :: nat) ^ 16 \<le> 2 ^ e" by (intro power_increasing) auto
      with e assms show False by linarith
    qed
    define f where "f = (n - 2 ^ e) * 2 ^ (52 - e)"
    have split52: "(2 :: nat) ^ 52 = 2 ^ e * 2 ^ (52 - e)" using \<open>e < 16\<close> by (simp flip: power_add)
    have f: "f < 2 ^ 52" unfolding f_def split52 using e by (intro mult_strict_right_mono) auto
    have bits: "double_bits n = (1023 + e) * 2 ^ 52 + f" using False by (simp add: double_bits_def Let_def f_def e_def)
    have d: "double_bits n div 2 ^ 52 = 1023 + e" "double_bits n mod 2 ^ 52 = f"
      unfolding bits using f by (simp, simp only: mod_mult_self3 mod_less)
    have "2 ^ 52 + f = (2 ^ e + (n - 2 ^ e)) * 2 ^ (52 - e)"
      unfolding f_def split52 by (rule add_mult_distrib [symmetric])
    also have "2 ^ e + (n - 2 ^ e) = n" using e by simp
    finally have "2 ^ 52 + f = n * 2 ^ (52 - e)" .
    then have "(2 ^ 52 + f) div 2 ^ (52 - e) = n" by simp
    moreover have "double_bits n < 2 ^ 64" unfolding bits using f \<open>e < 16\<close> by simp
    ultimately show ?thesis using d \<open>e < 16\<close> by (simp add: double_value_def Let_def)
  qed (simp add: double_bits_def double_value_def)
  then show "double_value (double_bits n) = n" "double_bits n < 2 ^ 64" by simp_all
qed

text \<open>What the user sees of a record: the texts up to their null byte, with units.\<close>

definition shown_stick :: "(string \<Rightarrow> string) \<Rightarrow> DmidecodeMemoryData \<Rightarrow> memory_stick option" where
  "shown_stick tr m = map_option (\<lambda>size. \<lparr>st_manufacturer = text_of (m_manufacturer m),
     st_part_number = text_of (m_part_number m), st_type = text_of (m_type m), st_type_detail = text_of (m_type_detail m),
     st_device_locator = text_of (m_device_locator m), st_bank_locator = text_of (m_bank_locator m), st_size = size,
     st_rank = text_of (m_rank m),
     st_speed = speed_label [] (text_of (m_speed_configured m)) (text_of (m_speed_maximum m)),
     st_voltage = voltage_label [] (text_of (m_voltage_minimum m)) (text_of (m_voltage_configured m))
       (text_of (m_voltage_maximum m))\<rparr>)
     (string_set_size_unit tr (Some (text_of (m_size m))))"

definition shown_record :: "(string \<Rightarrow> string) \<Rightarrow> DmidecodeData \<Rightarrow> client_data \<Rightarrow> client_data option" where
  "shown_record tr r d = do {
     romsize \<leftarrow> string_set_size_unit tr (Some (text_of (bios_romsize (d_bios r))));
     ms \<leftarrow> those (map (shown_stick tr) (d_memory r));
     Some (d\<lparr>packages := map (\<lambda>_. text_of (cpu_package (d_processor r))) (packages d),
       bus_speed := (if bus_speed d = 0 then 100 * int (unat (bus_freq (d_processor r))) else bus_speed d),
       board_manufacturer := text_of (mb_manufacturer (d_mb r)), board_model := text_of (mb_model (d_mb r)),
       board_revision := text_of (mb_revision (d_mb r)),
       fw_brand := text_of (bios_brand (d_bios r)), fw_version := text_of (bios_version (d_bios r)),
       fw_date := text_of (bios_date (d_bios r)), fw_romsize := romsize,
       sticks := ms, sel := set_num_sticks (of_nat (length ms)) (sel d)\<rparr>) }"

definition record_ok :: "DmidecodeData \<Rightarrow> bool" where
  "record_ok r \<longleftrightarrow> arrays_ok (cpu_package (d_processor r) # mb_fields (d_mb r) @ bios_fields (d_bios r))
     \<and> (\<forall>m \<in> set (d_memory r). arrays_ok (stick_fields m)) \<and> unat (d_stick_count r) = length (d_memory r)"

lemma feed_RECEIVE_DATA: "length m = n \<Longrightarrow> feed (RECEIVE_DATA n d k) (m # ms) = feed (k m) ms"
  by (simp add: RECEIVE_DATA_def receive_def)

lemma fill_stick_shown:
  assumes "arrays_ok (stick_fields m)"
  shows "fill_stick tr (concat (stick_fields m)) new_stick = shown_stick tr m"
proof -
  note f = field_text [OF assms]
  show ?thesis
    using f [of 0] f [of 1] f [of 2] f [of 3] f [of 4] f [of 5] f [of 6] f [of 7] f [of 8] f [of 9] f [of 10]
      f [of 11] f [of 12]
    by (simp add: stick_fields_def fill_stick_def shown_stick_def new_stick_def split: Option.bind_split option.split)
qed

lemma feed_sticks:
  "\<forall>m \<in> set ms. arrays_ok (stick_fields m) \<Longrightarrow> those (map (shown_stick tr) ms) = Some ss
   \<Longrightarrow> feed (receive_sticks tr (length ms) (length (sticks d)) d) (map (\<lambda>m. concat (stick_fields m)) ms)
     = (Done (0, d\<lparr>sticks := sticks d @ ss, sel := set_num_sticks (of_nat (length (sticks d @ ss))) (sel d)\<rparr>), [])"
proof (induction ms arbitrary: d ss)
  case (Cons m ms)
  then obtain x xs where x: "shown_stick tr m = Some x" "those (map (shown_stick tr) ms) = Some xs" "ss = x # xs"
    by (auto split: option.splits)
  have ok: "arrays_ok (stick_fields m)" using Cons.prems by simp
  have len: "length (concat (stick_fields m)) = 1040"
    using length_concat_fields [OF ok] by (simp add: stick_fields_def)
  let ?d = "d\<lparr>sticks := sticks d @ [x]\<rparr>"
  have "feed (receive_sticks tr (length (m # ms)) (length (sticks d)) d) (map (\<lambda>m. concat (stick_fields m)) (m # ms))
    = feed (receive_sticks tr (length ms) (length (sticks ?d)) ?d) (map (\<lambda>m. concat (stick_fields m)) ms)"
    using x(1) fill_stick_shown [OF ok, of tr]
    by (simp add: feed_RECEIVE_DATA [OF len] grow_sticks_vector_def value_or_dead_def Let_def)
  with Cons.IH [of xs ?d] Cons.prems(1) x show ?case by simp
qed simp

lemma feed_record:
  assumes ok: "record_ok r" and st: "sticks d = []" and shown: "shown_record tr r d = Some d'"
  shows "feed (RECEIVE_DATA 4 d (\<lambda>b.
     if le_number b \<noteq> 0 then Done (1, d)
     else RECEIVE_DATA 88 d (\<lambda>b. value_or_dead (fill_processor b d) (\<lambda>d.
       RECEIVE_DATA 240 d (\<lambda>b. value_or_dead (fill_board b d) (\<lambda>d.
       RECEIVE_DATA 320 d (\<lambda>b. value_or_dead (fill_bios tr b d) (\<lambda>d.
       RECEIVE_DATA 1 d (\<lambda>b. receive_sticks tr (le_number b) 0 d)))))))))
    (dmidecode_messages 0 r) = (Done (0, d'), [])"
proof -
  have arr: "arrays_ok (mb_fields (d_mb r))" "arrays_ok (bios_fields (d_bios r))"
    "length (cpu_package (d_processor r)) = 80" "NUL \<in> set (cpu_package (d_processor r))"
    using ok by (auto simp: record_ok_def arrays_ok_def)
  note mb = field_text [OF arr(1)] and bios = field_text [OF arr(2)]
  have lens: "length (concat (mb_fields (d_mb r))) = 240" "length (concat (bios_fields (d_bios r))) = 320"
    "length (cpu_bytes (d_processor r)) = 88"
    using length_concat_fields [OF arr(1)] length_concat_fields [OF arr(2)] arr(3)
    by (simp_all add: mb_fields_def bios_fields_def cpu_bytes_def)
  obtain rom ss where rom: "string_set_size_unit tr (Some (text_of (bios_romsize (d_bios r)))) = Some rom"
    and ss: "those (map (shown_stick tr) (d_memory r)) = Some ss"
    using shown by (auto simp: shown_record_def split: Option.bind_splits)
  have n: "unat (d_stick_count r) = length (d_memory r)" "\<forall>m \<in> set (d_memory r). arrays_ok (stick_fields m)"
    using ok by (auto simp: record_ok_def)
  have sticks: "map (\<lambda>i. concat (stick_fields (d_memory r ! i))) [0..<length (d_memory r)]
      = map (\<lambda>m. concat (stick_fields m)) (d_memory r)"
    by (intro nth_equalityI) auto
  have freq: "double_value (le_number (le_text 8 (double_bits (unat (bus_freq (d_processor r)))))) = unat (bus_freq (d_processor r))"
    using double_value_bits [of "unat (bus_freq (d_processor r))"] by (simp add: le_number_text)
  define d1 where "d1 = d\<lparr>packages := map (\<lambda>_. text_of (cpu_package (d_processor r))) (packages d),
    bus_speed := (if bus_speed d = 0 then 100 * int (unat (bus_freq (d_processor r))) else bus_speed d)\<rparr>"
  have same: "x\<lparr>packages := ps, bus_speed := bus_speed x\<rparr> = x\<lparr>packages := ps\<rparr>" for x :: client_data and ps
    by (cases x) simp
  have 1: "fill_processor (cpu_bytes (d_processor r)) d = Some d1"
    using arr(3,4) freq same [of d]
    by (auto simp: fill_processor_def cpu_bytes_def c_str_at_def c_str_def text_of_def set_bus_freq_def d1_def Let_def)
  have 2: "fill_board (concat (mb_fields (d_mb r))) x = Some (x\<lparr>board_manufacturer := text_of (mb_manufacturer (d_mb r)),
      board_model := text_of (mb_model (d_mb r)), board_revision := text_of (mb_revision (d_mb r))\<rparr>)" for x
    using mb [of 0] mb [of 1] mb [of 2] by (simp add: fill_board_def mb_fields_def)
  have 3: "fill_bios tr (concat (bios_fields (d_bios r))) x = Some (x\<lparr>fw_brand := text_of (bios_brand (d_bios r)),
      fw_version := text_of (bios_version (d_bios r)), fw_date := text_of (bios_date (d_bios r)), fw_romsize := rom\<rparr>)" for x
    using bios [of 0] bios [of 1] bios [of 2] bios [of 3] rom by (simp add: fill_bios_def bios_fields_def)
  have 4: "le_number (le_text (Suc 0) (length (d_memory r))) = length (d_memory r)"
    using n(1) unat_u8_less [of "d_stick_count r"] by (simp add: le_number_text del: unat_u8_less)
  have 5: "le_number (le_text 4 0) = 0" by (simp add: le_number_text)
  define d2 where "d2 = d1\<lparr>board_manufacturer := text_of (mb_manufacturer (d_mb r)),
      board_model := text_of (mb_model (d_mb r)), board_revision := text_of (mb_revision (d_mb r)),
      fw_brand := text_of (bios_brand (d_bios r)), fw_version := text_of (bios_version (d_bios r)),
      fw_date := text_of (bios_date (d_bios r)), fw_romsize := rom\<rparr>"
  have d2: "sticks d2 = []" using st by (simp add: d2_def d1_def)
  have d': "d' = d2\<lparr>sticks := ss, sel := set_num_sticks (of_nat (length ss)) (sel d2)\<rparr>"
    using shown rom ss by (simp add: shown_record_def d2_def d1_def Let_def)
  show ?thesis
    using feed_sticks [OF n(2) ss, of d2]
    by (simp add: dmidecode_messages_def feed_RECEIVE_DATA lens int_bytes_def n(1) sticks value_or_dead_def
        1 2 3 4 5 d' d2 flip: d2_def)
qed

text \<open>One schedule: the client first.\<close>

fun run :: "env \<Rightarrow> nat \<Rightarrow> 'a net \<Rightarrow> 'a net" where
  "run e 0 s = s"
| "run e (Suc n) s = (case client_step s of Some s' \<Rightarrow> run e n s' | None \<Rightarrow>
     (case server_step e s of Some s' \<Rightarrow> run e n s' | None \<Rightarrow> s))"

lemma run_steps: "(net_step e)\<^sup>*\<^sup>* s (run e n s)"
proof (induction n arbitrary: s)
  case (Suc n)
  then show ?case
    by (auto split: option.split intro: converse_rtranclp_into_rtranclp net_step.intros)
qed simp

lemma run_numeral [simp]: "run e (numeral k) s = (case client_step s of Some s' \<Rightarrow> run e (pred_numeral k) s' | None \<Rightarrow>
     (case server_step e s of Some s' \<Rightarrow> run e (pred_numeral k) s' | None \<Rightarrow> s))"
  by (simp add: numeral_eq_Suc)

lemmas step_simps = client_step.simps server_step.simps connect_def

lemma handlers:
  "handle_command e (command_bytes LIBCPUID_MSR_DEBUG) = srv_call_libcpuid_msr_debug e"
  "handle_command e (command_bytes LIBCPUID_MSR_STATIC) = srv_call_libcpuid_msr_static e"
  "handle_command e (command_bytes LIBCPUID_MSR_DYNAMIC) = srv_call_libcpuid_msr_dynamic e"
  "handle_command e (command_bytes DMIDECODE) = srv_call_dmidecode e"
  "handle_command e (command_bytes ACCESS_DEV_PCI) = srv_find_devices e"
  "handle_command e (command_bytes ACCESS_SYS_DEBUG) = srv_can_access_sys_debug_dri e"
  "handle_command e (command_bytes LOAD_MODULE) = srv_load_module e"
  by (simp_all add: handle_command_def command_bytes_def le_number_text)

lemma length_command_bytes [simp]: "length (command_bytes c) = 4" "take 4 (command_bytes c) = command_bytes c"
  by (simp_all add: command_bytes_def)

lemma request:
  assumes "cli s = Send (command_bytes c) p" "srv s = Idle" "to_server s = []"
  shows "(net_step e)\<^sup>*\<^sup>* s (s\<lparr>cli := p, srv := Busy (handle_command e (command_bytes c))\<rparr>)"
proof -
  let ?a = "s\<lparr>cli := p, to_server := [command_bytes c]\<rparr>"
  have "net_step e s ?a" using assms by (intro net_step.client) (simp add: step_simps)
  moreover have "net_step e ?a (?a\<lparr>srv := Busy (handle_command e (command_bytes c)), to_server := []\<rparr>)"
    using assms by (intro net_step.server) (simp add: step_simps)
  moreover have "?a\<lparr>srv := Busy (handle_command e (command_bytes c)), to_server := []\<rparr>
      = s\<lparr>cli := p, srv := Busy (handle_command e (command_bytes c))\<rparr>"
    using assms(3) by (cases s) simp
  ultimately show ?thesis by (metis converse_rtranclp_into_rtranclp r_into_rtranclp)
qed

text \<open>The messages of dmidecode, all sent.\<close>

lemma dmidecode_sent:
  assumes "env_dmidecode e = (code, r)"
  shows "(net_step e)\<^sup>*\<^sup>* (connect (Send (command_bytes DMIDECODE) p)) ((connect p)\<lparr>to_client := dmidecode_messages code r\<rparr>)"
proof -
  let ?s = "connect (Send (command_bytes DMIDECODE) p)" and ?ms = "dmidecode_messages code r"
  let ?b = "?s\<lparr>cli := p, srv := Busy (srv_call_dmidecode e)\<rparr>"
  let ?c = "?b\<lparr>srv := Busy (Done True), to_client := to_client ?b @ ?ms\<rparr>"
  have 1: "(net_step e)\<^sup>*\<^sup>* ?s ?b" using request [of ?s DMIDECODE p e] by (simp add: handlers connect_def)
  have 2: "(net_step e)\<^sup>*\<^sup>* ?b ?c" using assms by (intro server_sends) (simp add: srv_call_dmidecode_def)
  have 3: "net_step e ?c ((connect p)\<lparr>to_client := ?ms\<rparr>)" by (intro net_step.server) (simp add: step_simps)
  show ?thesis by (rule rtranclp.rtrancl_into_rtrancl [OF rtranclp_trans [OF 1 2] 3])
qed

text \<open>C4: in every interleaving of client and server, the record of a dmidecode that succeeded arrives: the
  client ends with the texts of the record in its data, and the connection is idle again.\<close>

theorem dmidecode_over_socket:
  assumes "env_dmidecode e = (0, r)" "record_ok r" "sticks d = []" "shown_record tr r d = Some d'"
  shows "always_ends_in e (connect (call_dmidecode tr d)) (connect (Done (0, d')))"
proof (rule outcome)
  let ?p = "(RECEIVE_DATA 4 d (\<lambda>b. if le_number b \<noteq> 0 then Done (1, d)
     else RECEIVE_DATA 88 d (\<lambda>b. value_or_dead (fill_processor b d) (\<lambda>d.
       RECEIVE_DATA 240 d (\<lambda>b. value_or_dead (fill_board b d) (\<lambda>d.
       RECEIVE_DATA 320 d (\<lambda>b. value_or_dead (fill_bios tr b d) (\<lambda>d.
       RECEIVE_DATA 1 d (\<lambda>b. receive_sticks tr (le_number b) 0 d)))))))))"
  let ?s = "(connect ?p)\<lparr>to_client := dmidecode_messages 0 r\<rparr>"
  have 1: "(net_step e)\<^sup>*\<^sup>* (connect (call_dmidecode tr d)) ?s"
    unfolding call_dmidecode_def using assms(1) by (rule dmidecode_sent)
  have 2: "(net_step e)\<^sup>*\<^sup>* ?s (?s\<lparr>cli := Done (0, d'), to_client := []\<rparr>)"
    using feed_record [OF assms(2-4)] by (rule client_feeds) (simp_all add: connect_def)
  have "?s\<lparr>cli := Done (0, d'), to_client := []\<rparr> = connect (Done (0, d'))" by (simp add: connect_def)
  with rtranclp_trans [OF 1 2] show "(net_step e)\<^sup>*\<^sup>* (connect (call_dmidecode tr d)) (connect (Done (0, d')))"
    by simp
qed (simp add: net_step_iff step_simps)

text \<open>A machine with one memory stick, and a client that has asked nothing.\<close>

definition small_record :: DmidecodeData where
  "small_record = \<lparr>d_stick_count = 1,
     d_bios = \<lparr>bios_brand = put_str ''ACME'', bios_version = blank_array, bios_date = blank_array, bios_romsize = blank_array\<rparr>,
     d_mb = \<lparr>mb_manufacturer = blank_array, mb_model = blank_array, mb_revision = blank_array\<rparr>,
     d_processor = \<lparr>bus_freq = 100, cpu_package = blank_array\<rparr>, d_memory = [blank_stick]\<rparr>"

definition plain_env :: env where
  "plain_env = \<lparr>env_dmidecode = (0, small_record), env_msr = (\<lambda>_. Some (\<lambda>_. 42)), env_invalid = 0x3FFFFFFF,
     env_fs_throws = False, env_permissions_fail = False, env_alloc = (\<lambda>n. n < 1000), env_system = (\<lambda>_. 0)\<rparr>"

definition new_client :: client_data where
  "new_client = \<lparr>socket_up = True, x86 = True, packages = [''''], bus_speed = 0, cpu_min_mult = 0, cpu_max_mult = 0,
     cpu_voltage = None, cpu_temperature = None, board_manufacturer = '''', board_model = '''', board_revision = '''',
     fw_brand = '''', fw_version = '''', fw_date = '''', fw_romsize = '''', sticks = [], dri_ret = 1,
     sel = initial_selection\<rparr>"

lemma small_record_ok: "record_ok small_record"
  by (simp add: record_ok_def arrays_ok_def small_record_def mb_fields_def bios_fields_def stick_fields_def
      blank_stick_def blank_array_def put_str_def strncpy_arr_def MAXSTR_def)

lemma text_of_blank: "text_of blank_array = []"
  by (simp add: text_of_def blank_array_def MAXSTR_def eval_nat_numeral)

lemma small_record_shown: "\<exists>d'. shown_record id small_record new_client = Some d' \<and> bus_speed d' = 10000"
  by (simp add: shown_record_def shown_stick_def small_record_def new_client_def blank_stick_def text_of_blank
      string_set_size_unit_def set_units.simps)

theorem dmidecode_over_socket_witness:
  "\<exists>d'. bus_speed d' = 10000 \<and> always_ends_in plain_env (connect (call_dmidecode id new_client)) (connect (Done (0, d')))"
proof -
  obtain d' where d': "shown_record id small_record new_client = Some d'" "bus_speed d' = 10000"
    using small_record_shown by blast
  have 1: "env_dmidecode plain_env = (0, small_record)" by (simp add: plain_env_def)
  have 2: "sticks new_client = []" by (simp add: new_client_def)
  show ?thesis using dmidecode_over_socket [OF 1 small_record_ok 2 d'(1)] d'(2) by blast
qed

subsection \<open>A dmidecode that fails\<close>

definition msr_dynamic_reply :: "env \<Rightarrow> u16 \<Rightarrow> string" where
  "msr_dynamic_reply e core = (let info = (case env_msr e core of None \<Rightarrow> (\<lambda>_. env_invalid e) | Some f \<Rightarrow> f)
     in int_bytes (info INFO_VOLTAGE) @ int_bytes (info INFO_TEMPERATURE))"

lemma core_number_read: "libcpuid_init_msr e (le_text 2 (unat (core :: u16))) = env_msr e core"
  using unat_u16_less [of core] by (simp add: libcpuid_init_msr_def le_number_text del: unat_u16_less)

lemma stale_zero:
  assumes "bus_freq p = 0"
  shows "take 8 (cpu_bytes p) = le_text 8 0" "int_at 0 (le_text 8 0) = 0" "int_at 4 (le_text 8 0) = 0"
  using assms by (simp_all add: cpu_bytes_def double_bits_def int_at_def le_text_def upt_rec le_number_def)

text \<open>C5: after a dmidecode that failed, its data stays in the queue, and the next request is answered by
  it: the processor is shown with 0 volts and 0 degrees, whatever its registers hold, and the real
  answer stays in the queue.\<close>

theorem failed_dmidecode_answers_next:
  assumes "env_dmidecode e = (code, r)" "code \<noteq> 0" "bus_freq (d_processor r) = 0" "env_invalid e \<noteq> 0"
    and "x86 d" "get_selected_core_id (sel d) = Some (core, s)"
  shows "always_ends_in e
      (connect (and_then (call_dmidecode tr d) (\<lambda>(_, d). call_libcpuid_msr_dynamic (env_invalid e) d)))
      (connect (Done (0, d\<lparr>sel := s, cpu_voltage := Some 0, cpu_temperature := Some 0\<rparr>))
        \<lparr>to_client := tl (tl (dmidecode_messages code r)) @ [msr_dynamic_reply e core]\<rparr>)"
proof (rule outcome)
  let ?next = "call_libcpuid_msr_dynamic (env_invalid e)"
  let ?ms = "dmidecode_messages code r"
  define p where "p = and_then (call_dmidecode tr d) (\<lambda>(_, d). ?next d)"
  obtain k where p: "p = Send (command_bytes DMIDECODE) (Recv 4 k)"
    and k: "\<And>b. length b = 4 \<Longrightarrow> le_number b \<noteq> 0 \<Longrightarrow> k b = ?next d"
    by (simp add: p_def call_dmidecode_def RECEIVE_DATA_def receive_def)
  have "unat code \<noteq> 0" using assms(2) by (simp add: unat_eq_zero)
  then have "k (int_bytes code) = ?next d"
    using unat_u32_less [of code] by (intro k) (simp_all add: int_bytes_def le_number_text del: unat_u32_less)
  then have fed: "feed (Recv 4 k) ?ms = (?next d, tl ?ms)"
    using assms(5,6) by (simp add: dmidecode_messages_def int_bytes_def call_libcpuid_msr_dynamic_def Let_def)
  let ?q = "(connect (Recv 4 k))\<lparr>to_client := ?ms\<rparr>"
  let ?a = "(connect (?next d))\<lparr>to_client := tl ?ms\<rparr>"
  have 1: "(net_step e)\<^sup>*\<^sup>* (connect p) ?q" unfolding p using assms(1) by (rule dmidecode_sent)
  have 2: "(net_step e)\<^sup>*\<^sup>* ?q ?a"
    using client_feeds [OF fed, of ?q e] by (simp add: connect_def)
  have "run e 7 ?a = (connect (Done (0, d\<lparr>sel := s, cpu_voltage := Some 0, cpu_temperature := Some 0\<rparr>)))
        \<lparr>to_client := tl (tl ?ms) @ [msr_dynamic_reply e core]\<rparr>"
    using assms(4-6) stale_zero [OF assms(3)]
    by (simp add: step_simps call_libcpuid_msr_dynamic_def dmidecode_messages_def handlers
        RECEIVE_DATA_def receive_def srv_call_libcpuid_msr_dynamic_def core_number_read msr_dynamic_reply_def Let_def)
  with run_steps [of e ?a 7] have 3: "(net_step e)\<^sup>*\<^sup>* ?a
      ((connect (Done (0, d\<lparr>sel := s, cpu_voltage := Some 0, cpu_temperature := Some 0\<rparr>)))
        \<lparr>to_client := tl (tl ?ms) @ [msr_dynamic_reply e core]\<rparr>)" by simp
  from rtranclp_trans [OF rtranclp_trans [OF 1 2] 3]
  show "(net_step e)\<^sup>*\<^sup>* (connect (and_then (call_dmidecode tr d) (\<lambda>(_, d). ?next d)))
      (connect (Done (0, d\<lparr>sel := s, cpu_voltage := Some 0, cpu_temperature := Some 0\<rparr>))
        \<lparr>to_client := tl (tl ?ms) @ [msr_dynamic_reply e core]\<rparr>)" by (simp add: p_def)
qed (simp add: net_step_iff step_simps)

definition failing_env :: env where
  "failing_env = plain_env\<lparr>env_dmidecode := (1, small_record\<lparr>d_processor := \<lparr>bus_freq = 0, cpu_package = blank_array\<rparr>\<rparr>)\<rparr>"

lemma initial_core: "get_selected_core_id (sel new_client) = Some (0, initial_selection)"
  by (simp add: get_selected_core_id_def new_client_def initial_selection_def)

theorem failed_dmidecode_answers_next_witness:
  "env_msr failing_env 0 = Some (\<lambda>_. 42)
   \<and> (\<exists>s. cli s = Done (0, new_client\<lparr>sel := initial_selection, cpu_voltage := Some 0, cpu_temperature := Some 0\<rparr>)
        \<and> always_ends_in failing_env
          (connect (and_then (call_dmidecode id new_client) (\<lambda>(_, d). call_libcpuid_msr_dynamic (env_invalid failing_env) d))) s)"
proof -
  let ?r = "small_record\<lparr>d_processor := \<lparr>bus_freq = 0, cpu_package = blank_array\<rparr>\<rparr>"
  have 1: "env_dmidecode failing_env = (1, ?r)" "(1 :: u32) \<noteq> 0" "bus_freq (d_processor ?r) = 0"
    "env_invalid failing_env \<noteq> 0" "x86 new_client" "env_msr failing_env 0 = Some (\<lambda>_. 42)"
    by (simp_all add: failing_env_def plain_env_def new_client_def)
  show ?thesis
    using failed_dmidecode_answers_next [OF 1(1-5) initial_core, of id] 1(6)
    by (intro conjI exI [where P = "\<lambda>s. cli s = x \<and> Q s" for x Q]) (auto simp: connect_def)
qed

subsection \<open>Other requests\<close>

text \<open>C24: on an idle connection, the voltage and the temperature that are shown are those of the selected
  core; a value the processor does not have leaves the old one.\<close>

theorem msr_values_arrive:
  assumes "x86 d" "get_selected_core_id (sel d) = Some (core, s)" "env_msr e core = Some info"
  shows "always_ends_in e (connect (call_libcpuid_msr_dynamic (env_invalid e) d)) (connect (Done (0, d\<lparr>sel := s,
      cpu_voltage := (if info INFO_VOLTAGE = env_invalid e then cpu_voltage d else Some (sint (info INFO_VOLTAGE))),
      cpu_temperature := (if info INFO_TEMPERATURE = env_invalid e then cpu_temperature d
        else Some (sint (info INFO_TEMPERATURE)))\<rparr>)))"
proof (rule outcome)
  let ?s = "connect (call_libcpuid_msr_dynamic (env_invalid e) d)"
  have at: "int_at 0 (int_bytes a @ int_bytes b) = a" "int_at 4 (int_bytes a @ int_bytes b) = b" for a b
    using unat_u32_less [of a] unat_u32_less [of b]
    by (simp_all add: int_at_def int_bytes_def le_number_text del: unat_u32_less)
  define d1 where "d1 = (if info INFO_VOLTAGE \<noteq> env_invalid e
    then d\<lparr>sel := s, cpu_voltage := Some (sint (info INFO_VOLTAGE))\<rparr> else d\<lparr>sel := s\<rparr>)"
  define d2 where "d2 = (if info INFO_TEMPERATURE \<noteq> env_invalid e
    then d1\<lparr>cpu_temperature := Some (sint (info INFO_TEMPERATURE))\<rparr> else d1)"
  have d2: "d\<lparr>sel := s,
      cpu_voltage := (if info INFO_VOLTAGE = env_invalid e then cpu_voltage d else Some (sint (info INFO_VOLTAGE))),
      cpu_temperature := (if info INFO_TEMPERATURE = env_invalid e then cpu_temperature d
        else Some (sint (info INFO_TEMPERATURE)))\<rparr> = d2"
    by (cases d) (simp add: d1_def d2_def)
  have len: "length (int_bytes a) = 4" for a by (simp add: int_bytes_def)
  have "run e 8 ?s = connect (Done (0, d2))"
    using assms
    by (simp add: step_simps call_libcpuid_msr_dynamic_def handlers RECEIVE_DATA_def receive_def len
        srv_call_libcpuid_msr_dynamic_def core_number_read at Let_def d1_def d2_def)
  with run_steps [of e ?s 8] show "(net_step e)\<^sup>*\<^sup>* ?s (connect (Done (0, d\<lparr>sel := s,
      cpu_voltage := (if info INFO_VOLTAGE = env_invalid e then cpu_voltage d else Some (sint (info INFO_VOLTAGE))),
      cpu_temperature := (if info INFO_TEMPERATURE = env_invalid e then cpu_temperature d
        else Some (sint (info INFO_TEMPERATURE)))\<rparr>)))" unfolding d2 by simp
qed (simp add: net_step_iff step_simps)

theorem msr_values_arrive_witness:
  "always_ends_in plain_env (connect (call_libcpuid_msr_dynamic 0x3FFFFFFF new_client))
     (connect (Done (0, new_client\<lparr>sel := initial_selection, cpu_voltage := Some 42, cpu_temperature := Some 42\<rparr>)))"
proof -
  have 1: "x86 new_client" "env_msr plain_env 0 = Some (\<lambda>_. 42)" "env_invalid plain_env = 0x3FFFFFFF"
    by (simp_all add: plain_env_def new_client_def)
  show ?thesis using msr_values_arrive [OF 1(1) initial_core 1(2)] by (simp add: 1(3))
qed

text \<open>C25: the daemon runs, as root, the text it is sent behind modprobe, whatever it is, and the client gets
  the exit code; nothing but the null byte is excluded, so the text may hold further commands.\<close>

theorem load_module_runs:
  assumes "grep_ret \<noteq> 0" "socket_up d" "NUL \<notin> set module" "env_alloc e (length module + 1)" "length module + 1 < 2 ^ 63"
  defines "cmd \<equiv> ''modprobe '' @ module @ '' 2> /dev/null''"
  shows "always_ends_in e (connect (load_module grep_ret module d)) ((connect (Done (env_system e cmd, d)))\<lparr>ran := [cmd]\<rparr>)"
proof (rule outcome)
  let ?s = "connect (load_module grep_ret module d)"
  have len: "le_number (le_text 8 (Suc (length module))) = Suc (length module)" using assms(5) by (simp add: le_number_text)
  have str: "c_str (module @ [NUL]) = Some module"
    using assms(3) by (induction module) (auto simp: c_str_def)
  have at: "int_at 0 (int_bytes a) = a" for a
    using unat_u32_less [of a] by (simp add: int_at_def int_bytes_def le_number_text del: unat_u32_less)
  have sz: "length (int_bytes a) = 4" "take 4 (int_bytes a) = int_bytes a" for a by (simp_all add: int_bytes_def)
  have "run e 10 ?s = (connect (Done (env_system e cmd, d)))\<lparr>ran := [cmd]\<rparr>"
    using assms(1,2,4,5)
    by (simp add: step_simps load_module_def handlers RECEIVE_DATA_def receive_def srv_load_module_def len str at sz
        value_or_dead_def cmd_def Let_def)
  with run_steps [of e ?s 10] show "(net_step e)\<^sup>*\<^sup>* ?s ((connect (Done (env_system e cmd, d)))\<lparr>ran := [cmd]\<rparr>)" by simp
qed (simp add: net_step_iff step_simps)

theorem load_module_runs_witness:
  "always_ends_in plain_env (connect (load_module 1 ''x; reboot'' new_client))
     ((connect (Done (0, new_client)))\<lparr>ran := [''modprobe x; reboot 2> /dev/null'']\<rparr>)"
proof -
  have 1: "(1 :: u32) \<noteq> 0" "socket_up new_client" "NUL \<notin> set ''x; reboot''"
    "env_alloc plain_env (length ''x; reboot'' + 1)" "length ''x; reboot'' + 1 < 2 ^ 63"
    "env_system plain_env c = 0" for c
    by (simp_all add: plain_env_def new_client_def)
  show ?thesis using load_module_runs [OF 1(1-5)] by (simp add: 1(6))
qed

text \<open>A negative length ends the daemon.\<close>

lemma negative_length_kills_daemon:
  assumes "2 ^ 63 \<le> len" "len < 2 ^ 64"
  shows "always_ends_in e (connect (Send (command_bytes LOAD_MODULE) (Send (le_text 8 len) (Done ()))))
     ((connect (Done ()))\<lparr>srv := Gone\<rparr>)"
proof (rule outcome)
  let ?s = "connect (Send (command_bytes LOAD_MODULE) (Send (le_text 8 len) (Done ())))"
  have "run e 5 ?s = (connect (Done ()))\<lparr>srv := Gone\<rparr>"
    using assms by (simp add: step_simps handlers receive_def srv_load_module_def le_number_text Let_def)
  with run_steps [of e ?s 5] show "(net_step e)\<^sup>*\<^sup>* ?s ((connect (Done ()))\<lparr>srv := Gone\<rparr>)" by simp
qed (simp add: net_step_iff step_simps)

lemma negative_length_kills_daemon_example:
  "always_ends_in plain_env (connect (Send (command_bytes LOAD_MODULE) (Send (le_text 8 (2 ^ 64 - 1)) (Done ()))))
     ((connect (Done ()))\<lparr>srv := Gone\<rparr>)"
  by (rule negative_length_kills_daemon) simp_all

text \<open>C26: on an idle connection, when the directory may not be accessed, what the daemon answers never makes
  the function true: it answers -1 for success and 1 for failure, and only 0 is taken for yes. The function is
  true in the one case in which there is no answer: a call of the daemon throws, which ends it, and the 1 of
  the failed read is true for the type \<^verbatim>\<open>bool\<close>.\<close>

theorem debug_dri_outcome:
  assumes "dri_ret d = 1" "socket_up d"
  shows "always_ends_in e (connect (can_access_sys_debug_dri True d))
     (if env_fs_throws e then (connect (Done (True, lose_socket d)))\<lparr>srv := Gone\<rparr>
      else connect (Done (False, d\<lparr>dri_ret := if env_permissions_fail e then 1 else - 1\<rparr>)))"
    (is "always_ends_in e ?s ?t")
proof (rule outcome)
  have at: "int_at 0 (int_bytes a) = a" for a
    using unat_u32_less [of a] by (simp add: int_at_def int_bytes_def le_number_text del: unat_u32_less)
  have sz: "length (int_bytes a) = 4" "take 4 (int_bytes a) = int_bytes a" for a by (simp_all add: int_bytes_def)
  have "run e 5 ?s = ?t"
    using assms
    by (simp add: step_simps can_access_sys_debug_dri_def handlers receive_def srv_can_access_sys_debug_dri_def at sz Let_def)
  with run_steps [of e ?s 5] show "(net_step e)\<^sup>*\<^sup>* ?s ?t" by simp
qed (simp add: net_step_iff step_simps)

theorem debug_dri_outcome_witness:
  "always_ends_in plain_env (connect (can_access_sys_debug_dri True new_client))
     (connect (Done (False, new_client\<lparr>dri_ret := - 1\<rparr>)))
   \<and> always_ends_in (plain_env\<lparr>env_fs_throws := True\<rparr>) (connect (can_access_sys_debug_dri True new_client))
     ((connect (Done (True, lose_socket new_client)))\<lparr>srv := Gone\<rparr>)"
proof -
  have 1: "dri_ret new_client = 1" "socket_up new_client" "\<not> env_permissions_fail plain_env" "\<not> env_fs_throws plain_env"
    by (simp_all add: plain_env_def new_client_def)
  show ?thesis
    using debug_dri_outcome [OF 1(1,2), of plain_env]
      debug_dri_outcome [OF 1(1,2), of "plain_env\<lparr>env_fs_throws := True\<rparr>"] by (simp add: 1(3,4))
qed

end
