(* ===== verification/Packages.thy ===== *)
theory Packages
  imports Prelude
begin

section \<open>The socket of a processor (databases.h)\<close>

text \<open>
  \<^verbatim>\<open>cputab_package_fallback\<close> of \<^verbatim>\<open>src/src/core/libcpuid.cpp\<close>: if dmidecode does not name
  the socket, the code name and the specification of the processor are looked up in the tables of
  \<^verbatim>\<open>src/src/core/databases.h\<close>; the first entry whose keys are part of them wins. The log is left
  out.
\<close>

datatype package_db = Package_DB (db_codename: cstr) (db_model: cstr) (db_socket: cstr)

definition package_intel :: "package_db list" where
  "package_intel = [
    Package_DB (Some ''Atom (Diamondville)'') (None) (Some ''BGA 437''),
    Package_DB (Some ''Pentium D (SmithField)'') (None) (Some ''LGA 775''),
    Package_DB (Some ''Pentium D (Presler)'') (None) (Some ''LGA 775''),
    Package_DB (Some ''Bloomfield'') (None) (Some ''LGA 1366''),
    Package_DB (None) (Some ''Intel(R) Core(TM)2 Duo CPU E7400'') (Some ''LGA 775''),
    Package_DB (None) (Some ''Intel(R) Core(TM)2 Quad CPU Q6600'') (Some ''LGA 775''),
    Package_DB (None) (Some ''Intel(R) Core(TM) i5-2500K CPU'') (Some ''LGA 1155''),
    Package_DB (None) (Some ''Intel(R) Celeron(R) CPU G550T'') (Some ''LGA 1155''),
    Package_DB (None) (Some ''Intel(R) Celeron(R) CPU G1610'') (Some ''LGA 1155''),
    Package_DB (None) (Some ''Intel(R) Pentium(R) CPU G620'') (Some ''LGA 1155''),
    Package_DB (None) (Some ''Intel(R) Pentium(R) CPU G2030'') (Some ''LGA 1155''),
    Package_DB (None) (Some ''Intel(R) Core(TM) i5-2520M CPU'') (Some ''rPGA 988B''),
    Package_DB (None) (Some ''Intel(R) Core(TM) i5-3360M CPU'') (Some ''rPGA 988B''),
    Package_DB (None) (Some ''Intel(R) Xeon(R) CPU E31275'') (Some ''LGA 1155''),
    Package_DB (None) (Some ''Intel(R) Xeon(R) CPU E3-1230 V2'') (Some ''LGA 1155''),
    Package_DB (None) (Some ''Intel(R) Core(TM) i7-2860QM CPU'') (Some ''rPGA 988B''),
    Package_DB (None) (Some ''Intel(R) Core(TM) i7-3740QM CPU'') (Some ''rPGA 988B''),
    Package_DB (None) (Some ''Intel(R) Core(TM) i5-4300U CPU'') (Some ''BGA 1168''),
    Package_DB (None) (Some ''Intel(R) Core(TM) i7-4600U CPU'') (Some ''BGA 1168''),
    Package_DB (None) (Some ''Intel(R) Core(TM) i7-4790 CPU'') (Some ''LGA 1150''),
    Package_DB (None) (Some ''Intel(R) Core(TM) i7-4930K CPU'') (Some ''LGA 2011''),
    Package_DB (None) (Some ''Intel(R) Core(TM) i7-5775C CPU'') (Some ''LGA 1150''),
    Package_DB (None) (Some ''Intel(R) Core(TM) i7-6560U CPU'') (Some ''BGA 1356''),
    Package_DB (None) (Some ''Intel(R) Core(TM) i5-6400 CPU'') (Some ''LGA 1151''),
    Package_DB (None) (Some ''Intel(R) Core(TM) i7-7300U CPU'') (Some ''BGA 1356''),
    Package_DB (None) (Some ''Intel(R) Core(TM) i7-7820HQ CPU'') (Some ''BGA 1440''),
    Package_DB (None) (Some ''Intel(R) Core(TM) i7-8250U CPU'') (Some ''BGA 1356''),
    Package_DB (None) (Some ''Intel(R) Core(TM) i7-8350U CPU'') (Some ''BGA 1356''),
    Package_DB (None) (Some ''Intel(R) Core(TM) i7-8550U CPU'') (Some ''BGA 1356''),
    Package_DB (None) (Some ''Intel(R) Core(TM) i7-8650U CPU'') (Some ''BGA 1356''),
    Package_DB (None) (Some ''Intel(R) Core(TM) i5-9300H CPU'') (Some ''BGA 1440''),
    Package_DB (None) (Some ''Intel(R) Core(TM) i7-9700 CPU'') (Some ''LGA 1151''),
    Package_DB (None) (Some ''Intel(R) Core(TM) i9-9900K CPU'') (Some ''LGA 1151''),
    Package_DB (None) (Some ''Intel(R) Core(TM) i5-10500 CPU'') (Some ''LGA 1200''),
    Package_DB (None) (Some ''Intel(R) Core(TM) i5-1135G7'') (Some ''BGA 1449''),
    Package_DB (None) (Some ''Intel(R) Core(TM) i7-1165G7'') (Some ''BGA 1449''),
    Package_DB (None) (Some ''Intel(R) Core(TM) i7-11700K'') (Some ''LGA 1200''),
    Package_DB (None) (Some ''Intel(R) Core(TM) i9-11900K'') (Some ''LGA 1200''),
    Package_DB (None) (Some ''Intel(R) Core(TM) i3-1220P'') (Some ''BGA 1744''),
    Package_DB (None) (Some ''Intel(R) Core(TM) i5-12400'') (Some ''LGA 1700''),
    Package_DB (None) (Some ''Intel(R) Core(TM) i7-12700H'') (Some ''BGA 1744''),
    Package_DB (None) (Some ''Intel(R) Core(TM) i7-12700KF'') (Some ''LGA 1700''),
    Package_DB (None) (Some ''Intel(R) Core(TM) i9-12900K'') (Some ''LGA 1700''),
    Package_DB (None) (Some ''Intel(R) Core(TM) i9-12900HK'') (Some ''BGA 1744''),
    Package_DB (None) (Some ''Intel(R) Core(TM) i5-13500T'') (Some ''LGA 1700''),
    Package_DB (None) (Some ''Intel(R) Core(TM) i5-13600T'') (Some ''LGA 1700''),
    Package_DB (None) (Some ''Intel(R) Core(TM) i5-13600K'') (Some ''LGA 1700''),
    Package_DB (None) (Some ''Intel(R) Core(TM) i7-13700K'') (Some ''LGA 1700''),
    Package_DB (None) (Some ''Intel(R) Core(TM) i9-13900K'') (Some ''LGA 1700''),
    Package_DB (None) (Some ''Intel(R) Celeron(R) CPU N2930'') (Some ''BGA 1170''),
    Package_DB (None) (Some ''Intel(R) Celeron(R) CPU N3350'') (Some ''BGA 1296''),
    Package_DB (None) (Some ''Intel(R) Celeron(R) N4000'') (Some ''BGA 1090''),
    Package_DB (None) (Some ''Intel(R) Core(TM) i3-3240 CPU'') (Some ''LGA 1155''),
    Package_DB (None) (Some ''Intel(R) Core(TM) i5-3470 CPU'') (Some ''LGA 1155''),
    Package_DB (None) (Some ''Intel(R) Core(TM) i5-3570 CPU'') (Some ''LGA 1155''),
    Package_DB (None) (Some ''Intel(R) Core(TM) i7-4770 CPU'') (Some ''LGA 1155''),
    Package_DB (None) (Some ''Intel(R) Core(TM) i3-4350 CPU'') (Some ''LGA 1150''),
    Package_DB (None) (Some ''Intel(R) Xeon(R) Gold 5220 CPU'') (Some ''LGA 3647''),
    Package_DB (None) (Some ''Intel(R) Xeon(R) CPU E5-2689'') (Some ''LGA 2011''),
    Package_DB (None) (Some ''Intel(R) Xeon(R) CPU E5-2690 '') (Some ''LGA 2011''),
    Package_DB (None) (Some ''Intel(R) Xeon(R) CPU E5-2690 v2'') (Some ''LGA 2011''),
    Package_DB (None) (Some ''Intel(R) Xeon(R) CPU E5-2690 v3'') (Some ''LGA 2011-3''),
    Package_DB (None) (Some ''Intel(R) Xeon(R) CPU E5-2690 v4'') (Some ''LGA 2011-3''),
    Package_DB (None) (Some ''Intel(R) Core(TM) Ultra 9 285K'') (Some ''LGA 1851''),
    Package_DB (None) (Some ''Intel(R) Core(TM) Ultra 7 265K'') (Some ''LGA 1851''),
    Package_DB (None) (Some ''Intel(R) Core(TM) Ultra 5 245K'') (Some ''LGA 1851''),
    Package_DB (None) (Some ''Intel(R) Core(TM) i7-14700KF'') (Some ''LGA 1700''),
    Package_DB (None) (None) (None)]"

definition package_amd :: "package_db list" where
  "package_amd = [
    Package_DB (Some ''Athlon 64 FX X2 (Toledo)'') (None) (Some ''939 (PGA-939)''),
    Package_DB (Some ''Turion X2'') (Some ''TL'') (Some ''S1g1 (PGA-638)''),
    Package_DB (Some ''Turion X2'') (Some ''TK'') (Some ''S1g1 (PGA-638)''),
    Package_DB (Some ''Kuma'') (None) (Some ''AM2+ (PGA-940)''),
    Package_DB (Some ''Agena'') (None) (Some ''AM2+ (PGA-940)''),
    Package_DB (Some ''Toliman'') (None) (Some ''AM2+ (PGA-940)''),
    Package_DB (Some ''Thuban'') (None) (Some ''AM3 (PGA-938)''),
    Package_DB (Some ''Zosma'') (None) (Some ''AM3 (PGA-938)''),
    Package_DB (Some ''Deneb'') (Some ''AMD Phenom(tm) II X4 920'') (Some ''AM2+ (PGA-940)''),
    Package_DB (Some ''Deneb'') (Some ''AMD Phenom(tm) II X4 940'') (Some ''AM2+ (PGA-940)''),
    Package_DB (Some ''Deneb'') (None) (Some ''AM3 (PGA-938)''),
    Package_DB (Some ''Propus'') (None) (Some ''AM3 (PGA-938)''),
    Package_DB (Some ''Heka'') (Some ''AMD Phenom(tm) II X3 715'') (Some ''AM2+ (PGA-940)''),
    Package_DB (Some ''Heka'') (None) (Some ''AM3 (PGA-938)''),
    Package_DB (Some ''Callisto'') (None) (Some ''AM3 (PGA-938)''),
    Package_DB (Some ''Rana'') (None) (Some ''AM3 (PGA-938)''),
    Package_DB (Some ''Sargas'') (None) (Some ''AM3 (PGA-938)''),
    Package_DB (Some ''Regor'') (None) (Some ''AM3 (PGA-938)''),
    Package_DB (Some ''Caspian'') (None) (Some ''S1g3 (PGA-638)''),
    Package_DB (Some ''Champlain'') (None) (Some ''S1g4 (PGA-638)''),
    Package_DB (Some ''Geneva'') (None) (Some ''S1g4 (PGA-638)''),
    Package_DB (Some ''Zambezi'') (None) (Some ''AM3+ (PGA-942)''),
    Package_DB (Some ''Vishera'') (None) (Some ''AM3+ (PGA-942)''),
    Package_DB (Some ''Kabini X4'') (Some ''Athlon'') (Some ''AM1 (PGA-721)''),
    Package_DB (Some ''Kabini X4'') (Some ''Sempron'') (Some ''AM1 (PGA-721)''),
    Package_DB (Some ''Trinity X4'') (None) (Some ''FM2 (PGA-904)''),
    Package_DB (Some ''A-Series (Carrizo)'') (None) (Some ''FM2+ (PGA-906)''),
    Package_DB (Some ''Naples'') (None) (Some ''SP3 (LGA-4094)''),
    Package_DB (Some ''Whitehaven'') (None) (Some ''SP3r2 (LGA-4094)''),
    Package_DB (Some ''Summit Ridge'') (None) (Some ''AM4 (PGA-1331)''),
    Package_DB (Some ''Raven Ridge'') (None) (Some ''FP5 (BGA-1140)''),
    Package_DB (Some ''Dali'') (None) (Some ''FP5 (BGA-1140)''),
    Package_DB (Some ''Colfax'') (None) (Some ''SP3r2 (LGA-4094)''),
    Package_DB (Some ''Pinnacle Ridge'') (None) (Some ''AM4 (PGA-1331)''),
    Package_DB (Some ''Picasso'') (None) (Some ''FP5 (BGA-1140)''),
    Package_DB (Some ''Rome'') (None) (Some ''SP3 (LGA-4094)''),
    Package_DB (Some ''Castle Peak'') (None) (Some ''SP3r2 (LGA-4094)''),
    Package_DB (Some ''Matisse'') (None) (Some ''AM4 (PGA-1331)''),
    Package_DB (Some ''Renoir'') (None) (Some ''FP6 (BGA-1140)''),
    Package_DB (Some ''Lucienne'') (None) (Some ''FP6 (BGA-1140)''),
    Package_DB (Some ''Mendocino'') (None) (Some ''FT6 (BGA)''),
    Package_DB (Some ''Milan'') (None) (Some ''SP3 (LGA-4094)''),
    Package_DB (Some ''Chagall'') (None) (Some ''sWRX8 (LGA-4094)''),
    Package_DB (Some ''Vermeer'') (None) (Some ''AM4 (PGA-1331)''),
    Package_DB (Some ''Cezanne'') (None) (Some ''FP6 (BGA-1140)''),
    Package_DB (Some ''Rembrandt'') (None) (Some ''FP7 (BGA-1140)''),
    Package_DB (Some ''Genoa'') (None) (Some ''SP5 (LGA-6096)''),
    Package_DB (Some ''Storm Peak'') (None) (Some ''sTR5 (LGA-4844)''),
    Package_DB (Some ''Raphael'') (None) (Some ''AM5 (LGA-1718)''),
    Package_DB (Some ''Dragon Range'') (None) (Some ''FL1 (BGA)''),
    Package_DB (Some ''Phoenix'') (None) (Some ''FP7/FP8''),
    Package_DB (Some ''Hawk Point'') (None) (Some ''FP7/FP8''),
    Package_DB (Some ''Turin'') (None) (Some ''SP5 (LGA-6096)''),
    Package_DB (Some ''Shimada Peak'') (None) (Some ''sTR5 (LGA-4844)''),
    Package_DB (Some ''Granite Ridge'') (None) (Some ''AM5 (LGA-1718)''),
    Package_DB (Some ''Strix Point'') (None) (Some ''FP8''),
    Package_DB (Some ''Krackan Point'') (None) (Some ''FP8''),
    Package_DB (Some ''Strix Halo'') (None) (Some ''FP11''),
    Package_DB (None) (None) (None)]"

subsection \<open>The search\<close>

datatype cpu_vendor = CPU_AMD | CPU_INTEL | CPU_OTHER

text \<open>\<^verbatim>\<open>s.find(key) != std::string::npos\<close>\<close>

fun contains :: "string \<Rightarrow> string \<Rightarrow> bool" where
  "contains key [] = (key = [])"
| "contains key (c # s) = (take (length key) (c # s) = key \<or> contains key s)"

definition entry_matches :: "string \<Rightarrow> string \<Rightarrow> package_db \<Rightarrow> bool" where
  "entry_matches codename spec p = (let
     codename_matchs = (case db_codename p of None \<Rightarrow> False | Some c \<Rightarrow> contains c codename);
     model_matchs = (case db_model p of None \<Rightarrow> False | Some m \<Rightarrow> contains m spec)
   in codename_matchs \<and> model_matchs \<or> codename_matchs \<and> db_model p = None
      \<or> db_codename p = None \<and> model_matchs)"

text \<open>Up to the entry without a socket; a table without one would be read behind its end (\<open>None\<close>).\<close>

fun find_package :: "string \<Rightarrow> string \<Rightarrow> package_db list \<Rightarrow> cstr option" where
  "find_package codename spec [] = None"
| "find_package codename spec (p # ps) = (case db_socket p of
       None \<Rightarrow> Some None
     | Some socket \<Rightarrow> if entry_matches codename spec p then Some (Some socket)
         else find_package codename spec ps)"

text \<open>The return code, and the socket all types of CPU are given (\<open>None\<close>: unchanged).\<close>

definition cputab_package_fallback :: "cpu_vendor \<Rightarrow> string \<Rightarrow> string \<Rightarrow> (nat \<times> string option) option" where
  "cputab_package_fallback vendor codename spec =
     (if codename = [] \<or> spec = [] then Some (1, None)
      else if vendor = CPU_OTHER then Some (2, None)
      else map_option (\<lambda>r. case r of Some socket \<Rightarrow> (0, Some socket) | None \<Rightarrow> (3, Some []))
        (find_package codename spec (if vendor = CPU_AMD then package_amd else package_intel)))"

end
