(* ===== verification/Package_Properties.thy ===== *)
theory Package_Properties
  imports Packages
begin

section \<open>Properties of the tables of sockets\<close>

text \<open>
  No entry for AMD is hidden by an earlier one (\<open>amd_entries_found\<close>); two entries for Intel are, by one
  with another socket (\<open>xeon_sockets_wrong\<close>).
\<close>

lemma contains_prefix: "contains (a @ b) s \<Longrightarrow> contains a s"
proof (induction s)
  case (Cons c s)
  have "take (length a) (c # s) = a" if "take (length (a @ b)) (c # s) = a @ b"
    using arg_cong [OF that, of "take (length a)"] by simp
  with Cons show ?case by auto
qed simp

lemma find_package_before:
  assumes "entry_matches c s p" "\<forall>q \<in> set (ps @ [p]). db_socket q \<noteq> None"
  shows "\<exists>q \<in> set (ps @ [p]). find_package c s (ps @ p # rest) = Some (db_socket q)"
  using assms
proof (induction ps)
  case (Cons a ps)
  then obtain socket where a: "db_socket a = Some socket" by auto
  show ?case
  proof (cases "entry_matches c s a")
    case False
    with Cons a show ?thesis by auto
  qed (simp add: a)
qed auto

text \<open>What the search finds for the keys of an entry itself.\<close>

definition own_socket :: "package_db list \<Rightarrow> package_db \<Rightarrow> bool" where
  "own_socket ps p \<longleftrightarrow> find_package (case db_codename p of None \<Rightarrow> ''?'' | Some c \<Rightarrow> c)
     (case db_model p of None \<Rightarrow> ''?'' | Some m \<Rightarrow> m) ps = Some (db_socket p)"

text \<open>For the code name of any entry of the table for AMD, the socket found is that of the entry.\<close>

lemma amd_entries_found: "list_all (own_socket package_amd) (butlast package_amd)"
  by code_simp

text \<open>A Xeon E5-2690 v3 or v4 is never given the socket of its entry: the entry of the first generation is a
  part of their names and comes before.\<close>

lemma xeon_sockets_wrong:
  assumes "contains (''Intel(R) Xeon(R) CPU E5-2690 '' @ version) spec" "codename \<noteq> []"
  shows "\<exists>socket. cputab_package_fallback CPU_INTEL codename spec = Some (0, Some socket) \<and> socket \<noteq> ''LGA 2011-3''
    \<and> Package_DB None (Some ''Intel(R) Xeon(R) CPU E5-2690 v3'') (Some ''LGA 2011-3'') \<in> set package_intel"
proof -
  let ?p = "Package_DB None (Some ''Intel(R) Xeon(R) CPU E5-2690 '') (Some ''LGA 2011'')"
  have "contains ''Intel(R) Xeon(R) CPU E5-2690 '' spec" using assms(1) by (rule contains_prefix)
  then have m: "entry_matches codename spec ?p" by (simp add: entry_matches_def)
  have tables: "package_intel = take 59 package_intel @ ?p # drop 60 package_intel"
    by (simp add: package_intel_def)
  have sockets: "list_all (\<lambda>q. db_socket q \<noteq> None \<and> db_socket q \<noteq> Some ''LGA 2011-3'') (take 59 package_intel @ [?p])"
    by (simp add: package_intel_def)
  from find_package_before [OF m, of "take 59 package_intel" "drop 60 package_intel"] sockets
  obtain q where q: "q \<in> set (take 59 package_intel @ [?p])" "find_package codename spec package_intel = Some (db_socket q)"
    unfolding tables [symmetric] list_all_iff by blast
  with sockets obtain socket where "db_socket q = Some socket" "socket \<noteq> ''LGA 2011-3''"
    unfolding list_all_iff by auto
  moreover have "spec \<noteq> []" using assms(1) by (cases spec) auto
  moreover have "Package_DB None (Some ''Intel(R) Xeon(R) CPU E5-2690 v3'') (Some ''LGA 2011-3'') \<in> set package_intel"
    by (simp add: package_intel_def)
  ultimately show ?thesis using q(2) assms(2) by (simp add: cputab_package_fallback_def)
qed

lemma xeon_sockets_wrong_example:
  "contains (''Intel(R) Xeon(R) CPU E5-2690 '' @ ''v3'') ''Intel(R) Xeon(R) CPU E5-2690 v3 @ 2.60GHz''
   \<and> cputab_package_fallback CPU_INTEL ''Haswell-EP'' ''Intel(R) Xeon(R) CPU E5-2690 v3 @ 2.60GHz'' \<noteq> Some (0, Some ''LGA 2011-3'')"
proof -
  have 1: "contains (''Intel(R) Xeon(R) CPU E5-2690 '' @ ''v3'') ''Intel(R) Xeon(R) CPU E5-2690 v3 @ 2.60GHz''"
    "''Haswell-EP'' \<noteq> []" by simp_all
  show ?thesis using xeon_sockets_wrong [OF 1] 1(1) by auto
qed

end
