(* ===== verification/Refresh.thy ===== *)
theory Refresh
  imports Selection
begin

section \<open>Refreshing the data (core.cpp) and the clients of the daemon (server.cpp)\<close>

text \<open>
  \<^verbatim>\<open>do_refresh\<close> of \<^verbatim>\<open>src/src/core/core.cpp\<close> calls the functions that fill one tab;
  \<^verbatim>\<open>err_func\<close> remembers which of them failed and does not call them again. The functions
  themselves are a parameter (\<open>services\<close>), on a type \<open>'d\<close> of data; \<open>calls\<close> is the list of the calls
  made so far. The model is that of the build with all libraries.

  The main loop of the daemon (\<^verbatim>\<open>main\<close>, \<^verbatim>\<open>cleanup_thread\<close> of
  \<^verbatim>\<open>src/src/daemon/server.cpp\<close>) counts the threads that handle a client.
\<close>

subsection \<open>do_refresh\<close>

datatype refresh_fn = Libcpuid_Dynamic | Libcpuid_Msr_Dynamic | Cpu_Usage | Cputab_Temp | Cputab_Volt | Cputab_Freq
  | Bandwidth | System_Dynamic | Gpu_Monitoring | Benchmark_Status

record 'd services =
  call :: "refresh_fn \<Rightarrow> 'd \<Rightarrow> int \<times> 'd"
  set_multiplier :: "'d \<Rightarrow> int \<times> 'd"
  daemon_up :: "'d \<Rightarrow> bool"
  temp_empty :: "'d \<Rightarrow> bool"
  volt_empty :: "'d \<Rightarrow> bool"
  freq_empty :: "'d \<Rightarrow> bool"
  opt_fallback_temp :: bool
  opt_fallback_volt :: bool
  opt_fallback_freq :: bool

text \<open>The static variables; \<open>None\<close> is one that has not been initialised by a first call.\<close>

record 'd refresh =
  registered :: "refresh_fn \<Rightarrow> int"
  use_fallback_temp :: "bool option"
  use_fallback_volt :: "bool option"
  use_fallback_freq :: "bool option"
  calls :: "refresh_fn list"
  contents :: 'd

definition err_func :: "'d services \<Rightarrow> refresh_fn \<Rightarrow> 'd refresh \<Rightarrow> int \<times> 'd refresh" where
  "err_func sv f s =
     (if registered s f = 0
      then let (e, d) = call sv f (contents s)
        in (e, s\<lparr>registered := (registered s)(f := e), calls := calls s @ [f], contents := d\<rparr>)
      else (registered s f, s))"

text \<open>\<^verbatim>\<open>static bool use = opt; if (empty || use) { use = true; err += err_func(f); }\<close>\<close>

definition use_flag :: "bool option \<Rightarrow> bool \<Rightarrow> bool" where
  "use_flag flag opt = (case flag of None \<Rightarrow> opt | Some b \<Rightarrow> b)"

definition fallback_mode_dynamic :: "'d services \<Rightarrow> 'd refresh \<Rightarrow> int \<times> 'd refresh" where
  "fallback_mode_dynamic sv s = (let
     t = temp_empty sv (contents s) \<or> use_flag (use_fallback_temp s) (opt_fallback_temp sv);
     s = s\<lparr>use_fallback_temp := Some t\<rparr>;
     (e1, s) = (if t then err_func sv Cputab_Temp s else (0, s));
     v = volt_empty sv (contents s) \<or> use_flag (use_fallback_volt s) (opt_fallback_volt sv);
     s = s\<lparr>use_fallback_volt := Some v\<rparr>;
     (e2, s) = (if v then err_func sv Cputab_Volt s else (0, s));
     f = freq_empty sv (contents s) \<or> use_flag (use_fallback_freq s) (opt_fallback_freq sv);
     s = s\<lparr>use_fallback_freq := Some f\<rparr>;
     (e3, s) = (if f then err_func sv Cputab_Freq s else (0, s))
   in (e1 + e2 + e3, s))"

definition do_refresh :: "'d services \<Rightarrow> TabNumber \<Rightarrow> 'd refresh \<Rightarrow> int \<times> 'd refresh" where
  "do_refresh sv tab s = (case tab of
       TAB_CPU \<Rightarrow> (let
         (e1, s) = err_func sv Libcpuid_Dynamic s;
         (e2, s) = (if daemon_up sv (contents s) then err_func sv Libcpuid_Msr_Dynamic s else (0, s));
         (e3, s) = err_func sv Cpu_Usage s;
         (e4, s) = fallback_mode_dynamic sv s;
         (e5, d) = set_multiplier sv (contents s)
       in (e1 + e2 + e3 + e4 + e5, s\<lparr>contents := d\<rparr>))
     | TAB_CACHES \<Rightarrow> err_func sv Bandwidth s
     | TAB_SYSTEM \<Rightarrow> err_func sv System_Dynamic s
     | TAB_GRAPHICS \<Rightarrow> err_func sv Gpu_Monitoring s
     | TAB_BENCH \<Rightarrow> err_func sv Benchmark_Status s
     | _ \<Rightarrow> (0, s))"

text \<open>The refreshes of the tabs the user looks at, one after the other.\<close>

fun refreshes :: "'d services \<Rightarrow> TabNumber list \<Rightarrow> 'd refresh \<Rightarrow> 'd refresh" where
  "refreshes sv [] s = s"
| "refreshes sv (t # ts) s = refreshes sv ts (snd (do_refresh sv t s))"

subsection \<open>The clients of the daemon\<close>

text \<open>\<open>handlers\<close>: the sockets of the threads that run \<^verbatim>\<open>request_handler\<close>.\<close>

record threads_info =
  running_threads :: u16
  handlers :: "nat list"
  quit_loop :: bool

definition accept_client :: "nat \<Rightarrow> threads_info \<Rightarrow> threads_info" where
  "accept_client fd ti = ti\<lparr>running_threads := running_threads ti + 1, handlers := fd # handlers ti\<rparr>"

definition cleanup_thread :: "nat \<Rightarrow> threads_info \<Rightarrow> threads_info" where
  "cleanup_thread fd ti = ti\<lparr>running_threads := running_threads ti - 1, handlers := remove1 fd (handlers ti)\<rparr>"

definition poll_timeout :: "threads_info \<Rightarrow> threads_info" where
  "poll_timeout ti = ti\<lparr>quit_loop := running_threads ti = 0\<rparr>"

definition sighandler :: "threads_info \<Rightarrow> threads_info" where
  "sighandler ti = ti\<lparr>quit_loop := True\<rparr>"

inductive daemon_step :: "threads_info \<Rightarrow> threads_info \<Rightarrow> bool" where
  client: "\<not> quit_loop ti \<Longrightarrow> daemon_step ti (accept_client fd ti)"
| idle: "\<not> quit_loop ti \<Longrightarrow> daemon_step ti (poll_timeout ti)"
| ends: "fd \<in> set (handlers ti) \<Longrightarrow> daemon_step ti (cleanup_thread fd ti)"
| signal: "daemon_step ti (sighandler ti)"

definition no_threads :: threads_info where
  "no_threads = \<lparr>running_threads = 0, handlers = [], quit_loop = False\<rparr>"

end
