(* ===== verification/Refresh_Properties.thy ===== *)
theory Refresh_Properties
  imports Refresh
begin

section \<open>Properties of the refreshes and of the clients of the daemon\<close>

text \<open>
  A function that failed is not called again (\<open>failed_not_called_again\<close>); the daemon does not quit
  for lack of clients while it has some (\<open>daemon_waits_for_clients\<close>).
\<close>

subsection \<open>Refreshes\<close>

definition kept :: "refresh_fn \<Rightarrow> 'd refresh \<Rightarrow> 'd refresh \<Rightarrow> bool" where
  "kept g s s' \<longleftrightarrow> registered s' g = registered s g \<and> filter ((=) g) (calls s') = filter ((=) g) (calls s)"

lemma cores_kept_trans: "kept g s t \<Longrightarrow> kept g t u \<Longrightarrow> kept g s u"
  by (simp add: kept_def)

lemma kept_registered: "kept g s t \<Longrightarrow> registered t g = registered s g"
  by (simp add: kept_def)

lemma err_func_kept: "registered s g \<noteq> 0 \<Longrightarrow> err_func sv f s = (e, t) \<Longrightarrow> kept g s t"
  by (auto simp: err_func_def kept_def split: prod.splits if_splits)

lemma err_func_if_kept:
  "registered s g \<noteq> 0 \<Longrightarrow> (if c then err_func sv f s else (0, s)) = (e, t) \<Longrightarrow> kept g s t"
  by (auto simp: kept_def split: if_splits dest: err_func_kept)

lemma fallback_kept:
  assumes "registered s g \<noteq> 0" "fallback_mode_dynamic sv s = (e, t)"
  shows "kept g s t"
proof -
  let ?t = "temp_empty sv (contents s) \<or> use_flag (use_fallback_temp s) (opt_fallback_temp sv)"
  let ?s = "s\<lparr>use_fallback_temp := Some ?t\<rparr>"
  obtain e1 s1 where 1: "(if ?t then err_func sv Cputab_Temp ?s else (0, ?s)) = (e1, s1)" by force
  let ?v = "volt_empty sv (contents s1) \<or> use_flag (use_fallback_volt s1) (opt_fallback_volt sv)"
  let ?s1 = "s1\<lparr>use_fallback_volt := Some ?v\<rparr>"
  obtain e2 s2 where 2: "(if ?v then err_func sv Cputab_Volt ?s1 else (0, ?s1)) = (e2, s2)" by force
  let ?f = "freq_empty sv (contents s2) \<or> use_flag (use_fallback_freq s2) (opt_fallback_freq sv)"
  let ?s2 = "s2\<lparr>use_fallback_freq := Some ?f\<rparr>"
  obtain e3 s3 where 3: "(if ?f then err_func sv Cputab_Freq ?s2 else (0, ?s2)) = (e3, s3)" by force
  have "t = s3" using assms(2) 1 2 3 unfolding fallback_mode_dynamic_def Let_def by simp
  moreover have k1: "kept g s s1" using err_func_if_kept [OF _ 1, of g] assms(1) by (simp add: kept_def)
  moreover have k2: "kept g s1 s2"
    using err_func_if_kept [OF _ 2, of g] assms(1) kept_registered [OF k1] by (simp add: kept_def)
  moreover have "kept g s2 s3"
    using err_func_if_kept [OF _ 3, of g] assms(1) kept_registered [OF k1] kept_registered [OF k2] by (simp add: kept_def)
  ultimately show ?thesis by (metis cores_kept_trans)
qed

lemma refresh_kept:
  assumes "registered s g \<noteq> 0"
  shows "kept g s (snd (do_refresh sv tab s))"
proof (cases "tab = TAB_CPU")
  case True
  obtain e1 s1 where 1: "err_func sv Libcpuid_Dynamic s = (e1, s1)" by force
  obtain e2 s2 where 2: "(if daemon_up sv (contents s1) then err_func sv Libcpuid_Msr_Dynamic s1 else (0, s1)) = (e2, s2)"
    by force
  obtain e3 s3 where 3: "err_func sv Cpu_Usage s2 = (e3, s3)" by force
  obtain e4 s4 where 4: "fallback_mode_dynamic sv s3 = (e4, s4)" by force
  have k1: "kept g s s1" using err_func_kept [OF assms 1] .
  then have k2: "kept g s s2" using err_func_if_kept [OF _ 2, of g] assms kept_registered cores_kept_trans by metis
  then have k3: "kept g s s3" using err_func_kept [OF _ 3, of g] assms kept_registered cores_kept_trans by metis
  then have "kept g s s4" using fallback_kept [OF _ 4, of g] assms kept_registered cores_kept_trans by metis
  then show ?thesis using 1 2 3 4 True by (simp add: do_refresh_def kept_def Let_def split: prod.split)
next
  case False
  have "kept g s (snd (err_func sv f s))" for f using err_func_kept [OF assms, of sv f] by (cases "err_func sv f s") simp
  then show ?thesis using False by (cases tab) (auto simp: do_refresh_def kept_def)
qed

lemma refreshes_kept: "registered s g \<noteq> 0 \<Longrightarrow> kept g s (refreshes sv ts s)"
proof (induction ts arbitrary: s)
  case (Cons t ts)
  have k: "kept g s (snd (do_refresh sv t s))" using refresh_kept Cons.prems by blast
  with Cons have "kept g (snd (do_refresh sv t s)) (refreshes sv ts (snd (do_refresh sv t s)))"
    using kept_registered [OF k] by simp
  with k show ?case using cores_kept_trans by simp blast
qed (simp add: kept_def)

text \<open>A function that has failed once is never called again, and its first error code is kept, whatever
  tabs are refreshed later.\<close>

lemma failed_not_called_again:
  fixes ts :: "TabNumber list"
  assumes "registered s f = 0" "fst (call sv f (contents s)) \<noteq> 0"
  defines "s' \<equiv> refreshes sv ts (snd (err_func sv f s))"
  shows "registered s' f = fst (call sv f (contents s)) \<and> filter ((=) f) (calls s') = filter ((=) f) (calls s) @ [f]
    \<and> fst (err_func sv f s') = fst (call sv f (contents s)) \<and> snd (err_func sv f s') = s'"
proof -
  let ?t = "snd (err_func sv f s)"
  have t: "registered ?t f = fst (call sv f (contents s))" "calls ?t = calls s @ [f]"
    using assms(1) by (auto simp: err_func_def split: prod.split)
  then have "kept f ?t s'" unfolding s'_def using assms(2) by (intro refreshes_kept) simp
  then have "registered s' f = fst (call sv f (contents s))" "filter ((=) f) (calls s') = filter ((=) f) (calls s) @ [f]"
    using t by (simp_all add: kept_def)
  then show ?thesis using assms(2) by (simp add: err_func_def)
qed

definition no_bandwidth :: "unit services" where
  "no_bandwidth = \<lparr>call = (\<lambda>f d. (if f = Bandwidth then 1 else 0, d)), set_multiplier = (\<lambda>d. (0, d)),
     daemon_up = (\<lambda>_. False), temp_empty = (\<lambda>_. False), volt_empty = (\<lambda>_. False), freq_empty = (\<lambda>_. False),
     opt_fallback_temp = False, opt_fallback_volt = False, opt_fallback_freq = False\<rparr>"

definition first_refresh :: "unit refresh" where
  "first_refresh = \<lparr>registered = (\<lambda>_. 0), use_fallback_temp = None, use_fallback_volt = None,
     use_fallback_freq = None, calls = [], contents = ()\<rparr>"

lemma failed_not_called_again_example:
  "registered (refreshes no_bandwidth [TAB_CACHES, TAB_CPU, TAB_CACHES] (snd (err_func no_bandwidth Bandwidth first_refresh)))
     Bandwidth = 1"
proof -
  have 1: "registered first_refresh Bandwidth = 0" "fst (call no_bandwidth Bandwidth (contents first_refresh)) \<noteq> 0"
    "fst (call no_bandwidth Bandwidth (contents first_refresh)) = 1"
    by (simp_all add: first_refresh_def no_bandwidth_def)
  show ?thesis using failed_not_called_again [OF 1(1,2), THEN conjunct1] unfolding 1(3) .
qed

subsection \<open>Clients\<close>

lemma threads_counted: "daemon_step\<^sup>*\<^sup>* no_threads ti \<Longrightarrow> running_threads ti = of_nat (length (handlers ti))"
proof (induction rule: rtranclp_induct)
  case base
  show ?case by (simp add: no_threads_def)
next
  case (step a b)
  from step(2) show ?case
  proof cases
    case (ends fd)
    then have "Suc (length (remove1 fd (handlers a))) = length (handlers a)"
      using length_pos_if_in_set [of fd "handlers a"] by (simp add: length_remove1)
    then have "(of_nat (length (handlers a)) :: u16) = of_nat (length (remove1 fd (handlers a))) + 1"
      by (simp add: of_nat_Suc [symmetric] add.commute del: of_nat_Suc)
    with ends step(3) show ?thesis by (simp add: cleanup_thread_def)
  qed (use step(3) in \<open>auto simp: accept_client_def poll_timeout_def sighandler_def\<close>)
qed

text \<open>The count of the threads is their number modulo 65536; with fewer than 65536 clients, the daemon
  quits after a time without a new one exactly if it has none.\<close>

lemma daemon_waits_for_clients:
  assumes "daemon_step\<^sup>*\<^sup>* no_threads ti"
  shows "unat (running_threads ti) = length (handlers ti) mod 65536
    \<and> (quit_loop (poll_timeout ti) \<longleftrightarrow> length (handlers ti) mod 65536 = 0)
    \<and> (length (handlers ti) < 65536 \<longrightarrow> (quit_loop (poll_timeout ti) \<longleftrightarrow> handlers ti = []))"
proof -
  have u: "unat (running_threads ti) = length (handlers ti) mod 65536"
    using threads_counted [OF assms] by (simp add: unat_of_nat)
  moreover have "quit_loop (poll_timeout ti) \<longleftrightarrow> unat (running_threads ti) = 0"
    by (simp add: poll_timeout_def unat_eq_zero)
  ultimately show ?thesis by auto
qed

lemma daemon_waits_for_clients_example:
  "daemon_step\<^sup>*\<^sup>* no_threads (accept_client 5 no_threads) \<and> \<not> quit_loop (poll_timeout (accept_client 5 no_threads))"
proof -
  have 1: "daemon_step\<^sup>*\<^sup>* no_threads (accept_client 5 no_threads)"
    by (intro r_into_rtranclp daemon_step.client) (simp add: no_threads_def)
  have 2: "handlers (accept_client 5 no_threads) = [5]" by (simp add: accept_client_def no_threads_def)
  show ?thesis using daemon_waits_for_clients [OF 1] 1 by (simp add: 2)
qed

end
