(* ===== verification/Testing.thy ===== *)
theory Testing
  imports CFloat
begin

section \<open>The measurements of bandwidth (Testing.c, TestingX86.c)\<close>

text \<open>
  \<^verbatim>\<open>src/src/core/bandwidth/TestingX86.c\<close> measures how fast the memory is read, written and
  copied: it allocates a block, calls an assembly routine on it until enough time has passed, and
  computes the rate (\<^verbatim>\<open>Testing.c\<close>). The model is that of the build for x86-64.

  The clock, \<^verbatim>\<open>rand\<close> and \<^verbatim>\<open>malloc\<close> are parameters (\<open>bw_env\<close>). \<open>bw_log\<close> records the
  blocks that are allocated and freed, the stores made here and the calls of the routines, whose own work
  is to access the memory they are given. An operation yields \<open>None\<close> when its loop never ends or calls a
  routine that does not come back (\<open>routine_returns\<close>), and \<open>Inl c\<close> when it ends the program with code
  \<open>c\<close>.

  The routines (\<^verbatim>\<open>routines-x86-64bit.asm\<close>) work in steps of 256 bytes. Those that read or write a
  block test for its end behind every step, and thus round its size up and make one step at least
  (\<open>span\<close>); those on chunks read the next pointer of the array they are given in every step, and make
  one step at least, too; the copying ones round the size down.
\<close>

datatype TestingMode = SIZE_MAIN_REGISTER | SIZE_VECTOR_128 | SIZE_VECTOR_256 | SIZE_VECTOR_512
  | SIZE_MAIN_REGISTER_NONTEMPORAL | SIZE_VECTOR_128_NONTEMPORAL | SIZE_VECTOR_256_NONTEMPORAL
  | SIZE_VECTOR_512_NONTEMPORAL

record testing_x86 =
  use_sse2 :: bool
  use_sse4 :: bool
  use_avx :: bool
  use_avx512 :: bool
  use_direct_transfers :: bool

definition TEST_UNSUPPORTED :: int where "TEST_UNSUPPORTED = - 1"
definition TEST_SUPPORTED :: int where "TEST_SUPPORTED = 0"

text \<open>Names of routines, addresses, sizes, numbers of loops, and the value that is written; for
  \<open>On_Chunks\<close> the address of the array of pointers, the pointers in it and their number.\<close>

datatype bw_event =
    Malloc u64 u64
  | Store u64 u64
  | On_Chunk string u64 u64 u64 "u64 option"
  | On_Chunks string u64 "u64 list" u64 u64 "u64 option"
  | On_Copy string u64 u64 u64 u64
  | On_Registers string u64
  | Free u64

text \<open>The bytes from the start of a block that a sequential routine accesses, and the pointers that one on
  chunks does.\<close>

definition span :: "u64 \<Rightarrow> nat" where
  "span n = 256 * max 1 ((unat n + 255) div 256)"

definition pointers_used :: "u64 \<Rightarrow> nat" where
  "pointers_used n = max 1 (unat n)"

text \<open>A copy of less than 256 bytes subtracts 256 from 0 until it is 0 again, in \<open>2 ^ 56\<close> steps through the
  whole memory; a routine on chunks without a pointer follows what lies behind an array of no elements.
  Neither is taken to come back.\<close>

fun routine_returns :: "bw_event \<Rightarrow> bool" where
  "routine_returns (On_Copy f d p n l) = (256 \<le> unat n)"
| "routine_returns (On_Chunks f a ps n l v) = (0 < unat n)"
| "routine_returns _ = True"

record bw_env =
  clock :: "nat \<Rightarrow> u64"
  rand_value :: "nat \<Rightarrow> nat"
  malloc_at :: "nat \<Rightarrow> u64 \<Rightarrow> u64"

record bw_state =
  bw_reads :: nat
  bw_rands :: nat
  bw_mallocs :: nat
  bw_log :: "bw_event list"
  bw_out :: string
  bw_err :: string

definition say :: "string \<Rightarrow> bw_state \<Rightarrow> bw_state" where
  "say t s = s\<lparr>bw_out := bw_out s @ t\<rparr>"

definition event :: "bw_event \<Rightarrow> bw_state \<Rightarrow> bw_state" where
  "event e s = s\<lparr>bw_log := bw_log s @ [e]\<rparr>"

definition events :: "bw_event list \<Rightarrow> bw_state \<Rightarrow> bw_state" where
  "events es s = s\<lparr>bw_log := bw_log s @ es\<rparr>"

definition getMicrosecondTime :: "bw_env \<Rightarrow> bw_state \<Rightarrow> u64 \<times> bw_state" where
  "getMicrosecondTime en s = (clock en (bw_reads s), s\<lparr>bw_reads := bw_reads s + 1\<rparr>)"

definition next_rand :: "bw_env \<Rightarrow> bw_state \<Rightarrow> nat \<times> bw_state" where
  "next_rand en s = (rand_value en (bw_rands s), s\<lparr>bw_rands := bw_rands s + 1\<rparr>)"

definition malloc_block :: "bw_env \<Rightarrow> u64 \<Rightarrow> bw_state \<Rightarrow> u64 \<times> bw_state" where
  "malloc_block en n s = (let p = malloc_at en (bw_mallocs s) n; s = s\<lparr>bw_mallocs := bw_mallocs s + 1\<rparr>
     in (p, if p = 0 then s else event (Malloc p n) s))"

text \<open>\<^verbatim>\<open>error\<close> and \<^verbatim>\<open>warning\<close> of \<^verbatim>\<open>OOC/ObjectOriented.h\<close>\<close>

definition bw_error :: "string \<Rightarrow> string \<Rightarrow> bw_state \<Rightarrow> (nat + 'a) \<times> bw_state" where
  "bw_error f m s = (Inl 1, s\<lparr>bw_err := bw_err s @ ''Error ('' @ f @ ''): '' @ m @ ''\<newline>''\<rparr>)"

definition bw_warning :: "string \<Rightarrow> string \<Rightarrow> bw_state \<Rightarrow> bw_state" where
  "bw_warning f m s = s\<lparr>bw_err := bw_err s @ ''Warning ('' @ f @ ''): '' @ m @ ''\<newline>''\<rparr>"

subsection \<open>Extended precision\<close>

text \<open>A \<^verbatim>\<open>long double\<close> of x86 that is not negative: a mantissa of 64 bits and an exponent, as the
  floats of \<open>CFloat\<close>.\<close>

definition ld_shift :: "int \<Rightarrow> cfloat \<Rightarrow> cfloat" where
  "ld_shift k x = (if fst x = 0 then (0, 0) else (fst x, snd x + k))"

definition ld_ratio :: "nat \<Rightarrow> nat \<Rightarrow> cfloat" where
  "ld_ratio n d = (if n = 0 then (0, 0) else
     let e0 = int (bit_len n) - int (bit_len d);
         e = (if pow_le e0 n d then e0 - 63 else e0 - 64)
     in (rne_scaled n d e, e))"

definition ld_of_nat :: "nat \<Rightarrow> cfloat" where
  "ld_of_nat n = ld_ratio n 1"

definition ld_mul :: "cfloat \<Rightarrow> cfloat \<Rightarrow> cfloat" where
  "ld_mul x y = ld_shift (snd x + snd y) (ld_ratio (fst x * fst y) 1)"

definition ld_div :: "cfloat \<Rightarrow> cfloat \<Rightarrow> cfloat" where
  "ld_div x y = ld_shift (snd x - snd y) (ld_ratio (fst x) (fst y))"

definition ld_trunc :: "cfloat \<Rightarrow> nat" where
  "ld_trunc x = (if 0 \<le> snd x then fst x * 2 ^ nat (snd x) else fst x div 2 ^ nat (- snd x))"

subsection \<open>Testing.c\<close>

text \<open>\<^verbatim>\<open>printInt\<close> and \<^verbatim>\<open>printUnsigned\<close> take 32 bits.\<close>

definition int_text :: "u64 \<Rightarrow> string" where
  "int_text x = sdec (sint (ucast x :: u32))"

definition unsigned_text :: "u64 \<Rightarrow> string" where
  "unsigned_text x = udec (unat (ucast x :: u32))"

definition Testing_printSize :: "u64 \<Rightarrow> string" where
  "Testing_printSize sz =
     (if sz < 1536 then int_text sz @ '' B''
      else if sz < 1048576 then int_text (drop_bit 10 sz) @ '' kB''
      else int_text (drop_bit 20 sz)
        @ (let q = drop_bit 18 sz AND 3 in
           if q = 1 then ''.25'' else if q = 2 then ''.5'' else if q = 3 then ''.75'' else '''') @ '' MB'')"

definition result_value :: "u64 \<Rightarrow> u64 \<Rightarrow> u64 \<Rightarrow> cfloat" where
  "result_value chunk_size total_loops diff =
     ld_div (ld_div (ld_mul (ld_mul (ld_of_nat (unat chunk_size)) (ld_of_nat (unat total_loops)))
       (ld_of_nat 1000000)) (ld_of_nat 1048576)) (ld_of_nat (unat diff))"

text \<open>The value converted to \<^verbatim>\<open>long\<close> is returned as an \<^verbatim>\<open>int\<close>, its low 32 bits.\<close>

definition Testing_calculateResult :: "u64 \<Rightarrow> u64 \<Rightarrow> u64 \<Rightarrow> bw_state \<Rightarrow> int \<times> bw_state" where
  "Testing_calculateResult chunk_size total_loops diff s =
     (if diff = 0 then (0, bw_warning ''Testing_calculateResult'' ''Zero time difference... ignoring.'' s)
      else let r = result_value chunk_size total_loops diff in
        (sint (word_of_nat (ld_trunc (ld_mul (ld_of_nat 10) r)) :: u32), say (printf_f 1 r @ '' MB/s\<newline>'') s))"


subsection \<open>Which tests there are\<close>

definition supported_if :: "bool \<Rightarrow> int" where
  "supported_if b = (if \<not> b then TEST_UNSUPPORTED else TEST_SUPPORTED)"

text \<open>The answers to \<^verbatim>\<open>CHECK_WHETHER_SUPPORTED\<close>\<close>

definition write_supported :: "testing_x86 \<Rightarrow> TestingMode \<Rightarrow> bool \<Rightarrow> int" where
  "write_supported self mode random =
     (if \<not> random then (case mode of
          SIZE_MAIN_REGISTER \<Rightarrow> TEST_SUPPORTED
        | SIZE_MAIN_REGISTER_NONTEMPORAL \<Rightarrow> supported_if (use_sse2 self)
        | SIZE_VECTOR_128 \<Rightarrow> supported_if (use_sse2 self)
        | SIZE_VECTOR_128_NONTEMPORAL \<Rightarrow> supported_if (use_sse2 self)
        | SIZE_VECTOR_256 \<Rightarrow> supported_if (use_avx self)
        | SIZE_VECTOR_256_NONTEMPORAL \<Rightarrow> supported_if (use_avx self)
        | SIZE_VECTOR_512 \<Rightarrow> supported_if (use_avx512 self)
        | SIZE_VECTOR_512_NONTEMPORAL \<Rightarrow> supported_if (use_avx512 self))
      else (case mode of
          SIZE_MAIN_REGISTER \<Rightarrow> TEST_SUPPORTED
        | SIZE_MAIN_REGISTER_NONTEMPORAL \<Rightarrow> TEST_UNSUPPORTED
        | SIZE_VECTOR_128 \<Rightarrow> supported_if (use_sse2 self)
        | SIZE_VECTOR_128_NONTEMPORAL \<Rightarrow> supported_if (use_sse2 self)
        | SIZE_VECTOR_256 \<Rightarrow> supported_if (use_avx self)
        | SIZE_VECTOR_256_NONTEMPORAL \<Rightarrow> supported_if (use_avx self)
        | SIZE_VECTOR_512 \<Rightarrow> TEST_UNSUPPORTED
        | SIZE_VECTOR_512_NONTEMPORAL \<Rightarrow> TEST_UNSUPPORTED))"

definition read_supported :: "testing_x86 \<Rightarrow> TestingMode \<Rightarrow> bool \<Rightarrow> int" where
  "read_supported self mode random =
     (if \<not> random then (case mode of
          SIZE_MAIN_REGISTER \<Rightarrow> TEST_SUPPORTED
        | SIZE_MAIN_REGISTER_NONTEMPORAL \<Rightarrow> TEST_UNSUPPORTED
        | SIZE_VECTOR_128 \<Rightarrow> supported_if (use_sse2 self)
        | SIZE_VECTOR_128_NONTEMPORAL \<Rightarrow> supported_if (use_sse4 self)
        | SIZE_VECTOR_256 \<Rightarrow> supported_if (use_avx self)
        | SIZE_VECTOR_256_NONTEMPORAL \<Rightarrow> supported_if (use_avx self)
        | SIZE_VECTOR_512 \<Rightarrow> supported_if (use_avx512 self)
        | SIZE_VECTOR_512_NONTEMPORAL \<Rightarrow> supported_if (use_avx512 self))
      else (case mode of
          SIZE_MAIN_REGISTER \<Rightarrow> TEST_SUPPORTED
        | SIZE_MAIN_REGISTER_NONTEMPORAL \<Rightarrow> TEST_UNSUPPORTED
        | SIZE_VECTOR_128 \<Rightarrow> supported_if (use_sse2 self)
        | SIZE_VECTOR_128_NONTEMPORAL \<Rightarrow> supported_if (use_sse4 self)
        | SIZE_VECTOR_256 \<Rightarrow> supported_if (use_avx self)
        | SIZE_VECTOR_256_NONTEMPORAL \<Rightarrow> TEST_UNSUPPORTED
        | SIZE_VECTOR_512 \<Rightarrow> TEST_UNSUPPORTED
        | SIZE_VECTOR_512_NONTEMPORAL \<Rightarrow> TEST_UNSUPPORTED))"

definition copy_supported :: "testing_x86 \<Rightarrow> TestingMode \<Rightarrow> int" where
  "copy_supported self mode = (case mode of
       SIZE_MAIN_REGISTER \<Rightarrow> TEST_SUPPORTED
     | SIZE_MAIN_REGISTER_NONTEMPORAL \<Rightarrow> TEST_UNSUPPORTED
     | SIZE_VECTOR_128 \<Rightarrow> supported_if (use_sse2 self)
     | SIZE_VECTOR_256 \<Rightarrow> supported_if (use_avx self)
     | SIZE_VECTOR_512 \<Rightarrow> supported_if (use_avx512 self)
     | SIZE_VECTOR_128_NONTEMPORAL \<Rightarrow> TEST_UNSUPPORTED
     | SIZE_VECTOR_256_NONTEMPORAL \<Rightarrow> TEST_UNSUPPORTED
     | SIZE_VECTOR_512_NONTEMPORAL \<Rightarrow> TEST_UNSUPPORTED)"

subsection \<open>The block and the pointers into it\<close>

definition align_up :: "u64 \<Rightarrow> u64 \<Rightarrow> u64" where
  "align_up m p = (if p AND m \<noteq> 0 then p - (p AND m) + (m + 1) else p)"

definition chunk_of :: "TestingMode \<Rightarrow> u64 \<Rightarrow> u64" where
  "chunk_of mode chunk0 =
     (if mode \<noteq> SIZE_VECTOR_512 \<and> mode \<noteq> SIZE_VECTOR_512_NONTEMPORAL then align_up 31 chunk0 else align_up 63 chunk0)"

text \<open>\<^verbatim>\<open>for (i = 0; i < nChunks; i += 16) { *touchPtr = 0; touchPtr += 4096; }\<close>\<close>

definition touch_blocks :: "u64 \<Rightarrow> u64 \<Rightarrow> bw_state \<Rightarrow> bw_state" where
  "touch_blocks chunk n s =
     events (map (\<lambda>k. Store (chunk + of_nat (4096 * k)) 1) [0..<(unat n + 15) div 16]) s"

definition swap :: "nat \<Rightarrow> nat \<Rightarrow> 'a list \<Rightarrow> 'a list" where
  "swap i j xs = (if i \<noteq> j then xs[i := xs ! j, j := xs ! i] else xs)"

text \<open>One round of the loop \<^verbatim>\<open>while (k--)\<close>: every element is exchanged with a random one.\<close>

fun shuffle_from :: "bw_env \<Rightarrow> nat list \<Rightarrow> u64 list \<Rightarrow> bw_state \<Rightarrow> u64 list \<times> bw_state" where
  "shuffle_from en [] ptrs s = (ptrs, s)"
| "shuffle_from en (i # is) ptrs s = (let (r, s) = next_rand en s
     in shuffle_from en is (swap i (r mod length ptrs) ptrs) s)"

definition N_RANDOMIZATION_LOOPS :: nat where "N_RANDOMIZATION_LOOPS = 2"

fun shuffle_rounds :: "bw_env \<Rightarrow> nat \<Rightarrow> u64 list \<Rightarrow> bw_state \<Rightarrow> u64 list \<times> bw_state" where
  "shuffle_rounds en 0 ptrs s = (ptrs, s)"
| "shuffle_rounds en (Suc k) ptrs s = (let (ptrs, s) = shuffle_from en [0..<length ptrs] ptrs s
     in shuffle_rounds en k ptrs s)"

text \<open>\<^verbatim>\<open>((char*)chunk) + 256 * i\<close> with an \<^verbatim>\<open>int i\<close>: the product has 32 bits, in two's
  complement, and is extended with its sign. (From \<open>i = 2 ^ 23\<close> on, behind 2 GiB, C leaves it undefined.)\<close>

definition chunk_offset :: "nat \<Rightarrow> u64" where
  "chunk_offset i = scast (256 * of_nat i :: u32)"

definition chunk_pointers :: "u64 \<Rightarrow> u64 \<Rightarrow> u64 list" where
  "chunk_pointers chunk n = map (\<lambda>i. chunk + chunk_offset i) [0..<unat n]"

text \<open>The address of the array of pointers, or 0, and the pointers.\<close>

definition random_chunks ::
    "bw_env \<Rightarrow> string \<Rightarrow> u64 \<Rightarrow> u64 \<Rightarrow> bw_state \<Rightarrow> (nat + u64 \<times> u64 list) \<times> bw_state" where
  "random_chunks en f chunk n s = (let (p, s) = malloc_block en (8 * n) s in
     if p = 0 then bw_error f ''Out of memory.'' s
     else let (ptrs, s) = shuffle_rounds en N_RANDOMIZATION_LOOPS (chunk_pointers chunk n)
            (event (Store p (8 * n)) s)
       in (Inr (p, ptrs), s))"

subsection \<open>The measuring loop\<close>

text \<open>
  \<^verbatim>\<open>while (diff < usec_per_test) { total_count += loops; ...; diff = now - t0; }\<close>. The routines called
  depend on the mode only; \<open>None\<close> in their place is \<^verbatim>\<open>return TEST_UNSUPPORTED\<close> in the loop. The
  loop yields \<open>None\<close> if it never ends or if one of its routines does not come back.
\<close>

partial_function (option) measure_loop ::
    "bw_env \<Rightarrow> u64 \<Rightarrow> bw_event list option \<Rightarrow> u64 \<Rightarrow> u64 \<Rightarrow> u64 \<Rightarrow> u64 \<Rightarrow> bw_state
      \<Rightarrow> ((u64 \<times> u64) option \<times> bw_state) option" where
  "measure_loop en usec calls loops t0 diff tot s =
     (if diff < usec then (case calls of
        None \<Rightarrow> Some (None, s)
      | Some es \<Rightarrow> if list_all routine_returns es
          then (case getMicrosecondTime en (events es s) of
            (t, s) \<Rightarrow> measure_loop en usec calls loops t0 (t - t0) (tot + loops) s)
          else None)
      else Some (Some (diff, tot), s))"

definition loops_for :: "u64 \<Rightarrow> u64 \<Rightarrow> u64" where
  "loops_for tot sz = (let loops = tot div sz in if loops < 1 then 1 else loops)"

definition mode_text :: "TestingMode \<Rightarrow> string" where
  "mode_text mode = (case mode of
       SIZE_VECTOR_128 \<Rightarrow> ''(128-bit), size = ''
     | SIZE_VECTOR_256 \<Rightarrow> ''(256-bit), size = ''
     | SIZE_VECTOR_512 \<Rightarrow> ''(512-bit), size = ''
     | SIZE_VECTOR_128_NONTEMPORAL \<Rightarrow> ''nontemporal (128-bit), size = ''
     | SIZE_VECTOR_256_NONTEMPORAL \<Rightarrow> ''nontemporal (256-bit), size = ''
     | SIZE_VECTOR_512_NONTEMPORAL \<Rightarrow> ''nontemporal (512-bit), size = ''
     | SIZE_MAIN_REGISTER \<Rightarrow> ''(64-bit), size = ''
     | SIZE_MAIN_REGISTER_NONTEMPORAL \<Rightarrow> ''nontemporal (64-bit), size = '')"

text \<open>What the three tests have in common: the text before the loop, the loop, the result.\<close>

definition measure_test ::
    "bw_env \<Rightarrow> u64 \<Rightarrow> string \<Rightarrow> (u64 \<Rightarrow> string) \<Rightarrow> u64 \<Rightarrow> bw_event list option \<Rightarrow> u64 \<Rightarrow> bw_event list
      \<Rightarrow> bw_state \<Rightarrow> ((nat + int) \<times> bw_state) option" where
  "measure_test en usec title show sz calls loops frees s = (let
     s = say (title @ Testing_printSize sz @ '', '') s;
     (t0, s) = getMicrosecondTime en s
   in case measure_loop en usec calls loops t0 0 0 s of
       None \<Rightarrow> None
     | Some (None, s) \<Rightarrow> Some (Inr TEST_UNSUPPORTED, s)
     | Some (Some (diff, tot), s) \<Rightarrow> (let
         s = say (''loops = '' @ show tot @ '', '') s;
         (r, s) = Testing_calculateResult sz tot diff s
       in Some (Inr r, events frees s)))"


subsection \<open>Write, read, copy\<close>

definition write_value :: u64 where "write_value = 0x1234567689abcdef"

definition write_routines ::
    "TestingMode \<Rightarrow> bool \<Rightarrow> u64 \<Rightarrow> u64 \<Rightarrow> u64 list \<Rightarrow> u64 \<Rightarrow> u64 \<Rightarrow> bw_event list option" where
  "write_routines mode random chunk arr ptrs sz loops = (let
     seq = (\<lambda>name. On_Chunk name chunk sz loops (Some write_value));
     rnd = (\<lambda>name. On_Chunks name arr ptrs (sz div 256) loops (Some write_value))
   in case mode of
       SIZE_VECTOR_128 \<Rightarrow> Some [if random then rnd ''RandomWriterSSE2'' else seq ''WriterSSE2'']
     | SIZE_VECTOR_128_NONTEMPORAL \<Rightarrow>
         Some [if random then rnd ''RandomWriterSSE2_nontemporal'' else seq ''WriterSSE2_nontemporal'']
     | SIZE_VECTOR_256 \<Rightarrow> Some [if \<not> random then seq ''WriterAVX'' else rnd ''RandomWriterAVX'']
     | SIZE_VECTOR_512 \<Rightarrow> Some (if \<not> random then [seq ''WriterAVX512''] else [])
     | SIZE_VECTOR_256_NONTEMPORAL \<Rightarrow>
         Some [if \<not> random then seq ''WriterAVX_nontemporal'' else rnd ''RandomWriterAVX_nontemporal'']
     | SIZE_VECTOR_512_NONTEMPORAL \<Rightarrow> if \<not> random then Some [seq ''WriterAVX512_nontemporal''] else None
     | SIZE_MAIN_REGISTER \<Rightarrow> Some [if random then rnd ''RandomWriter'' else seq ''Writer'']
     | SIZE_MAIN_REGISTER_NONTEMPORAL \<Rightarrow>
         Some (if \<not> random
               then [seq ''Writer_nontemporal'', On_Chunk ''Reader_nontemporal'' chunk sz loops None] else []))"

definition TestingX86_write ::
    "bw_env \<Rightarrow> u64 \<Rightarrow> testing_x86 \<Rightarrow> u64 \<Rightarrow> TestingMode \<Rightarrow> bool \<Rightarrow> bw_state \<Rightarrow> ((nat + int) \<times> bw_state) option" where
  "TestingX86_write en usec self sz mode random s =
     (if sz = 0 then Some (Inr (write_supported self mode random), s)
      else case malloc_block en (sz + 128) s of (chunk0, s) \<Rightarrow>
       (if chunk0 = 0 then Some (bw_error ''TestingX86_write'' ''Out of memory'' s)
        else let chunk = chunk_of mode chunk0; loops = loops_for (2 ^ 26) sz;
               title = (if random then ''Random write '' else ''Sequential write '') @ mode_text mode
          in if \<not> random
             then measure_test en usec title unsigned_text sz
                    (write_routines mode False chunk 0 [] sz loops) loops [Free chunk0] s
             else (case random_chunks en ''TestingX86_write'' chunk (sz div 256) s of
                 (Inl c, s) \<Rightarrow> Some (Inl c, s)
               | (Inr (p, ptrs), s) \<Rightarrow> measure_test en usec title unsigned_text sz
                    (write_routines mode True chunk p ptrs sz loops) loops [Free chunk0, Free p] s)))"

definition read_routines ::
    "TestingMode \<Rightarrow> bool \<Rightarrow> u64 \<Rightarrow> u64 \<Rightarrow> u64 list \<Rightarrow> u64 \<Rightarrow> u64 \<Rightarrow> bw_event list option" where
  "read_routines mode random chunk arr ptrs sz loops = (let
     seq = (\<lambda>name. On_Chunk name chunk sz loops None);
     rnd = (\<lambda>name. On_Chunks name arr ptrs (sz div 256) loops None)
   in case mode of
       SIZE_MAIN_REGISTER \<Rightarrow> Some [if random then rnd ''RandomReader'' else seq ''Reader'']
     | SIZE_MAIN_REGISTER_NONTEMPORAL \<Rightarrow> Some (if \<not> random then [seq ''Reader_nontemporal''] else [])
     | SIZE_VECTOR_128 \<Rightarrow> Some [if random then rnd ''RandomReaderSSE2'' else seq ''ReaderSSE2'']
     | SIZE_VECTOR_128_NONTEMPORAL \<Rightarrow>
         Some [if random then rnd ''RandomReaderSSE4_nontemporal'' else seq ''ReaderSSE4_nontemporal'']
     | SIZE_VECTOR_256 \<Rightarrow> Some [if \<not> random then seq ''ReaderAVX'' else rnd ''RandomReaderAVX'']
     | SIZE_VECTOR_256_NONTEMPORAL \<Rightarrow> if \<not> random then Some [seq ''ReaderAVX_nontemporal''] else None
     | SIZE_VECTOR_512 \<Rightarrow> if \<not> random then Some [seq ''ReaderAVX512''] else None
     | SIZE_VECTOR_512_NONTEMPORAL \<Rightarrow> if \<not> random then Some [seq ''ReaderAVX512_nontemporal''] else None)"

definition TestingX86_read ::
    "bw_env \<Rightarrow> u64 \<Rightarrow> testing_x86 \<Rightarrow> u64 \<Rightarrow> TestingMode \<Rightarrow> bool \<Rightarrow> bw_state \<Rightarrow> ((nat + int) \<times> bw_state) option" where
  "TestingX86_read en usec self sz mode random s =
     (if sz = 0 then Some (Inr (read_supported self mode random), s)
      else case malloc_block en (sz + 128) s of (chunk0, s) \<Rightarrow>
       (if chunk0 = 0 then Some (bw_error ''TestingX86_read'' ''Out of memory'' s)
        else let chunk = chunk_of mode chunk0; s = touch_blocks chunk (sz div 256) s;
               loops = loops_for (2 ^ 29) sz;
               title = (if random then ''Random read '' else ''Sequential read '') @ mode_text mode
          in if \<not> random
             then measure_test en usec title unsigned_text sz
                    (read_routines mode False chunk 0 [] sz loops) loops [Free chunk0] s
             else (case random_chunks en ''TestingX86_read'' chunk (sz div 256) s of
                 (Inl c, s) \<Rightarrow> Some (Inl c, s)
               | (Inr (p, ptrs), s) \<Rightarrow> measure_test en usec title unsigned_text sz
                    (read_routines mode True chunk p ptrs sz loops) loops [Free chunk0, Free p] s)))"

definition copy_routines :: "TestingMode \<Rightarrow> u64 \<Rightarrow> u64 \<Rightarrow> u64 \<Rightarrow> u64 \<Rightarrow> bw_event list option" where
  "copy_routines mode dest src sz loops =
     (if mode = SIZE_MAIN_REGISTER then Some [On_Copy ''CopyWithMainRegisters'' dest src sz loops]
      else if mode = SIZE_VECTOR_128 then Some [On_Copy ''CopySSE'' dest src sz loops]
      else if mode = SIZE_VECTOR_256 then Some [On_Copy ''CopyAVX'' dest src sz loops]
      else if mode = SIZE_VECTOR_512 then Some [On_Copy ''CopyAVX512'' dest src sz loops]
      else Some [])"

definition copy_mode_text :: "TestingMode \<Rightarrow> string" where
  "copy_mode_text mode =
     (if mode \<in> {SIZE_MAIN_REGISTER, SIZE_VECTOR_128, SIZE_VECTOR_256, SIZE_VECTOR_512} then mode_text mode else '''')"

definition TestingX86_copy ::
    "bw_env \<Rightarrow> u64 \<Rightarrow> testing_x86 \<Rightarrow> u64 \<Rightarrow> TestingMode \<Rightarrow> bool \<Rightarrow> bw_state \<Rightarrow> ((nat + int) \<times> bw_state) option" where
  "TestingX86_copy en usec self sz mode random s =
     (if sz = 0 then Some (Inr (copy_supported self mode), s)
      else if mode \<in> {SIZE_VECTOR_128_NONTEMPORAL, SIZE_VECTOR_256_NONTEMPORAL, SIZE_VECTOR_512_NONTEMPORAL}
      then Some (Inr TEST_UNSUPPORTED, s)
      else case malloc_block en (sz + 128) s of (src0, s) \<Rightarrow>
       (if src0 = 0 then Some (bw_error ''TestingX86_copy'' ''Out of memory'' s)
        else case malloc_block en (sz + 128) s of (dest0, s) \<Rightarrow>
         (if dest0 = 0 then Some (bw_error ''TestingX86_copy'' ''Out of memory'' s)
          else let s = events [Store src0 sz, Store dest0 sz] s; loops = loops_for (2 ^ 26) sz
            in measure_test en usec (''Sequential copy '' @ copy_mode_text mode) (udec \<circ> unat) sz
                 (copy_routines mode (align_up 63 dest0) (align_up 63 src0) sz loops) loops
                 [Free src0, Free dest0] s)))"

end
