(* ===== verification/Cpu.thy ===== *)
theory Cpu
  imports Options
begin

section \<open>What the processor can do (OOC/CPU.c)\<close>

text \<open>
  \<^verbatim>\<open>CPU_features\<close> and the tables of sizes of caches of
  \<^verbatim>\<open>src/src/core/bandwidth/OOC/CPU.c\<close>, for x86-64 and Linux. The registers that the
  instruction \<^verbatim>\<open>cpuid\<close> returns, the number of cores and the files under
  \<^verbatim>\<open>/sys/devices/system/cpu\<close> are parameters.
\<close>

record cpuid =
  cpuid1_ecx :: u32
  cpuid1_edx :: u32
  cpuid7_ebx :: u32
  cpuid7_ecx :: u32
  cpuid7_edx :: u32
  cpuid_80000001_ecx :: u32
  cpuid_80000001_edx :: u32

definition has_bit :: "u32 \<Rightarrow> nat \<Rightarrow> bool" where
  "has_bit r n = (r AND push_bit n 1 \<noteq> 0)"

definition names_of :: "u32 \<Rightarrow> (nat \<times> string) list \<Rightarrow> string list" where
  "names_of r table = map snd (filter (\<lambda>(n, _). has_bit r n) table)"

definition features1_ecx :: "(nat \<times> string) list" where
  "features1_ecx = [(29, ''f16c''), (0, ''sse3''), (9, ''ssse3''), (19, ''sse41''), (20, ''sse42''), (25, ''aes''),
     (28, ''avx''), (31, ''hyper''), (23, ''popcnt''), (8, ''tm2'')]"

definition features1_edx :: "(nat \<times> string) list" where
  "features1_edx = [(29, ''tm''), (15, ''cmov''), (22, ''acpi''), (28, ''htt''), (26, ''sse2''), (23, ''mmx''), (25, ''sse'')]"

definition features7_ebx :: "(nat \<times> string) list" where
  "features7_ebx = [(19, ''adx''), (3, ''bmi1''), (8, ''bmi2''), (14, ''mpx''), (18, ''rdseed''), (29, ''sha''), (2, ''sgx'')]"

definition features7_ebx_avx :: "(nat \<times> string) list" where
  "features7_ebx_avx = [(5, ''avx2''), (31, ''avx512vl''), (16, ''avx512f''), (17, ''avx512dq''), (21, ''avx512ifma''),
     (26, ''avx512pf''), (27, ''avx512er''), (28, ''avx512cd''), (30, ''avx512bw'')]"

definition features7_ecx_avx512 :: "(nat \<times> string) list" where
  "features7_ecx_avx512 = [(11, ''avx512vnni''), (1, ''avx512vbmi''), (6, ''avx512vbmi2''), (12, ''avx512bitalg''),
     (14, ''avx512vpopcntdq'')]"

definition features7_edx_avx512 :: "(nat \<times> string) list" where
  "features7_edx_avx512 = [(23, ''avx512fp16''), (8, ''avx512vp2intersect''), (2, ''avx512_4vnniw''), (3, ''avx512_4fmaps'')]"

definition have_sse :: "cpuid \<Rightarrow> bool" where
  "have_sse c = has_bit (cpuid1_edx c) 25"

definition have_avx :: "cpuid \<Rightarrow> bool" where
  "have_avx c = has_bit (cpuid1_ecx c) 28"

definition have_avx512 :: "cpuid \<Rightarrow> bool" where
  "have_avx512 c = (have_avx c \<and> has_bit (cpuid7_ebx c) 16 \<and> has_bit (cpuid7_ebx c) 17)"

text \<open>The names, before they are sorted.\<close>

definition CPU_features :: "cpuid \<Rightarrow> string list" where
  "CPU_features c =
     names_of (cpuid1_ecx c) features1_ecx
     @ names_of (cpuid1_edx c) features1_edx
     @ names_of (cpuid7_ebx c) features7_ebx
     @ (if have_avx c then names_of (cpuid7_ebx c) features7_ebx_avx else [])
     @ names_of (cpuid7_ecx c) [(7, ''cet''), (9, ''vaes'')]
     @ (if have_avx512 c
        then names_of (cpuid7_ecx c) features7_ecx_avx512 @ names_of (cpuid7_edx c) features7_edx_avx512 else [])
     @ names_of (cpuid7_ecx c) [(27, ''movdiri''), (28, ''movdir64b'')]
     @ names_of (cpuid7_edx c) [(15, ''hybrid''), (22, ''amx_bf16''), (24, ''amx_tile''), (25, ''amx_int8'')]
     @ names_of (cpuid_80000001_ecx c) [(5, ''lzcnt''), (8, ''prefetchw'')]
     @ names_of (cpuid_80000001_edx c) [(20, ''nx''), (22, ''mmxext''), (29, ''intel64'')]"

definition CPU_has128bitVectors :: "cpuid \<Rightarrow> bool" where
  "CPU_has128bitVectors c = have_sse c"

definition CPU_has256bitVectors :: "cpuid \<Rightarrow> bool" where
  "CPU_has256bitVectors c = have_avx c"

definition CPU_has512bitVectors :: "cpuid \<Rightarrow> bool" where
  "CPU_has512bitVectors c = have_avx512 c"

subsection \<open>Sizes of caches\<close>

text \<open>The sizes in KiB, the same for all cores when they come from \<^verbatim>\<open>cpuid\<close>.\<close>

record cache_sizes =
  level1d_size :: u32
  level1i_size :: u32
  level2_size :: u32
  level3_size :: u32

definition no_sizes :: cache_sizes where
  "no_sizes = \<lparr>level1d_size = 0, level1i_size = 0, level2_size = 0, level3_size = 0\<rparr>"

text \<open>\<^verbatim>\<open>cache_info\<close>: the registers eax, ebx and ecx of leaf 4.\<close>

definition cache_size_of :: "u32 \<Rightarrow> u32 \<Rightarrow> u32" where
  "cache_size_of ebx ecx = drop_bit 10 ((1 + drop_bit 22 ebx) * (1 + (ebx AND 2047)) * (1 + ecx))"

definition store_cache :: "u32 \<times> u32 \<times> u32 \<Rightarrow> cache_sizes \<Rightarrow> cache_sizes" where
  "store_cache info t = (case info of (eax, ebx, ecx) \<Rightarrow> (let
     level = drop_bit 5 eax AND 7; type = eax AND 31; sz = cache_size_of ebx ecx
   in if level = 1 then
        (if type = 1 then t\<lparr>level1d_size := sz\<rparr> else if type = 2 then t\<lparr>level1i_size := sz\<rparr> else t)
      else if level = 2 then t\<lparr>level2_size := sz\<rparr>
      else if level = 3 then t\<lparr>level3_size := sz\<rparr> else t))"

text \<open>The loop over the subleaves ends at the first of type 0; there need not be one.\<close>

partial_function (option) fetch_cache_info ::
    "(nat \<Rightarrow> u32 \<times> u32 \<times> u32) \<Rightarrow> nat \<Rightarrow> cache_sizes \<Rightarrow> (nat \<times> cache_sizes) option" where
  "fetch_cache_info leaf4 i t =
     (if fst (leaf4 i) AND 31 = 0 then Some (i, t)
      else fetch_cache_info leaf4 (i + 1) (store_cache (leaf4 i) t))"

definition intel_x86_64_fetch_cache_info ::
    "bool \<Rightarrow> (nat \<Rightarrow> u32 \<times> u32 \<times> u32) \<Rightarrow> cache_sizes \<Rightarrow> (bool \<times> cache_sizes) option" where
  "intel_x86_64_fetch_cache_info intel leaf4 t =
     (if \<not> intel then Some (False, t)
      else if level1d_size t \<noteq> 0 then Some (True, t)
      else map_option (\<lambda>(i, t). (0 < i, t)) (fetch_cache_info leaf4 0 t))"

text \<open>The files of one core: for every index what the files \<^verbatim>\<open>type\<close>, \<^verbatim>\<open>size\<close> and
  \<^verbatim>\<open>level\<close> hold, up to the first index with a file missing.\<close>

definition store_sysfs :: "string \<times> u32 \<times> u32 \<Rightarrow> bool \<times> cache_sizes \<Rightarrow> bool \<times> cache_sizes" where
  "store_sysfs f r = (case f of (type, sz, level) \<Rightarrow> case r of (got, t) \<Rightarrow>
     if level = 1 then
       (True, if strcasecmp_eq ''instruction'' type then t\<lparr>level1i_size := sz\<rparr>
              else if strcasecmp_eq ''data'' type then t\<lparr>level1d_size := sz\<rparr> else t)
     else if level = 2 then (True, t\<lparr>level2_size := sz\<rparr>)
     else if level = 3 then (True, t\<lparr>level3_size := sz\<rparr>) else (got, t))"

definition linux_fetch_cache_info ::
    "(string \<times> u32 \<times> u32) list list \<Rightarrow> cache_sizes list \<Rightarrow> bool \<times> cache_sizes list" where
  "linux_fetch_cache_info sysfs ts =
     (if ts \<noteq> [] \<and> level1d_size (hd ts) \<noteq> 0 then (True, ts)
      else let rs = map2 (\<lambda>fs t. fold store_sysfs fs (False, t)) sysfs ts
        in (\<exists>r \<in> set rs. fst r, map snd rs))"

end
