(* ===== verification/Bandwidth.thy ===== *)
theory Bandwidth
  imports Testing Cpu Selection
begin

section \<open>The speed of the caches (main.c, libbandwidth.cpp)\<close>

text \<open>
  \<^verbatim>\<open>bandwidth_cpux\<close> of \<^verbatim>\<open>src/src/core/bandwidth/main.c\<close> measures the speed of
  every level of cache for one test; \<^verbatim>\<open>call_bandwidth\<close> of
  \<^verbatim>\<open>src/src/core/bandwidth/libbandwidth.cpp\<close> runs it in a thread and shows the speeds. The two
  share \<open>bandwidth_data\<close>. The loop of the thread is a sequence of rounds (\<open>cpux_round\<close>), so that a
  refresh can come between any two of them (\<open>bw_step\<close>).
\<close>

subsection \<open>Tests\<close>

text \<open>The sizes, in bytes. The array has no 0 at its end.\<close>

definition chunk_sizes :: "u64 list" where
  "chunk_sizes = [
     256, 512, 768, 1024, 1280, 2048, 3072, 4096, 6144, 8192, 12288, 16384, 20480, 24576, 28672,
      32768, 34816, 36864, 40960, 49152, 65536, 73728, 81920, 98304, 131072, 196608, 262144, 327680,
      393216, 491520, 524288, 786432, 1048576, 1310720, 1572864, 1835008, 2097152, 2359296, 2621440,
      2883584, 3145728, 3407872, 3670016, 4194304, 5242880, 6291456, 7340032, 8388608, 9437184,
      10485760, 11534336, 12582912, 13631488, 14680064, 15728640, 16777216, 20971520, 22020096,
      33554432, 50331648, 67108864, 75497472, 100663296, 134217728, 167772160, 201326592, 234881024,
      268435456, 335544320, 402653184, 503316480, 536870912, 671088640, 838860800, 1073741824]"

datatype EnTests = SEQ_WS_R | SEQ_128_R | SEQ_256_R | SEQ_512_R | SEQ_WS_NT_R | SEQ_128_NT_R
  | SEQ_256_NT_R | SEQ_512_NT_R | SEQ_WS_W | SEQ_128_W | SEQ_256_W | SEQ_512_W
  | SEQ_WS_NT_W | SEQ_128_NT_W | SEQ_256_NT_W | SEQ_512_NT_W | RAND_WS_R | RAND_128_R
  | RAND_256_R | RAND_128_NT_R | RAND_256_NT_R | RAND_WS_W | RAND_128_W | RAND_256_W
  | RAND_128_NT_W | RAND_256_NT_W | SEQ_WS_C | SEQ_128_C | SEQ_256_C | SEQ_512_C

datatype test_fn = Test_read | Test_write | Test_copy

record Tests =
  test_id :: EnTests
  t_name :: string
  support_instr :: bool
  func_ptr :: test_fn
  testing_mode :: TestingMode
  t_random :: bool

definition tests :: "cpuid \<Rightarrow> Tests list" where
  "tests c = (let v128 = CPU_has128bitVectors c; v256 = CPU_has256bitVectors c; v512 = CPU_has512bitVectors c in [
     Tests.make SEQ_WS_R ''Sequential %i-bit reads'' True Test_read SIZE_MAIN_REGISTER False,
     Tests.make SEQ_128_R ''Sequential 128-bit reads'' v128 Test_read SIZE_VECTOR_128 False,
     Tests.make SEQ_256_R ''Sequential 256-bit reads'' v256 Test_read SIZE_VECTOR_256 False,
     Tests.make SEQ_512_R ''Sequential 512-bit reads'' v512 Test_read SIZE_VECTOR_512 False,
     Tests.make SEQ_WS_NT_R ''Sequential %i-bit nontemporal reads'' True Test_read SIZE_MAIN_REGISTER_NONTEMPORAL False,
     Tests.make SEQ_128_NT_R ''Sequential 128-bit nontemporal reads'' v128 Test_read SIZE_VECTOR_128_NONTEMPORAL False,
     Tests.make SEQ_256_NT_R ''Sequential 256-bit nontemporal reads'' v256 Test_read SIZE_VECTOR_256_NONTEMPORAL False,
     Tests.make SEQ_512_NT_R ''Sequential 512-bit nontemporal reads'' v512 Test_read SIZE_VECTOR_512_NONTEMPORAL False,
     Tests.make SEQ_WS_W ''Sequential %i-bit writes'' True Test_write SIZE_MAIN_REGISTER False,
     Tests.make SEQ_128_W ''Sequential 128-bit writes'' v128 Test_write SIZE_VECTOR_128 False,
     Tests.make SEQ_256_W ''Sequential 256-bit writes'' v256 Test_write SIZE_VECTOR_256 False,
     Tests.make SEQ_512_W ''Sequential 512-bit writes'' v512 Test_write SIZE_VECTOR_512 False,
     Tests.make SEQ_WS_NT_W ''Sequential %i-bit nontemporal writes'' True Test_write SIZE_MAIN_REGISTER_NONTEMPORAL False,
     Tests.make SEQ_128_NT_W ''Sequential 128-bit nontemporal writes'' v128 Test_write SIZE_VECTOR_128_NONTEMPORAL False,
     Tests.make SEQ_256_NT_W ''Sequential 256-bit nontemporal writes'' v256 Test_write SIZE_VECTOR_256_NONTEMPORAL False,
     Tests.make SEQ_512_NT_W ''Sequential 512-bit nontemporal writes'' v512 Test_write SIZE_VECTOR_512_NONTEMPORAL False,
     Tests.make RAND_WS_R ''Random %i-bit reads'' True Test_read SIZE_MAIN_REGISTER True,
     Tests.make RAND_128_R ''Random 128-bit reads'' v128 Test_read SIZE_VECTOR_128 True,
     Tests.make RAND_256_R ''Random 256-bit reads'' v256 Test_read SIZE_VECTOR_256 True,
     Tests.make RAND_128_NT_R ''Random 128-bit nontemporal reads'' v128 Test_read SIZE_VECTOR_128_NONTEMPORAL True,
     Tests.make RAND_256_NT_R ''Random 256-bit nontemporal reads'' v256 Test_read SIZE_VECTOR_256_NONTEMPORAL True,
     Tests.make RAND_WS_W ''Random %i-bit writes'' True Test_write SIZE_MAIN_REGISTER True,
     Tests.make RAND_128_W ''Random 128-bit writes'' v128 Test_write SIZE_VECTOR_128 True,
     Tests.make RAND_256_W ''Random 256-bit writes'' v256 Test_write SIZE_VECTOR_256 True,
     Tests.make RAND_128_NT_W ''Random 128-bit nontemporal writes'' v128 Test_write SIZE_VECTOR_128_NONTEMPORAL True,
     Tests.make RAND_256_NT_W ''Random 256-bit nontemporal writes'' v256 Test_write SIZE_VECTOR_256_NONTEMPORAL True,
     Tests.make SEQ_WS_C ''Sequential %i-bit copy'' True Test_copy SIZE_MAIN_REGISTER False,
     Tests.make SEQ_128_C ''Sequential 128-bit copy'' v128 Test_copy SIZE_VECTOR_128 False,
     Tests.make SEQ_256_C ''Sequential 256-bit copy'' v256 Test_copy SIZE_VECTOR_256 False,
     Tests.make SEQ_512_C ''Sequential 512-bit copy'' v512 Test_copy SIZE_VECTOR_512 False])"


subsection \<open>bandwidth_cpux\<close>

record bandwidth_data =
  selected_test :: u8
  cache_size :: "u32 list"
  cache_speed :: "u32 list"
  test_supported :: "bool list option"
  test_name :: "string list option"

definition BANDWIDTH_MAX_CACHE_LEVEL :: nat where "BANDWIDTH_MAX_CACHE_LEVEL = 4"

text \<open>The static structure of \<^verbatim>\<open>call_bandwidth\<close>, all zero.\<close>

definition new_bandwidth_data :: bandwidth_data where
  "new_bandwidth_data = \<lparr>selected_test = 0, cache_size = replicate BANDWIDTH_MAX_CACHE_LEVEL 0,
     cache_speed = replicate BANDWIDTH_MAX_CACHE_LEVEL 0, test_supported = None, test_name = None\<rparr>"

text \<open>\<^verbatim>\<open>usec_per_test\<close> and the tester that is set up.\<close>

definition CPUX_USEC_PER_TEST :: u64 where "CPUX_USEC_PER_TEST = 5000"

definition cpux_tester :: "cpuid \<Rightarrow> testing_x86" where
  "cpux_tester c = \<lparr>use_sse2 = True, use_sse4 = ''sse41'' \<in> set (CPU_features c), use_avx = True, use_avx512 = True,
     use_direct_transfers = ''movdir64b'' \<in> set (CPU_features c)\<rparr>"

definition call_test ::
    "bw_env \<Rightarrow> u64 \<Rightarrow> testing_x86 \<Rightarrow> Tests \<Rightarrow> u64 \<Rightarrow> bw_state \<Rightarrow> ((nat + int) \<times> bw_state) option" where
  "call_test en usec self t sz s = (case func_ptr t of
       Test_read \<Rightarrow> TestingX86_read en usec self sz (testing_mode t) (t_random t) s
     | Test_write \<Rightarrow> TestingX86_write en usec self sz (testing_mode t) (t_random t) s
     | Test_copy \<Rightarrow> TestingX86_copy en usec self sz (testing_mode t) (t_random t) s)"

text \<open>What \<^verbatim>\<open>CHECK_WHETHER_SUPPORTED\<close> answers, with the flag of the table.\<close>

definition is_supported :: "testing_x86 \<Rightarrow> Tests \<Rightarrow> bool" where
  "is_supported self t = (support_instr t \<and> TEST_SUPPORTED = (case func_ptr t of
       Test_read \<Rightarrow> read_supported self (testing_mode t) (t_random t)
     | Test_write \<Rightarrow> write_supported self (testing_mode t) (t_random t)
     | Test_copy \<Rightarrow> copy_supported self (testing_mode t)))"

text \<open>\<^verbatim>\<open>"#%2i: %s %s"\<close> with the number of bits in the place of \<^verbatim>\<open>%i\<close>. \<open>tr\<close> translates.\<close>

fun word_size_text :: "string \<Rightarrow> string" where
  "word_size_text [] = []"
| "word_size_text (c # cs) = (if c = CHR ''%'' then ''64'' @ tl cs else c # word_size_text cs)"

definition pad_left :: "nat \<Rightarrow> string \<Rightarrow> string" where
  "pad_left w s = replicate (w - length s) CHR '' '' @ s"

definition test_label :: "(string \<Rightarrow> string) \<Rightarrow> nat \<Rightarrow> string \<Rightarrow> bool \<Rightarrow> string" where
  "test_label tr i n supported = ''#'' @ pad_left 2 (udec i) @ '': '' @ word_size_text n @ '' ''
     @ (if supported then '''' else tr ''(unavailable)'')"

definition set_test_names :: "(string \<Rightarrow> string) \<Rightarrow> cpuid \<Rightarrow> bandwidth_data \<Rightarrow> bandwidth_data" where
  "set_test_names tr c bwd = (let ts = tests c; sup = map (is_supported (cpux_tester c)) ts
     in bwd\<lparr>test_supported := Some sup,
            test_name := Some (map (\<lambda>i. test_label tr i (t_name (ts ! i)) (sup ! i)) [0..<length ts])\<rparr>)"

text \<open>
  The variables of the loop over the sizes. A round ends at the end of the array, in undefined behaviour,
  when a speed cannot be converted to \<^verbatim>\<open>uint32_t\<close> (among them the quotient of 0 by 0), when the
  program ends, or it goes on.

  \<^verbatim>\<open>total_amount\<close> is a \<^verbatim>\<open>double\<close>: the sum of at most 75 values of 31 bits, thus an
  integer it holds exactly; the quotient by a count up to 75 is cut off at the point, and is too far
  from the next integer to be rounded to it.
\<close>

record measuring =
  m_chunk :: nat
  m_level :: nat
  m_count :: nat
  m_total :: int

datatype bw_fault = Out_Of_Chunks | Out_Of_Speeds | Bad_Conversion | Throws | Exits nat

datatype bw_round = Goes_On measuring bandwidth_data | Finished bandwidth_data | Fails bw_fault

definition speed_of :: "int \<Rightarrow> nat \<Rightarrow> u32 option" where
  "speed_of tot count = (if count = 0 then None
     else let q = (if 0 \<le> tot then tot div int count else - ((- tot) div int count))
       in if 0 \<le> q \<and> q < 2 ^ 32 then Some (word_of_int q) else None)"

definition measure_chunk ::
    "bw_env \<Rightarrow> cpuid \<Rightarrow> u64 \<Rightarrow> measuring \<Rightarrow> bandwidth_data \<Rightarrow> bw_state \<Rightarrow> (bw_round \<times> bw_state) option" where
  "measure_chunk en c chunk m bwd s =
     (case call_test en CPUX_USEC_PER_TEST (cpux_tester c) (tests c ! unat (selected_test bwd)) chunk s of
       None \<Rightarrow> None
     | Some (Inl e, s) \<Rightarrow> Some (Fails (Exits e), s)
     | Some (Inr amount, s) \<Rightarrow> Some (Goes_On (m\<lparr>m_chunk := m_chunk m + 1, m_total := m_total m + amount,
         m_count := m_count m + 1\<rparr>) bwd, s))"

definition cpux_round ::
    "bw_env \<Rightarrow> cpuid \<Rightarrow> measuring \<Rightarrow> bandwidth_data \<Rightarrow> bw_state \<Rightarrow> (bw_round \<times> bw_state) option" where
  "cpux_round en c m bwd s =
     (if length chunk_sizes \<le> m_chunk m then Some (Fails Out_Of_Chunks, s)
      else let chunk = chunk_sizes ! m_chunk m; l = m_level m in
        if ucast (cache_size bwd ! l * 1024) < chunk
        then (case speed_of (m_total m) (m_count m) of
            None \<Rightarrow> Some (Fails Bad_Conversion, s)
          | Some v \<Rightarrow> let bwd = bwd\<lparr>cache_speed := (cache_speed bwd)[l := v]\<rparr> in
              if BANDWIDTH_MAX_CACHE_LEVEL \<le> l + 1 \<or> cache_size bwd ! (l + 1) = 0 then Some (Finished bwd, s)
              else measure_chunk en c chunk (m\<lparr>m_level := l + 1, m_count := 0, m_total := 0\<rparr>) bwd s)
        else measure_chunk en c chunk m bwd s)"

lemma cpux_round_m_chunk:
  "cpux_round en c m bwd s = Some (Goes_On m' bwd', s') \<Longrightarrow> m_chunk m' = Suc (m_chunk m) \<and> m_chunk m < length chunk_sizes"
  by (auto simp: cpux_round_def measure_chunk_def Let_def split: if_splits option.splits prod.splits sum.splits)

function cpux_loop ::
    "bw_env \<Rightarrow> cpuid \<Rightarrow> measuring \<Rightarrow> bandwidth_data \<Rightarrow> bw_state \<Rightarrow> ((bw_fault + bandwidth_data) \<times> bw_state) option" where
  "cpux_loop en c m bwd s = (case cpux_round en c m bwd s of
       None \<Rightarrow> None
     | Some (Goes_On m bwd, s) \<Rightarrow> cpux_loop en c m bwd s
     | Some (Finished bwd, s) \<Rightarrow> Some (Inr bwd, s)
     | Some (Fails f, s) \<Rightarrow> Some (Inl f, s))"
  by pat_completeness auto
termination
  by (relation "measure (\<lambda>(en, c, m, bwd, s). length chunk_sizes - m_chunk m)")
    (auto dest!: sym [of _ "cpux_round _ _ _ _ _"] cpux_round_m_chunk)

declare cpux_loop.simps [simp del]

text \<open>What a thread does first, once it holds the mutex: \<open>Inr\<close> is the data at its end, \<open>Inl\<close> says that it
  goes on to measure.\<close>

definition cpux_start ::
    "(string \<Rightarrow> string) \<Rightarrow> cpuid \<Rightarrow> bandwidth_data \<Rightarrow> measuring + bandwidth_data" where
  "cpux_start tr c bwd =
     (if test_name bwd = None then Inr (set_test_names tr c bwd)
      else if the (test_supported bwd) ! unat (selected_test bwd)
      then Inl \<lparr>m_chunk = 0, m_level = 0, m_count = 0, m_total = 0\<rparr>
      else Inr (bwd\<lparr>cache_speed := replicate BANDWIDTH_MAX_CACHE_LEVEL 0\<rparr>))"

definition bandwidth_cpux ::
    "(string \<Rightarrow> string) \<Rightarrow> bw_env \<Rightarrow> cpuid \<Rightarrow> bandwidth_data \<Rightarrow> bw_state \<Rightarrow> ((bw_fault + bandwidth_data) \<times> bw_state) option"
  where
  "bandwidth_cpux tr en c bwd s = (case cpux_start tr c bwd of
       Inr bwd \<Rightarrow> Some (Inr bwd, s)
     | Inl m \<Rightarrow> cpux_loop en c m bwd s)"


subsection \<open>call_bandwidth\<close>

text \<open>\<^verbatim>\<open>Data::Caches\<close>: for every type of CPU its caches, with their sizes in KiB and the speeds shown, and
  the names of the tests.\<close>

record cache =
  size_i :: u32
  speed_value :: string

record caches_tab =
  cpu_types :: "cache list list"
  test_names :: "string list"

text \<open>\<^verbatim>\<open>get_selected_cpu_type\<close>: the index of the selected type; \<open>None\<close> is an exception.\<close>

definition get_selected_cpu_type :: "caches_tab \<Rightarrow> selection \<Rightarrow> (nat \<times> caches_tab \<times> selection) option" where
  "get_selected_cpu_type d sel = (let
     d = (if cpu_types d = [] then d\<lparr>cpu_types := [[]]\<rparr> else d);
     (t, sel) = get_selected_type sel
   in if unat t < length (cpu_types d) then Some (unat t, d, sel) else None)"

text \<open>\<^verbatim>\<open>"%.2f %s/s"\<close> of a tenth of the speed\<close>

definition bandwidth_label :: "(string \<Rightarrow> string) \<Rightarrow> u32 \<Rightarrow> string" where
  "bandwidth_label tr v = decimals 2 (10 * unat v) @ '' '' @ tr ''MB'' @ ''/s''"

definition show_speeds ::
    "(string \<Rightarrow> string) \<Rightarrow> bandwidth_data \<Rightarrow> caches_tab \<Rightarrow> selection \<Rightarrow> bw_fault + caches_tab \<times> selection" where
  "show_speeds tr bwd d sel = (case get_selected_cpu_type d sel of
       None \<Rightarrow> Inl Throws
     | Some (t, d, sel) \<Rightarrow>
         if length (cache_speed bwd) < length (cpu_types d ! t) then Inl Out_Of_Speeds
         else Inr (d\<lparr>cpu_types := (cpu_types d)[t := map2 (\<lambda>ca v. ca\<lparr>speed_value := bandwidth_label tr v\<rparr>)
                        (cpu_types d ! t) (cache_speed bwd)]\<rparr>, sel))"

record bw_app =
  app_bwd :: bandwidth_data
  app_caches :: caches_tab
  app_sel :: selection

text \<open>\<^verbatim>\<open>init_bandwidth\<close>: the names are taken over and \<^verbatim>\<open>test_name\<close> is reset.\<close>

definition init_bandwidth ::
    "(string \<Rightarrow> string) \<Rightarrow> bw_env \<Rightarrow> cpuid \<Rightarrow> bw_app \<Rightarrow> bw_state \<Rightarrow> ((bw_fault + bw_app) \<times> bw_state) option" where
  "init_bandwidth tr en c a s = (case bandwidth_cpux tr en c ((app_bwd a)\<lparr>test_name := None\<rparr>) s of
       None \<Rightarrow> None
     | Some (Inl f, s) \<Rightarrow> Some (Inl f, s)
     | Some (Inr bwd, s) \<Rightarrow> Some (Inr (a\<lparr>app_bwd := bwd\<lparr>test_name := None\<rparr>,
         app_caches := (app_caches a)\<lparr>test_names := test_names (app_caches a) @ the (test_name bwd)\<rparr>\<rparr>), s))"

text \<open>The sizes of the caches of one type go over those of the type before it.\<close>

definition put_cache_sizes :: "cache list \<Rightarrow> bandwidth_data \<Rightarrow> bandwidth_data" where
  "put_cache_sizes cas bwd = (let sizes = map size_i (take BANDWIDTH_MAX_CACHE_LEVEL cas)
     in bwd\<lparr>cache_size := sizes @ drop (length sizes) (cache_size bwd)\<rparr>)"

text \<open>\<^verbatim>\<open>call_bandwidth_in_thread\<close> with a thread that is joined.\<close>

definition call_bandwidth_and_wait ::
    "(string \<Rightarrow> string) \<Rightarrow> bw_env \<Rightarrow> cpuid \<Rightarrow> bw_app \<Rightarrow> bw_state \<Rightarrow> ((bw_fault + bw_app) \<times> bw_state) option" where
  "call_bandwidth_and_wait tr en c a s = (case bandwidth_cpux tr en c (app_bwd a) s of
       None \<Rightarrow> None
     | Some (Inl f, s) \<Rightarrow> Some (Inl f, s)
     | Some (Inr bwd, s) \<Rightarrow> (case show_speeds tr bwd (app_caches a) (app_sel a) of
         Inl f \<Rightarrow> Some (Inl f, s)
       | Inr (d, sel) \<Rightarrow> Some (Inr \<lparr>app_bwd = bwd, app_caches = d, app_sel = sel\<rparr>, s)))"

text \<open>The loop over the types of CPU; the flag says that a type without caches ends it, with an error.\<close>

fun measure_types ::
    "(string \<Rightarrow> string) \<Rightarrow> bw_env \<Rightarrow> cpuid \<Rightarrow> nat list \<Rightarrow> bw_app \<Rightarrow> bw_state
      \<Rightarrow> ((bw_fault + bool \<times> bw_app) \<times> bw_state) option" where
  "measure_types tr en c [] a s = Some (Inr (False, a), s)"
| "measure_types tr en c (k # ks) a s = (case set_selected_type (of_nat k) (app_sel a) of
       None \<Rightarrow> Some (Inl Throws, s)
     | Some (_, sel) \<Rightarrow> (case get_selected_cpu_type (app_caches a) sel of
         None \<Rightarrow> Some (Inl Throws, s)
       | Some (t, d, sel) \<Rightarrow>
           if cpu_types d ! t = [] then Some (Inr (True, a\<lparr>app_caches := d, app_sel := sel\<rparr>), s)
           else (case call_bandwidth_and_wait tr en c
                   \<lparr>app_bwd = put_cache_sizes (cpu_types d ! t) (app_bwd a), app_caches = d, app_sel = sel\<rparr> s of
               None \<Rightarrow> None
             | Some (Inl f, s) \<Rightarrow> Some (Inl f, s)
             | Some (Inr a, s) \<Rightarrow> measure_types tr en c ks a s)))"

text \<open>The first call. The selected type and core are read before and set again behind the loop.\<close>

definition call_bandwidth_first ::
    "(string \<Rightarrow> string) \<Rightarrow> bw_env \<Rightarrow> cpuid \<Rightarrow> bw_app \<Rightarrow> bw_state \<Rightarrow> ((bw_fault + int \<times> bw_app) \<times> bw_state) option" where
  "call_bandwidth_first tr en c a s = (let
     a = a\<lparr>app_bwd := (app_bwd a)\<lparr>selected_test := sel_test (app_sel a)\<rparr>\<rparr>;
     (saved_type, sel) = get_selected_type (app_sel a)
   in case get_selected_core sel of
       None \<Rightarrow> Some (Inl Throws, s)
     | Some (saved_core, sel) \<Rightarrow> (case init_bandwidth tr en c (a\<lparr>app_sel := sel\<rparr>) s of
         None \<Rightarrow> None
       | Some (Inl f, s) \<Rightarrow> Some (Inl f, s)
       | Some (Inr a, s) \<Rightarrow>
          (case measure_types tr en c [0..<length (cpu_types (app_caches a))] a s of
            None \<Rightarrow> None
          | Some (Inl f, s) \<Rightarrow> Some (Inl f, s)
          | Some (Inr (True, a), s) \<Rightarrow> Some (Inr (1, a), s)
          | Some (Inr (False, a), s) \<Rightarrow>
             (case set_selected_type saved_type (app_sel a) of
               None \<Rightarrow> Some (Inl Throws, s)
             | Some (_, sel) \<Rightarrow> (case set_selected_core saved_core sel of
                 None \<Rightarrow> Some (Inl Throws, s)
               | Some (_, sel) \<Rightarrow> Some (Inr (0, a\<lparr>app_sel := sel\<rparr>), s))))))"

subsection \<open>Threads\<close>

text \<open>
  The later calls. \<^verbatim>\<open>pthread_mutex_trylock\<close> succeeds if no thread holds the mutex; a thread that has
  been created takes it when it first runs. The state also says whether the program has ended, and how.
\<close>

datatype worker = Created | Measuring measuring | Over

record bw_world =
  w_app :: bw_app
  w_workers :: "worker list"
  w_state :: bw_state
  w_failed :: "bw_fault option"

definition mutex_free :: "bw_world \<Rightarrow> bool" where
  "mutex_free w \<longleftrightarrow> (\<forall>x \<in> set (w_workers w). case x of Measuring m \<Rightarrow> False | _ \<Rightarrow> True)"

definition put_bwd :: "bandwidth_data \<Rightarrow> bw_world \<Rightarrow> bw_world" where
  "put_bwd bwd w = w\<lparr>w_app := (w_app w)\<lparr>app_bwd := bwd\<rparr>\<rparr>"

definition put_worker :: "nat \<Rightarrow> worker \<Rightarrow> bw_world \<Rightarrow> bw_world" where
  "put_worker k x w = w\<lparr>w_workers := (w_workers w)[k := x]\<rparr>"

definition call_bandwidth_again :: "(string \<Rightarrow> string) \<Rightarrow> bw_world \<Rightarrow> bw_world" where
  "call_bandwidth_again tr w = (let
     a = w_app w; bwd = (app_bwd a)\<lparr>selected_test := sel_test (app_sel a)\<rparr>;
     w = put_bwd bwd w;
     w = (if mutex_free w then w\<lparr>w_workers := w_workers w @ [Created]\<rparr> else w)
   in case show_speeds tr bwd (app_caches a) (app_sel a) of
       Inl f \<Rightarrow> w\<lparr>w_failed := Some f\<rparr>
     | Inr (d, sel) \<Rightarrow> w\<lparr>w_app := (w_app w)\<lparr>app_caches := d, app_sel := sel\<rparr>\<rparr>)"

definition user_selects_test :: "u8 \<Rightarrow> bw_world \<Rightarrow> bw_world" where
  "user_selects_test n w = w\<lparr>w_app := (w_app w)\<lparr>app_sel := snd (set_selected_test n (app_sel (w_app w)))\<rparr>\<rparr>"

text \<open>The next step of thread \<open>k\<close>; \<open>None\<close> if it waits, is over, or never comes back.\<close>

definition step_worker ::
    "(string \<Rightarrow> string) \<Rightarrow> bw_env \<Rightarrow> cpuid \<Rightarrow> nat \<Rightarrow> bw_world \<Rightarrow> bw_world option" where
  "step_worker tr en c k w = (if length (w_workers w) \<le> k then None else case w_workers w ! k of
       Created \<Rightarrow> if mutex_free w then Some (case cpux_start tr c (app_bwd (w_app w)) of
             Inr bwd \<Rightarrow> put_worker k Over (put_bwd bwd w)
           | Inl m \<Rightarrow> put_worker k (Measuring m) w) else None
     | Measuring m \<Rightarrow> (case cpux_round en c m (app_bwd (w_app w)) (w_state w) of
           None \<Rightarrow> None
         | Some (Goes_On m bwd, s) \<Rightarrow> Some (put_worker k (Measuring m) (put_bwd bwd w)\<lparr>w_state := s\<rparr>)
         | Some (Finished bwd, s) \<Rightarrow> Some (put_worker k Over (put_bwd bwd w)\<lparr>w_state := s\<rparr>)
         | Some (Fails f, s) \<Rightarrow> Some (w\<lparr>w_state := s, w_failed := Some f\<rparr>))
     | Over \<Rightarrow> None)"

inductive bw_step :: "(string \<Rightarrow> string) \<Rightarrow> bw_env \<Rightarrow> cpuid \<Rightarrow> bw_world \<Rightarrow> bw_world \<Rightarrow> bool" for tr en c where
  refresh: "w_failed w = None \<Longrightarrow> bw_step tr en c w (call_bandwidth_again tr w)"
| select: "w_failed w = None \<Longrightarrow> bw_step tr en c w (user_selects_test n w)"
| worker: "w_failed w = None \<Longrightarrow> step_worker tr en c k w = Some w' \<Longrightarrow> bw_step tr en c w w'"

inductive_cases bw_stepE: "bw_step tr en c w w'"

end
