(* ===== verification/Testing_Properties.thy ===== *)
theory Testing_Properties
  imports Testing "HOL-Library.Multiset"
begin

section \<open>Properties of the measurements\<close>

text \<open>
  When a measurement ends and what it has done then (\<open>measurement_ends\<close>); that the routines are only
  given memory that is allocated, and that all of it is freed (\<open>heap_run\<close>).
\<close>

subsection \<open>The measuring loop\<close>

lemma measure_loop_stop: "usec \<le> diff \<Longrightarrow> measure_loop en usec calls loops t0 diff tot s = Some (Some (diff, tot), s)"
  by (subst measure_loop.simps) (simp add: leD)

lemma measure_loop_step:
  "diff < usec \<Longrightarrow> list_all routine_returns es \<Longrightarrow> measure_loop en usec (Some es) loops t0 diff tot s
     = measure_loop en usec (Some es) loops t0 (clock en (bw_reads s) - t0) (tot + loops)
         (s\<lparr>bw_log := bw_log s @ es, bw_reads := bw_reads s + 1\<rparr>)"
  by (subst measure_loop.simps) (simp add: getMicrosecondTime_def events_def)

lemma measure_loop_found:
  assumes "\<And>k. k < n \<Longrightarrow> clock en (bw_reads s + k) - t0 < usec"
    and "usec \<le> clock en (bw_reads s + n) - t0" and "diff < usec" and returns: "list_all routine_returns es"
  shows "measure_loop en usec (Some es) loops t0 diff tot s =
    Some (Some (clock en (bw_reads s + n) - t0, tot + of_nat (Suc n) * loops),
      s\<lparr>bw_log := bw_log s @ concat (replicate (Suc n) es), bw_reads := bw_reads s + Suc n\<rparr>)"
  using assms(1-3)
proof (induction n arbitrary: s diff tot)
  case 0
  then show ?case by (simp add: returns measure_loop_step measure_loop_stop add.commute)
next
  case (Suc n)
  let ?s = "s\<lparr>bw_log := bw_log s @ es, bw_reads := bw_reads s + 1\<rparr>"
  have "measure_loop en usec (Some es) loops t0 diff tot s
      = measure_loop en usec (Some es) loops t0 (clock en (bw_reads s) - t0) (tot + loops) ?s"
    using Suc.prems(3) returns by (rule measure_loop_step)
  also have "\<dots> = Some (Some (clock en (bw_reads ?s + n) - t0, tot + loops + of_nat (Suc n) * loops),
      ?s\<lparr>bw_log := bw_log ?s @ concat (replicate (Suc n) es), bw_reads := bw_reads ?s + Suc n\<rparr>)"
  proof (rule Suc.IH)
    show "\<And>k. k < n \<Longrightarrow> clock en (bw_reads ?s + k) - t0 < usec"
      using Suc.prems(1) [of "Suc _"] by simp
    show "usec \<le> clock en (bw_reads ?s + n) - t0" using Suc.prems(2) by simp
    show "clock en (bw_reads s) - t0 < usec" using Suc.prems(1) [of 0] by simp
  qed
  finally show ?case by (simp add: algebra_simps)
qed

lemma measure_loop_reads:
  "measure_loop en usec calls loops t0 diff tot s = Some y \<Longrightarrow> calls \<noteq> None \<Longrightarrow> diff < usec \<Longrightarrow>
   \<exists>k. usec \<le> clock en (bw_reads s + k) - t0"
proof (induction rule: measure_loop.raw_induct [rotated, consumes 1, case_names step])
  case (step rec en usec calls loops t0 diff tot s y)
  then obtain es where es: "calls = Some es" by auto
  let ?s = "events es s\<lparr>bw_reads := bw_reads s + 1\<rparr>"
  have r: "rec en usec calls loops t0 (clock en (bw_reads s) - t0) (tot + loops) ?s = Some y"
    using step(2) es step(4) by (simp add: getMicrosecondTime_def events_def split: if_splits)
  show ?case
  proof (cases "clock en (bw_reads s) - t0 < usec")
    case True
    with step(1) [OF r step(3)] obtain k where "usec \<le> clock en (bw_reads ?s + k) - t0" by auto
    then show ?thesis by (intro exI [of _ "Suc k"]) simp
  next
    case False
    then show ?thesis by (intro exI [of _ 0]) simp
  qed
qed

lemma measure_loop_ends_iff:
  assumes "diff < usec" "list_all routine_returns es"
  shows "measure_loop en usec (Some es) loops t0 diff tot s \<noteq> None
    \<longleftrightarrow> (\<exists>k. usec \<le> clock en (bw_reads s + k) - t0)"
proof
  assume "measure_loop en usec (Some es) loops t0 diff tot s \<noteq> None"
  then show "\<exists>k. usec \<le> clock en (bw_reads s + k) - t0"
    using measure_loop_reads [of en usec "Some es" loops t0 diff tot s] assms by auto
next
  assume ex: "\<exists>k. usec \<le> clock en (bw_reads s + k) - t0"
  define n where "n = (LEAST k. usec \<le> clock en (bw_reads s + k) - t0)"
  have "usec \<le> clock en (bw_reads s + n) - t0" unfolding n_def using ex by (rule LeastI_ex)
  moreover have "clock en (bw_reads s + k) - t0 < usec" if "k < n" for k
    using not_less_Least [OF that [unfolded n_def]] by simp
  ultimately show "measure_loop en usec (Some es) loops t0 diff tot s \<noteq> None"
    using measure_loop_found [of n en s t0 usec diff es loops tot] assms by simp
qed


lemma measure_loop_log:
  "measure_loop en usec calls loops t0 diff tot s = Some y \<Longrightarrow>
   (fst y = None \<and> calls = None \<and> bw_log (snd y) = bw_log s)
   \<or> (fst y \<noteq> None \<and> (\<exists>n. bw_log (snd y) = bw_log s @ concat (replicate n (case calls of None \<Rightarrow> [] | Some es \<Rightarrow> es))))"
proof (induction rule: measure_loop.raw_induct [rotated, consumes 1, case_names step])
  case (step rec en usec calls loops t0 diff tot s y)
  consider "\<not> diff < usec" | "diff < usec" "calls = None" | es where "diff < usec" "calls = Some es" by blast
  then show ?case
  proof cases
    case 1
    with step(2) have "y = (Some (diff, tot), s)" by simp
    then show ?thesis by (auto intro: exI [of _ 0])
  next
    case 2
    with step(2) show ?thesis by auto
  next
    case 3
    let ?s = "events es s\<lparr>bw_reads := bw_reads s + 1\<rparr>"
    have "rec en usec calls loops t0 (clock en (bw_reads s) - t0) (tot + loops) ?s = Some y"
      using step(2) 3 by (simp add: getMicrosecondTime_def events_def split: if_splits)
    from step(1) [OF this] 3 obtain n where
      "fst y \<noteq> None" "bw_log (snd y) = bw_log s @ es @ concat (replicate n es)" by (auto simp: events_def)
    then show ?thesis using 3 by (auto intro!: exI [of _ "Suc n"])
  qed
qed

lemma measure_test_log:
  assumes "measure_test en usec title show sz calls loops frees s = Some (Inr r, s')"
  shows "(r = TEST_UNSUPPORTED \<and> bw_log s' = bw_log s)
    \<or> (\<exists>n. bw_log s' = bw_log s @ concat (replicate n (case calls of None \<Rightarrow> [] | Some es \<Rightarrow> es)) @ frees)"
proof -
  let ?s = "say (title @ Testing_printSize sz @ '', '') s"
  obtain t0 s1 where g: "getMicrosecondTime en ?s = (t0, s1)" by force
  then have l1: "bw_log s1 = bw_log s" by (auto simp: getMicrosecondTime_def say_def)
  from assms g obtain res s2 where loop: "measure_loop en usec calls loops t0 0 0 s1 = Some (res, s2)"
    by (auto simp: measure_test_def Let_def split: option.splits)
  note log = measure_loop_log [OF loop]
  show ?thesis
  proof (cases res)
    case None
    with assms g loop log l1 show ?thesis by (auto simp: measure_test_def Let_def)
  next
    case (Some dt)
    obtain d t where dt: "dt = (d, t)" by force
    from log Some l1 obtain n where
      n: "bw_log s2 = bw_log s @ concat (replicate n (case calls of None \<Rightarrow> [] | Some es \<Rightarrow> es))" by auto
    obtain r' s3 where c: "Testing_calculateResult sz t d (say (''loops = '' @ show t @ '', '') s2) = (r', s3)" by force
    then have "bw_log s3 = bw_log s2"
      by (auto simp: Testing_calculateResult_def say_def bw_warning_def Let_def split: if_splits)
    moreover have "s' = events frees s3"
      using assms g loop Some dt c by (simp add: measure_test_def Let_def)
    ultimately show ?thesis using n by (auto simp: events_def)
  qed
qed

subsection \<open>Memory\<close>

text \<open>The blocks that are allocated, each an address and a size, and what an event may do with them:
  everything a routine accesses lies in a block, the array of pointers as well as the pieces of 256 bytes
  they point to, which are distinct.\<close>

definition inside :: "(u64 \<times> u64) list \<Rightarrow> u64 \<Rightarrow> nat \<Rightarrow> bool" where
  "inside live p n \<longleftrightarrow> (\<exists>(b, m) \<in> set live. unat b \<le> unat p \<and> unat p + n \<le> unat b + unat m)"

fun heap_event :: "bw_event \<Rightarrow> (u64 \<times> u64) list \<Rightarrow> (u64 \<times> u64) list option" where
  "heap_event (Malloc p n) live = Some ((p, n) # live)"
| "heap_event (Store p n) live = (if inside live p (unat n) then Some live else None)"
| "heap_event (On_Chunk f p n l v) live = (if inside live p (span n) then Some live else None)"
| "heap_event (On_Chunks f a ps n l v) live =
     (if inside live a (8 * pointers_used n) \<and> pointers_used n = length ps \<and> distinct ps
         \<and> (\<forall>p \<in> set ps. inside live p 256) then Some live else None)"
| "heap_event (On_Copy f d p n l) live =
     (if 256 \<le> unat n \<and> inside live d (unat n div 256 * 256) \<and> inside live p (unat n div 256 * 256)
      then Some live else None)"
| "heap_event (On_Registers f n) live = Some live"
| "heap_event (Free p) live = (if p \<in> fst ` set live then Some (filter (\<lambda>(b, _). b \<noteq> p) live) else None)"

fun heap_run :: "bw_event list \<Rightarrow> (u64 \<times> u64) list \<Rightarrow> (u64 \<times> u64) list option" where
  "heap_run [] live = Some live"
| "heap_run (e # es) live = (case heap_event e live of None \<Rightarrow> None | Some live \<Rightarrow> heap_run es live)"

lemma heap_run_append:
  "heap_run (xs @ ys) live = (case heap_run xs live of None \<Rightarrow> None | Some l \<Rightarrow> heap_run ys l)"
  by (induction xs arbitrary: live) (auto split: option.splits)

text \<open>Events that leave the blocks as they are can be repeated.\<close>

lemma heap_run_repeat:
  assumes "heap_run es live = Some live"
  shows "heap_run (concat (replicate n es)) live = Some live"
  by (induction n) (auto simp: heap_run_append assms)

subsection \<open>The aligned block\<close>

lemma unat_and_mask: "unat (p AND 31) = unat p mod 32" "unat (p AND 63) = unat p mod 64" for p :: u64
proof -
  have "p AND 31 = take_bit 5 p" "p AND 63 = take_bit 6 p"
    by (simp_all add: take_bit_eq_mask mask_eq_exp_minus_1)
  then show "unat (p AND 31) = unat p mod 32" "unat (p AND 63) = unat p mod 64"
    by (simp_all only: unsigned_take_bit_eq) (simp_all add: take_bit_eq_mod)
qed

lemma align_up_unat:
  assumes "unat p + 128 < 2 ^ 64" "m = 31 \<or> m = 63"
  shows "unat p \<le> unat (align_up m p)" "unat (align_up m p) \<le> unat p + unat m"
    "unat (align_up m p) mod (unat m + 1) = 0"
proof -
  define k where "k = unat m + 1"
  have k: "k = 32 \<or> k = 64" using assms(2) by (auto simp: k_def)
  have a: "unat (p AND m) = unat p mod k" using assms(2) unat_and_mask by (auto simp: k_def)
  have m1: "unat (m + 1) = k" using assms(2) by (auto simp: k_def)
  have u: "unat (align_up m p) = (if unat p mod k = 0 then unat p else unat p - unat p mod k + k)"
  proof (cases "p AND m = 0")
    case True
    then show ?thesis using a by (simp add: align_up_def)
  next
    case False
    then have nz: "unat p mod k \<noteq> 0" using a by (metis unat_0 unsigned_word_eqI unsigned_0)
    have "unat (p - (p AND m)) = unat p - unat p mod k"
      using a by (metis mod_less_eq_dividend unat_sub word_le_nat_alt)
    moreover have "unat p - unat p mod k + k < 2 ^ 64" using assms(1) k by auto
    ultimately have "unat (p - (p AND m) + (m + 1)) = unat p - unat p mod k + k"
      using m1 by (simp add: unat_word_ariths)
    then show ?thesis using False nz by (simp add: align_up_def)
  qed
  have lt: "unat p mod k < k" using k by auto
  have kk: "unat p - unat p mod k = k * (unat p div k)" by (simp add: minus_mod_eq_mult_div)
  show "unat p \<le> unat (align_up m p)" using u lt by auto
  have "unat p + k \<le> unat p + unat m + unat p mod k" if "unat p mod k \<noteq> 0" using that by (simp add: k_def)
  moreover have "unat p mod k \<le> unat p" by simp
  ultimately show "unat (align_up m p) \<le> unat p + unat m" using u by auto
  have "unat (align_up m p) mod k = 0" using u kk by auto
  then show "unat (align_up m p) mod (unat m + 1) = 0" by (simp add: k_def)
qed

lemma chunk_of_unat:
  assumes "unat p + 128 < 2 ^ 64"
  shows "unat p \<le> unat (chunk_of mode p)" "unat (chunk_of mode p) \<le> unat p + 63"
  using align_up_unat [OF assms, of 31] align_up_unat [OF assms, of 63] by (auto simp: chunk_of_def)


subsection \<open>Random pointers\<close>

lemma swap_mset: "i < length xs \<Longrightarrow> j < length xs \<Longrightarrow> mset (swap i j xs) = mset xs"
  by (auto simp: swap_def mset_swap)

lemma length_swap [simp]: "length (swap i j xs) = length xs"
  by (simp add: swap_def)

lemma shuffle_from_mset:
  "\<forall>i \<in> set is. i < length ptrs \<Longrightarrow> shuffle_from en is ptrs s = (ptrs', s') \<Longrightarrow>
   mset ptrs' = mset ptrs \<and> bw_log s' = bw_log s \<and> bw_mallocs s' = bw_mallocs s \<and> bw_reads s' = bw_reads s"
proof (induction en "is" ptrs s arbitrary: ptrs' s' rule: shuffle_from.induct)
  case (2 en i "is" ptrs s)
  obtain r s1 where r: "next_rand en s = (r, s1)" by force
  have b: "i < length ptrs" using 2(2) by simp
  then have b: "i < length ptrs" "r mod length ptrs < length ptrs" by (auto intro: mod_less_divisor)
  from 2(1) [OF r [symmetric] refl] 2(2,3) r
  have "mset ptrs' = mset (swap i (r mod length ptrs) ptrs)" "bw_log s' = bw_log s1"
    "bw_mallocs s' = bw_mallocs s1" "bw_reads s' = bw_reads s1" by auto
  then show ?case using r swap_mset [OF b] by (auto simp: next_rand_def)
qed simp

lemma shuffle_rounds_mset:
  "shuffle_rounds en k ptrs s = (ptrs', s') \<Longrightarrow>
   mset ptrs' = mset ptrs \<and> bw_log s' = bw_log s \<and> bw_mallocs s' = bw_mallocs s \<and> bw_reads s' = bw_reads s"
proof (induction en k ptrs s arbitrary: ptrs' s' rule: shuffle_rounds.induct)
  case (2 en k ptrs s)
  obtain p1 s1 where p: "shuffle_from en [0..<length ptrs] ptrs s = (p1, s1)" by force
  have "shuffle_rounds en k p1 s1 = (ptrs', s')" using 2(2) p by simp
  from 2(1) [OF p [symmetric] refl this] shuffle_from_mset [OF _ p] show ?case by simp
qed simp

text \<open>The pointers are those to the blocks of 256 bytes of the chunk, each once.\<close>

lemma random_chunks_spec:
  assumes "random_chunks en f chunk n s = (Inr (p, ptrs), s')"
  shows "mset ptrs = mset (chunk_pointers chunk n)" "p = malloc_at en (bw_mallocs s) (8 * n)" "p \<noteq> 0"
    "bw_log s' = bw_log s @ [Malloc p (8 * n), Store p (8 * n)]" "bw_reads s' = bw_reads s"
proof -
  obtain q s1 where q: "malloc_block en (8 * n) s = (q, s1)" by force
  then have q': "q = malloc_at en (bw_mallocs s) (8 * n)" by (simp add: malloc_block_def Let_def)
  from assms q have nz: "q \<noteq> 0" by (auto simp: random_chunks_def bw_error_def)
  with q have l1: "bw_log s1 = bw_log s @ [Malloc q (8 * n)]" "bw_reads s1 = bw_reads s"
    by (auto simp: malloc_block_def Let_def event_def)
  obtain ps s2 where sh: "shuffle_rounds en N_RANDOMIZATION_LOOPS (chunk_pointers chunk n)
      (event (Store q (8 * n)) s1) = (ps, s2)" by force
  from assms q nz sh have "p = q" "ptrs = ps" "s' = s2" by (auto simp: random_chunks_def)
  then show "mset ptrs = mset (chunk_pointers chunk n)" "p = malloc_at en (bw_mallocs s) (8 * n)" "p \<noteq> 0"
    "bw_log s' = bw_log s @ [Malloc p (8 * n), Store p (8 * n)]" "bw_reads s' = bw_reads s"
    using shuffle_rounds_mset [OF sh] q' nz l1 by (auto simp: event_def)
qed

lemma chunk_offset_unat:
  assumes "i < 2 ^ 23"
  shows "unat (chunk_offset i) = 256 * i"
proof -
  have "(256 * of_nat i :: u32) = of_nat (256 * i)" by simp
  moreover have "signed_take_bit 31 (int (256 * i)) = int (256 * i)"
    using assms by (intro signed_take_bit_int_eq_self) simp_all
  ultimately have "chunk_offset i = of_nat (256 * i)"
    unfolding chunk_offset_def by (simp only: signed_of_nat) simp
  moreover have "256 * i < 2 ^ 64" using assms by simp
  ultimately show ?thesis by (simp only: unat_of_nat) simp
qed

lemma chunk_pointer_unat:
  fixes chunk n :: u64
  assumes "unat chunk + 256 * unat n < 2 ^ 64" "i < unat n" "unat n \<le> 2 ^ 23"
  shows "unat (chunk + chunk_offset i) = unat chunk + 256 * i"
proof -
  have "unat (chunk_offset i) = 256 * i" using assms(2,3) by (intro chunk_offset_unat) linarith
  moreover have "unat chunk + 256 * i < 2 ^ 64" using assms by linarith
  ultimately show ?thesis by (simp add: unat_word_ariths)
qed

lemma chunk_pointers_distinct:
  fixes chunk n :: u64
  assumes "unat chunk + 256 * unat n < 2 ^ 64" "unat n \<le> 2 ^ 23"
  shows "distinct (chunk_pointers chunk n)"
proof -
  have "inj_on (\<lambda>i. chunk + chunk_offset i) {0..<unat n}"
  proof (rule inj_onI)
    fix i j assume ij: "i \<in> {0..<unat n}" "j \<in> {0..<unat n}" "chunk + chunk_offset i = chunk + chunk_offset j"
    then have "i < unat n" "j < unat n" by simp_all
    note u = this [THEN chunk_pointer_unat [OF assms(1) _ assms(2)]]
    have "unat chunk + 256 * i = unat chunk + 256 * j" unfolding u [symmetric] ij(3) ..
    then show "i = j" by simp
  qed
  then show ?thesis by (simp add: chunk_pointers_def distinct_map)
qed


subsection \<open>The tests keep to their memory\<close>

lemma heap_run_kept: "\<forall>e \<in> set es. heap_event e live = Some live \<Longrightarrow> heap_run es live = Some live"
  by (induction es) auto

lemma insideI: "(b, m) \<in> set live \<Longrightarrow> unat b \<le> unat p \<Longrightarrow> unat p + n \<le> unat b + unat m \<Longrightarrow> inside live p n"
  by (auto simp: inside_def)

lemma write_routines_events:
  "write_routines mode random chunk arr ptrs sz loops = Some es \<Longrightarrow> e \<in> set es \<Longrightarrow>
   if random then \<exists>f v. e = On_Chunks f arr ptrs (sz div 256) loops v else \<exists>f v. e = On_Chunk f chunk sz loops v"
  by (cases mode; cases random) (auto simp: write_routines_def Let_def)

lemma read_routines_events:
  "read_routines mode random chunk arr ptrs sz loops = Some es \<Longrightarrow> e \<in> set es \<Longrightarrow>
   if random then \<exists>f v. e = On_Chunks f arr ptrs (sz div 256) loops v else \<exists>f v. e = On_Chunk f chunk sz loops v"
  by (cases mode; cases random) (auto simp: read_routines_def Let_def)

text \<open>What \<^verbatim>\<open>malloc\<close> promises of the next two blocks: they do not wrap around and do not overlap.\<close>

definition malloc_good :: "bw_env \<Rightarrow> nat \<Rightarrow> u64 \<Rightarrow> u64 \<Rightarrow> bool" where
  "malloc_good en k n m \<longleftrightarrow> (let p = malloc_at en k n; q = malloc_at en (k + 1) m in
     unat p + unat n < 2 ^ 64 \<and> unat q + unat m < 2 ^ 64 \<and> p \<noteq> q
     \<and> (unat p + unat n \<le> unat q \<or> unat q + unat m \<le> unat p))"

text \<open>The sizes the tests are made for: multiples of 256 bytes, up to the 2 GiB that the offset of a pointer
  can express. All of \<^verbatim>\<open>chunk_sizes\<close> are (\<open>chunk_sizes_fit\<close>).\<close>

definition test_size :: "u64 \<Rightarrow> bool" where
  "test_size sz \<longleftrightarrow> 256 \<le> unat sz \<and> unat sz \<le> 2 ^ 31 \<and> 256 dvd unat sz"

lemma test_sizeD:
  assumes "test_size sz"
  shows "256 \<le> unat sz" "unat sz < 2 ^ 63" "unat sz \<le> 2 ^ 31" "unat (sz div 256) \<le> 2 ^ 23" "0 < unat (sz div 256)"
    "span sz = unat sz" "unat sz div 256 * 256 = unat sz" "256 * unat (sz div 256) = unat sz" "sz \<noteq> 0"
proof -
  obtain k where k: "unat sz = 256 * k" "1 \<le> k" "k \<le> 2 ^ 23"
    using assms by (auto simp: test_size_def elim!: dvdE)
  have d: "unat (sz div 256) = k" using k by (simp add: unat_div)
  have "(256 * k + 255) div 256 = k" by simp
  then show "span sz = unat sz" using k by (simp add: span_def)
  show "256 \<le> unat sz" "unat sz < 2 ^ 63" "unat sz \<le> 2 ^ 31" "unat (sz div 256) \<le> 2 ^ 23" "0 < unat (sz div 256)"
    "unat sz div 256 * 256 = unat sz" "256 * unat (sz div 256) = unat sz" using k d by simp_all
  show "sz \<noteq> 0" using k by auto
qed

text \<open>A block and what is used of it.\<close>

lemma chunk_in_block:
  fixes chunk0 sz :: u64
  assumes "unat chunk0 + unat (sz + 128) < 2 ^ 64" "test_size sz" "(chunk0, sz + 128) \<in> set live"
  shows "inside live (chunk_of mode chunk0) (unat sz)" "inside live (align_up 63 chunk0) (unat sz)"
    "inside live chunk0 (unat sz)"
    "q \<in> set (chunk_pointers (chunk_of mode chunk0) (sz div 256)) \<Longrightarrow> inside live q 256"
    "j < (unat (sz div 256) + 15) div 16 \<Longrightarrow> inside live (chunk_of mode chunk0 + of_nat (4096 * j)) 1"
    "distinct (chunk_pointers (chunk_of mode chunk0) (sz div 256))"
proof -
  note size = test_sizeD [OF assms(2)]
  have u: "unat (sz + 128) = unat sz + 128" using size(2) by (simp add: unat_word_ariths)
  have c: "unat chunk0 \<le> unat (chunk_of mode chunk0)" "unat (chunk_of mode chunk0) \<le> unat chunk0 + 63"
    by (rule chunk_of_unat; use assms(1) u in simp)+
  have a: "unat chunk0 \<le> unat (align_up 63 chunk0)" "unat (align_up 63 chunk0) \<le> unat chunk0 + 63"
    using align_up_unat [of chunk0 63] assms(1) u by simp_all
  define n where "n = unat (sz div 256)"
  have n: "n = unat sz div 256" by (simp add: n_def unat_div)
  have n23: "n \<le> 2 ^ 23" using size(4) by (simp add: n_def)
  have n256: "256 * n \<le> unat sz" by (simp add: n)
  have b: "unat (chunk_of mode chunk0) + 256 * n < 2 ^ 64" using c n256 assms(1) u by linarith
  show "inside live (chunk_of mode chunk0) (unat sz)"
    by (rule insideI [OF assms(3)]) (use c u in simp_all)
  show "inside live (align_up 63 chunk0) (unat sz)"
    by (rule insideI [OF assms(3)]) (use a u in simp_all)
  show "inside live chunk0 (unat sz)"
    by (rule insideI [OF assms(3)]) (use u in simp_all)
  show "distinct (chunk_pointers (chunk_of mode chunk0) (sz div 256))"
    by (rule chunk_pointers_distinct) (use b n23 in \<open>simp_all add: n_def\<close>)
  show "inside live q 256" if q: "q \<in> set (chunk_pointers (chunk_of mode chunk0) (sz div 256))"
  proof -
    obtain i where i: "i < n" "q = chunk_of mode chunk0 + chunk_offset i"
      using q by (auto simp: chunk_pointers_def n_def)
    have "unat q = unat (chunk_of mode chunk0) + 256 * i"
      unfolding i(2) by (rule chunk_pointer_unat [where n = "sz div 256"]) (use b i(1) n23 in \<open>simp_all add: n_def\<close>)
    moreover have "256 * i + 256 \<le> 256 * n" using i(1) by simp
    ultimately show ?thesis by (intro insideI [OF assms(3)]) (use c u n256 in simp_all)
  qed
  show "inside live (chunk_of mode chunk0 + of_nat (4096 * j)) 1" if j: "j < (unat (sz div 256) + 15) div 16"
  proof -
    have "16 * j < n" using j by (simp add: n_def)
    then have "4096 * j + 256 \<le> 256 * n" by simp
    then have j4: "4096 * j + 256 \<le> unat sz" using n256 by linarith
    have "unat (of_nat (4096 * j) :: u64) = 4096 * j" 
    proof -
      have "4096 * j < 2 ^ 64" using j4 size(2) by simp
      then show ?thesis by (simp only: unat_of_nat) simp
    qed
    moreover have "unat (chunk_of mode chunk0) + 4096 * j < 2 ^ 64" using c j4 assms(1) u by linarith
    ultimately have "unat (chunk_of mode chunk0 + of_nat (4096 * j)) = unat (chunk_of mode chunk0) + 4096 * j"
      by (simp add: unat_word_ariths)
    then show ?thesis by (intro insideI [OF assms(3)]) (use c u j4 in simp_all)
  qed
qed


definition clean_events :: "bw_event list \<Rightarrow> bool" where
  "clean_events es \<longleftrightarrow> heap_run es [] = Some []"

text \<open>The events of a test: \<open>head\<close> allocates and prepares the blocks, which are freed at the end.\<close>

lemma test_events_clean:
  assumes "heap_run head [] = Some live" "\<forall>e \<in> set es. heap_event e live = Some live"
    and "heap_run frees live = Some []"
  shows "clean_events (head @ concat (replicate k es) @ frees)"
  using assms by (simp add: clean_events_def heap_run_append heap_run_repeat heap_run_kept)

lemma measured_events_clean:
  assumes m: "measure_test en usec title show sz calls loops frees s1 = Some (Inr r, s')"
    and log: "bw_log s1 = bw_log s @ head" and live: "heap_run head [] = Some live"
    and keep: "\<And>es e. calls = Some es \<Longrightarrow> e \<in> set es \<Longrightarrow> heap_event e live = Some live"
    and frees: "heap_run frees live = Some []"
  shows "\<exists>evs. bw_log s' = bw_log s @ evs \<and> heap_run evs [] \<noteq> None \<and> (clean_events evs \<or> r = TEST_UNSUPPORTED)"
proof -
  from measure_test_log [OF m] show ?thesis
  proof (elim disjE conjE exE)
    assume "r = TEST_UNSUPPORTED" "bw_log s' = bw_log s1"
    then show ?thesis using log live by auto
  next
    fix k assume k: "bw_log s' = bw_log s1 @ concat (replicate k (case calls of None \<Rightarrow> [] | Some es \<Rightarrow> es)) @ frees"
    have "clean_events (head @ concat (replicate k (case calls of None \<Rightarrow> [] | Some es \<Rightarrow> es)) @ frees)"
      by (rule test_events_clean [OF live _ frees]) (use keep in \<open>auto split: option.splits\<close>)
    then show ?thesis using k log by (auto simp: clean_events_def)
  qed
qed

lemma heap_run_kept_iff: "heap_run es live = Some live" if "\<And>e. e \<in> set es \<Longrightarrow> heap_event e live = Some live"
  using that by (simp add: heap_run_kept)

lemma random_test_clean:
  fixes sz chunk0 :: u64
  assumes good: "malloc_good en (bw_mallocs s) (sz + 128) (8 * (sz div 256))"
    and sz: "test_size sz"
    and m: "malloc_block en (sz + 128) s = (chunk0, s1)" "chunk0 \<noteq> 0"
    and touch: "bw_log s2 = bw_log s1 @ touches" "bw_mallocs s2 = bw_mallocs s1"
      "set touches \<subseteq> (\<lambda>j. Store (chunk_of mode chunk0 + of_nat (4096 * j)) 1) ` {..<(unat (sz div 256) + 15) div 16}"
    and r: "random_chunks en f (chunk_of mode chunk0) (sz div 256) s2 = (Inr (p, ptrs), s3)"
    and calls: "\<And>es e. calls = Some es \<Longrightarrow> e \<in> set es \<Longrightarrow> \<exists>f v. e = On_Chunks f p ptrs (sz div 256) loops v"
    and t: "measure_test en usec title show sz calls loops [Free chunk0, Free p] s3 = Some (Inr res, s')"
  shows "\<exists>evs. bw_log s' = bw_log s @ evs \<and> heap_run evs [] \<noteq> None \<and> (clean_events evs \<or> res = TEST_UNSUPPORTED)"
proof -
  have c0: "chunk0 = malloc_at en (bw_mallocs s) (sz + 128)" and l1: "bw_log s1 = bw_log s @ [Malloc chunk0 (sz + 128)]"
    and k1: "bw_mallocs s1 = bw_mallocs s + 1"
    using m by (auto simp: malloc_block_def Let_def event_def split: if_splits)
  note rs = random_chunks_spec [OF r]
  have p: "p = malloc_at en (bw_mallocs s + 1) (8 * (sz div 256))" using rs(2) touch(2) k1 by simp
  define n where "n = unat (sz div 256)"
  have n: "0 < n" "pointers_used (sz div 256) = n" using test_sizeD(5) [OF sz] by (simp_all add: n_def pointers_used_def)
  have u8: "unat (8 * (sz div 256)) = 8 * n" using test_sizeD(4) [OF sz] by (simp add: unat_word_ariths n_def)
  have b: "unat chunk0 + unat (sz + 128) < 2 ^ 64" "unat p + unat (8 * (sz div 256)) < 2 ^ 64" "p \<noteq> chunk0"
    using good by (auto simp: malloc_good_def Let_def c0 p)
  define live where "live = [(p, 8 * (sz div 256)), (chunk0, sz + 128)]"
  have in0: "(chunk0, sz + 128) \<in> set [(chunk0, sz + 128)]" "(chunk0, sz + 128) \<in> set live" by (simp_all add: live_def)
  note touch_ok = chunk_in_block(5) [OF b(1) sz in0(1)]
  note block = chunk_in_block [OF b(1) sz in0(2)]
  have ptrs: "length ptrs = n" "distinct ptrs" "set ptrs = set (chunk_pointers (chunk_of mode chunk0) (sz div 256))"
    using rs(1) block(6) mset_eq_length [OF rs(1)] mset_eq_setD [OF rs(1)] mset_eq_imp_distinct_iff [OF rs(1)]
    by (simp_all add: chunk_pointers_def n_def)
  show ?thesis
  proof (rule measured_events_clean [OF t])
    show "bw_log s3 = bw_log s @ ([Malloc chunk0 (sz + 128)] @ touches @ [Malloc p (8 * (sz div 256)), Store p (8 * (sz div 256))])"
      using rs(4) touch(1) l1 by simp
    have "heap_run touches [(chunk0, sz + 128)] = Some [(chunk0, sz + 128)]"
      by (rule heap_run_kept) (use touch(3) touch_ok in fastforce)
    moreover have p8: "inside live p (8 * n)" by (auto simp: inside_def live_def u8)
    ultimately show "heap_run ([Malloc chunk0 (sz + 128)] @ touches @ [Malloc p (8 * (sz div 256)), Store p (8 * (sz div 256))]) []
        = Some live"
      by (simp add: heap_run_append live_def u8)
    show "heap_event e live = Some live" if "calls = Some es" "e \<in> set es" for es e
      using calls [OF that] ptrs block(4) p8 n(2) by auto
    show "heap_run [Free chunk0, Free p] live = Some []" using b(3) by (simp add: live_def)
  qed
qed


lemma sequential_test_clean:
  fixes sz chunk0 :: u64
  assumes good: "malloc_good en (bw_mallocs s) (sz + 128) k"
    and sz: "test_size sz"
    and m: "malloc_block en (sz + 128) s = (chunk0, s1)" "chunk0 \<noteq> 0"
    and touch: "bw_log s2 = bw_log s1 @ touches"
      "set touches \<subseteq> (\<lambda>j. Store (chunk_of mode chunk0 + of_nat (4096 * j)) 1) ` {..<(unat (sz div 256) + 15) div 16}"
    and calls: "\<And>es e. calls = Some es \<Longrightarrow> e \<in> set es \<Longrightarrow> \<exists>f v. e = On_Chunk f (chunk_of mode chunk0) sz loops v"
    and t: "measure_test en usec title show sz calls loops [Free chunk0] s2 = Some (Inr res, s')"
  shows "\<exists>evs. bw_log s' = bw_log s @ evs \<and> heap_run evs [] \<noteq> None \<and> (clean_events evs \<or> res = TEST_UNSUPPORTED)"
proof -
  have c0: "chunk0 = malloc_at en (bw_mallocs s) (sz + 128)" and l1: "bw_log s1 = bw_log s @ [Malloc chunk0 (sz + 128)]"
    using m by (auto simp: malloc_block_def Let_def event_def split: if_splits)
  have b: "unat chunk0 + unat (sz + 128) < 2 ^ 64"
    using good by (auto simp: malloc_good_def Let_def c0)
  define live where "live = [(chunk0, sz + 128)]"
  have in0: "(chunk0, sz + 128) \<in> set live" by (simp add: live_def)
  note block = chunk_in_block [OF b sz in0]
  show ?thesis
  proof (rule measured_events_clean [OF t])
    show "bw_log s2 = bw_log s @ ([Malloc chunk0 (sz + 128)] @ touches)"
      using touch(1) l1 by simp
    have "heap_run touches live = Some live"
      by (rule heap_run_kept) (use touch(2) block(5) in fastforce)
    then show "heap_run ([Malloc chunk0 (sz + 128)] @ touches) [] = Some live"
      by (simp add: heap_run_append live_def)
    show "heap_event e live = Some live" if "calls = Some es" "e \<in> set es" for es e
      using calls [OF that] block(1) test_sizeD(6) [OF sz] by auto
    show "heap_run [Free chunk0] live = Some []" by (simp add: live_def)
  qed
qed

lemma copy_routines_events:
  "copy_routines mode d src sz loops = Some es \<Longrightarrow> e \<in> set es \<Longrightarrow> \<exists>f. e = On_Copy f d src sz loops"
  by (auto simp: copy_routines_def split: if_splits)

lemma TestingX86_write_clean:
  assumes t: "TestingX86_write en usec self sz mode random s = Some (Inr r, s')"
    and good: "malloc_good en (bw_mallocs s) (sz + 128) (8 * (sz div 256))" and sz: "test_size sz"
  shows "\<exists>evs. bw_log s' = bw_log s @ evs \<and> heap_run evs [] \<noteq> None \<and> (clean_events evs \<or> r = TEST_UNSUPPORTED)"
proof -
  have nz: "sz \<noteq> 0" by (rule test_sizeD(9) [OF sz])
  obtain chunk0 s1 where m: "malloc_block en (sz + 128) s = (chunk0, s1)" by force
  with t nz have c0: "chunk0 \<noteq> 0" by (auto simp: TestingX86_write_def bw_error_def)
  show ?thesis
  proof (cases random)
    case False
    show ?thesis
      by (rule sequential_test_clean [OF good sz m c0, where touches = "[]" and mode = mode])
        (use t nz m c0 False write_routines_events [where random = False] in
          \<open>auto simp: TestingX86_write_def Let_def\<close>)
  next
    case True
    with t nz m c0 obtain p ptrs s2 where
      r: "random_chunks en ''TestingX86_write'' (chunk_of mode chunk0) (sz div 256) s1 = (Inr (p, ptrs), s2)"
      by (auto simp: TestingX86_write_def Let_def split: prod.splits sum.splits)
    show ?thesis
      by (rule random_test_clean [OF good sz m c0 _ _ _ r, where touches = "[]"])
        (use t nz m c0 True r write_routines_events [where random = True] in
          \<open>auto simp: TestingX86_write_def Let_def\<close>)
  qed
qed

lemma TestingX86_read_clean:
  assumes t: "TestingX86_read en usec self sz mode random s = Some (Inr r, s')"
    and good: "malloc_good en (bw_mallocs s) (sz + 128) (8 * (sz div 256))" and sz: "test_size sz"
  shows "\<exists>evs. bw_log s' = bw_log s @ evs \<and> heap_run evs [] \<noteq> None \<and> (clean_events evs \<or> r = TEST_UNSUPPORTED)"
proof -
  have nz: "sz \<noteq> 0" by (rule test_sizeD(9) [OF sz])
  obtain chunk0 s1 where m: "malloc_block en (sz + 128) s = (chunk0, s1)" by force
  with t nz have c0: "chunk0 \<noteq> 0" by (auto simp: TestingX86_read_def bw_error_def)
  let ?ts = "map (\<lambda>k. Store (chunk_of mode chunk0 + of_nat (4096 * k)) 1) [0..<(unat (sz div 256) + 15) div 16]"
  let ?s2 = "touch_blocks (chunk_of mode chunk0) (sz div 256) s1"
  have touch: "bw_log ?s2 = bw_log s1 @ ?ts" "bw_mallocs ?s2 = bw_mallocs s1"
    "set ?ts \<subseteq> (\<lambda>j. Store (chunk_of mode chunk0 + of_nat (4096 * j)) 1) ` {..<(unat (sz div 256) + 15) div 16}"
    by (auto simp: touch_blocks_def events_def simp del: of_nat_mult)
  show ?thesis
  proof (cases random)
    case False
    show ?thesis
      by (rule sequential_test_clean [OF good sz m c0 touch(1,3)])
        (use t nz m c0 False read_routines_events [where random = False] in
          \<open>auto simp: TestingX86_read_def Let_def\<close>)
  next
    case True
    with t nz m c0 obtain p ptrs s3 where
      r: "random_chunks en ''TestingX86_read'' (chunk_of mode chunk0) (sz div 256) ?s2 = (Inr (p, ptrs), s3)"
      by (auto simp: TestingX86_read_def Let_def split: prod.splits sum.splits)
    show ?thesis
      by (rule random_test_clean [OF good sz m c0 touch r])
        (use t nz m c0 True r read_routines_events [where random = True] in
          \<open>auto simp: TestingX86_read_def Let_def\<close>)
  qed
qed

lemma TestingX86_copy_clean:
  assumes t: "TestingX86_copy en usec self sz mode random s = Some (Inr r, s')"
    and good: "malloc_good en (bw_mallocs s) (sz + 128) (sz + 128)" and sz: "test_size sz"
  shows "\<exists>evs. bw_log s' = bw_log s @ evs \<and> heap_run evs [] \<noteq> None \<and> (clean_events evs \<or> r = TEST_UNSUPPORTED)"
proof (cases "mode \<in> {SIZE_VECTOR_128_NONTEMPORAL, SIZE_VECTOR_256_NONTEMPORAL, SIZE_VECTOR_512_NONTEMPORAL}")
  case True
  have nz: "sz \<noteq> 0" by (rule test_sizeD(9) [OF sz])
  with t True show ?thesis by (auto simp: TestingX86_copy_def clean_events_def)
next
  case False
  have nz: "sz \<noteq> 0" by (rule test_sizeD(9) [OF sz])
  obtain a s1 where m1: "malloc_block en (sz + 128) s = (a, s1)" by force
  with t nz False have a0: "a \<noteq> 0" by (auto simp: TestingX86_copy_def bw_error_def)
  obtain d s2 where m2: "malloc_block en (sz + 128) s1 = (d, s2)" by force
  with t nz False m1 a0 have d0: "d \<noteq> 0" by (auto simp: TestingX86_copy_def bw_error_def)
  have a: "a = malloc_at en (bw_mallocs s) (sz + 128)" "bw_log s1 = bw_log s @ [Malloc a (sz + 128)]" "bw_mallocs s1 = bw_mallocs s + 1"
    using m1 a0 by (auto simp: malloc_block_def Let_def event_def split: if_splits)
  have d: "d = malloc_at en (bw_mallocs s + 1) (sz + 128)" "bw_log s2 = bw_log s1 @ [Malloc d (sz + 128)]"
    using m2 d0 a(3) by (auto simp: malloc_block_def Let_def event_def split: if_splits)
  have b: "unat a + unat (sz + 128) < 2 ^ 64" "unat d + unat (sz + 128) < 2 ^ 64" "d \<noteq> a"
    using good by (auto simp: malloc_good_def Let_def a(1) d(1))
  define live where "live = [(d, sz + 128), (a, sz + 128)]"
  have in1: "(a, sz + 128) \<in> set live" and in2: "(d, sz + 128) \<in> set live" by (simp_all add: live_def)
  note src = chunk_in_block [OF b(1) sz in1] and dst = chunk_in_block [OF b(2) sz in2]
  have t': "measure_test en usec (''Sequential copy '' @ copy_mode_text mode) (udec \<circ> unat) sz
      (copy_routines mode (align_up 63 d) (align_up 63 a) sz (loops_for (2 ^ 26) sz)) (loops_for (2 ^ 26) sz)
      [Free a, Free d] (events [Store a sz, Store d sz] s2) = Some (Inr r, s')"
    using t nz False m1 a0 m2 d0 by (simp add: TestingX86_copy_def Let_def)
  show ?thesis
  proof (rule measured_events_clean [OF t'])
    show "bw_log (events [Store a sz, Store d sz] s2)
        = bw_log s @ [Malloc a (sz + 128), Malloc d (sz + 128), Store a sz, Store d sz]"
      using a(2) d(2) by (simp add: events_def)
    show "heap_run [Malloc a (sz + 128), Malloc d (sz + 128), Store a sz, Store d sz] [] = Some live"
      using src(3) dst(3) by (simp add: live_def)
    show "heap_event e live = Some live"
      if "copy_routines mode (align_up 63 d) (align_up 63 a) sz (loops_for (2 ^ 26) sz) = Some es" "e \<in> set es" for es e
      using copy_routines_events [OF that] src(2) dst(2) test_sizeD(1,7) [OF sz] by auto
    show "heap_run [Free a, Free d] live = Some []" using b(3) by (auto simp: live_def)
  qed
qed


subsection \<open>A test ends when the clock goes on\<close>

lemma measure_test_ends_iff:
  assumes "0 < usec" "list_all routine_returns es"
  shows "(\<exists>r s'. measure_test en usec title show sz (Some es) loops frees s = Some (Inr r, s'))
    \<longleftrightarrow> (\<exists>k. usec \<le> clock en (bw_reads s + 1 + k) - clock en (bw_reads s))"
proof -
  let ?s = "say (title @ Testing_printSize sz @ '', '') s"
  obtain t0 s1 where g: "getMicrosecondTime en ?s = (t0, s1)" by force
  then have t: "t0 = clock en (bw_reads s)" "bw_reads s1 = bw_reads s + 1"
    by (auto simp: getMicrosecondTime_def say_def)
  have "(\<exists>r s'. measure_test en usec title show sz (Some es) loops frees s = Some (Inr r, s'))
    \<longleftrightarrow> measure_loop en usec (Some es) loops t0 0 0 s1 \<noteq> None"
  proof (cases "measure_loop en usec (Some es) loops t0 0 0 s1")
    case None
    with g show ?thesis by (simp add: measure_test_def Let_def)
  next
    case (Some y)
    then obtain d tt s2 where "y = (Some (d, tt), s2)" using measure_loop_log [OF Some] by (cases y) auto
    with Some g show ?thesis by (auto simp: measure_test_def Let_def split: prod.splits)
  qed
  then show ?thesis using measure_loop_ends_iff [OF assms, of en loops t0 0 s1] t by simp
qed

end
