(* ===== verification/Bandwidth_Properties.thy ===== *)
theory Bandwidth_Properties
  imports Bandwidth Testing_Properties
begin

section \<open>Properties of the measurement of caches\<close>

text \<open>
  The tests keep to their memory (\<open>test_keeps_to_its_memory\<close>) and end if the clock goes on
  (\<open>test_ends_iff\<close>).
\<close>

definition bw_start :: bw_state where
  "bw_start = \<lparr>bw_reads = 0, bw_rands = 0, bw_mallocs = 0, bw_log = [], bw_out = [], bw_err = []\<rparr>"

text \<open>A processor with SSE2 and SSE4.1 only, and one with AVX besides.\<close>

definition sse_cpu :: cpuid where
  "sse_cpu = \<lparr>cpuid1_ecx = 0x00080000, cpuid1_edx = 0x06000000, cpuid7_ebx = 0, cpuid7_ecx = 0, cpuid7_edx = 0,
     cpuid_80000001_ecx = 0, cpuid_80000001_edx = 0\<rparr>"

definition avx_cpu :: cpuid where
  "avx_cpu = sse_cpu\<lparr>cpuid1_ecx := 0x10080000\<rparr>"

subsection \<open>Single tests\<close>

text \<open>All sizes the program asks for are multiples of 256 bytes, up to 1 GiB.\<close>

lemma chunk_sizes_fit: "\<forall>sz \<in> set chunk_sizes. test_size sz"
proof -
  have "list_all test_size chunk_sizes"
    unfolding chunk_sizes_def list.pred_inject test_size_def by simp
  then show ?thesis by (simp add: list_all_iff)
qed

text \<open>C7: a test of a multiple of 256 bytes, up to 2 GiB, that returns has kept to the blocks it has
  allocated, whatever the clock and \<^verbatim>\<open>rand\<close> return: every byte its routines access, with their steps of
  256 bytes, lies in such a block, the array of random pointers included, whose elements point to distinct
  pieces of 256 bytes of the block; and the test has freed all blocks, unless it turned out in the middle to
  be unsupported.\<close>

theorem test_keeps_to_its_memory:
  assumes "call_test en usec self t sz s = Some (Inr r, s')"
    and "test_size sz"
    and "\<forall>m. unat m \<le> unat sz + 128 \<longrightarrow> malloc_good en (bw_mallocs s) (sz + 128) m"
  shows "\<exists>evs. bw_log s' = bw_log s @ evs \<and> heap_run evs [] \<noteq> None
    \<and> (heap_run evs [] = Some [] \<or> r = TEST_UNSUPPORTED)"
proof -
  have "unat (sz + 128) = unat sz + 128" "unat (8 * (sz div 256)) \<le> unat sz"
    using test_sizeD(2) [OF assms(2)] by (simp_all add: unat_word_ariths unat_div)
  then have "malloc_good en (bw_mallocs s) (sz + 128) (sz + 128)"
    "malloc_good en (bw_mallocs s) (sz + 128) (8 * (sz div 256))" using assms(3) by simp_all
  then show ?thesis
    using assms(1,2) TestingX86_read_clean [of en usec self sz _ _ s r s']
      TestingX86_write_clean [of en usec self sz _ _ s r s'] TestingX86_copy_clean [of en usec self sz _ _ s r s']
    unfolding call_test_def clean_events_def by (cases "func_ptr t") auto
qed


text \<open>The routines there are for a supported test.\<close>

lemma supported_routines:
  "read_supported self mode random = TEST_SUPPORTED \<Longrightarrow> test_size sz \<Longrightarrow>
     \<exists>es. read_routines mode random chunk arr ptrs sz loops = Some es \<and> list_all routine_returns es"
  "write_supported self mode random = TEST_SUPPORTED \<Longrightarrow> test_size sz \<Longrightarrow>
     \<exists>es. write_routines mode random chunk arr ptrs sz loops = Some es \<and> list_all routine_returns es"
  "copy_supported self mode = TEST_SUPPORTED \<Longrightarrow> test_size sz \<Longrightarrow>
     \<exists>es. copy_routines mode d chunk sz loops = Some es \<and> list_all routine_returns es
     \<and> mode \<notin> {SIZE_VECTOR_128_NONTEMPORAL, SIZE_VECTOR_256_NONTEMPORAL, SIZE_VECTOR_512_NONTEMPORAL}"
  by (cases mode; cases random; frule test_sizeD(1); drule test_sizeD(5); simp add: read_supported_def read_routines_def write_supported_def write_routines_def
      copy_supported_def copy_routines_def TEST_SUPPORTED_def TEST_UNSUPPORTED_def Let_def)+

lemma malloc_block_nonnull:
  assumes "\<forall>k n. malloc_at en k n \<noteq> 0"
  obtains p s' where "malloc_block en n s = (p, s')" "p \<noteq> 0" "bw_reads s' = bw_reads s"
  using assms by (auto simp: malloc_block_def Let_def event_def)

lemma random_chunks_nonnull:
  assumes "\<forall>k n. malloc_at en k n \<noteq> 0"
  obtains p ptrs s' where "random_chunks en f chunk n s = (Inr (p, ptrs), s')" "bw_reads s' = bw_reads s"
proof -
  obtain q s1 where q: "malloc_block en (8 * n) s = (q, s1)" "q \<noteq> 0" by (rule malloc_block_nonnull [OF assms])
  obtain ps s2 where sh: "shuffle_rounds en N_RANDOMIZATION_LOOPS (chunk_pointers chunk n)
      (event (Store q (8 * n)) s1) = (ps, s2)" by force
  have r: "random_chunks en f chunk n s = (Inr (q, ps), s2)" using q sh by (simp add: random_chunks_def)
  show ?thesis using r random_chunks_spec(5) [OF r] by (rule that)
qed

lemma test_ends:
  assumes ok: "is_supported self t" and size: "test_size sz" and usec: "0 < usec" and nn: "\<forall>k n. malloc_at en k n \<noteq> 0"
  shows "(\<exists>r s'. call_test en usec self t sz s = Some (Inr r, s'))
    \<longleftrightarrow> (\<exists>k. usec \<le> clock en (bw_reads s + 1 + k) - clock en (bw_reads s))"
proof -
  note ends = measure_test_ends_iff [OF usec]
  note sz = test_sizeD(9) [OF size]
  obtain p0 s1 where m: "malloc_block en (sz + 128) s = (p0, s1)" "p0 \<noteq> 0" "bw_reads s1 = bw_reads s"
    by (rule malloc_block_nonnull [OF nn])
  let ?mode = "testing_mode t"
  show ?thesis
  proof (cases "func_ptr t")
    case Test_read
    let ?c = "chunk_of ?mode p0" and ?l = "loops_for (2 ^ 29) sz"
    let ?s2 = "touch_blocks ?c (sz div 256) s1"
    have r2: "bw_reads ?s2 = bw_reads s" using m(3) by (simp add: touch_blocks_def events_def)
    from ok Test_read have "read_supported self ?mode (t_random t) = TEST_SUPPORTED" by (simp add: is_supported_def)
    note es = supported_routines(1) [OF this size]
    obtain p ptrs s3 where r: "random_chunks en ''TestingX86_read'' ?c (sz div 256) ?s2 = (Inr (p, ptrs), s3)"
      "bw_reads s3 = bw_reads ?s2" by (rule random_chunks_nonnull [OF nn])
    obtain e1 where e1: "read_routines ?mode (t_random t) ?c 0 [] sz ?l = Some e1" "list_all routine_returns e1" using es by blast
    obtain e2 where e2: "read_routines ?mode (t_random t) ?c p ptrs sz ?l = Some e2" "list_all routine_returns e2" using es by blast
    show ?thesis
      using ends [OF e1(2), where s = ?s2 and en = en] ends [OF e2(2), where s = s3 and en = en] r r2 e1 e2 sz m Test_read
      by (cases "t_random t") (simp_all add: call_test_def TestingX86_read_def Let_def)
  next
    case Test_write
    let ?c = "chunk_of ?mode p0" and ?l = "loops_for (2 ^ 26) sz"
    from ok Test_write have "write_supported self ?mode (t_random t) = TEST_SUPPORTED" by (simp add: is_supported_def)
    note es = supported_routines(2) [OF this size]
    obtain p ptrs s3 where r: "random_chunks en ''TestingX86_write'' ?c (sz div 256) s1 = (Inr (p, ptrs), s3)"
      "bw_reads s3 = bw_reads s1" by (rule random_chunks_nonnull [OF nn])
    obtain e1 where e1: "write_routines ?mode (t_random t) ?c 0 [] sz ?l = Some e1" "list_all routine_returns e1" using es by blast
    obtain e2 where e2: "write_routines ?mode (t_random t) ?c p ptrs sz ?l = Some e2" "list_all routine_returns e2" using es by blast
    show ?thesis
      using ends [OF e1(2), where s = s1 and en = en] ends [OF e2(2), where s = s3 and en = en] r e1 e2 sz m Test_write
      by (cases "t_random t") (simp_all add: call_test_def TestingX86_write_def Let_def)
  next
    case Test_copy
    obtain d0 s2 where m2: "malloc_block en (sz + 128) s1 = (d0, s2)" "d0 \<noteq> 0" "bw_reads s2 = bw_reads s1"
      by (rule malloc_block_nonnull [OF nn])
    from ok Test_copy have "copy_supported self ?mode = TEST_SUPPORTED" by (simp add: is_supported_def)
    from supported_routines(3) [OF this size] obtain es where
      es: "copy_routines ?mode (align_up 63 d0) (align_up 63 p0) sz (loops_for (2 ^ 26) sz) = Some es" "list_all routine_returns es"
      and nt: "?mode \<notin> {SIZE_VECTOR_128_NONTEMPORAL, SIZE_VECTOR_256_NONTEMPORAL, SIZE_VECTOR_512_NONTEMPORAL}" by blast
    have "call_test en usec self t sz s = measure_test en usec (''Sequential copy '' @ copy_mode_text ?mode)
        (udec \<circ> unat) sz (Some es) (loops_for (2 ^ 26) sz) [Free p0, Free d0] (events [Store p0 sz, Store d0 sz] s2)"
      using sz m m2 es nt Test_copy by (simp add: call_test_def TestingX86_copy_def Let_def)
    then show ?thesis
      using ends [OF es(2), where en = en and s = "events [Store p0 sz, Store d0 sz] s2"] m(3) m2(3) by (simp add: events_def)
  qed
qed


text \<open>C18: a supported test of a multiple of 256 bytes, up to 2 GiB, returns if and only if the clock, at
  some later look, shows at least \<^verbatim>\<open>usec_per_test\<close> microseconds more than at the first one.\<close>

theorem test_ends_iff:
  assumes "is_supported self t" and "test_size sz" and "0 < usec" and "\<forall>k n. malloc_at en k n \<noteq> 0"
  shows "(\<exists>r s'. call_test en usec self t sz s = Some (Inr r, s'))
    \<longleftrightarrow> (\<exists>k. usec \<le> clock en (bw_reads s + 1 + k) - clock en (bw_reads s))"
  using assms by (rule test_ends)

lemma fits_512: "test_size 512"
  by (simp add: test_size_def)

definition demo_malloc :: "nat \<Rightarrow> u64 \<Rightarrow> u64" where
  "demo_malloc k n = (if even k then 0x10010 else 0x10010010)"

definition ticking_env :: bw_env where
  "ticking_env = \<lparr>clock = (\<lambda>n. 10000 * of_nat n), rand_value = (\<lambda>n. 7 * n + 3), malloc_at = demo_malloc\<rparr>"

lemma ticking_malloc [simp]: "malloc_at ticking_env = demo_malloc"
  by (simp add: ticking_env_def)

lemma demo_malloc_nonnull [simp]: "demo_malloc k n \<noteq> 0"
  by (simp add: demo_malloc_def)

text \<open>A clock that stands still.\<close>

definition frozen_env :: bw_env where
  "frozen_env = \<lparr>clock = (\<lambda>_. 0), rand_value = (\<lambda>n. n), malloc_at = demo_malloc\<rparr>"

lemma random_avx_supported: "is_supported (cpux_tester avx_cpu) (tests avx_cpu ! 18)"
  by code_simp

lemma ticking_passes: "\<exists>k. 5000 \<le> clock ticking_env (n + 1 + k) - clock ticking_env n"
proof -
  have "clock ticking_env (n + 1 + 0) - clock ticking_env n = 10000" by (simp add: ticking_env_def algebra_simps)
  moreover have "(5000 :: u64) \<le> 10000" by code_simp
  ultimately show ?thesis by metis
qed

theorem test_ends_iff_witness:
  "(\<exists>r s'. call_test ticking_env 5000 (cpux_tester avx_cpu) (tests avx_cpu ! 18) 512 bw_start = Some (Inr r, s'))
   \<and> (\<nexists>r s'. call_test frozen_env 5000 (cpux_tester avx_cpu) (tests avx_cpu ! 18) 512 bw_start = Some (Inr r, s'))"
proof
  have "\<forall>k n. malloc_at ticking_env k n \<noteq> 0" "\<forall>k n. malloc_at frozen_env k n \<noteq> 0" by (simp_all add: frozen_env_def)
  note iff = this [THEN test_ends_iff [OF random_avx_supported fits_512, of 5000, rotated 1]]
  show "\<exists>r s'. call_test ticking_env 5000 (cpux_tester avx_cpu) (tests avx_cpu ! 18) 512 bw_start = Some (Inr r, s')"
    using iff(1) [of bw_start] ticking_passes [of "bw_reads bw_start"] by simp
  show "\<nexists>r s'. call_test frozen_env 5000 (cpux_tester avx_cpu) (tests avx_cpu ! 18) 512 bw_start = Some (Inr r, s')"
    using iff(2) [of bw_start] by (simp add: frozen_env_def)
qed

lemma ticking_malloc_good:
  "bw_mallocs s = 0 \<Longrightarrow> \<forall>m. unat m \<le> unat (512 :: u64) + 128 \<longrightarrow> malloc_good ticking_env (bw_mallocs s) (512 + 128) m"
  by (simp add: malloc_good_def Let_def demo_malloc_def)

theorem test_keeps_to_its_memory_witness:
  "\<exists>r s' evs. call_test ticking_env 5000 (cpux_tester avx_cpu) (tests avx_cpu ! 18) 512 bw_start = Some (Inr r, s')
   \<and> bw_log s' = bw_log bw_start @ evs \<and> heap_run evs [] \<noteq> None \<and> (heap_run evs [] = Some [] \<or> r = TEST_UNSUPPORTED)"
proof -
  have "\<exists>r s'. call_test ticking_env 5000 (cpux_tester avx_cpu) (tests avx_cpu ! 18) 512 bw_start = Some (Inr r, s')"
    using test_ends [OF random_avx_supported fits_512, of 5000 ticking_env bw_start] ticking_passes [of "bw_reads bw_start"]
    by simp
  then obtain r s' where
    r: "call_test ticking_env 5000 (cpux_tester avx_cpu) (tests avx_cpu ! 18) 512 bw_start = Some (Inr r, s')" by blast
  have "bw_mallocs bw_start = 0" by (simp add: bw_start_def)
  then show ?thesis using test_keeps_to_its_memory [OF r fits_512 ticking_malloc_good] r by auto
qed

end
