(* ===== verification/Cache_Speeds.thy ===== *)
theory Cache_Speeds
  imports Bandwidth_Properties
begin

section \<open>Properties of the speeds that are shown\<close>

text \<open>
  A run gives every level of cache the average over the sizes between this level and the one before
  (\<open>speeds_are_averages\<close>). The reference is \<open>measure_all\<close>, which measures a list of sizes in turn, and
  \<open>boundary\<close>, the number of sizes up to that of a level.
\<close>

subsection \<open>Averages\<close>

fun measure_all :: "bw_env \<Rightarrow> cpuid \<Rightarrow> nat \<Rightarrow> u64 list \<Rightarrow> bw_state \<Rightarrow> (int list \<times> bw_state) option" where
  "measure_all en c t [] s = Some ([], s)"
| "measure_all en c t (chunk # chunks) s =
     (case call_test en CPUX_USEC_PER_TEST (cpux_tester c) (tests c ! t) chunk s of
       Some (Inr a, s) \<Rightarrow> map_option (\<lambda>(as, s). (a # as, s)) (measure_all en c t chunks s)
     | _ \<Rightarrow> None)"

definition boundary :: "u32 list \<Rightarrow> nat \<Rightarrow> nat" where
  "boundary sizes l = length (takeWhile (\<lambda>chunk. chunk \<le> ucast (sizes ! l * 1024)) chunk_sizes)"

definition lower_boundary :: "u32 list \<Rightarrow> nat \<Rightarrow> nat" where
  "lower_boundary sizes l = (if l = 0 then 0 else boundary sizes (l - 1))"

definition level_average :: "u32 list \<Rightarrow> int list \<Rightarrow> nat \<Rightarrow> int" where
  "level_average sizes as l = (let lo = lower_boundary sizes l; hi = boundary sizes l
     in sum_list (take (hi - lo) (drop lo as)) div int (hi - lo))"

text \<open>The levels \<open>0\<close> to \<open>n - 1\<close> have sizes between their boundaries, and a size is left behind the last.\<close>

definition levels_ok :: "u32 list \<Rightarrow> nat \<Rightarrow> bool" where
  "levels_ok sizes n \<longleftrightarrow> length sizes = BANDWIDTH_MAX_CACHE_LEVEL \<and> 0 < n \<and> n \<le> BANDWIDTH_MAX_CACHE_LEVEL
     \<and> (n = BANDWIDTH_MAX_CACHE_LEVEL \<or> sizes ! n = 0) \<and> (\<forall>l < n. sizes ! l \<noteq> 0)
     \<and> (\<forall>l < n. lower_boundary sizes l < boundary sizes l) \<and> boundary sizes (n - 1) < length chunk_sizes"

lemma below_boundary: "i < boundary sizes l \<Longrightarrow> chunk_sizes ! i \<le> ucast (sizes ! l * 1024) \<and> i < length chunk_sizes"
  unfolding boundary_def using set_takeWhileD [OF nth_mem] length_takeWhile_le takeWhile_nth
  by (metis (mono_tags, lifting) order_less_le_trans)

lemma at_boundary: "boundary sizes l < length chunk_sizes \<Longrightarrow> ucast (sizes ! l * 1024) < chunk_sizes ! boundary sizes l"
  unfolding boundary_def using nth_length_takeWhile [of _ chunk_sizes] by (meson not_le)

lemma boundary_mono:
  assumes "levels_ok sizes n" "l \<le> k" "k < n" shows "boundary sizes l \<le> boundary sizes k"
  using assms(2,3)
proof (induction k rule: dec_induct)
  case (step k)
  have "lower_boundary sizes (Suc k) < boundary sizes (Suc k)" using assms(1) step.prems by (auto simp: levels_ok_def)
  with step show ?case by (simp add: lower_boundary_def)
qed simp

lemma boundary_le_last: "levels_ok sizes n \<Longrightarrow> l < n \<Longrightarrow> boundary sizes l \<le> boundary sizes (n - 1)"
  by (rule boundary_mono) auto

lemma measure_all_length: "measure_all en c t xs s = Some (as, s') \<Longrightarrow> length as = length xs"
  by (induction xs arbitrary: s as) (auto split: option.splits sum.splits)

lemma measure_chunk_step:
  assumes "call_test en CPUX_USEC_PER_TEST (cpux_tester c) (tests c ! unat (selected_test bwd)) chunk s = Some (Inr a, s')"
  shows "measure_chunk en c chunk m bwd s
    = Some (Goes_On (m\<lparr>m_chunk := m_chunk m + 1, m_total := m_total m + a, m_count := m_count m + 1\<rparr>) bwd, s')"
  using assms by (simp add: measure_chunk_def)

lemma speed_of_average:
  assumes "0 < k" "0 \<le> tot" "tot div int k < 2 ^ 32"
  shows "speed_of tot k = Some (word_of_int (tot div int k))"
  using assms by (simp add: speed_of_def Let_def pos_imp_zdiv_nonneg_iff)

lemma sum_list_bounds:
  fixes xs :: "int list"
  assumes "\<forall>x \<in> set xs. 0 \<le> x \<and> x < b" "xs \<noteq> []"
  shows "0 \<le> sum_list xs" "sum_list xs div int (length xs) < b"
proof -
  have "sum_list xs \<le> (b - 1) * int (length xs)" using assms(1)
    by (induction xs) (auto simp: algebra_simps)
  then have "sum_list xs div int (length xs) \<le> (b - 1) * int (length xs) div int (length xs)"
    using assms(2) by (intro zdiv_mono1) simp_all
  then show "sum_list xs div int (length xs) < b" using assms(2) by simp
  show "0 \<le> sum_list xs" using assms(1) by (intro sum_list_nonneg) simp
qed

lemma sum_take_Suc: "k < length as \<Longrightarrow> sum_list (take (Suc k) as) = sum_list (take k as) + as ! k" for as :: "int list"
  by (simp add: take_Suc_conv_app_nth)

text \<open>The state of the loop at size \<open>i\<close> and level \<open>l\<close>, with the levels before \<open>l\<close> done.\<close>

definition loop_sum :: "u32 list \<Rightarrow> int list \<Rightarrow> nat \<Rightarrow> nat \<Rightarrow> int" where
  "loop_sum sizes as l i = sum_list (take (i - lower_boundary sizes l) (drop (lower_boundary sizes l) as))"

definition loop_at :: "u32 list \<Rightarrow> int list \<Rightarrow> nat \<Rightarrow> nat \<Rightarrow> measuring" where
  "loop_at sizes as l i = \<lparr>m_chunk = i, m_level = l, m_count = i - lower_boundary sizes l, m_total = loop_sum sizes as l i\<rparr>"

definition speeds_to :: "(nat \<Rightarrow> u32) \<Rightarrow> bandwidth_data \<Rightarrow> nat \<Rightarrow> bandwidth_data" where
  "speeds_to v bwd l = bwd\<lparr>cache_speed := map v [0..<l] @ drop l (cache_speed bwd)\<rparr>"

lemma speeds_to_sel [simp]: "cache_size (speeds_to v bwd l) = cache_size bwd" "selected_test (speeds_to v bwd l) = selected_test bwd"
  by (simp_all add: speeds_to_def)

lemma speeds_to_Suc:
  assumes "l < length (cache_speed bwd)"
  shows "(speeds_to v bwd l)\<lparr>cache_speed := (cache_speed (speeds_to v bwd l))[l := v l]\<rparr> = speeds_to v bwd (Suc l)"
proof -
  have "drop l (cache_speed bwd) = cache_speed bwd ! l # drop (Suc l) (cache_speed bwd)"
    using assms by (rule Cons_nth_drop_Suc [symmetric])
  then show ?thesis by (simp add: speeds_to_def list_update_append)
qed

lemma loop_at_step:
  assumes "lower_boundary sizes l \<le> i" "i < length as"
  shows "(loop_at sizes as l i)\<lparr>m_chunk := i + 1, m_total := m_total (loop_at sizes as l i) + as ! i,
      m_count := m_count (loop_at sizes as l i) + 1\<rparr> = loop_at sizes as l (Suc i)"
proof -
  have "sum_list (take (Suc (i - lower_boundary sizes l)) (drop (lower_boundary sizes l) as))
      = loop_sum sizes as l i + as ! i"
    using assms sum_take_Suc [of "i - lower_boundary sizes l" "drop (lower_boundary sizes l) as"]
    by (simp add: loop_sum_def)
  then show ?thesis using assms(1) by (simp add: loop_at_def loop_sum_def Suc_diff_le)
qed

lemma next_measured:
  assumes "measure_all en c t (drop i (take n chunk_sizes)) s = Some (drop i as, s')" "i < n" "n < length chunk_sizes"
    "length as = n"
  obtains s1 where "call_test en CPUX_USEC_PER_TEST (cpux_tester c) (tests c ! t) (chunk_sizes ! i) s = Some (Inr (as ! i), s1)"
    "measure_all en c t (drop (Suc i) (take n chunk_sizes)) s1 = Some (drop (Suc i) as, s')"
proof -
  have "drop i (take n chunk_sizes) = chunk_sizes ! i # drop (Suc i) (take n chunk_sizes)"
    using assms(2,3) by (simp add: Cons_nth_drop_Suc [symmetric])
  moreover have "drop i as = as ! i # drop (Suc i) as" using assms(2,4) by (simp add: Cons_nth_drop_Suc)
  ultimately show ?thesis using assms(1) that by (auto split: option.splits sum.splits)
qed

lemma loop_run:
  fixes bwd as v n
  defines sizes_def: "sizes \<equiv> cache_size bwd" and fin_def: "fin \<equiv> boundary (cache_size bwd) (n - 1)"
  assumes ok: "levels_ok sizes n" and sp: "length (cache_speed bwd) = BANDWIDTH_MAX_CACHE_LEVEL"
    and avg: "\<And>l. l < n \<Longrightarrow> speed_of (loop_sum sizes as l (boundary sizes l)) (boundary sizes l - lower_boundary sizes l) = Some (v l)"
    and len: "length as = fin"
  shows "\<lbrakk>measure_all en c (unat (selected_test bwd)) (drop i (take fin chunk_sizes)) s = Some (drop i as, s');
      l < n; lower_boundary sizes l \<le> i; i \<le> boundary sizes l\<rbrakk> \<Longrightarrow>
    cpux_loop en c (loop_at sizes as l i) (speeds_to v bwd l) s = Some (Inr (speeds_to v bwd n), s')"
proof (induction "fin - i" arbitrary: i l s)
  case 0
  have le: "boundary sizes l \<le> fin" using boundary_le_last [OF ok 0(3)] by (simp add: fin_def sizes_def)
  then have i: "i = fin" "boundary sizes l = fin" using 0(1,5) by simp_all
  have l: "Suc l = n"
  proof (rule ccontr)
    assume "Suc l \<noteq> n"
    then have "Suc l < n" using 0(3) by simp
    moreover from this have "boundary sizes l < boundary sizes (Suc l)"
      using ok by (auto simp: levels_ok_def lower_boundary_def dest: spec [of _ "Suc l"])
    ultimately show False using boundary_le_last [OF ok, of "Suc l"] i by (simp add: fin_def sizes_def)
  qed
  have lt: "fin < length chunk_sizes" using ok by (simp add: levels_ok_def fin_def sizes_def)
  have "ucast (sizes ! l * 1024) < chunk_sizes ! fin" using at_boundary [of sizes l] lt i by simp
  moreover have "BANDWIDTH_MAX_CACHE_LEVEL \<le> l + 1 \<or> sizes ! (l + 1) = 0" using ok l by (auto simp: levels_ok_def)
  moreover have "l < length (cache_speed bwd)" using sp ok l by (auto simp: levels_ok_def)
  moreover have "s' = s" using 0(2) i len by simp
  ultimately have "cpux_round en c (loop_at sizes as l i) (speeds_to v bwd l) s = Some (Finished (speeds_to v bwd n), s')"
    using lt avg [OF 0(3)] speeds_to_Suc [of l bwd v] l i by (simp add: cpux_round_def loop_at_def Let_def sizes_def)
  then show ?case by (subst cpux_loop.simps) simp
next
  case (Suc k)
  have lt: "fin < length chunk_sizes" using ok by (simp add: levels_ok_def fin_def sizes_def)
  have il: "i < fin" using Suc(2) by simp
  then have chunk: "i < length chunk_sizes" using lt by simp
  from next_measured [OF Suc(3) il lt len] obtain s1 where
    call: "call_test en CPUX_USEC_PER_TEST (cpux_tester c) (tests c ! unat (selected_test bwd)) (chunk_sizes ! i) s = Some (Inr (as ! i), s1)"
    and rest: "measure_all en c (unat (selected_test bwd)) (drop (Suc i) (take fin chunk_sizes)) s1 = Some (drop (Suc i) as, s')" .
  have k: "k = fin - Suc i" using Suc(2) by simp
  show ?case
  proof (cases "i < boundary sizes l")
    case True
    then have "\<not> ucast (sizes ! l * 1024) < chunk_sizes ! i" using below_boundary [OF True] by (metis not_le)
    then have "cpux_round en c (loop_at sizes as l i) (speeds_to v bwd l) s
        = measure_chunk en c (chunk_sizes ! i) (loop_at sizes as l i) (speeds_to v bwd l) s"
      using chunk by (simp add: cpux_round_def loop_at_def sizes_def)
    also have "\<dots> = Some (Goes_On (loop_at sizes as l (Suc i)) (speeds_to v bwd l), s1)"
      using call loop_at_step [OF Suc(5), of as] il len by (simp add: measure_chunk_step loop_at_def)
    finally show ?thesis using Suc(1) [OF k rest Suc(4)] Suc(5) True by (subst cpux_loop.simps) simp
  next
    case False
    then have i: "i = boundary sizes l" using Suc(6) by simp
    have l: "Suc l < n" using il i Suc(4) by (cases "Suc l = n") (auto simp: fin_def sizes_def)
    have low: "lower_boundary sizes (Suc l) = i" using i by (simp add: lower_boundary_def)
    have up: "i < boundary sizes (Suc l)" using ok l low by (auto simp: levels_ok_def dest: spec [of _ "Suc l"])
    have "ucast (sizes ! l * 1024) < chunk_sizes ! i" using at_boundary [of sizes l] chunk i by simp
    moreover have "\<not> BANDWIDTH_MAX_CACHE_LEVEL \<le> Suc l" "sizes ! Suc l \<noteq> 0" using ok l by (auto simp: levels_ok_def)
    moreover have "l < length (cache_speed bwd)" using sp ok l by (auto simp: levels_ok_def)
    ultimately have "cpux_round en c (loop_at sizes as l i) (speeds_to v bwd l) s
        = measure_chunk en c (chunk_sizes ! i) (loop_at sizes as (Suc l) i) (speeds_to v bwd (Suc l)) s"
      using chunk avg [OF Suc(4)] speeds_to_Suc [of l bwd v] i low
      by (simp add: cpux_round_def loop_at_def loop_sum_def Let_def sizes_def)
    also have "\<dots> = Some (Goes_On (loop_at sizes as (Suc l) (Suc i)) (speeds_to v bwd (Suc l)), s1)"
      using call loop_at_step [of sizes "Suc l" i as] low il len by (simp add: measure_chunk_step loop_at_def)
    finally show ?thesis using Suc(1) [OF k rest l] low up by (subst cpux_loop.simps) simp
  qed
qed

text \<open>C8: if the sizes of the first \<open>n\<close> levels of cache separate the sizes measured, and every measurement
  succeeds with an amount that is not negative and fits in 31 bits, a run ends with the speed of every
  level the average of the amounts for the sizes above the level before and up to its own size, and
  leaves the other speeds as they are.\<close>

theorem speeds_are_averages:
  assumes "test_name bwd \<noteq> None" and "the (test_supported bwd) ! unat (selected_test bwd)"
    and ok: "levels_ok (cache_size bwd) n" and sp: "length (cache_speed bwd) = BANDWIDTH_MAX_CACHE_LEVEL"
    and m: "measure_all en c (unat (selected_test bwd)) (take (boundary (cache_size bwd) (n - 1)) chunk_sizes) s = Some (as, s')"
    and a: "\<forall>a \<in> set as. 0 \<le> a \<and> a < 2 ^ 31"
  shows "bandwidth_cpux tr en c bwd s = Some (Inr (bwd\<lparr>cache_speed :=
      map (\<lambda>l. word_of_int (level_average (cache_size bwd) as l)) [0..<n] @ drop n (cache_speed bwd)\<rparr>), s')"
proof -
  let ?sizes = "cache_size bwd" and ?v = "\<lambda>l. word_of_int (level_average (cache_size bwd) as l) :: u32"
  have len: "length as = boundary ?sizes (n - 1)"
    using measure_all_length [OF m] ok by (simp add: levels_ok_def)
  have avg: "speed_of (loop_sum ?sizes as l (boundary ?sizes l)) (boundary ?sizes l - lower_boundary ?sizes l) = Some (?v l)"
    if "l < n" for l
  proof -
    let ?lo = "lower_boundary ?sizes l" and ?hi = "boundary ?sizes l"
    let ?xs = "take (?hi - ?lo) (drop ?lo as)"
    have "?lo < ?hi" using ok that by (simp add: levels_ok_def)
    moreover have "?hi \<le> length as" using boundary_le_last [OF ok, of l] that len by simp
    ultimately have xs: "length ?xs = ?hi - ?lo" "?xs \<noteq> []" by auto
    have "\<forall>x \<in> set ?xs. 0 \<le> x \<and> x < 2 ^ 31" using a by (auto dest!: in_set_takeD in_set_dropD)
    note b = sum_list_bounds [OF this xs(2)]
    have "sum_list ?xs div int (?hi - ?lo) < 2 ^ 32" using b(2) unfolding xs(1) by simp
    then show ?thesis using speed_of_average [of "?hi - ?lo" "sum_list ?xs"] b(1) \<open>?lo < ?hi\<close>
      by (simp add: loop_sum_def level_average_def Let_def)
  qed
  have "cpux_loop en c (loop_at ?sizes as 0 0) (speeds_to ?v bwd 0) s = Some (Inr (speeds_to ?v bwd n), s')"
    using loop_run [OF ok sp avg len, where i = 0 and l = 0] m ok by (simp add: levels_ok_def lower_boundary_def)
  moreover have "loop_at ?sizes as 0 0 = \<lparr>m_chunk = 0, m_level = 0, m_count = 0, m_total = 0\<rparr>"
    by (simp add: loop_at_def loop_sum_def)
  moreover have "speeds_to ?v bwd 0 = bwd" by (simp add: speeds_to_def)
  ultimately show ?thesis using assms(1,2) by (auto simp: bandwidth_cpux_def cpux_start_def speeds_to_def)
qed


text \<open>With the clock that goes on by 10 ms at every look, a test of sequential writes takes one round.\<close>

definition ticking_amount :: "u64 \<Rightarrow> int" where
  "ticking_amount sz = sint (word_of_nat (ld_trunc (ld_mul (ld_of_nat 10) (result_value sz (loops_for (2 ^ 26) sz) 10000))) :: u32)"

lemma ticking_difference: "clock ticking_env (n + 1) - clock ticking_env n = 10000"
  by (simp add: ticking_env_def algebra_simps)

lemma ticking_measure:
  assumes returns: "list_all routine_returns es"
  shows "\<exists>s'. measure_test ticking_env 5000 title show sz (Some es) loops frees s
    = Some (Inr (fst (Testing_calculateResult sz loops 10000 bw_start)), s') \<and> bw_log s' = bw_log s @ es @ frees"
proof -
  let ?s = "say (title @ Testing_printSize sz @ '', '') s\<lparr>bw_reads := bw_reads s + 1\<rparr>"
  have r: "bw_reads ?s = bw_reads s + 1" by simp
  have "measure_loop ticking_env 5000 (Some es) loops (clock ticking_env (bw_reads s)) 0 0 ?s
      = Some (Some (clock ticking_env (bw_reads ?s + 0) - clock ticking_env (bw_reads s), 0 + of_nat (Suc 0) * loops),
          ?s\<lparr>bw_log := bw_log ?s @ concat (replicate (Suc 0) es), bw_reads := bw_reads ?s + Suc 0\<rparr>)"
    by (rule measure_loop_found) (simp_all add: returns r ticking_difference [unfolded One_nat_def add_Suc_right add_0_right])
  then have "\<exists>s2. measure_loop ticking_env 5000 (Some es) loops (clock ticking_env (bw_reads s)) 0 0 ?s
      = Some (Some (10000, loops), s2) \<and> bw_log s2 = bw_log s @ es"
    by (simp add: say_def r ticking_difference [unfolded One_nat_def add_Suc_right add_0_right])
  then show ?thesis
    by (auto simp: measure_test_def getMicrosecondTime_def say_def Let_def Testing_calculateResult_def events_def)
qed

lemma ticking_write:
  assumes "sz \<noteq> 0"
  shows "\<exists>s'. call_test ticking_env CPUX_USEC_PER_TEST (cpux_tester c) (tests c ! 8) sz s = Some (Inr (ticking_amount sz), s')"
proof -
  have t: "func_ptr (tests c ! 8) = Test_write" "testing_mode (tests c ! 8) = SIZE_MAIN_REGISTER" "\<not> t_random (tests c ! 8)"
    by (simp_all add: tests_def Tests.make_def Let_def)
  obtain p s1 where m: "malloc_block ticking_env (sz + 128) s = (p, s1)" "p \<noteq> 0"
    by (rule malloc_block_nonnull [of ticking_env]) simp_all
  have measure: "\<exists>s'. measure_test ticking_env 5000 title sh sz (Some [On_Chunk f q n l v]) loops frees s
      = Some (Inr (fst (Testing_calculateResult sz loops 10000 bw_start)), s')" for title sh f q n l v loops frees s
    using ticking_measure [of "[On_Chunk f q n l v]" title sh sz loops frees s] by auto
  show ?thesis
    using t m assms measure
    by (simp add: call_test_def TestingX86_write_def write_routines_def Let_def CPUX_USEC_PER_TEST_def ticking_amount_def
        Testing_calculateResult_def)
qed

lemma ticking_measure_all:
  "0 \<notin> set xs \<Longrightarrow> \<exists>s'. measure_all ticking_env c 8 xs s = Some (map ticking_amount xs, s')"
proof (induction xs arbitrary: s)
  case (Cons x xs)
  obtain s1 where "call_test ticking_env CPUX_USEC_PER_TEST (cpux_tester c) (tests c ! 8) x s = Some (Inr (ticking_amount x), s1)"
    using ticking_write [of x c s] Cons.prems by auto
  moreover obtain s' where "measure_all ticking_env c 8 xs s1 = Some (map ticking_amount xs, s')"
    using Cons.IH [of s1] Cons.prems by auto
  ultimately show ?case by simp
qed simp

lemma ticking_amounts:
  "ticking_amount 256 = 64000" "ticking_amount 512 = 64000" "ticking_amount 768 = 63999"
  "ticking_amount 1024 = 64000" "ticking_amount 1280 = 63999" "ticking_amount 2048 = 64000"
  by (simp_all add: ticking_amount_def result_value_def ld_div_def ld_mul_def ld_of_nat_def ld_ratio_def ld_shift_def
    bit_len.simps rne_scaled_def rne_def pow_le_def ld_trunc_def Let_def loops_for_def)

text \<open>Two levels of caches, of 1 and 2 KiB, and the test of sequential writes.\<close>

definition small_caches :: bandwidth_data where
  "small_caches = (set_test_names (\<lambda>t. t) avx_cpu new_bandwidth_data)\<lparr>selected_test := 8, cache_size := [1, 2, 0, 0]\<rparr>"

lemma small_boundaries: "boundary [1, 2, 0, 0] 0 = 4" "boundary [1, 2, 0, 0] 1 = 6"
  by (simp_all add: boundary_def chunk_sizes_def)

lemma small_chunks: "take 6 chunk_sizes = [256, 512, 768, 1024, 1280, 2048]" "length chunk_sizes = 75"
  by (simp_all add: chunk_sizes_def)

lemma small_levels: "levels_ok [1, 2, 0, 0] 2"
  by (simp add: levels_ok_def BANDWIDTH_MAX_CACHE_LEVEL_def lower_boundary_def small_boundaries [unfolded One_nat_def]
      small_chunks less_Suc_eq numeral_2_eq_2)

theorem speeds_are_averages_witness:
  "\<exists>s'. bandwidth_cpux (\<lambda>t. t) ticking_env avx_cpu small_caches bw_start
    = Some (Inr (small_caches\<lparr>cache_speed := [63999, 63999, 0, 0]\<rparr>), s')"
proof -
  have sel: "cache_size small_caches = [1, 2, 0, 0]" "selected_test small_caches = 8" "test_name small_caches \<noteq> None"
    "cache_speed small_caches = [0, 0, 0, 0]"
    by (simp_all add: small_caches_def set_test_names_def new_bandwidth_data_def BANDWIDTH_MAX_CACHE_LEVEL_def Let_def
        numeral_eq_Suc)
  have sup: "the (test_supported small_caches) ! unat (selected_test small_caches)"
    by code_simp
  obtain s' where m: "measure_all ticking_env avx_cpu 8 (take 6 chunk_sizes) bw_start
      = Some (map ticking_amount (take 6 chunk_sizes), s')"
    using ticking_measure_all [of "take 6 chunk_sizes" avx_cpu bw_start] by (auto simp: small_chunks)
  have "bandwidth_cpux (\<lambda>t. t) ticking_env avx_cpu small_caches bw_start
    = Some (Inr (small_caches\<lparr>cache_speed :=
        map (\<lambda>l. word_of_int (level_average (cache_size small_caches) (map ticking_amount (take 6 chunk_sizes)) l)) [0..<2]
        @ drop 2 (cache_speed small_caches)\<rparr>), s')"
    by (rule speeds_are_averages [OF sel(3) sup])
      (use m small_levels in \<open>simp_all add: sel BANDWIDTH_MAX_CACHE_LEVEL_def small_boundaries [unfolded One_nat_def]
        small_chunks ticking_amounts\<close>)
  moreover have "map (\<lambda>l. word_of_int (level_average [1, 2, 0, 0] (map ticking_amount (take 6 chunk_sizes)) l)) [0..<2]
      = [63999, 63999 :: u32]"
    by (simp add: level_average_def lower_boundary_def small_boundaries [unfolded One_nat_def] small_chunks ticking_amounts
        Let_def upt_rec numeral_2_eq_2)
  ultimately show ?thesis using sel by simp
qed

end
