(* ===== verification/Bandwidth_Threads.thy ===== *)
theory Bandwidth_Threads
  imports Cache_Speeds
begin

section \<open>Properties of the threads that measure\<close>

text \<open>
  Which tests are offered (\<open>offered_tests\<close>); one thread measures at a time, and stays inside of its arrays
  if the caches are small and few enough (\<open>one_thread_measures\<close>). Two faults: the first call measures nothing on a CPU of one type
  (\<open>first_call_shows_zero\<close>), and a change of the test in the middle of a run makes it use instructions that
  the CPU does not have (\<open>unsupported_routine_runs\<close>).
\<close>

subsection \<open>Which tests are offered\<close>

definition has_vectors :: "cpuid \<Rightarrow> TestingMode \<Rightarrow> bool" where
  "has_vectors c mode = (case mode of
       SIZE_MAIN_REGISTER \<Rightarrow> True
     | SIZE_MAIN_REGISTER_NONTEMPORAL \<Rightarrow> True
     | SIZE_VECTOR_128 \<Rightarrow> has_bit (cpuid1_edx c) 25
     | SIZE_VECTOR_128_NONTEMPORAL \<Rightarrow> has_bit (cpuid1_edx c) 25
     | SIZE_VECTOR_256 \<Rightarrow> has_bit (cpuid1_ecx c) 28
     | SIZE_VECTOR_256_NONTEMPORAL \<Rightarrow> has_bit (cpuid1_ecx c) 28
     | _ \<Rightarrow> has_bit (cpuid1_ecx c) 28 \<and> has_bit (cpuid7_ebx c) 16 \<and> has_bit (cpuid7_ebx c) 17)"

lemma sse41_feature: "''sse41'' \<in> set (CPU_features c) \<longleftrightarrow> has_bit (cpuid1_ecx c) 19"
  by (auto simp: CPU_features_def names_of_def features1_ecx_def features1_edx_def features7_ebx_def features7_ebx_avx_def
      features7_ecx_avx512_def features7_edx_avx512_def split: if_splits)

lemma offered:
  "map (is_supported (cpux_tester c)) (tests c) = map (\<lambda>t. test_id t \<notin> {SEQ_WS_NT_R, RAND_256_NT_R}
     \<and> has_vectors c (testing_mode t) \<and> (if test_id t \<in> {SEQ_128_NT_R, RAND_128_NT_R} then has_bit (cpuid1_ecx c) 19 else True)) (tests c)"
  by (simp add: tests_def Tests.make_def Let_def is_supported_def read_supported_def write_supported_def copy_supported_def
      has_vectors_def cpux_tester_def sse41_feature TEST_SUPPORTED_def TEST_UNSUPPORTED_def supported_if_def
      CPU_has128bitVectors_def CPU_has256bitVectors_def CPU_has512bitVectors_def have_sse_def have_avx_def have_avx512_def)

text \<open>C19: a test is offered exactly if the processor has vectors of its size and, for the reads of 128
  bits that bypass the caches, SSE4.1; the sequential read of main registers and the random read of 256
  bits that bypass the caches never are.\<close>

theorem offered_tests:
  "test_supported (set_test_names tr c bwd) = Some (map (\<lambda>t. test_id t \<notin> {SEQ_WS_NT_R, RAND_256_NT_R}
     \<and> has_vectors c (testing_mode t)
     \<and> (if test_id t \<in> {SEQ_128_NT_R, RAND_128_NT_R} then has_bit (cpuid1_ecx c) 19 else True)) (tests c))"
  by (simp add: set_test_names_def Let_def offered)

subsection \<open>One thread at a time\<close>

definition data_ok :: "bandwidth_data \<Rightarrow> bool" where
  "data_ok bwd \<longleftrightarrow> length (cache_size bwd) = BANDWIDTH_MAX_CACHE_LEVEL
     \<and> length (cache_speed bwd) = BANDWIDTH_MAX_CACHE_LEVEL \<and> unat (selected_test bwd) < 30
     \<and> (test_name bwd \<noteq> None \<longrightarrow> (\<exists>sup. test_supported bwd = Some sup \<and> length sup = 30))"

definition measuring_ok :: "measuring \<Rightarrow> bool" where
  "measuring_ok m \<longleftrightarrow> m_level m < BANDWIDTH_MAX_CACHE_LEVEL \<and> m_count m \<le> m_chunk m \<and> m_chunk m \<le> length chunk_sizes"

lemma mutex_free_iff: "mutex_free w \<longleftrightarrow> (\<forall>x \<in> set (w_workers w). \<forall>m. x \<noteq> Measuring m)"
  by (auto simp: mutex_free_def split: worker.split)

text \<open>At most one thread is between the taking of the mutex and its release.\<close>

definition at_most_one :: "worker list \<Rightarrow> bool" where
  "at_most_one ws \<longleftrightarrow> (\<forall>j k m m'. j < length ws \<longrightarrow> k < length ws \<longrightarrow> ws ! j = Measuring m \<longrightarrow> ws ! k = Measuring m' \<longrightarrow> j = k)"

definition world_ok :: "bw_world \<Rightarrow> bool" where
  "world_ok w \<longleftrightarrow> at_most_one (w_workers w) \<and> data_ok (app_bwd (w_app w)) \<and> unat (sel_test (app_sel (w_app w))) < 30
     \<and> (\<forall>m. Measuring m \<in> set (w_workers w) \<longrightarrow> measuring_ok m)"

lemma get_selected_type_test: "get_selected_type s = (t, s') \<Longrightarrow> sel_test s' = sel_test s"
  by (auto simp: get_selected_type_def check_selected_type_valid_def Let_def split: if_splits)

lemma show_speeds_test: "show_speeds tr bwd d sel = Inr (d', sel') \<Longrightarrow> sel_test sel' = sel_test sel"
  by (auto simp: show_speeds_def get_selected_cpu_type_def Let_def split: option.splits if_splits prod.splits
      dest: get_selected_type_test)

lemma cpux_start_ok: "data_ok bwd \<Longrightarrow> case cpux_start tr c bwd of Inl m \<Rightarrow> measuring_ok m | Inr bwd' \<Rightarrow> data_ok bwd'"
  by (auto simp: cpux_start_def data_ok_def measuring_ok_def set_test_names_def Let_def tests_def BANDWIDTH_MAX_CACHE_LEVEL_def)

lemma cpux_round_ok:
  assumes "data_ok bwd" "measuring_ok m" "cpux_round en c m bwd s = Some (r, s')"
  shows "case r of Goes_On m' bwd' \<Rightarrow> measuring_ok m' \<and> data_ok bwd' | Finished bwd' \<Rightarrow> data_ok bwd' | Fails f \<Rightarrow> True"
  using assms
  by (auto simp: cpux_round_def measure_chunk_def data_ok_def measuring_ok_def Let_def
      split: if_splits option.splits prod.splits sum.splits)

lemma at_most_one_update:
  assumes "at_most_one ws" "k < length ws" "\<forall>m. x = Measuring m \<longrightarrow> (\<exists>m'. ws ! k = Measuring m') \<or> (\<forall>y \<in> set ws. \<forall>m. y \<noteq> Measuring m)"
  shows "at_most_one (ws[k := x])"
  unfolding at_most_one_def
proof (intro allI impI)
  fix i j m m'
  assume ij: "i < length (ws[k := x])" "j < length (ws[k := x])" "ws[k := x] ! i = Measuring m" "ws[k := x] ! j = Measuring m'"
  have other: "i' = k" if "i' < length ws" "ws[k := x] ! i' = Measuring n" "x = Measuring n'" for i' n n'
  proof (rule ccontr)
    assume "i' \<noteq> k"
    then have i': "ws ! i' = Measuring n" using that by simp
    moreover from this have "Measuring n \<in> set ws" using that(1) by (metis nth_mem)
    ultimately show False using assms that \<open>i' \<noteq> k\<close> unfolding at_most_one_def by blast
  qed
  show "i = j"
  proof (cases "\<exists>n. x = Measuring n")
    case True
    then obtain n where n: "x = Measuring n" ..
    have "i = k" using other [OF _ ij(3) n] ij(1) by simp
    moreover have "j = k" using other [OF _ ij(4) n] ij(2) by simp
    ultimately show ?thesis by simp
  next
    case False
    then have "i \<noteq> k" "j \<noteq> k" using ij assms(2) by auto
    then show ?thesis using ij assms(1) unfolding at_most_one_def by auto
  qed
qed

lemma at_most_one_append: "at_most_one ws \<Longrightarrow> at_most_one (ws @ [Created])"
  unfolding at_most_one_def by (auto simp: nth_append split: if_splits)

lemma call_bandwidth_again_ok:
  assumes "world_ok w" shows "world_ok (call_bandwidth_again tr w)"
proof -
  let ?bwd = "(app_bwd (w_app w))\<lparr>selected_test := sel_test (app_sel (w_app w))\<rparr>"
  define w1 where "w1 = put_bwd ?bwd w"
  define w2 where "w2 = (if mutex_free w1 then w1\<lparr>w_workers := w_workers w1 @ [Created]\<rparr> else w1)"
  have "world_ok w1" using assms by (auto simp: w1_def put_bwd_def world_ok_def data_ok_def)
  then have "world_ok w2" by (auto simp: w2_def world_ok_def intro: at_most_one_append)
  moreover have "app_sel (w_app w2) = app_sel (w_app w)" by (simp add: w2_def w1_def put_bwd_def)
  moreover have "call_bandwidth_again tr w = (case show_speeds tr ?bwd (app_caches (w_app w)) (app_sel (w_app w)) of
       Inl f \<Rightarrow> w2\<lparr>w_failed := Some f\<rparr> | Inr (d, sel) \<Rightarrow> w2\<lparr>w_app := (w_app w2)\<lparr>app_caches := d, app_sel := sel\<rparr>\<rparr>)"
    unfolding call_bandwidth_again_def Let_def w2_def w1_def by (rule refl)
  ultimately show ?thesis
    using show_speeds_test [of tr ?bwd "app_caches (w_app w)" "app_sel (w_app w)"]
    by (auto simp: world_ok_def split: sum.split prod.split)
qed

lemma put_bwd_same: "put_bwd (app_bwd (w_app w)) w = w"
  by (simp add: put_bwd_def)

lemma put_worker_ok:
  assumes "world_ok w" "k < length (w_workers w)" "data_ok bwd"
    and "\<forall>m. x = Measuring m \<longrightarrow> measuring_ok m \<and> ((\<exists>m'. w_workers w ! k = Measuring m') \<or> mutex_free w)"
  shows "world_ok (put_worker k x (put_bwd bwd w))"
proof -
  have "at_most_one ((w_workers w)[k := x])"
    using assms by (intro at_most_one_update) (auto simp: world_ok_def mutex_free_iff)
  then show ?thesis using assms
    by (auto simp: world_ok_def put_worker_def put_bwd_def dest!: set_update_subset_insert [THEN subsetD])
qed

lemma world_ok_state [simp]: "world_ok (w\<lparr>w_state := s\<rparr>) = world_ok w"
  by (simp add: world_ok_def)

lemma step_worker_ok:
  assumes "step_worker tr en c k w = Some w'" "world_ok w"
  shows "world_ok w'"
proof -
  from assms(1) have k: "k < length (w_workers w)" by (auto simp: step_worker_def split: if_splits)
  have d: "data_ok (app_bwd (w_app w))" using assms(2) by (simp add: world_ok_def)
  show ?thesis
  proof (cases "w_workers w ! k")
    case Created
    with assms(1) k have "mutex_free w" by (auto simp: step_worker_def split: if_splits)
    then show ?thesis
      using assms k d Created cpux_start_ok [OF d, of tr c] put_worker_ok [OF assms(2) k]
        put_worker_ok [OF assms(2) k d, unfolded put_bwd_same]
      by (auto simp: step_worker_def split: sum.splits)
  next
    case (Measuring m)
    then have m: "measuring_ok m" using assms(2) k by (auto simp: world_ok_def dest: nth_mem)
    obtain r s where r: "cpux_round en c m (app_bwd (w_app w)) (w_state w) = Some (r, s)"
      using assms(1) k Measuring by (auto simp: step_worker_def split: option.splits)
    note w' = assms(1) [unfolded step_worker_def] k Measuring r
    note put = put_worker_ok [OF assms(2) k] and round = cpux_round_ok [OF d m r]
    show ?thesis
    proof (cases r)
      case (Goes_On m' bwd')
      then have "w' = put_worker k (Measuring m') (put_bwd bwd' w)\<lparr>w_state := s\<rparr>" using w' by simp
      then show ?thesis using put [of bwd' "Measuring m'"] round Goes_On Measuring by simp
    next
      case (Finished bwd')
      then have "w' = put_worker k Over (put_bwd bwd' w)\<lparr>w_state := s\<rparr>" using w' by simp
      then show ?thesis using put [of bwd' Over] round Finished by simp
    next
      case (Fails f)
      then have "w' = w\<lparr>w_state := s, w_failed := Some f\<rparr>" using w' by simp
      then show ?thesis using assms(2) by (simp add: world_ok_def)
    qed
  next
    case Over
    then show ?thesis using assms(1) k by (simp add: step_worker_def)
  qed
qed

lemma bw_step_ok:
  assumes "bw_step tr en c w w'" "world_ok w"
  shows "world_ok w'"
  using assms(1)
proof cases
  case refresh
  then show ?thesis using call_bandwidth_again_ok [OF assms(2)] by simp
next
  case (select n)
  then show ?thesis using assms(2)
    by (auto simp: user_selects_test_def world_ok_def set_selected_test_def BANDWIDTH_LAST_TEST_def word_less_nat_alt)
next
  case (worker k)
  then show ?thesis using step_worker_ok assms(2) by blast
qed


lemma bw_steps_ok: "(bw_step tr en c)\<^sup>*\<^sup>* w w' \<Longrightarrow> world_ok w \<Longrightarrow> world_ok w'"
  by (induction rule: rtranclp_induct) (auto intro: bw_step_ok)

text \<open>
  The sizes of the caches and their number decide whether the loop over \<^verbatim>\<open>chunk_sizes\<close>, which has no
  end of its own, and the loop that shows the speeds stay inside of their arrays: below 480 MiB, element 70
  of \<^verbatim>\<open>chunk_sizes\<close>, every level of cache ends at the first size behind that element, at most.
\<close>

definition sizes_fit :: "bandwidth_data \<Rightarrow> bool" where
  "sizes_fit bwd \<longleftrightarrow> (\<forall>n \<in> set (cache_size bwd). ucast (n * 1024) < chunk_sizes ! 70)"

definition caches_fit :: "bw_app \<Rightarrow> bool" where
  "caches_fit a \<longleftrightarrow> sizes_fit (app_bwd a)
     \<and> (\<forall>cas \<in> set (cpu_types (app_caches a)). length cas \<le> BANDWIDTH_MAX_CACHE_LEVEL)"

definition world_fits :: "bw_world \<Rightarrow> bool" where
  "world_fits w \<longleftrightarrow> caches_fit (w_app w) \<and> w_failed w \<notin> {Some Out_Of_Chunks, Some Out_Of_Speeds}
     \<and> (\<forall>m. Measuring m \<in> set (w_workers w) \<longrightarrow> m_chunk m \<le> 70 + m_level m)"

lemma last_chunk_sizes: "length chunk_sizes = 75"
  "70 \<le> i \<Longrightarrow> i < 75 \<Longrightarrow> chunk_sizes ! 70 \<le> chunk_sizes ! i"
proof -
  show "length chunk_sizes = 75" by (simp add: chunk_sizes_def)
  assume "70 \<le> i" "i < 75"
  then have "i \<in> {70, 71, 72, 73, 74}" by auto
  then show "chunk_sizes ! 70 \<le> chunk_sizes ! i"
    unfolding chunk_sizes_def by (elim insertE emptyE) simp_all
qed

lemma cpux_start_fits:
  "sizes_fit bwd \<Longrightarrow> case cpux_start tr c bwd of Inl m \<Rightarrow> m_chunk m \<le> 70 + m_level m | Inr bwd' \<Rightarrow> sizes_fit bwd'"
  by (auto simp: cpux_start_def sizes_fit_def set_test_names_def Let_def)

lemma cpux_round_fits:
  assumes fit: "sizes_fit bwd" "m_chunk m \<le> 70 + m_level m" and ok: "data_ok bwd" "measuring_ok m"
    and r: "cpux_round en c m bwd s = Some (r, s')"
  shows "case r of Goes_On m' bwd' \<Rightarrow> m_chunk m' \<le> 70 + m_level m' \<and> sizes_fit bwd'
    | Finished bwd' \<Rightarrow> sizes_fit bwd' | Fails f \<Rightarrow> f \<notin> {Out_Of_Chunks, Out_Of_Speeds}"
proof -
  have l: "m_level m < length (cache_size bwd)" and in75: "m_chunk m < 75"
    using ok fit(2) by (simp_all add: data_ok_def measuring_ok_def BANDWIDTH_MAX_CACHE_LEVEL_def)
  have "ucast (cache_size bwd ! m_level m * 1024) < chunk_sizes ! m_chunk m" if "70 \<le> m_chunk m"
    using fit(1) nth_mem [OF l] last_chunk_sizes(2) [OF that in75] unfolding sizes_fit_def by (blast intro: less_le_trans)
  then have "m_chunk m < 70" if "\<not> ucast (cache_size bwd ! m_level m * 1024) < chunk_sizes ! m_chunk m"
    using that by (meson not_le)
  then show ?thesis using r fit in75
    by (auto simp: cpux_round_def measure_chunk_def sizes_fit_def last_chunk_sizes(1) Let_def
        split: if_splits option.splits prod.splits sum.splits)
qed

lemma show_speeds_fits:
  assumes "\<forall>cas \<in> set (cpu_types d). length cas \<le> BANDWIDTH_MAX_CACHE_LEVEL" "data_ok bwd"
  shows "case show_speeds tr bwd d sel of Inl f \<Rightarrow> f \<notin> {Out_Of_Chunks, Out_Of_Speeds}
    | Inr (d', sel') \<Rightarrow> (\<forall>cas \<in> set (cpu_types d'). length cas \<le> BANDWIDTH_MAX_CACHE_LEVEL)"
proof (cases "get_selected_cpu_type d sel")
  case None
  then show ?thesis by (simp add: show_speeds_def)
next
  case (Some x)
  obtain t d1 sel1 where x: "x = (t, d1, sel1)" by (cases x)
  with Some have t: "t < length (cpu_types d1)"
    and d1: "\<forall>cas \<in> set (cpu_types d1). length cas \<le> BANDWIDTH_MAX_CACHE_LEVEL"
    using assms(1) by (auto simp: get_selected_cpu_type_def Let_def split: if_splits prod.splits)
  have "length (cpu_types d1 ! t) \<le> BANDWIDTH_MAX_CACHE_LEVEL" using d1 nth_mem [OF t] by blast
  then show ?thesis using Some x d1 assms(2)
    by (auto simp: show_speeds_def data_ok_def dest!: set_update_subset_insert [THEN subsetD])
qed

lemma call_bandwidth_again_fits:
  assumes "world_ok w" "world_fits w"
  shows "world_fits (call_bandwidth_again tr w)"
proof -
  let ?bwd = "(app_bwd (w_app w))\<lparr>selected_test := sel_test (app_sel (w_app w))\<rparr>"
  have "data_ok ?bwd" using assms(1) by (simp add: world_ok_def data_ok_def)
  moreover have "\<forall>cas \<in> set (cpu_types (app_caches (w_app w))). length cas \<le> BANDWIDTH_MAX_CACHE_LEVEL"
    using assms(2) by (simp add: world_fits_def caches_fit_def)
  ultimately have "case show_speeds tr ?bwd (app_caches (w_app w)) (app_sel (w_app w)) of
      Inl f \<Rightarrow> f \<notin> {Out_Of_Chunks, Out_Of_Speeds}
    | Inr (d', sel') \<Rightarrow> (\<forall>cas \<in> set (cpu_types d'). length cas \<le> BANDWIDTH_MAX_CACHE_LEVEL)"
    by (intro show_speeds_fits)
  then show ?thesis using assms(2)
    by (auto simp: call_bandwidth_again_def put_bwd_def world_fits_def caches_fit_def sizes_fit_def Let_def
        split: sum.splits prod.splits)
qed

lemma put_worker_fits:
  assumes "world_fits w" "sizes_fit bwd" "\<forall>m. x = Measuring m \<longrightarrow> m_chunk m \<le> 70 + m_level m"
  shows "world_fits (put_worker k x (put_bwd bwd w))"
  using assms
  by (auto simp: world_fits_def caches_fit_def put_worker_def put_bwd_def dest!: set_update_subset_insert [THEN subsetD])

lemma world_fits_state [simp]: "world_fits (w\<lparr>w_state := s\<rparr>) = world_fits w"
  by (simp add: world_fits_def)

lemma step_worker_fits:
  assumes "step_worker tr en c k w = Some w'" "world_ok w" "world_fits w"
  shows "world_fits w'"
proof -
  from assms(1) have k: "k < length (w_workers w)" by (auto simp: step_worker_def split: if_splits)
  have d: "data_ok (app_bwd (w_app w))" using assms(2) by (simp add: world_ok_def)
  have fit: "sizes_fit (app_bwd (w_app w))" using assms(3) by (simp add: world_fits_def caches_fit_def)
  show ?thesis
  proof (cases "w_workers w ! k")
    case Created
    then show ?thesis
      using assms k cpux_start_fits [OF fit, of tr c] put_worker_fits [OF assms(3)]
        put_worker_fits [OF assms(3) fit, unfolded put_bwd_same]
      by (auto simp: step_worker_def split: sum.splits if_splits)
  next
    case (Measuring m)
    then have m: "measuring_ok m" "m_chunk m \<le> 70 + m_level m"
      using assms(2,3) k by (auto simp: world_ok_def world_fits_def dest: nth_mem)
    obtain r s where r: "cpux_round en c m (app_bwd (w_app w)) (w_state w) = Some (r, s)"
      using assms(1) k Measuring by (auto simp: step_worker_def split: option.splits)
    note w' = assms(1) [unfolded step_worker_def] k Measuring r
    note round = cpux_round_fits [OF fit m(2) d m(1) r]
    show ?thesis
    proof (cases r)
      case (Goes_On m' bwd')
      then have "w' = put_worker k (Measuring m') (put_bwd bwd' w)\<lparr>w_state := s\<rparr>" using w' by simp
      then show ?thesis using put_worker_fits [OF assms(3), of bwd' "Measuring m'" k] round Goes_On by simp
    next
      case (Finished bwd')
      then have "w' = put_worker k Over (put_bwd bwd' w)\<lparr>w_state := s\<rparr>" using w' by simp
      then show ?thesis using put_worker_fits [OF assms(3), of bwd' Over k] round Finished by simp
    next
      case (Fails f)
      then have "w' = w\<lparr>w_state := s, w_failed := Some f\<rparr>" using w' by simp
      then show ?thesis using assms(3) round Fails by (simp add: world_fits_def)
    qed
  next
    case Over
    then show ?thesis using assms(1) k by (simp add: step_worker_def)
  qed
qed

lemma bw_step_fits:
  assumes "bw_step tr en c w w'" "world_ok w" "world_fits w"
  shows "world_fits w'"
  using assms(1)
proof cases
  case refresh
  then show ?thesis using call_bandwidth_again_fits [OF assms(2,3)] by simp
next
  case (select n)
  then show ?thesis using assms(3) by (simp add: user_selects_test_def world_fits_def caches_fit_def)
next
  case (worker k)
  then show ?thesis using step_worker_fits assms(2,3) by blast
qed

lemma bw_steps_fit:
  "(bw_step tr en c)\<^sup>*\<^sup>* w w' \<Longrightarrow> world_ok w \<Longrightarrow> world_fits w \<Longrightarrow> world_ok w' \<and> world_fits w'"
  by (induction rule: rtranclp_induct) (auto intro: bw_step_ok bw_step_fits)

text \<open>C9: from a state without threads, whatever the order of refreshes, changes of the selected test and
  steps of the threads, at most one thread is between the taking of the mutex and its release, the arrays
  keep their lengths, and the level of cache and the test that it looks up are inside of theirs. If the
  caches are smaller than 480 MiB and no type of CPU has more than four, the index into
  \<^verbatim>\<open>chunk_sizes\<close> is inside, too, and nothing fails because an array has come to its end. (Otherwise it
  can: the loop has no test for the end of \<^verbatim>\<open>chunk_sizes\<close>.)\<close>

theorem one_thread_measures:
  assumes "(bw_step tr en c)\<^sup>*\<^sup>* w w'" and "w_workers w = []" and "data_ok (app_bwd (w_app w))"
    and "unat (sel_test (app_sel (w_app w))) < 30" and "w_failed w = None"
  shows "at_most_one (w_workers w') \<and> data_ok (app_bwd (w_app w'))
    \<and> {m. Measuring m \<in> set (w_workers w')} \<subseteq> {m. m_level m < BANDWIDTH_MAX_CACHE_LEVEL}
    \<and> (caches_fit (w_app w) \<longrightarrow> {m. Measuring m \<in> set (w_workers w')} \<subseteq> {m. m_chunk m < length chunk_sizes}
        \<and> w_failed w' \<notin> {Some Out_Of_Chunks, Some Out_Of_Speeds})"
proof -
  have ok: "world_ok w" using assms(2-4) by (simp add: world_ok_def at_most_one_def)
  have ok': "world_ok w'" using assms(1) ok by (rule bw_steps_ok)
  moreover have "world_fits w'" if "caches_fit (w_app w)"
    using bw_steps_fit [OF assms(1) ok] that assms(2,5) by (simp add: world_fits_def)
  moreover have "m_chunk m < length chunk_sizes" if "measuring_ok m" "m_chunk m \<le> 70 + m_level m" for m
    using that by (simp add: measuring_ok_def last_chunk_sizes(1) BANDWIDTH_MAX_CACHE_LEVEL_def)
  ultimately show ?thesis unfolding world_ok_def world_fits_def by (auto simp: measuring_ok_def)
qed

subsection \<open>A change of the test in the middle of a run\<close>

text \<open>On a processor of one type.\<close>

lemma one_type_selected: "num_types sel = 1 \<Longrightarrow> get_selected_type sel = (0, sel\<lparr>sel_type := 0\<rparr>)"
  by (cases sel) (auto simp: get_selected_type_def check_selected_type_valid_def Let_def word_less_1)

lemma one_type_selected_cpu:
  "num_types sel = 1 \<Longrightarrow> cpu_types d = [cas] \<Longrightarrow> get_selected_cpu_type d sel = Some (0, d, sel\<lparr>sel_type := 0\<rparr>)"
  by (simp add: get_selected_cpu_type_def one_type_selected)

definition labelled :: "(string \<Rightarrow> string) \<Rightarrow> u32 list \<Rightarrow> cache list \<Rightarrow> cache list" where
  "labelled tr speeds cas = map2 (\<lambda>ca v. ca\<lparr>speed_value := bandwidth_label tr v\<rparr>) cas speeds"

lemma one_type_show:
  "num_types sel = 1 \<Longrightarrow> cpu_types d = [cas] \<Longrightarrow> length cas \<le> length (cache_speed bwd) \<Longrightarrow>
   show_speeds tr bwd d sel = Inr (d\<lparr>cpu_types := [labelled tr (cache_speed bwd) cas]\<rparr>, sel\<lparr>sel_type := 0\<rparr>)"
  by (simp add: show_speeds_def one_type_selected_cpu labelled_def)

definition one_type :: selection where
  "one_type = initial_selection\<lparr>num_types := 1, num_cores := [4], sel_test := 8\<rparr>"

definition two_caches :: caches_tab where
  "two_caches = \<lparr>cpu_types = [[\<lparr>size_i = 1, speed_value = []\<rparr>, \<lparr>size_i = 2, speed_value = []\<rparr>]], test_names = []\<rparr>"

text \<open>The state behind the first call, on a processor with AVX and without AVX-512.\<close>

definition idle_world :: bw_world where
  "idle_world = \<lparr>w_app = \<lparr>app_bwd = small_caches, app_caches = two_caches, app_sel = one_type\<rparr>, w_workers = [],
     w_state = bw_start, w_failed = None\<rparr>"

definition started_world :: bw_world where
  "started_world = the (step_worker (\<lambda>t. t) ticking_env avx_cpu 0 (call_bandwidth_again (\<lambda>t. t) idle_world))"

definition changed_world :: bw_world where
  "changed_world = call_bandwidth_again (\<lambda>t. t) (user_selects_test 3 started_world)"

lemma small_caches_sel:
  "cache_size small_caches = [1, 2, 0, 0]" "selected_test small_caches = 8" "test_name small_caches \<noteq> None"
  "cache_speed small_caches = [0, 0, 0, 0]"
  by (simp_all add: small_caches_def set_test_names_def new_bandwidth_data_def BANDWIDTH_MAX_CACHE_LEVEL_def Let_def numeral_eq_Suc)

lemma small_caches_supported: "the (test_supported small_caches) ! 8" "\<not> the (test_supported small_caches) ! 3"
  by code_simp+

lemma small_caches_start: "cpux_start tr c small_caches = Inl \<lparr>m_chunk = 0, m_level = 0, m_count = 0, m_total = 0\<rparr>"
  using small_caches_sel(2,3) small_caches_supported(1) by (auto simp: cpux_start_def)

lemma call_again_shows:
  assumes "num_types (app_sel (w_app w)) = 1" "cpu_types (app_caches (w_app w)) = [cas]"
    "length cas \<le> length (cache_speed (app_bwd (w_app w)))"
  shows "call_bandwidth_again tr w = w\<lparr>
    w_app := \<lparr>app_bwd = (app_bwd (w_app w))\<lparr>selected_test := sel_test (app_sel (w_app w))\<rparr>,
       app_caches = (app_caches (w_app w))\<lparr>cpu_types := [labelled tr (cache_speed (app_bwd (w_app w))) cas]\<rparr>,
       app_sel = (app_sel (w_app w))\<lparr>sel_type := 0\<rparr>\<rparr>,
    w_workers := (if mutex_free w then w_workers w @ [Created] else w_workers w)\<rparr>"
proof -
  obtain bwd d sel where a: "w_app w = \<lparr>app_bwd = bwd, app_caches = d, app_sel = sel\<rparr>" by (cases "w_app w")
  have "show_speeds tr (bwd\<lparr>selected_test := sel_test sel\<rparr>) d sel
    = Inr (d\<lparr>cpu_types := [labelled tr (cache_speed bwd) cas]\<rparr>, sel\<lparr>sel_type := 0\<rparr>)"
    using one_type_show [of sel d cas "bwd\<lparr>selected_test := sel_test sel\<rparr>" tr] assms a by simp
  then show ?thesis using a by (simp add: call_bandwidth_again_def put_bwd_def mutex_free_def Let_def)
qed

lemma started_world:
  "\<exists>d. started_world = idle_world\<lparr>w_app := \<lparr>app_bwd = small_caches, app_caches = d, app_sel = one_type\<rparr>,
     w_workers := [Measuring \<lparr>m_chunk = 0, m_level = 0, m_count = 0, m_total = 0\<rparr>]\<rparr> \<and> (\<exists>cas. cpu_types d = [cas] \<and> length cas = 2)"
  "bw_step (\<lambda>t. t) ticking_env avx_cpu (call_bandwidth_again (\<lambda>t. t) idle_world) started_world"
proof -
  let ?w = "call_bandwidth_again (\<lambda>t. t) idle_world"
  have sel: "sel_test one_type = 8" "one_type\<lparr>sel_type := 0\<rparr> = one_type" "num_types one_type = 1"
    "small_caches\<lparr>selected_test := 8\<rparr> = small_caches"
    by (simp_all add: one_type_def initial_selection_def small_caches_def)
  have w: "?w = idle_world\<lparr>w_app := \<lparr>app_bwd = small_caches,
       app_caches = two_caches\<lparr>cpu_types := [labelled (\<lambda>t. t) [0, 0, 0, 0] (hd (cpu_types two_caches))]\<rparr>, app_sel = one_type\<rparr>,
     w_workers := [Created]\<rparr>"
    by (subst call_again_shows [of _ "hd (cpu_types two_caches)"])
      (simp_all add: idle_world_def sel small_caches_sel two_caches_def mutex_free_def)
  then have step: "step_worker (\<lambda>t. t) ticking_env avx_cpu 0 ?w = Some (?w\<lparr>w_workers := [Measuring \<lparr>m_chunk = 0, m_level = 0, m_count = 0, m_total = 0\<rparr>]\<rparr>)"
    by (simp add: step_worker_def mutex_free_def small_caches_start put_worker_def)
  then have st: "started_world = ?w\<lparr>w_workers := [Measuring \<lparr>m_chunk = 0, m_level = 0, m_count = 0, m_total = 0\<rparr>]\<rparr>"
    by (simp add: started_world_def)
  show "\<exists>d. started_world = idle_world\<lparr>w_app := \<lparr>app_bwd = small_caches, app_caches = d, app_sel = one_type\<rparr>,
     w_workers := [Measuring \<lparr>m_chunk = 0, m_level = 0, m_count = 0, m_total = 0\<rparr>]\<rparr> \<and> (\<exists>cas. cpu_types d = [cas] \<and> length cas = 2)"
    by (intro exI [of _ "two_caches\<lparr>cpu_types := [labelled (\<lambda>t. t) [0, 0, 0, 0] (hd (cpu_types two_caches))]\<rparr>"])
      (simp add: st w, simp add: labelled_def two_caches_def)
  have "w_failed ?w = None" using w by (simp add: idle_world_def)
  then show "bw_step (\<lambda>t. t) ticking_env avx_cpu ?w started_world" using bw_step.worker step st by metis
qed

lemma changed_world:
  "w_workers changed_world = [Measuring \<lparr>m_chunk = 0, m_level = 0, m_count = 0, m_total = 0\<rparr>]"
  "app_bwd (w_app changed_world) = small_caches\<lparr>selected_test := 3\<rparr>" "w_failed changed_world = None"
  "w_state changed_world = bw_start"
  "(bw_step (\<lambda>t. t) ticking_env avx_cpu)\<^sup>*\<^sup>* idle_world changed_world"
proof -
  let ?step = "bw_step (\<lambda>t. t) ticking_env avx_cpu"
  obtain d cas where st: "started_world = idle_world\<lparr>w_app := \<lparr>app_bwd = small_caches, app_caches = d, app_sel = one_type\<rparr>,
     w_workers := [Measuring \<lparr>m_chunk = 0, m_level = 0, m_count = 0, m_total = 0\<rparr>]\<rparr>"
    and d: "cpu_types d = [cas]" "length cas = 2" using started_world(1) by blast
  have sel: "(3 :: u8) < BANDWIDTH_LAST_TEST" "num_types one_type = 1"
    by (simp_all add: one_type_def BANDWIDTH_LAST_TEST_def)
  let ?u = "user_selects_test 3 started_world"
  have u: "?u = started_world\<lparr>w_app := \<lparr>app_bwd = small_caches, app_caches = d, app_sel = one_type\<lparr>sel_test := 3\<rparr>\<rparr>\<rparr>"
    by (simp add: user_selects_test_def set_selected_test_def sel st)
  have working: "w_workers started_world = [Measuring \<lparr>m_chunk = 0, m_level = 0, m_count = 0, m_total = 0\<rparr>]"
    "w_failed started_world = None" "w_state started_world = bw_start"
    by (simp_all add: st idle_world_def)
  have ch: "changed_world = ?u\<lparr>w_app := \<lparr>app_bwd = small_caches\<lparr>selected_test := 3\<rparr>,
      app_caches = d\<lparr>cpu_types := [labelled (\<lambda>t. t) [0, 0, 0, 0] cas]\<rparr>, app_sel = one_type\<lparr>sel_test := 3, sel_type := 0\<rparr>\<rparr>\<rparr>"
    unfolding changed_world_def
    by (subst call_again_shows [of _ cas]) (simp_all add: u sel d small_caches_sel mutex_free_def working)
  show "w_workers changed_world = [Measuring \<lparr>m_chunk = 0, m_level = 0, m_count = 0, m_total = 0\<rparr>]"
    "app_bwd (w_app changed_world) = small_caches\<lparr>selected_test := 3\<rparr>" "w_failed changed_world = None"
    "w_state changed_world = bw_start"
    by (simp_all add: ch u working)
  have "?step idle_world (call_bandwidth_again (\<lambda>t. t) idle_world)" by (rule bw_step.refresh) (simp add: idle_world_def)
  moreover have "?step started_world ?u" by (rule bw_step.select) (simp add: working)
  moreover have "?step ?u changed_world"
    unfolding changed_world_def by (rule bw_step.refresh) (simp add: u working)
  ultimately show "?step\<^sup>*\<^sup>* idle_world changed_world"
    using started_world(2) by (meson rtranclp.rtrancl_into_rtrancl rtranclp.rtrancl_refl)
qed

lemma avx512_read:
  "\<exists>a s' p l. call_test ticking_env CPUX_USEC_PER_TEST (cpux_tester c) (tests c ! 3) 256 s = Some (Inr a, s')
     \<and> On_Chunk ''ReaderAVX512'' p 256 l None \<in> set (bw_log s')"
proof -
  have t: "func_ptr (tests c ! 3) = Test_read" "testing_mode (tests c ! 3) = SIZE_VECTOR_512" "\<not> t_random (tests c ! 3)"
    by (simp_all add: tests_def Tests.make_def Let_def numeral_3_eq_3)
  obtain p s1 where m: "malloc_block ticking_env (256 + 128) s = (p, s1)" "p \<noteq> 0"
    by (rule malloc_block_nonnull [of ticking_env]) simp_all
  show ?thesis
    using t m ticking_measure [of "[On_Chunk ''ReaderAVX512'' (chunk_of SIZE_VECTOR_512 p) 256 (loops_for (2 ^ 29) 256) None]"
        "''Sequential read '' @ mode_text SIZE_VECTOR_512" unsigned_text 256 "loops_for (2 ^ 29) 256"
        "[Free p]" "touch_blocks (chunk_of SIZE_VECTOR_512 p) (256 div 256) s1"]
    by (fastforce simp: call_test_def TestingX86_read_def read_routines_def Let_def CPUX_USEC_PER_TEST_def)
qed

text \<open>C10: a thread looks up the selected test anew for every size. A user who changes the test while a
  thread measures, and a refresh behind it, make this thread run a test that was never found to be
  supported: here the reads of 512 bits on a processor without AVX-512.\<close>

theorem unsupported_routine_runs:
  "\<exists>w p l. (bw_step (\<lambda>t. t) ticking_env avx_cpu)\<^sup>*\<^sup>* idle_world w
    \<and> \<not> CPU_has512bitVectors avx_cpu \<and> \<not> the (test_supported (app_bwd (w_app w))) ! 3
    \<and> On_Chunk ''ReaderAVX512'' p 256 l None \<in> set (bw_log (w_state w))"
proof -
  let ?m = "\<lparr>m_chunk = 0, m_level = 0, m_count = 0, m_total = 0\<rparr>" and ?bwd = "small_caches\<lparr>selected_test := 3\<rparr>"
  obtain a s' p l where t: "call_test ticking_env CPUX_USEC_PER_TEST (cpux_tester avx_cpu) (tests avx_cpu ! 3) 256 bw_start = Some (Inr a, s')"
    "On_Chunk ''ReaderAVX512'' p 256 l None \<in> set (bw_log s')" using avx512_read by blast
  have "cpux_round ticking_env avx_cpu ?m ?bwd bw_start = measure_chunk ticking_env avx_cpu 256 ?m ?bwd bw_start"
    by (simp add: cpux_round_def chunk_sizes_def small_caches_sel)
  then have "cpux_round ticking_env avx_cpu ?m ?bwd bw_start
      = Some (Goes_On \<lparr>m_chunk = 1, m_level = 0, m_count = 1, m_total = a\<rparr> ?bwd, s')"
    using t(1) by (simp add: measure_chunk_def)
  then obtain w where w: "step_worker (\<lambda>t. t) ticking_env avx_cpu 0 changed_world = Some w" "w_state w = s'"
    "app_bwd (w_app w) = ?bwd"
    by (simp add: step_worker_def changed_world put_worker_def put_bwd_def)
  have "bw_step (\<lambda>t. t) ticking_env avx_cpu changed_world w" using changed_world(3) w(1) by (rule bw_step.worker)
  with changed_world(5) have "(bw_step (\<lambda>t. t) ticking_env avx_cpu)\<^sup>*\<^sup>* idle_world w" by (rule rtranclp.rtrancl_into_rtrancl)
  moreover have "\<not> CPU_has512bitVectors avx_cpu" by code_simp
  ultimately show ?thesis
    using w t(2) small_caches_supported(2) by (intro exI [of _ w] exI [of _ p] exI [of _ l]) simp
qed

subsection \<open>The first call\<close>

text \<open>With cores, nothing about the selection can fail.\<close>

lemma one_type_core:
  assumes "num_types sel = 1" "num_cores sel = [n]"
  shows "\<exists>co sel'. get_selected_core sel = Some (co, sel') \<and> num_types sel' = 1 \<and> num_cores sel' = [n]"
    "\<exists>b sel'. set_selected_core co sel = Some (b, sel') \<and> num_types sel' = 1 \<and> num_cores sel' = [n]"
    "\<exists>b sel'. set_selected_type t sel = Some (b, sel') \<and> num_types sel' = 1 \<and> num_cores sel' = [n]"
  using assms
  by (auto simp: get_selected_core_def check_selected_core_valid_def one_type_selected at_def set_selected_core_def
      get_selected_core_id_def set_selected_type_def check_selected_type_valid_def Let_def)

lemma bandwidth_label_0: "bandwidth_label tr 0 = ''0.00 '' @ tr ''MB'' @ ''/s''"
proof -
  have "decimals 2 (10 * unat (0 :: u32)) = ''0.00''" by code_simp
  then show ?thesis by (simp add: bandwidth_label_def)
qed

lemma labelled_0: "length cas \<le> n \<Longrightarrow> labelled tr (replicate n 0) cas = map (\<lambda>ca. ca\<lparr>speed_value := bandwidth_label tr 0\<rparr>) cas"
  by (auto simp: labelled_def intro!: nth_equalityI)

lemma unnamed_run: "test_name bwd = None \<Longrightarrow> bandwidth_cpux tr en c bwd s = Some (Inr (set_test_names tr c bwd), s)"
  by (simp add: bandwidth_cpux_def cpux_start_def)

lemma set_test_names_sel [simp]: "cache_speed (set_test_names tr c bwd) = cache_speed bwd"
  "cache_size (set_test_names tr c bwd) = cache_size bwd"
  by (simp_all add: set_test_names_def Let_def)

lemma init_bandwidth_unnamed:
  "\<exists>a'. init_bandwidth tr en c a s = Some (Inr a', s) \<and> app_sel a' = app_sel a
    \<and> cpu_types (app_caches a') = cpu_types (app_caches a) \<and> test_name (app_bwd a') = None
    \<and> cache_speed (app_bwd a') = cache_speed (app_bwd a)"
  by (simp add: init_bandwidth_def unnamed_run)

lemma wait_unnamed:
  assumes "num_types (app_sel a) = 1" "cpu_types (app_caches a) = [cas]" "test_name (app_bwd a) = None"
    "length cas \<le> length (cache_speed (app_bwd a))"
  shows "\<exists>a'. call_bandwidth_and_wait tr en c a s = Some (Inr a', s) \<and> app_sel a' = (app_sel a)\<lparr>sel_type := 0\<rparr>
    \<and> cpu_types (app_caches a') = [labelled tr (cache_speed (app_bwd a)) cas]"
  using assms one_type_show [of "app_sel a" "app_caches a" cas "set_test_names tr c (app_bwd a)" tr]
  by (simp add: call_bandwidth_and_wait_def unnamed_run)

text \<open>C11: on a processor of one type, the first call of \<^verbatim>\<open>call_bandwidth\<close>, although it
  waits for the measurement, measures nothing: the log of routines and the clock stay as they are, and every
  cache is shown with a speed of 0.00, because \<^verbatim>\<open>init_bandwidth\<close> leaves \<^verbatim>\<open>test_name\<close>
  empty and the thread only fills it in.\<close>

theorem first_call_shows_zero:
  assumes "num_types (app_sel a) = 1" and "num_cores (app_sel a) = [n]"
    and "app_bwd a = new_bandwidth_data" and "cpu_types (app_caches a) = [cas]"
    and "cas \<noteq> []" and "length cas \<le> BANDWIDTH_MAX_CACHE_LEVEL"
  shows "\<exists>a'. call_bandwidth_first tr en c a s = Some (Inr (0, a'), s)
    \<and> cpu_types (app_caches a') = [map (\<lambda>ca. ca\<lparr>speed_value := ''0.00 '' @ tr ''MB'' @ ''/s''\<rparr>) cas]"
proof -
  let ?a = "a\<lparr>app_bwd := (app_bwd a)\<lparr>selected_test := sel_test (app_sel a)\<rparr>\<rparr>" and ?sel = "(app_sel a)\<lparr>sel_type := 0\<rparr>"
  obtain co sel1 where co: "get_selected_core ?sel = Some (co, sel1)" "num_types sel1 = 1" "num_cores sel1 = [n]"
    using one_type_core(1) [of ?sel n] assms(1,2) by auto
  obtain a1 where a1: "init_bandwidth tr en c (?a\<lparr>app_sel := sel1\<rparr>) s = Some (Inr a1, s)" "app_sel a1 = sel1"
      "cpu_types (app_caches a1) = [cas]" "test_name (app_bwd a1) = None" "cache_speed (app_bwd a1) = cache_speed (app_bwd a)"
    using init_bandwidth_unnamed [of tr en c "?a\<lparr>app_sel := sel1\<rparr>" s] assms(4) by auto
  obtain b sel2 where sel2: "set_selected_type 0 sel1 = Some (b, sel2)" "num_types sel2 = 1" "num_cores sel2 = [n]"
    using one_type_core(3) [OF co(2,3)] by blast
  let ?a2 = "\<lparr>app_bwd = put_cache_sizes cas (app_bwd a1), app_caches = app_caches a1, app_sel = sel2\<lparr>sel_type := 0\<rparr>\<rparr>"
  obtain a3 where a3: "call_bandwidth_and_wait tr en c ?a2 s = Some (Inr a3, s)" "app_sel a3 = sel2\<lparr>sel_type := 0\<rparr>"
      "cpu_types (app_caches a3) = [labelled tr (replicate BANDWIDTH_MAX_CACHE_LEVEL 0) cas]"
    using wait_unnamed [of ?a2 cas tr en c s] sel2 a1 assms(3,6) by (auto simp: put_cache_sizes_def new_bandwidth_data_def Let_def)
  have types: "measure_types tr en c [0..<length (cpu_types (app_caches a1))] a1 s = Some (Inr (False, a3), s)"
    using a1 sel2 assms(5) a3(1) one_type_selected_cpu [OF sel2(2) a1(3)] by simp
  obtain b' sel3 where sel3: "set_selected_type 0 (app_sel a3) = Some (b', sel3)" "num_types sel3 = 1" "num_cores sel3 = [n]"
    using one_type_core(3) [where sel = "app_sel a3" and n = n and t = 0] a3(2) sel2 by auto
  obtain b'' sel4 where "set_selected_core co sel3 = Some (b'', sel4)" using one_type_core(2) [OF sel3(2,3)] by blast
  then have "call_bandwidth_first tr en c a s = Some (Inr (0, a3\<lparr>app_sel := sel4\<rparr>), s)"
    using one_type_selected [OF assms(1)] co a1(1) types sel3(1) by (simp add: call_bandwidth_first_def Let_def)
  then show ?thesis using a3(3) labelled_0 [OF assms(6)] bandwidth_label_0 by auto
qed

theorem first_call_shows_zero_witness:
  "\<exists>a'. call_bandwidth_first (\<lambda>t. t) ticking_env avx_cpu
       \<lparr>app_bwd = new_bandwidth_data, app_caches = two_caches, app_sel = one_type\<rparr> bw_start = Some (Inr (0, a'), bw_start)
    \<and> cpu_types (app_caches a') = [[\<lparr>size_i = 1, speed_value = ''0.00 MB/s''\<rparr>, \<lparr>size_i = 2, speed_value = ''0.00 MB/s''\<rparr>]]"
  using first_call_shows_zero [of "\<lparr>app_bwd = new_bandwidth_data, app_caches = two_caches, app_sel = one_type\<rparr>" 4
      "hd (cpu_types two_caches)" "\<lambda>t. t" ticking_env avx_cpu bw_start]
  by (simp add: one_type_def two_caches_def BANDWIDTH_MAX_CACHE_LEVEL_def)

text \<open>What \<open>one_thread_measures\<close> says of the run above.\<close>

theorem one_thread_measures_witness:
  "\<exists>m. w_workers changed_world = [Measuring m] \<and> m_level m < BANDWIDTH_MAX_CACHE_LEVEL
    \<and> data_ok (app_bwd (w_app changed_world)) \<and> caches_fit (w_app idle_world)
    \<and> w_failed changed_world \<notin> {Some Out_Of_Chunks, Some Out_Of_Speeds}"
proof -
  have "data_ok small_caches"
    by (simp add: data_ok_def small_caches_sel BANDWIDTH_MAX_CACHE_LEVEL_def)
      (simp add: small_caches_def set_test_names_def tests_def Let_def)
  then have "data_ok (app_bwd (w_app changed_world))
      \<and> (caches_fit (w_app idle_world) \<longrightarrow> w_failed changed_world \<notin> {Some Out_Of_Chunks, Some Out_Of_Speeds})"
    using one_thread_measures [OF changed_world(5)] by (simp add: idle_world_def one_type_def)
  moreover have "caches_fit (w_app idle_world)"
    by (simp add: caches_fit_def sizes_fit_def idle_world_def small_caches_sel two_caches_def
        BANDWIDTH_MAX_CACHE_LEVEL_def chunk_sizes_def)
  ultimately show ?thesis using changed_world(1) by (simp add: BANDWIDTH_MAX_CACHE_LEVEL_def)
qed

end
