(* ===== verification/Register_Tests.thy ===== *)
theory Register_Tests
  imports Testing
begin

section \<open>Tests of registers and of the stack (Testing.c, TestingX86.c)\<close>

text \<open>
  The tests of \<^verbatim>\<open>src/src/core/bandwidth/Testing.c\<close> and
  \<^verbatim>\<open>TestingX86.c\<close> that move values between registers, vectors and the stack, a
  fixed number of times or until \<^verbatim>\<open>usec_per_test\<close> microseconds have passed.
\<close>

subsection \<open>A fixed number of times\<close>

text \<open>The constants of \<^verbatim>\<open>Testing.h\<close>\<close>

definition N_STACK_OPS_PER_LOOP :: nat where "N_STACK_OPS_PER_LOOP = 64"
definition STACK_OPERATION_LOOPS_OUTER :: nat where "STACK_OPERATION_LOOPS_OUTER = 17"
definition STACK_OPERATION_LOOPS_INNER :: nat where "STACK_OPERATION_LOOPS_INNER = 1023"
definition N_REG_TO_REG_LOOPS :: nat where "N_REG_TO_REG_LOOPS = 1023"
definition N_REG_TO_REG_PER_LOOP :: nat where "N_REG_TO_REG_PER_LOOP = 64"
definition REGISTER_TRANSFERS_COUNT :: nat where "REGISTER_TRANSFERS_COUNT = 9997"
definition N_VREG_TO_VREG_LOOPS :: nat where "N_VREG_TO_VREG_LOOPS = 1023"
definition N_VREG_TO_VREG_PER_LOOP :: nat where "N_VREG_TO_VREG_PER_LOOP = 32"
definition VREGISTER_TRANSFERS_COUNT :: nat where "VREGISTER_TRANSFERS_COUNT = 9977"
definition N_VECTOR_INSERTS_EXTRACTS_PER_LOOP :: nat where "N_VECTOR_INSERTS_EXTRACTS_PER_LOOP = 64"
definition N_INC_OUTER_LOOPS :: nat where "N_INC_OUTER_LOOPS = 17"
definition N_INC_INNER_LOOPS :: nat where "N_INC_INNER_LOOPS = 32771"
definition N_INC_PER_INNER :: nat where "N_INC_PER_INNER = 32"

definition ld_product :: "nat list \<Rightarrow> cfloat" where
  "ld_product ns = foldl (\<lambda>d n. ld_mul d (ld_of_nat n)) (ld_of_nat (hd ns)) (tl ns)"

definition rate_text :: "bool \<Rightarrow> cfloat \<Rightarrow> string" where
  "rate_text negative d = (if negative then ''-'' else '''') @ printf_f 2 d @ '' billion/second\<newline>''"

text \<open>\<^verbatim>\<open>d /= diff; d *= 1000000; d /= 1000000000;\<close> for a difference of either sign; a quotient by 0 is
  infinite.\<close>

definition billions :: "cfloat \<Rightarrow> int \<Rightarrow> string" where
  "billions d diff = (if diff = 0 then ''inf billion/second\<newline>''
     else rate_text (diff < 0)
       (ld_div (ld_mul (ld_div d (ld_of_nat (nat \<bar>diff\<bar>))) (ld_of_nat 1000000)) (ld_of_nat 1000000000)))"

text \<open>A fixed number of calls between two looks at the clock.\<close>

definition fixed_calls :: "bw_env \<Rightarrow> string \<Rightarrow> nat \<Rightarrow> string \<Rightarrow> nat \<Rightarrow> bw_state \<Rightarrow> int \<times> bw_state" where
  "fixed_calls en title n name k s = (let
     (t0, s) = getMicrosecondTime en s;
     s = events (replicate n (On_Registers name (of_nat k))) (say title s);
     (t, s) = getMicrosecondTime en s
   in (sint (t - t0), s))"

definition Testing_registerToRegisterTest :: "bw_env \<Rightarrow> bw_state \<Rightarrow> bw_state" where
  "Testing_registerToRegisterTest en s = (let
     (diff, s) = fixed_calls en ''64-bit main register to main register transfers: '' N_REG_TO_REG_LOOPS
       ''RegisterToRegister'' REGISTER_TRANSFERS_COUNT s
   in say (billions (ld_product [N_REG_TO_REG_LOOPS, REGISTER_TRANSFERS_COUNT, N_REG_TO_REG_PER_LOOP]) diff) s)"

definition stack_rate :: "string \<Rightarrow> int \<Rightarrow> bw_state \<Rightarrow> bw_state" where
  "stack_rate title diff s =
     (if 0 < diff
      then say (title @ rate_text False (ld_div (ld_div
             (ld_product [N_STACK_OPS_PER_LOOP, STACK_OPERATION_LOOPS_OUTER, STACK_OPERATION_LOOPS_INNER, 1000000])
             (ld_of_nat (nat diff))) (ld_of_nat 1000000000))) s
      else s)"

definition Testing_stackRead :: "bw_env \<Rightarrow> bw_state \<Rightarrow> bw_state" where
  "Testing_stackRead en s = (let
     (diff, s) = fixed_calls en '''' STACK_OPERATION_LOOPS_OUTER ''StackReader'' STACK_OPERATION_LOOPS_INNER s
   in stack_rate ''64-bit stack-to-register transfers: '' diff s)"

definition Testing_stackWrite :: "bw_env \<Rightarrow> bw_state \<Rightarrow> bw_state" where
  "Testing_stackWrite en s = (let
     (diff, s) = fixed_calls en '''' STACK_OPERATION_LOOPS_OUTER ''StackWriter'' STACK_OPERATION_LOOPS_INNER s
   in stack_rate ''64-bit register-to-stack transfers: '' diff s)"

definition increments :: nat where
  "increments = N_INC_OUTER_LOOPS * N_INC_INNER_LOOPS * N_INC_PER_INNER"

definition Testing_incrementRegisters :: "bw_env \<Rightarrow> bw_state \<Rightarrow> bw_state" where
  "Testing_incrementRegisters en s = (let
     (diff, s) = fixed_calls en ''64-bit register increments: '' N_INC_OUTER_LOOPS ''IncrementRegisters''
       N_INC_INNER_LOOPS s
   in if 0 < diff
      then say (rate_text False (ld_div (ld_div (ld_of_nat increments)
             (ld_div (ld_of_nat (nat diff)) (ld_of_nat 1000000))) (ld_of_nat 1000000000))) s
      else s)"

definition Testing_incrementStack :: "bw_env \<Rightarrow> bw_state \<Rightarrow> bw_state" where
  "Testing_incrementStack en s = (let
     (diff, s) = fixed_calls en ''64-bit stack value increments: '' N_INC_OUTER_LOOPS ''IncrementStack''
       N_INC_INNER_LOOPS s
   in if 0 < diff
      then say (rate_text False (ld_div (ld_div (ld_product [increments, 1000000])
             (ld_of_nat (nat diff))) (ld_of_nat 1000000000))) s
      else s)"

definition Testing_vectorToVectorTest128 :: "bw_env \<Rightarrow> bw_state \<Rightarrow> bw_state" where
  "Testing_vectorToVectorTest128 en s = (let
     (diff, s) = fixed_calls en ''Vector register to vector register transfers (128-bit): '' N_VREG_TO_VREG_LOOPS
       ''VectorToVector128'' VREGISTER_TRANSFERS_COUNT s
   in say (billions (ld_product [N_VREG_TO_VREG_LOOPS, VREGISTER_TRANSFERS_COUNT, N_VREG_TO_VREG_PER_LOOP]) diff) s)"

text \<open>The tests that run until \<^verbatim>\<open>usec_per_test\<close> microseconds have passed. Without a loop
  (\<^verbatim>\<open>usec_per_test\<close> is 0) they print the quotient of 0 by 0.\<close>

definition timed_calls :: "bw_env \<Rightarrow> u64 \<Rightarrow> string \<Rightarrow> string \<Rightarrow> nat \<Rightarrow> bw_state \<Rightarrow> bw_state option" where
  "timed_calls en usec title name per_loop s = (case getMicrosecondTime en (say title s) of (t0, s) \<Rightarrow>
     (case measure_loop en usec (Some [On_Registers name (of_nat VREGISTER_TRANSFERS_COUNT)])
             (of_nat VREGISTER_TRANSFERS_COUNT) t0 0 0 s of
       None \<Rightarrow> None
     | Some (None, s) \<Rightarrow> Some s
     | Some (Some (diff, tot), s) \<Rightarrow> Some (say (if diff = 0 then ''-nan billion/second\<newline>'' else
         rate_text False (ld_div (ld_mul (ld_div (ld_product [unat tot, per_loop]) (ld_of_nat (unat diff)))
           (ld_of_nat 1000000)) (ld_of_nat 1000000000))) s)))"

definition TestingX86_registerToVectorTest :: "bw_env \<Rightarrow> u64 \<Rightarrow> bw_state \<Rightarrow> bw_state option" where
  "TestingX86_registerToVectorTest en usec s = timed_calls en usec
     ''Main register to vector register transfers (64-bit): '' ''RegisterToVector'' N_VREG_TO_VREG_PER_LOOP s"

definition TestingX86_vectorToRegisterTest :: "bw_env \<Rightarrow> u64 \<Rightarrow> bw_state \<Rightarrow> bw_state option" where
  "TestingX86_vectorToRegisterTest en usec s = timed_calls en usec
     ''Vector register to main register transfers (64-bit): '' ''VectorToRegister'' N_VREG_TO_VREG_PER_LOOP s"

definition TestingX86_vectorToVectorTest256 ::
    "bw_env \<Rightarrow> u64 \<Rightarrow> testing_x86 \<Rightarrow> bw_state \<Rightarrow> bw_state option" where
  "TestingX86_vectorToVectorTest256 en usec self s = (if use_avx self then timed_calls en usec
     ''Vector register to vector register transfers (256-bit): '' ''VectorToVector256'' N_VREG_TO_VREG_PER_LOOP s
     else Some s)"

definition TestingX86_vectorToVectorTest512 ::
    "bw_env \<Rightarrow> u64 \<Rightarrow> testing_x86 \<Rightarrow> bw_state \<Rightarrow> bw_state option" where
  "TestingX86_vectorToVectorTest512 en usec self s = (if use_avx512 self then timed_calls en usec
     ''Vector register to vector register transfers (512-bit): '' ''VectorToVector512'' N_VREG_TO_VREG_PER_LOOP s
     else Some s)"

text \<open>Single values in and out of a vector, of 8, 16 and 32 bits; all but those of 16 bits ask for SSE4.\<close>

definition TestingX86_vectorToRegister ::
    "bw_env \<Rightarrow> u64 \<Rightarrow> testing_x86 \<Rightarrow> nat \<Rightarrow> bw_state \<Rightarrow> bw_state option" where
  "TestingX86_vectorToRegister en usec self bits s =
     (if use_sse4 self \<or> bits = 16
      then timed_calls en usec (''Vector '' @ udec bits @ ''-bit datum to main register transfers: '')
             (''Vector'' @ udec bits @ ''ToRegister'') N_VECTOR_INSERTS_EXTRACTS_PER_LOOP s
      else Some s)"

definition TestingX86_registerToVector ::
    "bw_env \<Rightarrow> u64 \<Rightarrow> testing_x86 \<Rightarrow> nat \<Rightarrow> bw_state \<Rightarrow> bw_state option" where
  "TestingX86_registerToVector en usec self bits s =
     (if use_sse4 self \<or> bits = 16
      then timed_calls en usec (''Main register '' @ udec bits @ ''-bit datum to vector register transfers: '')
             (''Register'' @ udec bits @ ''ToVector'') N_VECTOR_INSERTS_EXTRACTS_PER_LOOP s
      else Some s)"

end
