(* ===== verification/Spec2Isabelle.thy ===== *)
theory Spec2Isabelle
  imports Program_Properties Selection_Properties Benchmark_Properties Daemon_Properties Package_Properties
    Refresh_Properties Bandwidth_Threads Register_Tests
begin

text \<open>
  \<^bold>\<open>CPU-X: the SMBIOS decoder, the daemon and the core of the program\<close>

  CPU-X shows the hardware of a computer. What it shows of the mainboard, the firmware and the
  memory comes from the SMBIOS table, which its daemon reads, as root, with a copy of
  \<^verbatim>\<open>dmidecode\<close> (\<^verbatim>\<open>src/src/core/dmidecode\<close>) that is also the command
  \<^verbatim>\<open>cpu-x --dmidecode\<close>. This library models that copy from the main function
  down to the printing of every field, and around it what CPU-X itself decides: the requests to the
  daemon and its answers, the refresh of the data, the benchmark, the speeds of the caches, the selection in the
  user interface and the helper functions (all under \<^verbatim>\<open>src/src\<close>).

  \<^bold>\<open>How the parts of dmidecode work together.\<close> \<^verbatim>\<open>dmidecode\<close> parses the command line, finds an
  entry point (in a dump, in sysfs, through the EFI system table, or by a scan of the memory), and hands it
  to \<^verbatim>\<open>smbios3_decode\<close>, \<^verbatim>\<open>smbios_decode\<close> or
  \<^verbatim>\<open>legacy_decode\<close>. These check it, fetch the table it names and call
  \<^verbatim>\<open>dmi_table_decode\<close>, or save both (\<^verbatim>\<open>--dump-bin\<close>). The table is
  walked twice: the first pass remembers the vendor and the kind of processor, the second prints
  each structure (\<^verbatim>\<open>dmi_decode\<close>, for vendor types \<^verbatim>\<open>dmi_decode_oem\<close>),
  dumps it (\<^verbatim>\<open>dmi_dump\<close>), prints one string of it, or fills the record of CPU-X
  (\<^verbatim>\<open>dmi_decode_cpux\<close>).

  \<^bold>\<open>How the parts of CPU-X work together.\<close> The program sends a command over a socket
  (\<^verbatim>\<open>call_dmidecode\<close>, \<^verbatim>\<open>call_libcpuid_msr_*\<close>); the daemon's
  \<^verbatim>\<open>request_handler\<close> answers with what the SMBIOS decoder, libcpuid or a system call
  returned. Both sides are written separately and agree only on the order and the sizes of the messages.
  \<^verbatim>\<open>do_refresh\<close> calls them again, for the tab that the user has selected
  (\<^verbatim>\<open>Options\<close>), and does not call again what has failed. The benchmark is run by threads
  that share their data. So is the measurement of the caches: a copy of the program
  \<^verbatim>\<open>bandwidth\<close> (\<^verbatim>\<open>core/bandwidth\<close>) times assembly routines on blocks of
  growing size, and the sizes of the caches decide to which level a time belongs.

  \<^bold>\<open>The model.\<close> A C function with effects is a value of the state monad over the record
  \<open>st\<close>: the bytes of the table, the output, the options and other globals, and a log of
  the undefined behaviour met (\<open>st_faults\<close>). The log has accesses outside of the table or of
  another array, null pointers, arguments of \<^verbatim>\<open>%s\<close> that are no strings, texts longer than their
  array, formats taken from the table, shifts by too much, and loops that do not end (\<open>fault\<close>); other undefined behaviour is not looked for: the format
  \<^verbatim>\<open>%lu\<close> for a number of 32 bits (\<^verbatim>\<open>dmi_memory_device_speed\<close>) and \<^verbatim>\<open>%X\<close>
  for one of 64 (\<^verbatim>\<open>dmi_decode_hp\<close>, type 236) print the number, or its low half, and the reads through
  cast pointers (\<^verbatim>\<open>WORD\<close>) are reads of bytes, as they are on x86-64. A pointer into the table is
  an index; every access is checked and logged. Machine integers are words. Loops are structural recursions or
  functions with a termination proof; the loop of the raw dump, which may not end, is a recursion
  with a bound of 256 rounds: its counter is a byte, so after 256 rounds it is where it began, and
  the model logs \<open>Diverges\<close>. The binary search for the processor family is a
  \<^verbatim>\<open>partial_function\<close>; that it ends is proved. The loop that chooses the unit of a size is one
  too, and it is proved for which arguments it ends. The C++ code is modelled as functions on records of the
  members of its classes. Concurrency is a step relation: \<open>bench_step\<close> for the threads of the
  benchmark, \<open>bw_step\<close> for those that measure the caches, \<open>net_step\<close> for the two ends of the connection, \<open>daemon_step\<close> for the clients that
  come and go. A step may stand for several accesses to atomic members, which the program makes one by
  one: \<open>thread_step\<close> of the benchmark takes the next number and looks at the mode in one step, and
  \<open>start_benchmarks\<close> sets the members and starts all threads in one. The bound of 2^51 steps on a run of the benchmark keeps its numbers below 2^52, where
  double precision is exact on integers.

  \<^item> \<open>Prelude\<close>, \<open>Machine\<close>, \<open>Format\<close>: words, the state, the output functions
    (\<^verbatim>\<open>dmioutput.c\<close>) and \<^verbatim>\<open>printf\<close>; \<open>CFloat\<close>: the few values in single
    precision; \<open>Safe\<close>: the invariant of the memory (\<open>mem_ok\<close>) and what it means that an
    operation keeps it (\<open>safe\<close>), with a collection of rules, one per operation.
  \<^item> \<open>Dmi_Strings\<close>, \<open>Sizes\<close>, \<open>Struct_Fields\<close>: strings of a structure, sizes, and
    access to fields.
  \<^item> \<open>Lookups_System\<close>, \<open>Lookups_Memory\<close>, \<open>Lookups_Devices\<close>: the tables of
    names.
  \<^item> \<open>Board\<close>, \<open>Processor\<close>, \<open>Memory_Modules\<close>, \<open>Slots\<close>,
    \<open>Memory_Device\<close>, \<open>Devices\<close>, \<open>Controllers\<close>, \<open>Dump\<close>,
    \<open>Oem_Vendors\<close>, \<open>Oem_Hp\<close>, \<open>Oem_Decode\<close>, \<open>Decode\<close>: the cases of
    \<^verbatim>\<open>dmi_decode\<close> (\<^verbatim>\<open>dmidecode.c\<close>) and of \<^verbatim>\<open>dmi_decode_oem\<close>
    (\<^verbatim>\<open>dmioem.c\<close>), each with the proof that it is safe.
  \<^item> \<open>Cpux\<close>: \<^verbatim>\<open>dmi_decode_cpux\<close> and the record of the daemon.
  \<^item> \<open>Table\<close>, \<open>Walk\<close>, \<open>Table_Spec\<close>: the two passes, the specification
    \<open>parse_table\<close> of what they visit, and the refinement.
  \<^item> \<open>Options\<close> (\<^verbatim>\<open>dmiopt.c\<close>), \<open>Files\<close> (\<^verbatim>\<open>util.c\<close>),
    \<open>Entry_Point\<close>: the rest of dmidecode; \<open>Entry_Spec\<close>, \<open>Dump_Image\<close>,
    \<open>Whole_Program\<close>: its specification and the composition.
  \<^item> \<open>Field_Properties\<close>, \<open>Record_Properties\<close>, \<open>Table_Properties\<close>,
    \<open>Option_Properties\<close>, \<open>Program_Properties\<close> and this theory: the properties of dmidecode;
    \<open>Example_Data\<close>: inputs to try them on.
  \<^item> \<open>Selection\<close> (\<^verbatim>\<open>options.cpp\<close>): the selected tab, core, card and so on, and
    their bounds; \<open>Selection_Properties\<close>: the invariant, and that no access leaves its vector.
  \<^item> \<open>Benchmark\<close> (\<^verbatim>\<open>core/benchmarks.cpp\<close>): counting primes in threads, timers and
    reports; \<open>Benchmark_Properties\<close>: the count is that of the primes, under every interleaving.
  \<^item> \<open>Util\<close> (\<^verbatim>\<open>util.cpp\<close>): units of sizes, strings, numbers, output of commands;
    \<open>Util_Properties\<close>: when the choice of a unit ends and what it returns.
  \<^item> \<open>Daemon\<close> (\<^verbatim>\<open>daemon/server.cpp\<close>, \<^verbatim>\<open>daemon/daemon.h\<close>): the
    handlers of the requests, as processes (\<open>proc\<close>) over a connection of two message queues;
    \<open>Client\<close> (\<^verbatim>\<open>core/dmidecode/libdmidecode.cpp\<close>, the requests in
    \<^verbatim>\<open>core/libcpuid.cpp\<close>, \<^verbatim>\<open>core/libpci.cpp\<close>, \<^verbatim>\<open>util.cpp\<close>): the other
    side; \<open>Daemon_Properties\<close>: every run of a request ends, and the client has what the daemon had.
  \<^item> \<open>Packages\<close> (\<^verbatim>\<open>core/databases.h\<close>): the socket of a processor by its name;
    \<open>Package_Properties\<close>: which entry is found.
  \<^item> \<open>Refresh\<close> (\<^verbatim>\<open>core/core.cpp\<close>, the main loop of \<^verbatim>\<open>daemon/server.cpp\<close>):
    \<^verbatim>\<open>do_refresh\<close> and the count of clients; \<open>Refresh_Properties\<close>: a function that failed is
    not called again, and when the daemon ends.
  \<^item> \<open>Testing\<close> (\<^verbatim>\<open>core/bandwidth/Testing.c\<close>, \<^verbatim>\<open>TestingX86.c\<close>): the
    tests of memory, with a log of the blocks allocated, the routines called on them and the blocks freed;
    \<open>Testing_Properties\<close>: when their loop ends, and that the log is one of a program that keeps to its
    blocks (\<open>heap_run\<close>), with the steps of 256 bytes of the routines, for the sizes the program uses
    (\<open>test_size\<close>); \<open>Register_Tests\<close>: the tests of registers and of the stack.
  \<^item> \<open>Cpu\<close> (\<^verbatim>\<open>core/bandwidth/OOC/CPU.c\<close>): the features of the processor and the sizes of
    its caches.
  \<^item> \<open>Bandwidth\<close> (\<^verbatim>\<open>bandwidth_cpux\<close> of \<^verbatim>\<open>core/bandwidth/main.c\<close>,
    \<^verbatim>\<open>core/bandwidth/libbandwidth.cpp\<close>): the measurement of all levels and its threads;
    \<open>Bandwidth_Properties\<close>: a single test ends and keeps to its memory; \<open>Cache_Speeds\<close>: the
    speeds are averages, whose reference is \<open>measure_all\<close> with the boundaries of the levels;
    \<open>Bandwidth_Threads\<close>: which tests are offered, one thread at a time, when the arrays are long enough,
    and two faults.

  \<^bold>\<open>Interfaces.\<close> The locale \<open>structure_decoder\<close> is the contract the walk needs from what
  it does with a structure; the full decoder, the raw dump, the decoder of CPU-X and the visit of
  the second pass are its interpretations. \<open>attr_printer\<close> is the contract of the callbacks
  that print an attribute. The locale \<open>diamond\<close> (theory \<open>Confluence\<close>) is that of a step
  relation whose steps can be exchanged, so that one complete run decides all of them; the connection to
  the daemon is its interpretation.

  \<^bold>\<open>Parameters.\<close> What is not in the repository is an argument: the results of
  \<^verbatim>\<open>getopt_long\<close>, the answers of the operating system (record \<open>os\<close>),
  \<^verbatim>\<open>inet_ntop\<close>, \<^verbatim>\<open>gettext\<close> (\<open>tr\<close>), the success of memory allocation, the
  answers of libcpuid and of the system calls of the daemon (record \<open>env\<close>), the functions that
  read the data of a tab (record \<open>services\<close>), and for the measurement of bandwidth the clock,
  \<^verbatim>\<open>rand\<close> and \<^verbatim>\<open>malloc\<close> (record \<open>bw_env\<close>), the registers of
  \<^verbatim>\<open>cpuid\<close> and the files of \<^verbatim>\<open>/sys\<close>. The assembly routines appear by name and
  argument in the log; of their code, the model has which addresses they access and whether they come back.

  \<^bold>\<open>Not modelled.\<close> The stand-alone program \<^verbatim>\<open>bandwidth\<close> around the tests, its object and
  graphics library, its tests for other architectures than x86-64, and the values its routines in assembly move; the user interfaces; the probes that copy what other libraries
  return; the set-up of the socket (\<^verbatim>\<open>client.cpp\<close>), and what happens to the server when the client goes
  away or to a write behind the end of the server; the log; the
  binding of threads to processors; the formatting of numbers in double precision; error
  texts of the operating system, which are a fixed text.
\<close>

section \<open>The whole table\<close>

text \<open>The initial state meets the memory invariant.\<close>

lemma start_state_ok: "mem_ok A M 0 0 (start_state M opt cpux)"
  by (simp add: mem_ok_def prod_ok_def start_state_def)

text \<open>C1: for every table, whatever its bytes, both passes of \<^verbatim>\<open>dmi_table_decode\<close> together cause
  no fault (undefined behaviour of the kinds that are logged) but what \<open>table_faults\<close> lists for the
  structures of the table, and change no byte but characters of strings, which become dots.\<close>

theorem dmi_table_decode_safe:
  assumes "unat len \<le> length M"
  shows "let s = snd (run_state (dmi_table_decode ext len num ver flags) (start_state M opt cpux)) in
    set (st_faults s) \<subseteq> table_faults M (unat len) num \<and> length (st_mem s) = length M
    \<and> (\<forall>i < length M. st_mem s ! i \<noteq> M ! i
         \<longrightarrow> i < unat len \<and> M ! i \<noteq> 0 \<and> st_mem s ! i = 46)"
proof -
  have "mem_ok (table_faults M (unat len) num) M 0 (unat len)
      (snd (run_state (dmi_table_decode ext len num ver flags) (start_state M opt cpux)))"
    using start_state_ok assms subset_refl by (rule dmi_table_decode_ok)
  then show ?thesis by (auto simp: mem_ok_def Let_def)
qed

theorem dmi_table_decode_safe_witness:
  "unat (19 :: u32) \<le> length small_table \<and>
   (let s = snd (run_state (dmi_table_decode plain_ext 19 2 0x0300 0) (start_state small_table plain_opt None)) in
    set (st_faults s) \<subseteq> table_faults small_table (unat (19 :: u32)) 2 \<and> length (st_mem s) = length small_table
    \<and> (\<forall>i < length small_table. st_mem s ! i \<noteq> small_table ! i
         \<longrightarrow> i < unat (19 :: u32) \<and> small_table ! i \<noteq> 0 \<and> st_mem s ! i = 46))"
proof
  show *: "unat (19 :: u32) \<le> length small_table" by (simp add: small_table_def)
  show "let s = snd (run_state (dmi_table_decode plain_ext 19 2 0x0300 0) (start_state small_table plain_opt None)) in
    set (st_faults s) \<subseteq> table_faults small_table (unat (19 :: u32)) 2 \<and> length (st_mem s) = length small_table
    \<and> (\<forall>i < length small_table. st_mem s ! i \<noteq> small_table ! i
         \<longrightarrow> i < unat (19 :: u32) \<and> small_table ! i \<noteq> 0 \<and> st_mem s ! i = 46)"
    using * by (rule dmi_table_decode_safe)
qed

end
